(* ===== verification/Go_Base.thy ===== *)
theory Go_Base
  imports Main "HOL-Library.Word"
begin

text \<open>
  The prelude: what every component of the repository uses of Go and of its standard library.
  Bytes and machine integers, big-endian codecs (\<^verbatim>\<open>encoding/binary\<close>), hexadecimal
  (\<^verbatim>\<open>encoding/hex\<close>), the string helpers (\<^verbatim>\<open>strings\<close>, \<^verbatim>\<open>strconv\<close>),
  error values with \<^verbatim>\<open>errors.Is\<close>, and a byte-stream connection with
  \<^verbatim>\<open>io.ReadFull\<close> and \<^verbatim>\<open>conn.Write\<close>.
  Go strings are byte sequences; the helpers that Go defines through Unicode tables
  (trimming, case folding) are given on ASCII text, which is all the program compares.
  The interface \<open>stream_codec\<close> states what a self-delimiting wire format promises, and
  is interpreted by every framing of the repository.
\<close>

unbundle bit_operations_syntax

named_theorems codec \<comment> \<open>round-trip equations of the wire codecs\<close>
named_theorems conn_simps \<comment> \<open>behaviour of reads and writes on a connection\<close>

section \<open>Machine integers and bytes\<close>

type_synonym byte = "8 word"
type_synonym u16 = "16 word"
type_synonym u32 = "32 word"
type_synonym u64 = "64 word"
type_synonym bytes = "byte list"

text \<open>\<^verbatim>\<open>binary.BigEndian.PutUint16/32/64\<close> and \<^verbatim>\<open>Uint16/32/64\<close>. Go's readers
  panic on a slice that is too short; every caller of the program reads from a buffer of the
  exact length, so the last equations are never used by the model.\<close>

definition be16 :: "u16 \<Rightarrow> bytes" where
  "be16 x = [ucast (drop_bit 8 x), ucast x]"

definition be32 :: "u32 \<Rightarrow> bytes" where
  "be32 x = [ucast (drop_bit 24 x), ucast (drop_bit 16 x), ucast (drop_bit 8 x), ucast x]"

definition be64 :: "u64 \<Rightarrow> bytes" where
  "be64 x = be32 (ucast (drop_bit 32 x)) @ be32 (ucast x)"

fun uint16 :: "bytes \<Rightarrow> u16" where
  "uint16 (a # b # _) = push_bit 8 (ucast a) OR ucast b"
| "uint16 _ = 0"

fun uint32 :: "bytes \<Rightarrow> u32" where
  "uint32 (a # b # c # d # _) =
     push_bit 24 (ucast a) OR push_bit 16 (ucast b) OR push_bit 8 (ucast c) OR ucast d"
| "uint32 _ = 0"

fun uint64 :: "bytes \<Rightarrow> u64" where
  "uint64 (a # b # c # d # r) = push_bit 32 (ucast (uint32 [a, b, c, d])) OR ucast (uint32 r)"
| "uint64 _ = 0"

lemma length_be [simp]: "length (be16 x) = 2" "length (be32 y) = 4" "length (be64 z) = 8"
  by (simp_all add: be16_def be32_def be64_def)

lemma uint16_be16 [simp, codec]: "uint16 (be16 x @ r) = x"
  by (rule bit_eqI) (auto simp: be16_def bit_simps)

lemma uint32_be32 [simp, codec]: "uint32 (be32 x @ r) = x"
proof (rule bit_eqI)
  fix n
  assume "possible_bit TYPE(u32) n"
  then consider "n < 8" | "8 \<le> n" "n < 16" | "16 \<le> n" "n < 24" | "24 \<le> n" "n < 32"
    by (simp; linarith)
  then show "bit (uint32 (be32 x @ r)) n = bit x n"
    by cases (auto simp: be32_def bit_simps)
qed

lemma uint64_append: "length a = 4 \<Longrightarrow>
    uint64 (a @ r) = push_bit 32 (ucast (uint32 a)) OR ucast (uint32 r)"
  by (auto simp: numeral_eq_Suc length_Suc_conv)

lemma uint64_be64 [simp, codec]: "uint64 (be64 x @ r) = x"
proof -
  have "uint64 (be64 x @ r) =
      push_bit 32 (ucast (ucast (drop_bit 32 x) :: u32)) OR ucast (ucast x :: u32)"
    using uint32_be32 [of "ucast (drop_bit 32 x)" "[]"]
    by (simp add: be64_def uint64_append)
  also have "\<dots> = x"
    by (rule bit_eqI) (auto simp: bit_simps)
  finally show ?thesis .
qed

lemmas uint_be_exact [simp, codec] =
  uint16_be16 [where r = "[]", simplified]
  uint32_be32 [where r = "[]", simplified]
  uint64_be64 [where r = "[]", simplified]

lemma byte_bit_high [simp]: "\<not> bit (b :: byte) (8 + n)"
  using bit_imp_le_length [of b "8 + n"] by auto

lemma be16_uint16 [codec]: "be16 (uint16 (a # b # r)) = [a, b]"
  by (auto simp: be16_def bit_simps intro!: bit_eqI)

lemma be16_length:
  assumes "length p = 2"
  shows "be16 (of_nat (unat (uint16 p))) = p"
proof -
  from assms obtain a b where "p = [a, b]"
    by (auto simp: numeral_2_eq_2 length_Suc_conv)
  then show ?thesis by (simp only: of_nat_unat ucast_id be16_uint16)
qed

lemma be16_inject [simp]: "be16 x = be16 y \<longleftrightarrow> x = y"
  by (metis uint_be_exact(1))

lemma bit_high:
  "8 \<le> n \<Longrightarrow> \<not> bit (b :: byte) n" "32 \<le> n \<Longrightarrow> \<not> bit (x :: u32) n"
  using bit_imp_le_length [of b n] bit_imp_le_length [of x n] by auto

lemma be32_uint32 [codec]: "be32 (uint32 [a, b, c, d]) = [a, b, c, d]"
  by (auto simp: be32_def bit_simps bit_high intro!: bit_eqI)

lemma be64_uint64:
  assumes "length p = 8"
  shows "be64 (uint64 p) = p"
proof -
  from assms obtain a b c d e f g h where p: "p = [a, b, c, d] @ [e, f, g, h]"
    by (auto simp: numeral_eq_Suc length_Suc_conv)
  let ?x = "uint32 [a, b, c, d]" and ?y = "uint32 [e, f, g, h]"
  have "ucast (drop_bit 32 (push_bit 32 (ucast ?x) OR ucast ?y :: u64)) = ?x"
    "ucast (push_bit 32 (ucast ?x) OR ucast ?y :: u64) = ?y"
    by (auto simp del: uint32.simps simp: bit_simps bit_high intro!: bit_eqI)
  moreover have "uint64 p = push_bit 32 (ucast ?x) OR ucast ?y"
    unfolding p by (rule uint64_append) simp
  ultimately have "be64 (uint64 p) = be32 ?x @ be32 ?y" by (simp only: be64_def)
  then show ?thesis by (simp only: be32_uint32 p)
qed
lemma of_nat_u64_zero: "n < 2 ^ 64 \<Longrightarrow> (of_nat n :: u64) = 0 \<longleftrightarrow> n = 0"
proof
  assume "n < 2 ^ 64" "(of_nat n :: u64) = 0"
  then have "unat (of_nat n :: u64) = 0" by simp
  with \<open>n < 2 ^ 64\<close> show "n = 0" by (simp add: unat_of_nat)
qed simp

text \<open>Single bits of a byte, and the flag arithmetic of the frame headers.\<close>

lemma be16_of_nat: "be16 (of_nat n) = [of_nat (n div 256), of_nat n]"
proof -
  have "n div 256 = drop_bit 8 n" by (simp add: drop_bit_eq_div)
  then show ?thesis
    by (auto simp: be16_def bit_simps add.commute intro!: bit_eqI)
qed
lemma byte_eqI:
  fixes x y :: byte
  assumes "bit x 0 = bit y 0" "bit x 1 = bit y 1" "bit x 2 = bit y 2" "bit x 3 = bit y 3"
    "bit x 4 = bit y 4" "bit x 5 = bit y 5" "bit x 6 = bit y 6" "bit x 7 = bit y 7"
  shows "x = y"
proof (rule bit_word_eqI)
  fix n :: nat
  assume "n < LENGTH(8)"
  then have "n = 0 \<or> n = 1 \<or> n = 2 \<or> n = 3 \<or> n = 4 \<or> n = 5 \<or> n = 6 \<or> n = 7" by simp linarith
  with assms show "bit x n = bit y n" by auto
qed

lemma small_byte_bits:
  fixes x :: byte
  assumes "unat x < 2 ^ k" "k \<le> j"
  shows "\<not> bit x j"
proof -
  have "(2 :: nat) ^ k \<le> 2 ^ j" using assms(2) by simp
  then have "unat x div 2 ^ j = 0"
    using assms(1) by (metis div_less less_le_trans)
  then have "\<not> bit (unat x) j" by (simp add: bit_iff_odd)
  then show ?thesis by (simp add: bit_unsigned_iff)
qed

lemma len_bits:
  fixes x :: byte
  assumes "unat x < 128"
  shows "(0x80 OR x) AND 0x80 \<noteq> 0" "(0x80 OR x) AND 0x7f = x" "x AND 0x80 = 0" "x AND 0x7f = x"
proof -
  have "unat x < 2 ^ 7" using assms by simp
  note b = small_byte_bits [OF this]
  have "bit ((0x80 OR x) AND 0x80) 7" by (simp add: bit_simps)
  then show "(0x80 OR x) AND 0x80 \<noteq> 0" by auto
  show "(0x80 OR x) AND 0x7f = x" "x AND 0x80 = 0" "x AND 0x7f = x"
    by (rule byte_eqI; simp add: bit_simps b)+
qed

lemma op_bits:
  fixes x :: byte
  assumes "x < 16"
  shows "(0x80 OR x) AND 0x80 \<noteq> 0" "(0x80 OR x) AND 0x70 = 0" "(0x80 OR x) AND 0x0f = x"
proof -
  have "unat x < 2 ^ 4" using assms by (simp add: word_less_nat_alt)
  note b = small_byte_bits [OF this]
  have "bit ((0x80 OR x) AND 0x80) 7" by (simp add: bit_simps)
  then show "(0x80 OR x) AND 0x80 \<noteq> 0" by auto
  show "(0x80 OR x) AND 0x70 = 0" "(0x80 OR x) AND 0x0f = x"
    by (rule byte_eqI; simp add: bit_simps b)+
qed

section \<open>Text\<close>

text \<open>\<^verbatim>\<open>[]byte(s)\<close> and \<^verbatim>\<open>string(b)\<close>.\<close>

definition of_string :: "string \<Rightarrow> bytes" where
  "of_string s = map of_char s"

definition to_string :: "bytes \<Rightarrow> string" where
  "to_string b = map (\<lambda>x. char_of (unat x)) b"

lemma length_of_string [simp]: "length (of_string s) = length s"
  by (simp add: of_string_def)

lemma length_to_string [simp]: "length (to_string b) = length b"
  by (simp add: to_string_def)

lemma of_string_append [simp]: "of_string (s @ t) = of_string s @ of_string t"
  by (simp add: of_string_def)

lemma unat_of_char [simp]: "unat (of_char c :: byte) = of_char c"
proof -
  have "unat (of_char c :: byte) = unat (of_nat (of_char c) :: byte)"
    by (simp add: of_nat_of_char)
  also have "\<dots> = of_char c"
    by (simp add: unat_of_nat)
  finally show ?thesis .
qed

lemma to_of_string [simp, codec]: "to_string (of_string s) = s"
  by (simp add: to_string_def of_string_def comp_def)

lemma of_string_inject [simp]: "of_string s = of_string t \<longleftrightarrow> s = t"
  by (metis to_of_string)

lemma of_to_string [simp, codec]: "of_string (to_string b) = b"
proof -
  have "(of_char (char_of (unat x) :: char) :: byte) = x" for x :: byte
  proof -
    have "unat x < 256" using unsigned_less [of x] by simp
    then have "unat (of_char (char_of (unat x) :: char) :: byte) = unat x" by simp
    then show ?thesis by (simp only: unsigned_word_eqI)
  qed
  then show ?thesis by (simp add: to_string_def of_string_def comp_def)
qed

lemma to_string_eq_iff: "to_string b = s \<longleftrightarrow> b = of_string s"
  by (metis of_to_string to_of_string)

text \<open>\<^verbatim>\<open>hex.EncodeToString\<close> (and \<^verbatim>\<open>%x\<close>) and \<^verbatim>\<open>hex.DecodeString\<close>:
  lower-case digits out, either case in, an odd length or a foreign character is an error.\<close>

definition hexDigit :: "nat \<Rightarrow> char" where
  "hexDigit n = char_of (if n < 10 then 48 + n else 87 + n)"

definition hexEncode :: "bytes \<Rightarrow> string" where
  "hexEncode bs = concat (map (\<lambda>b. [hexDigit (unat b div 16), hexDigit (unat b mod 16)]) bs)"

definition hexVal :: "char \<Rightarrow> nat option" where
  "hexVal c =
     (if 48 \<le> (of_char c :: nat) \<and> (of_char c :: nat) \<le> 57 then Some (of_char c - 48)
      else if 97 \<le> (of_char c :: nat) \<and> (of_char c :: nat) \<le> 102 then Some (of_char c - 87)
      else if 65 \<le> (of_char c :: nat) \<and> (of_char c :: nat) \<le> 70 then Some (of_char c - 55)
      else None)"

fun hexDecode :: "string \<Rightarrow> bytes option" where
  "hexDecode [] = Some []"
| "hexDecode [_] = None"
| "hexDecode (c # d # r) =
     (case (hexVal c, hexVal d) of
        (Some h, Some l) \<Rightarrow> map_option ((#) (of_nat (16 * h + l))) (hexDecode r)
      | _ \<Rightarrow> None)"

lemma hexVal_hexDigit [simp]: "n < 16 \<Longrightarrow> hexVal (hexDigit n) = Some n"
  by (auto simp: hexVal_def hexDigit_def take_bit_eq_mod)

text \<open>Text of hexadecimal digits of even length decodes.\<close>

definition hexOk :: "string \<Rightarrow> bool" where
  "hexOk s \<longleftrightarrow> even (length s) \<and> list_all (\<lambda>c. hexVal c \<noteq> None) s"

lemma hexDecode_ok:
  "hexOk s \<Longrightarrow> \<exists>b. hexDecode s = Some b \<and> length b = length s div 2"
proof (induction s rule: hexDecode.induct)
  case (3 c d r)
  then obtain h l b where "hexVal c = Some h" "hexVal d = Some l" "hexDecode r = Some b"
      "length b = length r div 2"
    by (force simp: hexOk_def)
  then show ?case by simp
qed (simp_all add: hexOk_def)

lemma hexDecode_hexEncode [codec]: "hexDecode (hexEncode bs) = Some bs"
proof (induction bs)
  case Nil
  show ?case by (simp add: hexEncode_def)
next
  case (Cons b bs)
  have "unat b < 2 ^ LENGTH(8)"
    by (rule unsigned_less)
  then have "unat b div 16 < 16" by simp
  moreover have "of_nat (16 * (unat b div 16) + unat b mod 16) = b"
    by (simp only: mult_div_mod_eq of_nat_unat ucast_id)
  ultimately show ?case
    using Cons.IH by (simp add: hexEncode_def)
qed

section \<open>Strings\<close>

definition isSpace :: "char \<Rightarrow> bool" where
  "isSpace c \<longleftrightarrow> (of_char c :: nat) = 32 \<or> 9 \<le> (of_char c :: nat) \<and> (of_char c :: nat) \<le> 13"

definition trimSpace :: "string \<Rightarrow> string" where
  "trimSpace s = rev (dropWhile isSpace (rev (dropWhile isSpace s)))"

definition lowerChar :: "char \<Rightarrow> char" where
  "lowerChar c =
     (if 65 \<le> (of_char c :: nat) \<and> (of_char c :: nat) \<le> 90 then char_of (of_char c + 32 :: nat) else c)"

definition toLower :: "string \<Rightarrow> string" where
  "toLower s = map lowerChar s"

definition equalFold :: "string \<Rightarrow> string \<Rightarrow> bool" where
  "equalFold s t \<longleftrightarrow> toLower s = toLower t"

definition hasPrefix :: "string \<Rightarrow> string \<Rightarrow> bool" where
  "hasPrefix s p \<longleftrightarrow> take (length p) s = p"

fun splitOn :: "char \<Rightarrow> string \<Rightarrow> string list" where
  "splitOn sep [] = [[]]"
| "splitOn sep (c # cs) =
     (if c = sep then [] # splitOn sep cs
      else (case splitOn sep cs of [] \<Rightarrow> [[c]] | w # ws \<Rightarrow> (c # w) # ws))"

fun joinWith :: "string \<Rightarrow> string list \<Rightarrow> string" where
  "joinWith sep [] = []"
| "joinWith sep [w] = w"
| "joinWith sep (w # ws) = w @ sep @ joinWith sep ws"

lemma equalFold_refl [simp]: "equalFold s s"
  by (simp add: equalFold_def)

text \<open>\<^verbatim>\<open>strconv.Atoi\<close>: the value and the error it returns. Digits are read left to right
  into a 64-bit unsigned accumulator, so an overflow is reported before a later foreign
  character; a range error carries the clamped value.\<close>

datatype num_error = ErrSyntax | ErrRange

fun parseUint :: "nat \<Rightarrow> string \<Rightarrow> nat \<times> num_error option" where
  "parseUint n [] = (n, None)"
| "parseUint n (c # cs) =
     (if \<not> (48 \<le> (of_char c :: nat) \<and> (of_char c :: nat) \<le> 57) then (0, Some ErrSyntax)
      else if 10 * n + (of_char c - 48) \<ge> 2 ^ 64 then (2 ^ 64 - 1, Some ErrRange)
      else parseUint (10 * n + (of_char c - 48)) cs)"

definition parseSigned :: "bool \<Rightarrow> string \<Rightarrow> int \<times> num_error option" where
  "parseSigned neg ds =
     (if ds = [] then (0, Some ErrSyntax)
      else (case parseUint 0 ds of (un, e) \<Rightarrow>
        if e = Some ErrSyntax then (0, e)
        else if \<not> neg \<and> un \<ge> 2 ^ 63 then (2 ^ 63 - 1, Some ErrRange)
        else if neg \<and> un > 2 ^ 63 then (- (2 ^ 63), Some ErrRange)
        else (if neg then - int un else int un, None)))"

definition atoi :: "string \<Rightarrow> int \<times> num_error option" where
  "atoi s =
     (case s of
        [] \<Rightarrow> (0, Some ErrSyntax)
      | c # cs \<Rightarrow>
          if c = CHR ''-'' then parseSigned True cs
          else if c = CHR ''+'' then parseSigned False cs
          else parseSigned False s)"

section \<open>Errors\<close>

text \<open>Error values. \<open>Errorf s\<close> is \<^verbatim>\<open>errors.New(s)\<close> or a formatted error without
  \<^verbatim>\<open>%w\<close>; \<open>Wrapf s e\<close> is \<^verbatim>\<open>fmt.Errorf("s: %w", e)\<close>; \<open>Malformed s\<close> is the DNS
  executors' \<^verbatim>\<open>malformedError\<close>; \<open>NetError\<close> any other failure of a socket call.\<close>

datatype go_error =
    EOF | UnexpectedEOF | ErrClosed | TimeoutError | ErrShortWrite
  | NetError string | Errorf string | Malformed string | Wrapf string go_error

fun errorsIs :: "go_error \<Rightarrow> go_error \<Rightarrow> bool" where
  "errorsIs (Wrapf s e) t \<longleftrightarrow> Wrapf s e = t \<or> errorsIs e t"
| "errorsIs e t \<longleftrightarrow> e = t"

text \<open>\<^verbatim>\<open>errors.As(err, &netErr) && netErr.Timeout()\<close>.\<close>

fun isTimeout :: "go_error \<Rightarrow> bool" where
  "isTimeout TimeoutError = True"
| "isTimeout (Wrapf _ e) = isTimeout e"
| "isTimeout _ = False"

fun asMalformed :: "go_error \<Rightarrow> bool" where
  "asMalformed (Malformed _) = True"
| "asMalformed (Wrapf _ e) = asMalformed e"
| "asMalformed _ = False"

text \<open>\<^verbatim>\<open>%q\<close> of a text without characters that need escaping.\<close>

definition quoted :: "string \<Rightarrow> string" where
  "quoted s = CHR 0x22 # s @ [CHR 0x22]"

text \<open>\<^verbatim>\<open>%d\<close> of a count, and \<^verbatim>\<open>err.Error()\<close>.\<close>

fun itoa :: "nat \<Rightarrow> string" where
  "itoa n = (if n < 10 then [char_of (48 + n)] else itoa (n div 10) @ [char_of (48 + n mod 10)])"

declare itoa.simps [simp del]

fun errorText :: "go_error \<Rightarrow> string" where
  "errorText EOF = ''EOF''"
| "errorText UnexpectedEOF = ''unexpected EOF''"
| "errorText ErrClosed = ''use of closed network connection''"
| "errorText TimeoutError = ''i/o timeout''"
| "errorText ErrShortWrite = ''short write''"
| "errorText (NetError s) = s"
| "errorText (Errorf s) = s"
| "errorText (Malformed s) = s"
| "errorText (Wrapf s e) = s @ '': '' @ errorText e"

type_synonym 'a go = "go_error + 'a"

text \<open>\<^verbatim>\<open>os.Getenv\<close>: the empty string for a variable that is not set.\<close>

type_synonym env = "string \<Rightarrow> string"

section \<open>Connections\<close>

text \<open>
  A connection as the code sees it: the bytes the peer delivers (\<open>conn_in\<close>), what a read
  reports once they are used up (\<open>conn_end\<close>: \<open>EOF\<close> after an orderly close, a timeout
  at the deadline, a socket error), and the successful writes so far, oldest first
  (\<open>conn_out\<close>). \<open>conn_cap\<close> says after how many successful writes the next one fails,
  and with which error; \<open>None\<close> is a connection whose writes all succeed.
\<close>

record conn =
  conn_in :: bytes
  conn_end :: go_error
  conn_out :: "bytes list"
  conn_cap :: "(nat \<times> go_error) option"

text \<open>\<^verbatim>\<open>io.ReadFull\<close> on a buffer of \<open>n\<close> bytes: an end of file after some bytes is
  \<^verbatim>\<open>io.ErrUnexpectedEOF\<close>, before any byte it is \<^verbatim>\<open>io.EOF\<close>; any other error is passed
  on, and the bytes read so far are lost to the caller.\<close>

definition readFull :: "nat \<Rightarrow> conn \<Rightarrow> bytes go \<times> conn" where
  "readFull n c =
     (if n \<le> length (conn_in c) then (Inr (take n (conn_in c)), c\<lparr>conn_in := drop n (conn_in c)\<rparr>)
      else (Inl (if conn_in c \<noteq> [] \<and> conn_end c = EOF then UnexpectedEOF else conn_end c),
            c\<lparr>conn_in := []\<rparr>))"

definition connWrite :: "bytes \<Rightarrow> conn \<Rightarrow> go_error option \<times> conn" where
  "connWrite bs c =
     (case conn_cap c of
        None \<Rightarrow> (None, c\<lparr>conn_out := conn_out c @ [bs]\<rparr>)
      | Some (0, e) \<Rightarrow> (Some e, c)
      | Some (Suc n, e) \<Rightarrow> (None, c\<lparr>conn_out := conn_out c @ [bs], conn_cap := Some (n, e)\<rparr>))"

text \<open>\<^verbatim>\<open>io.ReadAll(io.LimitReader(stream, n))\<close>: the limit ends the stream without an error.\<close>

definition readAllLimited :: "nat \<Rightarrow> conn \<Rightarrow> bytes go \<times> conn" where
  "readAllLimited n c =
     (if n \<le> length (conn_in c) then (Inr (take n (conn_in c)), c\<lparr>conn_in := drop n (conn_in c)\<rparr>)
      else if conn_end c = EOF then (Inr (conn_in c), c\<lparr>conn_in := []\<rparr>)
      else (Inl (conn_end c), c\<lparr>conn_in := []\<rparr>))"

lemma readFull_append:
  "conn_in c = a @ r \<Longrightarrow> length a = n \<Longrightarrow> readFull n c = (Inr a, c\<lparr>conn_in := r\<rparr>)"
  by (simp add: readFull_def)

lemma readFull_upd [conn_simps]:
  "length a = n \<Longrightarrow> readFull n (c\<lparr>conn_in := a @ r\<rparr>) = (Inr a, c\<lparr>conn_in := r\<rparr>)"
  by (simp add: readFull_def)

lemma readFull_empty:
  "conn_in c = [] \<Longrightarrow> 0 < n \<Longrightarrow> readFull n c = (Inl (conn_end c), c)"
  by (simp add: readFull_def)

lemma readFull_Inr:
  "readFull n c = (Inr bs, c') \<longleftrightarrow>
     length bs = n \<and> (\<exists>r. conn_in c = bs @ r \<and> c' = c\<lparr>conn_in := r\<rparr>)"
  (is "?L \<longleftrightarrow> ?R")
proof
  assume ?L
  then have "n \<le> length (conn_in c)" "bs = take n (conn_in c)"
      "c' = c\<lparr>conn_in := drop n (conn_in c)\<rparr>"
    by (simp_all add: readFull_def split: if_splits)
  then show ?R by (metis append_take_drop_id length_take min.absorb2)
next
  assume ?R
  then show ?L by (auto simp: readFull_def)
qed

lemma readFull_frame:
  assumes "readFull n c = (r, c')"
  shows "conn_end c' = conn_end c" "conn_out c' = conn_out c" "conn_cap c' = conn_cap c"
  using assms by (auto simp: readFull_def split: if_splits)

lemma readFull_decreases:
  "readFull n c = (Inr bs, c') \<Longrightarrow> length (conn_in c) = n + length (conn_in c')"
  by (auto simp: readFull_Inr)

text \<open>The two facts a loop over a connection terminates by.\<close>

lemma readFull_shrinks:
  "(Inr bs, c') = readFull n c \<Longrightarrow> length (conn_in c) = n + length (conn_in c')"
  by (rule readFull_decreases [OF sym])

lemma connWrite_keeps: "(r, c') = connWrite bs c \<Longrightarrow> conn_in c' = conn_in c"
  by (auto simp: connWrite_def split: option.splits prod.splits nat.splits)

lemma connWrite_ok [conn_simps]:
  "conn_cap c = None \<Longrightarrow> connWrite bs c = (None, c\<lparr>conn_out := conn_out c @ [bs]\<rparr>)"
  by (simp add: connWrite_def)

lemma connWrite_frame:
  assumes "connWrite bs c = (r, c')"
  shows "conn_in c' = conn_in c" "conn_end c' = conn_end c"
  using assms by (auto simp: connWrite_def split: option.splits prod.splits nat.splits)

lemma connWrite_out:
  "connWrite bs c = (None, c') \<Longrightarrow>
     conn_in c' = conn_in c \<and> conn_end c' = conn_end c \<and> conn_out c' = conn_out c @ [bs]"
  "connWrite bs c = (Some e, c') \<Longrightarrow> c' = c"
  by (auto simp: connWrite_def split: option.splits prod.splits nat.splits)

section \<open>The contract of a self-delimiting wire format\<close>

text \<open>
  What a reader promises about the frames its peer writes: one encoded value in front of
  anything else decodes to that value and leaves exactly the rest. Everything a stream
  of frames needs follows once: the encoding is prefix-free, a concatenation of frames
  decodes to the sequence that was written, and two sequences never share a wire image.
\<close>

fun readMany :: "(conn \<Rightarrow> 'a go \<times> conn) \<Rightarrow> nat \<Rightarrow> conn \<Rightarrow> 'a list go \<times> conn" where
  "readMany rd 0 c = (Inr [], c)"
| "readMany rd (Suc n) c =
     (case rd c of
        (Inl e, c') \<Rightarrow> (Inl e, c')
      | (Inr x, c') \<Rightarrow> (case readMany rd n c' of
            (Inl e, c'') \<Rightarrow> (Inl e, c'')
          | (Inr xs, c'') \<Rightarrow> (Inr (x # xs), c'')))"

locale stream_codec =
  fixes enc :: "'a \<Rightarrow> bytes"
    and dec :: "conn \<Rightarrow> 'a go \<times> conn"
    and ok :: "'a \<Rightarrow> bool"
  assumes dec_enc: "ok x \<Longrightarrow> conn_in c = enc x @ r \<Longrightarrow> dec c = (Inr x, c\<lparr>conn_in := r\<rparr>)"
begin

lemma prefix_free:
  assumes "ok x" "ok y" "enc x @ r = enc y @ s"
  shows "x = y \<and> r = s"
proof -
  let ?c = "\<lparr>conn_in = enc x @ r, conn_end = EOF, conn_out = [], conn_cap = None\<rparr>"
  have "dec ?c = (Inr x, ?c\<lparr>conn_in := r\<rparr>)"
    using assms(1) by (rule dec_enc) simp
  moreover have "dec ?c = (Inr y, ?c\<lparr>conn_in := s\<rparr>)"
    using assms(2) by (rule dec_enc) (simp add: assms(3))
  ultimately show ?thesis by (simp add: conn.ext_inject)
qed

lemma readMany_concat:
  assumes "list_all ok xs" "conn_in c = concat (map enc xs) @ r"
  shows "readMany dec (length xs) c = (Inr xs, c\<lparr>conn_in := r\<rparr>)"
  using assms
proof (induction xs arbitrary: c)
  case Nil
  then show ?case by simp
next
  case (Cons x xs)
  then have "dec c = (Inr x, c\<lparr>conn_in := concat (map enc xs) @ r\<rparr>)"
    by (intro dec_enc) simp_all
  with Cons show ?case by simp
qed

lemma concat_inj:
  assumes "list_all ok xs" "list_all ok ys" "length xs = length ys"
    and "concat (map enc xs) @ r = concat (map enc ys) @ s"
  shows "xs = ys \<and> r = s"
  using assms(3,1,2,4)
proof (induction xs ys rule: list_induct2)
  case (Cons x xs y ys)
  then have "x = y \<and> concat (map enc xs) @ r = concat (map enc ys) @ s"
    by (intro prefix_free) simp_all
  with Cons show ?case by simp
qed simp

end

end
