(* ===== verification/Dns_Authority.thy ===== *)
theory Dns_Authority
  imports Go_Sha256
begin

text \<open>
  The classic DNS authority of \<^verbatim>\<open>implementations/go-dns-classic-authority/source/main.go\<close>:
  one process that answers the package fixtures over UDP and over TCP. It knows the queries
  by their SHA-256 digest only and answers from fixed templates, copying the message ID.
  \<open>responseFor\<close> is the query function, \<open>handleTCP\<close> the loop of one TCP connection
  and \<open>serveUDP\<close> the datagram loop, both driven by what the socket delivers.
\<close>

section \<open>Fixtures\<close>

definition mustHex :: "string \<Rightarrow> bytes" where
  \<comment> \<open>an undecodable constant panics while the package is initialised\<close>
  "mustHex v = (case hexDecode v of Some b \<Rightarrow> b | None \<Rightarrow> [])"

definition hash :: "bytes \<Rightarrow> string" where
  "hash value = sha256Hex value"

definition aQueryHash :: string where
  "aQueryHash = ''c46b9fb76019b5a644d0884b17e816cb7c3076275d9468c27d180f70488eb8ec''"

definition largeQueryHash :: string where
  "largeQueryHash = ''7445dfa148164c2ee02186b962f735847e9d62f46414287ebf5cf6a3dfce9e4f''"

definition aResponse :: bytes where
  "aResponse = mustHex (''00008400000100010000000004706c616204746573740000010001c00c00010001000000000004c0'' @
     ''000201'')"

definition truncatedResponse :: bytes where
  "truncatedResponse = mustHex (''00008600000100000000000106646e736b657904706c616204746573740000300001000029020000'' @
     ''0080000000'')"

definition largeResponse :: bytes where
  "largeResponse = mustHex
    (''00008400000100070000000106646e736b657904706c616204746573740000300001c00c00300001'' @
     ''0000000000440101030d010101010101010101010101010101010101010101010101010101010101'' @
     ''01010101010101010101010101010101010101010101010101010101010101010101c00c00300001'' @
     ''0000000000440101030d020202020202020202020202020202020202020202020202020202020202'' @
     ''02020202020202020202020202020202020202020202020202020202020202020202c00c00300001'' @
     ''0000000000440101030d030303030303030303030303030303030303030303030303030303030303'' @
     ''03030303030303030303030303030303030303030303030303030303030303030303c00c00300001'' @
     ''0000000000440101030d040404040404040404040404040404040404040404040404040404040404'' @
     ''04040404040404040404040404040404040404040404040404040404040404040404c00c00300001'' @
     ''0000000000440101030d050505050505050505050505050505050505050505050505050505050505'' @
     ''05050505050505050505050505050505050505050505050505050505050505050505c00c00300001'' @
     ''0000000000440101030d060606060606060606060606060606060606060606060606060606060606'' @
     ''06060606060606060606060606060606060606060606060606060606060606060606c00c002e0001'' @
     ''00000000005d00300d030000000077359400713fb300303904706c6162047465737400a5a5a5a5a5'' @
     ''a5a5a5a5a5a5a5a5a5a5a5a5a5a5a5a5a5a5a5a5a5a5a5a5a5a5a5a5a5a5a5a5a5a5a5a5a5a5a5a5'' @
     ''a5a5a5a5a5a5a5a5a5a5a5a5a5a5a5a5a5a5a50000290200000080000000'')"

section \<open>The listen address\<close>

text \<open>The UDP and TCP listeners share one address; a port that is not a number ends the
  process (\<^verbatim>\<open>fatal\<close>).\<close>

definition defaultListen :: "env \<Rightarrow> string go" where
  "defaultListen getenv =
     (let trimmed = trimSpace (getenv ''PLAB_DNS_CLASSIC_PORT'');
          port = (if trimmed = '''' then ''15353'' else trimmed)
      in case atoi port of
           (_, Some e) \<Rightarrow> Inl (Errorf ''strconv.Atoi: parsing port'')
         | (_, None) \<Rightarrow> Inr (''127.0.0.1:'' @ port))"

section \<open>Answering one query\<close>

text \<open>\<^verbatim>\<open>binary.BigEndian.PutUint16(b[:2], id)\<close> on a copy of a message of at least two
  bytes, which every message here is.\<close>

definition putID :: "bytes \<Rightarrow> u16 \<Rightarrow> bytes" where
  "putID m mid = be16 mid @ drop 2 m"

definition responseFor :: "bytes \<Rightarrow> bool \<Rightarrow> bytes go" where
  "responseFor query udp =
     (if length query < 12 then Inl (Errorf ''short DNS message'')
      else if uint16 query = 0 then Inl (Errorf ''zero runtime message ID'')
      else if hash (putID query 0) = aQueryHash then Inr (putID aResponse (uint16 query))
      else if hash (putID query 0) = largeQueryHash then
        Inr (putID (if udp then truncatedResponse else largeResponse) (uint16 query))
      else Inl (Errorf ''query outside package fixtures''))"

definition frame :: "bytes \<Rightarrow> bytes" where
  "frame message = be16 (of_nat (length message)) @ message"

section \<open>The TCP connection loop\<close>

datatype authority_log =
    PrefixReadFailed go_error | LengthRejected nat | QueryRejected go_error
  | UdpReadFailed go_error | UdpResponseFailed go_error

text \<open>The deferred close happens on every return; the 30 second deadline is the timeout a
  connection may end with.\<close>

definition tcpRound :: "conn \<Rightarrow> authority_log list \<times> conn + conn" where
  \<comment> \<open>the body of the loop: \<open>Inl\<close> returns, \<open>Inr\<close> goes round again\<close>
  "tcpRound c =
     (case readFull 2 c of
        (Inl e, c1) \<Rightarrow> Inl (if errorsIs e EOF then [] else [PrefixReadFailed e], c1)
      | (Inr prefix, c1) \<Rightarrow>
          if unat (uint16 prefix) \<noteq> 27 \<and> unat (uint16 prefix) \<noteq> 45
          then Inl ([LengthRejected (unat (uint16 prefix))], c1)
          else (case readFull (unat (uint16 prefix)) c1 of
             (Inl e, c2) \<Rightarrow> Inl ([], c2)
           | (Inr query, c2) \<Rightarrow> (case responseFor query False of
                Inl e \<Rightarrow> Inl ([QueryRejected e], c2)
              | Inr response \<Rightarrow> (case connWrite (frame response) c2 of
                   (Some e, c3) \<Rightarrow> Inl ([], c3)
                 | (None, c3) \<Rightarrow> Inr c3))))"

lemma tcpRound_shrinks: "tcpRound c = Inr c' \<Longrightarrow> length (conn_in c') < length (conn_in c)"
  by (auto simp: tcpRound_def split: prod.splits sum.splits option.splits if_splits
      dest!: readFull_decreases connWrite_frame(1))

function handleTCP :: "conn \<Rightarrow> authority_log list \<times> conn" where
  "handleTCP c = (case tcpRound c of Inl r \<Rightarrow> r | Inr c' \<Rightarrow> handleTCP c')"
  by pat_completeness auto
termination
  by (relation "measure (\<lambda>c. length (conn_in c))") (auto intro: tcpRound_shrinks)

declare handleTCP.simps [simp del]

section \<open>The UDP loop\<close>

text \<open>What one round of \<^verbatim>\<open>serveUDP\<close> sees: a datagram from a peer and whether the reply
  could be sent, or a read error with the state of the context at that moment.\<close>

datatype 'addr udp_event =
    Datagram 'addr bytes "go_error option"
  | ReadError go_error bool

fun serveUDP :: "'addr udp_event list \<Rightarrow> ('addr \<times> bytes) list \<times> authority_log list" where
  "serveUDP [] = ([], [])"
| "serveUDP (ReadError e cancelled # es) =
     (if cancelled \<or> errorsIs e ErrClosed then ([], [])
      else (case serveUDP es of (out, log) \<Rightarrow>
        (out, if e = TimeoutError then log else UdpReadFailed e # log)))"
| "serveUDP (Datagram remote query werr # es) =
     (case serveUDP es of (out, log) \<Rightarrow>
       (case responseFor query True of
          Inl e \<Rightarrow> (out, QueryRejected e # log)
        | Inr response \<Rightarrow> (case werr of
             Some e \<Rightarrow> (out, UdpResponseFailed e # log)
           | None \<Rightarrow> ((remote, response) # out, log))))"

section \<open>Facts about the fixtures\<close>

lemma authority_mustHex: "hexOk v \<Longrightarrow> hexDecode v = Some (mustHex v) \<and> length (mustHex v) = length v div 2"
  using hexDecode_ok [of v] by (auto simp: mustHex_def)

lemma authority_length [simp]:
  "length aResponse = 43" "length truncatedResponse = 45" "length largeResponse = 630"
  by (simp_all add: aResponse_def truncatedResponse_def largeResponse_def
      authority_mustHex hexOk_def hexVal_def)

lemma length_putID [simp]: "2 \<le> length m \<Longrightarrow> length (putID m mid) = length m"
  by (simp add: putID_def)

lemma uint16_putID [simp]: "uint16 (putID m mid) = mid"
  by (simp add: putID_def)

lemma putID_putID [simp]: "putID (putID m i) j = putID m j"
  by (simp add: putID_def)

section \<open>Answers\<close>

text \<open>The template an accepted query is answered from.\<close>

definition templateFor :: "bytes \<Rightarrow> bool \<Rightarrow> bytes" where
  "templateFor query udp =
     (if hash (putID query 0) = aQueryHash then aResponse
      else if udp then truncatedResponse else largeResponse)"

definition accepted :: "bytes \<Rightarrow> bool" where
  "accepted query \<longleftrightarrow> 12 \<le> length query \<and> uint16 query \<noteq> 0 \<and>
     (hash (putID query 0) = aQueryHash \<or> hash (putID query 0) = largeQueryHash)"

lemma responseFor_accepted:
  "accepted query \<Longrightarrow> responseFor query udp = Inr (putID (templateFor query udp) (uint16 query))"
  by (auto simp: responseFor_def accepted_def templateFor_def)

lemma responseFor_rejected: "\<not> accepted query \<Longrightarrow> \<exists>e. responseFor query udp = Inl (Errorf e)"
  by (auto simp: responseFor_def accepted_def)

lemma responseFor_Inr:
  "responseFor query udp = Inr response \<longleftrightarrow>
     accepted query \<and> response = putID (templateFor query udp) (uint16 query)"
  using responseFor_accepted [of query udp] responseFor_rejected [of query udp]
  by (cases "accepted query") auto

lemma template_length:
  "length (templateFor q udp) \<in> (if udp then {43, 45} else {43, 630})"
  by (simp add: templateFor_def)

lemma answer_length [simp]: "length (putID (templateFor q udp) mid) = length (templateFor q udp)"
  using template_length [of q udp] by (intro length_putID) (auto split: if_splits)

text \<open>The framing of a message shorter than 64 KiB, as the peer reads it back.\<close>

definition readMessage :: "conn \<Rightarrow> bytes go \<times> conn" where
  "readMessage c =
     (case readFull 2 c of
        (Inl e, c1) \<Rightarrow> (Inl e, c1)
      | (Inr prefix, c1) \<Rightarrow> readFull (unat (uint16 prefix)) c1)"

lemma unat_u16 [simp]: "n < 65536 \<Longrightarrow> unat (of_nat n :: u16) = n"
  by (simp add: unat_of_nat)

lemma readFull_prefix:
  "conn_in c = frame m @ r \<Longrightarrow>
   readFull 2 c = (Inr (be16 (of_nat (length m))), c\<lparr>conn_in := m @ r\<rparr>)"
  by (rule readFull_append) (simp_all add: frame_def)

interpretation dns_tcp: stream_codec frame readMessage "\<lambda>m. length m < 65536"
proof
  fix x r and c :: conn
  assume "length x < 65536" "conn_in c = frame x @ r"
  then show "readMessage c = (Inr x, c\<lparr>conn_in := r\<rparr>)"
    by (simp add: readMessage_def readFull_prefix conn_simps)
qed

section \<open>The TCP loop answers a session in order\<close>

text \<open>What the loop accepts: a query of one of the two fixture lengths with a known digest.\<close>

definition tcpAccepted :: "bytes \<Rightarrow> bool" where
  "tcpAccepted query \<longleftrightarrow> length query \<in> {27, 45} \<and> accepted query"

definition tcpAnswer :: "bytes \<Rightarrow> bytes" where
  "tcpAnswer query = frame (putID (templateFor query False) (uint16 query))"

lemma tcpRound_accept:
  assumes "conn_in c = frame q @ r" "tcpAccepted q" "conn_cap c = None"
  shows "tcpRound c = Inr (c\<lparr>conn_in := r, conn_out := conn_out c @ [tcpAnswer q]\<rparr>)"
  using assms
  by (auto simp: tcpRound_def readFull_prefix conn_simps tcpAccepted_def tcpAnswer_def
      responseFor_accepted)

text \<open>A round that goes on has answered the query in front of the stream.\<close>

lemma tcpRound_Inr:
  assumes "tcpRound c = Inr c'"
  shows "\<exists>q. conn_in c = frame q @ conn_in c' \<and> tcpAccepted q \<and>
    conn_out c' = conn_out c @ [tcpAnswer q]"
proof -
  from assms obtain prefix q where
      "length prefix = 2" "conn_in c = prefix @ q @ conn_in c'"
      "length q = unat (uint16 prefix)" "length q \<in> {27, 45}" "accepted q"
      "conn_out c' = conn_out c @ [tcpAnswer q]"
    by (auto simp: tcpRound_def readFull_Inr responseFor_Inr tcpAnswer_def
        split: prod.splits sum.splits option.splits if_splits
        dest!: connWrite_out(1))
  moreover from this have "prefix @ q = frame q"
    using be16_length [of prefix] by (simp add: frame_def)
  ultimately show ?thesis
    by (metis append.assoc tcpAccepted_def)
qed

lemma tcpRound_Inl: "tcpRound c = Inl (log, c') \<Longrightarrow> conn_out c' = conn_out c"
  by (auto simp: tcpRound_def split: prod.splits sum.splits option.splits if_splits
      dest!: readFull_frame(2) connWrite_out(2))

text \<open>C2: A TCP session that carries the framed queries \<open>qs\<close> back to back is answered
  with one framed answer per query, in order, up to the first query the target does not accept;
  that query is not answered and ends the connection.\<close>

theorem handleTCP_session:
  assumes "list_all (\<lambda>q. length q < 65536) qs"
    and "conn_in c = concat (map frame qs)" and "conn_cap c = None"
  shows "conn_out (snd (handleTCP c)) = conn_out c @ map tcpAnswer (takeWhile tcpAccepted qs)"
  using assms
proof (induction qs arbitrary: c)
  case Nil
  then have "tcpRound c = Inl (if errorsIs (conn_end c) EOF then [] else [PrefixReadFailed (conn_end c)], c)"
    by (simp add: tcpRound_def readFull_empty)
  then show ?case by (simp add: handleTCP.simps [of c])
next
  case (Cons q qs)
  show ?case
  proof (cases "tcpAccepted q")
    case True
    let ?c = "c\<lparr>conn_in := concat (map frame qs), conn_out := conn_out c @ [tcpAnswer q]\<rparr>"
    have "tcpRound c = Inr ?c"
      using Cons.prems True by (intro tcpRound_accept) simp_all
    moreover have "conn_out (snd (handleTCP ?c)) =
        conn_out ?c @ map tcpAnswer (takeWhile tcpAccepted qs)"
      using Cons.prems by (intro Cons.IH) simp_all
    ultimately show ?thesis
      using True by (simp add: handleTCP.simps [of c])
  next
    case False
    have "tcpRound c \<noteq> Inr c'" for c'
    proof
      assume "tcpRound c = Inr c'"
      then obtain p where p: "conn_in c = frame p @ conn_in c'" "tcpAccepted p"
        by (auto dest: tcpRound_Inr)
      with Cons.prems have "frame q @ concat (map frame qs) = frame p @ conn_in c'"
        by simp
      then have "q = p"
        using Cons.prems(1) p(2) dns_tcp.prefix_free [of q p] by (auto simp: tcpAccepted_def)
      with p(2) False show False by simp
    qed
    then obtain log c' where "tcpRound c = Inl (log, c')"
      by (cases "tcpRound c") auto
    with False show ?thesis
      by (simp add: handleTCP.simps [of c] tcpRound_Inl)
  qed
qed

text \<open>Whatever bytes a TCP peer sends, and whenever its connection fails, the handler
  returns, and everything it wrote answers a prefix of the stream: the frames written are the
  answers to accepted queries \<open>qs\<close>, in order, whose frames are the beginning of the
  input.\<close>

theorem handleTCP_safe:
  "\<exists>qs rest. conn_in c = concat (map frame qs) @ rest \<and> list_all tcpAccepted qs \<and>
     conn_out (snd (handleTCP c)) = conn_out c @ map tcpAnswer qs"
proof (induction c rule: handleTCP.induct)
  case (1 c)
  show ?case
  proof (cases "tcpRound c")
    case (Inl r)
    then show ?thesis
      by (cases r) (auto simp: handleTCP.simps [of c] tcpRound_Inl intro!: exI [of _ "[]"])
  next
    case (Inr c')
    then obtain q where q: "conn_in c = frame q @ conn_in c'" "tcpAccepted q"
        "conn_out c' = conn_out c @ [tcpAnswer q]"
      by (auto dest: tcpRound_Inr)
    from "1.IH" [OF Inr] obtain qs rest where
        "conn_in c' = concat (map frame qs) @ rest" "list_all tcpAccepted qs"
        "conn_out (snd (handleTCP c')) = conn_out c' @ map tcpAnswer qs"
      by blast
    with q have "conn_in c = concat (map frame (q # qs)) @ rest \<and> list_all tcpAccepted (q # qs) \<and>
        conn_out (snd (handleTCP c)) = conn_out c @ map tcpAnswer (q # qs)"
      by (simp add: handleTCP.simps [of c] Inr)
    then show ?thesis by blast
  qed
qed

section \<open>The UDP loop\<close>

text \<open>The reply to one event, and whether the loop goes on after it.\<close>

fun udpReply :: "'addr udp_event \<Rightarrow> ('addr \<times> bytes) list" where
  "udpReply (Datagram remote query None) =
     (if accepted query then [(remote, putID (templateFor query True) (uint16 query))] else [])"
| "udpReply _ = []"

fun udpGoesOn :: "'addr udp_event \<Rightarrow> bool" where
  "udpGoesOn (ReadError e cancelled) \<longleftrightarrow> \<not> cancelled \<and> \<not> errorsIs e ErrClosed"
| "udpGoesOn _ \<longleftrightarrow> True"

lemma serveUDP_concat: "fst (serveUDP es) = concat (map udpReply (takeWhile udpGoesOn es))"
proof (induction es rule: serveUDP.induct)
  case (3 remote query werr es)
  then show ?case
    by (cases "accepted query"; cases werr)
      (use responseFor_rejected [of query True] in
        \<open>auto simp: responseFor_accepted split: prod.splits\<close>)
qed (auto split: prod.splits)

lemma udpReply_bounded:
  "list_all (\<lambda>(remote, response). length response \<le> 512 \<and> uint16 response \<noteq> 0) (udpReply ev)"
  by (cases ev rule: udpReply.cases) (simp_all add: accepted_def templateFor_def)

text \<open>C3: The UDP loop replies to every datagram with an accepted query that it receives before
  the socket is closed or the context is cancelled, in order and to the sender, and to nothing
  else; read errors and rejected queries do not stop it. No reply is longer than the 512 bytes
  the fixtures advertise, so the DNSKEY answer goes out truncated, and every reply carries the
  non-zero message ID of its query.\<close>

theorem serveUDP_replies:
  "fst (serveUDP es) = concat (map udpReply (takeWhile udpGoesOn es)) \<and>
   list_all (\<lambda>(remote, response). length response \<le> 512 \<and> uint16 response \<noteq> 0)
     (fst (serveUDP es))"
proof -
  have "list_all (\<lambda>(remote, response). length response \<le> 512 \<and> uint16 response \<noteq> 0)
      (concat (map udpReply evs))" for evs :: "'a udp_event list"
    by (induction evs) (simp_all add: udpReply_bounded)
  then show ?thesis by (simp add: serveUDP_concat)
qed

end
