(* ===== verification/Go_Float.thy ===== *)
theory Go_Float
  imports Complex_Main "HOL-Library.Log_Nat"
begin

text \<open>
  Go's \<^verbatim>\<open>float64\<close> as the executors use it for latencies and rates: a finite double is
  the rational number it denotes, and an operation is the exact one followed by rounding to
  the nearest number with a 53-bit significand, ties to even. The exponent range is not
  modelled: the quantities here (milliseconds, counts, quotients of counts) lie far inside it.
  The functions that the executors share the shape of, the mean and the nearest-rank
  percentile, are in the component theories; their common facts are here.
\<close>

section \<open>Rounding\<close>

text \<open>The binary exponent of a positive rational.\<close>

definition expo :: "rat \<Rightarrow> int" where
  "expo x = (case quotient_of x of (n, d) \<Rightarrow>
     if 2 powi (bitlen n - bitlen d) \<le> x then bitlen n - bitlen d else bitlen n - bitlen d - 1)"

definition rne :: "rat \<Rightarrow> int" where
  "rne q = (if q - of_int \<lfloor>q\<rfloor> < 1 / 2 then \<lfloor>q\<rfloor>
            else if q - of_int \<lfloor>q\<rfloor> > 1 / 2 then \<lfloor>q\<rfloor> + 1
            else if even \<lfloor>q\<rfloor> then \<lfloor>q\<rfloor> else \<lfloor>q\<rfloor> + 1)"

definition roundPos :: "rat \<Rightarrow> rat" where
  "roundPos x = of_int (rne (x / 2 powi (expo x - 52))) * 2 powi (expo x - 52)"

definition f64 :: "rat \<Rightarrow> rat" where
  "f64 x = (if x = 0 then 0 else if x < 0 then - roundPos (- x) else roundPos x)"

definition fadd :: "rat \<Rightarrow> rat \<Rightarrow> rat" where
  "fadd a b = f64 (a + b)"

definition fmul :: "rat \<Rightarrow> rat \<Rightarrow> rat" where
  "fmul a b = f64 (a * b)"

text \<open>Division; by zero Go yields an infinity or NaN, which no caller here reaches.\<close>

definition fdiv :: "rat \<Rightarrow> rat \<Rightarrow> rat" where
  "fdiv a b = f64 (a / b)"

lemma rne_mono: "p \<le> q \<Longrightarrow> rne p \<le> rne q"
proof -
  assume le: "p \<le> q"
  have between: "\<lfloor>r\<rfloor> \<le> rne r" "rne r \<le> \<lfloor>r\<rfloor> + 1" for r
    by (simp_all add: rne_def)
  have "\<lfloor>p\<rfloor> \<le> \<lfloor>q\<rfloor>" using le by (rule floor_mono)
  then consider "\<lfloor>p\<rfloor> < \<lfloor>q\<rfloor>" | "\<lfloor>p\<rfloor> = \<lfloor>q\<rfloor>" by linarith
  then show ?thesis
  proof cases
    case 1
    with between(2) [of p] between(1) [of q] show ?thesis by linarith
  next
    case 2
    with le show ?thesis by (auto simp: rne_def)
  qed
qed

lemma rne_of_int [simp]: "rne (of_int n) = n"
  by (simp add: rne_def)

lemma bitlen_powi:
  assumes "0 < m"
  shows "2 powi (bitlen m - 1) \<le> (of_int m :: rat)" "(of_int m :: rat) < 2 powi bitlen m"
proof -
  have "0 < bitlen m"
    using assms bitlen_eq_zero_iff [of m] bitlen_nonneg [of m] by linarith
  moreover have "of_int (2 ^ nat (bitlen m - 1)) \<le> (of_int m :: rat)"
      "of_int m < (of_int (2 ^ nat (bitlen m)) :: rat)"
    using bitlen_bounds [OF assms] by (simp_all only: of_int_le_iff of_int_less_iff)
  ultimately show "2 powi (bitlen m - 1) \<le> (of_int m :: rat)" "(of_int m :: rat) < 2 powi bitlen m"
    by (simp_all add: power_int_def)
qed

lemma expo_bounds:
  assumes "0 < x"
  shows "2 powi expo x \<le> x" "x < 2 powi (expo x + 1)"
proof -
  obtain n d where nd: "quotient_of x = (n, d)" by (cases "quotient_of x") auto
  then have d: "0 < d" and x: "x = of_int n / of_int d"
    by (auto dest: quotient_of_denom_pos quotient_of_div)
  with assms have n: "0 < n" by (simp add: zero_less_divide_iff)
  have "x < 2 powi bitlen n / 2 powi (bitlen d - 1)"
    unfolding x using n bitlen_powi [OF n] bitlen_powi [OF d] by (intro frac_less) simp_all
  moreover have "2 powi (bitlen n - 1) / 2 powi bitlen d \<le> x"
    unfolding x using n d bitlen_powi [OF n] bitlen_powi [OF d] by (intro frac_le) simp_all
  ultimately have "x < 2 powi (bitlen n - bitlen d + 1)" "2 powi (bitlen n - bitlen d - 1) \<le> x"
    by (simp_all add: algebra_simps flip: power_int_diff)
  then show "2 powi expo x \<le> x" "x < 2 powi (expo x + 1)"
    by (auto simp: expo_def nd)
qed

lemma expo_mono:
  assumes "0 < x" "x \<le> y"
  shows "expo x \<le> expo y"
proof (rule ccontr)
  assume "\<not> expo x \<le> expo y"
  then have "(2 :: rat) powi (expo y + 1) \<le> 2 powi expo x"
    by (intro power_int_increasing) simp_all
  with expo_bounds [of x] expo_bounds [of y] assms show False by linarith
qed

text \<open>A rounded value stays in its binade, the upper end included.\<close>

lemma roundPos_bounds:
  assumes "0 < x"
  shows "2 powi expo x \<le> roundPos x" "roundPos x \<le> 2 powi (expo x + 1)"
proof -
  let ?u = "2 powi (expo x - 52) :: rat"
  have u: "0 < ?u" by simp
  have lo: "2 powi expo x = of_int (2 ^ 52) * ?u" and hi: "2 powi (expo x + 1) = of_int (2 ^ 53) * ?u"
    by (simp_all add: power_int_add power_int_diff)
  have "of_int (2 ^ 52) \<le> x / ?u" "x / ?u \<le> of_int (2 ^ 53)"
    using expo_bounds [OF assms] u by (simp_all only: lo hi pos_le_divide_eq pos_divide_le_eq less_imp_le)
  then have "2 ^ 52 \<le> rne (x / ?u)" "rne (x / ?u) \<le> 2 ^ 53"
    using rne_mono rne_of_int by metis+
  then have "of_int (2 ^ 52) * ?u \<le> of_int (rne (x / ?u)) * ?u"
      "of_int (rne (x / ?u)) * ?u \<le> of_int (2 ^ 53) * ?u"
    using u by (simp_all only: mult_le_cancel_right_pos of_int_le_iff)
  then show "2 powi expo x \<le> roundPos x" "roundPos x \<le> 2 powi (expo x + 1)"
    by (simp_all only: roundPos_def lo hi)
qed

lemma roundPos_mono:
  assumes "0 < x" "x \<le> y"
  shows "roundPos x \<le> roundPos y"
proof (cases "expo x = expo y")
  case True
  have "rne (x / 2 powi (expo y - 52)) \<le> rne (y / 2 powi (expo y - 52))"
    using assms by (intro rne_mono divide_right_mono) simp_all
  then show ?thesis
    by (simp add: roundPos_def True mult_right_mono)
next
  case False
  with expo_mono [OF assms] have "(2 :: rat) powi (expo x + 1) \<le> 2 powi expo y"
    by (intro power_int_increasing) simp_all
  with roundPos_bounds [of x] roundPos_bounds [of y] assms show ?thesis by linarith
qed

lemma roundPos_pos: "0 < x \<Longrightarrow> 0 < roundPos x"
  using roundPos_bounds(1) [of x] by (rule less_le_trans [rotated]) simp_all

theorem f64_mono: "x \<le> y \<Longrightarrow> f64 x \<le> f64 y"
  using roundPos_mono [of x y] roundPos_mono [of "- y" "- x"] roundPos_pos [of y]
    roundPos_pos [of "- x"]
  by (cases "x = 0"; cases "y = 0"; cases "x < 0"; cases "y < 0") (auto simp: f64_def)

lemma f64_nonneg: "0 \<le> x \<Longrightarrow> 0 \<le> f64 x"
  using f64_mono [of 0 x] by (simp add: f64_def)

lemma roundPos_grid:
  assumes "0 < x" "x = of_int k * 2 powi (expo x - 52)"
  shows "roundPos x = x"
proof -
  have "x / 2 powi (expo x - 52) = of_int k" using assms(2) by (metis nonzero_mult_div_cancel_right power_int_not_zero zero_neq_numeral)
  then show ?thesis using assms(2) by (simp add: roundPos_def)
qed

text \<open>The integers up to \<^term>\<open>2 ^ 53\<close> are floating-point numbers.\<close>

lemma f64_of_nat:
  assumes "n \<le> 2 ^ 53"
  shows "f64 (of_nat n) = of_nat n"
proof (cases "n = 0")
  case False
  let ?x = "of_nat n :: rat" and ?e = "expo (of_nat n :: rat)"
  have x: "0 < ?x" using False by simp
  have e0: "0 \<le> ?e"
  proof (rule ccontr)
    assume "\<not> 0 \<le> ?e"
    then have "(2 :: rat) powi (?e + 1) \<le> 2 powi 0" by (intro power_int_increasing) simp_all
    with expo_bounds(2) [OF x] False show False by simp
  qed
  have "?e \<le> 53"
  proof (rule ccontr)
    assume "\<not> ?e \<le> 53"
    then have "(2 :: rat) powi 54 \<le> 2 powi ?e" by (intro power_int_increasing) simp_all
    moreover have "?x \<le> 2 ^ 53" using assms by (metis of_nat_le_iff of_nat_numeral of_nat_power)
    ultimately show False using expo_bounds(1) [OF x] by simp
  qed
  then consider "?e \<le> 52" | "?e = 53" by linarith
  then have "\<exists>k. ?x = of_int k * 2 powi (?e - 52)"
  proof cases
    case 1
    then have "(2 :: rat) powi (?e - 52) = 1 / 2 ^ nat (52 - ?e)"
      by (simp add: power_int_def divide_simps)
    then have "?x = of_int (int n * 2 ^ nat (52 - ?e)) * 2 powi (?e - 52)" by simp
    then show ?thesis by blast
  next
    case 2
    then have "(2 :: rat) ^ 53 \<le> ?x" using expo_bounds(1) [OF x] by (simp add: power_int_def)
    then have "n = 2 ^ 53" using assms by (metis le_antisym of_nat_le_iff of_nat_numeral of_nat_power)
    then have "?x = of_int (2 ^ 52) * 2 powi (?e - 52)" unfolding 2 by simp
    then show ?thesis by blast
  qed
  then show ?thesis using roundPos_grid [OF x] False by (auto simp: f64_def)
qed (simp add: f64_def)

section \<open>The nearest-rank percentile\<close>

text \<open>The executors each have their own copy of this function; its contract is proved here.\<close>

definition rankIndex :: "nat \<Rightarrow> rat \<Rightarrow> int" where
  "rankIndex n p =
     (let i = \<lceil>fmul p (f64 (of_nat n))\<rceil> - 1;
          j = (if i < 0 then 0 else i)
      in if j \<ge> int n then int n - 1 else j)"

definition nearestRank :: "rat list \<Rightarrow> rat \<Rightarrow> rat" where
  "nearestRank v p = (if v = [] then 0 else sort v ! nat (rankIndex (length v) p))"

lemma rankIndex_range: "0 < n \<Longrightarrow> 0 \<le> rankIndex n p \<and> rankIndex n p < int n"
  by (auto simp: rankIndex_def Let_def)

lemma rankIndex_mono:
  assumes "p \<le> q" "0 < n"
  shows "rankIndex n p \<le> rankIndex n q"
proof -
  have "p * f64 (of_nat n) \<le> q * f64 (of_nat n)"
    using assms(1) by (intro mult_right_mono) (simp_all add: f64_nonneg)
  then have "\<lceil>fmul p (f64 (of_nat n))\<rceil> \<le> \<lceil>fmul q (f64 (of_nat n))\<rceil>"
    unfolding fmul_def by (intro ceiling_mono f64_mono)
  moreover have "(let j = (if a - 1 < 0 then 0 else a - 1) in if j \<ge> int n then int n - 1 else j) \<le>
      (let j = (if b - 1 < 0 then 0 else b - 1) in if j \<ge> int n then int n - 1 else j)"
    if "a \<le> b" for a b :: int
    using that assms(2) by (auto simp: Let_def)
  ultimately show ?thesis by (simp only: rankIndex_def Let_def)
qed

lemma nearestRank_in_set: "v \<noteq> [] \<Longrightarrow> nearestRank v p \<in> set v"
  using rankIndex_range [of "length v" p]
  by (metis nearestRank_def length_greater_0_conv length_sort nat_less_iff nth_mem set_sort)

lemma nearestRank_mono: "p \<le> q \<Longrightarrow> nearestRank v p \<le> nearestRank v q"
  using rankIndex_mono [of p q "length v"] rankIndex_range [of "length v" q]
  by (auto simp: nearestRank_def intro!: sorted_nth_mono)

lemma nearestRank_empty [simp]: "nearestRank [] p = 0"
  by (simp add: nearestRank_def)

end
