(* ===== verification/Dns_Executor.thy ===== *)
theory Dns_Executor
  imports Go_Sha256 Go_Float
begin

text \<open>
  The classic DNS executor of \<^verbatim>\<open>executors/dns-classic-fixture/executor.go\<close>, the library
  behind the UDP and TCP executor commands. It sends the package fixtures to a target,
  checks every response byte for byte through its digest, and runs the preflight, warm-up and
  measured phases. The network is what the code can observe of it: a UDP socket answers a
  datagram (or fails), a TCP peer extends the incoming stream after a write (or the write
  fails), and each round of a phase has its own.
\<close>

section \<open>Constants and fixtures\<close>

definition mustHex :: "string \<Rightarrow> bytes" where
  \<comment> \<open>an undecodable constant panics while the package is initialised\<close>
  "mustHex v = (case hexDecode v of Some b \<Rightarrow> b | None \<Rightarrow> [])"

definition hash :: "bytes \<Rightarrow> string" where
  "hash v = sha256Hex v"

definition Version :: string where
  "Version = ''0.1.0''"

definition ProfileID :: string where
  "ProfileID = ''dns-classic-diagnostic''"

definition aFixtureID :: string where
  "aFixtureID = ''dns.plab-test-a-v2.canonical''"

definition largeFixtureID :: string where
  "largeFixtureID = ''dns.dnskey-plab-test-large-edns-dnssec-shaped.canonical''"

definition aQueryHash :: string where
  "aQueryHash = ''c46b9fb76019b5a644d0884b17e816cb7c3076275d9468c27d180f70488eb8ec''"

definition aResponseHash :: string where
  "aResponseHash = ''9d488461675ad5ab9f74c7b203861e1ad17521e413a407a25e6611012a595620''"

definition largeQueryHash :: string where
  "largeQueryHash = ''7445dfa148164c2ee02186b962f735847e9d62f46414287ebf5cf6a3dfce9e4f''"

definition truncatedHash :: string where
  "truncatedHash = ''753eff72120531d638e839e088ca22875e550b89f554a11af50d4423a512710d''"

definition largeResponseHash :: string where
  "largeResponseHash = ''1cc5bafd114a4f34d824c01a685b04e82cae6110c648046c461d3688782e8665''"

definition aQuery :: bytes where
  "aQuery = mustHex
    (''00000000000100000000000004706c616204746573740000010001'')"

definition aResponse :: bytes where
  "aResponse = mustHex
    (''00008400000100010000000004706c616204746573740000010001c00c00010001000000000004c0'' @
     ''000201'')"

definition largeQuery :: bytes where
  "largeQuery = mustHex
    (''00000000000100000000000106646e736b657904706c616204746573740000300001000029020000'' @
     ''0080000000'')"

definition truncatedResponse :: bytes where
  "truncatedResponse = mustHex
    (''00008600000100000000000106646e736b657904706c616204746573740000300001000029020000'' @
     ''0080000000'')"

definition largeResponse :: bytes where
  "largeResponse = mustHex
    (''00008400000100070000000106646e736b657904706c616204746573740000300001c00c00300001'' @
     ''0000000000440101030d010101010101010101010101010101010101010101010101010101010101'' @
     ''01010101010101010101010101010101010101010101010101010101010101010101c00c00300001'' @
     ''0000000000440101030d020202020202020202020202020202020202020202020202020202020202'' @
     ''02020202020202020202020202020202020202020202020202020202020202020202c00c00300001'' @
     ''0000000000440101030d030303030303030303030303030303030303030303030303030303030303'' @
     ''03030303030303030303030303030303030303030303030303030303030303030303c00c00300001'' @
     ''0000000000440101030d040404040404040404040404040404040404040404040404040404040404'' @
     ''04040404040404040404040404040404040404040404040404040404040404040404c00c00300001'' @
     ''0000000000440101030d050505050505050505050505050505050505050505050505050505050505'' @
     ''05050505050505050505050505050505050505050505050505050505050505050505c00c00300001'' @
     ''0000000000440101030d060606060606060606060606060606060606060606060606060606060606'' @
     ''06060606060606060606060606060606060606060606060606060606060606060606c00c002e0001'' @
     ''00000000005d00300d030000000077359400713fb300303904706c6162047465737400a5a5a5a5a5'' @
     ''a5a5a5a5a5a5a5a5a5a5a5a5a5a5a5a5a5a5a5a5a5a5a5a5a5a5a5a5a5a5a5a5a5a5a5a5a5a5a5a5'' @
     ''a5a5a5a5a5a5a5a5a5a5a5a5a5a5a5a5a5a5a50000290200000080000000'')"

section \<open>Records\<close>

record config =
  ExecutorID :: string
  LoadGeneratorID :: string
  Mode :: string
  Supported :: "string list"

text \<open>The struct \<^verbatim>\<open>proof\<close>, with its zero value.\<close>

record dns_proof =
  p_FixtureID :: string
  p_Transport :: string
  p_QuestionName :: string
  p_QuestionType :: string
  p_QuestionClass :: string
  p_Answer :: string
  p_ResponseCode :: string
  p_Framing :: string
  p_TTLSeconds :: int
  p_AuthoritativeAnswer :: bool
  p_RecursionDesired :: bool
  p_RecursionAvailable :: bool
  p_ExternalUpstreamUsed :: bool
  p_CacheEnabled :: bool
  p_RuntimeMessageID :: u16
  p_ResponseMessageID :: u16
  p_MessageIDCorrelated :: bool
  p_MessageIDUniqueAmongOutstanding :: bool
  p_CanonicalHashNormalization :: string
  p_QueryLengthBytes :: int
  p_ResponseLengthBytes :: int
  p_QueryNormalizedSHA256 :: string
  p_ResponseNormalizedSHA256 :: string
  p_RequestWireHex :: string
  p_ResponseWireHex :: string
  p_UDPAdvertisedPayloadBytes :: int
  p_UDPTruncatedResponseLength :: int
  p_RetryCount :: int
  p_TCPResponseLength :: int
  p_UDPTruncated :: bool
  p_RetryQuestionIdentical :: bool
  p_RetryMessageIDNew :: bool
  p_TCPResponsePrefixHex :: string

definition noProof :: dns_proof where
  "noProof = \<lparr>
     p_FixtureID = '''',
     p_Transport = '''',
     p_QuestionName = '''',
     p_QuestionType = '''',
     p_QuestionClass = '''',
     p_Answer = '''',
     p_ResponseCode = '''',
     p_Framing = '''',
     p_TTLSeconds = 0,
     p_AuthoritativeAnswer = False,
     p_RecursionDesired = False,
     p_RecursionAvailable = False,
     p_ExternalUpstreamUsed = False,
     p_CacheEnabled = False,
     p_RuntimeMessageID = 0,
     p_ResponseMessageID = 0,
     p_MessageIDCorrelated = False,
     p_MessageIDUniqueAmongOutstanding = False,
     p_CanonicalHashNormalization = '''',
     p_QueryLengthBytes = 0,
     p_ResponseLengthBytes = 0,
     p_QueryNormalizedSHA256 = '''',
     p_ResponseNormalizedSHA256 = '''',
     p_RequestWireHex = '''',
     p_ResponseWireHex = '''',
     p_UDPAdvertisedPayloadBytes = 0,
     p_UDPTruncatedResponseLength = 0,
     p_RetryCount = 0,
     p_TCPResponseLength = 0,
     p_UDPTruncated = False,
     p_RetryQuestionIdentical = False,
     p_RetryMessageIDNew = False,
     p_TCPResponsePrefixHex = ''''\<rparr>"

record summary =
  s_Phase :: string
  s_DurationSeconds :: rat
  s_ConnectionLatencyMilliseconds :: rat
  s_CompletedOperations :: int
  s_MalformedOperations :: int
  s_RetryCount :: int
  s_FailedOperations :: int
  s_TimedOutOperations :: int
  s_TotalTransferredBytes :: int
  s_EffectiveConcurrency :: int
  s_Latencies :: "rat list"
  s_LastProof :: "dns_proof option"
  s_Errors :: "string \<rightharpoonup> nat"

section \<open>Wire helpers\<close>

definition frame :: "bytes \<Rightarrow> bytes" where
  "frame m = be16 (of_nat (length m)) @ m"

definition withID :: "bytes \<Rightarrow> u16 \<Rightarrow> bytes" where
  \<comment> \<open>on a message of at least two bytes, as every caller passes\<close>
  "withID m mid = be16 mid @ drop 2 m"

definition questionName :: "string \<Rightarrow> string" where
  "questionName f = (if f = aFixtureID then ''plab.test.'' else ''dnskey.plab.test.'')"

definition questionType :: "string \<Rightarrow> string" where
  "questionType f = (if f = aFixtureID then ''A'' else ''DNSKEY'')"

definition answer :: "string \<Rightarrow> string" where
  "answer f = (if f = aFixtureID then ''192.0.2.1'' else ''DNSKEY-and-RRSIG-shaped-record-set'')"

definition protocolVariant :: "string \<Rightarrow> string" where
  "protocolVariant s =
     (if s = ''dns.classic.udp.query.a'' then ''dns-udp''
      else if s = ''dns.classic.tcp.query.a'' then ''dns-tcp''
      else ''dns-udp-tcp-retry'')"

section \<open>Validating a response\<close>

text \<open>The proof is filled in from the response first; the checks come after, in the order of
  the source. The code reads the flag bytes 2 and 3 of a response of at least 12 bytes.\<close>

definition observe ::
  "bytes \<Rightarrow> bytes \<Rightarrow> string \<Rightarrow> string \<Rightarrow> string \<Rightarrow> u16 \<Rightarrow> dns_proof" where
  "observe query response fixtureID transport framing mid = noProof\<lparr>
     p_FixtureID := fixtureID, p_Transport := transport,
     p_QuestionName := questionName fixtureID, p_QuestionType := questionType fixtureID,
     p_QuestionClass := ''IN'', p_Answer := answer fixtureID,
     p_TTLSeconds := 0, p_ResponseCode := ''NOERROR'', p_Framing := framing,
     p_AuthoritativeAnswer := (response ! 2) AND 0x04 \<noteq> 0,
     p_RecursionDesired := False,
     p_RecursionAvailable := (response ! 3) AND 0x80 \<noteq> 0,
     p_ExternalUpstreamUsed := False, p_CacheEnabled := False,
     p_RuntimeMessageID := mid, p_ResponseMessageID := uint16 response,
     p_MessageIDCorrelated := uint16 response = mid, p_MessageIDUniqueAmongOutstanding := True,
     p_CanonicalHashNormalization := ''set-message-id-to-zero'',
     p_QueryLengthBytes := int (length query), p_ResponseLengthBytes := int (length response),
     p_QueryNormalizedSHA256 := hash (withID query 0),
     p_ResponseNormalizedSHA256 := hash (withID response 0),
     p_RequestWireHex := hexEncode query, p_ResponseWireHex := hexEncode response\<rparr>"

definition validate ::
  "bytes \<Rightarrow> bytes \<Rightarrow> string \<Rightarrow> string \<Rightarrow> string \<Rightarrow> string \<Rightarrow> string \<Rightarrow> u16 \<Rightarrow>
   dns_proof \<times> go_error option" where
  "validate query response fixtureID transport framing queryDigest responseDigest mid =
     (if length response < 12 then (noProof, Some (Malformed ''short DNS response''))
      else (let p = observe query response fixtureID transport framing mid in
        if p_QueryNormalizedSHA256 p \<noteq> queryDigest then (p, Some (Malformed ''query hash mismatch''))
        else if \<not> p_MessageIDCorrelated p then (p, Some (Malformed ''message ID mismatch''))
        else if p_ResponseNormalizedSHA256 p \<noteq> responseDigest
          then (p, Some (Malformed ''response hash mismatch''))
        else if \<not> p_AuthoritativeAnswer p \<or> p_RecursionAvailable p
          then (p, Some (Malformed ''authority flags mismatch''))
        else (p, None)))"

section \<open>Exchanges\<close>

text \<open>What a UDP socket does with one datagram: the write fails, or the next read returns an
  error or a datagram. What a TCP peer does with a write: it fails, or the connection has
  more to read.\<close>

type_synonym udp_sock = "bytes \<Rightarrow> go_error + bytes go"
type_synonym tcp_peer = "bytes \<Rightarrow> conn \<Rightarrow> conn go"
type_synonym outcome = "dns_proof \<times> int \<times> int \<times> go_error option"

definition exchangeUDP ::
  "udp_sock \<Rightarrow> bytes \<Rightarrow> bytes \<Rightarrow> string \<Rightarrow> string \<Rightarrow> string \<Rightarrow> u16 \<Rightarrow> bool \<Rightarrow> outcome" where
  "exchangeUDP sock queryTemplate responseTemplate fixtureID queryDigest responseDigest mid expectTC =
     (let query = withID queryTemplate mid in
      case sock query of
        Inl e \<Rightarrow> (noProof, 0, 0, Some e)
      | Inr (Inl e) \<Rightarrow> (noProof, int (length query), 0, Some e)
      | Inr (Inr response) \<Rightarrow>
          (let transferred = int (length query + length response) in
           if length response \<noteq> length responseTemplate
           then (noProof, transferred, 0,
                 Some (Malformed (''UDP response length '' @ itoa (length response))))
           else (case validate query response fixtureID ''udp'' ''bare-dns-message-datagram''
                        queryDigest responseDigest mid of
             (p, Some e) \<Rightarrow> (p, transferred, 0, Some e)
           | (p, None) \<Rightarrow>
               (let tc = (response ! 2) AND 0x02 \<noteq> 0 in
                if tc \<noteq> expectTC then (p, transferred, 0, Some (Malformed ''UDP TC flag mismatch''))
                else (p\<lparr>p_UDPTruncated := tc\<rparr>, transferred, 0, None)))))"

definition exchangeTCP ::
  "tcp_peer \<Rightarrow> conn \<Rightarrow> bytes \<Rightarrow> bytes \<Rightarrow> string \<Rightarrow> string \<Rightarrow> string \<Rightarrow> u16 \<Rightarrow> outcome \<times> conn" where
  "exchangeTCP peer c queryTemplate responseTemplate fixtureID queryDigest responseDigest mid =
     (let query = withID queryTemplate mid; framed = frame query in
      case peer framed c of
        Inl e \<Rightarrow> ((noProof, 0, 0, Some e), c)
      | Inr c0 \<Rightarrow> (case readFull 2 c0 of
          (Inl e, c1) \<Rightarrow> ((noProof, int (length framed), 0, Some e), c1)
        | (Inr prefix, c1) \<Rightarrow> (case readFull (unat (uint16 prefix)) c1 of
            (Inl e, c2) \<Rightarrow> ((noProof, int (length framed + 2), 0, Some e), c2)
          | (Inr response, c2) \<Rightarrow>
              (let transferred = int (length framed + 2 + length response) in
               if length response \<noteq> length responseTemplate
               then ((noProof, transferred, 0,
                      Some (Malformed (''TCP response length '' @ itoa (length response)))), c2)
               else (case validate query response fixtureID ''tcp''
                            ''two-octet-network-order-length-prefix'' queryDigest responseDigest mid of
                 (p, err) \<Rightarrow>
                   ((p\<lparr>p_RequestWireHex := hexEncode framed,
                       p_ResponseWireHex := hexEncode (prefix @ response)\<rparr>,
                     transferred, 0, err), c2))))))"

text \<open>\<^verbatim>\<open>(*phaseClient).exchange\<close>: the scenario dispatch, and the single TCP retry after a
  truncated UDP answer with the next message ID, skipping zero.\<close>

definition retryID :: "u16 \<Rightarrow> u16" where
  "retryID mid = (if mid + 1 = 0 then 1 else mid + 1)"

definition exchange :: "udp_sock \<Rightarrow> tcp_peer \<Rightarrow> conn \<Rightarrow> string \<Rightarrow> u16 \<Rightarrow> outcome \<times> conn" where
  "exchange sock peer c scenario mid =
     (if scenario = ''dns.classic.udp.query.a''
      then (exchangeUDP sock aQuery aResponse aFixtureID aQueryHash aResponseHash mid False, c)
      else if scenario = ''dns.classic.tcp.query.a''
      then exchangeTCP peer c aQuery aResponse aFixtureID aQueryHash aResponseHash mid
      else if scenario = ''dns.classic.udp-truncated-tcp-retry''
      then (case exchangeUDP sock largeQuery truncatedResponse largeFixtureID largeQueryHash
                   truncatedHash mid True of
          (p, n, _, Some e) \<Rightarrow> ((p, n, 0, Some e), c)
        | (p, n, _, None) \<Rightarrow>
            (case exchangeTCP peer c largeQuery largeResponse largeFixtureID largeQueryHash
                    largeResponseHash (retryID mid) of
               ((tcpProof, tcpBytes, _, Some e), c') \<Rightarrow> ((p, n + tcpBytes, 1, Some e), c')
             | ((tcpProof, tcpBytes, _, None), c') \<Rightarrow>
                 ((p\<lparr>p_Transport := ''udp-tcp'', p_RetryCount := 1,
                     p_UDPAdvertisedPayloadBytes := 512, p_UDPTruncatedResponseLength := 45,
                     p_UDPTruncated := True, p_RetryQuestionIdentical := True,
                     p_RetryMessageIDNew := retryID mid \<noteq> mid,
                     p_TCPResponseLength := p_ResponseLengthBytes tcpProof,
                     p_TCPResponsePrefixHex := ''0276'',
                     p_ResponseLengthBytes := p_ResponseLengthBytes tcpProof,
                     p_ResponseNormalizedSHA256 := p_ResponseNormalizedSHA256 tcpProof,
                     p_ResponseWireHex := p_ResponseWireHex tcpProof\<rparr>,
                   n + tcpBytes, 1, None), c')))
      else ((noProof, 0, 0, Some (Errorf ''unsupported scenario dispatch'')), c))"

section \<open>Phases\<close>

text \<open>Opening the sockets of a phase: which calls fail, and how long the opening took.\<close>

record open_env =
  o_resolve :: "go_error option"
  o_dialUDP :: "go_error option"
  o_dialTCP :: "go_error option"
  o_micros :: int

record phase_client =
  has_udp :: bool
  has_tcp :: bool

text \<open>\<^verbatim>\<open>float64(d.Microseconds()) / 1000\<close>.\<close>

definition millis :: "int \<Rightarrow> rat" where
  "millis us = fdiv (f64 (of_int us)) 1000"

definition openPhaseClient :: "open_env \<Rightarrow> string \<Rightarrow> phase_client \<times> rat \<times> go_error option" where
  "openPhaseClient env scenario =
     (let none = \<lparr>has_udp = False, has_tcp = False\<rparr>;
          udp = scenario \<noteq> ''dns.classic.tcp.query.a'';
          tcp = scenario \<noteq> ''dns.classic.udp.query.a''
      in if udp \<and> o_resolve env \<noteq> None then (none, 0, o_resolve env)
         else if udp \<and> o_dialUDP env \<noteq> None then (none, 0, o_dialUDP env)
         else if tcp \<and> o_dialTCP env \<noteq> None then (\<lparr>has_udp = udp, has_tcp = False\<rparr>, 0, o_dialTCP env)
         else (\<lparr>has_udp = udp, has_tcp = tcp\<rparr>, millis (o_micros env), None))"

text \<open>One round of the loop: the sockets as they behave during it, and its measured time. The
  list of rounds is as long as the deadline lets the loop go on; in the preflight the loop
  condition holds whatever the deadline, so a preflight has at least one round.\<close>

record round =
  r_udp :: udp_sock
  r_tcp :: tcp_peer
  r_micros :: int

definition countError :: "string \<Rightarrow> (string \<rightharpoonup> nat) \<Rightarrow> (string \<rightharpoonup> nat)" where
  "countError text m = m(text \<mapsto> (case m text of None \<Rightarrow> 1 | Some n \<Rightarrow> Suc n))"

definition nextID :: "u16 \<Rightarrow> u16" where
  "nextID mid = (if mid + 2 = 0 then 1 else mid + 2)"

definition recordFailure :: "go_error \<Rightarrow> summary \<Rightarrow> summary" where
  "recordFailure e s =
     (if asMalformed e then s\<lparr>s_MalformedOperations := s_MalformedOperations s + 1\<rparr>
      else if isTimeout e then s\<lparr>s_TimedOutOperations := s_TimedOutOperations s + 1\<rparr>
      else s\<lparr>s_FailedOperations := s_FailedOperations s + 1\<rparr>)
     \<lparr>s_Errors := countError (errorText e) (s_Errors s)\<rparr>"

definition recordTransfer :: "int \<Rightarrow> int \<Rightarrow> summary \<Rightarrow> summary" where
  "recordTransfer n retries s =
     s\<lparr>s_TotalTransferredBytes := s_TotalTransferredBytes s + n, s_RetryCount := s_RetryCount s + retries\<rparr>"

definition recordSuccess :: "dns_proof \<Rightarrow> int \<Rightarrow> summary \<Rightarrow> summary" where
  "recordSuccess p us s =
     s\<lparr>s_CompletedOperations := s_CompletedOperations s + 1,
       s_Latencies := s_Latencies s @ [millis us], s_LastProof := Some p\<rparr>"

fun phaseLoop ::
  "string \<Rightarrow> bool \<Rightarrow> round list \<Rightarrow> u16 \<Rightarrow> conn \<Rightarrow> summary \<Rightarrow> summary \<times> go_error option" where
  "phaseLoop scenario once [] mid c s = (s, None)"
| "phaseLoop scenario once (r # rs) mid c s =
     (case exchange (r_udp r) (r_tcp r) c scenario mid of
        ((p, n, retries, Some e), c') \<Rightarrow> (recordFailure e (recordTransfer n retries s), Some e)
      | ((p, n, retries, None), c') \<Rightarrow>
          if once then (recordSuccess p (r_micros r) (recordTransfer n retries s), None)
          else phaseLoop scenario once rs (nextID mid) c'
                 (recordSuccess p (r_micros r) (recordTransfer n retries s)))"

definition newSummary :: "bool \<Rightarrow> summary" where
  "newSummary once =
     \<lparr>s_Phase = (if once then ''preflight'' else ''measured''), s_DurationSeconds = 0,
      s_ConnectionLatencyMilliseconds = 0, s_CompletedOperations = 0, s_MalformedOperations = 0,
      s_RetryCount = 0, s_FailedOperations = 0, s_TimedOutOperations = 0,
      s_TotalTransferredBytes = 0, s_EffectiveConcurrency = 1, s_Latencies = [],
      s_LastProof = None, s_Errors = Map.empty\<rparr>"

definition runPhase ::
  "open_env \<Rightarrow> string \<Rightarrow> bool \<Rightarrow> round list \<Rightarrow> conn \<Rightarrow> rat \<Rightarrow> summary \<times> go_error option" where
  "runPhase env scenario once rounds c elapsed =
     (case openPhaseClient env scenario of
        (client, latency, Some e) \<Rightarrow>
          ((newSummary once)\<lparr>s_ConnectionLatencyMilliseconds := latency, s_FailedOperations := 1\<rparr>, Some e)
      | (client, latency, None) \<Rightarrow>
          (case phaseLoop scenario once rounds 1 c
                  ((newSummary once)\<lparr>s_ConnectionLatencyMilliseconds := latency\<rparr>) of
             (s, Some e) \<Rightarrow> (s, Some e)
           | (s, None) \<Rightarrow> (s\<lparr>s_DurationSeconds := elapsed\<rparr>, None)))"

definition hasFailures :: "summary \<Rightarrow> bool" where
  "hasFailures s \<longleftrightarrow> s_CompletedOperations s = 0 \<or> s_MalformedOperations s \<noteq> 0 \<or>
     s_FailedOperations s \<noteq> 0 \<or> s_TimedOutOperations s \<noteq> 0"

section \<open>Metrics\<close>

fun sumFrom :: "rat \<Rightarrow> rat list \<Rightarrow> rat" where
  "sumFrom t [] = t"
| "sumFrom t (x # xs) = sumFrom (fadd t x) xs"

definition mean :: "rat list \<Rightarrow> rat" where
  "mean v = (if v = [] then 0 else fdiv (sumFrom 0 v) (f64 (of_nat (length v))))"

definition percentileIndex :: "nat \<Rightarrow> rat \<Rightarrow> int" where
  "percentileIndex n p =
     (let i = \<lceil>fmul p (f64 (of_nat n))\<rceil> - 1;
          j = (if i < 0 then 0 else i)
      in if j \<ge> int n then int n - 1 else j)"

definition percentile :: "rat list \<Rightarrow> rat \<Rightarrow> rat" where
  "percentile v p = (if v = [] then 0 else sort v ! nat (percentileIndex (length v) p))"

record metric_set =
  m_QueriesPerSecond :: rat
  m_QueryLatencyMean :: rat
  m_QueryLatencyP50 :: rat
  m_QueryLatencyP75 :: rat
  m_QueryLatencyP90 :: rat
  m_QueryLatencyP95 :: rat
  m_QueryLatencyP99 :: rat
  m_ConnectionLatency :: rat
  m_CompletedOperations :: int
  m_MalformedOperations :: int
  m_RetryCount :: int
  m_FailedOperations :: int
  m_TimedOutOperations :: int
  m_TotalTransferredBytes :: int
  m_EffectiveConcurrency :: int

record result =
  res_SchemaVersion :: string
  res_ScenarioID :: string
  res_LoadProfileID :: string
  res_Status :: string
  res_Executor :: "string \<times> string"
  res_LoadGenerator :: "string \<times> string"
  res_RequestedProtocol :: string
  res_ObservedProtocol :: string
  res_FallbackDetected :: bool
  res_DNS :: "dns_proof option"
  res_ValidationStatus :: string
  res_ValidationRequired :: bool
  res_RequestedLoad :: "(string \<times> string) list"
  res_EffectiveLoad :: "(string \<times> string) list"
  res_DurationSeconds :: rat
  res_Metrics :: metric_set
  res_Warnings :: "string list"

definition metricsOf :: "summary \<Rightarrow> rat \<Rightarrow> metric_set" where
  "metricsOf s duration =
     \<lparr>m_QueriesPerSecond = fdiv (f64 (of_int (s_CompletedOperations s))) duration,
      m_QueryLatencyMean = mean (s_Latencies s),
      m_QueryLatencyP50 = percentile (s_Latencies s) (f64 (5 / 10)),
      m_QueryLatencyP75 = percentile (s_Latencies s) (f64 (75 / 100)),
      m_QueryLatencyP90 = percentile (s_Latencies s) (f64 (90 / 100)),
      m_QueryLatencyP95 = percentile (s_Latencies s) (f64 (95 / 100)),
      m_QueryLatencyP99 = percentile (s_Latencies s) (f64 (99 / 100)),
      m_ConnectionLatency = s_ConnectionLatencyMilliseconds s,
      m_CompletedOperations = s_CompletedOperations s,
      m_MalformedOperations = s_MalformedOperations s, m_RetryCount = s_RetryCount s,
      m_FailedOperations = s_FailedOperations s, m_TimedOutOperations = s_TimedOutOperations s,
      m_TotalTransferredBytes = s_TotalTransferredBytes s, m_EffectiveConcurrency = 1\<rparr>"

definition normalize :: "config \<Rightarrow> string \<Rightarrow> summary \<Rightarrow> (string \<times> string) list \<Rightarrow> result" where
  "normalize cfg scenario s requested =
     (let duration = (if s_DurationSeconds s \<le> 0 then 1 else s_DurationSeconds s)
      in \<lparr>res_SchemaVersion = ''protocol-lab.dns-classic-executor-result.v1'',
          res_ScenarioID = scenario, res_LoadProfileID = ProfileID, res_Status = ''passed'',
          res_Executor = (ExecutorID cfg, Version), res_LoadGenerator = (LoadGeneratorID cfg, Version),
          res_RequestedProtocol = protocolVariant scenario,
          res_ObservedProtocol = protocolVariant scenario, res_FallbackDetected = False,
          res_DNS = s_LastProof s, res_ValidationStatus = ''passed'', res_ValidationRequired = True,
          res_RequestedLoad = requested,
          res_EffectiveLoad = [(''connections'', ''1''), (''concurrency'', ''1''),
            (''outstandingQueries'', ''1''), (''connectionReuse'', ''reuse'')],
          res_DurationSeconds = duration, res_Metrics = metricsOf s duration,
          res_Warnings = [''diagnostic-only; non-publishable classic DNS calibration'']\<rparr>)"

section \<open>Configuration and identity\<close>

definition envInt :: "env \<Rightarrow> string \<Rightarrow> int" where
  "envInt getenv name =
     (case atoi (trimSpace (getenv name)) of (v, Some e) \<Rightarrow> 0 | (v, None) \<Rightarrow> v)"

definition loadConfig :: "env \<Rightarrow> (string \<times> string) list go" where
  "loadConfig getenv =
     (if trimSpace (getenv ''PLAB_LOAD_PROFILE_ID'') \<noteq> ProfileID
      then Inl (Errorf (''supports load profile '' @ quoted ProfileID @ '' only''))
      else if envInt getenv ''PLAB_CONNECTIONS'' \<noteq> 1 \<or> envInt getenv ''PLAB_CONCURRENCY'' \<noteq> 1 \<or>
          envInt getenv ''PLAB_DURATION_SECONDS'' \<noteq> 5 \<or> envInt getenv ''PLAB_WARMUP_SECONDS'' \<noteq> 1 \<or>
          envInt getenv ''PLAB_REPETITION'' \<noteq> 1
      then Inl (Errorf ''dns-classic-diagnostic requires 1/1/5/1/1'')
      else Inr [(''connections'', ''1''), (''concurrency'', ''1''), (''outstandingQueries'', ''1''),
                (''connectionReuse'', ''reuse''), (''durationSeconds'', ''5''),
                (''warmupSeconds'', ''1''), (''repetition'', ''1''),
                (''queryTimeoutMilliseconds'', ''5000''), (''maxRetries'', ''0'')])"

definition verify :: "env \<Rightarrow> string \<Rightarrow> string \<Rightarrow> bool" where
  \<comment> \<open>\<open>False\<close> is the substitution that ends the process with code 2\<close>
  "verify getenv name expected \<longleftrightarrow>
     trimSpace (getenv name) = '''' \<or> trimSpace (getenv name) = expected"

definition allDNS :: "string list" where
  "allDNS =
     [''dns.dot.query.a'', ''dns.doh2.query.a'', ''dns.doh3.get.a'', ''dns.doh3.query.a'',
      ''dns.doh3.query.aaaa'', ''dns.doh3.query.cname-chain'',
      ''dns.doh3.query.large-dnssec-shaped'', ''dns.doh3.query.nodata'',
      ''dns.doh3.query.nxdomain'', ''dns.doq.query.a'', ''dns.classic.udp.query.a'',
      ''dns.classic.tcp.query.a'', ''dns.classic.udp-truncated-tcp-retry'']"

datatype identity = Scenario string | Exit nat

definition checkIdentity :: "config \<Rightarrow> env \<Rightarrow> identity" where
  "checkIdentity cfg getenv =
     (if \<not> (verify getenv ''PLAB_EXECUTOR_ID'' (ExecutorID cfg) \<and>
             verify getenv ''PLAB_EXECUTOR_VERSION'' Version \<and>
             verify getenv ''PLAB_LOAD_GENERATOR_ID'' (LoadGeneratorID cfg) \<and>
             verify getenv ''PLAB_LOAD_GENERATOR_VERSION'' Version) then Exit 2
      else (let scenario = trimSpace (getenv ''PLAB_SCENARIO_ID'') in
        if scenario \<in> set (Supported cfg) then Scenario scenario
        else if scenario \<in> set allDNS then Exit 3
        else Exit 2))"

section \<open>The run after the target address is known\<close>

record validation_doc =
  v_SchemaVersion :: string
  v_Executor :: "string \<times> string"
  v_ScenarioID :: string
  v_Status :: string
  v_Checks :: "(string \<times> bool) list"
  v_Completed :: int
  v_Malformed :: int
  v_Retries :: int
  v_Failed :: int
  v_TimedOut :: int

definition validationDoc :: "config \<Rightarrow> string \<Rightarrow> summary \<Rightarrow> go_error option \<Rightarrow> validation_doc" where
  "validationDoc cfg scenario s err =
     (let passed = err = None \<and> s_CompletedOperations s = 1 \<and> \<not> hasFailures s
      in \<lparr>v_SchemaVersion = ''protocol-lab.validation.v1'', v_Executor = (ExecutorID cfg, Version),
          v_ScenarioID = scenario, v_Status = (if passed then ''passed'' else ''failed''),
          v_Checks = [(''exact-binding'', passed), (''canonical-fixture'', passed),
              (''message-id-correlation-and-normalization'', passed),
              (''local-authority-no-recursion-cache-upstream'', passed),
              (''zero-unexpected-outcomes'', passed)] @
            (if scenario = ''dns.classic.udp-truncated-tcp-retry''
             then [(''udp-tc-single-identical-question-tcp-retry'', passed)] else []),
          v_Completed = s_CompletedOperations s, v_Malformed = s_MalformedOperations s,
          v_Retries = s_RetryCount s, v_Failed = s_FailedOperations s,
          v_TimedOut = s_TimedOutOperations s\<rparr>)"

text \<open>What one invocation writes, in order, and its exit code. Every \<^verbatim>\<open>write\<close> succeeds; the
  last \<^verbatim>\<open>result.json\<close> written is what a consumer sees.\<close>

datatype artifact =
    ValidationJson validation_doc | ResultValidation validation_doc
  | WireSummary dns_proof | ProtocolProof string "dns_proof option" | ExecutorIdentity string
  | WarmupSummary summary | LoadSummary summary
  | LoadGeneratorIdentity "string \<times> string" | ExecutorResult result | ResultJson result

type_synonym phase_run = "summary \<times> go_error option"

definition Run ::
  "config \<Rightarrow> env \<Rightarrow> string \<Rightarrow> bool \<Rightarrow> phase_run \<Rightarrow> phase_run \<Rightarrow> phase_run \<Rightarrow> artifact list \<times> nat" where
  \<comment> \<open>the three phases are what \<open>runPhase\<close> returns for them; a phase that is not reached
      contributes nothing\<close>
  "Run cfg getenv scenario validationOnly preflight warmup measured =
     (let doc = validationDoc cfg scenario (fst preflight) (snd preflight);
          gate = [ValidationJson doc, ResultValidation doc] @
            (case s_LastProof (fst preflight) of None \<Rightarrow> [] | Some p \<Rightarrow> [WireSummary p]) @
            [ProtocolProof (protocolVariant scenario) (s_LastProof (fst preflight)),
             ExecutorIdentity (ExecutorID cfg)]
      in if snd preflight \<noteq> None then (gate, 1)
         else if validationOnly then (gate, 0)
         else (case loadConfig getenv of
             Inl e \<Rightarrow> (gate, 2)
           | Inr requested \<Rightarrow>
               if snd warmup \<noteq> None \<or> hasFailures (fst warmup)
               then (gate @ [WarmupSummary (fst warmup)], 1)
               else if snd measured \<noteq> None \<or> hasFailures (fst measured)
               then (gate @ [WarmupSummary (fst warmup), LoadSummary (fst measured)], 1)
               else (let res = normalize cfg scenario (fst measured) requested in
                 (gate @ [WarmupSummary (fst warmup), LoadSummary (fst measured),
                    LoadGeneratorIdentity (res_LoadGenerator res), ExecutorResult res, ResultJson res],
                  0))))"

section \<open>The fixtures and their digests\<close>

lemma mustHex_decode:
  "hexOk v \<Longrightarrow> hexDecode v = Some (mustHex v) \<and> length (mustHex v) = length v div 2"
  using hexDecode_ok [of v] by (auto simp: mustHex_def)

lemma hash_mustHex:
  assumes "hexOk v" "length v = 2 * n"
    and "hexDecode p = Some ([0x80] @ replicate ((119 - n mod 64) mod 64) 0 @ be64 (of_nat (8 * n)))"
  shows "hash (mustHex v) = hexState (shaAbsorbB (stateBits shaInit) (wordsBits (hexBits (v @ p))))"
  using mustHex_decode [OF assms(1)] assms(2,3) unfolding hash_def
  by (intro sha256Hex_eval) auto

lemma fixture_length [simp]:
  "length aQuery = 27"
  "length aResponse = 43"
  "length largeQuery = 45"
  "length truncatedResponse = 45"
  "length largeResponse = 630"
  by (simp_all add: aQuery_def aResponse_def largeQuery_def truncatedResponse_def
      largeResponse_def mustHex_decode hexOk_def hexVal_def)

lemma pad_45:
  "hexDecode (''80000000000000000000000000000000000168'') =
     Some ([0x80] @ replicate ((119 - 45 mod 64) mod 64) 0 @ be64 (of_nat (8 * 45)))"
  by code_simp

lemma pad_630:
  "hexDecode (''800000000000000013b0'') =
     Some ([0x80] @ replicate ((119 - 630 mod 64) mod 64) 0 @ be64 (of_nat (8 * 630)))"
  by code_simp

lemma hash_aQuery: "hash aQuery = aQueryHash"
  unfolding aQuery_def aQueryHash_def
  by (subst hash_mustHex [OF _ _ pad_27]) (simp_all only: sha_eval, simp_all add: hexOk_def hexVal_def)

lemma hash_aResponse: "hash aResponse = aResponseHash"
  unfolding aResponse_def aResponseHash_def
  by (subst hash_mustHex [OF _ _ pad_43]) (simp_all only: sha_eval, simp_all add: hexOk_def hexVal_def)

lemma hash_largeQuery: "hash largeQuery = largeQueryHash"
  unfolding largeQuery_def largeQueryHash_def
  by (subst hash_mustHex [OF _ _ pad_45]) (simp_all only: sha_eval, simp_all add: hexOk_def hexVal_def)

lemma hash_truncatedResponse: "hash truncatedResponse = truncatedHash"
  unfolding truncatedResponse_def truncatedHash_def
  by (subst hash_mustHex [OF _ _ pad_45]) (simp_all only: sha_eval, simp_all add: hexOk_def hexVal_def)

lemma hash_largeResponse: "hash largeResponse = largeResponseHash"
  unfolding largeResponse_def largeResponseHash_def
  by (subst hash_mustHex [OF _ _ pad_630]) (simp_all only: sha_eval, simp_all add: hexOk_def hexVal_def)

text \<open>The first four bytes of each template: the message ID zero and the flag bytes.\<close>

lemma take_mustHex:
  "hexOk v \<Longrightarrow> take 8 v = w \<Longrightarrow> hexDecode w = Some b \<Longrightarrow> take 4 (mustHex v) = b"
  using hexDecode_take [of v "mustHex v" 4] mustHex_decode [of v] by simp

lemma fixture_head:
  "take 4 aQuery = [0, 0, 0, 0]" "take 4 aResponse = [0, 0, 0x84, 0]"
  "take 4 largeQuery = [0, 0, 0, 0]" "take 4 truncatedResponse = [0, 0, 0x86, 0]"
  "take 4 largeResponse = [0, 0, 0x84, 0]"
  unfolding aQuery_def aResponse_def largeQuery_def truncatedResponse_def largeResponse_def
  by (rule take_mustHex, simp add: hexOk_def hexVal_def, simp, simp add: hexVal_def)+

lemma withID_simps [simp]:
  "uint16 (withID m mid) = mid" "withID (withID m i) j = withID m j"
  "2 \<le> length m \<Longrightarrow> length (withID m mid) = length m"
  by (simp_all add: withID_def)

lemma withID_nth [simp]: "2 \<le> i \<Longrightarrow> i < length m \<Longrightarrow> withID m mid ! i = m ! i"
  by (simp add: withID_def nth_append)
    (metis le_add_diff_inverse add_2_eq_Suc)

text \<open>What the checks of \<open>validate\<close> amount to.\<close>

definition validResponse :: "bytes \<Rightarrow> bytes \<Rightarrow> string \<Rightarrow> string \<Rightarrow> u16 \<Rightarrow> bool" where
  "validResponse query response queryDigest responseDigest mid \<longleftrightarrow>
     12 \<le> length response \<and> hash (withID query 0) = queryDigest \<and> uint16 response = mid \<and>
     hash (withID response 0) = responseDigest \<and>
     (response ! 2) AND 0x04 \<noteq> 0 \<and> (response ! 3) AND 0x80 = 0"

lemma validate_None:
  "snd (validate query response fx tr fr qd rd mid) = None \<longleftrightarrow> validResponse query response qd rd mid"
  by (simp add: validate_def validResponse_def observe_def Let_def)

lemma validate_ok:
  "validResponse query response qd rd mid \<Longrightarrow>
   validate query response fx tr fr qd rd mid = (observe query response fx tr fr mid, None)"
  by (simp add: validate_def validResponse_def observe_def Let_def)

lemma validate_error:
  "snd (validate query response fx tr fr qd rd mid) = Some e \<Longrightarrow> asMalformed e"
  by (auto simp: validate_def Let_def split: if_splits)

section \<open>A target that holds a fixture\<close>

text \<open>
  The interface between the executor and any target it can pass against: the target answers
  the query template, with any non-zero message ID, by the response template with that ID; the
  templates are what the digests say. Under it every exchange succeeds, over UDP and over TCP.
\<close>

locale fixture_target =
  fixes respond :: "bytes \<Rightarrow> bytes go"
    and queryTemplate responseTemplate :: bytes
    and queryDigest responseDigest :: string
  assumes respond: "mid \<noteq> 0 \<Longrightarrow> respond (withID queryTemplate mid) = Inr (withID responseTemplate mid)"
    and query_length: "2 \<le> length queryTemplate" "length queryTemplate < 65536"
    and response_length: "12 \<le> length responseTemplate" "length responseTemplate < 65536"
    and query_zero: "withID queryTemplate 0 = queryTemplate"
    and response_zero: "withID responseTemplate 0 = responseTemplate"
    and query_digest: "hash queryTemplate = queryDigest"
    and response_digest: "hash responseTemplate = responseDigest"
    and flags: "(responseTemplate ! 2) AND 0x04 \<noteq> 0" "(responseTemplate ! 3) AND 0x80 = 0"
begin

lemma valid:
  assumes "mid \<noteq> 0"
  shows "validResponse (withID queryTemplate mid) (withID responseTemplate mid)
    queryDigest responseDigest mid"
  using response_length flags
  by (simp add: validResponse_def query_zero response_zero query_digest response_digest)

text \<open>The target behind a UDP socket: the datagram it answers is read back, a rejected query
  times out.\<close>

definition udp :: udp_sock where
  "udp q = Inr (case respond q of Inl e \<Rightarrow> Inl TimeoutError | Inr r \<Rightarrow> Inr r)"

lemma exchangeUDP_ok:
  assumes "mid \<noteq> 0"
  shows "exchangeUDP udp queryTemplate responseTemplate fx queryDigest responseDigest mid
      ((responseTemplate ! 2) AND 0x02 \<noteq> 0) =
    ((observe (withID queryTemplate mid) (withID responseTemplate mid) fx ''udp''
        ''bare-dns-message-datagram'' mid)
       \<lparr>p_UDPTruncated := (responseTemplate ! 2) AND 0x02 \<noteq> 0\<rparr>,
     int (length queryTemplate + length responseTemplate), 0, None)"
  using query_length response_length
  by (simp add: exchangeUDP_def udp_def respond [OF assms] validate_ok [OF valid [OF assms]])

text \<open>The target behind a TCP connection: after the write, the framed response is what there is
  to read.\<close>

lemma exchangeTCP_ok:
  assumes "mid \<noteq> 0" and "peer (frame (withID queryTemplate mid)) c = Inr c0"
    and "conn_in c0 = frame (withID responseTemplate mid)"
  shows "exchangeTCP peer c queryTemplate responseTemplate fx queryDigest responseDigest mid =
    (((observe (withID queryTemplate mid) (withID responseTemplate mid) fx ''tcp''
         ''two-octet-network-order-length-prefix'' mid)
        \<lparr>p_RequestWireHex := hexEncode (frame (withID queryTemplate mid)),
         p_ResponseWireHex := hexEncode (frame (withID responseTemplate mid))\<rparr>,
      int (length queryTemplate + length responseTemplate + 4), 0, None), c0\<lparr>conn_in := []\<rparr>)"
proof -
  have "readFull 2 c0 = (Inr (be16 (of_nat (length responseTemplate))),
      c0\<lparr>conn_in := withID responseTemplate mid\<rparr>)"
    using response_length assms(3) by (simp add: readFull_def frame_def)
  moreover have "readFull (length responseTemplate) (c0\<lparr>conn_in := withID responseTemplate mid\<rparr>) =
      (Inr (withID responseTemplate mid), c0\<lparr>conn_in := []\<rparr>)"
    using response_length by (simp add: readFull_def)
  ultimately show ?thesis
    using assms(2) query_length response_length
    by (simp add: exchangeTCP_def Let_def unat_of_nat validate_ok [OF valid [OF assms(1)]])
      (simp add: frame_def)
qed

end

section \<open>What a phase counts\<close>

text \<open>The invariant of the loop of \<open>runPhase\<close>: no failure yet, and one latency per completed
  operation.\<close>

definition clean :: "summary \<Rightarrow> bool" where
  "clean s \<longleftrightarrow> s_MalformedOperations s = 0 \<and> s_FailedOperations s = 0 \<and> s_TimedOutOperations s = 0 \<and>
     s_Errors s = Map.empty \<and> s_CompletedOperations s = int (length (s_Latencies s)) \<and>
     (s_LastProof s = None \<longleftrightarrow> s_Latencies s = [])"

definition failures :: "summary \<Rightarrow> int" where
  "failures s = s_MalformedOperations s + s_FailedOperations s + s_TimedOutOperations s"

lemma clean_step:
  "clean s \<Longrightarrow> clean (recordSuccess p us (recordTransfer n k s))"
  by (simp add: clean_def recordSuccess_def recordTransfer_def)

lemma clean_failures: "clean s \<Longrightarrow> failures s = 0"
  by (simp add: clean_def failures_def)

lemma clean_new: "clean ((newSummary once)\<lparr>s_ConnectionLatencyMilliseconds := l\<rparr>)"
  by (simp add: clean_def newSummary_def)

text \<open>A failed operation is counted once, in the class of its error, with its text.\<close>

lemma recordFailure_counts:
  assumes "clean s"
  shows "failures (recordFailure e (recordTransfer n k s)) = 1 \<and>
    s_Errors (recordFailure e (recordTransfer n k s)) = [errorText e \<mapsto> 1] \<and>
    s_CompletedOperations (recordFailure e (recordTransfer n k s)) =
      int (length (s_Latencies (recordFailure e (recordTransfer n k s)))) \<and>
    length (s_Latencies (recordFailure e (recordTransfer n k s))) = length (s_Latencies s)"
  using assms by (simp add: clean_def failures_def recordFailure_def recordTransfer_def countError_def)

lemma phaseLoop_counts:
  assumes "clean s" "phaseLoop scenario once rs mid c s = (s', err)"
  shows "s_CompletedOperations s' = int (length (s_Latencies s')) \<and>
    length (s_Latencies s') \<le> length (s_Latencies s) + length rs \<and>
    (once \<longrightarrow> length (s_Latencies s') \<le> length (s_Latencies s) + 1) \<and>
    (case err of None \<Rightarrow> clean s' | Some e \<Rightarrow> failures s' = 1 \<and> s_Errors s' = [errorText e \<mapsto> 1])"
  using assms
proof (induction rs arbitrary: mid c s)
  case Nil
  then show ?case by (auto simp: clean_def)
next
  case (Cons r rs)
  obtain p n k e c' where x: "exchange (r_udp r) (r_tcp r) c scenario mid = ((p, n, k, e), c')"
    by (metis prod.exhaust)
  let ?s = "recordSuccess p (r_micros r) (recordTransfer n k s)"
  have len: "length (s_Latencies ?s) = Suc (length (s_Latencies s))"
    by (simp add: recordSuccess_def recordTransfer_def)
  show ?case
  proof (cases e)
    case (Some err')
    then show ?thesis
      using Cons.prems x recordFailure_counts [OF Cons.prems(1), of err' n k] by auto
  next
    case None
    have ok: "clean ?s" by (rule clean_step [OF Cons.prems(1)])
    show ?thesis
    proof (cases once)
      case True
      then have "s' = ?s" "err = None" using Cons.prems x None by simp_all
      then show ?thesis using ok len by (simp add: clean_def)
    next
      case False
      then have "phaseLoop scenario False rs (nextID mid) c' ?s = (s', err)"
        using Cons.prems x None by simp
      with Cons.IH [of ?s "nextID mid" c'] ok len False show ?thesis by simp
    qed
  qed
qed

text \<open>C4: Accounting of a phase, whatever the target does. The completed operations are the
  recorded latencies, at most one per round, and at most one in the preflight. A phase that
  returns no error counted no malformed, failed or timed-out operation; a phase that returns an
  error stopped at its first failure, counted in exactly one class.\<close>

theorem runPhase_accounting:
  "case runPhase env scenario once rounds c elapsed of (s, err) \<Rightarrow>
     s_CompletedOperations s = int (length (s_Latencies s)) \<and>
     length (s_Latencies s) \<le> (if once then min 1 (length rounds) else length rounds) \<and>
     failures s = (if err = None then 0 else 1)"
proof (cases "openPhaseClient env scenario")
  case (fields client latency e)
  let ?s = "(newSummary once)\<lparr>s_ConnectionLatencyMilliseconds := latency\<rparr>"
  obtain s err where l: "phaseLoop scenario once rounds 1 c ?s = (s, err)"
    by (metis prod.exhaust)
  have empty: "s_Latencies ?s = []" by (simp add: newSummary_def)
  show ?thesis
  proof (cases e)
    case (Some e')
    then show ?thesis using fields by (simp add: runPhase_def newSummary_def failures_def)
  next
    case None
    show ?thesis
      using phaseLoop_counts [OF clean_new l] empty fields None l
      by (cases err) (auto simp: runPhase_def clean_failures failures_def clean_def)
  qed
qed

section \<open>Message IDs\<close>

text \<open>The IDs of a phase are odd, so the wrap-around of \<open>nextID\<close> is never zero and the ID of the
  single retry, the next number, is never the ID of an outstanding query.\<close>

definition phaseID :: "nat \<Rightarrow> u16" where
  "phaseID k = (nextID ^^ k) 1"

lemma nextID_odd: "odd mid \<Longrightarrow> odd (nextID mid) \<and> nextID mid = mid + 2"
proof -
  assume "odd mid"
  then have "odd (mid + 2)" by simp
  then have "mid + 2 \<noteq> 0" by (metis even_zero)
  with \<open>odd (mid + 2)\<close> show ?thesis by (simp add: nextID_def)
qed

lemma phaseID_odd: "odd (phaseID k)"
  unfolding phaseID_def by (induction k) (auto simp: nextID_odd)

lemma phaseID_closed: "phaseID k = of_nat (2 * k + 1)"
proof (induction k)
  case (Suc k)
  then show ?case
    using phaseID_odd [of k] nextID_odd [of "phaseID k"] by (simp add: phaseID_def algebra_simps)
qed (simp add: phaseID_def)

lemma odd_nonzero: "odd (mid :: u16) \<Longrightarrow> mid \<noteq> 0"
  by auto

lemma retryID_nonzero [simp]: "retryID mid \<noteq> 0"
  by (simp add: retryID_def)

lemma retryID_fresh [simp]: "retryID mid \<noteq> mid"
  by (auto simp: retryID_def)

text \<open>C5: The message IDs of a phase, for as many rounds as it runs: the \<open>k\<close>-th ID is \<open>2k + 1\<close>
  modulo 65536, so it is odd and never zero, the reset of the ID to 1 in the loop is never taken,
  and the ID of the TCP retry is never zero and never that of the UDP query it retries, also at
  the wrap-around.\<close>

theorem message_ids:
  "phaseID k = of_nat (2 * k + 1) \<and> odd (phaseID k) \<and> nextID (phaseID k) = phaseID k + 2 \<and>
   retryID (phaseID k) \<noteq> 0 \<and> retryID (phaseID k) \<noteq> phaseID k"
  using nextID_odd [OF phaseID_odd [of k]] phaseID_odd [of k] phaseID_closed [of k] by simp

section \<open>A phase against a target that answers\<close>

text \<open>The connection changes from round to round; \<open>served\<close> is what the rounds keep of it.\<close>

lemma phaseLoop_replay:
  assumes "\<And>r m c. r \<in> set rs \<Longrightarrow> odd m \<Longrightarrow> served c \<Longrightarrow>
      \<exists>c'. exchange (r_udp r) (r_tcp r) c scenario m = ((pf m, n, k, None), c') \<and> served c'"
    and "odd mid" "served c"
  shows "phaseLoop scenario False rs mid c s =
    (s\<lparr>s_CompletedOperations := s_CompletedOperations s + int (length rs),
       s_RetryCount := s_RetryCount s + int (length rs) * k,
       s_TotalTransferredBytes := s_TotalTransferredBytes s + int (length rs) * n,
       s_Latencies := s_Latencies s @ map (\<lambda>r. millis (r_micros r)) rs,
       s_LastProof := (if rs = [] then s_LastProof s
                       else Some (pf ((nextID ^^ (length rs - 1)) mid)))\<rparr>, None)"
  using assms
proof (induction rs arbitrary: mid c s)
  case (Cons r rs)
  obtain c' where x: "exchange (r_udp r) (r_tcp r) c scenario mid = ((pf mid, n, k, None), c')" "served c'"
    using Cons.prems(1) [of r mid c] Cons.prems(2,3) by auto
  have "(nextID ^^ length rs) mid = (nextID ^^ (length rs - 1)) (nextID mid)" if "rs \<noteq> []"
    using that by (cases rs) (simp_all add: funpow_swap1)
  moreover note Cons.IH [of "nextID mid" c']
  ultimately show ?case
    using Cons.prems(1) x(2) conjunct1 [OF nextID_odd [OF Cons.prems(2)]]
    by (auto simp: x(1) recordSuccess_def recordTransfer_def algebra_simps)
qed simp

section \<open>Percentiles\<close>

lemma percentile_nearestRank: "percentile = nearestRank"
  by (simp add: fun_eq_iff percentile_def nearestRank_def percentileIndex_def rankIndex_def)

text \<open>The latency percentiles of a result are ordered, p50 below p75 below p90 below p95
  below p99, and each is one of the measured latencies (zero when there is none), with the
  double-precision arithmetic of the code.\<close>

theorem metrics_ordered:
  "m_QueryLatencyP50 (metricsOf s d) \<le> m_QueryLatencyP75 (metricsOf s d) \<and>
   m_QueryLatencyP75 (metricsOf s d) \<le> m_QueryLatencyP90 (metricsOf s d) \<and>
   m_QueryLatencyP90 (metricsOf s d) \<le> m_QueryLatencyP95 (metricsOf s d) \<and>
   m_QueryLatencyP95 (metricsOf s d) \<le> m_QueryLatencyP99 (metricsOf s d) \<and>
   {m_QueryLatencyP50 (metricsOf s d), m_QueryLatencyP75 (metricsOf s d),
    m_QueryLatencyP90 (metricsOf s d), m_QueryLatencyP95 (metricsOf s d),
    m_QueryLatencyP99 (metricsOf s d)} \<subseteq> (if s_Latencies s = [] then {0} else set (s_Latencies s))"
  by (auto simp: metricsOf_def percentile_nearestRank nearestRank_in_set
      intro!: nearestRank_mono f64_mono)

section \<open>The gate of a run\<close>

definition passedPhase :: "phase_run \<Rightarrow> bool" where
  "passedPhase ph \<longleftrightarrow> snd ph = None \<and> \<not> hasFailures (fst ph)"

text \<open>A run exits with code 0 exactly when the preflight returned no error and, unless it
  was asked for the validation only, the load configuration was the pinned one and the warm-up
  and the measured phase passed. A normalized result is written exactly in the runs that exit
  with code 0 after measuring.\<close>

theorem Run_gate:
  "case Run cfg getenv scenario validationOnly pre warm meas of (written, code) \<Rightarrow>
     (code = 0 \<longleftrightarrow> snd pre = None \<and>
        (validationOnly \<or> (\<exists>r. loadConfig getenv = Inr r) \<and> passedPhase warm \<and> passedPhase meas)) \<and>
     ((\<exists>res. ResultJson res \<in> set written) \<longleftrightarrow> code = 0 \<and> \<not> validationOnly) \<and>
     code \<in> {0, 1, 2}"
  by (auto simp: Run_def Let_def passedPhase_def split: sum.splits option.splits)

end
