(* ===== verification/Dns_Interop.thy ===== *)
theory Dns_Interop
  imports Dns_Authority Dns_Executor
begin

text \<open>
  The classic DNS executor run against the classic DNS authority. The two programs share no
  code: each has its own copy of the fixtures, of the digests and of the framing. This theory
  shows that the copies agree, interprets the executor's interface to a target
  (\<open>fixture_target\<close>) on the authority's query function for the three fixtures, and concludes
  that every exchange, every phase and a whole run succeed, with the exact byte and retry counts.
\<close>

section \<open>The two copies agree\<close>

lemma frame_agree: "Dns_Authority.frame = Dns_Executor.frame"
  by (simp add: fun_eq_iff Dns_Authority.frame_def Dns_Executor.frame_def)

lemma putID_withID: "putID = withID"
  by (simp add: fun_eq_iff putID_def withID_def)

lemma hash_agree: "Dns_Authority.hash = Dns_Executor.hash"
  by (simp add: fun_eq_iff Dns_Authority.hash_def Dns_Executor.hash_def)

lemma mustHex_agree: "Dns_Authority.mustHex = Dns_Executor.mustHex"
  by (simp add: fun_eq_iff Dns_Authority.mustHex_def Dns_Executor.mustHex_def)

lemma digests_agree:
  "Dns_Authority.aQueryHash = Dns_Executor.aQueryHash"
  "Dns_Authority.largeQueryHash = Dns_Executor.largeQueryHash"
  by (simp_all only: Dns_Authority.aQueryHash_def Dns_Executor.aQueryHash_def
      Dns_Authority.largeQueryHash_def Dns_Executor.largeQueryHash_def)

lemma templates_agree:
  "Dns_Authority.aResponse = Dns_Executor.aResponse"
  "Dns_Authority.truncatedResponse = Dns_Executor.truncatedResponse"
  "Dns_Authority.largeResponse = Dns_Executor.largeResponse"
  unfolding Dns_Authority.aResponse_def Dns_Executor.aResponse_def
    Dns_Authority.truncatedResponse_def Dns_Executor.truncatedResponse_def
    Dns_Authority.largeResponse_def Dns_Executor.largeResponse_def mustHex_agree
  by (rule refl)+

lemmas agree = frame_agree putID_withID hash_agree digests_agree templates_agree

lemma query_digests_differ: "Dns_Executor.largeQueryHash \<noteq> Dns_Executor.aQueryHash"
  by (simp add: Dns_Executor.largeQueryHash_def Dns_Executor.aQueryHash_def)

text \<open>Setting the ID of a template to zero changes nothing: its first two bytes are zero.\<close>

lemma withID_zero:
  "take 4 m = 0 # 0 # r \<Longrightarrow> withID m 0 = m"
  by (cases m rule: list.exhaust [case_names Nil Cons]; cases "tl m")
    (auto simp: withID_def be16_def)

lemma nth_head: "take 4 m = [a, b, c, d] \<Longrightarrow> m ! 2 = c \<and> m ! 3 = d"
  using nth_take [of 2 4 m] nth_take [of 3 4 m] by simp

lemma zero_ids:
  "withID aQuery 0 = aQuery" "withID largeQuery 0 = largeQuery"
  "withID Dns_Executor.aResponse 0 = Dns_Executor.aResponse"
  "withID Dns_Executor.truncatedResponse 0 = Dns_Executor.truncatedResponse"
  "withID Dns_Executor.largeResponse 0 = Dns_Executor.largeResponse"
  by (rule withID_zero, rule fixture_head)+

lemma flag_bytes:
  "Dns_Executor.aResponse ! 2 = 0x84" "Dns_Executor.aResponse ! 3 = 0"
  "Dns_Executor.truncatedResponse ! 2 = 0x86" "Dns_Executor.truncatedResponse ! 3 = 0"
  "Dns_Executor.largeResponse ! 2 = 0x84" "Dns_Executor.largeResponse ! 3 = 0"
  using nth_head [OF fixture_head(2)] nth_head [OF fixture_head(4)] nth_head [OF fixture_head(5)]
  by auto

section \<open>The authority as a target\<close>

lemma responseFor_a:
  "mid \<noteq> 0 \<Longrightarrow> responseFor (withID aQuery mid) udp = Inr (withID Dns_Executor.aResponse mid)"
  by (simp add: responseFor_def agree zero_ids hash_aQuery)

lemma responseFor_large:
  "mid \<noteq> 0 \<Longrightarrow> responseFor (withID largeQuery mid) udp =
     Inr (withID (if udp then Dns_Executor.truncatedResponse else Dns_Executor.largeResponse) mid)"
  by (simp add: responseFor_def agree zero_ids hash_largeQuery query_digests_differ)

interpretation a_target: fixture_target "\<lambda>q. responseFor q udp" aQuery Dns_Executor.aResponse
    Dns_Executor.aQueryHash aResponseHash for udp
  by unfold_locales
    (simp_all add: responseFor_a zero_ids hash_aQuery hash_aResponse flag_bytes)

interpretation truncated_target: fixture_target "\<lambda>q. responseFor q True" largeQuery
    Dns_Executor.truncatedResponse Dns_Executor.largeQueryHash truncatedHash
  by unfold_locales
    (simp_all add: responseFor_large zero_ids hash_largeQuery hash_truncatedResponse flag_bytes)

interpretation large_target: fixture_target "\<lambda>q. responseFor q False" largeQuery
    Dns_Executor.largeResponse Dns_Executor.largeQueryHash largeResponseHash
  by unfold_locales
    (simp_all add: responseFor_large zero_ids hash_largeQuery hash_largeResponse flag_bytes)

section \<open>The network between them\<close>

text \<open>A UDP exchange runs the authority's datagram loop on the one datagram; without an answer
  the executor's read times out.

  A phase has one TCP connection, which the authority serves by one run of its connection loop. At
  any moment the authority has read what the executor wrote on the connection so far, and has
  written \<open>authorityReplies\<close> of it. It still waits for input exactly when it would read one more
  byte; otherwise its loop has returned and closed the connection. A write of the executor
  therefore extends what the executor can read by the replies to all that was written, less
  those it had before, and the connection ends with a timeout (the deadline of the executor's read)
  while the authority waits and with the end of the file after it returned. \<open>t\<close> is the time of the
  write in microseconds since the connection was accepted: 30 seconds after that moment the deadline
  of the connection has passed, and the authority answers nothing more.\<close>

definition authorityUDP :: udp_sock where
  "authorityUDP q =
     (case fst (serveUDP [Datagram () q None]) of
        [] \<Rightarrow> Inr (Inl TimeoutError)
      | (_, r) # _ \<Rightarrow> Inr (Inr r))"

definition authoritySession :: "bytes \<Rightarrow> conn" where
  "authoritySession sent =
     snd (handleTCP \<lparr>conn_in = sent, conn_end = TimeoutError, conn_out = [], conn_cap = None\<rparr>)"

definition authorityReplies :: "bytes \<Rightarrow> bytes" where
  "authorityReplies sent = concat (conn_out (authoritySession sent))"

definition authorityWaits :: "bytes \<Rightarrow> bool" where
  "authorityWaits sent \<longleftrightarrow> conn_in (authoritySession (sent @ [0])) = []"

definition connectionDeadline :: int where
  "connectionDeadline = 30 * 10 ^ 6"

definition authorityTCP :: "int \<Rightarrow> tcp_peer" where
  "authorityTCP t written c =
     (let before = concat (conn_out c); sent = before @ written;
          live = t < connectionDeadline in
      Inr (c\<lparr>conn_out := conn_out c @ [written],
        conn_in := conn_in c @
          (if live then drop (length (authorityReplies before)) (authorityReplies sent) else []),
        conn_end := (if live \<and> authorityWaits sent then TimeoutError else EOF)\<rparr>))"

lemma authorityUDP_target:
  "authorityUDP = a_target.udp True" "authorityUDP = truncated_target.udp"
  by (auto simp: fun_eq_iff authorityUDP_def a_target.udp_def truncated_target.udp_def
      split: sum.splits prod.splits list.splits)

text \<open>The session of the executor: every query it wrote was accepted, the replies to all of them
  are read, and the authority waits for the next.\<close>

definition served :: "conn \<Rightarrow> bool" where
  "served c \<longleftrightarrow> conn_in c = [] \<and>
     (\<exists>qs. list_all tcpAccepted qs \<and> concat (conn_out c) = concat (map Dns_Authority.frame qs))"

lemma handleTCP_accepted:
  assumes "list_all tcpAccepted qs" "conn_in c = concat (map Dns_Authority.frame qs) @ r" "conn_cap c = None"
  shows "handleTCP c = handleTCP (c\<lparr>conn_in := r, conn_out := conn_out c @ map tcpAnswer qs\<rparr>)"
  using assms
proof (induction qs arbitrary: c)
  case (Cons q qs)
  let ?c = "c\<lparr>conn_in := concat (map Dns_Authority.frame qs) @ r, conn_out := conn_out c @ [tcpAnswer q]\<rparr>"
  have "tcpRound c = Inr ?c"
    using Cons.prems by (intro tcpRound_accept) simp_all
  then have "handleTCP c = handleTCP ?c" by (simp add: handleTCP.simps [of c])
  also have "\<dots> = handleTCP (?c\<lparr>conn_in := r, conn_out := conn_out ?c @ map tcpAnswer qs\<rparr>)"
    using Cons.prems by (intro Cons.IH) simp_all
  finally show ?case by simp
next
  case Nil
  then have "r = conn_in c" by simp
  then show ?case by simp
qed

lemma handleTCP_waits:
  assumes "length (conn_in c) < 2"
  shows "conn_out (snd (handleTCP c)) = conn_out c \<and> conn_in (snd (handleTCP c)) = []"
  using assms by (simp add: handleTCP.simps [of c] tcpRound_def readFull_def)

lemma authority_session:
  assumes "list_all tcpAccepted qs"
  shows "authorityReplies (concat (map Dns_Authority.frame qs)) = concat (map tcpAnswer qs)"
    and "authorityWaits (concat (map Dns_Authority.frame qs))"
proof -
  let ?c = "\<lambda>bs. \<lparr>conn_in = bs, conn_end = TimeoutError, conn_out = [], conn_cap = None\<rparr>"
  let ?s = "concat (map Dns_Authority.frame qs)"
  let ?d = "\<lambda>r. (?c r)\<lparr>conn_out := map tcpAnswer qs\<rparr>"
  have "handleTCP (?c (?s @ r)) = handleTCP (?d r)" for r
    using handleTCP_accepted [OF assms, of "?c (?s @ r)" r] by simp
  from this [of "[]"] this [of "[0]"]
  show "authorityReplies ?s = concat (map tcpAnswer qs)" "authorityWaits ?s"
    using handleTCP_waits [of "?d []"] handleTCP_waits [of "?d [0]"]
    by (simp_all add: authorityReplies_def authorityWaits_def authoritySession_def)
qed

lemma authorityTCP_answer:
  assumes "length q \<in> {27, 45}" "responseFor q False = Inr r" "served c" "t < connectionDeadline"
  shows "\<exists>c0. authorityTCP t (Dns_Executor.frame q) c = Inr c0 \<and> conn_in c0 = Dns_Executor.frame r \<and>
    conn_end c0 = TimeoutError \<and> served (c0\<lparr>conn_in := []\<rparr>)"
proof -
  from assms(1,2) have q: "tcpAccepted q" "tcpAnswer q = Dns_Executor.frame r"
    by (auto simp: tcpAccepted_def tcpAnswer_def responseFor_Inr frame_agree)
  from assms(3) obtain qs where
    qs: "list_all tcpAccepted qs" "concat (conn_out c) = concat (map Dns_Authority.frame qs)" "conn_in c = []"
    by (auto simp: served_def)
  have all: "list_all tcpAccepted (qs @ [q])" using qs(1) q(1) by simp
  have sent: "concat (map Dns_Authority.frame (qs @ [q])) = concat (conn_out c) @ Dns_Executor.frame q"
    using qs(2) by (simp add: frame_agree)
  note new = authority_session [OF all, unfolded sent]
  have "\<exists>ps. list_all tcpAccepted ps \<and> concat (conn_out c) @ Dns_Executor.frame q = concat (map Dns_Authority.frame ps)"
    using all sent by metis
  with new authority_session [OF qs(1)] qs assms(4) q(2) show ?thesis
    by (simp add: authorityTCP_def Let_def served_def)
qed

section \<open>Exchanges\<close>

definition supportedScenarios :: "string list" where
  "supportedScenarios =
     [''dns.classic.udp.query.a'', ''dns.classic.tcp.query.a'',
      ''dns.classic.udp-truncated-tcp-retry'']"

definition roundBytes :: "string \<Rightarrow> int" where
  "roundBytes scenario =
     (if scenario = ''dns.classic.udp.query.a'' then 27 + 43
      else if scenario = ''dns.classic.tcp.query.a'' then (2 + 27) + (2 + 43)
      else (45 + 45) + ((2 + 45) + (2 + 630)))"

definition roundRetries :: "string \<Rightarrow> int" where
  "roundRetries scenario = (if scenario = ''dns.classic.udp-truncated-tcp-retry'' then 1 else 0)"

text \<open>What the recorded proof has to say for a scenario.\<close>

definition provenFor :: "string \<Rightarrow> u16 \<Rightarrow> dns_proof \<Rightarrow> bool" where
  "provenFor scenario mid p \<longleftrightarrow>
     p_RuntimeMessageID p = mid \<and> p_ResponseMessageID p = mid \<and> p_MessageIDCorrelated p \<and>
     p_AuthoritativeAnswer p \<and> \<not> p_RecursionAvailable p \<and>
     (if scenario = ''dns.classic.udp-truncated-tcp-retry''
      then p_UDPTruncated p \<and> p_RetryCount p = 1 \<and> p_RetryMessageIDNew p \<and>
        p_TCPResponseLength p = 630 \<and> p_ResponseNormalizedSHA256 p = largeResponseHash
      else \<not> p_UDPTruncated p \<and> p_RetryCount p = 0 \<and>
        p_ResponseLengthBytes p = 43 \<and> p_ResponseNormalizedSHA256 p = aResponseHash)"

text \<open>A phase starts with a connection on which nothing was written.\<close>

definition idle :: conn where
  "idle = \<lparr>conn_in = [], conn_end = TimeoutError, conn_out = [], conn_cap = None\<rparr>"

lemma served_idle: "served idle"
  by (simp add: served_def idle_def exI [of _ "[]"])

definition exchangeProof :: "string \<Rightarrow> u16 \<Rightarrow> dns_proof" where
  "exchangeProof scenario mid = fst (fst (exchange authorityUDP (authorityTCP 0) idle scenario mid))"

text \<open>The TCP part of a round has to come before the deadline of the authority's connection.\<close>

definition timely :: "string \<Rightarrow> int \<Rightarrow> bool" where
  "timely scenario t \<longleftrightarrow> scenario = ''dns.classic.udp.query.a'' \<or> t < connectionDeadline"

lemmas udp_a = a_target.exchangeUDP_ok [of _ True, folded authorityUDP_target(1), unfolded flag_bytes]
lemmas udp_truncated =
  truncated_target.exchangeUDP_ok [folded authorityUDP_target(2), unfolded flag_bytes]


lemma tcp_a:
  assumes "mid \<noteq> 0" "served c" "t < connectionDeadline"
  shows "\<exists>c'. exchangeTCP (authorityTCP t) c aQuery Dns_Executor.aResponse fx
      Dns_Executor.aQueryHash aResponseHash mid =
    (((observe (withID aQuery mid) (withID Dns_Executor.aResponse mid) fx ''tcp''
         ''two-octet-network-order-length-prefix'' mid)
        \<lparr>p_RequestWireHex := hexEncode (Dns_Executor.frame (withID aQuery mid)),
         p_ResponseWireHex := hexEncode (Dns_Executor.frame (withID Dns_Executor.aResponse mid))\<rparr>,
      74, 0, None), c') \<and> served c'"
proof -
  obtain c0 where "authorityTCP t (Dns_Executor.frame (withID aQuery mid)) c = Inr c0"
    "conn_in c0 = Dns_Executor.frame (withID Dns_Executor.aResponse mid)" "served (c0\<lparr>conn_in := []\<rparr>)"
    using authorityTCP_answer [OF _ responseFor_a [OF assms(1)] assms(2,3)] by auto
  with a_target.exchangeTCP_ok [OF assms(1), of "authorityTCP t" c c0 fx] show ?thesis by simp
qed

lemma tcp_large:
  assumes "mid \<noteq> 0" "served c" "t < connectionDeadline"
  shows "\<exists>c'. exchangeTCP (authorityTCP t) c largeQuery Dns_Executor.largeResponse fx
      Dns_Executor.largeQueryHash largeResponseHash mid =
    (((observe (withID largeQuery mid) (withID Dns_Executor.largeResponse mid) fx ''tcp''
         ''two-octet-network-order-length-prefix'' mid)
        \<lparr>p_RequestWireHex := hexEncode (Dns_Executor.frame (withID largeQuery mid)),
         p_ResponseWireHex := hexEncode (Dns_Executor.frame (withID Dns_Executor.largeResponse mid))\<rparr>,
      679, 0, None), c') \<and> served c'"
proof -
  obtain c0 where "authorityTCP t (Dns_Executor.frame (withID largeQuery mid)) c = Inr c0"
    "conn_in c0 = Dns_Executor.frame (withID Dns_Executor.largeResponse mid)" "served (c0\<lparr>conn_in := []\<rparr>)"
    using authorityTCP_answer [OF _ responseFor_large [OF assms(1), of False] assms(2,3)] by auto
  with large_target.exchangeTCP_ok [OF assms(1), of "authorityTCP t" c c0 fx] show ?thesis by simp
qed

lemma observe_fields:
  "p_RuntimeMessageID (observe q (withID r mid) fx t f mid) = mid"
  "p_ResponseMessageID (observe q (withID r mid) fx t f mid) = mid"
  "p_MessageIDCorrelated (observe q (withID r mid) fx t f mid)"
  "p_ResponseLengthBytes (observe q (withID r mid) fx t f mid) = int (length (withID r mid))"
  "p_ResponseNormalizedSHA256 (observe q (withID r mid) fx t f mid) = Dns_Executor.hash (withID r 0)"
  "p_UDPTruncated (observe q r fx t f mid) = False"
  "p_RetryCount (observe q r fx t f mid) = 0"
  "4 \<le> length r \<Longrightarrow> p_AuthoritativeAnswer (observe q (withID r mid) fx t f mid) =
     ((r ! 2) AND 0x04 \<noteq> 0)"
  "4 \<le> length r \<Longrightarrow> p_RecursionAvailable (observe q (withID r mid) fx t f mid) =
     ((r ! 3) AND 0x80 \<noteq> 0)"
  by (simp_all add: observe_def noProof_def)

lemma exchange_authority:
  assumes "scenario \<in> set supportedScenarios" "mid \<noteq> 0" "served c" "timely scenario t"
  shows "(\<exists>c'. exchange authorityUDP (authorityTCP t) c scenario mid =
      ((exchangeProof scenario mid, roundBytes scenario, roundRetries scenario, None), c') \<and> served c') \<and>
    provenFor scenario mid (exchangeProof scenario mid)"
proof -
  have now: "0 < connectionDeadline" by (simp add: connectionDeadline_def)
  consider "scenario = ''dns.classic.udp.query.a''" | "scenario = ''dns.classic.tcp.query.a''"
    | "scenario = ''dns.classic.udp-truncated-tcp-retry''"
    using assms(1) by (auto simp: supportedScenarios_def)
  then show ?thesis
  proof cases
    case 1
    then show ?thesis
      using udp_a [OF assms(2), of aFixtureID] assms(3)
      by (simp add: exchangeProof_def exchange_def roundBytes_def roundRetries_def provenFor_def
          observe_fields zero_ids hash_aResponse flag_bytes)
  next
    case 2
    then have "t < connectionDeadline" using assms(4) by (simp add: timely_def)
    with 2 show ?thesis
      using tcp_a [OF assms(2,3), of t aFixtureID] tcp_a [OF assms(2) served_idle now, of aFixtureID]
      by (auto simp: exchangeProof_def exchange_def roundBytes_def roundRetries_def provenFor_def
          observe_fields zero_ids hash_aResponse flag_bytes)
  next
    case 3
    then have "t < connectionDeadline" using assms(4) by (simp add: timely_def)
    with 3 show ?thesis
      using udp_truncated [OF assms(2), of largeFixtureID]
        tcp_large [OF retryID_nonzero [of mid] assms(3), of t largeFixtureID]
        tcp_large [OF retryID_nonzero [of mid] served_idle now, of largeFixtureID]
      by (auto simp: exchangeProof_def exchange_def roundBytes_def roundRetries_def provenFor_def
          observe_fields zero_ids hash_largeResponse flag_bytes)
  qed
qed

text \<open>Every exchange of the executor with the authority succeeds, on a fresh connection or after any
  number of accepted queries on the same one: for each of the three scenarios and every non-zero
  message ID, the response passes the digest, ID and flag checks, the transferred bytes are those of
  the wire messages (with the TCP prefixes), the connection is left with nothing unread and all
  queries accepted, and the retry scenario is one truncated UDP answer followed by exactly one
  TCP retry under a new message ID that brings the 630 byte answer.\<close>

theorem exchange_interop:
  assumes "scenario \<in> set supportedScenarios" and "mid \<noteq> 0" and "served c" and "timely scenario t"
  shows "\<exists>p c'. exchange authorityUDP (authorityTCP t) c scenario mid =
      ((p, roundBytes scenario, roundRetries scenario, None), c') \<and> served c' \<and> provenFor scenario mid p"
  using exchange_authority [OF assms] by blast

theorem exchange_interop_witness:
  "\<exists>p c'. exchange authorityUDP (authorityTCP 100) idle ''dns.classic.udp-truncated-tcp-retry'' 65535 =
      ((p, 769, 1, None), c') \<and> provenFor ''dns.classic.udp-truncated-tcp-retry'' 65535 p"
  using exchange_interop [of "''dns.classic.udp-truncated-tcp-retry''" 65535 idle 100] served_idle
  by (auto simp: supportedScenarios_def roundBytes_def roundRetries_def timely_def connectionDeadline_def)

section \<open>Phases\<close>

text \<open>The rounds of a phase: when the TCP write of the round takes place, and how long the round
  took.\<close>

definition authorityRounds :: "(int \<times> int) list \<Rightarrow> round list" where
  "authorityRounds ts =
     map (\<lambda>(t, us). \<lparr>r_udp = authorityUDP, r_tcp = authorityTCP t, r_micros = us\<rparr>) ts"

definition timelyRounds :: "string \<Rightarrow> (int \<times> int) list \<Rightarrow> bool" where
  "timelyRounds scenario ts \<longleftrightarrow> list_all (\<lambda>(t, us). timely scenario t) ts"

definition openOk :: "int \<Rightarrow> open_env" where
  "openOk us = \<lparr>o_resolve = None, o_dialUDP = None, o_dialTCP = None, o_micros = us\<rparr>"

lemma openPhaseClient_ok:
  "\<exists>client. openPhaseClient (openOk us) scenario = (client, millis us, None)"
  by (simp add: openPhaseClient_def openOk_def Let_def)

lemma phaseLoop_authority:
  assumes "scenario \<in> set supportedScenarios" "served c" "odd mid" "timelyRounds scenario ts"
  shows "phaseLoop scenario False (authorityRounds ts) mid c s =
    (s\<lparr>s_CompletedOperations := s_CompletedOperations s + int (length ts),
       s_RetryCount := s_RetryCount s + int (length ts) * roundRetries scenario,
       s_TotalTransferredBytes := s_TotalTransferredBytes s + int (length ts) * roundBytes scenario,
       s_Latencies := s_Latencies s @ map (\<lambda>(t, us). millis us) ts,
       s_LastProof := (if ts = [] then s_LastProof s
          else Some (exchangeProof scenario ((nextID ^^ (length ts - 1)) mid)))\<rparr>, None)"
proof -
  have "\<exists>c'. exchange (r_udp r) (r_tcp r) c scenario m =
      ((exchangeProof scenario m, roundBytes scenario, roundRetries scenario, None), c') \<and> served c'"
    if "r \<in> set (authorityRounds ts)" "odd m" "served c" for r m c
    using that exchange_authority [OF assms(1) odd_nonzero [OF that(2)] that(3)] assms(4)
    by (auto simp: authorityRounds_def timelyRounds_def list_all_iff)
  from phaseLoop_replay [of "authorityRounds ts" served, OF this assms(3,2)] show ?thesis
    by (simp add: authorityRounds_def comp_def case_prod_beta)
qed

lemma nextID_pow_odd: "odd mid \<Longrightarrow> odd ((nextID ^^ n) mid)"
  by (induction n) (simp_all add: nextID_odd)

lemma runPhase_authority:
  assumes "scenario \<in> set supportedScenarios" "ts \<noteq> []" "timelyRounds scenario ts"
  shows "runPhase (openOk us) scenario once (authorityRounds ts) idle elapsed =
    (let ds = (if once then take 1 ts else ts) in
     ((newSummary once)\<lparr>s_DurationSeconds := elapsed, s_ConnectionLatencyMilliseconds := millis us,
        s_CompletedOperations := int (length ds),
        s_RetryCount := int (length ds) * roundRetries scenario,
        s_TotalTransferredBytes := int (length ds) * roundBytes scenario,
        s_Latencies := map (\<lambda>(t, us). millis us) ds,
        s_LastProof := Some (exchangeProof scenario (phaseID (length ds - 1)))\<rparr>, None))"
proof -
  obtain client where "openPhaseClient (openOk us) scenario = (client, millis us, None)"
    using openPhaseClient_ok by blast
  note client = this
  obtain t u tl where ts: "ts = (t, u) # tl" using assms(2) by (cases ts) auto
  show ?thesis
  proof (cases once)
    case True
    from ts assms(3) have "timely scenario t" by (simp add: timelyRounds_def)
    from exchange_authority [OF assms(1) _ served_idle this, of 1] client True ts show ?thesis
      by (auto simp: runPhase_def phaseID_def authorityRounds_def recordSuccess_def
          recordTransfer_def newSummary_def)
  next
    case False
    with client assms(2) show ?thesis
      by (simp add: runPhase_def phaseLoop_authority [OF assms(1) served_idle _ assms(3)] phaseID_def
          newSummary_def)
  qed
qed

text \<open>A phase of the executor against the authority completes one operation in every round
  and none in error: \<open>n\<close> rounds give \<open>n\<close> completed operations with the \<open>n\<close> latencies in order,
  \<open>n\<close> times the bytes of an exchange, and one retry per round exactly in the retry scenario. The
  preflight stops after one.\<close>

theorem phase_interop:
  assumes "scenario \<in> set supportedScenarios" and "ts \<noteq> []" and "timelyRounds scenario ts"
  shows "case runPhase (openOk us) scenario once (authorityRounds ts) idle elapsed of (s, err) \<Rightarrow>
     (let ds = (if once then take 1 ts else ts); n = int (length ds) in
      err = None \<and> failures s = 0 \<and> \<not> hasFailures s \<and> s_CompletedOperations s = n \<and>
      s_RetryCount s = n * roundRetries scenario \<and>
      s_TotalTransferredBytes s = n * roundBytes scenario \<and> s_Latencies s = map (\<lambda>(t, us). millis us) ds)"
  unfolding runPhase_authority [OF assms] using assms(2)
  by (cases ts) (simp_all add: Let_def newSummary_def failures_def hasFailures_def)

lemma timely_tcp:
  "timelyRounds ''dns.classic.tcp.query.a'' [(900, 300), (1300, 250), (1600, 410)]"
  by (simp add: timelyRounds_def timely_def connectionDeadline_def)

theorem phase_interop_witness:
  "s_TotalTransferredBytes (fst (runPhase (openOk 120) ''dns.classic.tcp.query.a'' False
     (authorityRounds [(900, 300), (1300, 250), (1600, 410)]) idle 5)) = 222"
  using phase_interop [OF _ _ timely_tcp, of False 120 5]
  by (simp add: supportedScenarios_def roundBytes_def Let_def split: prod.splits)

section \<open>A run\<close>

text \<open>C1: A whole run of the executor against the authority, under the pinned load profile and
  with at least one round in each phase, exits with code 0 and its last artifact is a passed
  result whose counters are exactly those of the measured rounds, with no malformed, failed or
  timed-out operation and with the proof of the last exchange. All rounds of a phase share one TCP
  connection, served by one run of the authority's connection loop; in the scenarios that use TCP
  their writes come before the 30 second deadline of that connection.\<close>

theorem run_interop:
  assumes "scenario \<in> set supportedScenarios" and "loadConfig getenv = Inr requested"
    and "t0 \<noteq> []" and "t1 \<noteq> []" and "t2 \<noteq> []"
    and "timelyRounds scenario t0" and "timelyRounds scenario t1" and "timelyRounds scenario t2"
  shows "\<exists>res. case Run cfg getenv scenario False
       (runPhase (openOk u0) scenario True (authorityRounds t0) idle d0)
       (runPhase (openOk u1) scenario False (authorityRounds t1) idle d1)
       (runPhase (openOk u2) scenario False (authorityRounds t2) idle d2) of (written, code) \<Rightarrow>
     code = 0 \<and> last written = ResultJson res \<and> res_Status res = ''passed'' \<and>
     res_ScenarioID res = scenario \<and>
     m_CompletedOperations (res_Metrics res) = int (length t2) \<and>
     m_MalformedOperations (res_Metrics res) = 0 \<and> m_FailedOperations (res_Metrics res) = 0 \<and>
     m_TimedOutOperations (res_Metrics res) = 0 \<and>
     m_RetryCount (res_Metrics res) = int (length t2) * roundRetries scenario \<and>
     m_TotalTransferredBytes (res_Metrics res) = int (length t2) * roundBytes scenario \<and>
     (\<exists>p. res_DNS res = Some p \<and> provenFor scenario (phaseID (length t2 - 1)) p)"
proof -
  have "timely scenario 0" by (simp add: timely_def connectionDeadline_def)
  then have "provenFor scenario (phaseID n) (exchangeProof scenario (phaseID n))" for n
    using exchange_authority [OF assms(1) odd_nonzero [OF phaseID_odd] served_idle, of 0 n] by blast
  then show ?thesis
    using assms(2-5)
    by (simp add: runPhase_authority [OF assms(1)] assms(6-8) Run_def Let_def hasFailures_def newSummary_def
        normalize_def metricsOf_def)
qed

definition pinnedEnv :: env where
  "pinnedEnv name =
     (if name = ''PLAB_LOAD_PROFILE_ID'' then ''dns-classic-diagnostic''
      else if name = ''PLAB_DURATION_SECONDS'' then ''5'' else ''1'')"

lemma pinnedEnv_ok: "\<exists>r. loadConfig pinnedEnv = Inr r"
  by (simp add: loadConfig_def envInt_def pinnedEnv_def ProfileID_def trimSpace_def isSpace_def
      atoi_def parseSigned_def)

lemma retry_supported: "''dns.classic.udp-truncated-tcp-retry'' \<in> set supportedScenarios"
  by (simp add: supportedScenarios_def)

lemma timely_retry:
  "timelyRounds ''dns.classic.udp-truncated-tcp-retry'' [(700, 100)]"
  "timelyRounds ''dns.classic.udp-truncated-tcp-retry'' [(700, 100), (820, 120)]"
  "timelyRounds ''dns.classic.udp-truncated-tcp-retry'' [(650, 90), (750, 80), (840, 85)]"
  by (simp_all add: timelyRounds_def timely_def connectionDeadline_def)

theorem run_interop_witness:
  "\<exists>res. case Run \<lparr>ExecutorID = ''x'', LoadGeneratorID = ''y'', Mode = ''udp'', Supported = []\<rparr> pinnedEnv
       ''dns.classic.udp-truncated-tcp-retry'' False
       (runPhase (openOk 9) ''dns.classic.udp-truncated-tcp-retry'' True (authorityRounds [(700, 100)]) idle 0)
       (runPhase (openOk 9) ''dns.classic.udp-truncated-tcp-retry'' False
          (authorityRounds [(700, 100), (820, 120)]) idle 1)
       (runPhase (openOk 9) ''dns.classic.udp-truncated-tcp-retry'' False
          (authorityRounds [(650, 90), (750, 80), (840, 85)]) idle 5)
     of (written, code) \<Rightarrow> code = 0 \<and> last written = ResultJson res \<and> res_Status res = ''passed'' \<and>
       m_TotalTransferredBytes (res_Metrics res) = 2307"
proof -
  obtain r where r: "loadConfig pinnedEnv = Inr r" using pinnedEnv_ok by blast
  have bytes: "int (length [(650, 90), (750, 80), (840, 85 :: int) :: int \<times> int]) *
      roundBytes ''dns.classic.udp-truncated-tcp-retry'' = 2307"
    by (simp add: roundBytes_def)
  show ?thesis
    using run_interop [OF retry_supported r _ _ _ timely_retry, where ?u0.0 = 9 and ?u1.0 = 9 and ?u2.0 = 9
        and ?d0.0 = 0 and ?d1.0 = 1 and ?d2.0 = 5
        and cfg = "\<lparr>ExecutorID = ''x'', LoadGeneratorID = ''y'', Mode = ''udp'', Supported = []\<rparr>",
        OF list.distinct(2) list.distinct(2) list.distinct(2)]
    unfolding case_prod_beta bytes by blast
qed

section \<open>The fixtures\<close>

text \<open>The digests pinned in the executor are the SHA-256 digests of its fixtures, the two
  query digests the authority matches are those of the executor's query templates, and the
  authority's response templates are byte for byte the executor's.\<close>

theorem fixtures_pinned:
  "map Dns_Executor.hash [aQuery, Dns_Executor.aResponse, largeQuery,
       Dns_Executor.truncatedResponse, Dns_Executor.largeResponse] =
     [Dns_Executor.aQueryHash, aResponseHash, Dns_Executor.largeQueryHash, truncatedHash,
       largeResponseHash] \<and>
   [Dns_Authority.aQueryHash, Dns_Authority.largeQueryHash] = map Dns_Executor.hash [aQuery, largeQuery] \<and>
   [Dns_Authority.aResponse, Dns_Authority.truncatedResponse, Dns_Authority.largeResponse] =
     [Dns_Executor.aResponse, Dns_Executor.truncatedResponse, Dns_Executor.largeResponse]"
  by (simp add: hash_aQuery hash_aResponse hash_largeQuery hash_truncatedResponse
      hash_largeResponse agree)

text \<open>The session theorem of the authority on a concrete session: two accepted queries of the
  executor, then one with a zero message ID, which ends the connection, then one more.\<close>

lemma tcpAccepted_withID:
  "tcpAccepted (withID aQuery mid) \<longleftrightarrow> mid \<noteq> 0" "tcpAccepted (withID largeQuery mid) \<longleftrightarrow> mid \<noteq> 0"
  by (simp_all add: tcpAccepted_def accepted_def agree zero_ids hash_aQuery hash_largeQuery)

theorem handleTCP_session_witness:
  "conn_out (snd (handleTCP (idle\<lparr>conn_in := concat (map Dns_Authority.frame
       [withID aQuery 7, withID largeQuery 8, withID aQuery 0, withID aQuery 9])\<rparr>))) =
     [tcpAnswer (withID aQuery 7), tcpAnswer (withID largeQuery 8)]"
  using handleTCP_session [of "[withID aQuery 7, withID largeQuery 8, withID aQuery 0, withID aQuery 9]"
      "idle\<lparr>conn_in := concat (map Dns_Authority.frame
       [withID aQuery 7, withID largeQuery 8, withID aQuery 0, withID aQuery 9])\<rparr>"]
  by (simp add: idle_def tcpAccepted_withID)
end
