(* ===== verification/Go_Http.thy ===== *)
theory Go_Http
  imports Go_Sha256
begin

text \<open>
  The parts of the Go standard library that the HTTP/1.1 programs use: \<^verbatim>\<open>crypto/sha1\<close>,
  \<^verbatim>\<open>encoding/base64\<close> with its standard alphabet, and the message heads that
  \<^verbatim>\<open>http.ReadRequest\<close> and \<^verbatim>\<open>http.ReadResponse\<close> read. A request target is in origin
  form and a header field is one line; folded fields, absolute-form targets and message
  bodies, which the programs here never send, are errors of the model.
\<close>

section \<open>SHA-1\<close>

type_synonym sha1_state = "u32 \<times> u32 \<times> u32 \<times> u32 \<times> u32"

definition rotl :: "nat \<Rightarrow> u32 \<Rightarrow> u32" where
  "rotl n x = (push_bit n x) OR (drop_bit (32 - n) x)"

definition sha1Init :: sha1_state where
  "sha1Init = (0x67452301, 0xEFCDAB89, 0x98BADCFE, 0x10325476, 0xC3D2E1F0)"

definition sha1F :: "nat \<Rightarrow> u32 \<Rightarrow> u32 \<Rightarrow> u32 \<Rightarrow> u32 \<times> u32" where
  "sha1F t b c d =
     (if t < 20 then ((b AND c) OR (NOT b AND d), 0x5A827999)
      else if t < 40 then (b XOR c XOR d, 0x6ED9EBA1)
      else if t < 60 then ((b AND c) OR (b AND d) OR (c AND d), 0x8F1BBCDC)
      else (b XOR c XOR d, 0xCA62C1D6))"

text \<open>The message schedule, newest word first, grown from the 16 words of a block.\<close>

fun sha1Expand :: "nat \<Rightarrow> u32 list \<Rightarrow> u32 list" where
  "sha1Expand 0 w = w"
| "sha1Expand (Suc n) w =
     sha1Expand n (rotl 1 ((w ! 2) XOR (w ! 7) XOR (w ! 13) XOR (w ! 15)) # w)"

fun sha1Rounds :: "nat \<Rightarrow> u32 list \<Rightarrow> sha1_state \<Rightarrow> sha1_state" where
  "sha1Rounds t [] s = s"
| "sha1Rounds t (w # ws) (a, b, c, d, e) =
     (case sha1F t b c d of (f, k) \<Rightarrow>
        sha1Rounds (Suc t) ws (rotl 5 a + f + e + k + w, a, rotl 30 b, c, d))"

fun sha1Words :: "bytes \<Rightarrow> u32 list" where
  "sha1Words (a # b # c # d # r) = uint32 [a, b, c, d] # sha1Words r"
| "sha1Words _ = []"

definition sha1Block :: "sha1_state \<Rightarrow> bytes \<Rightarrow> sha1_state" where
  "sha1Block s block =
     (case (s, sha1Rounds 0 (rev (sha1Expand 64 (rev (sha1Words block)))) s) of
        ((a, b, c, d, e), (a', b', c', d', e')) \<Rightarrow> (a + a', b + b', c + c', d + d', e + e'))"

fun sha1Absorb :: "nat \<Rightarrow> sha1_state \<Rightarrow> bytes \<Rightarrow> sha1_state" where
  "sha1Absorb 0 s m = s"
| "sha1Absorb (Suc n) s m = sha1Absorb n (sha1Block s (take 64 m)) (drop 64 m)"

text \<open>The padding is that of SHA-256.\<close>

definition sha1Sum :: "bytes \<Rightarrow> bytes" where
  "sha1Sum m =
     (case sha1Absorb (length (shaPad m) div 64) sha1Init (shaPad m) of
        (a, b, c, d, e) \<Rightarrow> be32 a @ be32 b @ be32 c @ be32 d @ be32 e)"

lemma length_sha1Sum [simp]: "length (sha1Sum m) = 20"
  by (simp add: sha1Sum_def split: prod.splits)

section \<open>Base64\<close>

definition b64Char :: "nat \<Rightarrow> char" where
  "b64Char i =
     (if i < 26 then char_of (65 + i) else if i < 52 then char_of (71 + i)
      else if i < 62 then char_of (i - 4) else if i = 62 then CHR ''+'' else CHR ''/'')"

definition b64Val :: "char \<Rightarrow> nat option" where
  "b64Val ch =
     (let n = of_char ch :: nat in
      if 65 \<le> n \<and> n \<le> 90 then Some (n - 65)
      else if 97 \<le> n \<and> n \<le> 122 then Some (n - 71)
      else if 48 \<le> n \<and> n \<le> 57 then Some (n + 4)
      else if ch = CHR ''+'' then Some 62 else if ch = CHR ''/'' then Some 63 else None)"

fun b64Encode :: "bytes \<Rightarrow> string" where
  "b64Encode [] = []"
| "b64Encode [a] = [b64Char (unat a div 4), b64Char (unat a mod 4 * 16), CHR ''='', CHR ''='']"
| "b64Encode [a, b] =
     [b64Char (unat a div 4), b64Char (unat a mod 4 * 16 + unat b div 16),
      b64Char (unat b mod 16 * 4), CHR ''='']"
| "b64Encode (a # b # c # r) =
     b64Char (unat a div 4) # b64Char (unat a mod 4 * 16 + unat b div 16) #
     b64Char (unat b mod 16 * 4 + unat c div 64) # b64Char (unat c mod 64) # b64Encode r"

text \<open>\<^verbatim>\<open>StdEncoding.DecodeString\<close> skips carriage returns and line feeds, wants the padding
  and does not look at the unused low bits before it.\<close>

fun b64Quads :: "string \<Rightarrow> bytes option" where
  "b64Quads [] = Some []"
| "b64Quads (c1 # c2 # c3 # c4 # r) =
     (case (b64Val c1, b64Val c2, b64Val c3, b64Val c4) of
        (Some v1, Some v2, Some v3, Some v4) \<Rightarrow>
          map_option (\<lambda>bs. of_nat (v1 * 4 + v2 div 16) # of_nat (v2 mod 16 * 16 + v3 div 4) #
            of_nat (v3 mod 4 * 64 + v4) # bs) (b64Quads r)
      | (Some v1, Some v2, Some v3, None) \<Rightarrow>
          if c4 = CHR ''='' \<and> r = [] then Some [of_nat (v1 * 4 + v2 div 16), of_nat (v2 mod 16 * 16 + v3 div 4)]
          else None
      | (Some v1, Some v2, None, None) \<Rightarrow>
          if c3 = CHR ''='' \<and> c4 = CHR ''='' \<and> r = [] then Some [of_nat (v1 * 4 + v2 div 16)] else None
      | _ \<Rightarrow> None)"
| "b64Quads _ = None"

definition b64Decode :: "string \<Rightarrow> bytes option" where
  "b64Decode s = b64Quads (filter (\<lambda>ch. ch \<noteq> CHR 0x0D \<and> ch \<noteq> CHR 0x0A) s)"

lemma b64_code: "i < 64 \<Longrightarrow> (of_char (b64Char i) :: nat) =
    (if i < 26 then 65 + i else if i < 52 then 71 + i else if i < 62 then i - 4
     else if i = 62 then 43 else 47)"
  by (simp add: b64Char_def)

lemma b64Val_b64Char [simp]: "i < 64 \<Longrightarrow> b64Val (b64Char i) = Some i"
proof -
  assume i: "i < 64"
  then consider "i < 26" | "26 \<le> i" "i < 52" | "52 \<le> i" "i < 62" | "i = 62" | "i = 63"
    by linarith
  then show ?thesis
    by cases (auto simp: b64Val_def Let_def b64_code, auto simp: b64Char_def)
qed

lemma b64Char_plain: "i < 64 \<Longrightarrow> b64Char i \<noteq> CHR 0x0D \<and> b64Char i \<noteq> CHR 0x0A"
proof -
  assume "i < 64"
  then have "(of_char (b64Char i) :: nat) \<noteq> of_char (CHR 0x0D)"
      "(of_char (b64Char i) :: nat) \<noteq> of_char (CHR 0x0A)"
    by (auto simp: b64_code)
  then show ?thesis by metis
qed

lemma b64Val_pad [simp]: "b64Val (CHR ''='') = None"
  by (simp add: b64Val_def)

lemma byte_bound [simp]: "unat (a :: byte) < 256"
  using unsigned_less [of a] by simp

lemma b64_sixbit [simp]:
  "unat (a :: byte) div 4 < 64" "unat a mod 4 * 16 < 64" "unat a mod 16 * 4 < 64"
  "unat a mod 64 < 64"
  "unat a mod 4 * 16 + unat (b :: byte) div 16 < 64" "unat a mod 16 * 4 + unat b div 64 < 64"
proof -
  note a = byte_bound [of a] and b = byte_bound [of b]
  from a show "unat a div 4 < 64" by (simp add: less_mult_imp_div_less)
  have b16: "unat b div 16 < 16" and b64: "unat b div 64 < 4"
    using b by (simp_all add: less_mult_imp_div_less)
  have "unat a mod 4 < 4" "unat a mod 16 < 16" by simp_all
  with b16 b64 show "unat a mod 4 * 16 < 64" "unat a mod 16 * 4 < 64"
    "unat a mod 4 * 16 + unat b div 16 < 64" "unat a mod 16 * 4 + unat b div 64 < 64" by linarith+
qed simp

lemma b64_join1: "x < 16 \<Longrightarrow> of_nat (unat (a :: byte) div 4 * 4 + (unat a mod 4 * 16 + x) div 16) = a"
  by simp

lemma b64_join2:
  fixes b :: byte
  assumes "y < 4"
  shows "of_nat ((n * 16 + unat b div 16) mod 16 * 16 + (unat b mod 16 * 4 + y) div 4) = b"
proof -
  have "(n * 16 + unat b div 16) mod 16 = unat b div 16"
    by (simp add: less_mult_imp_div_less)
  moreover have "(unat b mod 16 * 4 + y) div 4 = unat b mod 16" using assms by simp
  ultimately show ?thesis by simp
qed

lemma b64_join3:
  fixes c :: byte
  shows "of_nat ((n * 4 + unat c div 64) mod 4 * 64 + unat c mod 64) = c"
proof -
  have "(n * 4 + unat c div 64) mod 4 = unat c div 64"
    by (simp add: less_mult_imp_div_less)
  then show ?thesis by simp
qed

lemma b64Quads_encode: "b64Quads (b64Encode bs) = Some bs"
proof (induction bs rule: b64Encode.induct)
  case (2 a)
  then show ?case using b64_join1 [of 0 a] by simp
next
  case (3 a b)
  then show ?case using b64_join1 [of "unat b div 16" a] b64_join2 [of 0 "unat a mod 4" b] 
   by (simp add: less_mult_imp_div_less)
next
  case (4 a b c r)
  then show ?case
    using b64_join1 [of "unat b div 16" a] b64_join2 [of "unat c div 64" "unat a mod 4" b] b64_join3 [of "unat b mod 16" c]
    by (simp add: less_mult_imp_div_less)
qed simp

lemma b64Encode_plain: "filter (\<lambda>ch. ch \<noteq> CHR 0x0D \<and> ch \<noteq> CHR 0x0A) (b64Encode bs) = b64Encode bs"
  by (induction bs rule: b64Encode.induct) (simp_all add: b64Char_plain)

lemma b64Decode_b64Encode [simp, codec]: "b64Decode (b64Encode bs) = Some bs"
  by (simp add: b64Decode_def b64Encode_plain b64Quads_encode)

section \<open>Message heads\<close>

text \<open>A line of \<^verbatim>\<open>bufio.Reader.ReadLine\<close>: up to the line feed, without it and without a carriage
  return before it. What is left before the end of the stream counts as a last line.\<close>

definition LF :: byte where
  "LF = 10"

definition CR :: byte where
  "CR = 13"

definition crlf :: string where
  "crlf = [CHR 0x0D, CHR 0x0A]"

definition stripCR :: "bytes \<Rightarrow> bytes" where
  "stripCR l = (if l \<noteq> [] \<and> last l = CR then butlast l else l)"

definition readLine :: "conn \<Rightarrow> string go \<times> conn" where
  "readLine c =
     (if conn_in c = [] then (Inl (conn_end c), c)
      else (case dropWhile (\<lambda>b. b \<noteq> LF) (conn_in c) of
          [] \<Rightarrow> (Inr (to_string (conn_in c)), c\<lparr>conn_in := []\<rparr>)
        | _ # r \<Rightarrow> (Inr (to_string (stripCR (takeWhile (\<lambda>b. b \<noteq> LF) (conn_in c)))), c\<lparr>conn_in := r\<rparr>)))"

text \<open>\<^verbatim>\<open>strings.Cut\<close> at a one-character separator.\<close>

definition cut :: "char \<Rightarrow> string \<Rightarrow> (string \<times> string) option" where
  "cut sep s =
     (case dropWhile (\<lambda>ch. ch \<noteq> sep) s of
        [] \<Rightarrow> None
      | _ # r \<Rightarrow> Some (takeWhile (\<lambda>ch. ch \<noteq> sep) s, r))"

definition isDigit :: "char \<Rightarrow> bool" where
  "isDigit ch \<longleftrightarrow> 48 \<le> (of_char ch :: nat) \<and> (of_char ch :: nat) \<le> 57"

definition isTokenChar :: "char \<Rightarrow> bool" where
  "isTokenChar ch \<longleftrightarrow> isDigit ch \<or> 65 \<le> (of_char ch :: nat) \<and> (of_char ch :: nat) \<le> 90 \<or>
     97 \<le> (of_char ch :: nat) \<and> (of_char ch :: nat) \<le> 122 \<or>
     ch \<in> set ''!#$%&*+-.^_|~'' \<or> ch = CHR 0x27 \<or> ch = CHR 0x60"

definition validToken :: "string \<Rightarrow> bool" where
  "validToken s \<longleftrightarrow> s \<noteq> [] \<and> list_all isTokenChar s"

definition isCtl :: "char \<Rightarrow> bool" where
  "isCtl ch \<longleftrightarrow> (of_char ch :: nat) < 32 \<or> (of_char ch :: nat) = 127"

definition parseHTTPVersion :: "string \<Rightarrow> (nat \<times> nat) option" where
  "parseHTTPVersion v =
     (if length v = 8 \<and> take 5 v = ''HTTP/'' \<and> v ! 6 = CHR ''.'' \<and> isDigit (v ! 5) \<and> isDigit (v ! 7)
      then Some (of_char (v ! 5) - 48, of_char (v ! 7) - 48) else None)"

fun unescapePath :: "string \<Rightarrow> string option" where
  "unescapePath [] = Some []"
| "unescapePath (ch # cs) =
     (if ch = CHR ''%'' then
        (case cs of
           a # b # r \<Rightarrow> (case (hexVal a, hexVal b) of
               (Some x, Some y) \<Rightarrow> map_option (\<lambda>p. char_of (16 * x + y) # p) (unescapePath r)
             | _ \<Rightarrow> None)
         | _ \<Rightarrow> None)
      else map_option (\<lambda>p. ch # p) (unescapePath cs))"

definition parseRequestURI :: "string \<Rightarrow> string option" where
  "parseRequestURI uri =
     (if uri = [] \<or> list_ex isCtl uri then None
      else if uri = ''*'' then Some ''*''
      else if hd uri \<noteq> CHR ''/'' then None
      else unescapePath (takeWhile (\<lambda>ch. ch \<noteq> CHR ''?'') uri))"

text \<open>Header fields, in the order of the message. \<^verbatim>\<open>Header.Get\<close> returns the first value of a
  name, whose case does not matter, or the empty string.\<close>

type_synonym http_header = "(string \<times> string) list"

definition isBlank :: "char \<Rightarrow> bool" where
  "isBlank ch \<longleftrightarrow> ch = CHR '' '' \<or> ch = CHR 0x09"

definition trimBlank :: "string \<Rightarrow> string" where
  "trimBlank s = rev (dropWhile isBlank (rev (dropWhile isBlank s)))"

definition parseField :: "string \<Rightarrow> (string \<times> string) option" where
  "parseField line =
     (case cut CHR '':'' line of
        None \<Rightarrow> None
      | Some (k, v) \<Rightarrow>
          if validToken k \<and> \<not> list_ex (\<lambda>ch. isCtl ch \<and> ch \<noteq> CHR 0x09) v then Some (k, trimBlank v) else None)"

definition headerGet :: "http_header \<Rightarrow> string \<Rightarrow> string" where
  "headerGet h name =
     (case find (\<lambda>(k, v). equalFold k name) h of None \<Rightarrow> '''' | Some (k, v) \<Rightarrow> v)"

lemma readLine_shrinks:
  assumes "(Inr l, c') = readLine c"
  shows "length (conn_in c') < length (conn_in c)"
proof -
  have "length (dropWhile p xs) \<le> length xs" for p and xs :: bytes
    by (rule length_dropWhile_le)
  from this [of "\<lambda>b. b \<noteq> LF" "conn_in c"] show ?thesis
    using assms by (auto simp: readLine_def split: if_splits list.splits)
qed

function readHeader :: "conn \<Rightarrow> http_header go \<times> conn" where
  "readHeader c =
     (case readLine c of
        (Inl e, c') \<Rightarrow> (Inl e, c')
      | (Inr l, c') \<Rightarrow>
          if l = [] then (Inr [], c')
          else (case parseField l of
              None \<Rightarrow> (Inl (Errorf (''malformed MIME header line: '' @ l)), c')
            | Some f \<Rightarrow> (case readHeader c' of
                  (Inl e, d) \<Rightarrow> (Inl e, d)
                | (Inr h, d) \<Rightarrow> (Inr (f # h), d))))"
  by pat_completeness auto
termination
  by (relation "measure (\<lambda>c. length (conn_in c))") (auto dest: readLine_shrinks)

declare readHeader.simps [simp del]

record http_request =
  rq_Method :: string
  rq_ProtoMajor :: nat
  rq_ProtoMinor :: nat
  rq_Path :: string
  rq_Host :: string
  rq_Header :: http_header

definition parseRequestLine :: "string \<Rightarrow> (string \<times> string \<times> nat \<times> nat) option" where
  "parseRequestLine line =
     (case cut CHR '' '' line of
        None \<Rightarrow> None
      | Some (m, rest) \<Rightarrow> (case cut CHR '' '' rest of
          None \<Rightarrow> None
        | Some (uri, proto) \<Rightarrow>
            (case (parseRequestURI uri, parseHTTPVersion proto) of
               (Some path, Some (major, minor)) \<Rightarrow>
                 if validToken m then Some (m, path, major, minor) else None
             | _ \<Rightarrow> None)))"

definition readRequest :: "conn \<Rightarrow> http_request go \<times> conn" where
  "readRequest c =
     (case readLine c of
        (Inl e, c1) \<Rightarrow> (Inl e, c1)
      | (Inr line, c1) \<Rightarrow> (case parseRequestLine line of
          None \<Rightarrow> (Inl (Errorf (''malformed HTTP request '' @ quoted line)), c1)
        | Some (m, path, major, minor) \<Rightarrow> (case readHeader c1 of
            (Inl e, c2) \<Rightarrow> (Inl (if e = EOF then UnexpectedEOF else e), c2)
          | (Inr h, c2) \<Rightarrow>
              (Inr \<lparr>rq_Method = m, rq_ProtoMajor = major, rq_ProtoMinor = minor, rq_Path = path,
                    rq_Host = headerGet h ''Host'',
                    rq_Header = filter (\<lambda>(k, v). \<not> equalFold k ''Host'') h\<rparr>, c2))))"

record http_response =
  rs_Proto :: string
  rs_ProtoMajor :: nat
  rs_ProtoMinor :: nat
  rs_StatusCode :: int
  rs_Header :: http_header

definition parseStatusLine :: "string \<Rightarrow> (string \<times> nat \<times> nat \<times> int) option" where
  "parseStatusLine line =
     (case cut CHR '' '' line of
        None \<Rightarrow> None
      | Some (proto, rest) \<Rightarrow>
          (let code = takeWhile (\<lambda>ch. ch \<noteq> CHR '' '') (dropWhile (\<lambda>ch. ch = CHR '' '') rest) in
           case (atoi code, parseHTTPVersion proto) of
             ((n, None), Some (major, minor)) \<Rightarrow>
               if length code = 3 \<and> 0 \<le> n then Some (proto, major, minor, n) else None
           | _ \<Rightarrow> None))"

definition readResponse :: "conn \<Rightarrow> http_response go \<times> conn" where
  "readResponse c =
     (case readLine c of
        (Inl e, c1) \<Rightarrow> (Inl (if e = EOF then UnexpectedEOF else e), c1)
      | (Inr line, c1) \<Rightarrow> (case parseStatusLine line of
          None \<Rightarrow> (Inl (Errorf (''malformed HTTP response '' @ quoted line)), c1)
        | Some (proto, major, minor, code) \<Rightarrow> (case readHeader c1 of
            (Inl e, c2) \<Rightarrow> (Inl (if e = EOF then UnexpectedEOF else e), c2)
          | (Inr h, c2) \<Rightarrow>
              (Inr \<lparr>rs_Proto = proto, rs_ProtoMajor = major, rs_ProtoMinor = minor,
                    rs_StatusCode = code, rs_Header = h\<rparr>, c2))))"

section \<open>Reading a message head back\<close>

text \<open>A head as it is written: its lines, each followed by CR LF, then an empty line.\<close>

definition wireLine :: "string \<Rightarrow> bytes" where
  "wireLine l = of_string l @ [CR, LF]"

definition wireHead :: "string list \<Rightarrow> bytes" where
  "wireHead ls = concat (map wireLine ls) @ [CR, LF]"

definition plain :: "string \<Rightarrow> bool" where
  "plain l \<longleftrightarrow> list_all (\<lambda>ch. ch \<noteq> CHR 0x0D \<and> ch \<noteq> CHR 0x0A) l"

lemma of_char_byte [simp]:
  "(of_char ch :: byte) = LF \<longleftrightarrow> ch = CHR 0x0A" "(of_char ch :: byte) = CR \<longleftrightarrow> ch = CHR 0x0D"
proof -
  have "(of_char ch :: byte) = of_char dh \<longleftrightarrow> ch = dh" for dh
    by (metis unat_of_char of_char_eq_iff)
  from this [of "CHR 0x0A"] this [of "CHR 0x0D"]
  show "(of_char ch :: byte) = LF \<longleftrightarrow> ch = CHR 0x0A" "(of_char ch :: byte) = CR \<longleftrightarrow> ch = CHR 0x0D"
    by (simp_all add: LF_def CR_def)
qed

lemma plain_bytes: "plain l \<Longrightarrow> LF \<notin> set (of_string l) \<and> CR \<notin> set (of_string l)"
  by (auto simp: plain_def of_string_def list_all_iff dest!: of_char_byte(1) [THEN iffD1, OF sym]
      of_char_byte(2) [THEN iffD1, OF sym])

lemma LF_CR [simp]: "LF \<noteq> CR" "CR \<noteq> LF"
  by (simp_all add: LF_def CR_def)

lemma of_string_crlf: "of_string crlf = [CR, LF]"
  by (simp add: crlf_def of_string_def LF_def CR_def)

lemma readLine_wireLine:
  assumes "conn_in c = wireLine l @ r" "plain l"
  shows "readLine c = (Inr l, c\<lparr>conn_in := r\<rparr>)"
proof -
  have "takeWhile (\<lambda>b. b \<noteq> LF) (of_string l @ CR # LF # r) = of_string l @ [CR]"
    using plain_bytes [OF assms(2)] by (subst takeWhile_append2) auto
  moreover have "dropWhile (\<lambda>b. b \<noteq> LF) (of_string l @ CR # LF # r) = LF # r"
    using plain_bytes [OF assms(2)] by (subst dropWhile_append2) auto
  ultimately show ?thesis
    using assms(1) by (simp add: readLine_def wireLine_def stripCR_def)
qed

lemma readHeader_wireHead:
  assumes "conn_in c = wireHead ls @ r" "list_all (\<lambda>l. plain l \<and> l \<noteq> []) ls"
    and "map parseField ls = map Some fs"
  shows "readHeader c = (Inr fs, c\<lparr>conn_in := r\<rparr>)"
  using assms
proof (induction ls arbitrary: c fs)
  case Nil
  then have "readLine c = (Inr [], c\<lparr>conn_in := r\<rparr>)"
    by (intro readLine_wireLine) (simp_all add: wireHead_def wireLine_def of_string_def plain_def)
  with Nil show ?case by (simp add: readHeader.simps [of c])
next
  case (Cons l ls)
  then obtain f fs' where fs: "fs = f # fs'" "parseField l = Some f" "map parseField ls = map Some fs'"
    by (cases fs) auto
  let ?c = "c\<lparr>conn_in := wireHead ls @ r\<rparr>"
  have "readLine c = (Inr l, ?c)"
    using Cons.prems by (intro readLine_wireLine) (simp_all add: wireHead_def)
  moreover have "readHeader ?c = (Inr fs', ?c\<lparr>conn_in := r\<rparr>)"
    using Cons.prems fs by (intro Cons.IH) simp_all
  ultimately show ?case
    using Cons.prems(2) fs by (simp add: readHeader.simps [of c])
qed

text \<open>The heads written by the programs are read back field by field.\<close>

lemma readRequest_wire:
  assumes "conn_in c = wireLine line @ wireHead ls @ r" "plain line"
    and "parseRequestLine line = Some (m, path, major, minor)"
    and "list_all (\<lambda>l. plain l \<and> l \<noteq> []) ls" "map parseField ls = map Some fs"
  shows "readRequest c =
    (Inr \<lparr>rq_Method = m, rq_ProtoMajor = major, rq_ProtoMinor = minor, rq_Path = path,
       rq_Host = headerGet fs ''Host'', rq_Header = filter (\<lambda>(k, v). \<not> equalFold k ''Host'') fs\<rparr>,
     c\<lparr>conn_in := r\<rparr>)"
  using assms readHeader_wireHead [of "c\<lparr>conn_in := wireHead ls @ r\<rparr>" ls r fs]
  by (simp add: readRequest_def readLine_wireLine)

lemma readResponse_wire:
  assumes "conn_in c = wireLine line @ wireHead ls @ r" "plain line"
    and "parseStatusLine line = Some (proto, major, minor, code)"
    and "list_all (\<lambda>l. plain l \<and> l \<noteq> []) ls" "map parseField ls = map Some fs"
  shows "readResponse c =
    (Inr \<lparr>rs_Proto = proto, rs_ProtoMajor = major, rs_ProtoMinor = minor, rs_StatusCode = code,
       rs_Header = fs\<rparr>, c\<lparr>conn_in := r\<rparr>)"
  using assms readHeader_wireHead [of "c\<lparr>conn_in := wireHead ls @ r\<rparr>" ls r fs]
  by (simp add: readResponse_def readLine_wireLine)

text \<open>A field whose value is visible text without blanks.\<close>

definition visible :: "string \<Rightarrow> bool" where
  "visible s \<longleftrightarrow> list_all (\<lambda>ch. 32 < (of_char ch :: nat) \<and> (of_char ch :: nat) < 127) s"

lemma visible_plain: "visible s \<Longrightarrow> plain s"
  by (auto simp: visible_def plain_def list_all_iff)

lemma trimBlank_visible: "visible v \<Longrightarrow> trimBlank (CHR '' '' # v) = v"
proof -
  assume v: "visible v"
  have nb: "\<not> isBlank ch" if "ch \<in> set v" for ch
    using v that by (auto simp: visible_def list_all_iff isBlank_def)
  have "dropWhile isBlank v = v" "dropWhile isBlank (rev v) = rev v"
    using nb by (cases v; auto) (metis (no_types, lifting) dropWhile_eq_self_iff hd_in_set nb set_rev)
  then show ?thesis by (simp add: trimBlank_def isBlank_def)
qed

lemma cut_append:
  "sep \<notin> set k \<Longrightarrow> cut sep (k @ sep # v) = Some (k, v)"
  by (auto simp: cut_def dropWhile_append takeWhile_append)

lemma parseField_visible:
  assumes "validToken k" "CHR '':'' \<notin> set k" "visible v"
  shows "parseField (k @ '': '' @ v) = Some (k, v)"
proof -
  have "\<not> list_ex (\<lambda>ch. isCtl ch \<and> ch \<noteq> CHR 0x09) (CHR '' '' # v)"
    using assms(3) by (auto simp: list_ex_iff visible_def list_all_iff isCtl_def)
  then show ?thesis
    using assms cut_append [OF assms(2), of "CHR '' '' # v"] by (simp add: parseField_def trimBlank_visible)
qed

lemma b64Encode_visible: "visible (b64Encode bs)"
proof -
  have "32 < (of_char (b64Char i) :: nat) \<and> (of_char (b64Char i) :: nat) < 127" if "i < 64" for i
    using that by (auto simp: b64_code)
  then show ?thesis
    by (induction bs rule: b64Encode.induct) (simp_all add: visible_def)
qed

end
