(* ===== verification/Ws_Wire.thy ===== *)
theory Ws_Wire
  imports Go_Http
begin

text \<open>
  The wire format of RFC 6455 as far as the WebSocket programs use it: unfragmented frames of
  at most 65535 bytes, masked from the client and plain from the server. The programs have their
  own readers and writers; this is the format both are compared with.
\<close>

text \<open>\<open>payload[i] ^= mask[i%4]\<close>.\<close>

definition xorMask :: "bytes \<Rightarrow> bytes \<Rightarrow> bytes" where
  "xorMask key p = map (\<lambda>i. (p ! i) XOR (key ! (i mod 4))) [0..<length p]"

definition lengthBytes :: "byte \<Rightarrow> nat \<Rightarrow> bytes" where
  "lengthBytes maskBit n =
     (if n \<le> 125 then [maskBit OR of_nat n] else [maskBit OR 126, of_nat (n div 256), of_nat n])"

definition maskedFrame :: "u32 \<Rightarrow> byte \<times> bytes \<Rightarrow> bytes" where
  "maskedFrame m = (\<lambda>(op, p).
     (0x80 OR op) # lengthBytes 0x80 (length p) @ be32 m @ xorMask (be32 m) p)"

definition plainFrame :: "byte \<times> bytes \<Rightarrow> bytes" where
  "plainFrame = (\<lambda>(op, p). (0x80 OR op) # lengthBytes 0 (length p) @ p)"

definition okFrame :: "byte \<times> bytes \<Rightarrow> bool" where
  "okFrame = (\<lambda>(op, p). op < 16 \<and> length p \<le> (if op \<ge> 8 then 125 else 65535))"

lemma length_xorMask [simp]: "length (xorMask k p) = length p"
  by (simp add: xorMask_def)

lemma xorMask_xorMask [simp]: "xorMask k (xorMask k p) = p"
  by (rule nth_equalityI) (simp_all add: xorMask_def xor.assoc)

text \<open>The first length byte carries the mask flag and the length or the escape 126, and the
  escape is followed by the length in network order.\<close>

lemma lengthBytes_short:
  assumes "n \<le> 125"
  shows "lengthBytes mb n = [mb OR of_nat n]" "unat (of_nat n :: byte) = n"
    "(of_nat n :: byte) \<noteq> 126" "(of_nat n :: byte) \<noteq> 127" 
    "(0x80 OR of_nat n :: byte) AND 0x80 \<noteq> 0" "(0x80 OR of_nat n :: byte) AND 0x7f = of_nat n"
    "(of_nat n :: byte) AND 0x80 = 0" "(of_nat n :: byte) AND 0x7f = of_nat n"
proof -
  show "lengthBytes mb n = [mb OR of_nat n]" using assms by (simp add: lengthBytes_def)
  show u: "unat (of_nat n :: byte) = n" using assms by (simp add: unat_of_nat)
  show "(of_nat n :: byte) \<noteq> 126"
  proof
    assume "(of_nat n :: byte) = 126"
    then have "unat (of_nat n :: byte) = 126" by simp
    with u assms show False by simp
  qed
  show "(of_nat n :: byte) \<noteq> 127"
  proof
    assume "(of_nat n :: byte) = 127"
    then have "unat (of_nat n :: byte) = 127" by simp
    with u assms show False by simp
  qed
  from u assms len_bits [of "of_nat n"]
  show "(0x80 OR of_nat n :: byte) AND 0x80 \<noteq> 0" "(0x80 OR of_nat n :: byte) AND 0x7f = of_nat n"
    "(of_nat n :: byte) AND 0x80 = 0" "(of_nat n :: byte) AND 0x7f = of_nat n" by simp_all
qed

lemma lengthBytes_long:
  "125 < n \<Longrightarrow> lengthBytes mb n = (mb OR 126) # be16 (of_nat n)"
  by (simp add: lengthBytes_def be16_of_nat)

lemma length_lengthBytes: "length (lengthBytes mb n) = (if n \<le> 125 then 1 else 3)"
  by (simp add: lengthBytes_def)

lemma length_frames:
  "length (maskedFrame m (op, p)) = length p + (if length p \<le> 125 then 6 else 8)"
  "length (plainFrame (op, p)) = length p + (if length p \<le> 125 then 2 else 4)"
  by (simp_all add: maskedFrame_def plainFrame_def length_lengthBytes)

end
