(* ===== verification/Ws_Server.thy ===== *)
theory Ws_Server
  imports Ws_Wire
begin

text \<open>
  The WebSocket target of \<^verbatim>\<open>implementations/go-http1-websocket/source/main.go\<close>: one opening
  handshake over HTTP/1.1, then a loop that reads masked client frames and echoes the three
  deterministic messages, until the closing handshake. \<open>handleConnection\<close> is the handler of
  one connection.
\<close>

section \<open>Constants\<close>

definition websocketGUID :: string where
  "websocketGUID = ''258EAFA5-E914-47DA-95CA-C5AB0DC85B11''"

definition textPayload :: string where
  "textPayload = ''protocol-lab''"

definition controlPayload :: string where
  "controlPayload = ''protocol-lab-ping''"

section \<open>The opening handshake\<close>

definition websocketAccept :: "string \<Rightarrow> string" where
  "websocketAccept key = b64Encode (sha1Sum (of_string (key @ websocketGUID)))"

definition hasToken :: "string \<Rightarrow> string \<Rightarrow> bool" where
  "hasToken v token \<longleftrightarrow> list_ex (\<lambda>candidate. equalFold (trimSpace candidate) token) (splitOn CHR '','' v)"

definition envOr :: "env \<Rightarrow> string \<Rightarrow> string \<Rightarrow> string" where
  "envOr getenv name fallback =
     (if trimSpace (getenv name) \<noteq> '''' then trimSpace (getenv name) else fallback)"

definition upgradeFailures :: "http_request \<Rightarrow> string list" where
  "upgradeFailures rq =
     (let get = headerGet (rq_Header rq) in
      (if rq_Method rq \<noteq> ''GET'' then [''method is not GET''] else []) @
      (if rq_ProtoMajor rq \<noteq> 1 \<or> rq_ProtoMinor rq \<noteq> 1 then [''protocol is not exact HTTP/1.1''] else []) @
      (if rq_Path rq \<noteq> ''/websocket'' then [''path is not /websocket''] else []) @
      (if rq_Host rq \<noteq> ''websocket.plab.test'' then [''authority is not websocket.plab.test''] else []) @
      (if \<not> equalFold (get ''Upgrade'') ''websocket'' \<or> \<not> hasToken (get ''Connection'') ''upgrade''
       then [''Upgrade/Connection headers are invalid''] else []) @
      (if get ''Sec-WebSocket-Version'' \<noteq> ''13'' then [''Sec-WebSocket-Version is not 13''] else []) @
      (if map_option length (b64Decode (get ''Sec-WebSocket-Key'')) \<noteq> Some 16
       then [''Sec-WebSocket-Key is not base64 of exactly 16 octets''] else []) @
      concat (map (\<lambda>absent. if get absent \<noteq> '''' then [absent @ '' must be absent''] else [])
        [''Origin'', ''Sec-WebSocket-Protocol'', ''Sec-WebSocket-Extensions'']))"

definition validateUpgradeRequest :: "http_request \<Rightarrow> go_error option" where
  "validateUpgradeRequest rq =
     (if upgradeFailures rq \<noteq> [] then Some (Errorf (joinWith ''; '' (upgradeFailures rq))) else None)"

definition badRequest :: string where
  "badRequest = ''HTTP/1.1 400 Bad Request'' @ crlf @ ''Connection: close'' @ crlf @
     ''Content-Length: 0'' @ crlf @ crlf"

definition switchingProtocols :: "string \<Rightarrow> string" where
  "switchingProtocols accept =
     ''HTTP/1.1 101 Switching Protocols'' @ crlf @ ''Upgrade: websocket'' @ crlf @
     ''Connection: Upgrade'' @ crlf @ ''Sec-WebSocket-Accept: '' @ accept @ crlf @ crlf"

section \<open>Frames\<close>

record wire_frame =
  f_fin :: bool
  f_rsv :: byte
  f_opcode :: byte
  f_masked :: bool
  f_payload :: bytes

definition noFrame :: wire_frame where
  "noFrame = \<lparr>f_fin = False, f_rsv = 0, f_opcode = 0, f_masked = False, f_payload = []\<rparr>"

definition readPayloadLength :: "byte \<Rightarrow> conn \<Rightarrow> nat go \<times> conn" where
  "readPayloadLength encoded c =
     (if encoded = 126 then
        (case readFull 2 c of
           (Inl e, c1) \<Rightarrow> (Inl e, c1)
         | (Inr v, c1) \<Rightarrow> (Inr (unat (uint16 v)), c1))
      else if encoded = 127 then
        (case readFull 8 c of
           (Inl e, c1) \<Rightarrow> (Inl e, c1)
         | (Inr v, c1) \<Rightarrow>
             if unat (uint64 v) > 2 ^ 63 - 1 then (Inl (Errorf ''frame length overflows int''), c1)
             else (Inr (unat (uint64 v)), c1))
      else (Inr (unat encoded), c))"

definition headerFrame :: "bytes \<Rightarrow> wire_frame" where
  "headerFrame header =
     \<lparr>f_fin = (header ! 0) AND 0x80 \<noteq> 0, f_rsv = (header ! 0) AND 0x70,
      f_opcode = (header ! 0) AND 0x0f, f_masked = (header ! 1) AND 0x80 \<noteq> 0, f_payload = []\<rparr>"

text \<open>The payload of a frame that is returned with an error is not looked at by any caller; it is
  left empty here.\<close>

definition readFrame :: "conn \<Rightarrow> bool \<Rightarrow> wire_frame \<times> go_error option \<times> conn" where
  "readFrame c requireMask =
     (case readFull 2 c of
        (Inl e, c1) \<Rightarrow> (noFrame, Some e, c1)
      | (Inr header, c1) \<Rightarrow>
          (let r = headerFrame header in
           if f_masked r \<noteq> requireMask then (r, Some (Errorf ''RFC 6455 masking direction mismatch''), c1)
           else (case readPayloadLength ((header ! 1) AND 0x7f) c1 of
               (Inl e, c2) \<Rightarrow> (r, Some e, c2)
             | (Inr len, c2) \<Rightarrow>
                 if len > 2 ^ 20 then (r, Some (Errorf ''frame exceeds package limit''), c2)
                 else (case (if f_masked r then readFull 4 c2 else (Inr [0, 0, 0, 0], c2)) of
                     (Inl e, c3) \<Rightarrow> (r, Some e, c3)
                   | (Inr key, c3) \<Rightarrow> (case readFull len c3 of
                         (Inl e, c4) \<Rightarrow> (r, Some e, c4)
                       | (Inr p, c4) \<Rightarrow>
                           (let f = r\<lparr>f_payload := (if f_masked r then xorMask key p else p)\<rparr> in
                            if f_opcode f \<ge> 0x8 \<and> (\<not> f_fin f \<or> length (f_payload f) > 125)
                            then (f, Some (Errorf ''invalid fragmented or oversized control frame''), c4)
                            else (f, None, c4)))))))"

definition writeFrame :: "conn \<Rightarrow> byte \<Rightarrow> bytes \<Rightarrow> bool \<Rightarrow> go_error option \<times> conn" where
  "writeFrame c opcode payload masked =
     (let maskBit = (if masked then 0x80 else 0 :: byte);
          len = length payload in
      if len > 65535 then (Some (Errorf ''payload exceeds package limit''), c)
      else if masked then (Some (Errorf ''target must never mask server-to-client frames''), c)
      else connWrite ((0x80 OR opcode) #
        (if len \<le> 125 then [maskBit OR of_nat len]
         else [maskBit OR 126, of_nat (len div 256), of_nat len]) @ payload) c)"

section \<open>The connection\<close>

text \<open>\<open>Inl\<close> returns from the handler, \<open>Inr\<close> goes round the loop again.\<close>

definition afterWrite :: "go_error option \<times> conn \<Rightarrow> go_error option \<times> conn + conn" where
  "afterWrite w = (case w of (Some e, c) \<Rightarrow> Inl (Some e, c) | (None, c) \<Rightarrow> Inr c)"

definition dispatch :: "wire_frame \<Rightarrow> conn \<Rightarrow> go_error option \<times> conn + conn" where
  "dispatch f c =
     (if f_opcode f = 0x1 then
        (if to_string (f_payload f) \<noteq> textPayload then Inl (Some (Errorf ''unexpected text payload''), c)
         else afterWrite (writeFrame c 0x1 (f_payload f) False))
      else if f_opcode f = 0x2 then
        (if length (f_payload f) \<noteq> 1024 then Inl (Some (Errorf ''unexpected binary payload length''), c)
         else if list_ex (\<lambda>v. v \<noteq> 66) (f_payload f)
           then Inl (Some (Errorf ''unexpected binary payload content''), c)
         else afterWrite (writeFrame c 0x2 (f_payload f) False))
      else if f_opcode f = 0x9 then
        (if to_string (f_payload f) \<noteq> controlPayload then Inl (Some (Errorf ''unexpected ping payload''), c)
         else afterWrite (writeFrame c 0xA (f_payload f) False))
      else if f_opcode f = 0x8 then
        (if length (f_payload f) \<noteq> 2 \<or> uint16 (f_payload f) \<noteq> 1000
         then Inl (Some (Errorf ''close payload must contain code 1000 with an empty UTF-8 reason''), c)
         else Inl (writeFrame c 0x8 (f_payload f) False))
      else Inl (Some (Errorf (''unsupported RFC 6455 opcode 0x'' @ [hexDigit (unat (f_opcode f))])), c))"

definition frameRound :: "conn \<Rightarrow> go_error option \<times> conn + conn" where
  "frameRound c =
     (case readFrame c True of
        (f, Some e, c1) \<Rightarrow> Inl (Some e, c1)
      | (f, None, c1) \<Rightarrow>
          if \<not> f_fin f \<or> f_rsv f \<noteq> 0
          then Inl (Some (Errorf ''fragmented or RSV-bearing frames are not supported by this exact target''), c1)
          else dispatch f c1)"

lemma writeFrame_in: "writeFrame c op p m = (r, c') \<Longrightarrow> conn_in c' = conn_in c"
  by (auto simp: writeFrame_def Let_def split: if_splits dest: connWrite_frame)

lemma readPayloadLength_in:
  "readPayloadLength b c = (Inr n, c') \<Longrightarrow> length (conn_in c') \<le> length (conn_in c)"
  by (auto simp: readPayloadLength_def split: if_splits prod.splits sum.splits dest: readFull_decreases)

lemma readFrame_shrinks:
  "readFrame c m = (f, None, c') \<Longrightarrow> length (conn_in c') < length (conn_in c)"
  by (auto simp: readFrame_def Let_def split: if_splits prod.splits sum.splits
      dest!: readFull_decreases readPayloadLength_in)

lemma dispatch_in: "dispatch f c = Inr c' \<Longrightarrow> conn_in c' = conn_in c"
  by (auto simp: dispatch_def afterWrite_def split: if_splits prod.splits option.splits
      dest: writeFrame_in)

lemma frameRound_shrinks: "frameRound c = Inr c' \<Longrightarrow> length (conn_in c') < length (conn_in c)"
  by (auto simp: frameRound_def split: if_splits prod.splits option.splits
      dest!: readFrame_shrinks dispatch_in)

function frameLoop :: "conn \<Rightarrow> go_error option \<times> conn" where
  "frameLoop c = (case frameRound c of Inl r \<Rightarrow> r | Inr c' \<Rightarrow> frameLoop c')"
  by pat_completeness auto
termination
  by (relation "measure (\<lambda>c. length (conn_in c))") (auto intro: frameRound_shrinks)

declare frameLoop.simps [simp del]

definition handleConnection :: "conn \<Rightarrow> go_error option \<times> conn" where
  "handleConnection c =
     (case readRequest c of
        (Inl e, c1) \<Rightarrow> (Some (Wrapf ''HTTP/1.1 opening handshake'' e), c1)
      | (Inr request, c1) \<Rightarrow> (case validateUpgradeRequest request of
          Some e \<Rightarrow> (Some e, snd (connWrite (of_string badRequest) c1))
        | None \<Rightarrow>
            (let accept = websocketAccept (headerGet (rq_Header request) ''Sec-WebSocket-Key'') in
             case connWrite (of_string (switchingProtocols accept)) c1 of
               (Some e, c2) \<Rightarrow> (Some e, c2)
             | (None, c2) \<Rightarrow> frameLoop c2)))"

section \<open>Reading and writing frames\<close>

lemma readPayloadLength_short:
  "n \<le> 125 \<Longrightarrow> readPayloadLength (of_nat n) c = (Inr n, c)"
  by (simp add: readPayloadLength_def lengthBytes_short)

lemma readPayloadLength_long:
  "n \<le> 65535 \<Longrightarrow> conn_in c = be16 (of_nat n) @ r \<Longrightarrow>
   readPayloadLength 126 c = (Inr n, c\<lparr>conn_in := r\<rparr>)"
  by (simp add: readPayloadLength_def readFull_append unat_of_nat)

text \<open>A reader of masked frames, as a value or an error.\<close>

definition readMasked :: "conn \<Rightarrow> (byte \<times> bytes) go \<times> conn" where
  "readMasked c =
     (case readFrame c True of
        (f, Some e, c') \<Rightarrow> (Inl e, c')
      | (f, None, c') \<Rightarrow> (Inr (f_opcode f, f_payload f), c'))"

definition finalFrame :: "bool \<Rightarrow> byte \<times> bytes \<Rightarrow> wire_frame" where
  "finalFrame masked = (\<lambda>(op, p).
     \<lparr>f_fin = True, f_rsv = 0, f_opcode = op, f_masked = masked, f_payload = p\<rparr>)"

lemma headerFrame_op:
  "op < 16 \<Longrightarrow> headerFrame ((0x80 OR op) # b # r) =
     \<lparr>f_fin = True, f_rsv = 0, f_opcode = op, f_masked = (b AND 0x80 \<noteq> 0), f_payload = []\<rparr>"
  by (simp add: headerFrame_def op_bits)

lemma readFrame_masked:
  assumes "okFrame (op, p)" "conn_in c = maskedFrame m (op, p) @ r"
  shows "readFrame c True = (finalFrame True (op, p), None, c\<lparr>conn_in := r\<rparr>)"
proof -
  from assms(1) have op: "op < 16" and len: "length p \<le> 65535" "8 \<le> op \<longrightarrow> length p \<le> 125"
    by (auto simp: okFrame_def split: if_splits)
  let ?body = "be32 m @ xorMask (be32 m) p @ r"
  obtain b bs where b: "lengthBytes 0x80 (length p) = b # bs"
    by (cases "length p \<le> 125") (simp_all add: lengthBytes_short(1) lengthBytes_long)
  have "readFull 2 c = (Inr [0x80 OR op, b], c\<lparr>conn_in := bs @ ?body\<rparr>)"
    using assms(2) b by (intro readFull_append) (simp_all add: maskedFrame_def)
  moreover have "b AND 0x80 \<noteq> 0 \<and>
      readPayloadLength (b AND 0x7f) (c\<lparr>conn_in := bs @ ?body\<rparr>) = (Inr (length p), c\<lparr>conn_in := ?body\<rparr>)"
  proof (cases "length p \<le> 125")
    case True
    then show ?thesis using b by (auto simp: lengthBytes_short readPayloadLength_short)
  next
    case False
    then show ?thesis
      using b len by (auto simp: lengthBytes_long readPayloadLength_long)
  qed
  ultimately show ?thesis
    using op len by (simp add: readFrame_def headerFrame_op Let_def finalFrame_def readFull_upd not_less)
qed

interpretation client_frames: stream_codec "maskedFrame m" readMasked okFrame for m
proof
  fix x r and c :: conn
  assume "okFrame x" "conn_in c = maskedFrame m x @ r"
  then show "readMasked c = (Inr x, c\<lparr>conn_in := r\<rparr>)"
    by (cases x) (simp add: readMasked_def readFrame_masked finalFrame_def)
qed

lemma writeFrame_plain:
  "length p \<le> 65535 \<Longrightarrow> writeFrame c op p False = connWrite (plainFrame (op, p)) c"
  by (auto simp: writeFrame_def plainFrame_def lengthBytes_def Let_def)

section \<open>The frames the target answers\<close>

definition echoed :: "byte \<times> bytes \<Rightarrow> bool" where
  "echoed f \<longleftrightarrow> f \<in> {(0x1, of_string textPayload), (0x2, replicate 1024 66), (0x9, of_string controlPayload)}"

definition echoOf :: "byte \<times> bytes \<Rightarrow> byte \<times> bytes" where
  "echoOf = (\<lambda>(op, p). (if op = 0x9 then 0xA else op, p))"

definition closeFrame :: "byte \<times> bytes" where
  "closeFrame = (0x8, be16 1000)"

lemma echoed_ok: "echoed f \<Longrightarrow> okFrame f" "okFrame closeFrame"
  by (auto simp: echoed_def okFrame_def textPayload_def controlPayload_def closeFrame_def)

lemma echo_length: "echoed f \<Longrightarrow> length (snd f) \<le> 65535"
  by (auto simp: echoed_def textPayload_def controlPayload_def)

lemma all66: "length p = 1024 \<and> \<not> list_ex (\<lambda>v. v \<noteq> 66) p \<longleftrightarrow> p = replicate 1024 (66 :: byte)"
  by (auto simp: list_ex_iff intro!: replicate_eqI)

lemma close_payload: "length p = 2 \<and> uint16 p = 1000 \<longleftrightarrow> p = be16 1000"
  using be16_length [of p] by auto
lemma frameRound_echo:
  assumes "conn_in c = maskedFrame m f @ r" "echoed f" "conn_cap c = None"
  shows "frameRound c = Inr (c\<lparr>conn_in := r, conn_out := conn_out c @ [plainFrame (echoOf f)]\<rparr>)"
proof -
  obtain op p where f: "f = (op, p)" by (cases f)
  have rd: "readFrame c True = (finalFrame True (op, p), None, c\<lparr>conn_in := r\<rparr>)"
    using assms f echoed_ok(1) by (intro readFrame_masked) simp_all
  have w: "writeFrame (c\<lparr>conn_in := r\<rparr>) o' p False =
      (None, c\<lparr>conn_in := r, conn_out := conn_out c @ [plainFrame (o', p)]\<rparr>)" for o'
    using assms(3) echo_length [OF assms(2)] f by (simp add: writeFrame_plain connWrite_ok)
  from assms(2) f show ?thesis
    by (auto simp: frameRound_def rd finalFrame_def dispatch_def afterWrite_def echoed_def w echoOf_def
        list_ex_iff)
qed

lemma frameRound_close:
  assumes "conn_in c = maskedFrame m closeFrame @ r" "conn_cap c = None"
  shows "frameRound c = Inl (None, c\<lparr>conn_in := r, conn_out := conn_out c @ [plainFrame closeFrame]\<rparr>)"
proof -
  have "readFrame c True = (finalFrame True closeFrame, None, c\<lparr>conn_in := r\<rparr>)"
    using assms(1) echoed_ok(2) readFrame_masked [of 8 "be16 1000" c m r] by (simp add: closeFrame_def)
  then show ?thesis
    using assms(2)
    by (simp add: frameRound_def finalFrame_def dispatch_def closeFrame_def writeFrame_plain connWrite_ok)
qed

lemma readPayloadLength_out: "readPayloadLength b c = (x, c') \<Longrightarrow> conn_out c' = conn_out c"
  by (auto simp: readPayloadLength_def split: if_splits prod.splits sum.splits
      dest!: readFull_frame(2))

lemma readFrame_out: "readFrame c m = (f, e, c') \<Longrightarrow> conn_out c' = conn_out c"
  by (auto simp: readFrame_def Let_def split: if_splits prod.splits sum.splits
      dest!: readFull_frame(2) readPayloadLength_out)

lemma writeFrame_out:
  "writeFrame c op p False = (None, c') \<Longrightarrow> conn_out c' = conn_out c @ [plainFrame (op, p)]"
  "writeFrame c op p False = (Some e, c') \<Longrightarrow> conn_out c' = conn_out c"
  by (auto simp: writeFrame_def plainFrame_def lengthBytes_def Let_def split: if_splits
      dest: connWrite_out)

text \<open>A round that goes on has echoed one of the deterministic messages; a round that returns has
  written the closing frame when it returns without an error and nothing otherwise.\<close>

lemma frameRound_Inr:
  assumes "frameRound c = Inr c'"
  shows "\<exists>f. echoed f \<and> conn_out c' = conn_out c @ [plainFrame (echoOf f)]"
proof -
  from assms obtain f c1 where f: "readFrame c True = (f, None, c1)" "dispatch f c1 = Inr c'"
    by (auto simp: frameRound_def split: prod.splits option.splits if_splits)
  then have "conn_out c' = conn_out c1 @ [plainFrame (echoOf (f_opcode f, f_payload f))] \<and>
      echoed (f_opcode f, f_payload f)"
    using all66 [of "f_payload f"]
    by (auto simp: dispatch_def afterWrite_def echoed_def echoOf_def to_string_eq_iff
        split: if_splits prod.splits option.splits dest!: writeFrame_out(1))
  with readFrame_out [OF f(1)] show ?thesis by auto
qed

lemma frameRound_Inl:
  assumes "frameRound c = Inl (e, c')"
  shows "conn_out c' = conn_out c @ (if e = None then [plainFrame closeFrame] else [])"
proof -
  obtain f e1 c1 where f: "readFrame c True = (f, e1, c1)" by (metis prod.exhaust)
  show ?thesis
  proof (cases "\<exists>e2. e1 = Some e2 \<or> dispatch f c1 = Inl (e, c') \<and> \<not> (f_fin f \<and> f_rsv f = 0)")
    case True
    then show ?thesis
      using assms f readFrame_out [OF f] by (auto simp: frameRound_def split: option.splits if_splits)
  next
    case False
    then have "dispatch f c1 = Inl (e, c') \<or> conn_out c' = conn_out c1 \<and> e \<noteq> None"
      using assms f by (auto simp: frameRound_def split: option.splits if_splits)
    then show ?thesis
      using readFrame_out [OF f] close_payload [of "f_payload f"]
      by (cases e) (auto simp: dispatch_def afterWrite_def closeFrame_def
        split: if_splits prod.splits option.splits dest!: writeFrame_out)
  qed
qed

lemma frameLoop_out:
  "\<exists>fs. list_all echoed fs \<and> conn_out (snd (frameLoop c)) =
     conn_out c @ map (\<lambda>f. plainFrame (echoOf f)) fs @
       (if fst (frameLoop c) = None then [plainFrame closeFrame] else [])"
proof (induction c rule: frameLoop.induct)
  case (1 c)
  show ?case
  proof (cases "frameRound c")
    case (Inl r)
    then show ?thesis
      using frameRound_Inl [of c "fst r" "snd r"]
      by (auto simp: frameLoop.simps [of c] intro!: exI [of _ "[]"])
  next
    case (Inr c')
    from "1.IH" [OF Inr] obtain fs where fs: "list_all echoed fs"
        "conn_out (snd (frameLoop c')) = conn_out c' @ map (\<lambda>f. plainFrame (echoOf f)) fs @
          (if fst (frameLoop c') = None then [plainFrame closeFrame] else [])" by blast
    from frameRound_Inr [OF Inr] obtain f where
        "echoed f" "conn_out c' = conn_out c @ [plainFrame (echoOf f)]" by blast
    with fs show ?thesis
      by (intro exI [of _ "f # fs"]) (simp add: frameLoop.simps [of c] Inr)
  qed
qed

lemma frameLoop_session:
  assumes "conn_in c = concat (map (\<lambda>(m, f). maskedFrame m f) fs) @ maskedFrame m closeFrame @ rest"
    and "list_all (\<lambda>(m, f). echoed f) fs" and "conn_cap c = None"
  shows "frameLoop c = (None, c\<lparr>conn_in := rest,
     conn_out := conn_out c @ map (\<lambda>(m, f). plainFrame (echoOf f)) fs @ [plainFrame closeFrame]\<rparr>)"
  using assms
proof (induction fs arbitrary: c)
  case Nil
  then show ?case using frameRound_close [of c m rest] by (simp add: frameLoop.simps [of c])
next
  case (Cons x fs)
  obtain n f where x: "x = (n, f)" by (cases x)
  let ?r = "concat (map (\<lambda>(m, f). maskedFrame m f) fs) @ maskedFrame m closeFrame @ rest"
  let ?c = "c\<lparr>conn_in := ?r, conn_out := conn_out c @ [plainFrame (echoOf f)]\<rparr>"
  have "frameRound c = Inr ?c"
    using Cons.prems x by (intro frameRound_echo) simp_all
  then show ?case
    using Cons.IH [of ?c] Cons.prems x by (simp add: frameLoop.simps [of c])
qed

lemma frameLoop_blocked:
  assumes "conn_in c = concat (map (\<lambda>(m, f). maskedFrame m f) fs)"
    and "list_all (\<lambda>(m, f). echoed f) fs" and "conn_cap c = None"
  shows "frameLoop c = (Some (conn_end c), c\<lparr>conn_in := [],
     conn_out := conn_out c @ map (\<lambda>(m, f). plainFrame (echoOf f)) fs\<rparr>)"
  using assms
proof (induction fs arbitrary: c)
  case Nil
  then have "frameRound c = Inl (Some (conn_end c), c)"
    by (simp add: frameRound_def readFrame_def readFull_empty)
  with Nil show ?case by (simp add: frameLoop.simps [of c])
next
  case (Cons x fs)
  obtain n f where x: "x = (n, f)" by (cases x)
  let ?c = "c\<lparr>conn_in := concat (map (\<lambda>(m, f). maskedFrame m f) fs),
    conn_out := conn_out c @ [plainFrame (echoOf f)]\<rparr>"
  have "frameRound c = Inr ?c"
    using Cons.prems x by (intro frameRound_echo) simp_all
  then show ?case
    using Cons.IH [of ?c] Cons.prems x by (simp add: frameLoop.simps [of c])
qed
section \<open>A connection\<close>

text \<open>A session after the opening handshake: masked frames \<open>fs\<close> with the deterministic messages,
  under any masking keys, followed by the closing frame, are echoed one by one, in order and
  unmasked (a ping by a pong), then the close is echoed and the handler returns without an error;
  bytes after the closing frame are left unread.\<close>

theorem websocket_session:
  assumes "conn_in c = concat (map (\<lambda>(m, f). maskedFrame m f) fs) @ maskedFrame m closeFrame @ rest"
    and "list_all (\<lambda>(m, f). echoed f) fs" and "conn_cap c = None"
  shows "frameLoop c = (None, c\<lparr>conn_in := rest,
     conn_out := conn_out c @ map (\<lambda>(m, f). plainFrame (echoOf f)) fs @ [plainFrame closeFrame]\<rparr>)"
  by (rule frameLoop_session [OF assms])

theorem websocket_session_witness:
  "frameLoop \<lparr>conn_in = maskedFrame 0x01020304 (1, of_string textPayload) @
       maskedFrame 0xA0B0C0D0 (9, of_string controlPayload) @ maskedFrame 0 closeFrame @ [1, 2],
     conn_end = EOF, conn_out = [], conn_cap = None\<rparr> =
   (None, \<lparr>conn_in = [1, 2], conn_end = EOF,
      conn_out = [plainFrame (1, of_string textPayload), plainFrame (10, of_string controlPayload),
        plainFrame closeFrame], conn_cap = None\<rparr>)"
  using websocket_session [of
      "\<lparr>conn_in = maskedFrame 0x01020304 (1, of_string textPayload) @
         maskedFrame 0xA0B0C0D0 (9, of_string controlPayload) @ maskedFrame 0 closeFrame @ [1, 2],
       conn_end = EOF, conn_out = [], conn_cap = None\<rparr>"
      "[(0x01020304, (1, of_string textPayload)), (0xA0B0C0D0, (9, of_string controlPayload))]" 0 "[1, 2]"]
  by (simp add: echoed_def echoOf_def)

lemma readLine_out: "readLine c = (x, c') \<Longrightarrow> conn_out c' = conn_out c"
  by (auto simp: readLine_def split: if_splits list.splits)

lemma readHeader_out: "readHeader c = (x, c') \<Longrightarrow> conn_out c' = conn_out c"
proof (induction c arbitrary: x c' rule: readHeader.induct)
  case (1 c)
  then show ?case
    by (auto simp: readHeader.simps [of c] split: prod.splits sum.splits if_splits option.splits
        dest!: readLine_out)
qed

lemma readRequest_out: "readRequest c = (x, c') \<Longrightarrow> conn_out c' = conn_out c"
  by (auto simp: readRequest_def split: prod.splits sum.splits option.splits
      dest!: readLine_out readHeader_out)

text \<open>Whatever a client sends and whenever its connection fails, the handler returns, and it
  writes nothing, or the 400 response alone, or the 101 response with the accept value of the
  request's key followed by unmasked final frames that are echoes of the three deterministic
  messages. It writes the closing frame last, and exactly when it returns without an error.\<close>

theorem handleConnection_safe:
  "\<exists>key fs. list_all echoed fs \<and>
     (case handleConnection c of (err, c') \<Rightarrow>
        err \<noteq> None \<and> conn_out c' \<in> {conn_out c, conn_out c @ [of_string badRequest]} \<or>
        conn_out c' = conn_out c @ of_string (switchingProtocols (websocketAccept key)) #
          map (\<lambda>f. plainFrame (echoOf f)) fs @ (if err = None then [plainFrame closeFrame] else []))"
proof -
  obtain x c1 where rq: "readRequest c = (x, c1)" by (metis prod.exhaust)
  note o1 = readRequest_out [OF rq]
  show ?thesis
  proof (cases "\<exists>r. x = Inr r \<and> validateUpgradeRequest r = None")
    case False
    obtain e c2 where w: "connWrite (of_string badRequest) c1 = (e, c2)" by (metis prod.exhaust)
    then have "conn_out c2 \<in> {conn_out c1, conn_out c1 @ [of_string badRequest]}"
      using connWrite_out [of "of_string badRequest" c1] by (cases e) auto
    with False rq o1 w show ?thesis
      by (intro exI [of _ "[]"]) (auto simp: handleConnection_def split: sum.splits option.splits)
  next
    case True
    then obtain r where r: "x = Inr r" "validateUpgradeRequest r = None" by blast
    let ?key = "headerGet (rq_Header r) ''Sec-WebSocket-Key''"
    let ?resp = "of_string (switchingProtocols (websocketAccept ?key))"
    obtain e c2 where w: "connWrite ?resp c1 = (e, c2)" by (metis prod.exhaust)
    show ?thesis
    proof (cases e)
      case (Some e')
      then show ?thesis
        using rq r w o1 connWrite_out(2) [of ?resp c1 e' c2]
        by (intro exI [of _ "[]"]) (simp add: handleConnection_def)
    next
      case None
      from frameLoop_out [of c2] obtain fs where "list_all echoed fs"
        "conn_out (snd (frameLoop c2)) = conn_out c2 @ map (\<lambda>f. plainFrame (echoOf f)) fs @
           (if fst (frameLoop c2) = None then [plainFrame closeFrame] else [])" by blast
      then show ?thesis
        using rq r w None o1 connWrite_out(1) [of ?resp c1 c2]
        by (intro exI [of _ ?key] exI [of _ fs])
          (simp add: handleConnection_def case_prod_beta)
    qed
  qed
qed

end
