(* ===== verification/Ws_Executor.thy ===== *)
theory Ws_Executor
  imports Ws_Wire Go_Float
begin

text \<open>
  The cleartext WebSocket executor of
  \<^verbatim>\<open>executors/go-http1-websocket-executor/source/main.go\<close>. It opens a connection with a
  fresh random key, checks the whole opening handshake, sends one masked frame per operation,
  checks the echo, closes cleanly and accounts for phases of operations. Random bytes, elapsed
  times and the behaviour of the peer are inputs: a peer answers a write with the number of
  bytes written, an error or none, and what there is to read afterwards.
\<close>

section \<open>Constants and expectations\<close>

definition executorID :: string where
  "executorID = ''go-http1-websocket-executor''"

definition executorVersion :: string where
  "executorVersion = ''0.1.0''"

definition loadGeneratorID :: string where
  "loadGeneratorID = ''go-http1-websocket-load''"

definition loadGeneratorVersion :: string where
  "loadGeneratorVersion = ''0.1.0''"

definition supportedProfile :: string where
  "supportedProfile = ''websocket-smoke''"

definition websocketGUID :: string where
  "websocketGUID = ''258EAFA5-E914-47DA-95CA-C5AB0DC85B11''"

definition textPayload :: string where
  "textPayload = ''protocol-lab''"

definition controlPayload :: string where
  "controlPayload = ''protocol-lab-ping''"

definition hash :: "bytes \<Rightarrow> string" where
  "hash v = sha256Hex v"

definition repeatedByte :: "byte \<Rightarrow> nat \<Rightarrow> bytes" where
  "repeatedByte v count = replicate count v"

record scenario_expectation =
  e_id :: string
  e_operation :: string
  e_messageType :: string
  e_payload :: bytes
  e_payloadHash :: string
  e_requestOpcode :: byte
  e_responseOpcode :: byte
  e_connectionMetric :: bool

definition expectations :: "scenario_expectation list" where
  "expectations =
     [\<lparr>e_id = ''http1.websocket.rfc6455.cleartext.upgrade'', e_operation = ''establish'',
       e_messageType = ''none'', e_payload = [], e_payloadHash = hash [], e_requestOpcode = 0,
       e_responseOpcode = 0, e_connectionMetric = True\<rparr>,
      \<lparr>e_id = ''http1.websocket.rfc6455.cleartext.text-echo'', e_operation = ''text-echo'',
       e_messageType = ''text'', e_payload = of_string textPayload,
       e_payloadHash = ''504585b0bb4fd77012ea2575efbcdb58f4c33e6b543e9567a65896d213720c29'',
       e_requestOpcode = 0x1, e_responseOpcode = 0x1, e_connectionMetric = False\<rparr>,
      \<lparr>e_id = ''http1.websocket.rfc6455.cleartext.binary-echo'', e_operation = ''binary-echo'',
       e_messageType = ''binary'', e_payload = repeatedByte 66 1024,
       e_payloadHash = ''9b6ce55f379e9771551de6939556a7e6b949814ae27c2f5cfd5dbeb378ce7c2a'',
       e_requestOpcode = 0x2, e_responseOpcode = 0x2, e_connectionMetric = False\<rparr>,
      \<lparr>e_id = ''http1.websocket.rfc6455.cleartext.control-frames'', e_operation = ''control-frames'',
       e_messageType = ''none'', e_payload = of_string controlPayload,
       e_payloadHash = ''4848de689e96825e0e05b6c3e96e48f2ad7ec7805fb64ecf824ccc6aa9c58883'',
       e_requestOpcode = 0x9, e_responseOpcode = 0xA, e_connectionMetric = False\<rparr>,
      \<lparr>e_id = ''http1.websocket.rfc6455.cleartext.close'', e_operation = ''close'',
       e_messageType = ''none'', e_payload = [], e_payloadHash = hash [], e_requestOpcode = 0,
       e_responseOpcode = 0, e_connectionMetric = False\<rparr>]"

definition knownUnsupported :: "string list" where
  "knownUnsupported =
     [''websocket.echo'',
      ''http1.websocket.rfc6455.tls.upgrade'', ''http1.websocket.rfc6455.tls.text-echo'',
      ''http1.websocket.rfc6455.tls.binary-echo'', ''http1.websocket.rfc6455.tls.control-frames'',
      ''http1.websocket.rfc6455.tls.close'', ''http1.websocket.rfc6455.tls.subprotocol-text-echo'',
      ''http1.websocket.rfc6455.tls.permessage-deflate-binary-echo'',
      ''http2.websocket.rfc8441.extended-connect'', ''http2.websocket.rfc8441.text-echo'',
      ''http2.websocket.rfc8441.binary-echo'', ''http2.websocket.rfc8441.control-frames'',
      ''http2.websocket.rfc8441.close'', ''http2.websocket.rfc8441.multi-message-text-echo'',
      ''http3.websocket.rfc9220.extended-connect'', ''http3.websocket.rfc9220.text-echo'',
      ''http3.websocket.rfc9220.binary-echo'', ''http3.websocket.rfc9220.control-frames'',
      ''http3.websocket.rfc9220.close'', ''http3.websocket.rfc9220.fragmented-binary-echo'']"

section \<open>Records\<close>

record load_config =
  lc_connections :: int
  lc_concurrency :: int
  lc_durationSeconds :: int
  lc_warmupSeconds :: int
  lc_repetition :: int
  lc_operationTimeoutMilliseconds :: int

record handshake_proof =
  h_Binding :: string
  h_Scheme :: string
  h_TransportSecurity :: string
  h_Endpoint :: string
  h_Authority :: string
  h_RequestMethod :: string
  h_RequestedHTTPVersion :: string
  h_ObservedHTTPVersion :: string
  h_ResponseStatus :: int
  h_UpgradeHeader :: string
  h_ConnectionHeader :: string
  h_SecWebSocketVersion :: string
  h_SecWebSocketKeyPolicy :: string
  h_SampleSecWebSocketKey :: string
  h_ExpectedSecWebSocketAccept :: string
  h_ObservedSecWebSocketAccept :: string
  h_SubprotocolRequested :: bool
  h_SubprotocolNegotiated :: bool
  h_ExtensionsRequested :: bool
  h_ExtensionsNegotiated :: bool
  h_FallbackDetected :: bool
  h_ConnectionEstablished :: bool

definition noHandshake :: handshake_proof where
  "noHandshake =
     \<lparr>h_Binding = '''', h_Scheme = '''', h_TransportSecurity = '''', h_Endpoint = '''',
      h_Authority = '''', h_RequestMethod = '''', h_RequestedHTTPVersion = '''',
      h_ObservedHTTPVersion = '''', h_ResponseStatus = 0, h_UpgradeHeader = '''',
      h_ConnectionHeader = '''', h_SecWebSocketVersion = '''', h_SecWebSocketKeyPolicy = '''',
      h_SampleSecWebSocketKey = '''', h_ExpectedSecWebSocketAccept = '''',
      h_ObservedSecWebSocketAccept = '''', h_SubprotocolRequested = False,
      h_SubprotocolNegotiated = False, h_ExtensionsRequested = False,
      h_ExtensionsNegotiated = False, h_FallbackDetected = False, h_ConnectionEstablished = False\<rparr>"

record operation_proof =
  o_ScenarioID :: string
  o_Operation :: string
  o_MessageType :: string
  o_MessageBytes :: int
  o_MessageCount :: int
  o_PayloadSHA256 :: string
  o_ControlPayloadBytes :: int
  o_ControlPayloadSHA256 :: string
  o_Fragmentation :: string
  o_ClientFrameMasked :: bool
  o_ServerFrameMasked :: bool
  o_RequestOpcode :: string
  o_ResponseOpcode :: string
  o_OrderedEcho :: bool
  o_PingSent :: bool
  o_PongReceived :: bool
  o_CloseSentCode :: int
  o_CloseReceivedCode :: int
  o_CloseReasonBytes :: int
  o_CleanCompletion :: bool
  o_TransportEOFObserved :: bool
  o_Handshake :: handshake_proof
  o_LatencyMilliseconds :: rat
  o_TransferredBytes :: int
  o_HandshakeRequest :: string
  o_HandshakeResponse :: string

definition noOperation :: operation_proof where
  "noOperation =
     \<lparr>o_ScenarioID = '''', o_Operation = '''', o_MessageType = '''', o_MessageBytes = 0,
      o_MessageCount = 0, o_PayloadSHA256 = '''', o_ControlPayloadBytes = 0,
      o_ControlPayloadSHA256 = '''', o_Fragmentation = '''', o_ClientFrameMasked = False,
      o_ServerFrameMasked = False, o_RequestOpcode = '''', o_ResponseOpcode = '''',
      o_OrderedEcho = False, o_PingSent = False, o_PongReceived = False, o_CloseSentCode = 0,
      o_CloseReceivedCode = 0, o_CloseReasonBytes = 0, o_CleanCompletion = False,
      o_TransportEOFObserved = False, o_Handshake = noHandshake, o_LatencyMilliseconds = 0,
      o_TransferredBytes = 0, o_HandshakeRequest = '''', o_HandshakeResponse = ''''\<rparr>"

record phase_summary =
  ps_Phase :: string
  ps_DurationSeconds :: rat
  ps_CompletedOperations :: int
  ps_FailedOperations :: int
  ps_TimedOutOperations :: int
  ps_TotalTransferredBytes :: int
  ps_EffectiveConnections :: int
  ps_EffectiveConcurrency :: int
  ps_LatenciesMilliseconds :: "rat list"
  ps_LastProof :: operation_proof
  ps_OpeningHandshakes :: int
  ps_KeyReuseCount :: int
  ps_InvalidDecodedKeyCount :: int
  ps_AcceptMismatchCount :: int
  ps_UpgradeRequestHeadersMatched :: bool
  ps_UpgradeResponseHeadersMatched :: bool
  ps_Errors :: "string \<rightharpoonup> nat"
  ps_seenKeys :: "string set"

text \<open>The peer of a connection, and the client's connection after the opening handshake.\<close>

type_synonym ws_peer = "bytes \<Rightarrow> conn \<Rightarrow> nat \<times> go_error option \<times> conn"

record ws_connection =
  c_peer :: ws_peer
  c_conn :: conn
  c_handshake :: handshake_proof
  c_rawRequest :: string
  c_rawResponse :: string
  c_handshakeMS :: rat
  c_bytes :: int

record wire_frame =
  w_fin :: bool
  w_rsv :: byte
  w_opcode :: byte
  w_masked :: bool
  w_payload :: bytes
  w_bytes :: nat

definition noFrame :: wire_frame where
  "noFrame = \<lparr>w_fin = False, w_rsv = 0, w_opcode = 0, w_masked = False, w_payload = [], w_bytes = 0\<rparr>"

section \<open>Small functions\<close>

definition websocketAccept :: "string \<Rightarrow> string" where
  "websocketAccept key = b64Encode (sha1Sum (of_string (key @ websocketGUID)))"

definition hasToken :: "string \<Rightarrow> string \<Rightarrow> bool" where
  "hasToken v token \<longleftrightarrow> list_ex (\<lambda>candidate. equalFold (trimSpace candidate) token) (splitOn CHR '','' v)"

definition opcodeName :: "byte \<Rightarrow> string" where
  "opcodeName v =
     (if v = 0x1 then ''text'' else if v = 0x2 then ''binary'' else if v = 0x8 then ''close''
      else if v = 0x9 then ''ping'' else if v = 0xA then ''pong''
      else ''0x'' @ (if v < 16 then [hexDigit (unat v)] else hexEncode [v]))"

definition payloadGenerator :: "scenario_expectation \<Rightarrow> string" where
  "payloadGenerator v =
     (if e_operation v \<in> {''text-echo'', ''control-frames''} then ''exact-utf8''
      else if e_operation v = ''binary-echo'' then ''repeated-octet'' else ''none'')"

definition durationMS :: "int \<Rightarrow> rat" where
  "durationMS nanos = fdiv (f64 (of_int nanos)) 1000000"

definition applySemanticCounts :: "operation_proof \<Rightarrow> scenario_expectation \<Rightarrow> operation_proof" where
  "applySemanticCounts p e =
     (if e_operation e = ''control-frames'' then
        p\<lparr>o_MessageBytes := 0, o_MessageCount := 1,
          o_ControlPayloadBytes := int (length (e_payload e)), o_ControlPayloadSHA256 := e_payloadHash e\<rparr>
      else if e_operation e \<in> {''text-echo'', ''binary-echo''} then
        p\<lparr>o_MessageBytes := int (length (e_payload e)), o_MessageCount := 1\<rparr>
      else p\<lparr>o_MessageBytes := 0, o_MessageCount := 0\<rparr>)"

definition hasFailures :: "phase_summary \<Rightarrow> bool" where
  "hasFailures s \<longleftrightarrow> ps_FailedOperations s \<noteq> 0 \<or> ps_TimedOutOperations s \<noteq> 0"

definition countError :: "string \<Rightarrow> (string \<rightharpoonup> nat) \<Rightarrow> (string \<rightharpoonup> nat)" where
  "countError text m = m(text \<mapsto> (case m text of None \<Rightarrow> 1 | Some n \<Rightarrow> Suc n))"

section \<open>Frames\<close>

text \<open>The four random mask bytes are given as the 32-bit number they spell, or as the error of
  the random source.\<close>

definition clientWire :: "byte \<Rightarrow> bytes \<Rightarrow> u32 \<Rightarrow> bytes" where
  "clientWire opcode payload m =
     (let len = length payload;
          header = (0x80 OR opcode) #
            (if len \<le> 125 then [0x80 OR of_nat len]
             else [0x80 OR 126, of_nat (len div 256), of_nat len])
      in header @ be32 m @ xorMask (be32 m) payload)"

definition writeClientFrame ::
  "ws_peer \<Rightarrow> conn \<Rightarrow> byte \<Rightarrow> bytes \<Rightarrow> u32 go \<Rightarrow> nat \<times> go_error option \<times> conn" where
  "writeClientFrame peer c opcode payload rnd =
     (if length payload > 65535 then (0, Some (Errorf ''payload exceeds package limit''), c)
      else (case rnd of
          Inl e \<Rightarrow> (0, Some e, c)
        | Inr m \<Rightarrow> peer (clientWire opcode payload m) c))"

definition readPayloadLength :: "conn \<Rightarrow> byte \<Rightarrow> nat go \<times> nat \<times> conn" where
  "readPayloadLength c encoded =
     (if encoded = 126 then
        (case readFull 2 c of
           (Inl e, c1) \<Rightarrow> (Inl e, 2, c1)
         | (Inr v, c1) \<Rightarrow> (Inr (unat (uint16 v)), 2, c1))
      else if encoded = 127 then
        (case readFull 8 c of
           (Inl e, c1) \<Rightarrow> (Inl e, 8, c1)
         | (Inr v, c1) \<Rightarrow>
             if unat (uint64 v) > 2 ^ 63 - 1 then (Inl (Errorf ''frame length overflows int''), 8, c1)
             else (Inr (unat (uint64 v)), 8, c1))
      else (Inr (unat encoded), 0, c))"

definition headerFrame :: "bytes \<Rightarrow> wire_frame" where
  "headerFrame header =
     \<lparr>w_fin = (header ! 0) AND 0x80 \<noteq> 0, w_rsv = (header ! 0) AND 0x70,
      w_opcode = (header ! 0) AND 0x0f, w_masked = (header ! 1) AND 0x80 \<noteq> 0, w_payload = [],
      w_bytes = 2\<rparr>"

text \<open>A frame returned with an error is looked at for its size only; its payload is left empty.\<close>

definition readFrame :: "conn \<Rightarrow> bool \<Rightarrow> wire_frame \<times> go_error option \<times> conn" where
  "readFrame c requireMask =
     (case readFull 2 c of
        (Inl e, c1) \<Rightarrow> (noFrame, Some e, c1)
      | (Inr header, c1) \<Rightarrow>
          (let r = headerFrame header in
           if w_masked r \<noteq> requireMask then (r, Some (Errorf ''RFC 6455 masking direction mismatch''), c1)
           else (case readPayloadLength c1 ((header ! 1) AND 0x7f) of
               (Inl e, n, c2) \<Rightarrow> (r\<lparr>w_bytes := w_bytes r + n\<rparr>, Some e, c2)
             | (Inr len, n, c2) \<Rightarrow>
                 (let r = r\<lparr>w_bytes := w_bytes r + n\<rparr> in
                  if len > 2 ^ 20 then (r, Some (Errorf ''frame exceeds package limit''), c2)
                  else (case (if w_masked r then readFull 4 c2 else (Inr [0, 0, 0, 0], c2)) of
                      (Inl e, c3) \<Rightarrow> (r, Some e, c3)
                    | (Inr key, c3) \<Rightarrow>
                        (let r = (if w_masked r then r\<lparr>w_bytes := w_bytes r + 4\<rparr> else r) in
                         case readFull len c3 of
                           (Inl e, c4) \<Rightarrow> (r, Some e, c4)
                         | (Inr p, c4) \<Rightarrow>
                             (let f = r\<lparr>w_payload := (if w_masked r then xorMask key p else p),
                                        w_bytes := w_bytes r + len\<rparr> in
                              if w_opcode f \<ge> 0x8 \<and> (\<not> w_fin f \<or> length (w_payload f) > 125)
                              then (f, Some (Errorf ''invalid control frame''), c4)
                              else (f, None, c4))))))))"

definition readByte :: "conn \<Rightarrow> byte go \<times> conn" where
  "readByte c = (case conn_in c of [] \<Rightarrow> (Inl (conn_end c), c) | b # r \<Rightarrow> (Inr b, c\<lparr>conn_in := r\<rparr>))"

fun headerLoop :: "bytes \<Rightarrow> bytes \<Rightarrow> go_error \<Rightarrow> bytes go \<times> bytes" where
  "headerLoop data inp e =
     (if length data < 16384 then
        (case inp of
           [] \<Rightarrow> (Inl e, [])
         | v # r \<Rightarrow>
             if length (data @ [v]) \<ge> 4 \<and>
                drop (length (data @ [v]) - 4) (data @ [v]) = [CR, LF, CR, LF]
             then (Inr (data @ [v]), r) else headerLoop (data @ [v]) r e)
      else (Inl (Errorf ''opening handshake response header exceeds 16 KiB''), inp))"

declare headerLoop.simps [simp del]

definition readHTTPHeader :: "conn \<Rightarrow> string go \<times> conn" where
  "readHTTPHeader c =
     (case headerLoop [] (conn_in c) (conn_end c) of
        (Inl e, r) \<Rightarrow> (Inl e, c\<lparr>conn_in := r\<rparr>)
      | (Inr d, r) \<Rightarrow> (Inr (to_string d), c\<lparr>conn_in := r\<rparr>))"

section \<open>The opening handshake\<close>

definition upgradeRequest :: "string \<Rightarrow> string" where
  "upgradeRequest key =
     ''GET /websocket HTTP/1.1'' @ crlf @ ''Host: websocket.plab.test'' @ crlf @
     ''Upgrade: websocket'' @ crlf @ ''Connection: Upgrade'' @ crlf @
     ''Sec-WebSocket-Key: '' @ key @ crlf @ ''Sec-WebSocket-Version: 13'' @ crlf @ crlf"

definition handshakeOf :: "string \<Rightarrow> http_response \<Rightarrow> handshake_proof" where
  "handshakeOf key response =
     (let get = headerGet (rs_Header response) in
      noHandshake\<lparr>h_Binding := ''http1-upgrade'', h_Scheme := ''ws'',
        h_TransportSecurity := ''cleartext'', h_Endpoint := ''/websocket'',
        h_Authority := ''websocket.plab.test'', h_RequestMethod := ''GET'',
        h_RequestedHTTPVersion := ''HTTP/1.1'', h_ObservedHTTPVersion := rs_Proto response,
        h_ResponseStatus := rs_StatusCode response, h_UpgradeHeader := get ''Upgrade'',
        h_ConnectionHeader := get ''Connection'', h_SecWebSocketVersion := ''13'',
        h_SecWebSocketKeyPolicy := ''fresh-random-16-octets-per-opening-handshake'',
        h_SampleSecWebSocketKey := key, h_ExpectedSecWebSocketAccept := websocketAccept key,
        h_ObservedSecWebSocketAccept := get ''Sec-WebSocket-Accept'',
        h_SubprotocolRequested := False,
        h_SubprotocolNegotiated := get ''Sec-WebSocket-Protocol'' \<noteq> '''',
        h_ExtensionsRequested := False,
        h_ExtensionsNegotiated := get ''Sec-WebSocket-Extensions'' \<noteq> '''',
        h_FallbackDetected := rs_ProtoMajor response \<noteq> 1 \<or> rs_ProtoMinor response \<noteq> 1\<rparr>)"

definition handshakeFailures :: "handshake_proof \<Rightarrow> string list" where
  "handshakeFailures p =
     (if h_FallbackDetected p then [''observed protocol is not exact HTTP/1.1''] else []) @
     (if h_ResponseStatus p \<noteq> 101 then [''opening handshake status is not 101''] else []) @
     (if \<not> equalFold (h_UpgradeHeader p) ''websocket'' \<or> \<not> hasToken (h_ConnectionHeader p) ''upgrade''
      then [''opening handshake Upgrade/Connection response is invalid''] else []) @
     (if h_ObservedSecWebSocketAccept p \<noteq> h_ExpectedSecWebSocketAccept p
      then [''Sec-WebSocket-Accept mismatch''] else []) @
     (if h_SubprotocolNegotiated p \<or> h_ExtensionsNegotiated p
      then [''unrequested subprotocol or extension was negotiated''] else [])"

text \<open>One dial: whether the target parses and the connection opens, the 16 random key bytes, the
  peer with the connection to it, and the time the handshake takes.\<close>

record dial =
  d_parse :: "go_error option"
  d_dial :: "go_error option"
  d_key :: "bytes go"
  d_peer :: ws_peer
  d_conn :: conn
  d_nanos :: int

definition stringReader :: "string \<Rightarrow> conn" where
  "stringReader s = \<lparr>conn_in = of_string s, conn_end = EOF, conn_out = [], conn_cap = None\<rparr>"

definition openWebSocket :: "dial \<Rightarrow> ws_connection go" where
  "openWebSocket d =
     (case (d_parse d, d_dial d, d_key d) of
        (Some e, _, _) \<Rightarrow> Inl e
      | (None, Some e, _) \<Rightarrow> Inl e
      | (None, None, Inl e) \<Rightarrow> Inl e
      | (None, None, Inr keyBytes) \<Rightarrow>
          (let key = b64Encode keyBytes; rawRequest = upgradeRequest key in
           case d_peer d (of_string rawRequest) (d_conn d) of
             (_, Some e, _) \<Rightarrow> Inl e
           | (_, None, c1) \<Rightarrow> (case readHTTPHeader c1 of
               (Inl e, _) \<Rightarrow> Inl e
             | (Inr rawResponse, c2) \<Rightarrow> (case readResponse (stringReader rawResponse) of
                 (Inl e, _) \<Rightarrow> Inl e
               | (Inr response, _) \<Rightarrow>
                   (let p = handshakeOf key response; failures = handshakeFailures p in
                    if failures \<noteq> [] then Inl (Errorf (joinWith ''; '' failures))
                    else Inr \<lparr>c_peer = d_peer d, c_conn = c2,
                              c_handshake = p\<lparr>h_ConnectionEstablished := True\<rparr>,
                              c_rawRequest = rawRequest, c_rawResponse = rawResponse,
                              c_handshakeMS = durationMS (d_nanos d),
                              c_bytes = int (length rawRequest + length rawResponse)\<rparr>)))))"

section \<open>Operations\<close>

definition newProof :: "ws_connection \<Rightarrow> scenario_expectation \<Rightarrow> operation_proof" where
  "newProof w e = applySemanticCounts
     (noOperation\<lparr>o_ScenarioID := e_id e, o_Operation := e_operation e,
        o_MessageType := e_messageType e, o_MessageBytes := int (length (e_payload e)),
        o_PayloadSHA256 := e_payloadHash e, o_Fragmentation := ''none'',
        o_Handshake := c_handshake w, o_CloseReasonBytes := 0,
        o_HandshakeRequest := c_rawRequest w, o_HandshakeResponse := c_rawResponse w\<rparr>) e"

definition performOnOpenConnection ::
  "ws_connection \<Rightarrow> scenario_expectation \<Rightarrow> u32 go \<Rightarrow> int \<Rightarrow>
   operation_proof \<times> go_error option \<times> ws_connection" where
  "performOnOpenConnection w e rnd nanos =
     (let p = newProof w e in
      case writeClientFrame (c_peer w) (c_conn w) (e_requestOpcode e) (e_payload e) rnd of
        (n, werr, c1) \<Rightarrow>
          (let w1 = w\<lparr>c_conn := c1, c_bytes := c_bytes w + int n\<rparr> in
           case werr of
             Some err \<Rightarrow> (p, Some err, w1)
           | None \<Rightarrow>
               (let p1 = p\<lparr>o_ClientFrameMasked := True, o_RequestOpcode := opcodeName (e_requestOpcode e)\<rparr> in
                case readFrame c1 False of
                  (f, rerr, c2) \<Rightarrow>
                    (let w2 = w1\<lparr>c_conn := c2, c_bytes := c_bytes w1 + int (w_bytes f)\<rparr> in
                     case rerr of
                       Some err \<Rightarrow> (p1, Some err, w2)
                     | None \<Rightarrow>
                         (let p2 = p1\<lparr>o_LatencyMilliseconds := durationMS nanos,
                                o_ServerFrameMasked := w_masked f, o_ResponseOpcode := opcodeName (w_opcode f)\<rparr> in
                          if \<not> w_fin f \<or> w_rsv f \<noteq> 0 \<or> w_opcode f \<noteq> e_responseOpcode e \<or>
                             w_payload f \<noteq> e_payload e
                          then (p2, Some (Errorf ''response frame opcode, fragmentation, or deterministic payload mismatch''), w2)
                          else (p2\<lparr>o_OrderedEcho := e_operation e \<in> {''text-echo'', ''binary-echo''},
                                  o_PingSent := e_operation e = ''control-frames'',
                                  o_PongReceived := e_operation e = ''control-frames'',
                                  o_TransferredBytes := c_bytes w2 - c_bytes w\<rparr>, None, w2))))))"

definition closeCleanly ::
  "ws_connection \<Rightarrow> operation_proof \<Rightarrow> u32 go \<Rightarrow> go_error option \<times> operation_proof \<times> ws_connection" where
  "closeCleanly w p rnd =
     (case writeClientFrame (c_peer w) (c_conn w) 0x8 [0x03, 0xE8] rnd of
        (n, werr, c1) \<Rightarrow>
          (let w1 = w\<lparr>c_conn := c1, c_bytes := c_bytes w + int n\<rparr> in
           case werr of
             Some err \<Rightarrow> (Some err, p, w1)
           | None \<Rightarrow>
               (let p1 = p\<lparr>o_ClientFrameMasked := True, o_CloseSentCode := 1000\<rparr> in
                case readFrame c1 False of
                  (f, rerr, c2) \<Rightarrow>
                    (let w2 = w1\<lparr>c_conn := c2, c_bytes := c_bytes w1 + int (w_bytes f)\<rparr> in
                     case rerr of
                       Some err \<Rightarrow> (Some err, p1, w2)
                     | None \<Rightarrow>
                         if \<not> w_fin f \<or> w_rsv f \<noteq> 0 \<or> w_masked f \<or> w_opcode f \<noteq> 0x8 \<or>
                            length (w_payload f) \<noteq> 2 \<or> uint16 (w_payload f) \<noteq> 1000
                         then (Some (Errorf ''clean close echo mismatch''), p1, w2)
                         else (let p2 = p1\<lparr>o_ServerFrameMasked := False, o_CloseReceivedCode := 1000\<rparr> in
                           case readByte c2 of
                             (Inr b, c3) \<Rightarrow>
                               (Some (Errorf ''unexpected bytes followed the WebSocket closing handshake''), p2,
                                w2\<lparr>c_conn := c3\<rparr>)
                           | (Inl err, c3) \<Rightarrow>
                               if \<not> errorsIs err EOF
                               then (Some (Wrapf ''waiting for peer transport close after WebSocket closing handshake'' err),
                                     p2, w2\<lparr>c_conn := c3\<rparr>)
                               else (None, p2\<lparr>o_TransportEOFObserved := True, o_CleanCompletion := True\<rparr>,
                                     w2\<lparr>c_conn := c3\<rparr>))))))"

text \<open>One operation with its own connection: the dial, the mask of the message and of the close,
  and the measured time of the message or of the close.\<close>

record op_env =
  r_dial :: dial
  r_mask :: "u32 go"
  r_closeMask :: "u32 go"
  r_nanos :: int

definition performOperation :: "op_env \<Rightarrow> scenario_expectation \<Rightarrow> operation_proof \<times> go_error option" where
  "performOperation r e =
     (case openWebSocket (r_dial r) of
        Inl err \<Rightarrow> (noOperation, Some err)
      | Inr w \<Rightarrow>
          (let p = newProof w e in
           if e_operation e = ''establish'' then
             (let p1 = p\<lparr>o_LatencyMilliseconds := c_handshakeMS w\<rparr> in
              case closeCleanly w p1 (r_closeMask r) of
                (Some err, p2, w1) \<Rightarrow> (p2, Some err)
              | (None, p2, w1) \<Rightarrow> (p2\<lparr>o_TransferredBytes := c_bytes w1\<rparr>, None))
           else if e_operation e = ''close'' then
             (case closeCleanly w p (r_closeMask r) of
                (Some err, p1, w1) \<Rightarrow> (p1, Some err)
              | (None, p1, w1) \<Rightarrow>
                  (p1\<lparr>o_LatencyMilliseconds := durationMS (r_nanos r), o_TransferredBytes := c_bytes w1\<rparr>, None))
           else (case performOnOpenConnection w e (r_mask r) (r_nanos r) of
                (p1, Some err, w1) \<Rightarrow> (p1, Some err)
              | (p1, None, w1) \<Rightarrow>
                  (case closeCleanly w1 p1 (r_closeMask r) of
                     (Some err, p2, w2) \<Rightarrow> (p2, Some err)
                   | (None, p2, w2) \<Rightarrow> (p2\<lparr>o_TransferredBytes := c_bytes w2\<rparr>, None)))))"

section \<open>Phases\<close>

definition newPhaseSummary :: "string \<Rightarrow> phase_summary" where
  "newPhaseSummary name =
     \<lparr>ps_Phase = name, ps_DurationSeconds = 0, ps_CompletedOperations = 0, ps_FailedOperations = 0,
      ps_TimedOutOperations = 0, ps_TotalTransferredBytes = 0, ps_EffectiveConnections = 1,
      ps_EffectiveConcurrency = 1, ps_LatenciesMilliseconds = [], ps_LastProof = noOperation,
      ps_OpeningHandshakes = 0, ps_KeyReuseCount = 0, ps_InvalidDecodedKeyCount = 0,
      ps_AcceptMismatchCount = 0, ps_UpgradeRequestHeadersMatched = True,
      ps_UpgradeResponseHeadersMatched = True, ps_Errors = Map.empty, ps_seenKeys = {}\<rparr>"

definition requestHeadersMatched :: "handshake_proof \<Rightarrow> bool" where
  "requestHeadersMatched p \<longleftrightarrow>
     h_Binding p = ''http1-upgrade'' \<and> h_Scheme p = ''ws'' \<and> h_TransportSecurity p = ''cleartext'' \<and>
     h_Endpoint p = ''/websocket'' \<and> h_Authority p = ''websocket.plab.test'' \<and> h_RequestMethod p = ''GET'' \<and>
     h_RequestedHTTPVersion p = ''HTTP/1.1'' \<and> h_SecWebSocketVersion p = ''13'' \<and>
     \<not> h_SubprotocolRequested p \<and> \<not> h_ExtensionsRequested p"

definition responseHeadersMatched :: "handshake_proof \<Rightarrow> bool" where
  "responseHeadersMatched p \<longleftrightarrow>
     h_ObservedHTTPVersion p = ''HTTP/1.1'' \<and> h_ResponseStatus p = 101 \<and>
     equalFold (h_UpgradeHeader p) ''websocket'' \<and> hasToken (h_ConnectionHeader p) ''upgrade'' \<and>
     \<not> h_SubprotocolNegotiated p \<and> \<not> h_ExtensionsNegotiated p \<and>
     h_ObservedSecWebSocketAccept p = h_ExpectedSecWebSocketAccept p"

definition recordOpeningHandshake :: "phase_summary \<Rightarrow> handshake_proof \<Rightarrow> phase_summary" where
  "recordOpeningHandshake s p =
     (let key = h_SampleSecWebSocketKey p in
      s\<lparr>ps_OpeningHandshakes := ps_OpeningHandshakes s + 1,
        ps_InvalidDecodedKeyCount := ps_InvalidDecodedKeyCount s +
          (if map_option length (b64Decode key) \<noteq> Some 16 then 1 else 0),
        ps_KeyReuseCount := ps_KeyReuseCount s + (if key \<in> ps_seenKeys s then 1 else 0),
        ps_seenKeys := insert key (ps_seenKeys s),
        ps_AcceptMismatchCount := ps_AcceptMismatchCount s +
          (if websocketAccept key \<noteq> h_ObservedSecWebSocketAccept p then 1 else 0),
        ps_UpgradeRequestHeadersMatched := ps_UpgradeRequestHeadersMatched s \<and> requestHeadersMatched p,
        ps_UpgradeResponseHeadersMatched := ps_UpgradeResponseHeadersMatched s \<and> responseHeadersMatched p\<rparr>)"

definition recordError :: "go_error \<Rightarrow> phase_summary \<Rightarrow> phase_summary" where
  "recordError e s =
     (if isTimeout e then s\<lparr>ps_TimedOutOperations := ps_TimedOutOperations s + 1\<rparr>
      else s\<lparr>ps_FailedOperations := ps_FailedOperations s + 1\<rparr>)
     \<lparr>ps_Errors := countError (errorText e) (ps_Errors s)\<rparr>"

definition recordOperation :: "operation_proof \<Rightarrow> phase_summary \<Rightarrow> phase_summary" where
  "recordOperation p s =
     s\<lparr>ps_CompletedOperations := ps_CompletedOperations s + 1,
       ps_TotalTransferredBytes := ps_TotalTransferredBytes s + o_TransferredBytes p,
       ps_LatenciesMilliseconds := ps_LatenciesMilliseconds s @ [o_LatencyMilliseconds p],
       ps_LastProof := p\<rparr>"

text \<open>The rounds that the deadline admits.\<close>

fun operationLoop :: "scenario_expectation \<Rightarrow> op_env list \<Rightarrow> phase_summary \<Rightarrow> phase_summary" where
  "operationLoop e [] s = s"
| "operationLoop e (r # rs) s =
     (case performOperation r e of
        (p, Some err) \<Rightarrow> recordError err s
      | (p, None) \<Rightarrow> operationLoop e rs (recordOperation p (recordOpeningHandshake s (o_Handshake p))))"

fun reuseLoop ::
  "scenario_expectation \<Rightarrow> (u32 go \<times> int) list \<Rightarrow> ws_connection \<Rightarrow> phase_summary \<Rightarrow>
   phase_summary \<times> ws_connection" where
  "reuseLoop e [] w s = (s, w)"
| "reuseLoop e ((rnd, nanos) # rs) w s =
     (case performOnOpenConnection w e rnd nanos of
        (p, Some err, w1) \<Rightarrow> (recordError err s, w1)
      | (p, None, w1) \<Rightarrow> reuseLoop e rs w1 (recordOperation p s))"

record phase_env =
  pe_dial :: dial
  pe_messages :: "(u32 go \<times> int) list"
  pe_closeMask :: "u32 go"
  pe_operations :: "op_env list"
  pe_elapsed :: rat

definition runReusablePhase :: "phase_env \<Rightarrow> scenario_expectation \<Rightarrow> string \<Rightarrow> phase_summary" where
  "runReusablePhase env e name =
     (case openWebSocket (pe_dial env) of
        Inl err \<Rightarrow> (newPhaseSummary name)\<lparr>ps_FailedOperations := 1, ps_Errors := [errorText err \<mapsto> 1]\<rparr>
      | Inr w \<Rightarrow>
          (case reuseLoop e (pe_messages env) w (recordOpeningHandshake (newPhaseSummary name) (c_handshake w)) of
             (s, w1) \<Rightarrow>
               (let s1 = (if ps_FailedOperations s = 0 \<and> ps_TimedOutOperations s = 0 then
                    (case closeCleanly w1 (ps_LastProof s) (pe_closeMask env) of
                       (Some err, p, w2) \<Rightarrow> recordError err (s\<lparr>ps_LastProof := p\<rparr>)
                     | (None, p, w2) \<Rightarrow> s\<lparr>ps_LastProof := p\<rparr>)
                  else s)
                in s1\<lparr>ps_DurationSeconds := pe_elapsed env\<rparr>)))"

definition runPhase :: "phase_env \<Rightarrow> scenario_expectation \<Rightarrow> string \<Rightarrow> phase_summary" where
  "runPhase env e name =
     (if e_operation e \<in> {''text-echo'', ''binary-echo'', ''control-frames''}
      then runReusablePhase env e name
      else (operationLoop e (pe_operations env) (newPhaseSummary name))
        \<lparr>ps_DurationSeconds := pe_elapsed env\<rparr>)"

section \<open>Metrics and the normalized result\<close>

fun sumFrom :: "rat \<Rightarrow> rat list \<Rightarrow> rat" where
  "sumFrom t [] = t"
| "sumFrom t (x # xs) = sumFrom (fadd t x) xs"

definition mean :: "rat list \<Rightarrow> rat" where
  "mean v = (if v = [] then 0 else fdiv (sumFrom 0 v) (f64 (of_nat (length v))))"

definition percentile :: "rat list \<Rightarrow> rat \<Rightarrow> rat" where
  "percentile v q =
     (if v = [] then 0
      else (let i = \<lceil>fmul q (f64 (of_nat (length v)))\<rceil> - 1;
                j = (if i < 0 then 0 else i);
                k = (if j \<ge> int (length v) then int (length v) - 1 else j)
            in sort v ! nat k))"

record metrics =
  m_ConnectionsPerSecond :: rat
  m_MessagesPerSecond :: rat
  m_BytesPerSecond :: rat
  m_ConnectionLatency :: "rat list"  \<comment> \<open>mean, p50, p75, p90, p95, p99\<close>
  m_MessageLatency :: "rat list"  \<comment> \<open>mean, p50, p75, p90, p95, p99\<close>
  m_ControlFrameLatency :: "rat list"  \<comment> \<open>p50, p95, p99\<close>
  m_CloseLatency :: "rat list"  \<comment> \<open>p50, p95, p99\<close>
  m_CompletedOperations :: int
  m_FailedOperations :: int
  m_TimedOutOperations :: int
  m_TotalTransferredBytes :: int
  m_EffectiveConnections :: int
  m_EffectiveConcurrency :: int

record normalized_result =
  n_SchemaVersion :: string
  n_ScenarioID :: string
  n_LoadProfileID :: string
  n_Status :: string
  n_Executor :: "string \<times> string"
  n_LoadGenerator :: "string \<times> string"
  n_RequestedProtocol :: string
  n_ObservedProtocol :: string
  n_ProtocolVariant :: string
  n_FallbackDetected :: bool
  n_WebSocket :: operation_proof
  n_OpeningHandshakes :: int
  n_KeyReuseCount :: int
  n_InvalidDecodedKeyCount :: int
  n_AcceptMismatchCount :: int
  n_UpgradeHeadersMatched :: "bool \<times> bool"
  n_CleanClose :: bool
  n_RequestedLoad :: load_config
  n_Metrics :: metrics

definition metricsOf :: "scenario_expectation \<Rightarrow> phase_summary \<Rightarrow> metrics" where
  "metricsOf e s =
     (let v = ps_LatenciesMilliseconds s;
          rate = fdiv (f64 (of_int (ps_CompletedOperations s))) (ps_DurationSeconds s);
          p50 = percentile v (f64 (50 / 100)); p75 = percentile v (f64 (75 / 100));
          p90 = percentile v (f64 (90 / 100)); p95 = percentile v (f64 (95 / 100));
          p99 = percentile v (f64 (99 / 100));
          full = [mean v, p50, p75, p90, p95, p99]; short = [p50, p95, p99];
          base = \<lparr>m_ConnectionsPerSecond = 0, m_MessagesPerSecond = 0,
            m_BytesPerSecond = fdiv (f64 (of_int (ps_TotalTransferredBytes s))) (ps_DurationSeconds s),
            m_ConnectionLatency = [0, 0, 0, 0, 0, 0], m_MessageLatency = [0, 0, 0, 0, 0, 0],
            m_ControlFrameLatency = [0, 0, 0], m_CloseLatency = [0, 0, 0],
            m_CompletedOperations = ps_CompletedOperations s, m_FailedOperations = ps_FailedOperations s,
            m_TimedOutOperations = ps_TimedOutOperations s,
            m_TotalTransferredBytes = ps_TotalTransferredBytes s,
            m_EffectiveConnections = ps_EffectiveConnections s,
            m_EffectiveConcurrency = ps_EffectiveConcurrency s\<rparr>
      in if e_operation e = ''establish''
         then base\<lparr>m_ConnectionsPerSecond := rate, m_ConnectionLatency := full\<rparr>
         else if e_operation e = ''close'' then base\<lparr>m_CloseLatency := short\<rparr>
         else if e_operation e = ''control-frames''
         then base\<lparr>m_MessagesPerSecond := rate, m_ControlFrameLatency := short\<rparr>
         else base\<lparr>m_MessagesPerSecond := rate, m_MessageLatency := full\<rparr>)"

definition normalizeResult :: "scenario_expectation \<Rightarrow> load_config \<Rightarrow> phase_summary \<Rightarrow> normalized_result" where
  "normalizeResult e config s =
     \<lparr>n_SchemaVersion = ''protocol-lab.websocket-h1-executor-result.v1'', n_ScenarioID = e_id e,
      n_LoadProfileID = supportedProfile, n_Status = ''passed'',
      n_Executor = (executorID, executorVersion),
      n_LoadGenerator = (loadGeneratorID, loadGeneratorVersion),
      n_RequestedProtocol = ''websocket-over-h1-cleartext'',
      n_ObservedProtocol = ''websocket-over-h1-cleartext'',
      n_ProtocolVariant = ''websocket-h1-cleartext-upgrade'', n_FallbackDetected = False,
      n_WebSocket = ps_LastProof s, n_OpeningHandshakes = ps_OpeningHandshakes s,
      n_KeyReuseCount = ps_KeyReuseCount s, n_InvalidDecodedKeyCount = ps_InvalidDecodedKeyCount s,
      n_AcceptMismatchCount = ps_AcceptMismatchCount s,
      n_UpgradeHeadersMatched = (ps_UpgradeRequestHeadersMatched s, ps_UpgradeResponseHeadersMatched s),
      n_CleanClose = True, n_RequestedLoad = config, n_Metrics = metricsOf e s\<rparr>"

section \<open>Identity, configuration and the run\<close>

definition envInt :: "env \<Rightarrow> string \<Rightarrow> int" where
  "envInt getenv name = fst (atoi (trimSpace (getenv name)))"

definition envIntDefault :: "env \<Rightarrow> string \<Rightarrow> int \<Rightarrow> int" where
  "envIntDefault getenv name fallback =
     (if trimSpace (getenv name) = '''' then fallback else envInt getenv name)"

definition verifySubstitution :: "env \<Rightarrow> string \<Rightarrow> string \<Rightarrow> bool" where
  \<comment> \<open>\<open>False\<close> ends the process with code 2\<close>
  "verifySubstitution getenv variable expected \<longleftrightarrow>
     trimSpace (getenv variable) = '''' \<or> trimSpace (getenv variable) = expected"

datatype identity = Expectation scenario_expectation | Exit nat

definition checkIdentityOrExit :: "env \<Rightarrow> identity" where
  "checkIdentityOrExit getenv =
     (if \<not> (verifySubstitution getenv ''PLAB_EXECUTOR_ID'' executorID \<and>
             verifySubstitution getenv ''PLAB_EXECUTOR_VERSION'' executorVersion \<and>
             verifySubstitution getenv ''PLAB_LOAD_GENERATOR_ID'' loadGeneratorID \<and>
             verifySubstitution getenv ''PLAB_LOAD_GENERATOR_VERSION'' loadGeneratorVersion \<and>
             verifySubstitution getenv ''PLAB_PROTOCOL'' ''h1'' \<and>
             verifySubstitution getenv ''PLAB_PROTOCOL_VARIANT'' ''websocket-h1-cleartext-upgrade'')
      then Exit 2
      else (let scenario = trimSpace (getenv ''PLAB_SCENARIO_ID'') in
        case find (\<lambda>e. e_id e = scenario) expectations of
          Some e \<Rightarrow> Expectation e
        | None \<Rightarrow> if scenario \<in> set knownUnsupported then Exit 3 else Exit 2))"

definition loadConfigFromEnvironment :: "env \<Rightarrow> load_config go" where
  "loadConfigFromEnvironment getenv =
     (if trimSpace (getenv ''PLAB_LOAD_PROFILE_ID'') \<noteq> supportedProfile
      then Inl (Errorf (''supports load profile '' @ quoted supportedProfile @ '' only''))
      else (let config =
          \<lparr>lc_connections = envInt getenv ''PLAB_CONNECTIONS'',
           lc_concurrency = envInt getenv ''PLAB_CONCURRENCY'',
           lc_durationSeconds = envInt getenv ''PLAB_DURATION_SECONDS'',
           lc_warmupSeconds = envInt getenv ''PLAB_WARMUP_SECONDS'',
           lc_repetition = envInt getenv ''PLAB_REPETITION'',
           lc_operationTimeoutMilliseconds =
             envIntDefault getenv ''PLAB_OPERATION_TIMEOUT_MILLISECONDS'' 5000\<rparr> in
        if lc_connections config \<noteq> 1 \<or> lc_concurrency config \<noteq> 1 \<or> lc_durationSeconds config \<noteq> 5 \<or>
           lc_warmupSeconds config \<noteq> 1 \<or> lc_repetition config \<noteq> 1 \<or>
           lc_operationTimeoutMilliseconds config \<noteq> 5000
        then Inl (Errorf ''websocket-smoke requires connections=1 concurrency=1 duration=5 warmup=1 repetition=1 operationTimeoutMilliseconds=5000'')
        else Inr config))"

record preflight_doc =
  v_scenarioId :: string
  v_passed :: bool
  v_requestedProtocol :: string
  v_observedProtocol :: string
  v_fallbackDetected :: bool
  v_completedOperations :: nat
  v_failedOperations :: nat
  v_timedOutOperations :: nat
  v_error :: string

definition boolInt :: "bool \<Rightarrow> nat" where
  "boolInt b = (if b then 1 else 0)"

definition errorString :: "go_error option \<Rightarrow> string" where
  "errorString err = (case err of None \<Rightarrow> '''' | Some e \<Rightarrow> errorText e)"

definition preflightValidation ::
  "scenario_expectation \<Rightarrow> operation_proof \<Rightarrow> go_error option \<Rightarrow> preflight_doc" where
  "preflightValidation e p err =
     (let timedOut = (case err of None \<Rightarrow> False | Some x \<Rightarrow> isTimeout x)
      in \<lparr>v_scenarioId = e_id e,
          v_passed = (err = None \<and> h_ConnectionEstablished (o_Handshake p) \<and>
            \<not> h_FallbackDetected (o_Handshake p) \<and> o_CleanCompletion p),
          v_requestedProtocol = ''websocket-over-h1-cleartext'',
          v_observedProtocol = (if h_ConnectionEstablished (o_Handshake p)
            then ''websocket-over-h1-cleartext'' else ''''),
          v_fallbackDetected = h_FallbackDetected (o_Handshake p),
          v_completedOperations = boolInt (err = None),
          v_failedOperations = boolInt (err \<noteq> None \<and> \<not> timedOut),
          v_timedOutOperations = boolInt timedOut, v_error = errorString err\<rparr>)"

datatype artifact =
    ValidationJson preflight_doc | ProtocolProof bool operation_proof | WebSocketSummary operation_proof
  | PayloadHash string nat string string bool | HandshakeSummary handshake_proof
  | FrameSummary bool bool string string int | ExecutorIdentity "string list"
  | HandshakeRequest string | HandshakeResponse string | ResultValidation preflight_doc
  | WarmupSummary phase_summary | LoadSummary phase_summary
  | LoadGeneratorIdentity "string \<times> string" | ExecutorResult normalized_result
  | ResultJson normalized_result

text \<open>Insertion into a list sorted by the order of the characters, as \<^verbatim>\<open>sort.Strings\<close> does.\<close>

fun stringLess :: "string \<Rightarrow> string \<Rightarrow> bool" where
  "stringLess s [] \<longleftrightarrow> False"
| "stringLess [] (d # ds) \<longleftrightarrow> True"
| "stringLess (c # cs) (d # ds) \<longleftrightarrow>
     (of_char c :: nat) < of_char d \<or> c = d \<and> stringLess cs ds"

fun insertString :: "string \<Rightarrow> string list \<Rightarrow> string list" where
  "insertString s [] = [s]"
| "insertString s (t # ts) = (if stringLess s t then s # t # ts else t # insertString s ts)"

definition sortedSupportedIDs :: "string list" where
  "sortedSupportedIDs = foldr insertString (map e_id expectations) []"

definition writePreflightArtifacts ::
  "scenario_expectation \<Rightarrow> operation_proof \<Rightarrow> go_error option \<Rightarrow> artifact list" where
  "writePreflightArtifacts e p err =
     (let validation = preflightValidation e p err in
      [ValidationJson validation, ProtocolProof (h_FallbackDetected (o_Handshake p)) p,
       WebSocketSummary p,
       PayloadHash (payloadGenerator e) (length (e_payload e)) (e_payloadHash e) (hash (e_payload e))
         (e_payloadHash e = hash (e_payload e)),
       HandshakeSummary (o_Handshake p),
       FrameSummary (o_ClientFrameMasked p) (o_ServerFrameMasked p) (o_RequestOpcode p)
         (o_ResponseOpcode p) (o_CloseReceivedCode p),
       ExecutorIdentity sortedSupportedIDs,
       HandshakeRequest (o_HandshakeRequest p), HandshakeResponse (o_HandshakeResponse p),
       ResultValidation validation])"

text \<open>The body of \<^verbatim>\<open>main\<close> once the identity is checked: what is written, and the exit code.\<close>

definition runMain ::
  "env \<Rightarrow> scenario_expectation \<Rightarrow> bool \<Rightarrow> op_env \<Rightarrow> phase_env \<Rightarrow> phase_env \<Rightarrow> artifact list \<times> nat" where
  "runMain getenv e validationOnly preflight warm meas =
     (case performOperation preflight e of
        (p, err) \<Rightarrow>
          (let gate = writePreflightArtifacts e p err in
           if err \<noteq> None then (gate, 1)
           else if validationOnly then (gate, 0)
           else (case loadConfigFromEnvironment getenv of
               Inl _ \<Rightarrow> (gate, 2)
             | Inr config \<Rightarrow>
                 (let warmup = runPhase warm e ''warmup'' in
                  if hasFailures warmup \<or> ps_CompletedOperations warmup = 0
                  then (gate @ [WarmupSummary warmup], 1)
                  else (let measured = runPhase meas e ''measured'' in
                    if hasFailures measured \<or> ps_CompletedOperations measured = 0
                    then (gate @ [WarmupSummary warmup, LoadSummary measured], 1)
                    else (let result = normalizeResult e config measured in
                      (gate @ [WarmupSummary warmup, LoadSummary measured,
                         LoadGeneratorIdentity (n_LoadGenerator result), ExecutorResult result,
                         ResultJson result], 0)))))))"

section \<open>Frames and heads on the wire\<close>

lemma clientWire_masked: "clientWire op p m = maskedFrame m (op, p)"
  by (simp add: clientWire_def maskedFrame_def lengthBytes_def Let_def)

lemma payloadLength_short: "n \<le> 125 \<Longrightarrow> readPayloadLength c (of_nat n) = (Inr n, 0, c)"
  by (simp add: readPayloadLength_def lengthBytes_short)

lemma payloadLength_long:
  "n \<le> 65535 \<Longrightarrow> conn_in c = be16 (of_nat n) @ r \<Longrightarrow>
   readPayloadLength c 126 = (Inr n, 2, c\<lparr>conn_in := r\<rparr>)"
  by (simp add: readPayloadLength_def readFull_append unat_of_nat)

definition plainRead :: "byte \<times> bytes \<Rightarrow> wire_frame" where
  "plainRead = (\<lambda>(op, p). \<lparr>w_fin = True, w_rsv = 0, w_opcode = op, w_masked = False, w_payload = p,
     w_bytes = length (plainFrame (op, p))\<rparr>)"

lemma readFrame_plain:
  assumes "okFrame (op, p)" "conn_in c = plainFrame (op, p) @ r"
  shows "readFrame c False = (plainRead (op, p), None, c\<lparr>conn_in := r\<rparr>)"
proof -
  from assms(1) have op: "op < 16" and len: "length p \<le> 65535" "8 \<le> op \<longrightarrow> length p \<le> 125"
    by (auto simp: okFrame_def split: if_splits)
  obtain b bs where b: "lengthBytes 0 (length p) = b # bs"
    by (cases "length p \<le> 125") (simp_all add: lengthBytes_short(1) lengthBytes_long)
  have "readFull 2 c = (Inr [0x80 OR op, b], c\<lparr>conn_in := bs @ p @ r\<rparr>)"
    using assms(2) b by (intro readFull_append) (simp_all add: plainFrame_def)
  moreover have "b AND 0x80 = 0 \<and>
      readPayloadLength (c\<lparr>conn_in := bs @ p @ r\<rparr>) (b AND 0x7f) =
        (Inr (length p), length bs, c\<lparr>conn_in := p @ r\<rparr>)"
  proof (cases "length p \<le> 125")
    case True
    then show ?thesis using b by (auto simp: lengthBytes_short payloadLength_short)
  next
    case False
    then show ?thesis
      using b len by (auto simp: lengthBytes_long payloadLength_long)
  qed
  moreover have "length (plainFrame (op, p)) = 2 + length bs + length p"
    using b by (simp add: plainFrame_def)
  ultimately show ?thesis
    using op len
    by (simp add: readFrame_def headerFrame_def op_bits Let_def plainRead_def readFull_upd not_less)
qed

definition readPlain :: "conn \<Rightarrow> (byte \<times> bytes) go \<times> conn" where
  "readPlain c =
     (case readFrame c False of
        (f, Some e, c') \<Rightarrow> (Inl e, c')
      | (f, None, c') \<Rightarrow> (Inr (w_opcode f, w_payload f), c'))"

interpretation server_frames: stream_codec plainFrame readPlain okFrame
proof
  fix x r and c :: conn
  assume "okFrame x" "conn_in c = plainFrame x @ r"
  then show "readPlain c = (Inr x, c\<lparr>conn_in := r\<rparr>)"
    by (cases x) (simp add: readPlain_def readFrame_plain plainRead_def)
qed

text \<open>Reading a head stops at its empty line: bytes without a line feed never end it, nor does
  the line feed after a line with text.\<close>

definition endsHead :: "bytes \<Rightarrow> bool" where
  "endsHead d \<longleftrightarrow> (\<exists>d'. d = d' @ [CR, LF, CR, LF])"

lemma endsHead_drop: "endsHead d \<longleftrightarrow> 4 \<le> length d \<and> drop (length d - 4) d = [CR, LF, CR, LF]"
  (is "?L \<longleftrightarrow> ?R")
proof
  assume ?R
  then have "d = take (length d - 4) d @ [CR, LF, CR, LF]" by (metis append_take_drop_id)
  then show ?L unfolding endsHead_def by blast
qed (auto simp: endsHead_def)

lemma headerLoop_Cons:
  "length d < 16384 \<Longrightarrow> headerLoop d (v # r) e =
     (if endsHead (d @ [v]) then (Inr (d @ [v]), r) else headerLoop (d @ [v]) r e)"
  by (subst headerLoop.simps) (simp only: endsHead_drop list.case if_True)

lemma headerLoop_skip:
  assumes "LF \<notin> set x" "length (d @ x) \<le> 16384"
  shows "headerLoop d (x @ r) e = headerLoop (d @ x) r e"
  using assms
proof (induction x arbitrary: d)
  case (Cons v x)
  then have "\<not> endsHead (d @ [v])" by (auto simp: endsHead_def)
  then show ?case
    using Cons.IH [of "d @ [v]"] Cons.prems by (simp add: headerLoop_Cons)
qed simp

lemma headerLoop_line:
  assumes "plain l" "l \<noteq> []" "length (d @ wireLine l) \<le> 16384"
  shows "headerLoop d (wireLine l @ r) e = headerLoop (d @ wireLine l) r e"
proof -
  let ?x = "of_string l @ [CR]"
  have "of_string l \<noteq> []" using assms(2) by (simp add: of_string_def)
  then obtain y ys where l: "of_string l = ys @ [y]" by (metis rev_exhaust)
  with plain_bytes [OF assms(1)] have "\<not> endsHead ((d @ ?x) @ [LF])"
    by (auto simp: endsHead_def)
  moreover have "headerLoop d (wireLine l @ r) e = headerLoop (d @ ?x) (LF # r) e"
    using headerLoop_skip [of ?x d "LF # r" e] plain_bytes [OF assms(1)] assms(3)
    by (simp add: wireLine_def)
  ultimately show ?thesis
    using assms(3) by (simp add: headerLoop_Cons wireLine_def)
qed

lemma headerLoop_head:
  assumes "list_all (\<lambda>l. plain l \<and> l \<noteq> []) ls" "d \<noteq> [] \<longrightarrow> (\<exists>d'. d = d' @ [CR, LF])" "ls = [] \<longrightarrow> d \<noteq> []"
    and "length (d @ wireHead ls) \<le> 16384"
  shows "headerLoop d (wireHead ls @ r) e = (Inr (d @ wireHead ls), r)"
  using assms
proof (induction ls arbitrary: d)
  case Nil
  then obtain d' where d: "d = d' @ [CR, LF]" by auto
  have "headerLoop d (wireHead [] @ r) e = headerLoop (d @ [CR]) (LF # r) e"
    using headerLoop_skip [of "[CR]" d "LF # r" e] Nil.prems by (simp add: wireHead_def)
  moreover have "endsHead ((d @ [CR]) @ [LF])" using d by (simp add: endsHead_def)
  ultimately show ?case
    using Nil.prems by (simp add: headerLoop_Cons wireHead_def)
next
  case (Cons l ls)
  have "headerLoop d (wireHead (l # ls) @ r) e = headerLoop (d @ wireLine l) (wireHead ls @ r) e"
    using headerLoop_line [of l d "wireHead ls @ r" e] Cons.prems by (simp add: wireHead_def)
  also have "\<dots> = (Inr ((d @ wireLine l) @ wireHead ls), r)"
    using Cons.prems by (intro Cons.IH) (auto simp: wireHead_def wireLine_def)
  finally show ?case by (simp add: wireHead_def)
qed

lemma readHTTPHeader_wireHead:
  assumes "conn_in c = wireHead ls @ r" "list_all (\<lambda>l. plain l \<and> l \<noteq> []) ls" "ls \<noteq> []"
    and "length (wireHead ls) \<le> 16384"
  shows "readHTTPHeader c = (Inr (to_string (wireHead ls)), c\<lparr>conn_in := r\<rparr>)"
  using assms headerLoop_head [of ls "[]" r] by (simp add: readHTTPHeader_def)

lemma headerLoop_spec:
  assumes "\<not> (\<exists>k\<le>length d. endsHead (take k d))"
  shows "case headerLoop d inp e of
      (Inr h, r) \<Rightarrow> d @ inp = h @ r \<and> endsHead h \<and> length h \<le> 16384 \<and>
        \<not> (\<exists>k<length h. endsHead (take k h))
    | (Inl _, r) \<Rightarrow> \<not> (\<exists>k\<le>16384. endsHead (take k (d @ inp)))"
  using assms
proof (induction inp arbitrary: d)
  case Nil
  then show ?case
    by (auto simp: headerLoop.simps [of d] not_less) (metis linorder_le_cases take_all_iff order_refl)+
next
  case (Cons v inp)
  show ?case
  proof (cases "length d < 16384")
    case False
    then show ?thesis
      using Cons.prems by (auto simp: headerLoop.simps [of d])
  next
    case True
    show ?thesis
    proof (cases "endsHead (d @ [v])")
      case ends: True
      then show ?thesis
        using True Cons.prems by (auto simp: headerLoop_Cons less_Suc_eq_le)
    next
      case False
      then have "\<not> (\<exists>k\<le>length (d @ [v]). endsHead (take k (d @ [v])))"
        using Cons.prems by (auto simp: le_Suc_eq)
      from Cons.IH [OF this] show ?thesis
        using True False by (simp add: headerLoop_Cons split: prod.splits sum.splits)
    qed
  qed
qed

text \<open>The response head the executor reads is exactly the bytes up to and including the first
  empty line, never more than 16 KiB, and what follows it stays on the connection for the frame
  reader; an error means that the first 16 KiB contain no empty line.\<close>

theorem readHTTPHeader_spec:
  "case readHTTPHeader c of
     (Inr s, c') \<Rightarrow> conn_in c = of_string s @ conn_in c' \<and> endsHead (of_string s) \<and> length s \<le> 16384 \<and>
       list_all (\<lambda>k. \<not> endsHead (take k (of_string s))) [0..<length s]
   | (Inl e, c') \<Rightarrow> list_all (\<lambda>k. \<not> endsHead (take k (conn_in c))) [0..<16385]"
proof -
  have "\<not> (\<exists>k\<le>length ([] :: bytes). endsHead (take k []))" by (simp add: endsHead_def)
  from headerLoop_spec [OF this, of "conn_in c" "conn_end c"] show ?thesis
    by (auto simp: readHTTPHeader_def list_all_iff less_Suc_eq_le split: prod.splits sum.splits)
qed

section \<open>What a phase counts\<close>

definition accounted :: "phase_summary \<Rightarrow> bool" where
  "accounted s \<longleftrightarrow> ps_CompletedOperations s = int (length (ps_LatenciesMilliseconds s)) \<and>
     finite (ps_seenKeys s) \<and>
     ps_OpeningHandshakes s = int (card (ps_seenKeys s)) + ps_KeyReuseCount s"

definition unfailed :: "phase_summary \<Rightarrow> bool" where
  "unfailed s \<longleftrightarrow> ps_FailedOperations s = 0 \<and> ps_TimedOutOperations s = 0 \<and> ps_Errors s = Map.empty"

definition failedOnce :: "phase_summary \<Rightarrow> bool" where
  "failedOnce s \<longleftrightarrow> ps_FailedOperations s + ps_TimedOutOperations s = 1 \<and>
     (\<exists>text. ps_Errors s = [text \<mapsto> 1])"

lemma summary_new: "accounted (newPhaseSummary name)" "unfailed (newPhaseSummary name)"
  by (simp_all add: accounted_def unfailed_def newPhaseSummary_def)

lemma summary_handshake:
  "accounted s \<Longrightarrow> accounted (recordOpeningHandshake s p)"
  "unfailed s \<Longrightarrow> unfailed (recordOpeningHandshake s p)"
  by (simp_all add: accounted_def unfailed_def recordOpeningHandshake_def Let_def insert_absorb)

lemma summary_operation:
  "accounted s \<Longrightarrow> accounted (recordOperation p s)" "unfailed s \<Longrightarrow> unfailed (recordOperation p s)"
  by (simp_all add: accounted_def unfailed_def recordOperation_def)

lemma summary_error:
  "accounted s \<Longrightarrow> accounted (recordError e s)" "unfailed s \<Longrightarrow> failedOnce (recordError e s)"
  by (auto simp: accounted_def unfailed_def failedOnce_def recordError_def countError_def)

lemma operationLoop_summary:
  "accounted s \<Longrightarrow> unfailed s \<Longrightarrow> accounted (operationLoop e rs s) \<and>
     (unfailed (operationLoop e rs s) \<or> failedOnce (operationLoop e rs s))"
proof (induction rs arbitrary: s)
  case (Cons r rs)
  then show ?case
    by (auto simp: summary_error summary_operation summary_handshake split: prod.splits option.splits)
qed simp

lemma reuseLoop_summary:
  "accounted s \<Longrightarrow> unfailed s \<Longrightarrow> reuseLoop e rs w s = (s', w') \<Longrightarrow>
     accounted s' \<and> (unfailed s' \<or> failedOnce s')"
proof (induction e rs w s rule: reuseLoop.induct)
  case (2 e rnd nanos rs w s)
  then show ?case
    by (auto simp: summary_error summary_operation split: prod.splits option.splits)
qed auto

lemma failedOnce_counts:
  "failedOnce s \<Longrightarrow> (ps_FailedOperations s \<noteq> 0 \<or> ps_TimedOutOperations s \<noteq> 0) \<and>
     ps_FailedOperations s + ps_TimedOutOperations s = 1 \<and> ps_Errors s \<noteq> Map.empty"
  by (auto simp: failedOnce_def) (metis map_upd_nonempty)

lemma summary_update:
  "accounted (s\<lparr>ps_DurationSeconds := d\<rparr>) = accounted s" "accounted (s\<lparr>ps_LastProof := p\<rparr>) = accounted s"
  "unfailed (s\<lparr>ps_DurationSeconds := d\<rparr>) = unfailed s" "unfailed (s\<lparr>ps_LastProof := p\<rparr>) = unfailed s"
  "failedOnce (s\<lparr>ps_DurationSeconds := d\<rparr>) = failedOnce s" "failedOnce (s\<lparr>ps_LastProof := p\<rparr>) = failedOnce s"
  by (simp_all add: accounted_def unfailed_def failedOnce_def)

lemma runReusablePhase_summary:
  "accounted (runReusablePhase env e name) \<and>
     (unfailed (runReusablePhase env e name) \<or> failedOnce (runReusablePhase env e name))"
proof (cases "openWebSocket (pe_dial env)")
  case (Inl err)
  then show ?thesis
    by (auto simp: runReusablePhase_def accounted_def failedOnce_def newPhaseSummary_def)
next
  case (Inr w)
  let ?s0 = "recordOpeningHandshake (newPhaseSummary name) (c_handshake w)"
  obtain s w1 where l: "reuseLoop e (pe_messages env) w ?s0 = (s, w1)" by (metis prod.exhaust)
  have s: "accounted s \<and> (unfailed s \<or> failedOnce s)"
    using reuseLoop_summary [OF _ _ l] summary_handshake summary_new by blast
  obtain x p w2 where c: "closeCleanly w1 (ps_LastProof s) (pe_closeMask env) = (x, p, w2)"
    by (metis prod.exhaust)
  show ?thesis
    using s c Inr l failedOnce_counts [of s]
    by (cases x) (auto simp: runReusablePhase_def summary_update summary_error Let_def)
qed

text \<open>Accounting of a phase, whatever the peer does. The completed operations are the recorded
  latencies; every opening handshake either used a new key or is counted as a reuse; and a phase
  either counted no failure and recorded no error, or stopped at its first one, counted once as
  failed or as timed out with its text.\<close>

theorem phase_accounting:
  "let s = runPhase env e name in
     ps_CompletedOperations s = int (length (ps_LatenciesMilliseconds s)) \<and>
     ps_OpeningHandshakes s = int (card (ps_seenKeys s)) + ps_KeyReuseCount s \<and>
     (hasFailures s \<longleftrightarrow> ps_Errors s \<noteq> Map.empty) \<and>
     ps_FailedOperations s + ps_TimedOutOperations s \<in> {0, 1}"
proof -
  have "accounted (runPhase env e name) \<and>
      (unfailed (runPhase env e name) \<or> failedOnce (runPhase env e name))"
    using runReusablePhase_summary [of env e name]
      operationLoop_summary [OF summary_new, of e "pe_operations env" name]
    by (simp add: runPhase_def summary_update)
  then show ?thesis
    using failedOnce_counts [of "runPhase env e name"]
    by (auto simp: Let_def accounted_def unfailed_def hasFailures_def)
qed

section \<open>Percentiles and payload digests\<close>

lemma ws_percentile: "percentile = nearestRank"
  by (simp add: fun_eq_iff percentile_def nearestRank_def rankIndex_def Let_def)

lemma pad_0:
  "hexDecode (''80000000000000000000000000000000000000000000000000000000000000000000000000000000000000000000000000000000000000000000000000000000'') =
     Some ([0x80] @ replicate ((119 - 0 mod 64) mod 64) 0 @ be64 (of_nat (8 * 0)))"
  by code_simp

lemma pad_12:
  "hexDecode (''80000000000000000000000000000000000000000000000000000000000000000000000000000000000000000000000000000060'') =
     Some ([0x80] @ replicate ((119 - 12 mod 64) mod 64) 0 @ be64 (of_nat (8 * 12)))"
  by code_simp

lemma pad_17:
  "hexDecode (''8000000000000000000000000000000000000000000000000000000000000000000000000000000000000000000088'') =
     Some ([0x80] @ replicate ((119 - 17 mod 64) mod 64) 0 @ be64 (of_nat (8 * 17)))"
  by code_simp

lemma pad_1024:
  "hexDecode (''80000000000000000000000000000000000000000000000000000000000000000000000000000000000000000000000000000000000000000000000000002000'') =
     Some ([0x80] @ replicate ((119 - 1024 mod 64) mod 64) 0 @ be64 (of_nat (8 * 1024)))"
proof -
  have "hexDecode (''80000000000000000000000000000000000000000000000000000000000000000000000000000000000000000000000000000000000000000000000000002000'') =
      Some ([0x80] @ replicate 55 0 @ be64 8192)"
    by code_simp
  then show ?thesis by simp
qed

definition hex1024 :: string where
  "hex1024 =
    ''42424242424242424242424242424242424242424242424242424242424242424242424242424242424242424242424242424242424242424242424242424242'' @
    ''42424242424242424242424242424242424242424242424242424242424242424242424242424242424242424242424242424242424242424242424242424242'' @
    ''42424242424242424242424242424242424242424242424242424242424242424242424242424242424242424242424242424242424242424242424242424242'' @
    ''42424242424242424242424242424242424242424242424242424242424242424242424242424242424242424242424242424242424242424242424242424242'' @
    ''42424242424242424242424242424242424242424242424242424242424242424242424242424242424242424242424242424242424242424242424242424242'' @
    ''42424242424242424242424242424242424242424242424242424242424242424242424242424242424242424242424242424242424242424242424242424242'' @
    ''42424242424242424242424242424242424242424242424242424242424242424242424242424242424242424242424242424242424242424242424242424242'' @
    ''42424242424242424242424242424242424242424242424242424242424242424242424242424242424242424242424242424242424242424242424242424242'' @
    ''42424242424242424242424242424242424242424242424242424242424242424242424242424242424242424242424242424242424242424242424242424242'' @
    ''42424242424242424242424242424242424242424242424242424242424242424242424242424242424242424242424242424242424242424242424242424242'' @
    ''42424242424242424242424242424242424242424242424242424242424242424242424242424242424242424242424242424242424242424242424242424242'' @
    ''42424242424242424242424242424242424242424242424242424242424242424242424242424242424242424242424242424242424242424242424242424242'' @
    ''42424242424242424242424242424242424242424242424242424242424242424242424242424242424242424242424242424242424242424242424242424242'' @
    ''42424242424242424242424242424242424242424242424242424242424242424242424242424242424242424242424242424242424242424242424242424242'' @
    ''42424242424242424242424242424242424242424242424242424242424242424242424242424242424242424242424242424242424242424242424242424242'' @
    ''42424242424242424242424242424242424242424242424242424242424242424242424242424242424242424242424242424242424242424242424242424242''"

lemma hexDecode_42: "hexDecode (concat (replicate n ''42'')) = Some (replicate n 66)"
  by (induction n) (simp_all add: hexVal_def)

lemma hex1024_replicate: "hex1024 = concat (replicate 1024 ''42'')"
  by (simp add: hex1024_def numeral_eq_Suc)

lemma text_digest: "hash (of_string textPayload) = ''504585b0bb4fd77012ea2575efbcdb58f4c33e6b543e9567a65896d213720c29''"
proof -
  have "hexDecode ''70726f746f636f6c2d6c6162'' = Some (of_string textPayload)"
    by (simp add: hexVal_def textPayload_def of_string_def)
  from sha256Hex_eval [OF this _ pad_12] show ?thesis
    unfolding hash_def by (simp only: sha_eval, simp add: textPayload_def)
qed

lemma control_digest:
  "hash (of_string controlPayload) = ''4848de689e96825e0e05b6c3e96e48f2ad7ec7805fb64ecf824ccc6aa9c58883''"
proof -
  have "hexDecode ''70726f746f636f6c2d6c61622d70696e67'' = Some (of_string controlPayload)"
    by (simp add: hexVal_def controlPayload_def of_string_def)
  from sha256Hex_eval [OF this _ pad_17] show ?thesis
    unfolding hash_def by (simp only: sha_eval, simp add: controlPayload_def)
qed

lemma binary_digest:
  "hash (repeatedByte 66 1024) = ''9b6ce55f379e9771551de6939556a7e6b949814ae27c2f5cfd5dbeb378ce7c2a''"
proof -
  have "hexDecode hex1024 = Some (repeatedByte 66 1024)"
    by (simp add: hex1024_replicate hexDecode_42 repeatedByte_def)
  from sha256Hex_eval [OF this _ pad_1024] show ?thesis
    unfolding hash_def hex1024_def by (simp only: sha_eval, simp add: repeatedByte_def)
qed

text \<open>The payload digest pinned for each of the five scenarios is the SHA-256 digest of the
  payload the executor sends, so the payload report of a preflight always says it matched.\<close>

theorem payload_digests: "list_all (\<lambda>e. e_payloadHash e = hash (e_payload e)) expectations"
  by (simp add: expectations_def text_digest control_digest binary_digest)

end
