(* ===== verification/Ws_Interop.thy ===== *)
theory Ws_Interop
  imports Ws_Server Ws_Executor
begin

text \<open>
  The WebSocket executor run against the WebSocket target. The two programs share no code. The
  target is run on everything the executor has written to it so far; what that adds to its output
  becomes readable for the executor, and the connection reads as closed once the handler has
  returned. Every operation of the executor, and every phase, then succeeds with exact byte
  counts, whatever the random keys and masks are.
\<close>

section \<open>The two copies agree\<close>

lemma accept_agree: "Ws_Server.websocketAccept = Ws_Executor.websocketAccept"
  by (simp add: fun_eq_iff Ws_Server.websocketAccept_def Ws_Executor.websocketAccept_def
      Ws_Server.websocketGUID_def Ws_Executor.websocketGUID_def)

lemma payloads_agree:
  "Ws_Server.textPayload = Ws_Executor.textPayload"
  "Ws_Server.controlPayload = Ws_Executor.controlPayload"
  by (simp_all add: Ws_Server.textPayload_def Ws_Executor.textPayload_def
      Ws_Server.controlPayload_def Ws_Executor.controlPayload_def)

section \<open>The opening handshake on the wire\<close>

definition requestLines :: "string \<Rightarrow> string list" where
  "requestLines key =
     [''Host: websocket.plab.test'', ''Upgrade: websocket'', ''Connection: Upgrade'',
      ''Sec-WebSocket-Key: '' @ key, ''Sec-WebSocket-Version: 13'']"

definition requestFields :: "string \<Rightarrow> http_header" where
  "requestFields key =
     [(''Host'', ''websocket.plab.test''), (''Upgrade'', ''websocket''), (''Connection'', ''Upgrade''),
      (''Sec-WebSocket-Key'', key), (''Sec-WebSocket-Version'', ''13'')]"

definition responseLines :: "string \<Rightarrow> string list" where
  "responseLines accept =
     [''Upgrade: websocket'', ''Connection: Upgrade'', ''Sec-WebSocket-Accept: '' @ accept]"

definition responseFields :: "string \<Rightarrow> http_header" where
  "responseFields accept =
     [(''Upgrade'', ''websocket''), (''Connection'', ''Upgrade''), (''Sec-WebSocket-Accept'', accept)]"

lemmas wire_eval = wireLine_def wireHead_def of_string_crlf of_string_append append_assoc list.map
  concat.simps append_Nil append_Nil2

lemma request_wire:
  "of_string (upgradeRequest key) = wireLine ''GET /websocket HTTP/1.1'' @ wireHead (requestLines key)"
  by (simp only: upgradeRequest_def requestLines_def wire_eval)

lemma response_wire:
  "of_string (switchingProtocols a) =
     wireLine ''HTTP/1.1 101 Switching Protocols'' @ wireHead (responseLines a)"
  "of_string (switchingProtocols a) = wireHead (''HTTP/1.1 101 Switching Protocols'' # responseLines a)"
  by (simp_all only: switchingProtocols_def responseLines_def wire_eval)

lemmas field_eval = parseField_def cut_def validToken_def isTokenChar_def isDigit_def trimBlank_def
  isBlank_def isCtl_def

lemma visible_field:
  "visible v \<Longrightarrow> parseField (''Sec-WebSocket-Key: '' @ v) = Some (''Sec-WebSocket-Key'', v)"
  "visible v \<Longrightarrow> parseField (''Sec-WebSocket-Accept: '' @ v) = Some (''Sec-WebSocket-Accept'', v)"
  using parseField_visible [of "''Sec-WebSocket-Key''" v]
    parseField_visible [of "''Sec-WebSocket-Accept''" v]
  by (simp_all add: validToken_def isTokenChar_def isDigit_def)

lemma request_fields: "visible key \<Longrightarrow> map parseField (requestLines key) = map Some (requestFields key)"
  unfolding requestLines_def requestFields_def list.map
  by (intro arg_cong2 [where f = Cons] refl) ((rule visible_field; assumption) | simp add: field_eval)+

lemma response_fields: "visible a \<Longrightarrow> map parseField (responseLines a) = map Some (responseFields a)"
  unfolding responseLines_def responseFields_def list.map
  by (intro arg_cong2 [where f = Cons] refl) ((rule visible_field; assumption) | simp add: field_eval)+

lemma lines_plain:
  "visible key \<Longrightarrow> list_all (\<lambda>l. plain l \<and> l \<noteq> []) (requestLines key)"
  "visible a \<Longrightarrow> list_all (\<lambda>l. plain l \<and> l \<noteq> []) (responseLines a)"
  using visible_plain [of key] visible_plain [of a]
  by (simp_all add: requestLines_def responseLines_def plain_def)

lemma request_line: "parseRequestLine ''GET /websocket HTTP/1.1'' = Some (''GET'', ''/websocket'', 1, 1)"
  by (simp add: parseRequestLine_def cut_def parseRequestURI_def isCtl_def parseHTTPVersion_def
      isDigit_def validToken_def isTokenChar_def)

lemma status_line:
  "parseStatusLine ''HTTP/1.1 101 Switching Protocols'' = Some (''HTTP/1.1'', 1, 1, 101)"
  by (simp add: parseStatusLine_def cut_def parseHTTPVersion_def isDigit_def atoi_def parseSigned_def)

lemma length_b64Encode: "length (b64Encode bs) = 4 * ((length bs + 2) div 3)"
  by (induction bs rule: b64Encode.induct) (simp_all, presburger)

lemma char_u [simp]: "char_of (117 :: nat) = CHR ''u''"
  by (simp add: char_of_def bit_0)

lemma accept_visible: "visible (Ws_Executor.websocketAccept key)"
  and length_accept: "length (Ws_Executor.websocketAccept key) = 28"
  by (simp_all add: Ws_Executor.websocketAccept_def b64Encode_visible length_b64Encode)

lemma request_read:
  assumes "visible key" "conn_in c = of_string (upgradeRequest key) @ r"
  shows "readRequest c = (Inr \<lparr>rq_Method = ''GET'', rq_ProtoMajor = 1, rq_ProtoMinor = 1,
      rq_Path = ''/websocket'', rq_Host = ''websocket.plab.test'', rq_Header = tl (requestFields key)\<rparr>,
    c\<lparr>conn_in := r\<rparr>)"
proof -
  have "readRequest c = (Inr \<lparr>rq_Method = ''GET'', rq_ProtoMajor = 1, rq_ProtoMinor = 1,
      rq_Path = ''/websocket'', rq_Host = headerGet (requestFields key) ''Host'',
      rq_Header = filter (\<lambda>(k, v). \<not> equalFold k ''Host'') (requestFields key)\<rparr>, c\<lparr>conn_in := r\<rparr>)"
    using assms(2) lines_plain(1) [OF assms(1)] request_fields [OF assms(1)] request_line
    by (intro readRequest_wire [where ls = "requestLines key"])
      (simp_all add: request_wire, simp add: plain_def)
  then show ?thesis
    by (simp add: requestFields_def headerGet_def equalFold_def toLower_def lowerChar_def)
qed

lemma upgrade_accepted:
  assumes "length kb = 16"
  shows "validateUpgradeRequest \<lparr>rq_Method = ''GET'', rq_ProtoMajor = 1, rq_ProtoMinor = 1,
      rq_Path = ''/websocket'', rq_Host = ''websocket.plab.test'',
      rq_Header = tl (requestFields (b64Encode kb))\<rparr> = None"
    "headerGet (tl (requestFields (b64Encode kb))) ''Sec-WebSocket-Key'' = b64Encode kb"
  using assms
  by (simp_all add: validateUpgradeRequest_def upgradeFailures_def requestFields_def headerGet_def
      equalFold_def toLower_def lowerChar_def Ws_Server.hasToken_def trimSpace_def isSpace_def)

lemma handshake_read:
  assumes "visible a"
  shows "readResponse (stringReader (switchingProtocols a)) =
    (Inr \<lparr>rs_Proto = ''HTTP/1.1'', rs_ProtoMajor = 1, rs_ProtoMinor = 1, rs_StatusCode = 101,
       rs_Header = responseFields a\<rparr>, (stringReader (switchingProtocols a))\<lparr>conn_in := []\<rparr>)"
  using lines_plain(2) [OF assms] response_fields [OF assms] status_line
  by (intro readResponse_wire [where ls = "responseLines a"])
    (simp_all add: stringReader_def response_wire(1), simp add: plain_def)

lemma handshake_passes:
  fixes key :: string
  defines "p \<equiv> handshakeOf key \<lparr>rs_Proto = ''HTTP/1.1'', rs_ProtoMajor = 1, rs_ProtoMinor = 1,
      rs_StatusCode = 101, rs_Header = responseFields (Ws_Executor.websocketAccept key)\<rparr>"
  shows "handshakeFailures p = []" "requestHeadersMatched p" "responseHeadersMatched p"
    "h_SampleSecWebSocketKey p = key" "h_ObservedSecWebSocketAccept p = Ws_Executor.websocketAccept key"
  by (simp_all add: p_def handshakeFailures_def handshakeOf_def responseFields_def headerGet_def
      equalFold_def toLower_def lowerChar_def Ws_Executor.hasToken_def trimSpace_def isSpace_def
      noHandshake_def requestHeadersMatched_def responseHeadersMatched_def Let_def)

section \<open>The network between them\<close>

definition serverRun :: "bytes \<Rightarrow> go_error option \<times> conn" where
  "serverRun inp = handleConnection \<lparr>conn_in = inp, conn_end = TimeoutError, conn_out = [], conn_cap = None\<rparr>"

definition serverOutput :: "bytes \<Rightarrow> bytes" where
  "serverOutput inp = concat (conn_out (snd (serverRun inp)))"

definition serverWaits :: "bytes \<Rightarrow> bool" where
  "serverWaits inp \<longleftrightarrow> (case fst (serverRun inp) of None \<Rightarrow> False | Some e \<Rightarrow> isTimeout e)"

definition serverPeer :: ws_peer where
  "serverPeer written c =
     (let sent = concat (conn_out c); all = sent @ written in
      (length written, None,
       c\<lparr>conn_out := conn_out c @ [written],
         conn_in := conn_in c @ drop (length (serverOutput sent)) (serverOutput all),
         conn_end := (if serverWaits all then conn_end c else EOF)\<rparr>))"

type_synonym masked = "u32 \<times> byte \<times> bytes"

definition sentFrames :: "masked list \<Rightarrow> bytes" where
  "sentFrames fs = concat (map (\<lambda>(m, f). maskedFrame m f) fs)"

definition echoes :: "masked list \<Rightarrow> bytes" where
  "echoes fs = concat (map (\<lambda>(m, f). plainFrame (echoOf f)) fs)"

definition openedWith :: "bytes \<Rightarrow> bytes \<Rightarrow> bytes" where
  "openedWith kb rest = of_string (upgradeRequest (b64Encode kb)) @ rest"

definition handshakeReply :: "bytes \<Rightarrow> bytes" where
  "handshakeReply kb = of_string (switchingProtocols (Ws_Executor.websocketAccept (b64Encode kb)))"

lemma serverRun_opened:
  assumes "length kb = 16"
  shows "serverRun (openedWith kb r) = frameLoop \<lparr>conn_in = r, conn_end = TimeoutError,
    conn_out = [handshakeReply kb], conn_cap = None\<rparr>"
  using assms
  by (simp add: serverRun_def handleConnection_def openedWith_def request_read [OF b64Encode_visible]
      upgrade_accepted [unfolded One_nat_def] connWrite_ok handshakeReply_def accept_agree)

lemma server_waits:
  assumes "length kb = 16" "list_all (\<lambda>(m, f). echoed f) fs"
  shows "serverOutput (openedWith kb (sentFrames fs)) = handshakeReply kb @ echoes fs"
    "serverWaits (openedWith kb (sentFrames fs))"
  using assms
  by (simp_all add: serverOutput_def serverWaits_def serverRun_opened sentFrames_def echoes_def
      frameLoop_blocked case_prod_beta)

lemma server_closes:
  assumes "length kb = 16" "list_all (\<lambda>(m, f). echoed f) fs"
  shows "serverOutput (openedWith kb (sentFrames fs @ maskedFrame m closeFrame)) =
      handshakeReply kb @ echoes fs @ plainFrame closeFrame"
    "\<not> serverWaits (openedWith kb (sentFrames fs @ maskedFrame m closeFrame))"
proof -
  let ?c = "\<lparr>conn_in = sentFrames fs @ maskedFrame m closeFrame, conn_end = TimeoutError,
    conn_out = [handshakeReply kb], conn_cap = None\<rparr>"
  have "frameLoop ?c = (None, ?c\<lparr>conn_in := [],
      conn_out := [handshakeReply kb] @ map (\<lambda>(m, f). plainFrame (echoOf f)) fs @ [plainFrame closeFrame]\<rparr>)"
    using frameLoop_session [of ?c fs m "[]"] assms(2) by (simp add: sentFrames_def)
  then show "serverOutput (openedWith kb (sentFrames fs @ maskedFrame m closeFrame)) =
      handshakeReply kb @ echoes fs @ plainFrame closeFrame"
    "\<not> serverWaits (openedWith kb (sentFrames fs @ maskedFrame m closeFrame))"
    using assms(1)
    by (simp_all add: serverOutput_def serverWaits_def serverRun_opened echoes_def case_prod_beta)
qed

text \<open>A client connection in step with the target: the frames \<open>fs\<close> were sent and their echoes
  were read.\<close>

definition inStep :: "bytes \<Rightarrow> masked list \<Rightarrow> ws_connection \<Rightarrow> bool" where
  "inStep kb fs w \<longleftrightarrow> length kb = 16 \<and> list_all (\<lambda>(m, f). echoed f) fs \<and> c_peer w = serverPeer \<and>
     concat (conn_out (c_conn w)) = openedWith kb (sentFrames fs) \<and> conn_in (c_conn w) = []"

lemma peer_echo:
  assumes "inStep kb fs w" "echoed f"
  shows "serverPeer (maskedFrame m f) (c_conn w) = (length (maskedFrame m f), None,
    (c_conn w)\<lparr>conn_out := conn_out (c_conn w) @ [maskedFrame m f], conn_in := plainFrame (echoOf f)\<rparr>)"
proof -
  have all: "openedWith kb (sentFrames fs) @ maskedFrame m f = openedWith kb (sentFrames (fs @ [(m, f)]))"
    by (simp add: openedWith_def sentFrames_def)
  have "list_all (\<lambda>(m, f). echoed f) (fs @ [(m, f)])"
    using assms by (simp add: inStep_def)
  note out = server_waits [OF _ this, of kb]
  show ?thesis
    using assms(1) out server_waits [of kb fs]
    by (simp add: inStep_def serverPeer_def all Let_def echoes_def)
qed

lemma peer_close:
  assumes "inStep kb fs w"
  shows "serverPeer (maskedFrame m closeFrame) (c_conn w) = (length (maskedFrame m closeFrame), None,
    (c_conn w)\<lparr>conn_out := conn_out (c_conn w) @ [maskedFrame m closeFrame],
      conn_in := plainFrame closeFrame, conn_end := EOF\<rparr>)"
proof -
  have all: "openedWith kb (sentFrames fs) @ maskedFrame m closeFrame =
      openedWith kb (sentFrames fs @ maskedFrame m closeFrame)"
    by (simp add: openedWith_def)
  show ?thesis
    using assms server_waits [of kb fs] server_closes [of kb fs m]
    by (simp add: inStep_def serverPeer_def all Let_def)
qed
section \<open>Operations\<close>

lemma length_head:
  "length (upgradeRequest key) = 143 + length key"
  "length (switchingProtocols a) = 101 + length a"
  by (simp_all add: upgradeRequest_def switchingProtocols_def crlf_def)

definition okDial :: "bytes \<Rightarrow> int \<Rightarrow> dial" where
  "okDial kb nanos =
     \<lparr>d_parse = None, d_dial = None, d_key = Inr kb, d_peer = serverPeer,
      d_conn = \<lparr>conn_in = [], conn_end = TimeoutError, conn_out = [], conn_cap = None\<rparr>, d_nanos = nanos\<rparr>"

definition goodHandshake :: "bytes \<Rightarrow> handshake_proof \<Rightarrow> bool" where
  "goodHandshake kb p \<longleftrightarrow> h_ConnectionEstablished p \<and> \<not> h_FallbackDetected p \<and>
     requestHeadersMatched p \<and> responseHeadersMatched p \<and> h_SampleSecWebSocketKey p = b64Encode kb \<and>
     h_ObservedSecWebSocketAccept p = Ws_Executor.websocketAccept (b64Encode kb)"

lemma server_idle: "serverOutput [] = []"
  by (simp add: serverOutput_def serverRun_def handleConnection_def readRequest_def readLine_def)

lemma openWebSocket_ok:
  assumes "length kb = 16"
  shows "\<exists>w. openWebSocket (okDial kb nanos) = Inr w \<and> inStep kb [] w \<and>
    goodHandshake kb (c_handshake w) \<and> c_handshakeMS w = durationMS nanos \<and> c_bytes w = 296"
proof -
  let ?key = "b64Encode kb" and ?a = "Ws_Executor.websocketAccept (b64Encode kb)"
  let ?req = "of_string (upgradeRequest ?key)" and ?resp = "switchingProtocols ?a"
  let ?c0 = "\<lparr>conn_in = [], conn_end = TimeoutError, conn_out = [], conn_cap = None\<rparr>"
  let ?c1 = "\<lparr>conn_in = of_string ?resp, conn_end = TimeoutError, conn_out = [?req], conn_cap = None\<rparr>"
  have peer: "serverPeer ?req ?c0 = (length ?req, None, ?c1)"
    using server_waits [OF assms, of "[]"]
    by (simp add: serverPeer_def openedWith_def sentFrames_def echoes_def handshakeReply_def server_idle Let_def)
  have head: "readHTTPHeader ?c1 = (Inr ?resp, ?c1\<lparr>conn_in := []\<rparr>)"
    using readHTTPHeader_wireHead [of ?c1 "''HTTP/1.1 101 Switching Protocols'' # responseLines ?a" "[]"]
      lines_plain(2) [OF accept_visible]
    by (simp add: length_head length_accept plain_def flip: response_wire(2))
  note resp = handshake_read [OF accept_visible, of ?key]
  define w where "w = \<lparr>c_peer = serverPeer, c_conn = ?c1\<lparr>conn_in := []\<rparr>,
     c_handshake = (handshakeOf ?key \<lparr>rs_Proto = ''HTTP/1.1'', rs_ProtoMajor = 1, rs_ProtoMinor = 1,
        rs_StatusCode = 101, rs_Header = responseFields ?a\<rparr>)\<lparr>h_ConnectionEstablished := True\<rparr>,
     c_rawRequest = upgradeRequest ?key, c_rawResponse = ?resp, c_handshakeMS = durationMS nanos,
     c_bytes = 296\<rparr>"
  have "openWebSocket (okDial kb nanos) = Inr w"
    using peer head resp assms
    by (simp add: openWebSocket_def okDial_def Let_def handshake_passes(1) [unfolded One_nat_def] w_def
        length_head length_accept length_b64Encode)
  moreover have "inStep kb [] w"
    using assms by (simp add: inStep_def w_def openedWith_def sentFrames_def)
  moreover have "goodHandshake kb (c_handshake w)"
    using handshake_passes [of ?key]
    by (simp add: goodHandshake_def w_def requestHeadersMatched_def responseHeadersMatched_def
        handshakeOf_def Let_def)
  ultimately show ?thesis by (auto simp: w_def)
qed

text \<open>The scenarios that send a message, and the frame they send.\<close>

definition sends :: "scenario_expectation \<Rightarrow> byte \<times> bytes" where
  "sends e = (e_requestOpcode e, e_payload e)"

definition messaging :: "scenario_expectation \<Rightarrow> bool" where
  "messaging e \<longleftrightarrow> echoed (sends e) \<and> echoOf (sends e) = (e_responseOpcode e, e_payload e) \<and>
     e_operation e \<in> {''text-echo'', ''binary-echo'', ''control-frames''}"

lemma expectation_cases:
  assumes "e \<in> set expectations"
  shows "messaging e \<or> e_operation e \<in> {''establish'', ''close''}"
  using assms
  by (auto simp: expectations_def messaging_def sends_def echoed_def echoOf_def repeatedByte_def payloads_agree)

definition messageBytes :: "scenario_expectation \<Rightarrow> int" where
  "messageBytes e = 2 * int (length (e_payload e)) + (if length (e_payload e) \<le> 125 then 8 else 12)"

lemma newProof_fields [simp]: "o_Handshake (newProof w e) = c_handshake w"
  by (simp add: newProof_def applySemanticCounts_def noOperation_def)

lemma message_ok:
  assumes "inStep kb fs w" "messaging e"
  shows "\<exists>p w'. performOnOpenConnection w e (Inr m) nanos = (p, None, w') \<and>
    inStep kb (fs @ [(m, sends e)]) w' \<and> c_bytes w' = c_bytes w + messageBytes e \<and>
    o_TransferredBytes p = messageBytes e \<and> o_LatencyMilliseconds p = durationMS nanos \<and>
    o_Handshake p = c_handshake w \<and> c_handshake w' = c_handshake w"
proof -
  let ?f = "sends e" and ?g = "(e_responseOpcode e, e_payload e)"
  from assms have f: "echoed ?f" "echoOf ?f = ?g" and
      peer: "c_peer w = serverPeer" and len: "length (e_payload e) \<le> 65535"
    using echo_length [of ?f] by (auto simp: messaging_def inStep_def sends_def)
  let ?c1 = "(c_conn w)\<lparr>conn_out := conn_out (c_conn w) @ [maskedFrame m ?f], conn_in := plainFrame ?g\<rparr>"
  let ?c2 = "(c_conn w)\<lparr>conn_out := conn_out (c_conn w) @ [maskedFrame m ?f], conn_in := []\<rparr>"
  have ok: "okFrame ?g"
    using f(1) unfolding f(2) [symmetric]
    by (auto simp: echoed_def echoOf_def okFrame_def Ws_Server.textPayload_def
        Ws_Server.controlPayload_def)
  have wr: "writeClientFrame (c_peer w) (c_conn w) (e_requestOpcode e) (e_payload e) (Inr m) =
      (length (maskedFrame m ?f), None, ?c1)"
    using peer_echo [OF assms(1) f(1), of m] len
    by (simp add: writeClientFrame_def peer clientWire_masked f(2)) (simp add: sends_def)
  have rd: "Ws_Executor.readFrame ?c1 False = (plainRead ?g, None, ?c2)"
    using readFrame_plain [OF ok, of ?c1 "[]"] by simp
  have step: "inStep kb (fs @ [(m, ?f)]) (w\<lparr>c_conn := ?c2, c_bytes := b\<rparr>)" for b
    using assms(1) f(1) by (simp add: inStep_def openedWith_def sentFrames_def)
  have bytes: "int (length (maskedFrame m ?f)) + int (length (plainFrame ?g)) = messageBytes e"
    by (simp add: messageBytes_def length_frames sends_def)
  show ?thesis
    unfolding performOnOpenConnection_def wr Let_def prod.case option.case rd
    using step bytes by (simp add: plainRead_def add.assoc)
qed

lemma close_ok:
  assumes "inStep kb fs w"
  shows "\<exists>p' w'. closeCleanly w p (Inr m) = (None, p', w') \<and> c_bytes w' = c_bytes w + 12 \<and>
    p' = p\<lparr>o_ClientFrameMasked := True, o_CloseSentCode := 1000, o_ServerFrameMasked := False,
      o_CloseReceivedCode := 1000, o_TransportEOFObserved := True, o_CleanCompletion := True\<rparr>"
proof -
  from assms have peer: "c_peer w = serverPeer" by (simp add: inStep_def)
  have c: "closeFrame = (0x8, [0x03, 0xE8])" by (simp add: closeFrame_def be16_def) 
  let ?c1 = "(c_conn w)\<lparr>conn_out := conn_out (c_conn w) @ [maskedFrame m closeFrame],
      conn_in := plainFrame closeFrame, conn_end := EOF\<rparr>"
  have wr: "writeClientFrame (c_peer w) (c_conn w) 0x8 [0x03, 0xE8] (Inr m) = (8, None, ?c1)"
    using peer_close [OF assms, of m] unfolding c
    by (simp add: writeClientFrame_def peer clientWire_masked length_frames)
  have rd: "Ws_Executor.readFrame ?c1 False = (plainRead closeFrame, None, ?c1\<lparr>conn_in := []\<rparr>)"
    using readFrame_plain [of 8 "[0x03, 0xE8]" ?c1 "[]"] echoed_ok(2) unfolding c by simp
  have "length (plainFrame closeFrame) = 4" unfolding c by (simp add: length_frames)
  moreover have "plainRead closeFrame = \<lparr>w_fin = True, w_rsv = 0, w_opcode = 8, w_masked = False,
      w_payload = be16 1000, w_bytes = length (plainFrame closeFrame)\<rparr>"
    by (simp add: plainRead_def closeFrame_def)
  ultimately show ?thesis
    unfolding closeCleanly_def wr Let_def prod.case option.case rd by (simp add: readByte_def)
qed
definition okOperation :: "bytes \<times> u32 \<times> u32 \<times> int \<times> int \<Rightarrow> op_env" where
  "okOperation = (\<lambda>(kb, m, m', n0, n).
     \<lparr>r_dial = okDial kb n0, r_mask = Inr m, r_closeMask = Inr m', r_nanos = n\<rparr>)"

definition operationBytes :: "scenario_expectation \<Rightarrow> int" where
  "operationBytes e = 296 + (if e_operation e \<in> {''establish'', ''close''} then 0 else messageBytes e) + 12"

lemma operation_ok:
  assumes "e \<in> set expectations" "length kb = 16"
  shows "\<exists>p. performOperation (okOperation (kb, m, m', n0, n)) e = (p, None) \<and> o_CleanCompletion p \<and>
    goodHandshake kb (o_Handshake p) \<and> o_CloseReceivedCode p = 1000 \<and>
    o_TransferredBytes p = operationBytes e"
proof -
  from openWebSocket_ok [OF assms(2)] obtain w where w: "openWebSocket (okDial kb n0) = Inr w"
      "inStep kb [] w" "goodHandshake kb (c_handshake w)" "c_bytes w = 296" by blast
  from expectation_cases [OF assms(1)] consider "e_operation e = ''establish''" | "e_operation e = ''close''"
    | "messaging e" "e_operation e \<notin> {''establish'', ''close''}"
    by (auto simp: messaging_def)
  then show ?thesis
  proof cases
    case 1
    then show ?thesis
      using w close_ok [OF w(2), of "(newProof w e)\<lparr>o_LatencyMilliseconds := c_handshakeMS w\<rparr>" m']
      by (auto simp: performOperation_def okOperation_def operationBytes_def Let_def)
  next
    case 2
    then show ?thesis
      using w close_ok [OF w(2), of "newProof w e" m']
      by (auto simp: performOperation_def okOperation_def operationBytes_def Let_def)
  next
    case 3
    from message_ok [OF w(2) 3(1), of m n] obtain p w' where p:
        "performOnOpenConnection w e (Inr m) n = (p, None, w')" "inStep kb ([] @ [(m, sends e)]) w'"
        "c_bytes w' = 296 + messageBytes e" "o_Handshake p = c_handshake w"
      using w(4) by auto
    show ?thesis
      using w p 3(2) close_ok [OF p(2), of p m']
      by (auto simp: performOperation_def okOperation_def operationBytes_def Let_def)
  qed
qed

text \<open>C6: Every operation of the executor against the target succeeds, in all five scenarios and
  for every 16-byte key and every pair of masks: the opening handshake passes all checks with the
  accept value of that key, the message is echoed, the connection closes cleanly with code 1000
  and an end of file, and the transferred bytes are those of the head, the frames and the close.\<close>

theorem operation_interop:
  assumes "e \<in> set expectations" and "length kb = 16"
  shows "\<exists>p. performOperation (okOperation (kb, m, m', n0, n)) e = (p, None) \<and> o_CleanCompletion p \<and>
    goodHandshake kb (o_Handshake p) \<and> o_CloseReceivedCode p = 1000 \<and>
    o_TransferredBytes p = operationBytes e"
  by (rule operation_ok [OF assms])

lemma nth_expectations:
  "expectations ! 2 \<in> set expectations" "expectations ! 0 \<in> set expectations"
  "operationBytes (expectations ! 2) = 2368" "e_operation (expectations ! 0) = ''establish''"
  "messaging (expectations ! 2)"
  by (simp_all add: expectations_def operationBytes_def messageBytes_def repeatedByte_def messaging_def
      sends_def echoed_def echoOf_def)

theorem operation_interop_witness:
  "\<exists>p. performOperation (okOperation (replicate 16 7, 0xDEADBEEF, 1, 250000, 90000)) (expectations ! 2) = (p, None) \<and>
     o_CleanCompletion p \<and> o_TransferredBytes p = 2368"
  using operation_interop [of "expectations ! 2" "replicate 16 7" "0xDEADBEEF" 1 250000 90000]
  unfolding nth_expectations(3) by (auto simp: nth_expectations(1))

section \<open>Phases\<close>

lemma reuseLoop_ok:
  assumes "inStep kb fs w" "messaging e"
  shows "\<exists>p w'. reuseLoop e (map (\<lambda>(m, n). (Inr m, n)) ms) w s =
      (s\<lparr>ps_CompletedOperations := ps_CompletedOperations s + int (length ms),
         ps_TotalTransferredBytes := ps_TotalTransferredBytes s + int (length ms) * messageBytes e,
         ps_LatenciesMilliseconds := ps_LatenciesMilliseconds s @ map (\<lambda>(m, n). durationMS n) ms,
         ps_LastProof := p\<rparr>, w') \<and>
    inStep kb (fs @ map (\<lambda>(m, n). (m, sends e)) ms) w'"
  using assms(1)
proof (induction ms arbitrary: fs w s)
  case Nil
  then show ?case by (auto intro!: exI [of _ "ps_LastProof s"])
next
  case (Cons x ms)
  obtain m n where x: "x = (m, n)" by (cases x)
  from message_ok [OF Cons.prems assms(2), of m n] obtain p w1 where p:
      "performOnOpenConnection w e (Inr m) n = (p, None, w1)" "inStep kb (fs @ [(m, sends e)]) w1"
      "o_TransferredBytes p = messageBytes e" "o_LatencyMilliseconds p = durationMS n" by blast
  from Cons.IH [OF p(2), of "recordOperation p s"] show ?case
    by (simp add: x p(1)) (simp add: recordOperation_def p(3,4) algebra_simps)
qed

lemma recordOpeningHandshake_good:
  assumes "goodHandshake kb h" "length kb = 16" "b64Encode kb \<notin> ps_seenKeys s"
  shows "recordOpeningHandshake s h =
    s\<lparr>ps_OpeningHandshakes := ps_OpeningHandshakes s + 1,
      ps_seenKeys := insert (b64Encode kb) (ps_seenKeys s)\<rparr>"
  using assms by (simp add: recordOpeningHandshake_def goodHandshake_def Let_def)

lemma b64Encode_inject [simp]: "b64Encode a = b64Encode b \<longleftrightarrow> a = b"
  by (metis b64Decode_b64Encode option.inject)

lemma operationLoop_ok:
  assumes "e \<in> set expectations" "list_all (\<lambda>op. length (fst op) = 16) ops" "distinct (map fst ops)"
    and "set (map (\<lambda>op. b64Encode (fst op)) ops) \<inter> ps_seenKeys s = {}"
  shows "let s' = operationLoop e (map okOperation ops) s in
    ps_CompletedOperations s' = ps_CompletedOperations s + int (length ops) \<and>
    ps_TotalTransferredBytes s' = ps_TotalTransferredBytes s + int (length ops) * operationBytes e \<and>
    ps_OpeningHandshakes s' = ps_OpeningHandshakes s + int (length ops) \<and>
    (ps_KeyReuseCount s', ps_InvalidDecodedKeyCount s', ps_AcceptMismatchCount s',
     ps_UpgradeRequestHeadersMatched s', ps_UpgradeResponseHeadersMatched s') =
    (ps_KeyReuseCount s, ps_InvalidDecodedKeyCount s, ps_AcceptMismatchCount s,
     ps_UpgradeRequestHeadersMatched s, ps_UpgradeResponseHeadersMatched s) \<and>
    ps_FailedOperations s' = ps_FailedOperations s \<and> ps_TimedOutOperations s' = ps_TimedOutOperations s"
  using assms(2-)
proof (induction ops arbitrary: s)
  case (Cons op ops)
  obtain kb m m' n0 n where op: "op = (kb, m, m', n0, n)" by (cases op) auto
  with Cons.prems have kb: "length kb = 16" "b64Encode kb \<notin> ps_seenKeys s" by auto
  from operation_ok [OF assms(1) kb(1), of m m' n0 n] obtain p where p:
      "performOperation (okOperation op) e = (p, None)" "goodHandshake kb (o_Handshake p)"
      "o_TransferredBytes p = operationBytes e" unfolding op by blast
  let ?s = "recordOperation p (recordOpeningHandshake s (o_Handshake p))"
  have s: "?s = s\<lparr>ps_OpeningHandshakes := ps_OpeningHandshakes s + 1,
      ps_seenKeys := insert (b64Encode kb) (ps_seenKeys s),
      ps_CompletedOperations := ps_CompletedOperations s + 1,
      ps_TotalTransferredBytes := ps_TotalTransferredBytes s + operationBytes e,
      ps_LatenciesMilliseconds := ps_LatenciesMilliseconds s @ [o_LatencyMilliseconds p],
      ps_LastProof := p\<rparr>"
    using recordOpeningHandshake_good [OF p(2) kb] p(3) by (simp add: recordOperation_def)
  have "set (map (\<lambda>op. b64Encode (fst op)) ops) \<inter> ps_seenKeys ?s = {}"
    using Cons.prems op by (simp add: s image_iff disjoint_iff)
  with Cons.IH [of ?s] Cons.prems show ?case
    by (simp add: p(1) s Let_def algebra_simps)
qed simp

definition okPhase ::
  "bytes \<Rightarrow> int \<Rightarrow> (u32 \<times> int) list \<Rightarrow> u32 \<Rightarrow> (bytes \<times> u32 \<times> u32 \<times> int \<times> int) list \<Rightarrow> rat \<Rightarrow> phase_env" where
  "okPhase kb n0 ms cm ops elapsed =
     \<lparr>pe_dial = okDial kb n0, pe_messages = map (\<lambda>(m, n). (Inr m, n)) ms, pe_closeMask = Inr cm,
      pe_operations = map okOperation ops, pe_elapsed = elapsed\<rparr>"

lemma reusable_phase:
  assumes "messaging e" "length kb = 16"
  shows "let s = runReusablePhase (okPhase kb n0 ms cm ops elapsed) e name in
    ps_CompletedOperations s = int (length ms) \<and>
    ps_TotalTransferredBytes s = int (length ms) * messageBytes e \<and>
    ps_LatenciesMilliseconds s = map (\<lambda>(m, n). durationMS n) ms \<and> ps_OpeningHandshakes s = 1 \<and>
    (ps_KeyReuseCount s, ps_InvalidDecodedKeyCount s, ps_AcceptMismatchCount s) = (0, 0, 0) \<and>
    ps_UpgradeRequestHeadersMatched s \<and> ps_UpgradeResponseHeadersMatched s \<and>
    o_CleanCompletion (ps_LastProof s) \<and> \<not> Ws_Executor.hasFailures s"
proof -
  from openWebSocket_ok [OF assms(2)] obtain w where w: "openWebSocket (okDial kb n0) = Inr w"
      "inStep kb [] w" "goodHandshake kb (c_handshake w)" by blast
  define s0 where "s0 = recordOpeningHandshake (newPhaseSummary name) (c_handshake w)"
  have s0: "s0 = (newPhaseSummary name)\<lparr>ps_OpeningHandshakes := 1, ps_seenKeys := {b64Encode kb}\<rparr>"
    using recordOpeningHandshake_good [OF w(3) assms(2), of "newPhaseSummary name"]
    by (simp add: s0_def newPhaseSummary_def)
  from reuseLoop_ok [OF w(2) assms(1), of ms s0] obtain p w' where l:
      "reuseLoop e (map (\<lambda>(m, n). (Inr m, n)) ms) w s0 =
        (s0\<lparr>ps_CompletedOperations := ps_CompletedOperations s0 + int (length ms),
         ps_TotalTransferredBytes := ps_TotalTransferredBytes s0 + int (length ms) * messageBytes e,
         ps_LatenciesMilliseconds := ps_LatenciesMilliseconds s0 @ map (\<lambda>(m, n). durationMS n) ms,
         ps_LastProof := p\<rparr>, w')"
      "inStep kb ([] @ map (\<lambda>(m, n). (m, sends e)) ms) w'" by blast
  from close_ok [OF l(2), of p cm] obtain p' w'' where c:
      "closeCleanly w' p (Inr cm) = (None, p', w'')" "o_CleanCompletion p'" by auto
  have "ps_FailedOperations s0 = 0" "ps_TimedOutOperations s0 = 0"
    by (simp_all add: s0 newPhaseSummary_def)
  then have "runReusablePhase (okPhase kb n0 ms cm ops elapsed) e name =
      s0\<lparr>ps_CompletedOperations := ps_CompletedOperations s0 + int (length ms),
         ps_TotalTransferredBytes := ps_TotalTransferredBytes s0 + int (length ms) * messageBytes e,
         ps_LatenciesMilliseconds := ps_LatenciesMilliseconds s0 @ map (\<lambda>(m, n). durationMS n) ms,
         ps_LastProof := p', ps_DurationSeconds := elapsed\<rparr>"
    using l(1) w(1) c(1) by (simp add: runReusablePhase_def okPhase_def Let_def flip: s0_def)
  then show ?thesis
    using c(2) by (simp add: s0 Let_def newPhaseSummary_def Ws_Executor.hasFailures_def)
qed

text \<open>A phase of the executor against the target never fails. In the echo and ping scenarios
  it opens one connection, completes every message on it and closes it cleanly; in the upgrade and
  close scenarios it opens a connection with its own key per operation. The counters are exact:
  completed operations, bytes, opening handshakes, and no reused key, undecodable key or accept
  mismatch.\<close>

theorem websocket_phase_interop:
  assumes "e \<in> set expectations" and "length kb = 16"
    and "list_all (\<lambda>op. length (fst op) = 16) ops" and "distinct (map fst ops)"
  shows "let s = Ws_Executor.runPhase (okPhase kb n0 ms cm ops elapsed) e name;
      own = e_operation e \<in> {''establish'', ''close''} in
    ps_CompletedOperations s = int (if own then length ops else length ms) \<and>
    ps_TotalTransferredBytes s =
      (if own then int (length ops) * operationBytes e else int (length ms) * messageBytes e) \<and>
    ps_OpeningHandshakes s = (if own then int (length ops) else 1) \<and>
    (ps_KeyReuseCount s, ps_InvalidDecodedKeyCount s, ps_AcceptMismatchCount s) = (0, 0, 0) \<and>
    ps_UpgradeRequestHeadersMatched s \<and> ps_UpgradeResponseHeadersMatched s \<and>
    \<not> Ws_Executor.hasFailures s"
proof (cases "e_operation e \<in> {''establish'', ''close''}")
  case True
  then show ?thesis
    using operationLoop_ok [OF assms(1,3,4), of "newPhaseSummary name"]
    by (auto simp: Ws_Executor.runPhase_def okPhase_def Let_def newPhaseSummary_def Ws_Executor.hasFailures_def)
next
  case False
  then have m: "messaging e" using expectation_cases [OF assms(1)] by auto
  then show ?thesis
    using False reusable_phase [OF m assms(2), of n0 ms cm ops elapsed name]
    by (auto simp: Ws_Executor.runPhase_def messaging_def Let_def)
qed

theorem websocket_phase_interop_witness:
  "ps_OpeningHandshakes (Ws_Executor.runPhase (okPhase (replicate 16 0) 9 [(1, 5), (2, 6)] 3
     [(replicate 16 1, 1, 2, 3, 4), (replicate 16 2, 1, 2, 3, 4)] 5) (expectations ! 0) ''warmup'') = 2"
  using websocket_phase_interop [OF nth_expectations(2), of "replicate 16 0"
      "[(replicate 16 1, 1, 2, 3, 4), (replicate 16 2, 1, 2, 3, 4)]" 9 "[(1, 5), (2, 6)]" 3 5 "''warmup''"]
  by (simp add: nth_expectations(4) Let_def) 
end
