(* ===== verification/Quic_Target.thy ===== *)
theory Quic_Target
  imports Go_Base
begin

text \<open>
  The raw QUIC target of \<^verbatim>\<open>implementations/quic-go-raw/source/cmd/quic-go-raw/main.go\<close>: every
  stream carries one request, which is either a download request, answered with a deterministic
  payload of the asked length, or a payload to echo up to a limit the scenario sets. The QUIC
  stack (\<^verbatim>\<open>github.com/quic-go/quic-go\<close>) is a library outside the repository: a stream is the
  bytes its peer sends with the error they end in, and a writer that accepts bytes or fails.
\<close>

section \<open>Constants and options\<close>

definition implementationID :: string where
  "implementationID = ''quic-go-raw''"

definition packageID :: string where
  "packageID = ''org.protocol-lab.components.implementation.quic-go-raw''"

definition defaultALPN :: string where
  "defaultALPN = ''plab-raw-quic''"

definition defaultEchoMaxSize :: int where
  "defaultEchoMaxSize = 64 * 1024"

definition maxReadBytes :: nat where
  "maxReadBytes = 64 * 1024 * 1024"

definition downloadRequestMagic :: string where
  "downloadRequestMagic = ''PLAB-DL1''"

definition downloadRequestLength :: nat where
  "downloadRequestLength = length downloadRequestMagic + 8"

definition supportedScenarios :: "string list" where
  "supportedScenarios =
     [''quic.transport.stream-throughput.64kb'', ''quic.transport.stream-throughput.1mb'',
      ''quic.transport.stream-download.1mb'', ''quic.transport.stream-throughput.16mb'',
      ''quic.transport.sustained-stream.256x64kb'', ''quic.transport.sustained-download.256x64kb'',
      ''quic.transport.latency.echo-1kb'', ''quic.transport.multiplex.100x1kb'',
      ''quic.transport.multiplex.100x64kb'', ''quic.transport.multiplex.16x1mb'',
      ''quic.transport.stream-limits.100x64kb'', ''quic.transport.flow-control.slow-reader-16x64kb'',
      ''quic.transport.connection-churn'', ''quic.transport.stream-churn'',
      ''quic.transport.duplex-streams'', ''quic.transport.duplex-streams.16x1mb'',
      ''quic.transport.duplex-streams-peer-matrix'', ''quic.transport.handshake-cold'']"

record options =
  t_listen :: string
  t_advertiseHost :: string
  t_alpn :: string
  t_echoMaxBytes :: int

definition defaultEchoMaxSizeForScenario :: "string \<Rightarrow> int" where
  "defaultEchoMaxSizeForScenario scenarioID =
     (if scenarioID \<in> set [''quic.transport.stream-throughput.64kb'',
          ''quic.transport.stream-throughput.1mb'', ''quic.transport.stream-throughput.16mb'',
          ''quic.transport.sustained-stream.256x64kb'', ''quic.transport.stream-download.1mb'',
          ''quic.transport.sustained-download.256x64kb'', ''quic.transport.handshake-cold'']
      then 0
      else if scenarioID \<in> set [''quic.transport.latency.echo-1kb'', ''quic.transport.multiplex.100x1kb'']
      then 1024
      else if scenarioID \<in> set [''quic.transport.multiplex.16x1mb'', ''quic.transport.duplex-streams.16x1mb'']
      then 1024 * 1024
      else defaultEchoMaxSize)"

text \<open>The values the flags start from; \<open>listen\<close> is the address of \<^verbatim>\<open>defaultListenAddress\<close>.\<close>

definition defaultOptions :: "env \<Rightarrow> string \<Rightarrow> options" where
  "defaultOptions env listen =
     \<lparr>t_listen = listen, t_advertiseHost = trimSpace (env ''PROTOCOL_LAB_TARGET_ADVERTISE_HOST''),
      t_alpn = defaultALPN,
      t_echoMaxBytes = defaultEchoMaxSizeForScenario (trimSpace (env ''PLAB_SCENARIO_ID''))\<rparr>"

text \<open>The checks after the flags are parsed; \<open>positional\<close> are the arguments that are not flags
  and \<open>resolved\<close> is what resolving the listen address returned.\<close>

definition checkOptions :: "options \<Rightarrow> string list \<Rightarrow> go_error option \<Rightarrow> options go" where
  "checkOptions opts positional resolved =
     (if positional \<noteq> []
      then Inl (Errorf (''unexpected positional arguments: '' @ joinWith '' '' positional))
      else if t_echoMaxBytes opts < 0 then Inl (Errorf ''echo-max-bytes cannot be negative'')
      else if t_alpn opts = '''' then Inl (Errorf ''alpn cannot be empty'')
      else (case resolved of
          Some e \<Rightarrow> Inl (Wrapf (''invalid listen address '' @ quoted (t_listen opts)) e)
        | None \<Rightarrow> Inr opts))"

record target_metadata =
  md_Status :: string
  md_ImplementationID :: string
  md_PackageID :: string
  md_Protocol :: string
  md_ALPN :: string
  md_Listen :: string
  md_AdvertiseHost :: string
  md_QuicGoVersion :: string
  md_ProcessID :: int
  md_SupportedScenarios :: "string list"

definition writeMetadata :: "options \<Rightarrow> string \<Rightarrow> int \<Rightarrow> target_metadata" where
  "writeMetadata opts listen pid =
     \<lparr>md_Status = ''ready'', md_ImplementationID = implementationID, md_PackageID = packageID,
      md_Protocol = ''quic'', md_ALPN = t_alpn opts, md_Listen = listen,
      md_AdvertiseHost = t_advertiseHost opts, md_QuicGoVersion = ''v0.60.0'', md_ProcessID = pid,
      md_SupportedScenarios = supportedScenarios\<rparr>"

section \<open>Streams\<close>

text \<open>\<open>stream.Write\<close>: the bytes accepted, and an error or none.\<close>

type_synonym stream_writer = "bytes \<Rightarrow> conn \<Rightarrow> nat \<times> go_error option \<times> conn"

definition parseDownloadRequest :: "bytes \<Rightarrow> nat \<Rightarrow> nat option" where
  "parseDownloadRequest request maximumPayloadLength =
     (if length request \<noteq> downloadRequestLength \<or>
         to_string (take (length downloadRequestMagic) request) \<noteq> downloadRequestMagic then None
      else (let payloadLength = uint64 (drop (length downloadRequestMagic) request) in
        if payloadLength = 0 \<or> unat payloadLength > maximumPayloadLength then None
        else Some (unat payloadLength)))"

definition detChunk :: "nat \<Rightarrow> nat \<Rightarrow> bytes" where
  "detChunk offset n = map (\<lambda>i. of_nat ((offset + i) mod 251)) [0..<n]"

function payloadLoop :: "stream_writer \<Rightarrow> nat \<Rightarrow> nat \<Rightarrow> conn \<Rightarrow> go_error option \<times> conn" where
  "payloadLoop w payloadLength offset c =
     (if offset < payloadLength then
        (let chunkLength = min (min payloadLength (64 * 1024)) (payloadLength - offset) in
         case w (detChunk offset chunkLength) c of
           (written, Some e, c1) \<Rightarrow> (Some e, c1)
         | (written, None, c1) \<Rightarrow>
             if written \<noteq> chunkLength then (Some ErrShortWrite, c1)
             else payloadLoop w payloadLength (offset + chunkLength) c1)
      else (None, c))"
  by pat_completeness auto
termination
  by (relation "measure (\<lambda>(w, n, offset, c). n - offset)") auto

declare payloadLoop.simps [simp del]

definition writeDeterministicPayload :: "stream_writer \<Rightarrow> conn \<Rightarrow> nat \<Rightarrow> go_error option \<times> conn" where
  "writeDeterministicPayload w c payloadLength = payloadLoop w payloadLength 0 c"

datatype target_log =
    ReadFailed go_error | LimitExceeded nat | DownloadFailed go_error | EchoFailed go_error

definition handleStream :: "stream_writer \<Rightarrow> options \<Rightarrow> conn \<Rightarrow> target_log list \<times> conn" where
  "handleStream w opts c =
     (case readAllLimited (maxReadBytes + 1) c of
        (Inl e, c1) \<Rightarrow> ([ReadFailed e], c1)
      | (Inr payload, c1) \<Rightarrow>
          if length payload > maxReadBytes then ([LimitExceeded (length payload)], c1)
          else (case parseDownloadRequest payload maxReadBytes of
              Some payloadLength \<Rightarrow>
                (case writeDeterministicPayload w c1 payloadLength of
                   (Some e, c2) \<Rightarrow> ([DownloadFailed e], c2)
                 | (None, c2) \<Rightarrow> ([], c2))
            | None \<Rightarrow>
                if int (length payload) > t_echoMaxBytes opts then ([], c1)
                else if length payload = 0 then ([], c1)
                else (case w payload c1 of
                    (_, Some e, c2) \<Rightarrow> ([EchoFailed e], c2)
                  | (_, None, c2) \<Rightarrow> ([], c2))))"

text \<open>The accept loop of a connection starts one handler per accepted stream and ends with the
  first error; \<open>streams\<close> are the streams accepted before it.\<close>

definition handleConnection :: "stream_writer \<Rightarrow> options \<Rightarrow> conn list \<Rightarrow> (target_log list \<times> conn) list" where
  "handleConnection w opts streams = map (handleStream w opts) streams"

section \<open>Download requests\<close>

text \<open>The format of a download request: the magic text and the length in network order.\<close>

definition downloadRequest :: "nat \<Rightarrow> bytes" where
  "downloadRequest n = of_string downloadRequestMagic @ be64 (of_nat n)"

lemma magic_length [simp]: "length downloadRequestMagic = 8" "downloadRequestLength = 16"
  by (simp_all add: downloadRequestMagic_def downloadRequestLength_def)

lemma take_magic: "take 8 (of_string downloadRequestMagic @ r) = of_string downloadRequestMagic"
  "drop 8 (of_string downloadRequestMagic @ r) = r"
  by (simp_all add: downloadRequestMagic_def)

lemma parse_downloadRequest:
  assumes "n < 2 ^ 64"
  shows "parseDownloadRequest (downloadRequest n) k = (if n = 0 \<or> n > k then None else Some n)"
proof -
  have u: "unat (of_nat n :: u64) = n" using assms by (simp add: unat_of_nat)
  moreover have "(of_nat n :: u64) = 0 \<longleftrightarrow> n = 0" by (rule of_nat_u64_zero [OF assms])
  ultimately show ?thesis
    by (simp add: parseDownloadRequest_def downloadRequest_def take_magic Let_def)
qed

text \<open>Only such requests are parsed.\<close>

lemma parseDownloadRequest_Some:
  assumes "parseDownloadRequest r k = Some n"
  shows "0 < n \<and> n \<le> k \<and> r = downloadRequest n"
proof -
  let ?x = "uint64 (drop 8 r)"
  from assms have r: "length r = 16" "take 8 r = of_string downloadRequestMagic"
      and x: "?x \<noteq> 0" "unat ?x \<le> k" "n = unat ?x"
    by (auto simp: parseDownloadRequest_def Let_def to_string_eq_iff split: if_splits)
  have "be64 ?x = drop 8 r" using r(1) by (intro be64_uint64) simp
  then have "downloadRequest n = take 8 r @ drop 8 r"
    by (simp only: downloadRequest_def x(3) r(2) of_nat_unat ucast_id)
  moreover have "0 < unat ?x" using x(1) by (simp add: unat_gt_0)
  ultimately show ?thesis using x by simp
qed

section \<open>The deterministic payload\<close>

definition detPayload :: "nat \<Rightarrow> bytes" where
  "detPayload n = detChunk 0 n"

lemma length_det [simp]: "length (detChunk o' n) = n" "length (detPayload n) = n"
  by (simp_all add: detChunk_def detPayload_def)

lemma detChunk_append: "detChunk o' m @ detChunk (o' + m) n = detChunk o' (m + n)"
  by (rule nth_equalityI) (auto simp: detChunk_def nth_append)

text \<open>A writer that accepts everything appends it to what was written.\<close>

definition acceptAll :: stream_writer where
  "acceptAll bs c = (length bs, None, c\<lparr>conn_out := conn_out c @ [bs]\<rparr>)"

lemma payloadLoop_acceptAll:
  assumes "offset \<le> n"
  shows "\<exists>chunks. payloadLoop acceptAll n offset c = (None, c\<lparr>conn_out := conn_out c @ chunks\<rparr>) \<and>
    concat chunks = detChunk offset (n - offset) \<and> list_all (\<lambda>ch. length ch \<le> 65536) chunks"
  using assms
proof (induction acceptAll n offset c rule: payloadLoop.induct)
  case (1 n offset c)
  show ?case
  proof (cases "offset < n")
    case False
    with 1 have "n - offset = 0" by simp
    with False show ?thesis
      by (intro exI [of _ "[]"]) (simp add: payloadLoop.simps [of acceptAll n offset c] detChunk_def)
  next
    case True
    let ?k = "min (min n (64 * 1024)) (n - offset)"
    let ?ch = "detChunk offset ?k"
    let ?c = "c\<lparr>conn_out := conn_out c @ [?ch]\<rparr>"
    have k: "0 < ?k" "offset + ?k \<le> n" "?k \<le> 65536" using True by auto
    have "\<exists>chunks. payloadLoop acceptAll n (offset + ?k) ?c =
        (None, ?c\<lparr>conn_out := conn_out ?c @ chunks\<rparr>) \<and>
        concat chunks = detChunk (offset + ?k) (n - (offset + ?k)) \<and>
        list_all (\<lambda>ch. length ch \<le> 65536) chunks"
      using True k(2) by (intro 1) (simp_all add: acceptAll_def)
    then obtain chunks where r: "payloadLoop acceptAll n (offset + ?k) ?c =
        (None, ?c\<lparr>conn_out := conn_out ?c @ chunks\<rparr>)"
        "concat chunks = detChunk (offset + ?k) (n - (offset + ?k))"
        "list_all (\<lambda>ch. length ch \<le> 65536) chunks" by blast
    have "detChunk offset ?k @ detChunk (offset + ?k) (n - (offset + ?k)) = detChunk offset (n - offset)"
      using k(2) True by (simp add: detChunk_append)
    moreover have "payloadLoop acceptAll n offset c = payloadLoop acceptAll n (offset + ?k) ?c"
      using True by (simp add: payloadLoop.simps [of acceptAll n offset c] acceptAll_def Let_def)
    ultimately show ?thesis
      using r k(3) by (intro exI [of _ "?ch # chunks"]) simp
  qed
qed

section \<open>What the target answers\<close>

definition answerOf :: "options \<Rightarrow> bytes \<Rightarrow> bytes" where
  "answerOf opts payload =
     (case parseDownloadRequest payload maxReadBytes of
        Some n \<Rightarrow> detPayload n
      | None \<Rightarrow> if int (length payload) > t_echoMaxBytes opts then [] else payload)"

lemma handleStream_ok:
  assumes "length (conn_in c) \<le> maxReadBytes" "conn_end c = EOF"
  shows "\<exists>chunks. handleStream acceptAll opts c = ([], c\<lparr>conn_in := [], conn_out := conn_out c @ chunks\<rparr>) \<and>
    concat chunks = answerOf opts (conn_in c)"
proof -
  let ?p = "conn_in c" and ?c = "c\<lparr>conn_in := []\<rparr>"
  have rd: "readAllLimited (maxReadBytes + 1) c = (Inr ?p, ?c)"
    using assms by (simp add: readAllLimited_def)
  show ?thesis
  proof (cases "parseDownloadRequest ?p maxReadBytes")
    case (Some n)
    obtain chunks where "payloadLoop acceptAll n 0 ?c = (None, ?c\<lparr>conn_out := conn_out ?c @ chunks\<rparr>)"
        "concat chunks = detChunk 0 n"
      using payloadLoop_acceptAll [of 0 n ?c] by auto
    with rd Some assms(1) show ?thesis
      by (auto simp: handleStream_def writeDeterministicPayload_def answerOf_def detPayload_def)
  next
    case None
    show ?thesis
    proof (cases "int (length ?p) > t_echoMaxBytes opts \<or> ?p = []")
      case True
      with None rd assms(1) show ?thesis
        by (intro exI [of _ "[]"]) (auto simp: handleStream_def answerOf_def)
    next
      case False
      with None rd assms(1) show ?thesis
        by (intro exI [of _ "[?p]"]) (auto simp: handleStream_def answerOf_def acceptAll_def)
    qed
  qed
qed

text \<open>The answer of the target to one stream. A stream of at most 64 MiB that ends properly is
  answered by the deterministic payload of the requested length when it is a download request of
  1 byte to 64 MiB, by itself when it is within the echo limit of the scenario, and by nothing
  otherwise, always without an error of the target.\<close>

theorem handleStream_answers:
  assumes "length (conn_in c) \<le> maxReadBytes" and "conn_end c = EOF"
  shows "\<exists>chunks. handleStream acceptAll opts c = ([], c\<lparr>conn_in := [], conn_out := conn_out c @ chunks\<rparr>) \<and>
    concat chunks = answerOf opts (conn_in c)"
  by (rule handleStream_ok [OF assms])

lemma answer_download: "0 < n \<Longrightarrow> n \<le> maxReadBytes \<Longrightarrow> answerOf opts (downloadRequest n) = detPayload n"
  by (simp add: answerOf_def parse_downloadRequest maxReadBytes_def)

lemma length_downloadRequest [simp]: "length (downloadRequest n) = 16"
  by (simp add: downloadRequest_def)

definition noEcho :: options where
  "noEcho = \<lparr>t_listen = [], t_advertiseHost = [], t_alpn = defaultALPN, t_echoMaxBytes = 0\<rparr>"

theorem handleStream_answers_witness:
  "\<exists>chunks. handleStream acceptAll noEcho \<lparr>conn_in = downloadRequest 3, conn_end = EOF, conn_out = [], conn_cap = None\<rparr> =
     ([], \<lparr>conn_in = [], conn_end = EOF, conn_out = chunks, conn_cap = None\<rparr>) \<and> concat chunks = [0, 1, 2]"
  using handleStream_answers [of "\<lparr>conn_in = downloadRequest 3, conn_end = EOF, conn_out = [], conn_cap = None\<rparr>" noEcho]
  by (simp add: answer_download maxReadBytes_def) (simp add: detPayload_def detChunk_def upt_rec)

end
