(* ===== verification/Quic_Load.thy ===== *)
theory Quic_Load
  imports Go_Base Go_Float "HOL-Library.Multiset"
begin

text \<open>
  The raw QUIC load executor of
  \<^verbatim>\<open>executors/quic-go-raw-load/source/cmd/quic-go-raw-load/main.go\<close>: option checks, the two
  kinds of streams it runs, batches of streams opened one after another or all at once, the loads
  made of batches, the statistics and the metrics. The QUIC stack is a library outside the
  repository. One stream is described by what its calls return, a batch by its streams in the
  order in which they finish, a load by the batches its deadline admits.
\<close>

section \<open>Constants and options\<close>

text \<open>The arithmetic of the 64-bit \<^verbatim>\<open>int\<close>, \<^verbatim>\<open>int64\<close> and \<^verbatim>\<open>time.Duration\<close>.\<close>

definition wrap64 :: "int \<Rightarrow> int" where
  "wrap64 n = sint (word_of_int n :: 64 word)"

definition toolName :: string where
  "toolName = ''quic-go-raw-load''"

definition outputSchemaVersion :: string where
  "outputSchemaVersion = ''protocol-lab.raw-quic-executor-result.v1''"

definition downloadRequestMagic :: string where
  "downloadRequestMagic = ''PLAB-DL1''"

definition maximumDownloadPayloadLength :: int where
  "maximumDownloadPayloadLength = 64 * 1024 * 1024"

definition sustainedStreamChunkSize :: nat where
  "sustainedStreamChunkSize = 64 * 1024"

definition slowReaderResponseDelay :: int where
  \<comment> \<open>in nanoseconds\<close>
  "slowReaderResponseDelay = 100000000"

record options =
  sni :: string
  alpn :: string
  behavior :: string
  streamType :: string
  payloadSizeBytes :: int
  payloadDirection :: string
  openPattern :: string
  connections :: int
  streamsPerConnection :: int
  duration :: int
  warmup :: int
  target :: string
  failOnErrors :: bool

text \<open>The checks after the flags are parsed, with the parts of the target URL.\<close>

definition sequentialBehaviors :: "string list" where
  "sequentialBehaviors = [''stream-throughput'', ''latency-echo'', ''large-payload'',
     ''sustained-stream-256x64kb'', ''sustained-download-256x64kb'']"

definition concurrentBehaviors :: "string list" where
  "concurrentBehaviors = [''multiplex-streams'', ''duplex-streams'', ''stream-limit-pressure'',
     ''flow-control-slow-reader-100ms'']"

definition requirePattern :: "options \<Rightarrow> string \<Rightarrow> go_error option" where
  "requirePattern opts pattern =
     Some (Errorf (''behavior '' @ quoted (behavior opts) @ '' requires open-pattern '' @ quoted pattern))"

definition validateOptions :: "options \<Rightarrow> go_error option" where
  "validateOptions opts =
     (let b = toLower (behavior opts); pat = toLower (openPattern opts);
          dir = toLower (payloadDirection opts);
          streams = Some (Errorf ''streams-per-connection must be greater than zero'') in
      if dir \<notin> set ['''', ''none'', ''client-to-server'', ''server-to-client'', ''bidirectional'']
      then Some (Errorf (''unsupported payload direction '' @ quoted (payloadDirection opts)))
      else if dir = ''server-to-client'' \<and> payloadSizeBytes opts > maximumDownloadPayloadLength
      then Some (Errorf ''server-to-client payload size exceeds 67108864-byte limit'')
      else if b \<in> set sequentialBehaviors then
        (if pat \<noteq> ''sequential'' then requirePattern opts ''sequential''
         else if streamsPerConnection opts < 1 then streams else None)
      else if b \<in> set concurrentBehaviors then
        (if pat \<noteq> ''concurrent'' then requirePattern opts ''concurrent''
         else if streamsPerConnection opts < 1 then streams else None)
      else if b = ''handshake-cold'' then
        (if pat \<noteq> ''sequential'' then requirePattern opts ''sequential''
         else if streamsPerConnection opts \<noteq> 0
         then Some (Errorf ''handshake-cold requires streams-per-connection to be zero'') else None)
      else if b \<in> set [''connection-churn'', ''stream-churn''] then
        (if pat \<noteq> ''churn'' then requirePattern opts ''churn''
         else if streamsPerConnection opts < 1
         then Some (Errorf (b @ '' requires streams-per-connection to be greater than zero'')) else None)
      else Some (Errorf (''unsupported behavior '' @ quoted (behavior opts))))"

definition checkOptions :: "options \<Rightarrow> string \<Rightarrow> string \<Rightarrow> options go" where
  "checkOptions opts scheme host =
     (if \<not> equalFold scheme ''quic''
      then Inl (Errorf (''unsupported target URL scheme '' @ quoted scheme))
      else if host = '''' then Inl (Errorf ''target URL must include host and port'')
      else if connections opts < 1 then Inl (Errorf ''connections must be greater than zero'')
      else if payloadSizeBytes opts < 0 then Inl (Errorf ''payload-size-bytes cannot be negative'')
      else if duration opts \<le> 0 then Inl (Errorf ''duration must be greater than zero'')
      else if warmup opts < 0 then Inl (Errorf ''warmup cannot be negative'')
      else (case validateOptions opts of Some e \<Rightarrow> Inl e | None \<Rightarrow> Inr opts))"

section \<open>Statistics\<close>

record run_stats =
  totalRequests :: int
  successfulRequests :: int
  failedRequests :: int
  timeoutRequests :: int
  bytesSent :: int
  bytesReceived :: int
  latencies :: "rat list"
  connectLatencies :: "rat list"
  errorTexts :: "string list"

definition noStats :: run_stats where
  "noStats = \<lparr>totalRequests = 0, successfulRequests = 0, failedRequests = 0, timeoutRequests = 0,
     bytesSent = 0, bytesReceived = 0, latencies = [], connectLatencies = [], errorTexts = []\<rparr>"

definition merge :: "run_stats \<Rightarrow> run_stats \<Rightarrow> run_stats" where
  "merge s other =
     \<lparr>totalRequests = totalRequests s + totalRequests other,
      successfulRequests = successfulRequests s + successfulRequests other,
      failedRequests = failedRequests s + failedRequests other,
      timeoutRequests = timeoutRequests s + timeoutRequests other,
      bytesSent = bytesSent s + bytesSent other, bytesReceived = bytesReceived s + bytesReceived other,
      latencies = latencies s @ latencies other,
      connectLatencies = connectLatencies s @ connectLatencies other,
      errorTexts = errorTexts s @ errorTexts other\<rparr>"

definition boolToInt64 :: "bool \<Rightarrow> int" where
  "boolToInt64 v = (if v then 1 else 0)"

definition maxDuration :: "int \<Rightarrow> int \<Rightarrow> int" where
  "maxDuration a b = (if a > b then a else b)"

section \<open>Streams\<close>

text \<open>What the calls on one stream return: opening it and setting its deadline, both for the time
  limit given to them, a write, closing the write side, the wait of a slow reader, and the successive reads after the request was
  written. A read that never returns ends in the deadline of the stream.\<close>

type_synonym read_result = "bytes \<times> go_error option"

record stream_env =
  s_open :: "int \<Rightarrow> go_error option"
  s_deadline :: "int \<Rightarrow> go_error option"
  s_write :: "bytes \<Rightarrow> conn \<Rightarrow> nat \<times> go_error option \<times> conn"
  s_conn :: conn
  s_close :: "go_error option"
  s_wait :: "go_error option"
  s_reads :: "bytes \<Rightarrow> read_result list"
  s_micros :: int

definition streamTimeout :: "options \<Rightarrow> int" where
  "streamTimeout opts = maxDuration (wrap64 (duration opts + 30 * 10 ^ 9)) (30 * 10 ^ 9)"

definition buildDownloadRequest :: "nat \<Rightarrow> bytes" where
  "buildDownloadRequest payloadLength = of_string downloadRequestMagic @ be64 (of_nat payloadLength)"

function chunkLoop ::
  "(bytes \<Rightarrow> conn \<Rightarrow> nat \<times> go_error option \<times> conn) \<Rightarrow> bytes \<Rightarrow> nat \<Rightarrow> nat \<Rightarrow> conn \<Rightarrow>
   nat \<times> go_error option \<times> conn" where
  "chunkLoop w payload chunkSize totalWritten c =
     (if 0 < chunkSize \<and> totalWritten < length payload then
        (let chunkEnd = min (totalWritten + chunkSize) (length payload);
             chunk = drop totalWritten (take chunkEnd payload) in
         case w chunk c of
           (written, Some e, c1) \<Rightarrow> (totalWritten + written, Some e, c1)
         | (written, None, c1) \<Rightarrow>
             if written \<noteq> length chunk then (totalWritten + written, Some ErrShortWrite, c1)
             else chunkLoop w payload chunkSize (totalWritten + written) c1)
      else (totalWritten, None, c))"
  by pat_completeness auto
termination
  by (relation "measure (\<lambda>(w, payload, n, total, c). length payload - total)") auto

declare chunkLoop.simps [simp del]

definition writePayloadInChunks ::
  "(bytes \<Rightarrow> conn \<Rightarrow> nat \<times> go_error option \<times> conn) \<Rightarrow> bytes \<Rightarrow> nat \<Rightarrow> conn \<Rightarrow>
   nat \<times> go_error option \<times> conn" where
  "writePayloadInChunks w payload chunkSize c =
     (if chunkSize = 0 then (0, Some (Errorf ''chunk size must be greater than zero''), c)
      else chunkLoop w payload chunkSize 0 c)"

fun firstDifference :: "bytes \<Rightarrow> bytes \<Rightarrow> nat \<Rightarrow> (nat \<times> byte \<times> byte) option" where
  "firstDifference (a # as) (w # ws) i = (if a \<noteq> w then Some (i, a, w) else firstDifference as ws (Suc i))"
| "firstDifference _ _ i = None"

definition validateDeterministicPayloadChunk :: "bytes \<Rightarrow> nat \<Rightarrow> bytes \<Rightarrow> go_error option" where
  "validateDeterministicPayloadChunk expected offset chunk =
     (if offset + length chunk > length expected
      then Some (Errorf (''response exceeded expected '' @ itoa (length expected) @
        ''-byte payload at offset '' @ itoa offset))
      else (case firstDifference chunk (drop offset expected) offset of
          Some (i, actual, wanted) \<Rightarrow>
            Some (Errorf (''byte at offset '' @ itoa i @ '' was '' @ itoa (unat actual) @
              '', expected '' @ itoa (unat wanted)))
        | None \<Rightarrow> None))"

definition responseReadDelay :: "string \<Rightarrow> int" where
  "responseReadDelay b =
     (if equalFold b ''flow-control-slow-reader-100ms'' then slowReaderResponseDelay else 0)"

text \<open>The read loop: \<open>Inl\<close> returns the received count and the error, \<open>Inr\<close> is the end of file.\<close>

fun readLoop :: "bool \<Rightarrow> bytes \<Rightarrow> nat \<Rightarrow> read_result list \<Rightarrow> nat \<times> go_error + nat" where
  "readLoop check payload received [] =
     Inl (received, Wrapf ''read response payload or EOF'' TimeoutError)"
| "readLoop check payload received ((chunk, err) # rs) =
     (case (if chunk \<noteq> [] \<and> check then validateDeterministicPayloadChunk payload received chunk else None) of
        Some e \<Rightarrow> Inl (received + length chunk, Wrapf ''validate response payload'' e)
      | None \<Rightarrow>
          (let now = received + length chunk in
           case err of
             None \<Rightarrow> readLoop check payload now rs
           | Some e \<Rightarrow>
               if errorsIs e EOF then Inr now
               else Inl (now, Wrapf ''read response payload or EOF'' e)))"

definition millis :: "int \<Rightarrow> rat" where
  "millis us = fdiv (f64 (of_int us)) 1000"

type_synonym stream_result = "rat \<times> int \<times> int \<times> go_error option"

definition runRequestResponseStream :: "stream_env \<Rightarrow> bytes \<Rightarrow> options \<Rightarrow> stream_result" where
  "runRequestResponseStream s payload opts =
     (case s_open s (streamTimeout opts) of
        Some e \<Rightarrow> (0, 0, 0, Some (Wrapf ''open stream'' e))
      | None \<Rightarrow> (case s_deadline s (streamTimeout opts) of
          Some e \<Rightarrow> (0, 0, 0, Some (Wrapf ''set stream deadline'' e))
        | None \<Rightarrow>
            (let download = equalFold (payloadDirection opts) ''server-to-client'';
                 upload = equalFold (payloadDirection opts) ''client-to-server'';
                 request = (if download then buildDownloadRequest (length payload) else payload);
                 accounted = (if download then 0 else int (length payload)) in
             case (if equalFold (behavior opts) ''sustained-stream-256x64kb''
                   then writePayloadInChunks (s_write s) request sustainedStreamChunkSize (s_conn s)
                   else s_write s request (s_conn s)) of
               (written, Some e, c) \<Rightarrow> (0, accounted, 0, Some (Wrapf ''write request payload'' e))
             | (written, None, c) \<Rightarrow>
                 if written \<noteq> length request then (0, accounted, 0, Some ErrShortWrite)
                 else (case s_close s of
                     Some e \<Rightarrow> (0, accounted, 0, Some (Wrapf ''close request writes'' e))
                   | None \<Rightarrow>
                       if responseReadDelay (behavior opts) > 0 \<and> s_wait s \<noteq> None
                       then (0, accounted, 0, map_option (Wrapf ''wait before reading response'') (s_wait s))
                       else (case readLoop (\<not> upload) payload 0 (s_reads s (concat (conn_out c))) of
                           Inl (received, e) \<Rightarrow> (0, accounted, int received, Some e)
                         | Inr received \<Rightarrow>
                             if upload \<and> received \<noteq> 0
                             then (0, accounted, int received, Some (Errorf (''received '' @ itoa received @
                               '' response bytes, expected 0'')))
                             else if \<not> upload \<and> received \<noteq> length payload
                             then (0, accounted, int received, Some (Errorf (''received '' @ itoa received @
                               '' response bytes, expected '' @ itoa (length payload))))
                             else (millis (s_micros s), accounted, int received, None))))))"

definition validateDuplexResponse :: "string \<Rightarrow> nat \<Rightarrow> nat \<Rightarrow> go_error option \<Rightarrow> go_error option" where
  "validateDuplexResponse direction expectedBytes received readErr =
     (let upload = equalFold direction ''client-to-server'';
          expected = (if upload then 0 else expectedBytes) in
      if received \<noteq> expected then
        (let mismatch = (if upload then ''received '' @ itoa received @ '' response bytes, expected 0''
                         else ''received '' @ itoa received @ '' echoed bytes, expected '' @ itoa expectedBytes)
         in case readErr of
              Some e \<Rightarrow> Some (Wrapf (mismatch @ ''; response read failed'') e)
            | None \<Rightarrow> Some (Errorf mismatch))
      else map_option (Wrapf ''read response payload or EOF'') readErr)"

text \<open>The reader of a duplex stream runs beside the writer; its result is taken when the write side
  is done. It counts the bytes and does not look at them.\<close>

fun duplexReader :: "nat \<Rightarrow> read_result list \<Rightarrow> nat \<times> go_error option" where
  "duplexReader received [] = (received, Some TimeoutError)"
| "duplexReader received ((chunk, err) # rs) =
     (case err of
        None \<Rightarrow> duplexReader (received + length chunk) rs
      | Some e \<Rightarrow> (received + length chunk, if errorsIs e EOF then None else Some e))"

definition runDuplexStream :: "stream_env \<Rightarrow> bytes \<Rightarrow> options \<Rightarrow> stream_result" where
  "runDuplexStream s payload opts =
     (case s_open s (streamTimeout opts) of
        Some e \<Rightarrow> (0, 0, 0, Some e)
      | None \<Rightarrow> (case s_deadline s (streamTimeout opts) of
          Some e \<Rightarrow> (0, 0, 0, Some e)
        | None \<Rightarrow> (case s_write s payload (s_conn s) of
            (written, werr, c) \<Rightarrow>
              (case duplexReader 0 (s_reads s (concat (conn_out c))) of
                 (received, rerr) \<Rightarrow>
                   (case werr of
                      Some e \<Rightarrow> (0, int written, int received, Some e)
                    | None \<Rightarrow>
                        if written \<noteq> length payload then (0, int written, int received, Some ErrShortWrite)
                        else (case s_close s of
                            Some e \<Rightarrow> (0, int written, int received, Some e)
                          | None \<Rightarrow>
                              (case validateDuplexResponse (payloadDirection opts) (length payload) received rerr of
                                 Some e \<Rightarrow> (0, int written, int received, Some e)
                               | None \<Rightarrow> (millis (s_micros s), int written, int received, None))))))))"

definition runStream :: "stream_env \<Rightarrow> bytes \<Rightarrow> options \<Rightarrow> stream_result" where
  "runStream s payload opts =
     (if equalFold (behavior opts) ''duplex-streams'' then runDuplexStream s payload opts
      else runRequestResponseStream s payload opts)"


section \<open>Batches\<close>

definition isTimeoutError :: "go_error \<Rightarrow> bool" where
  "isTimeoutError err = isTimeout err"

text \<open>The body of the sequential loop.\<close>

definition recordStream :: "stream_result \<Rightarrow> run_stats \<Rightarrow> run_stats" where
  "recordStream res stats =
     (case res of (latency, sent, received, err) \<Rightarrow>
        let counted = stats\<lparr>totalRequests := totalRequests stats + 1,
              bytesSent := bytesSent stats + sent, bytesReceived := bytesReceived stats + received\<rparr> in
        case err of
          Some e \<Rightarrow> counted\<lparr>failedRequests := failedRequests counted + 1,
              timeoutRequests := timeoutRequests counted + boolToInt64 (isTimeoutError e),
              errorTexts := errorTexts counted @ [errorText e]\<rparr>
        | None \<Rightarrow> counted\<lparr>successfulRequests := successfulRequests counted + 1,
              latencies := latencies counted @ [latency]\<rparr>)"

text \<open>The streams of one connection, by their index.\<close>

type_synonym conn_env = "nat \<Rightarrow> stream_env"

definition runSequentialStreams :: "conn_env \<Rightarrow> bytes \<Rightarrow> options \<Rightarrow> run_stats" where
  "runSequentialStreams streams payload opts =
     fold (\<lambda>streamIndex. recordStream (runStream (streams streamIndex) payload opts))
       [0..<nat (streamsPerConnection opts)] noStats"

text \<open>One goroutine per connection merges its statistics under the mutex; \<open>conns i\<close> is the
  connection whose goroutine is the \<open>i\<close>-th to take it.\<close>

definition runSequentialStreamBatch :: "(nat \<Rightarrow> conn_env) \<Rightarrow> bytes \<Rightarrow> options \<Rightarrow> run_stats" where
  "runSequentialStreamBatch conns payload opts =
     fold (\<lambda>i stats. merge stats (runSequentialStreams (conns i) payload opts))
       [0..<nat (connections opts)] noStats"

text \<open>In a concurrent batch there is one goroutine per stream, and the statistics are shared: each
  goroutine makes a sequence of atomic updates, and the updates of all of them interleave.\<close>

datatype update =
    AddTotal | AddSent int | AddReceived int | AddFailed | AddTimeout | AppendError string
  | AddSuccessful | AppendLatency rat

fun perform :: "update \<Rightarrow> run_stats \<Rightarrow> run_stats" where
  "perform AddTotal s = s\<lparr>totalRequests := totalRequests s + 1\<rparr>"
| "perform (AddSent n) s = s\<lparr>bytesSent := bytesSent s + n\<rparr>"
| "perform (AddReceived n) s = s\<lparr>bytesReceived := bytesReceived s + n\<rparr>"
| "perform AddFailed s = s\<lparr>failedRequests := failedRequests s + 1\<rparr>"
| "perform AddTimeout s = s\<lparr>timeoutRequests := timeoutRequests s + 1\<rparr>"
| "perform (AppendError t) s = s\<lparr>errorTexts := errorTexts s @ [t]\<rparr>"
| "perform AddSuccessful s = s\<lparr>successfulRequests := successfulRequests s + 1\<rparr>"
| "perform (AppendLatency l) s = s\<lparr>latencies := latencies s @ [l]\<rparr>"

definition streamUpdates :: "stream_result \<Rightarrow> update list" where
  "streamUpdates res =
     (case res of (latency, sent, received, err) \<Rightarrow>
        [AddTotal, AddSent sent, AddReceived received] @
        (case err of
           Some e \<Rightarrow> [AddFailed] @ (if isTimeoutError e then [AddTimeout] else []) @ [AppendError (errorText e)]
         | None \<Rightarrow> [AddSuccessful, AppendLatency latency]))"

text \<open>The interleaving of sequences under a schedule, which names the sequence that moves next;
  what the schedule leaves runs at the end, as the wait group waits for every goroutine.\<close>

fun interleave :: "nat list \<Rightarrow> 'a list list \<Rightarrow> 'a list" where
  "interleave [] gs = concat gs"
| "interleave (i # sched) gs =
     (if i < length gs then (case gs ! i of
        [] \<Rightarrow> interleave sched gs
      | a # rest \<Rightarrow> a # interleave sched (gs[i := rest]))
      else interleave sched gs)"

definition runConcurrentStreamBatch ::
  "nat list \<Rightarrow> (nat \<Rightarrow> conn_env) \<Rightarrow> bytes \<Rightarrow> options \<Rightarrow> run_stats" where
  "runConcurrentStreamBatch sched conns payload opts =
     fold perform (interleave sched
       [streamUpdates (runStream (conns c i) payload opts).
          c \<leftarrow> [0..<nat (connections opts)], i \<leftarrow> [0..<nat (streamsPerConnection opts)]]) noStats"

datatype open_mode = StreamOpenSequential | StreamOpenConcurrent

record batch_env =
  b_conns :: "nat \<Rightarrow> conn_env"
  b_sched :: "nat list"
  b_dials :: "nat \<Rightarrow> go_error option \<times> int"

definition runStreamBatch :: "batch_env \<Rightarrow> bytes \<Rightarrow> options \<Rightarrow> open_mode \<Rightarrow> run_stats" where
  "runStreamBatch b payload opts mode =
     (case mode of
        StreamOpenSequential \<Rightarrow> runSequentialStreamBatch (b_conns b) payload opts
      | StreamOpenConcurrent \<Rightarrow> runConcurrentStreamBatch (b_sched b) (b_conns b) payload opts)"

text \<open>\<open>dialQUICConn\<close>: the error, or the connect time in milliseconds.\<close>

definition dialQUICConn :: "go_error option \<times> int \<Rightarrow> rat go" where
  "dialQUICConn dial = (case dial of (Some e, _) \<Rightarrow> Inl e | (None, us) \<Rightarrow> Inr (millis us))"

definition recordDial :: "rat go \<Rightarrow> run_stats \<Rightarrow> run_stats" where
  "recordDial res stats =
     (let counted = stats\<lparr>totalRequests := totalRequests stats + 1\<rparr> in
      case res of
        Inl e \<Rightarrow> counted\<lparr>failedRequests := failedRequests counted + 1,
            timeoutRequests := timeoutRequests counted + boolToInt64 (isTimeoutError e),
            errorTexts := errorTexts counted @ [errorText e]\<rparr>
      | Inr ms \<Rightarrow> counted\<lparr>successfulRequests := successfulRequests counted + 1,
            connectLatencies := connectLatencies counted @ [ms]\<rparr>)"

definition runHandshakeColdBatch :: "batch_env \<Rightarrow> options \<Rightarrow> run_stats" where
  "runHandshakeColdBatch b opts =
     fold (\<lambda>i. recordDial (dialQUICConn (b_dials b i))) [0..<nat (connections opts)] noStats"

definition churnConnection :: "batch_env \<Rightarrow> bytes \<Rightarrow> options \<Rightarrow> nat \<Rightarrow> run_stats" where
  "churnConnection b payload opts i =
     (case dialQUICConn (b_dials b i) of
        Inl e \<Rightarrow>
          (let failed = (if streamsPerConnection opts < 1 then 1 else streamsPerConnection opts) in
           noStats\<lparr>totalRequests := failed, failedRequests := failed,
             timeoutRequests := boolToInt64 (isTimeoutError e) * failed, errorTexts := [errorText e]\<rparr>)
      | Inr ms \<Rightarrow>
          (let batch = runSequentialStreams (b_conns b i) payload opts in
           batch\<lparr>connectLatencies := connectLatencies batch @ [ms]\<rparr>))"

definition runConnectionChurnBatch :: "batch_env \<Rightarrow> bytes \<Rightarrow> options \<Rightarrow> run_stats" where
  "runConnectionChurnBatch b payload opts =
     fold (\<lambda>i stats. merge stats (churnConnection b payload opts i)) [0..<nat (connections opts)] noStats"

section \<open>Loads\<close>

text \<open>The loop over batches that the three loads share. \<open>lenient\<close> is the condition on the early
  return that two of them have: a discarded batch with errors does not end them. The batches are
  the first one and those that start before the deadline.\<close>

fun batchLoop ::
  "bool \<Rightarrow> bool \<Rightarrow> int \<Rightarrow> ('b \<Rightarrow> run_stats) \<Rightarrow> run_stats \<Rightarrow> 'b list \<Rightarrow> run_stats \<times> go_error option" where
  "batchLoop lenient discard period run stats [] = (stats, None)"
| "batchLoop lenient discard period run stats (b # bs) =
     (let batch = run b;
          stats1 = (if discard then stats else merge stats batch) in
      if errorTexts batch \<noteq> [] \<and> \<not> (lenient \<and> discard)
      then (stats1, Some (Errorf (hd (errorTexts batch))))
      else if period \<le> 0 then (stats1, None)
      else batchLoop lenient discard period run stats1 bs)"

definition deterministicPayload :: "int \<Rightarrow> bytes" where
  "deterministicPayload n = map (\<lambda>i. of_nat (i mod 251)) [0..<nat n]"

fun dialAll :: "(nat \<Rightarrow> go_error option) \<Rightarrow> nat list \<Rightarrow> go_error option" where
  "dialAll dial [] = None"
| "dialAll dial (i # is) = (case dial i of Some e \<Rightarrow> Some e | None \<Rightarrow> dialAll dial is)"

record load_env =
  l_parse :: "go_error option"
  l_dial :: "nat \<Rightarrow> go_error option"
  l_first :: batch_env
  l_rest :: "batch_env list"

definition runStreamLoad ::
  "load_env \<Rightarrow> options \<Rightarrow> int \<Rightarrow> bool \<Rightarrow> open_mode \<Rightarrow> run_stats \<times> go_error option" where
  "runStreamLoad l opts period discard mode =
     (case l_parse l of
        Some e \<Rightarrow> (noStats, Some e)
      | None \<Rightarrow>
          (let payload = deterministicPayload (payloadSizeBytes opts) in
           case dialAll (l_dial l) [0..<nat (connections opts)] of
             Some e \<Rightarrow> (noStats\<lparr>failedRequests := wrap64 (connections opts * streamsPerConnection opts),
                 errorTexts := [errorText e]\<rparr>, Some e)
           | None \<Rightarrow> batchLoop False discard period (\<lambda>b. runStreamBatch b payload opts mode) noStats
               (l_first l # l_rest l)))"

definition runHandshakeColdLoad :: "load_env \<Rightarrow> options \<Rightarrow> int \<Rightarrow> bool \<Rightarrow> run_stats \<times> go_error option" where
  "runHandshakeColdLoad l opts period discard =
     (case l_parse l of
        Some e \<Rightarrow> (noStats, Some e)
      | None \<Rightarrow> batchLoop True discard period (\<lambda>b. runHandshakeColdBatch b opts) noStats
          (l_first l # l_rest l))"

definition runConnectionChurnLoad :: "load_env \<Rightarrow> options \<Rightarrow> int \<Rightarrow> bool \<Rightarrow> run_stats \<times> go_error option" where
  "runConnectionChurnLoad l opts period discard =
     (case l_parse l of
        Some e \<Rightarrow> (noStats, Some e)
      | None \<Rightarrow>
          (let payload = deterministicPayload (payloadSizeBytes opts) in
           batchLoop True discard period (\<lambda>b. runConnectionChurnBatch b payload opts) noStats
             (l_first l # l_rest l)))"

definition runLoad :: "load_env \<Rightarrow> options \<Rightarrow> int \<Rightarrow> bool \<Rightarrow> run_stats \<times> go_error option" where
  "runLoad l opts period discard =
     (let b = toLower (behavior opts) in
      if b \<in> set sequentialBehaviors then runStreamLoad l opts period discard StreamOpenSequential
      else if b \<in> set concurrentBehaviors then runStreamLoad l opts period discard StreamOpenConcurrent
      else if b = ''handshake-cold'' then runHandshakeColdLoad l opts period discard
      else if b = ''connection-churn'' then runConnectionChurnLoad l opts period discard
      else if b = ''stream-churn'' then runStreamLoad l opts period discard StreamOpenSequential
      else (noStats, Some (Errorf (''unsupported behavior '' @ quoted (behavior opts)))))"

section \<open>Metrics and the result document\<close>

definition percentile :: "rat list \<Rightarrow> rat \<Rightarrow> rat" where
  "percentile values p =
     (if values = [] then 0
      else if p \<le> 0 then values ! 0
      else if p \<ge> 100 then values ! (length values - 1)
      else (let position = fmul (fdiv p 100) (f64 (of_nat (length values - 1)));
                lower = nat \<lfloor>position\<rfloor>; upper = nat \<lceil>position\<rceil> in
        if lower = upper then values ! lower
        else (let weight = f64 (position - f64 (of_nat lower)) in
          fadd (fmul (values ! lower) (f64 (1 - weight))) (fmul (values ! upper) weight))))"

fun sumFrom :: "rat \<Rightarrow> rat list \<Rightarrow> rat" where
  "sumFrom acc [] = acc"
| "sumFrom acc (v # vs) = sumFrom (fadd acc v) vs"

definition mean :: "rat list \<Rightarrow> rat" where
  "mean values = (if values = [] then 0 else fdiv (sumFrom 0 values) (f64 (of_nat (length values))))"

text \<open>\<^verbatim>\<open>Duration.Seconds\<close>.\<close>

definition secondsOf :: "int \<Rightarrow> rat" where
  "secondsOf ns = fadd (f64 (of_int (ns div 10 ^ 9))) (fdiv (f64 (of_int (ns mod 10 ^ 9))) (10 ^ 9))"

record metrics_output =
  m_RequestsPerSecond :: rat
  m_TotalRequests :: int
  m_SuccessfulRequests :: int
  m_FailedRequests :: int
  m_TimeoutRequests :: int
  m_BytesSent :: int
  m_BytesReceived :: int
  m_ThroughputBytesPerSecond :: rat
  m_LatencyMinMs :: rat
  m_LatencyMeanMs :: rat
  m_LatencyP50Ms :: rat
  m_LatencyP75Ms :: rat
  m_LatencyP90Ms :: rat
  m_LatencyP95Ms :: rat
  m_LatencyP99Ms :: rat
  m_LatencyMaxMs :: rat
  m_ConnectTimeMeanMs :: rat
  m_TimeToFirstByteMeanMs :: rat
  m_ErrorRate :: rat

definition buildMetrics :: "run_stats \<Rightarrow> int \<Rightarrow> metrics_output" where
  "buildMetrics stats elapsed =
     (let elapsedSeconds = (if secondsOf elapsed \<le> 0 then 1 else secondsOf elapsed);
          errorRate = (if totalRequests stats > 0
            then fdiv (f64 (of_int (failedRequests stats))) (f64 (of_int (totalRequests stats))) else 0);
          sorted = sort (latencies stats);
          throughputBytes = (if bytesSent stats > bytesReceived stats then bytesSent stats
            else bytesReceived stats) in
      \<lparr>m_RequestsPerSecond = fdiv (f64 (of_int (successfulRequests stats))) elapsedSeconds,
       m_TotalRequests = totalRequests stats,
       m_SuccessfulRequests = successfulRequests stats,
       m_FailedRequests = failedRequests stats,
       m_TimeoutRequests = timeoutRequests stats,
       m_BytesSent = bytesSent stats,
       m_BytesReceived = bytesReceived stats,
       m_ThroughputBytesPerSecond = fdiv (f64 (of_int throughputBytes)) elapsedSeconds,
       m_LatencyMinMs = percentile sorted 0,
       m_LatencyMeanMs = mean sorted,
       m_LatencyP50Ms = percentile sorted 50,
       m_LatencyP75Ms = percentile sorted 75,
       m_LatencyP90Ms = percentile sorted 90,
       m_LatencyP95Ms = percentile sorted 95,
       m_LatencyP99Ms = percentile sorted 99,
       m_LatencyMaxMs = percentile sorted 100,
       m_ConnectTimeMeanMs = mean (connectLatencies stats),
       m_TimeToFirstByteMeanMs = 0,
       m_ErrorRate = errorRate\<rparr>)"

record identity_output =
  i_ID :: string
  i_Version :: string

record load_shape =
  ls_Connections :: int
  ls_Concurrency :: int
  ls_StreamsPerConnection :: int
  ls_DurationSeconds :: int
  ls_WarmupSeconds :: int
  ls_Repetitions :: int

record output_document =
  d_SchemaVersion :: string
  d_Executor :: identity_output
  d_LoadGenerator :: identity_output
  d_RequestedLoad :: load_shape
  d_EffectiveLoad :: load_shape
  d_Tool :: string
  d_Target :: string
  d_Behavior :: string
  d_Metrics :: metrics_output
  d_Warnings :: "string list"
  d_Errors :: "string list"

definition environmentOrDefault :: "env \<Rightarrow> string \<Rightarrow> string \<Rightarrow> string" where
  "environmentOrDefault env name fallback =
     (let value = trimSpace (env name) in if value \<noteq> '''' then value else fallback)"

definition executorIdentity :: "env \<Rightarrow> identity_output" where
  "executorIdentity env =
     \<lparr>i_ID = environmentOrDefault env ''PLAB_EXECUTOR_ID'' toolName,
      i_Version = environmentOrDefault env ''PLAB_EXECUTOR_VERSION'' ''development''\<rparr>"

definition loadGeneratorIdentity :: "env \<Rightarrow> identity_output" where
  "loadGeneratorIdentity env =
     \<lparr>i_ID = environmentOrDefault env ''PLAB_LOAD_GENERATOR_ID'' toolName,
      i_Version = environmentOrDefault env ''PLAB_LOAD_GENERATOR_VERSION'' (i_Version (executorIdentity env))\<rparr>"

definition requestedLoadShape :: "env \<Rightarrow> options \<Rightarrow> load_shape" where
  "requestedLoadShape env opts =
     \<lparr>ls_Connections = connections opts,
      ls_Concurrency = (case atoi (env ''PLAB_CONCURRENCY'') of
          (v, None) \<Rightarrow> if v > 0 then v else connections opts * max 1 (streamsPerConnection opts)
        | _ \<Rightarrow> connections opts * max 1 (streamsPerConnection opts)),
      ls_StreamsPerConnection = streamsPerConnection opts,
      ls_DurationSeconds = duration opts div 10 ^ 9,
      ls_WarmupSeconds = warmup opts div 10 ^ 9,
      ls_Repetitions = 1\<rparr>"

definition newOutputDocument :: "env \<Rightarrow> options \<Rightarrow> metrics_output \<Rightarrow> output_document" where
  "newOutputDocument env opts ms =
     \<lparr>d_SchemaVersion = outputSchemaVersion, d_Executor = executorIdentity env,
      d_LoadGenerator = loadGeneratorIdentity env, d_RequestedLoad = requestedLoadShape env opts,
      d_EffectiveLoad = requestedLoadShape env opts, d_Tool = toolName, d_Target = target opts,
      d_Behavior = behavior opts, d_Metrics = ms, d_Warnings = [], d_Errors = []\<rparr>"

text \<open>The command after its options were checked: the document it prints and its exit code.
  \<open>measured\<close> is the time the measured load took, in nanoseconds.\<close>

definition runMain :: "env \<Rightarrow> options \<Rightarrow> load_env \<Rightarrow> load_env \<Rightarrow> int \<Rightarrow> output_document \<times> nat" where
  "runMain env opts warm l measured =
     (case (if warmup opts > 0 then snd (runLoad warm opts (warmup opts) True) else None) of
        Some e \<Rightarrow>
          ((newOutputDocument env opts (buildMetrics noStats 1))
             \<lparr>d_Errors := [''warmup failed: '' @ errorText e]\<rparr>, 1)
      | None \<Rightarrow>
          (case runLoad l opts (duration opts) False of (stats, err) \<Rightarrow>
             let elapsed = (if measured \<le> 0 then 1 else measured);
                 document = newOutputDocument env opts (buildMetrics stats elapsed);
                 errors = errorTexts stats @ (case err of Some e \<Rightarrow> [errorText e] | None \<Rightarrow> []) in
             (document\<lparr>d_Errors := errors\<rparr>,
              if successfulRequests stats = 0 \<or>
                 failOnErrors opts \<and> (err \<noteq> None \<or> failedRequests stats > 0 \<or> timeoutRequests stats > 0)
              then 1 else 0)))"

end
