(* ===== verification/Quic_Stats.thy ===== *)
theory Quic_Stats
  imports Quic_Load
begin

text \<open>
  The accounting of the raw QUIC load executor: statistics as sums over outcomes, the
  independence of a concurrent batch from the interleaving of its goroutines, the invariant that
  every load keeps, the percentiles, and what the exit status of the command promises.
\<close>

section \<open>Every record is a merge\<close>

text \<open>The statistics form a monoid under \<^const>\<open>merge\<close>, and each way the code has to record an
  outcome, the sequential loop, an atomic update and a dial, merges a small statistic of its own.
  So every batch is a sum over its outcomes.\<close>

lemma merge_noStats [simp]: "merge s noStats = s" "merge noStats s = s"
  by (simp_all add: merge_def noStats_def)

lemma merge_assoc: "merge (merge a b) c = merge a (merge b c)"
  by (simp add: merge_def)

lemma merge_fields [simp]:
  "totalRequests (merge a b) = totalRequests a + totalRequests b"
  "successfulRequests (merge a b) = successfulRequests a + successfulRequests b"
  "failedRequests (merge a b) = failedRequests a + failedRequests b"
  "timeoutRequests (merge a b) = timeoutRequests a + timeoutRequests b"
  "bytesSent (merge a b) = bytesSent a + bytesSent b"
  "bytesReceived (merge a b) = bytesReceived a + bytesReceived b"
  "latencies (merge a b) = latencies a @ latencies b"
  "connectLatencies (merge a b) = connectLatencies a @ connectLatencies b"
  "errorTexts (merge a b) = errorTexts a @ errorTexts b"
  by (simp_all add: merge_def)

lemma noStats_fields [simp]:
  "totalRequests noStats = 0" "successfulRequests noStats = 0" "failedRequests noStats = 0"
  "timeoutRequests noStats = 0" "bytesSent noStats = 0" "bytesReceived noStats = 0"
  "latencies noStats = []" "connectLatencies noStats = []" "errorTexts noStats = []"
  by (simp_all add: noStats_def)

definition outcomeStats :: "stream_result \<Rightarrow> run_stats" where
  "outcomeStats res = recordStream res noStats"

definition contribution :: "update \<Rightarrow> run_stats" where
  "contribution u = perform u noStats"

lemma recordStream_merge: "recordStream res s = merge s (outcomeStats res)"
  by (cases res) (simp add: recordStream_def outcomeStats_def merge_def noStats_def Let_def split: option.split)

lemma perform_merge: "perform u s = merge s (contribution u)"
  by (cases u) (simp_all add: contribution_def merge_def noStats_def)

lemma recordDial_merge: "recordDial r s = merge s (recordDial r noStats)"
  by (simp add: recordDial_def merge_def noStats_def Let_def split: sum.split)

definition totalOf :: "('a \<Rightarrow> run_stats) \<Rightarrow> 'a list \<Rightarrow> run_stats" where
  "totalOf f xs = foldr (\<lambda>x. merge (f x)) xs noStats"

lemma total_simps [simp]: "totalOf f [] = noStats" "totalOf f (x # xs) = merge (f x) (totalOf f xs)"
  "totalOf f (xs @ ys) = merge (totalOf f xs) (totalOf f ys)"
  by (simp_all add: totalOf_def, induction xs) (simp_all add: merge_assoc)

lemma fold_merge:
  assumes "\<And>x s. g x s = merge s (f x)"
  shows "fold g xs s = merge s (totalOf f xs)"
  by (induction xs arbitrary: s) (simp_all add: assms merge_assoc)

lemma total_fields:
  "totalRequests (totalOf f xs) = (\<Sum>x\<leftarrow>xs. totalRequests (f x))"
  "successfulRequests (totalOf f xs) = (\<Sum>x\<leftarrow>xs. successfulRequests (f x))"
  "failedRequests (totalOf f xs) = (\<Sum>x\<leftarrow>xs. failedRequests (f x))"
  "timeoutRequests (totalOf f xs) = (\<Sum>x\<leftarrow>xs. timeoutRequests (f x))"
  "bytesSent (totalOf f xs) = (\<Sum>x\<leftarrow>xs. bytesSent (f x))"
  "bytesReceived (totalOf f xs) = (\<Sum>x\<leftarrow>xs. bytesReceived (f x))"
  "latencies (totalOf f xs) = concat (map (\<lambda>x. latencies (f x)) xs)"
  "connectLatencies (totalOf f xs) = concat (map (\<lambda>x. connectLatencies (f x)) xs)"
  "errorTexts (totalOf f xs) = concat (map (\<lambda>x. errorTexts (f x)) xs)"
  by (induction xs) simp_all

lemma total_concat: "totalOf f (concat xss) = totalOf (totalOf f) xss"
  by (induction xss) simp_all

lemma total_map: "totalOf f (map g xs) = totalOf (\<lambda>x. f (g x)) xs"
  by (induction xs) simp_all

lemma sequential_total:
  "runSequentialStreams streams payload opts =
     totalOf (\<lambda>i. outcomeStats (runStream (streams i) payload opts)) [0..<nat (streamsPerConnection opts)]"
  unfolding runSequentialStreams_def by (subst fold_merge [OF recordStream_merge]) simp

lemma batch_total:
  "runSequentialStreamBatch conns payload opts =
     totalOf (\<lambda>c. runSequentialStreams (conns c) payload opts) [0..<nat (connections opts)]"
  unfolding runSequentialStreamBatch_def by (subst fold_merge [OF refl]) simp

lemma cold_total:
  "runHandshakeColdBatch b opts =
     totalOf (\<lambda>i. recordDial (dialQUICConn (b_dials b i)) noStats) [0..<nat (connections opts)]"
  unfolding runHandshakeColdBatch_def by (subst fold_merge [OF recordDial_merge]) simp

lemma churn_total:
  "runConnectionChurnBatch b payload opts =
     totalOf (churnConnection b payload opts) [0..<nat (connections opts)]"
  unfolding runConnectionChurnBatch_def by (subst fold_merge [OF refl]) simp

section \<open>Interleavings of the concurrent batch\<close>

lemma concat_update: "i < length gs \<Longrightarrow> gs ! i = a # rest \<Longrightarrow>
    mset (concat gs) = add_mset a (mset (concat (gs[i := rest])))"
  using arg_cong [OF id_take_nth_drop [of i gs], of "\<lambda>xs. mset (concat xs)"]
  by (simp add: upd_conv_take_nth_drop)

lemma mset_interleave: "mset (interleave sched gs) = mset (concat gs)"
  by (induction sched gs rule: interleave.induct) (auto simp: concat_update split: list.split)

text \<open>Two statistics with the same counters and, up to order, the same samples.\<close>

definition sameTally :: "run_stats \<Rightarrow> run_stats \<Rightarrow> bool" where
  "sameTally a b \<longleftrightarrow>
     totalRequests a = totalRequests b \<and> successfulRequests a = successfulRequests b \<and>
     failedRequests a = failedRequests b \<and> timeoutRequests a = timeoutRequests b \<and>
     bytesSent a = bytesSent b \<and> bytesReceived a = bytesReceived b \<and>
     mset (latencies a) = mset (latencies b) \<and> mset (connectLatencies a) = mset (connectLatencies b) \<and>
     mset (errorTexts a) = mset (errorTexts b)"

lemma sum_list_mset: "mset xs = mset ys \<Longrightarrow> (\<Sum>x\<leftarrow>xs. f x :: int) = (\<Sum>x\<leftarrow>ys. f x)"
  by (metis mset_map sum_mset_sum_list)

lemma concat_mset: "mset xs = mset ys \<Longrightarrow> mset (concat (map f xs)) = mset (concat (map f ys))"
  by (metis mset_concat mset_map sum_mset_sum_list map_map comp_def)

lemma total_permuted: "mset xs = mset ys \<Longrightarrow> sameTally (totalOf f xs) (totalOf f ys)"
  by (simp add: sameTally_def total_fields sum_list_mset [of xs ys] concat_mset [of xs ys])

lemma streamUpdates_total: "totalOf contribution (streamUpdates res) = outcomeStats res"
  by (cases res) (simp add: streamUpdates_def contribution_def outcomeStats_def recordStream_def
      merge_def noStats_def boolToInt64_def Let_def split: option.split)

lemma concurrent_total:
  "sameTally (runConcurrentStreamBatch sched conns payload opts)
     (runSequentialStreamBatch conns payload opts)"
proof -
  let ?gs = "[streamUpdates (runStream (conns c i) payload opts).
      c \<leftarrow> [0..<nat (connections opts)], i \<leftarrow> [0..<nat (streamsPerConnection opts)]]"
  have "runConcurrentStreamBatch sched conns payload opts = totalOf contribution (interleave sched ?gs)"
    unfolding runConcurrentStreamBatch_def by (subst fold_merge [OF perform_merge]) simp
  moreover have "sameTally (totalOf contribution (interleave sched ?gs)) (totalOf contribution (concat ?gs))"
    by (rule total_permuted) (rule mset_interleave)
  moreover have "totalOf contribution (concat ?gs) = runSequentialStreamBatch conns payload opts"
    by (simp add: total_concat total_map streamUpdates_total batch_total sequential_total)
  ultimately show ?thesis by simp
qed

section \<open>Accounting\<close>

text \<open>What a property of statistics needs to hold for a whole load once it holds for single
  outcomes: it holds for no outcome, is kept by merging, and does not depend on the order of the
  samples.\<close>

locale stats_invariant =
  fixes P :: "run_stats \<Rightarrow> bool"
  assumes none: "P noStats"
    and merged: "P a \<Longrightarrow> P b \<Longrightarrow> P (merge a b)"
    and reordered: "sameTally a b \<Longrightarrow> P b \<Longrightarrow> P a"
begin

lemma totalOf_holds: "(\<And>x. P (f x)) \<Longrightarrow> P (totalOf f xs)"
  by (induction xs) (simp_all add: none merged)

lemma batchLoop_holds:
  assumes "\<And>b. P (run b)"
  shows "P s \<Longrightarrow> P (fst (batchLoop lenient discard period run s bs))"
  by (induction bs arbitrary: s) (auto simp: assms merged Let_def)

lemma stream_batches:
  assumes "\<And>res. P (outcomeStats res)"
  shows "P (runSequentialStreams streams payload opts)"
    and "P (runSequentialStreamBatch conns payload opts)"
    and "P (runConcurrentStreamBatch sched conns payload opts)"
proof -
  show seq: "P (runSequentialStreams streams payload opts)" for streams
    unfolding sequential_total by (rule totalOf_holds) (rule assms)
  show "P (runSequentialStreamBatch conns payload opts)"
    unfolding batch_total by (rule totalOf_holds) (rule seq)
  with concurrent_total show "P (runConcurrentStreamBatch sched conns payload opts)"
    by (rule reordered)
qed

lemma stream_load:
  assumes "\<And>res. P (outcomeStats res)"
    and "l_parse l = None" "dialAll (l_dial l) [0..<nat (connections opts)] = None"
  shows "P (fst (runStreamLoad l opts period discard mode))"
proof -
  have "P (runStreamBatch b payload opts mode)" for b payload
    by (cases mode) (simp_all add: runStreamBatch_def stream_batches [OF assms(1)])
  then have "P (fst (batchLoop False discard period (\<lambda>b. runStreamBatch b payload opts mode) noStats bs))"
    for payload bs by (intro batchLoop_holds none)
  then show ?thesis by (simp only: runStreamLoad_def assms option.case Let_def)
qed

end

definition accounted :: "run_stats \<Rightarrow> bool" where
  "accounted s \<longleftrightarrow>
     totalRequests s = successfulRequests s + failedRequests s \<and> 0 \<le> successfulRequests s \<and>
     0 \<le> timeoutRequests s \<and> timeoutRequests s \<le> failedRequests s \<and>
     (failedRequests s = 0 \<longleftrightarrow> errorTexts s = [])"

definition timed :: "run_stats \<Rightarrow> bool" where
  "timed s \<longleftrightarrow> successfulRequests s = int (length (latencies s))"

interpretation accounts: stats_invariant accounted
proof unfold_locales
  show "accounted b \<Longrightarrow> accounted a" if "sameTally a b" for a b
    using that by (auto simp: accounted_def sameTally_def)
qed (auto simp: accounted_def)

interpretation times: stats_invariant timed
proof unfold_locales
  show "timed b \<Longrightarrow> timed a" if "sameTally a b" for a b
    using that by (auto simp: timed_def sameTally_def dest: mset_eq_length)
qed (auto simp: timed_def)

lemma outcome_accounted [simp]: "accounted (outcomeStats res)" "timed (outcomeStats res)"
  by (auto simp: accounted_def timed_def outcomeStats_def recordStream_def boolToInt64_def Let_def
      split: prod.split option.split)

lemma cold_accounted: "accounted (runHandshakeColdBatch b opts)"
  unfolding cold_total
  by (rule accounts.totalOf_holds)
    (auto simp: accounted_def recordDial_def boolToInt64_def Let_def split: sum.split)

lemma connectLatencies_accounted [simp]: "accounted (s\<lparr>connectLatencies := v\<rparr>) = accounted s"
  by (simp add: accounted_def)

lemma churn_accounted: "accounted (runConnectionChurnBatch b payload opts)"
proof -
  have "accounted (churnConnection b payload opts i)" for i
  proof (cases "dialQUICConn (b_dials b i)")
    case (Inl e)
    then show ?thesis
      by (simp add: churnConnection_def accounted_def boolToInt64_def Let_def)
  next
    case (Inr ms)
    then show ?thesis
      by (simp add: churnConnection_def Let_def accounts.stream_batches)
  qed
  then show ?thesis unfolding churn_total by (rule accounts.totalOf_holds)
qed

text \<open>The error of a stream load whose connections cannot all be dialled.\<close>

definition streamBehavior :: "options \<Rightarrow> bool" where
  "streamBehavior opts \<longleftrightarrow>
     toLower (behavior opts) \<in> set sequentialBehaviors \<union> set concurrentBehaviors \<union> {''stream-churn''}"

definition undialled :: "load_env \<Rightarrow> options \<Rightarrow> go_error option" where
  "undialled l opts =
     (if streamBehavior opts \<and> l_parse l = None then dialAll (l_dial l) [0..<nat (connections opts)] else None)"

lemma runLoad_outcome:
  "case undialled l opts of
     None \<Rightarrow> accounted (fst (runLoad l opts period discard))
   | Some e \<Rightarrow> runLoad l opts period discard =
       (noStats\<lparr>failedRequests := wrap64 (connections opts * streamsPerConnection opts),
          errorTexts := [errorText e]\<rparr>, Some e)"
proof -
  have stream: "case (if l_parse l = None then dialAll (l_dial l) [0..<nat (connections opts)] else None) of
      None \<Rightarrow> accounted (fst (runStreamLoad l opts period discard mode))
    | Some e \<Rightarrow> runStreamLoad l opts period discard mode =
        (noStats\<lparr>failedRequests := wrap64 (connections opts * streamsPerConnection opts),
           errorTexts := [errorText e]\<rparr>, Some e)" for mode
  proof (cases "l_parse l")
    case None
    then show ?thesis
      using accounts.stream_load [OF outcome_accounted(1) None, of opts period discard mode]
      by (cases "dialAll (l_dial l) [0..<nat (connections opts)]") (simp_all add: runStreamLoad_def)
  qed (simp add: runStreamLoad_def accounts.none)
  have other: "accounted (fst (runHandshakeColdLoad l opts period discard))"
    "accounted (fst (runConnectionChurnLoad l opts period discard))"
    by (auto simp: runHandshakeColdLoad_def runConnectionChurnLoad_def accounts.none Let_def
        simp del: batchLoop.simps split: option.split
        intro!: accounts.batchLoop_holds cold_accounted churn_accounted)
  show ?thesis
  proof (cases "streamBehavior opts")
    case True
    then have "\<exists>mode. runLoad l opts period discard = runStreamLoad l opts period discard mode"
      by (auto simp: streamBehavior_def runLoad_def Let_def)
    then obtain mode where "runLoad l opts period discard = runStreamLoad l opts period discard mode" by blast
    moreover have "undialled l opts =
        (if l_parse l = None then dialAll (l_dial l) [0..<nat (connections opts)] else None)"
      using True by (simp add: undialled_def)
    ultimately show ?thesis using stream [of mode] by (simp only:)
  next
    case False
    with other accounts.none show ?thesis
      by (simp add: undialled_def runLoad_def streamBehavior_def Let_def)
  qed
qed

lemma runLoad_accounted:
  "accounted (fst (runLoad l opts period discard)) \<or>
   (\<exists>e. dialAll (l_dial l) [0..<nat (connections opts)] = Some e \<and>
      runLoad l opts period discard =
        (noStats\<lparr>failedRequests := wrap64 (connections opts * streamsPerConnection opts),
           errorTexts := [errorText e]\<rparr>, Some e))"
  using runLoad_outcome [of l opts period discard]
  by (cases "undialled l opts") (auto simp: undialled_def split: if_splits)

section \<open>The load command\<close>

text \<open>C9: Accounting of a load. Whatever the streams, the dials and the interleaving of the
  goroutines do, the counters of a load of any behaviour balance: attempts are successes plus
  failures, timeouts are failures, and errors are reported exactly when something failed. The one
  exception is a stream load whose connections cannot all be dialled, which reports every stream
  as failed and none as attempted.\<close>

theorem load_accounting:
  "accounted (fst (runLoad l opts period discard)) \<or>
   (\<exists>e. dialAll (l_dial l) [0..<nat (connections opts)] = Some e \<and>
      runLoad l opts period discard =
        (noStats\<lparr>failedRequests := wrap64 (connections opts * streamsPerConnection opts),
           errorTexts := [errorText e]\<rparr>, Some e))"
  by (rule runLoad_accounted)

text \<open>C8: The concurrent batch does not depend on how its goroutines interleave: under every
  schedule of their atomic updates, its counters are those of the sequential batch over the same
  streams, and its latencies and errors are the same up to order.\<close>

theorem concurrent_batch_schedule:
  "sameTally (runConcurrentStreamBatch sched conns payload opts)
     (runSequentialStreamBatch conns payload opts)"
  by (rule concurrent_total)

lemma f64_pos: "0 < x \<Longrightarrow> 0 < f64 x"
  by (simp add: f64_def roundPos_pos)

lemma fdiv_ratio:
  assumes "0 \<le> a" "a \<le> b" "0 < b"
  shows "0 \<le> fdiv (f64 a) (f64 b)" "fdiv (f64 a) (f64 b) \<le> 1" "0 < fdiv (f64 a) (f64 b) \<longleftrightarrow> 0 < a"
proof -
  have b: "0 < f64 b" by (rule f64_pos [OF assms(3)])
  have le: "f64 a / f64 b \<le> 1" using f64_mono [OF assms(2)] b by (simp add: divide_le_eq)
  show "0 \<le> fdiv (f64 a) (f64 b)"
    using f64_nonneg [OF assms(1)] b by (simp add: fdiv_def f64_nonneg)
  show "fdiv (f64 a) (f64 b) \<le> 1"
    using f64_mono [OF le] f64_of_nat [of 1] by (simp add: fdiv_def)
  show "0 < fdiv (f64 a) (f64 b) \<longleftrightarrow> 0 < a"
  proof (cases "a = 0")
    case False
    then have "0 < f64 a / f64 b" using f64_pos [of a] assms(1) b by simp
    from f64_pos [OF this] False assms(1) show ?thesis by (simp add: fdiv_def)
  qed (simp add: fdiv_def f64_def)
qed

lemma accounted_rate:
  assumes "accounted s"
  shows "0 \<le> m_ErrorRate (buildMetrics s elapsed) \<and> m_ErrorRate (buildMetrics s elapsed) \<le> 1 \<and>
    (0 < m_ErrorRate (buildMetrics s elapsed) \<longleftrightarrow> 0 < failedRequests s)"
proof (cases "0 < totalRequests s")
  case True
  have "0 \<le> failedRequests s" "failedRequests s \<le> totalRequests s" using assms by (auto simp: accounted_def)
  then have "0 \<le> (of_int (failedRequests s) :: rat)"
    "(of_int (failedRequests s) :: rat) \<le> of_int (totalRequests s)" "0 < (of_int (totalRequests s) :: rat)"
    using True by simp_all
  note r = fdiv_ratio [OF this]
  from True r show ?thesis by (simp add: buildMetrics_def Let_def)
qed (use assms in \<open>auto simp: buildMetrics_def Let_def accounted_def\<close>)

text \<open>C10: The error rate a load reports, for every behaviour and whatever the network does, is
  between 0 and 1 and is positive exactly when a request failed, with one exception: a stream load
  that cannot dial its connections reports an error rate of zero and no request at all, beside the
  number of streams it counts as failed, the product of connections and streams modulo the width of
  the integer.\<close>

theorem error_rate:
  "case runLoad l opts period discard of (s, err) \<Rightarrow>
     (let ms = buildMetrics s elapsed in
      0 \<le> m_ErrorRate ms \<and> m_ErrorRate ms \<le> 1 \<and>
      (if undialled l opts = None
       then (0 < m_ErrorRate ms \<longleftrightarrow> 0 < m_FailedRequests ms) \<and>
         m_TotalRequests ms = m_SuccessfulRequests ms + m_FailedRequests ms
       else m_ErrorRate ms = 0 \<and> m_TotalRequests ms = 0 \<and>
         m_FailedRequests ms = wrap64 (connections opts * streamsPerConnection opts)))"
proof (cases "undialled l opts")
  case None
  then have "accounted (fst (runLoad l opts period discard))"
    using runLoad_outcome [of l opts period discard] by simp
  with accounted_rate [OF this, of elapsed] None show ?thesis
    by (auto simp: Let_def case_prod_beta) (simp_all add: buildMetrics_def Let_def accounted_def)
next
  case (Some e)
  then have "runLoad l opts period discard =
      (noStats\<lparr>failedRequests := wrap64 (connections opts * streamsPerConnection opts),
         errorTexts := [errorText e]\<rparr>, Some e)"
    using runLoad_outcome [of l opts period discard] by simp
  with Some show ?thesis by (simp add: buildMetrics_def Let_def)
qed

text \<open>The exit status. When the command ends with status zero and errors are to be fatal, the
  warm-up, if any, and the measured load ended without an error, at least one request succeeded,
  every request did, and the document lists no error.\<close>

theorem exit_gate:
  assumes "snd (runMain env opts warm l measured) = 0" and "failOnErrors opts"
  shows "let doc = fst (runMain env opts warm l measured); ms = d_Metrics doc in
    0 < m_SuccessfulRequests ms \<and> m_FailedRequests ms = 0 \<and>
    m_TotalRequests ms = m_SuccessfulRequests ms \<and> d_Errors doc = []"
proof -
  obtain stats err where r: "runLoad l opts (duration opts) False = (stats, err)" by force
  let ?warm = "if warmup opts > 0 then snd (runLoad warm opts (warmup opts) True) else None"
  have w: "?warm = None" using assms(1) by (cases ?warm) (simp_all add: runMain_def)
  have s: "successfulRequests stats \<noteq> 0" "err = None" "failedRequests stats \<le> 0"
    using assms(1,2) by (auto simp: runMain_def w r Let_def split: if_splits)
  have "accounted stats" using runLoad_accounted [of l opts "duration opts" False] r s(2) by auto
  then have "0 < successfulRequests stats" "failedRequests stats = 0" "errorTexts stats = []"
      "totalRequests stats = successfulRequests stats"
    using s by (auto simp: accounted_def)
  with s(2) show ?thesis
    by (simp add: runMain_def w r Let_def newOutputDocument_def buildMetrics_def)
qed

section \<open>Percentiles\<close>

lemma percentile_position:
  assumes "values \<noteq> []" "length values \<le> 2 ^ 53" "0 < p" "p < 100"
  defines "position \<equiv> fmul (fdiv p 100) (f64 (of_nat (length values - 1)))"
  shows "0 \<le> position" "position \<le> of_nat (length values - 1)"
proof -
  let ?m = "of_nat (length values - 1) :: rat"
  have m: "f64 ?m = ?m" using assms(2) by (intro f64_of_nat) simp
  have "fdiv p 100 \<le> f64 (of_nat 1)" unfolding fdiv_def using assms(4) by (intro f64_mono) simp
  then have q: "fdiv p 100 \<le> 1" using f64_of_nat [of 1] by simp
  have q0: "0 \<le> fdiv p 100" unfolding fdiv_def using assms(3) by (intro f64_nonneg) simp
  show "0 \<le> position" unfolding position_def fmul_def m using q0 by (intro f64_nonneg) simp
  have "fdiv p 100 * ?m \<le> ?m" using q q0 by (intro mult_left_le_one_le) simp_all
  then have "f64 (fdiv p 100 * ?m) \<le> f64 ?m" by (rule f64_mono)
  then show "position \<le> ?m" by (simp only: m position_def fmul_def)
qed

text \<open>The interpolating percentile never indexes outside its samples, for up to
  \<^term>\<open>2 ^ 53\<close> of them, and is exact at both ends: 0 gives the least and 100 the greatest
  latency of the sorted samples.\<close>

theorem percentile_indices:
  assumes "values \<noteq> []" and "length values \<le> 2 ^ 53"
  shows "percentile (sort values) 0 \<in> set values \<and> percentile (sort values) 100 \<in> set values \<and>
    list_all (\<lambda>v. percentile (sort values) 0 \<le> v \<and> v \<le> percentile (sort values) 100) values \<and>
    (\<forall>p. 0 < p \<and> p < 100 \<longrightarrow>
      (let position = fmul (fdiv p 100) (f64 (of_nat (length values - 1))) in
       0 \<le> \<lfloor>position\<rfloor> \<and> \<lfloor>position\<rfloor> \<le> \<lceil>position\<rceil> \<and> \<lceil>position\<rceil> < int (length values)))"
proof (intro conjI allI impI)
  have ne: "sort values \<noteq> []" using assms(1) by (metis length_0_conv length_sort)
  have ends: "percentile (sort values) 0 = sort values ! 0"
    "percentile (sort values) 100 = sort values ! (length values - 1)"
    using ne by (simp_all add: percentile_def)
  show "percentile (sort values) 0 \<in> set values" "percentile (sort values) 100 \<in> set values"
    using nth_mem [of 0 "sort values"] nth_mem [of "length values - 1" "sort values"] assms(1)
    by (simp_all add: ends)
  have "sort values ! 0 \<le> v \<and> v \<le> sort values ! (length values - 1)" if v: "v \<in> set (sort values)" for v
    using v by (auto simp: in_set_conv_nth simp del: set_sort intro: sorted_nth_mono)
  then show "list_all (\<lambda>v. percentile (sort values) 0 \<le> v \<and> v \<le> percentile (sort values) 100) values"
    by (simp add: ends list_all_iff)
  fix p :: rat assume p: "0 < p \<and> p < 100"
  let ?pos = "fmul (fdiv p 100) (f64 (of_nat (length values - 1)))"
  have "0 \<le> ?pos" "?pos \<le> of_nat (length values - 1)"
    using percentile_position [OF assms, of p] p by simp_all
  then have "0 \<le> \<lfloor>?pos\<rfloor>" "\<lceil>?pos\<rceil> \<le> int (length values - 1)"
    by (simp_all add: ceiling_le_iff)
  moreover have "\<lfloor>?pos\<rfloor> \<le> \<lceil>?pos\<rceil>" by (rule floor_le_ceiling)
  moreover have "int (length values - 1) < int (length values)" using assms(1) by simp
  ultimately show "let position = ?pos in 0 \<le> \<lfloor>position\<rfloor> \<and> \<lfloor>position\<rfloor> \<le> \<lceil>position\<rceil> \<and> \<lceil>position\<rceil> < int (length values)"
    by (simp add: Let_def)
qed

section \<open>Witnesses\<close>

text \<open>A stream that cannot be opened, a batch of such streams, and loads that end at once.\<close>

definition deadStream :: stream_env where
  "deadStream =
     \<lparr>s_open = (\<lambda>_. Some TimeoutError), s_deadline = (\<lambda>_. None), s_write = (\<lambda>bs c. (length bs, None, c)),
      s_conn = \<lparr>conn_in = [], conn_end = EOF, conn_out = [], conn_cap = None\<rparr>, s_close = None,
      s_wait = None, s_reads = (\<lambda>_. []), s_micros = 0\<rparr>"

definition deadBatch :: batch_env where
  "deadBatch = \<lparr>b_conns = (\<lambda>_ _. deadStream), b_sched = [], b_dials = (\<lambda>_. (None, 0))\<rparr>"

definition coldOptions :: options where
  "coldOptions =
     \<lparr>sni = [], alpn = [], behavior = ''handshake-cold'', streamType = [], payloadSizeBytes = 0,
      payloadDirection = [], openPattern = ''sequential'', connections = 2, streamsPerConnection = 0,
      duration = 1, warmup = 0, target = [], failOnErrors = True\<rparr>"

definition readyLoad :: load_env where
  "readyLoad = \<lparr>l_parse = None, l_dial = (\<lambda>_. None), l_first = deadBatch, l_rest = []\<rparr>"

theorem exit_gate_witness:
  "m_TotalRequests (d_Metrics (fst (runMain (\<lambda>_. []) coldOptions readyLoad readyLoad 5))) =
   m_SuccessfulRequests (d_Metrics (fst (runMain (\<lambda>_. []) coldOptions readyLoad readyLoad 5)))"
proof -
  have "runLoad readyLoad coldOptions 1 False =
      (noStats\<lparr>totalRequests := 2, successfulRequests := 2, connectLatencies := [millis 0, millis 0]\<rparr>, None)"
    by (simp add: runLoad_def coldOptions_def toLower_def lowerChar_def sequentialBehaviors_def
        concurrentBehaviors_def runHandshakeColdLoad_def readyLoad_def runHandshakeColdBatch_def
        deadBatch_def upt_rec dialQUICConn_def recordDial_def Let_def noStats_def merge_def)
  then have "snd (runMain (\<lambda>_. []) coldOptions readyLoad readyLoad 5) = 0"
    by (simp add: runMain_def coldOptions_def Let_def)
  moreover have "failOnErrors coldOptions" by (simp add: coldOptions_def)
  ultimately show ?thesis
    using exit_gate [of "\<lambda>_. []" coldOptions readyLoad readyLoad 5] by (simp add: Let_def)
qed

theorem percentile_indices_witness:
  "percentile (sort [3, 1 :: rat]) 0 \<in> {1, 3} \<and>
   \<lceil>fmul (fdiv 50 100) (f64 (of_nat (length [3, 1 :: rat] - 1)))\<rceil> < 2"
  using percentile_indices [of "[3, 1]"] by (auto simp: Let_def dest!: spec [of _ 50])

end
