(* ===== verification/Quic_Interop.thy ===== *)
theory Quic_Interop
  imports Quic_Target Quic_Stats
begin

text \<open>
  The raw QUIC load executor against the raw QUIC target: every stream of the executor is served
  by the target's handler, run on the bytes the executor wrote, and the answer arrives cut into
  reads at arbitrary places. The QUIC stack between them is assumed to deliver streams reliably
  and in order, as the transport promises.
\<close>

section \<open>The target as the peer of a stream\<close>

fun deliver :: "nat list \<Rightarrow> bytes \<Rightarrow> read_result list" where
  "deliver [] bs = [(bs, Some EOF)]"
| "deliver (k # ks) bs = (take k bs, None) # deliver ks (drop k bs)"

definition freshConn :: "bytes \<Rightarrow> conn" where
  "freshConn bs = \<lparr>conn_in = bs, conn_end = EOF, conn_out = [], conn_cap = None\<rparr>"

definition targetStream :: "Quic_Target.options \<Rightarrow> nat list \<Rightarrow> int \<Rightarrow> stream_env" where
  "targetStream topts cuts us =
     \<lparr>s_open = (\<lambda>_. None), s_deadline = (\<lambda>_. None), s_write = acceptAll, s_conn = freshConn [],
      s_close = None, s_wait = None,
      s_reads = (\<lambda>req. deliver cuts (concat (conn_out (snd (handleStream acceptAll topts (freshConn req)))))),
      s_micros = us\<rparr>"

lemma target_reads:
  assumes "length req \<le> maxReadBytes"
  shows "s_reads (targetStream topts cuts us) req = deliver cuts (answerOf topts req)"
  using handleStream_ok [of "freshConn req" topts] assms
  by (auto simp: targetStream_def freshConn_def)

lemma target_fields [simp]:
  "s_open (targetStream topts cuts us) = (\<lambda>_. None)"
  "s_deadline (targetStream topts cuts us) = (\<lambda>_. None)"
  "s_write (targetStream topts cuts us) = acceptAll" "s_conn (targetStream topts cuts us) = freshConn []"
  "s_close (targetStream topts cuts us) = None" "s_wait (targetStream topts cuts us) = None"
  "s_micros (targetStream topts cuts us) = us"
  by (simp_all add: targetStream_def)

section \<open>Reading and writing\<close>

lemma firstDifference_take: "firstDifference (take k ys) ys i = None"
  by (induction ys arbitrary: k i) (simp_all add: take_Cons split: nat.split)

lemma validate_prefix:
  assumes "r + k \<le> length p"
  shows "validateDeterministicPayloadChunk p r (take k (drop r p)) = None"
  using assms by (simp add: validateDeterministicPayloadChunk_def firstDifference_take)

lemma validate_take:
  assumes "r \<le> length p"
  shows "validateDeterministicPayloadChunk p r (take k (drop r p)) = None"
proof (cases "r + k \<le> length p")
  case True
  then show ?thesis by (rule validate_prefix)
next
  case False
  then have "take k (drop r p) = take (length p - r) (drop r p)" by simp
  with assms show ?thesis by (metis validate_prefix le_add_diff_inverse order_refl)
qed

lemma readLoop_deliver:
  "r \<le> length p \<Longrightarrow> readLoop True p r (deliver cuts (drop r p)) = Inr (length p)"
proof (induction cuts arbitrary: r)
  case Nil
  then show ?case using validate_take [of r p "length p"] by simp
next
  case (Cons k ks)
  have "readLoop True p r (deliver (k # ks) (drop r p)) =
      readLoop True p (r + length (take k (drop r p))) (deliver ks (drop (r + k) p))"
    using validate_take [OF Cons.prems, of k] by (simp add: add.commute del: length_take)
  also have "drop (r + k) p = drop (r + length (take k (drop r p))) p" by (simp add: min_def)
  also have "readLoop True p (r + length (take k (drop r p)))
      (deliver ks (drop (r + length (take k (drop r p))) p)) = Inr (length p)"
    using Cons.prems by (intro Cons.IH) simp
  finally show ?case .
qed

lemma readLoop_nothing: "readLoop check p r (deliver cuts []) = Inr r"
  by (induction cuts) simp_all

lemma duplexReader_deliver: "duplexReader r (deliver cuts bs) = (r + length bs, None)"
  by (induction cuts arbitrary: r bs) simp_all

lemma chunkLoop_acceptAll:
  assumes "0 < n" "t \<le> length p"
  shows "\<exists>c'. chunkLoop acceptAll p n t c = (length p, None, c') \<and>
    concat (conn_out c') = concat (conn_out c) @ drop t p"
  using assms(2)
proof (induction "length p - t" arbitrary: t c rule: less_induct)
  case (less t c)
  show ?case
  proof (cases "t < length p")
    case False
    then have "chunkLoop acceptAll p n t c = (t, None, c)" by (subst chunkLoop.simps) simp
    with False less.prems show ?thesis by simp
  next
    case True
    let ?e = "min (t + n) (length p)"
    let ?ch = "drop t (take ?e p)"
    let ?c = "c\<lparr>conn_out := conn_out c @ [?ch]\<rparr>"
    have l: "t + length ?ch = ?e" using True by simp
    have "\<exists>c'. chunkLoop acceptAll p n (t + length ?ch) ?c = (length p, None, c') \<and>
        concat (conn_out c') = concat (conn_out ?c) @ drop (t + length ?ch) p"
      using True assms(1) by (intro less.hyps) (unfold l, linarith+)
    then obtain c' where c': "chunkLoop acceptAll p n (t + length ?ch) ?c = (length p, None, c')"
        "concat (conn_out c') = concat (conn_out ?c) @ drop (t + length ?ch) p" by blast
    have "drop t (take ?e p @ drop ?e p) = ?ch @ drop ?e p"
      using True by (simp del: append_take_drop_id)
    then have "?ch @ drop ?e p = drop t p" by simp
    with c' l show ?thesis
      using True assms(1)
      by (simp add: chunkLoop.simps [of acceptAll p n t c] acceptAll_def Let_def)
  qed
qed

section \<open>One stream\<close>

definition isUpload :: "Quic_Load.options \<Rightarrow> bool" where
  "isUpload opts = equalFold (payloadDirection opts) ''client-to-server''"

definition isDownload :: "Quic_Load.options \<Rightarrow> bool" where
  "isDownload opts \<longleftrightarrow> equalFold (payloadDirection opts) ''server-to-client'' \<and>
     \<not> equalFold (behavior opts) ''duplex-streams''"

text \<open>The TLS handshake selects an application protocol that both sides name: the executor offers its
  \<^verbatim>\<open>-alpn\<close> value and the target accepts its own. TLS has no protocol name that is empty or
  longer than 255 bytes.\<close>

definition negotiates :: "Quic_Load.options \<Rightarrow> Quic_Target.options \<Rightarrow> bool" where
  "negotiates opts topts \<longleftrightarrow>
     alpn opts = t_alpn topts \<and> alpn opts \<noteq> [] \<and> length (alpn opts) \<le> 255"

definition dialTarget :: "Quic_Load.options \<Rightarrow> Quic_Target.options \<Rightarrow> go_error option" where
  "dialTarget opts topts =
     (if negotiates opts topts then None else Some (Errorf ''tls: no application protocol''))"

text \<open>The two sides agree on the protocol, and the echo limit of the target fits the direction of the
  payload: an upload is above it, an echo within it.\<close>

definition compatible :: "Quic_Load.options \<Rightarrow> Quic_Target.options \<Rightarrow> bool" where
  "compatible opts topts \<longleftrightarrow> negotiates opts topts \<and>
     0 \<le> payloadSizeBytes opts \<and> payloadSizeBytes opts \<le> maximumDownloadPayloadLength \<and>
     (if isUpload opts then payloadSizeBytes opts > t_echoMaxBytes topts \<or> payloadSizeBytes opts = 0
      else if isDownload opts then 0 < payloadSizeBytes opts
      else payloadSizeBytes opts \<le> t_echoMaxBytes topts)"

lemma dial_ok: "compatible opts topts \<Longrightarrow> dialTarget opts topts = None"
  by (simp add: compatible_def dialTarget_def)

definition sentBytes :: "Quic_Load.options \<Rightarrow> int" where
  "sentBytes opts = (if isDownload opts then 0 else payloadSizeBytes opts)"

definition receivedBytes :: "Quic_Load.options \<Rightarrow> int" where
  "receivedBytes opts = (if isUpload opts then 0 else payloadSizeBytes opts)"

lemma upload_not_download: "isUpload opts \<Longrightarrow> \<not> isDownload opts"
  by (auto simp: isUpload_def isDownload_def equalFold_def toLower_def lowerChar_def)

lemma payload_det: "deterministicPayload n = detPayload (nat n)"
  by (simp add: deterministicPayload_def detPayload_def detChunk_def)

lemma det_empty [simp]: "detPayload 0 = []"
  by (simp add: detPayload_def detChunk_def)

lemma det_not_request: "parseDownloadRequest (detPayload n) k = None"
proof (rule ccontr)
  assume "parseDownloadRequest (detPayload n) k \<noteq> None"
  then obtain m where "detPayload n = downloadRequest m" by (auto dest: parseDownloadRequest_Some)
  moreover from this have "length (detPayload n) = 16" by simp
  then have "detPayload n ! 0 = 0" by (simp add: detPayload_def detChunk_def)
  moreover have "downloadRequest m ! 0 = 80"
    by (simp add: downloadRequest_def Quic_Target.downloadRequestMagic_def of_string_def nth_append)
  ultimately show False by simp
qed

lemma request_is_download: "buildDownloadRequest n = downloadRequest n"
  by (simp add: buildDownloadRequest_def downloadRequest_def
      Quic_Target.downloadRequestMagic_def Quic_Load.downloadRequestMagic_def)

text \<open>The request reaches the target whole, written at once or in chunks.\<close>

lemma request_written:
  "\<exists>c. (if equalFold (behavior opts) ''sustained-stream-256x64kb''
        then writePayloadInChunks acceptAll request sustainedStreamChunkSize (freshConn [])
        else acceptAll request (freshConn [])) = (length request, None, c) \<and> concat (conn_out c) = request"
proof -
  have "\<exists>c. writePayloadInChunks acceptAll request sustainedStreamChunkSize (freshConn []) =
      (length request, None, c) \<and> concat (conn_out c) = request"
    using chunkLoop_acceptAll [of sustainedStreamChunkSize 0 request "freshConn []"]
    by (simp add: writePayloadInChunks_def sustainedStreamChunkSize_def freshConn_def)
  moreover have "\<exists>c. acceptAll request (freshConn []) = (length request, None, c) \<and>
      concat (conn_out c) = request"
    by (simp add: acceptAll_def freshConn_def)
  ultimately show ?thesis by simp
qed

definition requestOf :: "Quic_Load.options \<Rightarrow> bytes" where
  "requestOf opts =
     (if isDownload opts then downloadRequest (nat (payloadSizeBytes opts))
      else detPayload (nat (payloadSizeBytes opts)))"

lemma answers:
  assumes "compatible opts topts"
  shows "s_reads (targetStream topts cuts us) (requestOf opts) =
    deliver cuts (if isUpload opts then [] else detPayload (nat (payloadSizeBytes opts)))"
proof -
  let ?n = "nat (payloadSizeBytes opts)"
  have n: "?n \<le> maxReadBytes"
    using assms by (auto simp: compatible_def maxReadBytes_def maximumDownloadPayloadLength_def)
  then have "length (requestOf opts) \<le> maxReadBytes" by (simp add: requestOf_def maxReadBytes_def)
  moreover have "answerOf topts (requestOf opts) = (if isUpload opts then [] else detPayload ?n)"
  proof (cases "isDownload opts")
    case True
    with assms upload_not_download [of opts] n show ?thesis
      by (auto simp: requestOf_def compatible_def answer_download)
  next
    case False
    then have "requestOf opts = detPayload ?n" by (simp add: requestOf_def)
    with False assms show ?thesis
      by (auto simp: compatible_def answerOf_def det_not_request)
  qed
  ultimately show ?thesis by (simp add: target_reads)
qed

lemma runRequestResponse_target:
  assumes "compatible opts topts" "\<not> equalFold (behavior opts) ''duplex-streams''"
  shows "runRequestResponseStream (targetStream topts cuts us) (deterministicPayload (payloadSizeBytes opts)) opts =
    (millis us, sentBytes opts, receivedBytes opts, None)"
proof -
  define p where "p = detPayload (nat (payloadSizeBytes opts))"
  define req where "req = (if isDownload opts then buildDownloadRequest (length p) else p)"
  have req: "req = requestOf opts" by (simp add: req_def requestOf_def request_is_download p_def)
  have n: "int (length p) = payloadSizeBytes opts" using assms(1) by (simp add: p_def compatible_def)
  have d: "equalFold (payloadDirection opts) ''server-to-client'' = isDownload opts"
    using assms(2) by (simp add: isDownload_def)
  have u: "equalFold (payloadDirection opts) ''client-to-server'' = isUpload opts"
    by (simp add: isUpload_def)
  obtain c where w: "(if equalFold (behavior opts) ''sustained-stream-256x64kb''
        then writePayloadInChunks acceptAll req sustainedStreamChunkSize (freshConn [])
        else acceptAll req (freshConn [])) = (length req, None, c)" "concat (conn_out c) = req"
    using request_written by blast
  have "s_reads (targetStream topts cuts us) req = deliver cuts (if isUpload opts then [] else p)"
    using answers [OF assms(1)] by (simp add: req p_def)
  then have "readLoop (\<not> isUpload opts) p 0 (s_reads (targetStream topts cuts us) req) =
      Inr (if isUpload opts then 0 else length p)"
    using readLoop_deliver [of 0 p cuts] by (simp add: readLoop_nothing)
  then show ?thesis
    unfolding runRequestResponseStream_def payload_det p_def [symmetric] d u Let_def
      target_fields option.case req_def [symmetric] w(1) prod.case w(2)
    using n by (auto simp: sentBytes_def receivedBytes_def)
qed

lemma runDuplex_target:
  assumes "compatible opts topts" "equalFold (behavior opts) ''duplex-streams''"
  shows "runDuplexStream (targetStream topts cuts us) (deterministicPayload (payloadSizeBytes opts)) opts =
    (millis us, sentBytes opts, receivedBytes opts, None)"
proof -
  define p where "p = detPayload (nat (payloadSizeBytes opts))"
  have n: "int (length p) = payloadSizeBytes opts" using assms(1) by (simp add: p_def compatible_def)
  have d: "\<not> isDownload opts" using assms(2) by (simp add: isDownload_def)
  have "s_reads (targetStream topts cuts us) p = deliver cuts (if isUpload opts then [] else p)"
    using answers [OF assms(1)] d by (simp add: requestOf_def p_def)
  then show ?thesis using d
    by (simp add: runDuplexStream_def payload_det p_def [symmetric] acceptAll_def freshConn_def
        duplexReader_deliver validateDuplexResponse_def isUpload_def [symmetric] Let_def
        sentBytes_def receivedBytes_def n)
qed

lemma stream_served:
  assumes "compatible opts topts"
  shows "runStream (targetStream topts cuts us) (deterministicPayload (payloadSizeBytes opts)) opts =
    (millis us, sentBytes opts, receivedBytes opts, None)"
  using runRequestResponse_target [OF assms] runDuplex_target [OF assms] by (simp add: runStream_def)

section \<open>A whole load\<close>

text \<open>A batch whose streams the target serves: how the answers are cut, the latencies, the
  interleaving of the goroutines and the connect times are free. A dial succeeds when the handshake
  agrees on the protocol.\<close>

record batch_plan =
  p_cuts :: "nat \<Rightarrow> nat \<Rightarrow> nat list"
  p_micros :: "nat \<Rightarrow> nat \<Rightarrow> int"
  p_sched :: "nat list"
  p_connect :: "nat \<Rightarrow> int"

definition targetBatch :: "Quic_Load.options \<Rightarrow> Quic_Target.options \<Rightarrow> batch_plan \<Rightarrow> batch_env" where
  "targetBatch opts topts p =
     \<lparr>b_conns = (\<lambda>c i. targetStream topts (p_cuts p c i) (p_micros p c i)),
      b_sched = p_sched p, b_dials = (\<lambda>i. (dialTarget opts topts, p_connect p i))\<rparr>"

definition targetLoad :: "Quic_Load.options \<Rightarrow> Quic_Target.options \<Rightarrow> batch_plan \<Rightarrow> batch_plan list \<Rightarrow> load_env" where
  "targetLoad opts topts p ps =
     \<lparr>l_parse = None, l_dial = (\<lambda>_. dialTarget opts topts), l_first = targetBatch opts topts p,
      l_rest = map (targetBatch opts topts) ps\<rparr>"

text \<open>Statistics of \<open>n\<close> requests that all succeeded.\<close>

definition flawless :: "int \<Rightarrow> int \<Rightarrow> int \<Rightarrow> run_stats \<Rightarrow> bool" where
  "flawless n sent received s \<longleftrightarrow>
     totalRequests s = n \<and> successfulRequests s = n \<and> failedRequests s = 0 \<and> timeoutRequests s = 0 \<and>
     bytesSent s = n * sent \<and> bytesReceived s = n * received \<and> errorTexts s = []"

lemma flawless_none: "flawless 0 sent received noStats"
  by (simp add: flawless_def)

lemma flawless_merge:
  "flawless m sent received a \<Longrightarrow> flawless n sent received b \<Longrightarrow> flawless (m + n) sent received (merge a b)"
  by (simp add: flawless_def algebra_simps)

lemma flawless_total:
  assumes "\<And>x. flawless n sent received (f x)"
  shows "flawless (int (length xs) * n) sent received (totalOf f xs)"
  by (induction xs) (simp_all add: flawless_none flawless_merge assms distrib_right)

lemma flawless_tally: "sameTally a b \<Longrightarrow> flawless n sent received b \<Longrightarrow> flawless n sent received a"
  by (auto simp: flawless_def sameTally_def)

definition requestsPerBatch :: "Quic_Load.options \<Rightarrow> int" where
  "requestsPerBatch opts = connections opts * max 1 (streamsPerConnection opts)"

definition admitted :: "int \<Rightarrow> 'a list \<Rightarrow> int" where
  "admitted period ps = (if period \<le> 0 then 1 else 1 + int (length ps))"

lemma flawless_streams:
  assumes "compatible opts topts" "0 \<le> streamsPerConnection opts"
  shows "flawless (streamsPerConnection opts) (sentBytes opts) (receivedBytes opts)
    (runSequentialStreams (\<lambda>i. targetStream topts (cuts i) (us i))
       (deterministicPayload (payloadSizeBytes opts)) opts)"
proof -
  have "flawless 1 (sentBytes opts) (receivedBytes opts)
      (outcomeStats (runStream (targetStream topts (cuts i) (us i))
        (deterministicPayload (payloadSizeBytes opts)) opts))" for i
    by (simp add: stream_served [OF assms(1)] outcomeStats_def recordStream_def flawless_def Let_def)
  from flawless_total [OF this, where xs = "[0..<nat (streamsPerConnection opts)]"] assms(2)
  show ?thesis by (simp add: sequential_total)
qed

lemma flawless_batch:
  assumes "compatible opts topts" "1 \<le> streamsPerConnection opts" "0 \<le> connections opts"
  shows "flawless (requestsPerBatch opts) (sentBytes opts) (receivedBytes opts)
    (runStreamBatch (targetBatch opts topts p) (deterministicPayload (payloadSizeBytes opts)) opts mode)"
proof -
  have "flawless (int (length [0..<nat (connections opts)]) * streamsPerConnection opts)
      (sentBytes opts) (receivedBytes opts)
      (runSequentialStreamBatch (b_conns (targetBatch opts topts p))
        (deterministicPayload (payloadSizeBytes opts)) opts)"
    unfolding batch_total targetBatch_def batch_env.simps
    by (rule flawless_total, rule flawless_streams [OF assms(1)]) (use assms(2) in simp)
  then have "flawless (requestsPerBatch opts) (sentBytes opts) (receivedBytes opts)
      (runSequentialStreamBatch (b_conns (targetBatch opts topts p))
        (deterministicPayload (payloadSizeBytes opts)) opts)"
    using assms(2,3) by (simp add: requestsPerBatch_def)
  then show ?thesis
    by (cases mode) (simp_all add: runStreamBatch_def flawless_tally [OF concurrent_total])
qed

lemma flawless_churn:
  assumes "compatible opts topts" "1 \<le> streamsPerConnection opts" "0 \<le> connections opts"
  shows "flawless (requestsPerBatch opts) (sentBytes opts) (receivedBytes opts)
    (runConnectionChurnBatch (targetBatch opts topts p) (deterministicPayload (payloadSizeBytes opts)) opts)"
proof -
  have "flawless (streamsPerConnection opts) (sentBytes opts) (receivedBytes opts)
      (churnConnection (targetBatch opts topts p) (deterministicPayload (payloadSizeBytes opts)) opts i)" for i
    using flawless_streams [OF assms(1), of "p_cuts p i" "p_micros p i"] assms(2)
    by (simp add: churnConnection_def targetBatch_def dialQUICConn_def dial_ok [OF assms(1)] Let_def flawless_def)
  from flawless_total [OF this, where xs = "[0..<nat (connections opts)]"] assms(2,3)
  show ?thesis by (simp add: churn_total requestsPerBatch_def)
qed

lemma flawless_cold:
  assumes "compatible opts topts" "streamsPerConnection opts = 0" "0 \<le> connections opts"
  shows "flawless (requestsPerBatch opts) 0 0 (runHandshakeColdBatch (targetBatch opts topts p) opts)"
proof -
  have "flawless 1 0 0 (recordDial (dialQUICConn (b_dials (targetBatch opts topts p) i)) noStats)" for i
    by (simp add: targetBatch_def dialQUICConn_def dial_ok [OF assms(1)] recordDial_def flawless_def Let_def)
  from flawless_total [OF this, where xs = "[0..<nat (connections opts)]"] assms
  show ?thesis by (simp add: cold_total requestsPerBatch_def)
qed

text \<open>A load of flawless batches runs every batch its deadline admits.\<close>

lemma batchLoop_flawless:
  assumes "\<And>b. b \<in> set bs \<Longrightarrow> flawless n sent received (run b)" "flawless m sent received s" "0 < period"
  shows "\<exists>s'. batchLoop lenient discard period run s bs = (s', None) \<and>
    flawless (if discard then m else m + int (length bs) * n) sent received s'"
  using assms(1,2)
proof (induction bs arbitrary: s m)
  case (Cons b bs)
  have b: "flawless n sent received (run b)" using Cons.prems(1) by simp
  then have noerr: "errorTexts (run b) = []" by (simp add: flawless_def)
  show ?case
  proof (cases discard)
    case True
    with Cons.IH [of m s] Cons.prems noerr assms(3) show ?thesis by simp
  next
    case False
    have "flawless (m + n) sent received (merge s (run b))" by (rule flawless_merge [OF Cons.prems(2) b])
    with Cons.IH [of "m + n" "merge s (run b)"] Cons.prems False noerr assms(3)
    show ?thesis by (simp add: algebra_simps)
  qed
qed simp

lemma batches_flawless:
  assumes "\<And>p. flawless n sent received (run (targetBatch opts topts p))"
  shows "\<exists>s. batchLoop lenient discard period run noStats
      (l_first (targetLoad opts topts p ps) # l_rest (targetLoad opts topts p ps)) = (s, None) \<and>
    flawless (if discard then 0 else admitted period ps * n) sent received s"
proof (cases "0 < period")
  case True
  let ?bs = "targetBatch opts topts p # map (targetBatch opts topts) ps"
  have "flawless n sent received (run b)" if "b \<in> set ?bs" for b using that assms by auto
  then have "\<exists>s. batchLoop lenient discard period run noStats ?bs = (s, None) \<and>
      flawless (if discard then 0 else 0 + int (length ?bs) * n) sent received s"
    by (rule batchLoop_flawless [OF _ flawless_none True])
  with True show ?thesis
    by (cases discard) (simp_all add: targetLoad_def admitted_def del: batchLoop.simps)
next
  case False
  have "errorTexts (run (targetBatch opts topts p)) = []" using assms [of p] by (simp add: flawless_def)
  with False assms [of p] show ?thesis
    by (simp add: targetLoad_def admitted_def flawless_none)
qed

lemma targetLoad_dials:
  assumes "compatible opts topts"
  shows "l_parse (targetLoad opts topts p ps) = None"
    "dialAll (l_dial (targetLoad opts topts p ps)) is = None"
  by (simp add: targetLoad_def) (induction "is", simp_all add: targetLoad_def dial_ok [OF assms])

text \<open>The options the executor accepts.\<close>

lemma accepted_streams:
  assumes "validateOptions opts = None"
  shows "toLower (behavior opts) = ''handshake-cold'' \<and> streamsPerConnection opts = 0 \<or>
    toLower (behavior opts) \<noteq> ''handshake-cold'' \<and> 1 \<le> streamsPerConnection opts \<and>
    toLower (behavior opts) \<in> set sequentialBehaviors \<union> set concurrentBehaviors \<union>
      {''connection-churn'', ''stream-churn''}"
proof -
  have "''handshake-cold'' \<notin> set sequentialBehaviors \<union> set concurrentBehaviors"
    by (simp add: sequentialBehaviors_def concurrentBehaviors_def)
  with assms show ?thesis
    by (auto simp: validateOptions_def requirePattern_def Let_def split: if_splits)
qed

definition coldHandshakes :: "Quic_Load.options \<Rightarrow> bool" where
  "coldHandshakes opts \<longleftrightarrow> toLower (behavior opts) = ''handshake-cold''"

lemma runLoad_flawless:
  assumes "validateOptions opts = None" "0 \<le> connections opts" "compatible opts topts"
  shows "\<exists>s. runLoad (targetLoad opts topts p ps) opts period discard = (s, None) \<and>
    flawless (if discard then 0 else admitted period ps * requestsPerBatch opts)
      (if coldHandshakes opts then 0 else sentBytes opts)
      (if coldHandshakes opts then 0 else receivedBytes opts) s"
proof (cases "coldHandshakes opts")
  case True
  then have b: "toLower (behavior opts) = ''handshake-cold''" "streamsPerConnection opts = 0"
    using accepted_streams [OF assms(1)] by (auto simp: coldHandshakes_def)
  have "flawless (requestsPerBatch opts) 0 0 (runHandshakeColdBatch (targetBatch opts topts q) opts)" for q
    by (rule flawless_cold [OF assms(3) b(2) assms(2)])
  from batches_flawless [where run = "\<lambda>b. runHandshakeColdBatch b opts", OF this] True b(1) show ?thesis
    by (simp add: runLoad_def runHandshakeColdLoad_def targetLoad_dials [OF assms(3)]
        sequentialBehaviors_def concurrentBehaviors_def del: batchLoop.simps)
next
  case False
  then have b: "toLower (behavior opts) \<noteq> ''handshake-cold''" "1 \<le> streamsPerConnection opts"
      "toLower (behavior opts) \<in> set sequentialBehaviors \<union> set concurrentBehaviors \<union>
        {''connection-churn'', ''stream-churn''}"
    using accepted_streams [OF assms(1)] by (auto simp: coldHandshakes_def)
  have "flawless (requestsPerBatch opts) (sentBytes opts) (receivedBytes opts)
      (runStreamBatch (targetBatch opts topts q) (deterministicPayload (payloadSizeBytes opts)) opts mode)" for q mode
    by (rule flawless_batch [OF assms(3) b(2) assms(2)])
  note stream = batches_flawless [where run = "\<lambda>b. runStreamBatch b (deterministicPayload (payloadSizeBytes opts)) opts mode" for mode, OF this]
  define G where "G = flawless (if discard then 0 else admitted period ps * requestsPerBatch opts)
    (sentBytes opts) (receivedBytes opts)"
  have stream_load: "\<exists>s. runStreamLoad (targetLoad opts topts p ps) opts period discard mode = (s, None) \<and> G s" for mode
    unfolding runStreamLoad_def targetLoad_dials [OF assms(3)] option.case Let_def G_def by (rule stream)
  have "flawless (requestsPerBatch opts) (sentBytes opts) (receivedBytes opts)
      (runConnectionChurnBatch (targetBatch opts topts q) (deterministicPayload (payloadSizeBytes opts)) opts)" for q
    by (rule flawless_churn [OF assms(3) b(2) assms(2)])
  note churn = batches_flawless [where run = "\<lambda>b. runConnectionChurnBatch b (deterministicPayload (payloadSizeBytes opts)) opts", OF this]
  have churn_load: "\<exists>s. runConnectionChurnLoad (targetLoad opts topts p ps) opts period discard = (s, None) \<and> G s"
    unfolding runConnectionChurnLoad_def targetLoad_dials [OF assms(3)] option.case Let_def G_def by (rule churn)
  have "\<exists>s. runLoad (targetLoad opts topts p ps) opts period discard = (s, None) \<and> G s"
    using b(1,3) stream_load churn_load unfolding runLoad_def Let_def by auto
  with False show ?thesis by (simp add: G_def)
qed

section \<open>The properties\<close>

text \<open>Download requests round-trip between the executor and the target: the target accepts a
  request for \<open>n\<close> bytes exactly when it is the one the executor builds for \<open>n\<close>, with \<open>n\<close> between
  1 byte and 64 MiB.\<close>

theorem download_request_roundtrip:
  "parseDownloadRequest r maxReadBytes = Some n \<longleftrightarrow>
     0 < n \<and> n \<le> maxReadBytes \<and> r = buildDownloadRequest n"
proof
  assume "parseDownloadRequest r maxReadBytes = Some n"
  then show "0 < n \<and> n \<le> maxReadBytes \<and> r = buildDownloadRequest n"
    unfolding request_is_download by (rule parseDownloadRequest_Some)
next
  assume n: "0 < n \<and> n \<le> maxReadBytes \<and> r = buildDownloadRequest n"
  then have "n < 2 ^ 64" by (simp add: maxReadBytes_def)
  with n show "parseDownloadRequest r maxReadBytes = Some n"
    by (simp add: request_is_download parse_downloadRequest)
qed

text \<open>Every stream of the executor against the target succeeds when the echo limit fits the
  direction of the payload: uploads, downloads, echoes and duplex streams, written at once or in
  chunks, with the answer cut into reads anywhere, with exact byte counts.\<close>

theorem stream_interop:
  assumes "compatible opts topts"
  shows "runStream (targetStream topts cuts us) (deterministicPayload (payloadSizeBytes opts)) opts =
    (millis us, sentBytes opts, receivedBytes opts, None)"
  by (rule stream_served [OF assms])

text \<open>A measured load against the target, for every behaviour and all options the executor
  accepts, ends without an error: every batch the deadline admits runs, every request succeeds,
  and the counters and byte totals are exact.\<close>

theorem load_interop:
  assumes "validateOptions opts = None" and "0 \<le> connections opts" and "compatible opts topts"
  shows "\<exists>s. runLoad (targetLoad opts topts p ps) opts period False = (s, None) \<and>
    flawless (admitted period ps * requestsPerBatch opts)
      (if coldHandshakes opts then 0 else sentBytes opts)
      (if coldHandshakes opts then 0 else receivedBytes opts) s"
  using runLoad_flawless [OF assms, of p ps period False] by simp

text \<open>C7: The whole command against the target: with accepted options, the same non-empty application
  protocol on both sides and an echo limit that fits the payload, the warm-up passes, the
  command exits with status zero even when errors are fatal, and its document reports no error,
  an error rate of zero and exactly the admitted number of requests.\<close>

theorem quic_run_interop:
  assumes "checkOptions opts scheme host = Inr opts" and "compatible opts topts"
  shows "let (doc, status) = runMain env opts (targetLoad opts topts wp wps) (targetLoad opts topts p ps) measured;
             ms = d_Metrics doc; n = admitted (duration opts) ps * requestsPerBatch opts in
    status = 0 \<and> d_Errors doc = [] \<and> m_ErrorRate ms = 0 \<and> m_FailedRequests ms = 0 \<and>
    m_TotalRequests ms = n \<and> m_SuccessfulRequests ms = n \<and> 0 < n"
proof -
  have o: "validateOptions opts = None" "1 \<le> connections opts" "0 < duration opts"
    using assms(1) by (auto simp: checkOptions_def split: if_splits option.splits)
  let ?n = "admitted (duration opts) ps * requestsPerBatch opts"
  have "0 < admitted (duration opts) ps" by (simp add: admitted_def)
  moreover have "0 < requestsPerBatch opts" using o(2) by (simp add: requestsPerBatch_def)
  ultimately have n: "0 < ?n" "admitted (duration opts) ps \<noteq> 0" "requestsPerBatch opts \<noteq> 0" by simp_all
  have w: "(if warmup opts > 0 then snd (runLoad (targetLoad opts topts wp wps) opts (warmup opts) True) else None) = None"
    using runLoad_flawless [OF o(1) _ assms(2), of wp wps "warmup opts" True] o(2) by auto
  obtain s where s: "runLoad (targetLoad opts topts p ps) opts (duration opts) False = (s, None)"
      "successfulRequests s = ?n" "totalRequests s = ?n" "failedRequests s = 0" "timeoutRequests s = 0"
      "errorTexts s = []"
    using runLoad_flawless [OF o(1) _ assms(2), of p ps "duration opts" False] o(2)
    by (auto simp: flawless_def)
  show ?thesis using n s(2-)
    by (simp add: runMain_def w s(1) Let_def newOutputDocument_def buildMetrics_def f64_def fdiv_def)
qed

section \<open>Witnesses\<close>

definition echoOptions :: Quic_Load.options where
  "echoOptions =
     \<lparr>sni = ''localhost'', alpn = ''plab-raw-quic'', behavior = ''latency-echo'',
      streamType = ''bidirectional'', payloadSizeBytes = 1024, payloadDirection = ''bidirectional'',
      openPattern = ''sequential'', connections = 1, streamsPerConnection = 2, duration = 10 ^ 9,
      warmup = 10 ^ 9, target = ''quic://127.0.0.1:4433'', failOnErrors = True\<rparr>"

definition echoTarget :: Quic_Target.options where
  "echoTarget = \<lparr>t_listen = [], t_advertiseHost = [], t_alpn = defaultALPN,
     t_echoMaxBytes = defaultEchoMaxSizeForScenario ''quic.transport.latency.echo-1kb''\<rparr>"

definition quietPlan :: batch_plan where
  "quietPlan = \<lparr>p_cuts = (\<lambda>c i. [100, 0, 500]), p_micros = (\<lambda>c i. 250), p_sched = [], p_connect = (\<lambda>i. 900)\<rparr>"

lemma echo_compatible: "compatible echoOptions echoTarget" "isUpload echoOptions = False"
    "isDownload echoOptions = False"
  by (simp_all add: compatible_def negotiates_def defaultALPN_def echoOptions_def echoTarget_def isUpload_def isDownload_def equalFold_def
      toLower_def lowerChar_def maximumDownloadPayloadLength_def defaultEchoMaxSizeForScenario_def)

lemma echo_checked: "checkOptions echoOptions ''quic'' ''h'' = Inr echoOptions"
  by (simp add: checkOptions_def validateOptions_def echoOptions_def sequentialBehaviors_def
      toLower_def lowerChar_def Let_def)

lemma echo_valid: "validateOptions echoOptions = None"
  by (simp add: validateOptions_def echoOptions_def sequentialBehaviors_def toLower_def lowerChar_def Let_def)

theorem stream_interop_witness:
  "runStream (targetStream echoTarget [100, 0, 500] 250) (deterministicPayload 1024) echoOptions =
     (millis 250, 1024, 1024, None)"
  using stream_interop [OF echo_compatible(1), of "[100, 0, 500]" 250]
  by (simp add: sentBytes_def receivedBytes_def echo_compatible) (simp add: echoOptions_def)

theorem load_interop_witness:
  "\<exists>s. runLoad (targetLoad echoOptions echoTarget quietPlan [quietPlan]) echoOptions (10 ^ 9) False = (s, None) \<and>
     flawless 4 1024 1024 s"
proof -
  have "coldHandshakes echoOptions = False" "requestsPerBatch echoOptions = 2"
      "payloadSizeBytes echoOptions = 1024" "0 \<le> connections echoOptions"
    by (simp_all add: coldHandshakes_def requestsPerBatch_def echoOptions_def toLower_def lowerChar_def)
  moreover have "admitted (10 ^ 9) [quietPlan] = 2" by (simp add: admitted_def)
  ultimately show ?thesis
    using load_interop [OF echo_valid _ echo_compatible(1), of quietPlan "[quietPlan]" "10 ^ 9"]
    by (simp add: sentBytes_def receivedBytes_def echo_compatible)
qed

theorem quic_run_interop_witness:
  "let (doc, status) = runMain (\<lambda>_. []) echoOptions (targetLoad echoOptions echoTarget quietPlan [])
         (targetLoad echoOptions echoTarget quietPlan [quietPlan]) (10 ^ 9) in
   status = 0 \<and> d_Errors doc = [] \<and> m_TotalRequests (d_Metrics doc) = 4"
proof -
  have "requestsPerBatch echoOptions = 2" "admitted (duration echoOptions) [quietPlan] = 2"
    by (simp_all add: requestsPerBatch_def admitted_def echoOptions_def)
  then show ?thesis
    using quic_run_interop [OF echo_checked echo_compatible(1), of "\<lambda>_. []" quietPlan "[]" quietPlan "[quietPlan]" "10 ^ 9"]
    by (auto simp: Let_def split: prod.splits)
qed

end
