(* ===== verification/Go_Http2.thy ===== *)
theory Go_Http2
  imports Go_Http
begin

text \<open>
  HTTP/2 as the gRPC components use it through \<^verbatim>\<open>net/http\<close> and \<^verbatim>\<open>golang.org/x/net/http2\<close>:
  requests and responses with headers, a body and trailers. The framing of HTTP/2 is the
  library's. A response writer keeps the header map the handler changes, a snapshot of it from
  the moment the status is written, and the body; the headers named by \<^verbatim>\<open>Trailer\<close> in the
  snapshot are sent with the values they have when the handler returns.
\<close>

definition headerSet :: "http_header \<Rightarrow> string \<Rightarrow> string \<Rightarrow> http_header" where
  "headerSet h name v = filter (\<lambda>(k, _). \<not> equalFold k name) h @ [(name, v)]"

definition headerValues :: "http_header \<Rightarrow> string \<Rightarrow> string list" where
  "headerValues h name = map snd (filter (\<lambda>(k, _). equalFold k name) h)"

record h2_request =
  q_ProtoMajor :: nat
  q_TLSVersion :: "nat option"
  q_ALPN :: string
  q_Method :: string
  q_Path :: string
  q_Header :: http_header

record h2_response =
  p_ProtoMajor :: nat
  p_ProtoMinor :: nat
  p_StatusCode :: nat
  p_Header :: http_header
  p_Body :: conn
  p_Trailer :: http_header

record response_writer =
  rw_Header :: http_header
  rw_Status :: "nat option"
  rw_Sent :: http_header
  rw_Conn :: conn

definition setHeader :: "string \<Rightarrow> string \<Rightarrow> response_writer \<Rightarrow> response_writer" where
  "setHeader name v w = w\<lparr>rw_Header := headerSet (rw_Header w) name v\<rparr>"

definition writeHeader :: "nat \<Rightarrow> response_writer \<Rightarrow> response_writer" where
  "writeHeader code w =
     (if rw_Status w = None then w\<lparr>rw_Status := Some code, rw_Sent := rw_Header w\<rparr> else w)"

definition writeBody :: "bytes \<Rightarrow> response_writer \<Rightarrow> go_error option \<times> response_writer" where
  "writeBody bs w =
     (let w1 = writeHeader 200 w in
      case connWrite bs (rw_Conn w1) of (e, c) \<Rightarrow> (e, w1\<lparr>rw_Conn := c\<rparr>))"

text \<open>\<^verbatim>\<open>http.Error\<close> and \<^verbatim>\<open>http.NotFound\<close>.\<close>

definition httpError :: "string \<Rightarrow> nat \<Rightarrow> response_writer \<Rightarrow> response_writer" where
  "httpError msg code w =
     snd (writeBody (of_string (msg @ [CHR 0x0A]))
       (writeHeader code (setHeader ''X-Content-Type-Options'' ''nosniff''
         (setHeader ''Content-Type'' ''text/plain; charset=utf-8'' w))))"

definition notFound :: "response_writer \<Rightarrow> response_writer" where
  "notFound w = httpError ''404 page not found'' 404 w"

text \<open>A handler starts with an empty header map over the request body, and when it returns the
  response is complete.\<close>

definition newWriter :: "bytes \<Rightarrow> response_writer" where
  "newWriter body = \<lparr>rw_Header = [], rw_Status = None, rw_Sent = [],
     rw_Conn = \<lparr>conn_in = body, conn_end = EOF, conn_out = [], conn_cap = None\<rparr>\<rparr>"

definition declaredTrailers :: "http_header \<Rightarrow> string list" where
  "declaredTrailers h = map trimSpace (splitOn CHR '','' (headerGet h ''Trailer''))"

definition finishResponse :: "response_writer \<Rightarrow> h2_response" where
  "finishResponse w =
     (let w1 = writeHeader 200 w in
      \<lparr>p_ProtoMajor = 2, p_ProtoMinor = 0, p_StatusCode = the (rw_Status w1), p_Header = rw_Sent w1,
       p_Body = \<lparr>conn_in = concat (conn_out (rw_Conn w1)), conn_end = EOF, conn_out = [], conn_cap = None\<rparr>,
       p_Trailer = filter (\<lambda>(k, v). list_ex (equalFold k) (declaredTrailers (rw_Sent w1))) (rw_Header w1)\<rparr>)"

section \<open>Headers\<close>

lemma equalFold_sym: "equalFold a b \<longleftrightarrow> equalFold b a"
  by (auto simp: equalFold_def)

lemma equalFold_cong: "equalFold a b \<Longrightarrow> equalFold a c \<longleftrightarrow> equalFold b c"
  by (simp add: equalFold_def)

lemma headerGet_Cons: "headerGet ((k, v) # h) m = (if equalFold k m then v else headerGet h m)"
  by (simp add: headerGet_def)

lemma headerGet_Nil [simp]: "headerGet [] m = []"
  by (simp add: headerGet_def)

lemma headerGet_set [simp]: "headerGet (headerSet h n v) m = (if equalFold n m then v else headerGet h m)"
proof (induction h)
  case Nil
  then show ?case by (simp add: headerSet_def headerGet_Cons)
next
  case (Cons kv h)
  obtain k w where kv: "kv = (k, w)" by force
  with Cons show ?case
    by (auto simp: headerSet_def headerGet_Cons equalFold_def)
qed

lemma headerGet_declared:
  "headerGet (filter (\<lambda>(k, v). list_ex (equalFold k) ds) h) m =
     (if list_ex (equalFold m) ds then headerGet h m else [])"
proof (induction h)
  case (Cons kv h)
  obtain k w where kv: "kv = (k, w)" by force
  have "equalFold k m \<Longrightarrow> list_ex (equalFold k) ds \<longleftrightarrow> list_ex (equalFold m) ds"
    by (simp add: list_ex_iff equalFold_def)
  with Cons kv show ?case by (auto simp: headerGet_Cons)
qed simp

lemma writer_fields [simp]:
  "rw_Header (setHeader n v w) = headerSet (rw_Header w) n v"
  "rw_Status (setHeader n v w) = rw_Status w" "rw_Sent (setHeader n v w) = rw_Sent w"
  "rw_Conn (setHeader n v w) = rw_Conn w"
  "rw_Header (writeHeader code w) = rw_Header w" "rw_Conn (writeHeader code w) = rw_Conn w"
  by (simp_all add: setHeader_def writeHeader_def)

lemma writeHeader_fields [simp]:
  "rw_Status (writeHeader code w) = Some (case rw_Status w of None \<Rightarrow> code | Some s \<Rightarrow> s)"
  "rw_Sent (writeHeader code w) = (if rw_Status w = None then rw_Header w else rw_Sent w)"
  by (auto simp: writeHeader_def)

section \<open>Complete responses\<close>

lemma writeBody_fields:
  "rw_Status (snd (writeBody bs w)) = rw_Status (writeHeader 200 w)" "rw_Sent (snd (writeBody bs w)) = rw_Sent (writeHeader 200 w)"
  "rw_Header (snd (writeBody bs w)) = rw_Header w"
  by (simp_all add: writeBody_def Let_def split: prod.splits)

lemma errorResponse_fields:
  assumes "rw_Status w = None"
  shows "p_StatusCode (finishResponse (httpError msg code w)) = code \<and>
    headerGet (p_Header (finishResponse (httpError msg code w))) ''Content-Type'' = ''text/plain; charset=utf-8''"
  using assms by (simp add: httpError_def finishResponse_def writeBody_fields Let_def equalFold_def toLower_def lowerChar_def)

lemma served_response:
  assumes "rw_Status w = None" "rw_Header w = []" "conn_out (rw_Conn w) = []" "conn_cap (rw_Conn w) = None"
  shows "finishResponse (snd (writeBody bs (writeHeader 200
      (setHeader ''Cache-Control'' ''no-store'' (setHeader ''Content-Type'' media w))))) =
    \<lparr>p_ProtoMajor = 2, p_ProtoMinor = 0, p_StatusCode = 200,
     p_Header = [(''Content-Type'', media), (''Cache-Control'', ''no-store'')],
     p_Body = \<lparr>conn_in = bs, conn_end = EOF, conn_out = [], conn_cap = None\<rparr>, p_Trailer = []\<rparr>"
  using assms
  by (simp add: finishResponse_def writeBody_def connWrite_def writeHeader_def setHeader_def headerSet_def Let_def
      declaredTrailers_def headerGet_def equalFold_def toLower_def lowerChar_def trimSpace_def)

end
