(* ===== verification/Grpc_Server.thy ===== *)
theory Grpc_Server
  imports Go_Http2
begin

text \<open>
  The gRPC target of \<^verbatim>\<open>implementations/go-grpc-h2/source/main.go\<close>: the protobuf and gRPC
  message formats and the request handler, with its unary, streaming, terminal-status and
  cancellation methods. TLS and HTTP/2 are libraries; \<^verbatim>\<open>compress/gzip\<close> is a parameter that
  compresses and decompresses.
\<close>

unbundle bit_operations_syntax

section \<open>Messages\<close>

definition maxFrameBytes :: nat where
  "maxFrameBytes = 1048585"

definition streamMessageCount :: nat where
  "streamMessageCount = 100"

record gzip_codec =
  gz_compress :: "bytes \<Rightarrow> bytes go"
  gz_decompress :: "bytes \<Rightarrow> bytes go"

text \<open>The loop over a variable-length integer: the value and the bytes after it.\<close>

fun varintLoop :: "bytes \<Rightarrow> u64 \<Rightarrow> nat \<Rightarrow> (u64 \<times> bytes) option" where
  "varintLoop [] n shift = None"
| "varintLoop (b # p) n shift =
     (if shift > 63 then None
      else (let n1 = n OR push_bit shift (ucast (b AND 0x7f)) in
        if b < 0x80 then Some (n1, p) else varintLoop p n1 (shift + 7)))"

fun decodeProtobuf :: "bytes \<Rightarrow> bytes go" where
  "decodeProtobuf [] = Inr []"
| "decodeProtobuf (b # p) =
     (if b \<noteq> 0x0a then Inl (Errorf ''unexpected protobuf field'')
      else (case varintLoop p 0 0 of
          None \<Rightarrow> Inl (Errorf ''invalid protobuf length'')
        | Some (n, rest) \<Rightarrow>
            if sint n \<noteq> int (length rest) then Inl (Errorf ''protobuf payload length mismatch'')
            else Inr rest))"

definition encodeFrame :: "gzip_codec \<Rightarrow> bytes \<Rightarrow> string \<Rightarrow> bytes go" where
  "encodeFrame z protobuf compression =
     (if compression = ''gzip'' then
        (case gz_compress z protobuf of
           Inl e \<Rightarrow> Inl e
         | Inr message \<Rightarrow> Inr ([1] @ be32 (of_nat (length message)) @ message))
      else Inr ([0] @ be32 (of_nat (length protobuf)) @ protobuf))"

definition decodeFrame :: "gzip_codec \<Rightarrow> bytes \<Rightarrow> string \<Rightarrow> (bytes \<times> bytes) go" where
  "decodeFrame z frame compression =
     (if length frame < 5 \<or> unat (uint32 (take 4 (drop 1 frame))) \<noteq> length frame - 5
      then Inl (Errorf ''invalid gRPC envelope'')
      else (case (if compression = ''gzip''
                  then (if hd frame \<noteq> 1 then Inl (Errorf ''gzip flag mismatch'')
                        else gz_decompress z (drop 5 frame))
                  else (if hd frame \<noteq> 0 then Inl (Errorf ''identity flag mismatch'') else Inr (drop 5 frame))) of
          Inl e \<Rightarrow> Inl e
        | Inr message \<Rightarrow>
            (case decodeProtobuf message of Inl e \<Rightarrow> Inl e | Inr payload \<Rightarrow> Inr (message, payload))))"

definition readIdentityFrame :: "conn \<Rightarrow> (bytes \<times> bytes \<times> bytes) go \<times> conn" where
  "readIdentityFrame c =
     (case readFull 5 c of
        (Inl e, c1) \<Rightarrow> (Inl e, c1)
      | (Inr header, c1) \<Rightarrow>
          if hd header \<noteq> 0 then (Inl (Errorf ''streaming compression flag mismatch''), c1)
          else (let n = unat (uint32 (tl header)) in
            if n > maxFrameBytes - 5 then (Inl (Errorf ''streaming frame length out of range''), c1)
            else (case readFull n c1 of
                (Inl e, c2) \<Rightarrow> (Inl e, c2)
              | (Inr protobuf, c2) \<Rightarrow>
                  (case decodeProtobuf protobuf of
                     Inl e \<Rightarrow> (Inl e, c2)
                   | Inr payload \<Rightarrow> (Inr (header @ protobuf, protobuf, payload), c2)))))"

definition streamPayload :: bytes where
  "streamPayload = replicate 1024 66"

definition validStreamingPayload :: "bytes \<Rightarrow> bytes \<Rightarrow> bool" where
  "validStreamingPayload payload protobuf \<longleftrightarrow>
     length payload = 1024 \<and> payload = streamPayload \<and> length protobuf = 1027"

definition isFixture :: "nat \<Rightarrow> byte \<Rightarrow> nat \<Rightarrow> bytes \<Rightarrow> bytes \<Rightarrow> bool" where
  "isFixture n b m payload protobuf \<longleftrightarrow>
     length payload = n \<and> payload = replicate n b \<and> length protobuf = m"

definition validScenarioPayload :: "string \<Rightarrow> bytes \<Rightarrow> bytes \<Rightarrow> bool" where
  "validScenarioPayload method payload protobuf =
     (if method = ''UnaryGzip'' then isFixture 1024 66 1027 payload protobuf
      else if method \<in> set [''UnaryFixedMetadata'', ''TrailersOnlyStatus'', ''DeadlineExceeded'', ''ClientCancellation'']
      then isFixture 128 71 131 payload protobuf
      else if method = ''UnaryEcho'' then
        length payload = 0 \<and> length protobuf = 0 \<or> isFixture 128 71 131 payload protobuf \<or>
        isFixture (2 ^ 20) 76 1048580 payload protobuf
      else False)"

text \<open>\<^verbatim>\<open>base64.RawStdEncoding\<close> on the value without its padding.\<close>

definition trimRightEq :: "string \<Rightarrow> string" where
  "trimRightEq s = rev (dropWhile (\<lambda>c. c = CHR ''='') (rev s))"

definition rawStdDecode :: "string \<Rightarrow> bytes option" where
  "rawStdDecode s =
     (let t = filter (\<lambda>c. c \<noteq> CHR 0x0D \<and> c \<noteq> CHR 0x0A) s in
      if length t mod 4 = 1 \<or> CHR ''='' \<in> set t then None
      else b64Decode (t @ replicate ((4 - length t mod 4) mod 4) CHR ''=''))"

definition matchesBinaryMetadata :: "string \<Rightarrow> bool" where
  "matchesBinaryMetadata v \<longleftrightarrow> rawStdDecode (trimRightEq v) = Some [0, 1, 2, 3]"

definition headerContainsToken :: "http_header \<Rightarrow> string \<Rightarrow> string \<Rightarrow> bool" where
  "headerContainsToken h name token \<longleftrightarrow>
     list_ex (\<lambda>v. list_ex (\<lambda>item. equalFold (trimSpace item) token) (splitOn CHR '','' v)) (headerValues h name)"

section \<open>Handlers\<close>

text \<open>How a handler ends: at once, after a delay or when the client goes, or only when the client
  cancels.\<close>

datatype handler_end = Returned | ReturnedAfter nat | UntilCancelled

definition writeGRPCError :: "string \<Rightarrow> string \<Rightarrow> response_writer \<Rightarrow> response_writer" where
  "writeGRPCError status msg w =
     setHeader ''grpc-message'' msg (setHeader ''grpc-status'' status (writeHeader 200
       (setHeader ''Trailer'' ''grpc-status, grpc-message''
         (setHeader ''Content-Type'' ''application/grpc+proto'' w))))"

definition finishOK :: "response_writer \<Rightarrow> response_writer" where
  "finishOK w = setHeader ''grpc-message'' '''' (setHeader ''grpc-status'' ''0'' w)"

definition startGRPC :: "response_writer \<Rightarrow> response_writer" where
  "startGRPC w = setHeader ''Trailer'' ''grpc-status, grpc-message''
     (setHeader ''grpc-encoding'' ''identity'' (setHeader ''Content-Type'' ''application/grpc+proto'' w))"

definition readAllBody :: "nat \<Rightarrow> response_writer \<Rightarrow> bytes go \<times> response_writer" where
  "readAllBody n w =
     (case readAllLimited n (rw_Conn w) of (r, c) \<Rightarrow> (r, w\<lparr>rw_Conn := c\<rparr>))"

definition readFrameBody :: "response_writer \<Rightarrow> (bytes \<times> bytes \<times> bytes) go \<times> response_writer" where
  "readFrameBody w = (case readIdentityFrame (rw_Conn w) of (r, c) \<Rightarrow> (r, w\<lparr>rw_Conn := c\<rparr>))"

text \<open>The read of one more byte: whether the request stream ended properly.\<close>

definition halfClosed :: "conn \<Rightarrow> bool" where
  "halfClosed c \<longleftrightarrow> conn_in c = [] \<and> errorsIs (conn_end c) EOF"

definition handleClientCancellation :: "gzip_codec \<Rightarrow> response_writer \<Rightarrow> handler_end \<times> response_writer" where
  "handleClientCancellation z w =
     (case readAllBody (maxFrameBytes + 1) w of
        (Inl e, w1) \<Rightarrow> (Returned, writeGRPCError ''13'' ''request read failed'' w1)
      | (Inr body, w1) \<Rightarrow>
          (case decodeFrame z body ''identity'' of
             Inl e \<Rightarrow> (Returned, writeGRPCError ''3'' ''invalid deterministic cancellation request'' w1)
           | Inr (protobuf, payload) \<Rightarrow>
               if \<not> validScenarioPayload ''ClientCancellation'' payload protobuf
               then (Returned, writeGRPCError ''3'' ''invalid deterministic cancellation request'' w1)
               else (UntilCancelled, writeHeader 200 (setHeader ''x-plab-ready'' ''1''
                 (setHeader ''grpc-encoding'' ''identity''
                   (setHeader ''Content-Type'' ''application/grpc+proto'' w1))))))"

text \<open>The request loop: the frames read, or none when one was invalid.\<close>

fun requestLoop :: "nat \<Rightarrow> response_writer \<Rightarrow> bytes list option \<times> response_writer" where
  "requestLoop 0 w = (Some [], w)"
| "requestLoop (Suc n) w =
     (case readFrameBody w of
        (Inl e, w1) \<Rightarrow> (None, w1)
      | (Inr (frame, protobuf, payload), w1) \<Rightarrow>
          if \<not> validStreamingPayload payload protobuf then (None, w1)
          else (case requestLoop n w1 of
              (None, w2) \<Rightarrow> (None, w2)
            | (Some frames, w2) \<Rightarrow> (Some (frame # frames), w2)))"

fun writeFrames :: "bytes list \<Rightarrow> response_writer \<Rightarrow> bool \<times> response_writer" where
  "writeFrames [] w = (True, w)"
| "writeFrames (f # fs) w =
     (case writeBody f w of (Some e, w1) \<Rightarrow> (False, w1) | (None, w1) \<Rightarrow> writeFrames fs w1)"

text \<open>Whether the whole request was echoed.\<close>

fun bidiLoop :: "nat \<Rightarrow> response_writer \<Rightarrow> bool \<times> response_writer" where
  "bidiLoop 0 w = (True, w)"
| "bidiLoop (Suc n) w =
     (case readFrameBody w of
        (Inl e, w1) \<Rightarrow> (False, setHeader ''grpc-message'' ''invalid deterministic bidirectional request''
            (setHeader ''grpc-status'' ''3'' (writeHeader 200 w1)))
      | (Inr (frame, protobuf, payload), w1) \<Rightarrow>
          if \<not> validStreamingPayload payload protobuf
          then (False, setHeader ''grpc-message'' ''invalid deterministic bidirectional request''
            (setHeader ''grpc-status'' ''3'' (writeHeader 200 w1)))
          else (case writeBody frame (writeHeader 200 w1) of
              (Some e, w2) \<Rightarrow> (False, w2)
            | (None, w2) \<Rightarrow> bidiLoop n w2))"

definition handleBidirectionalStreaming :: "response_writer \<Rightarrow> response_writer" where
  "handleBidirectionalStreaming w =
     (case bidiLoop streamMessageCount (startGRPC w) of
        (False, w1) \<Rightarrow> w1
      | (True, w1) \<Rightarrow>
          if \<not> halfClosed (rw_Conn w1)
          then setHeader ''grpc-message'' ''bidirectional request count or half-close mismatch''
            (setHeader ''grpc-status'' ''3'' w1)
          else finishOK w1)"

definition handleStreaming :: "string \<Rightarrow> response_writer \<Rightarrow> response_writer" where
  "handleStreaming method w =
     (if method = ''BidirectionalStreamingEcho'' then handleBidirectionalStreaming w
      else (case requestLoop (if method = ''ClientStreamingEcho'' then streamMessageCount else 1) w of
          (None, w1) \<Rightarrow> writeGRPCError ''3'' ''invalid deterministic streaming request'' w1
        | (Some frames, w1) \<Rightarrow>
            if \<not> halfClosed (rw_Conn w1)
            then writeGRPCError ''3'' ''stream request count or half-close mismatch'' w1
            else (case writeFrames (if method = ''ServerStreamingEcho'' then replicate streamMessageCount (hd frames)
                       else if method = ''ClientStreamingEcho'' then [last frames] else [])
                     (writeHeader 200 (startGRPC w1)) of
                (False, w2) \<Rightarrow> w2
              | (True, w2) \<Rightarrow> finishOK w2)))"

definition servicePrefix :: string where
  "servicePrefix = ''/protocollab.performance.v1.EchoService/''"

definition trimPrefix :: "string \<Rightarrow> string \<Rightarrow> string" where
  "trimPrefix s p = (if hasPrefix s p then drop (length p) s else s)"

definition serviceMethods :: "string list" where
  "serviceMethods = [''UnaryEcho'', ''UnaryGzip'', ''UnaryFixedMetadata'', ''ServerStreamingEcho'',
     ''ClientStreamingEcho'', ''BidirectionalStreamingEcho'', ''TrailersOnlyStatus'',
     ''DeadlineExceeded'', ''ClientCancellation'']"

text \<open>The unary part of the handler, after the body was decoded.\<close>

definition answerUnary ::
  "gzip_codec \<Rightarrow> string \<Rightarrow> string \<Rightarrow> bytes \<Rightarrow> response_writer \<Rightarrow> handler_end \<times> response_writer" where
  "answerUnary z method compression protobuf w =
     (case encodeFrame z protobuf compression of
        Inl e \<Rightarrow> (Returned, writeGRPCError ''13'' ''response compression failed'' w)
      | Inr responseFrame \<Rightarrow>
          (let w1 = setHeader ''grpc-encoding'' compression (setHeader ''Content-Type'' ''application/grpc+proto'' w);
               w2 = (if method = ''UnaryFixedMetadata''
                     then setHeader ''Trailer'' ''grpc-status, grpc-message, x-plab-bin-bin''
                       (setHeader ''x-plab-text'' ''protocol-lab'' w1)
                     else setHeader ''Trailer'' ''grpc-status, grpc-message'' w1);
               w3 = finishOK (snd (writeBody responseFrame (writeHeader 200 w2))) in
           (Returned, if method = ''UnaryFixedMetadata'' then setHeader ''x-plab-bin-bin'' ''AAECAw=='' w3 else w3)))"

definition handleRPC :: "gzip_codec \<Rightarrow> h2_request \<Rightarrow> response_writer \<Rightarrow> handler_end \<times> response_writer" where
  "handleRPC z r w =
     (if q_ProtoMajor r \<noteq> 2 \<or> q_TLSVersion r \<noteq> Some 0x304 \<or> q_ALPN r \<noteq> ''h2''
      then (Returned, httpError ''exact TLS 1.3 with HTTP/2 ALPN h2 required'' 505 w)
      else if q_Method r \<noteq> ''POST'' then (Returned, notFound w)
      else (let method = trimPrefix (q_Path r) servicePrefix; h = q_Header r;
                compression = (if method = ''UnaryGzip'' then ''gzip'' else ''identity'') in
        if method \<notin> set serviceMethods then (Returned, notFound w)
        else if \<not> hasPrefix (toLower (headerGet h ''Content-Type'')) ''application/grpc+proto'' \<or>
          \<not> headerContainsToken h ''Te'' ''trailers''
        then (Returned, httpError ''invalid gRPC request headers'' 415 w)
        else if headerGet h ''grpc-encoding'' \<noteq> compression \<or> headerGet h ''grpc-accept-encoding'' \<noteq> compression
        then (Returned, writeGRPCError ''12'' ''compression profile mismatch'' w)
        else if method = ''UnaryFixedMetadata'' \<and> (headerGet h ''x-plab-text'' \<noteq> ''protocol-lab'' \<or>
          \<not> matchesBinaryMetadata (headerGet h ''x-plab-bin-bin''))
        then (Returned, writeGRPCError ''3'' ''fixed request metadata mismatch'' w)
        else if method = ''ClientCancellation'' then handleClientCancellation z w
        else if method \<in> set [''ServerStreamingEcho'', ''ClientStreamingEcho'', ''BidirectionalStreamingEcho'']
        then (Returned, handleStreaming method w)
        else (case readAllBody (maxFrameBytes + 1) w of
            (Inl e, w1) \<Rightarrow> (Returned, writeGRPCError ''13'' ''request read failed'' w1)
          | (Inr body, w1) \<Rightarrow>
              (case decodeFrame z body compression of
                 Inl e \<Rightarrow> (Returned, writeGRPCError ''3'' ''invalid deterministic request'' w1)
               | Inr (protobuf, payload) \<Rightarrow>
                   if \<not> validScenarioPayload method payload protobuf
                   then (Returned, writeGRPCError ''3'' ''invalid deterministic request'' w1)
                   else if method = ''DeadlineExceeded'' then
                     (if headerGet h ''grpc-timeout'' \<noteq> ''50m''
                      then (Returned, writeGRPCError ''3'' ''grpc-timeout must be exactly 50m'' w1)
                      else (ReturnedAfter 250000000, w1))
                   else if method = ''TrailersOnlyStatus'' then
                     (Returned, writeHeader 200 (setHeader ''grpc-message'' ''plab invalid fixture''
                       (setHeader ''grpc-status'' ''3'' (setHeader ''grpc-encoding'' ''identity''
                         (setHeader ''Content-Type'' ''application/grpc+proto'' w1)))))
                   else answerUnary z method compression protobuf w1))))"

definition envOrDefault :: "env \<Rightarrow> string \<Rightarrow> string \<Rightarrow> string" where
  "envOrDefault env name fallback =
     (let v = trimSpace (env name) in if v \<noteq> '''' then v else fallback)"

definition configuredListenAddress :: "env \<Rightarrow> string" where
  "configuredListenAddress env =
     (if trimSpace (env ''PLAB_LISTEN_ADDRESS'') \<noteq> '''' then trimSpace (env ''PLAB_LISTEN_ADDRESS'')
      else if trimSpace (env ''PLAB_TARGET_PORT'') \<noteq> ''''
      then ''127.0.0.1:'' @ trimSpace (env ''PLAB_TARGET_PORT'')
      else ''127.0.0.1:18444'')"

end
