(* ===== verification/Grpc_Executor.thy ===== *)
theory Grpc_Executor
  imports Grpc_Server Go_Sha256 Go_Float
begin

text \<open>
  The gRPC executor of \<^verbatim>\<open>executors/go-grpc-h2-executor/source/main.go\<close>: scenario
  specifications, the message formats, the invocation of one RPC and its validity checks, the
  terminal-status invocations, the runs over one channel or over a new channel per operation,
  and the selection checks. TLS and HTTP/2 are libraries: a channel is what dialling it and its
  round trips return.
\<close>

unbundle bit_operations_syntax

section \<open>Constants and scenarios\<close>

definition executorID :: string where "executorID = ''go-grpc-h2-executor''"
definition executorVersion :: string where "executorVersion = ''0.4.2''"
definition loadGeneratorID :: string where "loadGeneratorID = ''go-x-net-http2-grpc-load''"
definition loadGeneratorVersion :: string where "loadGeneratorVersion = ''0.4.2''"
definition loadProfileSmoke :: string where "loadProfileSmoke = ''grpc-h2-smoke''"
definition loadProfileDiagnostic :: string where "loadProfileDiagnostic = ''grpc-h2-diagnostic''"
definition loadProfileChannelChurn :: string where "loadProfileChannelChurn = ''grpc-h2-channel-churn''"
definition protocolVariant :: string where "protocolVariant = ''grpc-over-h2-tls-alpn''"
definition protocolVariantNewChannel :: string where
  "protocolVariantNewChannel = ''grpc-over-h2-tls-new-channel''"
definition expectedLeafCertificateHash :: string where
  "expectedLeafCertificateHash = ''4627eed7781247db01e5641e4799e1c71e45543c10e304c99ed74b6e0bc0e254''"
definition expectedLeafSPKIHash :: string where
  "expectedLeafSPKIHash = ''83737e10fac4d3acac8245615dc510b8c12deb8f4756af3eaddf21118f18e4ea''"
definition expectedRootPEMHash :: string where
  "expectedRootPEMHash = ''dda81fe80d268bbd91993339ceef728a7e9e181d1faee88af35d73be2a7b039b''"

record scenario_spec =
  sc_id :: string
  sc_method :: string
  sc_path :: string
  sc_rpcType :: string
  sc_compression :: string
  sc_metadataProfile :: string
  sc_payload :: bytes
  sc_payloadHash :: string
  sc_protobufHash :: string
  sc_frameHash :: string
  sc_protobufBytes :: nat
  sc_frameBytes :: nat
  sc_requestCount :: nat
  sc_responseCount :: nat
  sc_deadline :: int
  sc_terminalMode :: string
  sc_expectedStatus :: string
  sc_expectedMessage :: string
  sc_lifecycle :: string

text \<open>The protobuf encoding: the tag, the length as a variable-length integer, the payload.\<close>

function varint :: "nat \<Rightarrow> bytes" where
  "varint n = (if n \<ge> 0x80 then (of_nat n OR 0x80) # varint (n div 128) else [of_nat n])"
  by pat_completeness auto
termination
  by (relation "measure (\<lambda>n. n)") auto

declare varint.simps [simp del]

definition encodeProtobuf :: "bytes \<Rightarrow> bytes" where
  "encodeProtobuf payload = (if payload = [] then [] else [0x0a] @ varint (length payload) @ payload)"

definition encodeFrame :: "gzip_codec \<Rightarrow> bytes \<Rightarrow> string \<Rightarrow> bytes go" where
  "encodeFrame z protobuf compression =
     (if compression = ''gzip'' then
        (case gz_compress z protobuf of
           Inl e \<Rightarrow> Inl e
         | Inr message \<Rightarrow> Inr ([1] @ be32 (of_nat (length message)) @ message))
      else Inr ([0] @ be32 (of_nat (length protobuf)) @ protobuf))"

text \<open>A frame whose encoding error is ignored, as \<^verbatim>\<open>frame, _ :=\<close> does.\<close>

definition frameOf :: "gzip_codec \<Rightarrow> bytes \<Rightarrow> string \<Rightarrow> bytes" where
  "frameOf z protobuf compression =
     (case encodeFrame z protobuf compression of Inl e \<Rightarrow> [] | Inr frame \<Rightarrow> frame)"

definition echoPath :: "string \<Rightarrow> string" where
  "echoPath method = ''/protocollab.performance.v1.EchoService/'' @ method"

definition makeIdentitySpec :: "gzip_codec \<Rightarrow> string \<Rightarrow> string \<Rightarrow> bytes \<Rightarrow> int \<Rightarrow> scenario_spec" where
  "makeIdentitySpec z i method payload deadline =
     (let protobuf = encodeProtobuf payload; frame = frameOf z protobuf ''identity'' in
      \<lparr>sc_id = i, sc_method = method, sc_path = echoPath method, sc_rpcType = ''unary'',
       sc_compression = ''identity'', sc_metadataProfile = ''fixed-empty-user-metadata'',
       sc_payload = payload, sc_payloadHash = sha256Hex payload, sc_protobufHash = sha256Hex protobuf,
       sc_frameHash = sha256Hex frame, sc_protobufBytes = length protobuf, sc_frameBytes = length frame,
       sc_requestCount = 1, sc_responseCount = 1, sc_deadline = deadline, sc_terminalMode = '''',
       sc_expectedStatus = ''0'', sc_expectedMessage = '''', sc_lifecycle = ''pre-established-channel''\<rparr>)"

definition makeStreamingSpec ::
  "gzip_codec \<Rightarrow> string \<Rightarrow> string \<Rightarrow> string \<Rightarrow> nat \<Rightarrow> nat \<Rightarrow> scenario_spec" where
  "makeStreamingSpec z i method rpcType requestCount responseCount =
     (let payload = replicate 1024 66; protobuf = encodeProtobuf payload;
          frame = frameOf z protobuf ''identity'' in
      \<lparr>sc_id = i, sc_method = method, sc_path = echoPath method, sc_rpcType = rpcType,
       sc_compression = ''identity'', sc_metadataProfile = ''fixed-empty-user-metadata'',
       sc_payload = payload, sc_payloadHash = sha256Hex payload, sc_protobufHash = sha256Hex protobuf,
       sc_frameHash = sha256Hex frame, sc_protobufBytes = length protobuf, sc_frameBytes = length frame,
       sc_requestCount = requestCount, sc_responseCount = responseCount, sc_deadline = 15 * 10 ^ 9,
       sc_terminalMode = '''', sc_expectedStatus = ''0'', sc_expectedMessage = '''',
       sc_lifecycle = ''pre-established-channel''\<rparr>)"

definition gzipSpec :: "gzip_codec \<Rightarrow> string \<Rightarrow> scenario_spec" where
  "gzipSpec z i =
     (let payload = replicate 1024 66; protobuf = encodeProtobuf payload; frame = frameOf z protobuf ''gzip'' in
      \<lparr>sc_id = i, sc_method = ''UnaryGzip'', sc_path = echoPath ''UnaryGzip'', sc_rpcType = ''unary'',
       sc_compression = ''gzip'', sc_metadataProfile = ''fixed-empty-user-metadata'',
       sc_payload = payload, sc_payloadHash = sha256Hex payload, sc_protobufHash = sha256Hex protobuf,
       sc_frameHash = sha256Hex frame, sc_protobufBytes = length protobuf, sc_frameBytes = length frame,
       sc_requestCount = 1, sc_responseCount = 1, sc_deadline = 5 * 10 ^ 9, sc_terminalMode = '''',
       sc_expectedStatus = '''', sc_expectedMessage = '''', sc_lifecycle = ''''\<rparr>)"

definition specFor :: "gzip_codec \<Rightarrow> string \<Rightarrow> scenario_spec option" where
  "specFor z i =
     (let fixture = replicate 128 (71 :: byte) in
      if i = ''grpc.h2.unary.echo'' then Some (makeIdentitySpec z i ''UnaryEcho'' fixture (5 * 10 ^ 9))
      else if i = ''grpc.h2.unary.empty'' then Some (makeIdentitySpec z i ''UnaryEcho'' [] (5 * 10 ^ 9))
      else if i = ''grpc.h2.unary.fixed-metadata''
      then Some ((makeIdentitySpec z i ''UnaryFixedMetadata'' fixture (5 * 10 ^ 9))
        \<lparr>sc_metadataProfile := ''fixed-ascii-and-binary-metadata-v1''\<rparr>)
      else if i = ''grpc.h2.unary.gzip'' then Some (gzipSpec z i)
      else if i = ''grpc.h2.unary.large''
      then Some (makeIdentitySpec z i ''UnaryEcho'' (replicate (2 ^ 20) 76) (10 * 10 ^ 9))
      else if i = ''grpc.h2.server-streaming.echo''
      then Some (makeStreamingSpec z i ''ServerStreamingEcho'' ''server-streaming'' 1 100)
      else if i = ''grpc.h2.client-streaming.echo''
      then Some (makeStreamingSpec z i ''ClientStreamingEcho'' ''client-streaming'' 100 1)
      else if i = ''grpc.h2.bidi-streaming.echo''
      then Some (makeStreamingSpec z i ''BidirectionalStreamingEcho'' ''bidirectional-streaming'' 100 100)
      else if i = ''grpc.h2.trailers-only-status''
      then Some ((makeIdentitySpec z i ''TrailersOnlyStatus'' fixture (5 * 10 ^ 9))
        \<lparr>sc_responseCount := 0, sc_terminalMode := ''trailers-only'', sc_expectedStatus := ''3'',
         sc_expectedMessage := ''plab invalid fixture''\<rparr>)
      else if i = ''grpc.h2.deadline-exceeded''
      then Some ((makeIdentitySpec z i ''DeadlineExceeded'' fixture (50 * 10 ^ 6))
        \<lparr>sc_responseCount := 0, sc_terminalMode := ''deadline-exceeded'', sc_expectedStatus := ''4''\<rparr>)
      else if i = ''grpc.h2.client-cancellation''
      then Some ((makeIdentitySpec z i ''ClientCancellation'' fixture (5 * 10 ^ 9))
        \<lparr>sc_rpcType := ''server-streaming'', sc_responseCount := 0,
         sc_terminalMode := ''client-cancellation'', sc_expectedStatus := ''1''\<rparr>)
      else if i = ''grpc.h2.unary.echo-new-channel''
      then Some ((makeIdentitySpec z i ''UnaryEcho'' fixture (5 * 10 ^ 9))
        \<lparr>sc_lifecycle := ''new-channel-per-operation''\<rparr>)
      else None)"

definition supportedScenarioIDs :: "string list" where
  "supportedScenarioIDs = [''grpc.h2.unary.echo'', ''grpc.h2.unary.empty'',
     ''grpc.h2.unary.fixed-metadata'', ''grpc.h2.unary.gzip'', ''grpc.h2.unary.large'',
     ''grpc.h2.server-streaming.echo'', ''grpc.h2.client-streaming.echo'',
     ''grpc.h2.bidi-streaming.echo'', ''grpc.h2.trailers-only-status'',
     ''grpc.h2.deadline-exceeded'', ''grpc.h2.client-cancellation'', ''grpc.h2.unary.echo-new-channel'']"

section \<open>Responses\<close>

text \<open>The executor has its own copy of the protobuf decoder; its loop is that of the target.\<close>

fun decodeProtobuf :: "bytes \<Rightarrow> bytes go" where
  "decodeProtobuf [] = Inr []"
| "decodeProtobuf (b # p) =
     (if b \<noteq> 0x0a then Inl (Errorf ''unexpected protobuf field'')
      else (case varintLoop p 0 0 of
          None \<Rightarrow> Inl (Errorf ''invalid protobuf length'')
        | Some (n, rest) \<Rightarrow>
            if sint n \<noteq> int (length rest) then Inl (Errorf ''protobuf payload length mismatch'')
            else Inr rest))"

definition decodeFrame :: "gzip_codec \<Rightarrow> bytes \<Rightarrow> string \<Rightarrow> (bytes \<times> bytes) go" where
  "decodeFrame z frame compression =
     (if length frame < 5 \<or> unat (uint32 (take 4 (drop 1 frame))) \<noteq> length frame - 5
      then Inl (Errorf ''invalid gRPC envelope'')
      else (case (if compression = ''gzip''
                  then (if hd frame \<noteq> 1 then Inl (Errorf ''gzip compressed flag mismatch'')
                        else gz_decompress z (drop 5 frame))
                  else (if hd frame \<noteq> 0 then Inl (Errorf ''identity compressed flag mismatch'')
                        else Inr (drop 5 frame))) of
          Inl e \<Rightarrow> Inl e
        | Inr message \<Rightarrow>
            (case decodeProtobuf message of Inl e \<Rightarrow> Inl e | Inr payload \<Rightarrow> Inr (message, payload))))"

definition validateResponseFrame :: "gzip_codec \<Rightarrow> bytes \<Rightarrow> scenario_spec \<Rightarrow> go_error option" where
  "validateResponseFrame z frame spec =
     (case decodeFrame z frame (sc_compression spec) of
        Inl e \<Rightarrow> Some e
      | Inr (protobuf, payload) \<Rightarrow>
          if length payload \<noteq> length (sc_payload spec) \<or> sha256Hex payload \<noteq> sc_payloadHash spec \<or>
             length protobuf \<noteq> sc_protobufBytes spec \<or> sha256Hex protobuf \<noteq> sc_protobufHash spec
          then Some (Errorf ''response payload/protobuf byte-scope mismatch'')
          else if sc_compression spec = ''identity'' \<and>
            (length frame \<noteq> sc_frameBytes spec \<or> sha256Hex frame \<noteq> sc_frameHash spec)
          then Some (Errorf ''identity response frame mismatch'')
          else None)"

text \<open>The read loop. \<open>index\<close> counts the messages, \<open>arrival\<close> tells when each one arrived; the result
  has the bytes, the arrival arrived, the count and the error.\<close>

type_synonym frames_result = "bytes \<times> int list \<times> nat \<times> go_error option"

definition messageError :: "nat \<Rightarrow> string \<Rightarrow> go_error \<Rightarrow> go_error" where
  "messageError index what e = Wrapf (''response message '' @ itoa index @ what) e"

fun framesLoop ::
  "gzip_codec \<Rightarrow> scenario_spec \<Rightarrow> (nat \<Rightarrow> int) \<Rightarrow> nat \<Rightarrow> nat \<Rightarrow> bytes \<Rightarrow> int list \<Rightarrow> conn \<Rightarrow>
   frames_result \<times> conn" where
  "framesLoop z spec arrival 0 index agg arrived c = ((agg, arrived, index, None), c)"
| "framesLoop z spec arrival (Suc n) index agg arrived c =
     (case readFull 5 c of
        (Inl e, c1) \<Rightarrow> ((agg, arrived, index, Some (messageError index '' header'' e)), c1)
      | (Inr header, c1) \<Rightarrow>
          (let len = unat (uint32 (tl header)) in
           if len > 2 * 2 ^ 20
           then ((agg, arrived, index, Some (Errorf (''response message '' @ itoa index @ '' length is out of range''))), c1)
           else (case readFull len c1 of
               (Inl e, c2) \<Rightarrow> ((agg, arrived, index, Some (messageError index '' body'' e)), c2)
             | (Inr message, c2) \<Rightarrow>
                 (case validateResponseFrame z (header @ message) spec of
                    Some e \<Rightarrow> ((agg, arrived, index, Some (messageError index '''' e)), c2)
                  | None \<Rightarrow> framesLoop z spec arrival n (Suc index) (agg @ header @ message)
                      (arrived @ [arrival index]) c2))))"

definition readAndValidateResponseFrames ::
  "gzip_codec \<Rightarrow> conn \<Rightarrow> scenario_spec \<Rightarrow> (nat \<Rightarrow> int) \<Rightarrow> frames_result" where
  "readAndValidateResponseFrames z c spec arrival =
     (case framesLoop z spec arrival (sc_responseCount spec) 0 [] [] c of
        ((agg, arrived, n, Some e), _) \<Rightarrow> (agg, arrived, n, Some e)
      | ((agg, arrived, n, None), c1) \<Rightarrow>
          if halfClosed c1 then (agg, arrived, sc_responseCount spec, None)
          else (agg, arrived, sc_responseCount spec,
            Some (Errorf ''response stream contains unexpected data after the canonical message count'')))"

definition isGRPCContentType :: "string \<Rightarrow> bool" where
  "isGRPCContentType v \<longleftrightarrow>
     toLower (trimSpace (hd (splitOn CHR '';'' v))) \<in> {''application/grpc'', ''application/grpc+proto''}"

definition matchesBinaryMetadata :: "string \<Rightarrow> bool" where
  "matchesBinaryMetadata v \<longleftrightarrow> rawStdDecode (trimRightEq v) = Some [0, 1, 2, 3]"

section \<open>One RPC\<close>

record rpc_observation =
  o_HTTPStatus :: int
  o_HTTPVersion :: "nat \<times> nat"
  o_ContentType :: string
  o_TrailersPresent :: bool
  o_GRPCStatus :: string
  o_GRPCEncoding :: string
  o_ResponseFrameBytes :: nat
  o_ResponseFrameHash :: string
  o_RequestMessageCount :: nat
  o_ResponseMessageCount :: nat
  o_ClientHalfClosed :: bool
  o_OrderedEcho :: bool
  o_StreamComplete :: bool
  o_TimeToFirstMessageNanos :: int
  o_MessageArrivalNanos :: "int list"
  o_ResponseInitialText :: string
  o_ResponseTrailingBinary :: string
  o_GRPCMessage :: string
  o_ReadyInitialMetadata :: bool
  o_ClientCancelTriggered :: bool
  o_DeadlineFired :: bool
  o_TrailersOnly :: bool
  o_NoResponseData :: bool
  o_ExpectedTerminalOutcome :: bool
  o_LatencyNanos :: int
  o_Passed :: bool
  o_TimedOut :: bool
  o_Error :: string
  o_ResponseFrame :: bytes

definition noObservation :: rpc_observation where
  "noObservation =
     \<lparr>o_HTTPStatus = 0, o_HTTPVersion = (0, 0), o_ContentType = '''', o_TrailersPresent = False,
      o_GRPCStatus = '''', o_GRPCEncoding = '''', o_ResponseFrameBytes = 0, o_ResponseFrameHash = '''',
      o_RequestMessageCount = 0, o_ResponseMessageCount = 0, o_ClientHalfClosed = False,
      o_OrderedEcho = False, o_StreamComplete = False, o_TimeToFirstMessageNanos = 0,
      o_MessageArrivalNanos = [], o_ResponseInitialText = '''', o_ResponseTrailingBinary = '''',
      o_GRPCMessage = '''', o_ReadyInitialMetadata = False, o_ClientCancelTriggered = False,
      o_DeadlineFired = False, o_TrailersOnly = False, o_NoResponseData = False,
      o_ExpectedTerminalOutcome = False, o_LatencyNanos = 0, o_Passed = False, o_TimedOut = False,
      o_Error = '''', o_ResponseFrame = []\<rparr>"

text \<open>What the calls of one invocation return: building the request, the round trip for the request
  and its body, the clock at its return, at each message and at the end, the error of the context
  afterwards, and the read of the body after a cancellation.\<close>

record rpc_env =
  e_newRequest :: "go_error option"
  e_roundTrip :: "h2_request \<Rightarrow> bytes \<Rightarrow> h2_response go"
  e_headerNanos :: int
  e_arrival :: "nat \<Rightarrow> int"
  e_endNanos :: int
  e_contextErr :: "go_error option"
  e_cancelledRead :: "conn \<Rightarrow> bytes \<times> go_error option"

definition contextCanceled :: go_error where
  "contextCanceled = NetError ''context canceled''"

definition rpcRequest :: "scenario_spec \<Rightarrow> http_header \<Rightarrow> h2_request" where
  "rpcRequest spec extra =
     \<lparr>q_ProtoMajor = 2, q_TLSVersion = Some 0x304, q_ALPN = ''h2'', q_Method = ''POST'', q_Path = sc_path spec,
      q_Header = [(''Content-Type'', ''application/grpc+proto''), (''Te'', ''trailers''),
        (''grpc-encoding'', sc_compression spec), (''grpc-accept-encoding'', sc_compression spec)] @ extra\<rparr>"

definition metadataProfileV1 :: string where
  "metadataProfileV1 = ''fixed-ascii-and-binary-metadata-v1''"

text \<open>The checks of a response, as a list of problems.\<close>

definition responseProblems ::
  "scenario_spec \<Rightarrow> h2_response \<Rightarrow> nat \<Rightarrow> go_error option \<Rightarrow> string list" where
  "responseProblems spec resp responseCount readErr =
     (let status = headerGet (p_Trailer resp) ''grpc-status'' in
      (case readErr of Some e \<Rightarrow> [errorText e] | None \<Rightarrow> []) @
      (if p_ProtoMajor resp \<noteq> 2 \<or> p_ProtoMinor resp \<noteq> 0 then [''HTTP/2 fallback detected''] else []) @
      (if p_StatusCode resp \<noteq> 200 then [''expected HTTP 200, observed '' @ itoa (p_StatusCode resp)] else []) @
      (if \<not> isGRPCContentType (headerGet (p_Header resp) ''Content-Type'')
       then [''unexpected response content type''] else []) @
      (if status \<noteq> ''0'' \<or> status = '''' then [''missing successful gRPC trailers''] else []) @
      (if responseCount \<noteq> sc_responseCount spec
       then [''expected '' @ itoa (sc_responseCount spec) @ '' response messages, observed '' @ itoa responseCount]
       else []) @
      (if sc_rpcType spec \<in> {''client-streaming'', ''bidirectional-streaming''} \<and> \<not> sc_requestCount spec > 1
       then [''client half-close was not proven''] else []) @
      (if sc_compression spec = ''gzip'' \<and> headerGet (p_Header resp) ''grpc-encoding'' \<noteq> ''gzip''
       then [''gzip response encoding not proven''] else []) @
      (if sc_metadataProfile spec = metadataProfileV1 \<and>
          (headerGet (p_Header resp) ''x-plab-text'' \<noteq> ''protocol-lab'' \<or>
           \<not> matchesBinaryMetadata (headerGet (p_Trailer resp) ''x-plab-bin-bin''))
       then [''fixed response metadata mismatch''] else []))"

definition invoke :: "gzip_codec \<Rightarrow> rpc_env \<Rightarrow> bytes \<Rightarrow> scenario_spec \<Rightarrow> rpc_observation" where
  "invoke z env requestFrames spec =
     (case e_newRequest env of
        Some e \<Rightarrow> noObservation\<lparr>o_Error := errorText e\<rparr>
      | None \<Rightarrow>
          (let req = rpcRequest spec (if sc_metadataProfile spec = metadataProfileV1
                 then [(''x-plab-text'', ''protocol-lab''), (''x-plab-bin-bin'', ''AAECAw=='')] else []) in
           case e_roundTrip env req requestFrames of
             Inl e \<Rightarrow> noObservation\<lparr>o_LatencyNanos := e_headerNanos env, o_TimedOut := isTimeout e,
                 o_Error := errorText e\<rparr>
           | Inr resp \<Rightarrow>
               (case readAndValidateResponseFrames z (p_Body resp) spec (e_arrival env) of
                  (body, arrived, responseCount, readErr) \<Rightarrow>
                    let problems = responseProblems spec resp responseCount readErr in
                    noObservation
                      \<lparr>o_ResponseFrame := body, o_LatencyNanos := e_endNanos env,
                       o_HTTPStatus := int (p_StatusCode resp),
                       o_HTTPVersion := (p_ProtoMajor resp, p_ProtoMinor resp),
                       o_ContentType := headerGet (p_Header resp) ''Content-Type'',
                       o_GRPCEncoding := headerGet (p_Header resp) ''grpc-encoding'',
                       o_ResponseInitialText := headerGet (p_Header resp) ''x-plab-text'',
                       o_TrailersPresent := headerGet (p_Trailer resp) ''grpc-status'' \<noteq> '''',
                       o_GRPCStatus := headerGet (p_Trailer resp) ''grpc-status'',
                       o_ResponseTrailingBinary := headerGet (p_Trailer resp) ''x-plab-bin-bin'',
                       o_ResponseFrameBytes := length body, o_ResponseFrameHash := sha256Hex body,
                       o_RequestMessageCount := sc_requestCount spec,
                       o_ResponseMessageCount := responseCount,
                       o_ClientHalfClosed := sc_requestCount spec > 1,
                       o_OrderedEcho := responseCount = sc_responseCount spec,
                       o_StreamComplete := readErr = None \<and> responseCount = sc_responseCount spec,
                       o_MessageArrivalNanos := arrived,
                       o_TimeToFirstMessageNanos := (case arrived of [] \<Rightarrow> 0 | t # _ \<Rightarrow> t),
                       o_Passed := problems = [], o_Error := joinWith ''; '' problems\<rparr>)))"

text \<open>The three terminal outcomes; the error texts are kept without the values printed after them.\<close>

definition deadlineOutcome :: "rpc_env \<Rightarrow> h2_response go \<Rightarrow> rpc_observation \<Rightarrow> rpc_observation" where
  "deadlineOutcome env res r =
     (let latency = e_headerNanos env;
          fired = (case res of Inl e \<Rightarrow> errorsIs e TimeoutError | Inr _ \<Rightarrow> False) \<or>
            (case e_contextErr env of Some e \<Rightarrow> errorsIs e TimeoutError | None \<Rightarrow> False);
          noData = (case res of Inl _ \<Rightarrow> True | Inr _ \<Rightarrow> False);
          outcome = fired \<and> noData \<and> latency \<ge> 40 * 10 ^ 6 \<and> latency < 250 * 10 ^ 6 in
      r\<lparr>o_LatencyNanos := latency, o_DeadlineFired := fired, o_GRPCStatus := ''4'', o_NoResponseData := noData,
        o_ExpectedTerminalOutcome := outcome, o_Passed := outcome,
        o_Error := (if outcome then '''' else ''deadline outcome mismatch'')\<rparr>)"

definition cancellationOutcome :: "rpc_env \<Rightarrow> h2_response \<Rightarrow> rpc_observation \<Rightarrow> rpc_observation" where
  "cancellationOutcome env resp r =
     (case e_cancelledRead env (p_Body resp) of (body, readErr) \<Rightarrow>
        let ready = headerGet (p_Header resp) ''x-plab-ready'' = ''1'';
            cancelled = (case readErr of Some e \<Rightarrow> errorsIs e contextCanceled | None \<Rightarrow> False) \<or>
              (case e_contextErr env of Some e \<Rightarrow> errorsIs e contextCanceled | None \<Rightarrow> False);
            outcome = ready \<and> cancelled \<and> body = [] \<and> p_ProtoMajor resp = 2 \<and> p_StatusCode resp = 200 in
        r\<lparr>o_ReadyInitialMetadata := ready, o_LatencyNanos := e_endNanos env,
          o_ClientCancelTriggered := cancelled, o_GRPCStatus := ''1'', o_NoResponseData := body = [],
          o_ExpectedTerminalOutcome := outcome, o_Passed := outcome,
          o_Error := (if outcome then '''' else ''cancellation outcome mismatch'')\<rparr>)"

definition trailersOnlyOutcome ::
  "rpc_env \<Rightarrow> scenario_spec \<Rightarrow> h2_response \<Rightarrow> rpc_observation \<Rightarrow> rpc_observation" where
  "trailersOnlyOutcome env spec resp r =
     (let c = p_Body resp; body = conn_in c; readErr = conn_end c \<noteq> EOF;
          status = headerGet (p_Header resp) ''grpc-status''; msg = headerGet (p_Header resp) ''grpc-message'';
          only = status \<noteq> '''' \<and> body = [];
          outcome = \<not> readErr \<and> p_ProtoMajor resp = 2 \<and> p_StatusCode resp = 200 \<and>
            isGRPCContentType (headerGet (p_Header resp) ''Content-Type'') \<and>
            status = sc_expectedStatus spec \<and> msg = sc_expectedMessage spec \<and> only in
      r\<lparr>o_LatencyNanos := e_endNanos env, o_GRPCStatus := status, o_GRPCMessage := msg, o_TrailersOnly := only,
        o_TrailersPresent := only, o_NoResponseData := body = [], o_ExpectedTerminalOutcome := outcome,
        o_Passed := outcome, o_Error := (if outcome then '''' else ''trailers-only outcome mismatch'')\<rparr>)"

definition invokeTerminal :: "rpc_env \<Rightarrow> bytes \<Rightarrow> scenario_spec \<Rightarrow> rpc_observation" where
  "invokeTerminal env requestFrame spec =
     (let r = noObservation\<lparr>o_RequestMessageCount := 1\<rparr> in
      case e_newRequest env of
        Some e \<Rightarrow> r\<lparr>o_Error := errorText e\<rparr>
      | None \<Rightarrow>
          (let req = rpcRequest (spec\<lparr>sc_compression := ''identity''\<rparr>)
                 (if sc_terminalMode spec = ''deadline-exceeded'' then [(''grpc-timeout'', ''50m'')] else []);
               res = e_roundTrip env req requestFrame in
           if sc_terminalMode spec = ''deadline-exceeded'' then deadlineOutcome env res r
           else (case res of
               Inl e \<Rightarrow> r\<lparr>o_LatencyNanos := e_headerNanos env, o_Error := errorText e\<rparr>
             | Inr resp \<Rightarrow>
                 (let r1 = r\<lparr>o_HTTPStatus := int (p_StatusCode resp),
                        o_HTTPVersion := (p_ProtoMajor resp, p_ProtoMinor resp),
                        o_ContentType := headerGet (p_Header resp) ''Content-Type'',
                        o_GRPCEncoding := headerGet (p_Header resp) ''grpc-encoding''\<rparr> in
                  if sc_terminalMode spec = ''client-cancellation'' then cancellationOutcome env resp r1
                  else trailersOnlyOutcome env spec resp r1))))"

section \<open>Channels\<close>

text \<open>What opening a channel meets: whether the target URL is absolute and https, the root
  certificate file and whether it parses, the dial, the TLS handshake with the state it reaches
  (certificates as raw bytes and public key bytes), and the HTTP/2 connection.\<close>

record tls_state =
  ts_Version :: nat
  ts_ALPN :: string
  ts_Mutual :: bool
  ts_DidResume :: bool
  ts_Peers :: "(bytes \<times> bytes) list"

record channel_env =
  c_urlOk :: bool
  c_rootPEM :: "bytes go"
  c_rootsParse :: bool
  c_dial :: "go_error option"
  c_handshake :: "go_error option"
  c_state :: tls_state
  c_newConn :: "go_error option"

definition loadTargetAndRoots :: "channel_env \<Rightarrow> go_error option" where
  "loadTargetAndRoots ch =
     (if \<not> c_urlOk ch then Some (Errorf ''target URL must be an absolute https URL'')
      else (case c_rootPEM ch of
          Inl e \<Rightarrow> Some e
        | Inr pem \<Rightarrow>
            if sha256Hex pem \<noteq> expectedRootPEMHash then Some (Errorf ''trusted root certificate hash mismatch'')
            else if \<not> c_rootsParse ch then Some (Errorf ''trusted root certificate could not be parsed'')
            else None))"

definition pinnedLeaf :: "bytes \<times> bytes \<Rightarrow> bool" where
  "pinnedLeaf leaf \<longleftrightarrow>
     sha256Hex (fst leaf) = expectedLeafCertificateHash \<and> sha256Hex (snd leaf) = expectedLeafSPKIHash"

definition openChannel :: "channel_env \<Rightarrow> (bytes \<times> bytes) go" where
  "openChannel ch =
     (case c_dial ch of Some e \<Rightarrow> Inl e
      | None \<Rightarrow> (case c_handshake ch of Some e \<Rightarrow> Inl e
        | None \<Rightarrow>
            (let st = c_state ch in
             if ts_Version st \<noteq> 0x304 \<or> ts_ALPN st \<noteq> ''h2'' \<or> \<not> ts_Mutual st \<or> ts_DidResume st \<or>
                length (ts_Peers st) \<noteq> 1
             then Inl (Errorf ''exact full TLS 1.3, mutual ALPN h2, and one authenticated leaf certificate are required'')
             else if \<not> pinnedLeaf (hd (ts_Peers st))
             then Inl (Errorf ''authenticated leaf certificate identity mismatch'')
             else (case c_newConn ch of Some e \<Rightarrow> Inl e | None \<Rightarrow> Inr (hd (ts_Peers st))))))"

text \<open>The same steps in \<^verbatim>\<open>execute\<close>, which does not look at session resumption.\<close>

definition establish :: "channel_env \<Rightarrow> go_error option" where
  "establish ch =
     (case loadTargetAndRoots ch of Some e \<Rightarrow> Some e
      | None \<Rightarrow> (case c_dial ch of Some e \<Rightarrow> Some e
        | None \<Rightarrow> (case c_handshake ch of Some e \<Rightarrow> Some e
          | None \<Rightarrow>
              (let st = c_state ch in
               if ts_Version st \<noteq> 0x304 \<or> ts_ALPN st \<noteq> ''h2'' \<or> \<not> ts_Mutual st \<or> length (ts_Peers st) \<noteq> 1
               then Some (Errorf ''exact TLS 1.3, mutual ALPN h2, and one authenticated leaf certificate are required'')
               else if \<not> pinnedLeaf (hd (ts_Peers st))
               then Some (Errorf ''authenticated leaf certificate identity mismatch'')
               else c_newConn ch))))"

section \<open>Metrics\<close>

definition meanMilliseconds :: "int list \<Rightarrow> rat" where
  "meanMilliseconds values =
     fdiv (fdiv (f64 (of_int (sum_list values))) (f64 (of_nat (length values)))) (10 ^ 6)"

definition percentileIndex :: "nat \<Rightarrow> rat \<Rightarrow> int" where
  "percentileIndex n quantile = (let index = \<lceil>fmul quantile (f64 (of_nat n))\<rceil> - 1 in if index < 0 then 0 else index)"

definition percentileMilliseconds :: "int list \<Rightarrow> rat \<Rightarrow> rat" where
  "percentileMilliseconds values quantile =
     fdiv (f64 (of_int (sort values ! nat (percentileIndex (length values) quantile)))) (10 ^ 6)"

definition nanosToMillis :: "int \<Rightarrow> rat" where
  "nanosToMillis ns = fdiv (f64 (of_int ns)) (10 ^ 6)"

record grpc_metrics =
  g_rpcsPerSecond :: rat
  g_messagesPerSecond :: rat
  g_bytesPerSecond :: rat
  g_completed :: int
  g_failed :: int
  g_deadlineExceeded :: int
  g_cancelled :: int
  g_timedOut :: int
  g_latencyMean :: rat
  g_latencyPercentiles :: "rat list"
  g_messageMean :: rat
  g_messagePercentiles :: "rat list"
  g_timeToFirstMessage :: rat
  g_networkRead :: int
  g_networkWritten :: int
  g_totalTransferred :: int

definition baseMetrics :: grpc_metrics where
  "baseMetrics =
     \<lparr>g_rpcsPerSecond = 0, g_messagesPerSecond = 0, g_bytesPerSecond = 0, g_completed = 0, g_failed = 1,
      g_deadlineExceeded = 0, g_cancelled = 0, g_timedOut = 0, g_latencyMean = 0, g_latencyPercentiles = [],
      g_messageMean = 0, g_messagePercentiles = [], g_timeToFirstMessage = 0, g_networkRead = 0,
      g_networkWritten = 0, g_totalTransferred = 0\<rparr>"

definition quantiles :: "rat list" where
  "quantiles = map f64 [50 / 100, 75 / 100, 90 / 100, 95 / 100, 99 / 100]"

record load_shape =
  ld_durationSeconds :: nat
  ld_warmupSeconds :: nat
  ld_repetition :: nat
  ld_totalRpcs :: nat

definition requestedLoad :: "string \<Rightarrow> load_shape" where
  "requestedLoad profile =
     (if profile = loadProfileChannelChurn
      then \<lparr>ld_durationSeconds = 30, ld_warmupSeconds = 0, ld_repetition = 3, ld_totalRpcs = 10\<rparr>
      else if profile = loadProfileDiagnostic
      then \<lparr>ld_durationSeconds = 10, ld_warmupSeconds = 0, ld_repetition = 1, ld_totalRpcs = 1\<rparr>
      else \<lparr>ld_durationSeconds = 5, ld_warmupSeconds = 1, ld_repetition = 1, ld_totalRpcs = 1\<rparr>)"

record execution_result =
  x_ScenarioID :: string
  x_LoadProfileID :: string
  x_RequestedLoad :: load_shape
  x_Passed :: bool
  x_Metrics :: grpc_metrics
  x_Checks :: "string list"
  x_Observation :: rpc_observation
  x_WarmupCompleted :: bool

definition baseResult :: "scenario_spec \<Rightarrow> string \<Rightarrow> execution_result" where
  "baseResult spec profile =
     \<lparr>x_ScenarioID = sc_id spec, x_LoadProfileID = profile, x_RequestedLoad = requestedLoad profile,
      x_Passed = False, x_Metrics = baseMetrics, x_Checks = [], x_Observation = noObservation,
      x_WarmupCompleted = False\<rparr>"

definition validationChecks :: "scenario_spec \<Rightarrow> string list" where
  "validationChecks s =
     [''tls-version:1.3'', ''alpn:h2'', ''no-fallback'', ''pre-established-channel'', ''channel-reused'',
      ''request-count:'' @ itoa (sc_requestCount s), ''response-count:'' @ itoa (sc_responseCount s),
      ''payload-sha256'', ''protobuf-sha256'', ''http-status:200'', ''content-type:application/grpc'',
      ''trailers-present'', ''grpc-status:0'', ''zero-failures'', ''zero-deadlines'',
      ''zero-cancellations'', ''zero-timeouts''] @
     (if sc_compression s = ''gzip''
      then [''grpc-encoding:gzip'', ''compressed-flag:1'', ''decompress-success'', ''gzip-encoder-provenance'']
      else [''grpc-frame-sha256'']) @
     (if sc_metadataProfile s = metadataProfileV1
      then [''request-ascii-metadata'', ''request-binary-metadata-decoded-bytes'',
        ''response-initial-ascii-metadata'', ''response-trailing-binary-metadata-decoded-bytes''] else []) @
     (if sc_requestCount s > 1 then [''client-half-close''] else []) @
     (if sc_responseCount s > 1 then [''stream-complete''] else []) @
     (if sc_rpcType s = ''bidirectional-streaming'' then [''ordered-one-to-one-echo''] else [])"

definition terminalValidationChecks :: "scenario_spec \<Rightarrow> string list" where
  "terminalValidationChecks s =
     [''tls-version:1.3'', ''alpn:h2'', ''no-fallback'', ''pre-established-channel'', ''retry-disabled'',
      ''hedging-disabled'', ''request-count:1'', ''response-count:0'', ''zero-unexpected-failures'',
      ''zero-timeouts''] @
     (if sc_terminalMode s = ''trailers-only''
      then [''http-status:200'', ''trailers-only'', ''no-response-data'', ''grpc-status:3'',
        ''grpc-message:plab-invalid-fixture'']
      else if sc_terminalMode s = ''deadline-exceeded''
      then [''grpc-timeout:50m'', ''client-deadline-fired'', ''grpc-status:4'', ''no-response-data'',
        ''expected-terminal-outcome'']
      else if sc_terminalMode s = ''client-cancellation''
      then [''ready-initial-metadata'', ''client-cancel-after-ready'', ''grpc-status:1'',
        ''no-response-data'', ''expected-terminal-outcome''] else [])"

definition rpcMetrics :: "rpc_observation \<Rightarrow> scenario_spec \<Rightarrow> int \<Rightarrow> int \<Rightarrow> grpc_metrics" where
  "rpcMetrics obs spec readBytes writtenBytes =
     (let done = o_Passed obs; lat = o_LatencyNanos obs; network = readBytes + writtenBytes;
          second = f64 (10 ^ 9); l = f64 (of_int lat);
          msgs = (if o_MessageArrivalNanos obs = [] then [lat] else o_MessageArrivalNanos obs) in
      \<lparr>g_rpcsPerSecond = (if lat > 0 \<and> done then fdiv second l else 0),
       g_messagesPerSecond = (if lat > 0 \<and> done
         then fdiv (fmul (f64 (of_nat (sc_requestCount spec + sc_responseCount spec))) second) l else 0),
       g_bytesPerSecond = (if lat > 0 then fdiv (fmul (f64 (of_int network)) second) l else 0),
       g_completed = (if done then 1 else 0), g_failed = (if done then 0 else 1),
       g_deadlineExceeded = 0, g_cancelled = 0, g_timedOut = (if o_TimedOut obs then 1 else 0),
       g_latencyMean = nanosToMillis lat, g_latencyPercentiles = map (\<lambda>_. nanosToMillis lat) quantiles,
       g_messageMean = meanMilliseconds msgs,
       g_messagePercentiles = map (percentileMilliseconds msgs) quantiles,
       g_timeToFirstMessage = nanosToMillis (o_TimeToFirstMessageNanos obs),
       g_networkRead = readBytes, g_networkWritten = writtenBytes, g_totalTransferred = network\<rparr>)"

section \<open>Runs\<close>

text \<open>A run over one channel: the warm-up invocation, the measured one, the bytes counted on
  the connection during the latter, and the time from the start of the dial.\<close>

record run_env =
  r_channel :: channel_env
  r_warm :: rpc_env
  r_rpc :: rpc_env
  r_read :: int
  r_written :: int
  r_elapsed :: int

definition execute ::
  "gzip_codec \<Rightarrow> run_env \<Rightarrow> scenario_spec \<Rightarrow> string \<Rightarrow> execution_result \<times> go_error option" where
  "execute z r spec profile =
     (let result = baseResult spec profile;
          frame = frameOf z (encodeProtobuf (sc_payload spec)) (sc_compression spec);
          requestFrames = concat (replicate (sc_requestCount spec) frame) in
      case establish (r_channel r) of
        Some e \<Rightarrow> (result, Some e)
      | None \<Rightarrow>
          (let smoke = profile = loadProfileSmoke; warm = invoke z (r_warm r) requestFrames spec in
           if smoke \<and> \<not> o_Passed warm
           then (result, Some (Errorf (''pre-established channel warmup failed: '' @ o_Error warm)))
           else (let obs = invoke z (r_rpc r) requestFrames spec;
                     ms = rpcMetrics obs spec (r_read r) (r_written r);
                     passed = o_Passed obs \<and> g_completed ms = 1 \<and> g_failed ms = 0 \<and> g_timedOut ms = 0 in
             (result\<lparr>x_Observation := obs, x_WarmupCompleted := smoke, x_Metrics := ms, x_Passed := passed,
                x_Checks := validationChecks spec\<rparr>,
              if passed then None else Some (Errorf (o_Error obs))))))"

definition executeTerminal ::
  "gzip_codec \<Rightarrow> run_env \<Rightarrow> scenario_spec \<Rightarrow> string \<Rightarrow> execution_result \<times> go_error option" where
  "executeTerminal z r spec profile =
     (let result = baseResult spec profile;
          frame = frameOf z (encodeProtobuf (sc_payload spec)) (sc_compression spec) in
      case loadTargetAndRoots (r_channel r) of
        Some e \<Rightarrow> (result, Some e)
      | None \<Rightarrow> (case openChannel (r_channel r) of
          Inl e \<Rightarrow> (result, Some e)
        | Inr leaf \<Rightarrow>
            (let obs = invokeTerminal (r_rpc r) frame spec; passed = o_Passed obs; lat = nanosToMillis (o_LatencyNanos obs);
                 ms = baseMetrics\<lparr>g_completed := (if passed then 1 else 0), g_failed := (if passed then 0 else 1),
                   g_deadlineExceeded := (if passed \<and> sc_terminalMode spec = ''deadline-exceeded'' then 1 else 0),
                   g_cancelled := (if passed \<and> sc_terminalMode spec = ''client-cancellation'' then 1 else 0),
                   g_latencyMean := lat, g_latencyPercentiles := map (\<lambda>_. lat) quantiles,
                   g_networkRead := r_read r, g_networkWritten := r_written r,
                   g_totalTransferred := r_read r + r_written r\<rparr> in
             (result\<lparr>x_Observation := obs, x_Metrics := ms, x_Passed := passed,
                x_Checks := terminalValidationChecks spec\<rparr>,
              if passed then None else Some (Errorf (o_Error obs))))))"

text \<open>The loop over new channels: each operation opens one; the state has the completed operations,
  their latencies, the bytes and the last observation.\<close>

record churn_state =
  k_latencies :: "int list"
  k_read :: int
  k_written :: int
  k_last :: rpc_observation

fun newChannelLoop ::
  "gzip_codec \<Rightarrow> scenario_spec \<Rightarrow> bytes \<Rightarrow> (nat \<Rightarrow> run_env) \<Rightarrow> nat list \<Rightarrow> churn_state \<Rightarrow> churn_state go" where
  "newChannelLoop z spec frame ops [] st = Inr st"
| "newChannelLoop z spec frame ops (i # is) st =
     (let r = ops i; label = ''new channel operation '' @ itoa i in
      case openChannel (r_channel r) of
        Inl e \<Rightarrow> Inl (Wrapf label e)
      | Inr leaf \<Rightarrow>
          (let obs = (invoke z (r_rpc r) frame spec)\<lparr>o_LatencyNanos := r_elapsed r\<rparr> in
           if \<not> o_Passed obs then Inl (Errorf (label @ '': '' @ o_Error obs))
           else newChannelLoop z spec frame ops is
             (st\<lparr>k_latencies := k_latencies st @ [o_LatencyNanos obs], k_read := k_read st + r_read r,
                 k_written := k_written st + r_written r, k_last := obs\<rparr>)))"

definition newChannelChecks :: "string list" where
  "newChannelChecks = [''tls-version:1.3'', ''alpn:h2'', ''no-fallback'',
     ''fresh-tls-connection-per-operation'', ''fresh-http2-channel-per-operation'', ''settings-observed'',
     ''channel-disposed-after-operation'', ''request-count:1'', ''response-count:1'', ''payload-sha256'',
     ''grpc-status:0'', ''zero-failures'', ''zero-deadlines'', ''zero-cancellations'', ''zero-timeouts'']"

definition executeNewChannel ::
  "gzip_codec \<Rightarrow> (nat \<Rightarrow> run_env) \<Rightarrow> scenario_spec \<Rightarrow> string \<Rightarrow> execution_result \<times> go_error option" where
  "executeNewChannel z ops spec profile =
     (let result = baseResult spec profile;
          frame = frameOf z (encodeProtobuf (sc_payload spec)) (sc_compression spec) in
      case loadTargetAndRoots (r_channel (ops 0)) of
        Some e \<Rightarrow> (result, Some e)
      | None \<Rightarrow>
          (case newChannelLoop z spec frame ops [0..<10]
              \<lparr>k_latencies = [], k_read = 0, k_written = 0, k_last = noObservation\<rparr> of
             Inl e \<Rightarrow> (result, Some e)
           | Inr st \<Rightarrow>
               (let completed = int (length (k_latencies st)) in
                (result\<lparr>x_Observation := k_last st, x_Passed := completed = 10,
                   x_Metrics := baseMetrics\<lparr>g_completed := completed, g_failed := 0,
                     g_latencyMean := meanMilliseconds (k_latencies st),
                     g_latencyPercentiles := map (percentileMilliseconds (k_latencies st)) quantiles,
                     g_networkRead := k_read st, g_networkWritten := k_written st,
                     g_totalTransferred := k_read st + k_written st\<rparr>,
                   x_Checks := newChannelChecks\<rparr>, None))))"

section \<open>Selection and the command\<close>

text \<open>The source ranges over a map, so which of several mismatches it reports is not determined;
  the model reports the first in the order of the text.\<close>

fun firstMismatch :: "env \<Rightarrow> string \<Rightarrow> (string \<times> string) list \<Rightarrow> go_error option" where
  "firstMismatch env suffix [] = None"
| "firstMismatch env suffix ((name, required) # rest) =
     (if trimSpace (env name) \<noteq> required
      then Some (Errorf (name @ '' '' @ quoted (trimSpace (env name)) @ '' is unsupported; expected '' @
        quoted required @ suffix))
      else firstMismatch env suffix rest)"

definition smokeScenarios :: "string list" where
  "smokeScenarios = [''grpc.h2.unary.echo'', ''grpc.h2.server-streaming.echo'',
     ''grpc.h2.client-streaming.echo'', ''grpc.h2.bidi-streaming.echo'']"

definition diagnosticScenarios :: "string list" where
  "diagnosticScenarios = [''grpc.h2.unary.empty'', ''grpc.h2.unary.fixed-metadata'',
     ''grpc.h2.unary.gzip'', ''grpc.h2.unary.large'']"

definition newChannel :: "scenario_spec \<Rightarrow> bool" where
  "newChannel spec \<longleftrightarrow> sc_lifecycle spec = ''new-channel-per-operation''"

definition validateSelection :: "env \<Rightarrow> scenario_spec \<Rightarrow> string go" where
  "validateSelection env spec =
     (let expected = [(''PLAB_EXECUTOR_ID'', executorID), (''PLAB_EXECUTOR_VERSION'', executorVersion),
        (''PLAB_LOAD_GENERATOR_ID'', loadGeneratorID), (''PLAB_LOAD_GENERATOR_VERSION'', loadGeneratorVersion),
        (''PLAB_SCENARIO_ID'', sc_id spec), (''PLAB_PROTOCOL'', ''h2''),
        (''PLAB_PROTOCOL_VARIANT'', if newChannel spec then protocolVariantNewChannel else protocolVariant)];
          profile = trimSpace (env ''PLAB_LOAD_PROFILE_ID'');
          load = (if profile = loadProfileChannelChurn then (''30'', ''0'', ''3'')
            else if profile = loadProfileDiagnostic then (''10'', ''0'', ''1'') else (''5'', ''1'', ''1''));
          expectedLoad = [(''PLAB_CONNECTIONS'', ''1''), (''PLAB_CONCURRENCY'', ''1''),
            (''PLAB_STREAMS_PER_CONNECTION'', ''1''), (''PLAB_DURATION_SECONDS'', fst load),
            (''PLAB_WARMUP_SECONDS'', fst (snd load)), (''PLAB_REPETITION'', snd (snd load))] in
      case firstMismatch env '''' expected of
        Some e \<Rightarrow> Inl e
      | None \<Rightarrow>
          if profile \<notin> {loadProfileSmoke, loadProfileDiagnostic, loadProfileChannelChurn}
          then Inl (Errorf (''PLAB_LOAD_PROFILE_ID '' @ quoted profile @ '' is unsupported''))
          else if profile = loadProfileSmoke \<and> sc_id spec \<notin> set smokeScenarios
          then Inl (Errorf (profile @ '' is not bound to '' @ sc_id spec))
          else if sc_terminalMode spec \<noteq> '''' \<and> profile \<noteq> loadProfileDiagnostic
          then Inl (Errorf (sc_id spec @ '' requires '' @ loadProfileDiagnostic))
          else if newChannel spec \<and> profile \<noteq> loadProfileChannelChurn
          then Inl (Errorf (sc_id spec @ '' requires '' @ loadProfileChannelChurn))
          else if profile = loadProfileDiagnostic \<and> sc_terminalMode spec = '''' \<and> \<not> newChannel spec \<and>
            sc_id spec \<notin> set diagnosticScenarios
          then Inl (Errorf (profile @ '' is not bound to '' @ sc_id spec))
          else (case firstMismatch env ('' for '' @ profile) expectedLoad of
              Some e \<Rightarrow> Inl e
            | None \<Rightarrow> Inr profile))"

definition durationFromEnvironment :: "env \<Rightarrow> string \<Rightarrow> int \<Rightarrow> int" where
  "durationFromEnvironment env name fallback =
     (let v = trimSpace (env name) in
      if v = '''' then fallback
      else (case atoi v of
          (seconds, None) \<Rightarrow> if seconds \<le> 0 then fallback else sint (word_of_int (seconds * 10 ^ 9) :: 64 word)
        | (_, Some _) \<Rightarrow> fallback))"

definition timeoutFallback :: "scenario_spec \<Rightarrow> int" where
  "timeoutFallback spec =
     (if sc_terminalMode spec \<noteq> '''' \<or> newChannel spec then 20 * 10 ^ 9 else sc_deadline spec)"

text \<open>The command: the result it prints, if any, and its exit status. Writing the artifacts is
  represented by its error.\<close>

definition runMain ::
  "gzip_codec \<Rightarrow> env \<Rightarrow> string \<Rightarrow> (nat \<Rightarrow> run_env) \<Rightarrow> go_error option \<Rightarrow> execution_result option \<times> nat" where
  "runMain z env targetURL ops artifacts =
     (case specFor z (trimSpace (env ''PLAB_SCENARIO_ID'')) of
        None \<Rightarrow> (None, 2)
      | Some spec \<Rightarrow>
          if trimSpace targetURL = '''' then (None, 2)
          else (case validateSelection env spec of
              Inl e \<Rightarrow> (None, 2)
            | Inr profile \<Rightarrow>
                (case (if newChannel spec then executeNewChannel z ops spec profile
                       else if sc_terminalMode spec \<noteq> '''' then executeTerminal z (ops 0) spec profile
                       else execute z (ops 0) spec profile) of
                   (result, err) \<Rightarrow>
                     let final = (if err = None then result else result\<lparr>x_Passed := False\<rparr>) in
                     if artifacts \<noteq> None then (None, 1)
                     else (Some final, if err \<noteq> None \<or> \<not> x_Passed final then 1 else 0))))"

end
