(* ===== verification/Grpc_Wire.thy ===== *)
theory Grpc_Wire
  imports Grpc_Executor
begin

text \<open>
  The gRPC message format: the protobuf length prefix and the message envelope round-trip between
  the encoder of the executor and the decoders of both sides, and a stream of messages decodes to
  the sequence that was written.
\<close>

unbundle bit_operations_syntax

section \<open>Variable-length integers\<close>

lemma or_disjoint:
  assumes "unat acc < 2 ^ shift"
  shows "acc OR push_bit shift (of_nat m :: u64) = acc + of_nat (m * 2 ^ shift)"
proof -
  have "\<not> bit acc i" if "shift \<le> i" for i
  proof -
    have "(2 :: nat) ^ shift \<le> 2 ^ i" using that by simp
    then have "unat acc div 2 ^ i = 0" using assms by (metis div_less less_le_trans)
    then have "\<not> bit (unat acc) i" by (simp add: bit_iff_odd)
    then show ?thesis by (simp add: bit_unsigned_iff)
  qed
  then have "acc AND push_bit shift (of_nat m) = 0"
    by (intro bit_eqI) (auto simp: bit_simps)
  then have "acc OR push_bit shift (of_nat m) = acc + push_bit shift (of_nat m)"
    by (simp add: disjunctive_add_eq_or)
  then show ?thesis by (simp add: push_bit_eq_mult)
qed

lemma cont_byte:
  "(of_nat n OR 0x80 :: byte) AND 0x7f = of_nat (n mod 128)" "\<not> (of_nat n OR 0x80 :: byte) < 0x80"
proof -
  have m: "n mod 128 = take_bit 7 n" by (simp add: take_bit_eq_mod)
  show "(of_nat n OR 0x80 :: byte) AND 0x7f = of_nat (n mod 128)"
    unfolding m by (rule byte_eqI; simp add: bit_simps)
  show "\<not> (of_nat n OR 0x80 :: byte) < 0x80"
    by (simp add: not_less or.commute [of "of_nat n"] le_word_or2)
qed

lemma last_byte:
  assumes "n < 128"
  shows "(of_nat n :: byte) AND 0x7f = of_nat n" "(of_nat n :: byte) < 0x80"
proof -
  have "unat (of_nat n :: byte) = n" using assms by (simp add: unat_of_nat)
  then show "(of_nat n :: byte) AND 0x7f = of_nat n" "(of_nat n :: byte) < 0x80"
    using assms by (simp_all add: len_bits word_less_nat_alt)
qed

lemma ucast_small: "m < 128 \<Longrightarrow> ucast (of_nat m :: byte) = (of_nat m :: u64)"
  by (simp add: unsigned_of_nat take_bit_nat_eq_self)

lemma varintLoop_varint:
  "unat acc < 2 ^ shift \<Longrightarrow> n * 2 ^ shift < 2 ^ 63 \<Longrightarrow> shift \<le> 63 \<Longrightarrow>
   varintLoop (varint n @ r) acc shift = Some (of_nat (unat acc + n * 2 ^ shift), r)"
proof (induction n arbitrary: acc shift rule: varint.induct)
  case (1 n)
  show ?case
  proof (cases "n \<ge> 0x80")
    case False
    then have "acc OR push_bit shift (ucast ((of_nat n :: byte) AND 0x7f)) = of_nat (unat acc + n * 2 ^ shift)"
      using or_disjoint [OF 1(2), of n] by (simp add: last_byte ucast_small)
    with False 1 show ?thesis
      by (simp add: varint.simps [of n] last_byte)
  next
    case True
    let ?a = "acc OR push_bit shift (ucast ((of_nat n OR 0x80 :: byte) AND 0x7f)) :: u64"
    have a: "?a = acc + of_nat (n mod 128 * 2 ^ shift)"
      unfolding cont_byte(1) using or_disjoint [OF 1(2), of "n mod 128"] ucast_small [of "n mod 128"] by simp
    have "128 * 2 ^ shift \<le> n * 2 ^ shift" using True by (intro mult_right_mono) simp_all
    moreover have "128 * 2 ^ shift = (2 :: nat) ^ (shift + 7)" by (simp add: power_add)
    ultimately have "(2 :: nat) ^ (shift + 7) < 2 ^ 63" using 1(3) by linarith
    then have s: "shift + 7 \<le> 62" by (simp only: power_strict_increasing_iff)
    have le: "unat acc + n mod 128 * 2 ^ shift < 2 ^ (shift + 7)"
    proof -
      have "(n mod 128) * 2 ^ shift \<le> 127 * 2 ^ shift" by (intro mult_right_mono) simp_all
      moreover have "127 * 2 ^ shift + 2 ^ shift = (2 :: nat) ^ (shift + 7)" by (simp add: power_add)
      ultimately show ?thesis using 1(2) by linarith
    qed
    moreover have "(2 :: nat) ^ (shift + 7) \<le> 2 ^ 62" using s by (intro power_increasing) simp_all
    ultimately have k: "unat acc + n mod 128 * 2 ^ shift < 2 ^ 64" by simp
    have "?a = of_nat (unat acc + n mod 128 * 2 ^ shift)" unfolding a by simp
    moreover have "unat (of_nat x :: u64) = x" if "x < 2 ^ 64" for x using that by (simp add: unat_of_nat)
    ultimately have "unat ?a = unat acc + n mod 128 * 2 ^ shift" using k by metis
    moreover have nd: "n div 128 * 2 ^ (shift + 7) + n mod 128 * 2 ^ shift = n * 2 ^ shift"
    proof -
      have "(q * 128 + m) * 2 ^ shift = q * 2 ^ (shift + 7) + m * 2 ^ shift" for q m :: nat
        by (simp add: power_add algebra_simps)
      from this [of "n div 128" "n mod 128"] show ?thesis by (simp only: div_mult_mod_eq)
    qed
    ultimately have "varintLoop (varint (n div 128) @ r) ?a (shift + 7) = Some (of_nat (unat acc + n * 2 ^ shift), r)"
      using 1(1) [OF True, of ?a "shift + 7"] le s 1(3) by (simp add: algebra_simps)
    then show ?thesis
      using True s cont_byte(2) [of n] by (simp add: varint.simps [of n] Let_def)
  qed
qed

section \<open>Protobuf messages\<close>

lemma sint_of_length: "n < 2 ^ 63 \<Longrightarrow> sint (of_nat n :: u64) = int n"
  by (simp add: signed_of_nat signed_take_bit_int_eq_self)

lemma decoders_agree: "Grpc_Executor.decodeProtobuf p = Grpc_Server.decodeProtobuf p"
  by (cases p) simp_all

lemma encoders_agree: "Grpc_Server.encodeFrame = Grpc_Executor.encodeFrame"
  by (simp add: fun_eq_iff Grpc_Server.encodeFrame_def Grpc_Executor.encodeFrame_def)

lemma decodeProtobuf_encode:
  assumes "length p < 2 ^ 63"
  shows "Grpc_Server.decodeProtobuf (encodeProtobuf p) = Inr p"
proof (cases "p = []")
  case False
  have "varintLoop (varint (length p) @ p) 0 0 = Some (of_nat (length p), p)"
    using varintLoop_varint [of 0 0 "length p" p] assms by simp
  with False show ?thesis
    using sint_of_length [OF assms] by (simp add: encodeProtobuf_def)
qed (simp add: encodeProtobuf_def)

section \<open>Frames\<close>

definition envelope :: "byte \<Rightarrow> bytes \<Rightarrow> bytes" where
  "envelope flag message = [flag] @ be32 (of_nat (length message)) @ message"

definition wireFrame :: "bytes \<Rightarrow> bytes" where
  "wireFrame p = envelope 0 (encodeProtobuf p)"

lemma length_envelope [simp]: "length (envelope f m) = 5 + length m"
  by (simp add: envelope_def)

lemma encodeFrame_identity: "Grpc_Executor.encodeFrame z m ''identity'' = Inr (envelope 0 m)"
  by (simp add: Grpc_Executor.encodeFrame_def envelope_def)

lemma encodeFrame_gzip:
  "gz_compress z p = Inr m \<Longrightarrow> Grpc_Executor.encodeFrame z p ''gzip'' = Inr (envelope 1 m)"
  by (simp add: Grpc_Executor.encodeFrame_def envelope_def)

lemma envelope_parts:
  assumes "length m < 2 ^ 32"
  shows "hd (envelope f m) = f" "drop 5 (envelope f m) = m"
    "unat (uint32 (take 4 (drop 1 (envelope f m)))) = length m"
    "take 5 (envelope f m @ r) = f # be32 (of_nat (length m))" "drop 5 (envelope f m @ r) = m @ r"
  using assms by (simp_all add: envelope_def unat_of_nat drop_Cons' take_Cons')

lemma decode_identity:
  assumes "length (encodeProtobuf p) < 2 ^ 32"
  shows "Grpc_Server.decodeFrame z (wireFrame p) ''identity'' = Inr (encodeProtobuf p, p)"
    "Grpc_Executor.decodeFrame z (wireFrame p) ''identity'' = Inr (encodeProtobuf p, p)"
proof -
  have "length p \<le> length (encodeProtobuf p)" by (simp add: encodeProtobuf_def)
  with assms have "Grpc_Server.decodeProtobuf (encodeProtobuf p) = Inr p" by (intro decodeProtobuf_encode) simp
  then show "Grpc_Server.decodeFrame z (wireFrame p) ''identity'' = Inr (encodeProtobuf p, p)"
    "Grpc_Executor.decodeFrame z (wireFrame p) ''identity'' = Inr (encodeProtobuf p, p)"
    using envelope_parts [OF assms, of 0]
    by (simp_all add: Grpc_Server.decodeFrame_def Grpc_Executor.decodeFrame_def wireFrame_def decoders_agree)
qed

lemma decode_gzip:
  assumes "length m < 2 ^ 32" "gz_decompress z m = Inr (encodeProtobuf p)" "length p < 2 ^ 63"
  shows "Grpc_Server.decodeFrame z (envelope 1 m) ''gzip'' = Inr (encodeProtobuf p, p)"
    "Grpc_Executor.decodeFrame z (envelope 1 m) ''gzip'' = Inr (encodeProtobuf p, p)"
  using envelope_parts [OF assms(1), of 1] assms(2) decodeProtobuf_encode [OF assms(3)]
  by (simp_all add: Grpc_Server.decodeFrame_def Grpc_Executor.decodeFrame_def decoders_agree)

lemma readFull_envelope:
  assumes "conn_in c = envelope f m @ r" "length m < 2 ^ 32"
  shows "readFull 5 c = (Inr (f # be32 (of_nat (length m))), c\<lparr>conn_in := m @ r\<rparr>)"
    "unat (uint32 (be32 (of_nat (length m)))) = length m"
    "readFull (length m) (c\<lparr>conn_in := m @ r\<rparr>) = (Inr m, c\<lparr>conn_in := r\<rparr>)"
    "f # be32 (of_nat (length m)) @ m = envelope f m"
  using assms envelope_parts(4,5) [OF assms(2), of f r]
  by (simp_all add: readFull_def unat_of_nat envelope_def)

definition readPayload :: "conn \<Rightarrow> bytes go \<times> conn" where
  "readPayload c = (case readIdentityFrame c of
     (Inl e, c1) \<Rightarrow> (Inl e, c1) | (Inr (frame, protobuf, payload), c1) \<Rightarrow> (Inr payload, c1))"

definition framed :: "bytes \<Rightarrow> bool" where
  "framed p \<longleftrightarrow> length (encodeProtobuf p) \<le> maxFrameBytes - 5"

lemma readIdentityFrame_wire:
  assumes "conn_in c = wireFrame p @ r" "framed p"
  shows "readIdentityFrame c = (Inr (wireFrame p, encodeProtobuf p, p), c\<lparr>conn_in := r\<rparr>)"
proof -
  let ?m = "encodeProtobuf p"
  have l: "length ?m < 2 ^ 32" using assms(2) by (simp add: framed_def maxFrameBytes_def)
  have "length p \<le> length ?m" by (simp add: encodeProtobuf_def)
  with l have d: "Grpc_Server.decodeProtobuf ?m = Inr p" by (intro decodeProtobuf_encode) simp
  note rd = readFull_envelope [OF assms(1) [unfolded wireFrame_def] l]
  show ?thesis
    unfolding readIdentityFrame_def rd(1) prod.case sum.case list.sel rd(2) Let_def rd(3) d
    using assms(2) by (simp add: framed_def wireFrame_def rd(4))
qed

interpretation grpc_messages: stream_codec wireFrame readPayload framed
  by unfold_locales (simp add: readPayload_def readIdentityFrame_wire)

section \<open>The properties\<close>

text \<open>C15: The gRPC message format round-trips. Messages of the executor, protobuf-encoded and put
  into identity envelopes one after another, are read back by the target as exactly the payloads
  in order, leaving the bytes that follow; and both decoders of a whole frame return the protobuf
  message and the payload.\<close>

theorem message_roundtrip:
  assumes "list_all framed ps" and "conn_in c = concat (map wireFrame ps) @ r" and "framed p"
  shows "readMany readPayload (length ps) c = (Inr ps, c\<lparr>conn_in := r\<rparr>) \<and>
    Grpc_Server.decodeFrame z (wireFrame p) ''identity'' = Inr (encodeProtobuf p, p) \<and>
    Grpc_Executor.decodeFrame z (wireFrame p) ''identity'' = Inr (encodeProtobuf p, p)"
proof -
  have "length (encodeProtobuf p) < 2 ^ 32" using assms(3) by (simp add: framed_def maxFrameBytes_def)
  then show ?thesis
    using grpc_messages.readMany_concat [OF assms(1,2)] by (simp add: decode_identity)
qed

definition storedGzip :: gzip_codec where
  "storedGzip = \<lparr>gz_compress = (\<lambda>p. Inr (0x1f # p)),
     gz_decompress = (\<lambda>m. case m of [] \<Rightarrow> Inl EOF | b # p \<Rightarrow> Inr p)\<rparr>"

theorem message_roundtrip_witness:
  "readMany readPayload 2 \<lparr>conn_in = wireFrame [7] @ wireFrame [] @ [9], conn_end = EOF, conn_out = [], conn_cap = None\<rparr> =
     (Inr [[7], []], \<lparr>conn_in = [9], conn_end = EOF, conn_out = [], conn_cap = None\<rparr>)"
proof -
  have "framed [7]" "framed []" by (simp_all add: framed_def encodeProtobuf_def varint.simps maxFrameBytes_def)
  then show ?thesis
    using message_roundtrip [of "[[7], []]"
      "\<lparr>conn_in = wireFrame [7] @ wireFrame [] @ [9], conn_end = EOF, conn_out = [], conn_cap = None\<rparr>" "[9]" "[]" storedGzip]
    by (simp add: numeral_2_eq_2 del: readMany.simps)
qed

end
