(* ===== verification/Grpc_Interop.thy ===== *)
theory Grpc_Interop
  imports Grpc_Wire
begin

text \<open>
  The gRPC executor against the gRPC target: a round trip runs the handler of the target on the
  request and its body; the answer is complete when the handler returns. Deadlines and
  cancellations are the client's: a handler that outlasts the deadline is not waited for.
\<close>

section \<open>Loops over messages\<close>

lemma requestLoop_frames:
  assumes "framed p" "validStreamingPayload p (encodeProtobuf p)"
    and "conn_in (rw_Conn w) = concat (replicate n (wireFrame p)) @ r"
  shows "requestLoop n w = (Some (replicate n (wireFrame p)), w\<lparr>rw_Conn := (rw_Conn w)\<lparr>conn_in := r\<rparr>\<rparr>)"
  using assms(3)
proof (induction n arbitrary: w)
  case (Suc n)
  let ?w = "w\<lparr>rw_Conn := (rw_Conn w)\<lparr>conn_in := concat (replicate n (wireFrame p)) @ r\<rparr>\<rparr>"
  have "readFrameBody w = (Inr (wireFrame p, encodeProtobuf p, p), ?w)"
    using Suc.prems assms(1) by (simp add: readFrameBody_def readIdentityFrame_wire)
  moreover have "requestLoop n ?w = (Some (replicate n (wireFrame p)), w\<lparr>rw_Conn := (rw_Conn w)\<lparr>conn_in := r\<rparr>\<rparr>)"
    using Suc.IH [of ?w] by simp
  ultimately show ?case using assms(2) by simp
qed simp

text \<open>Writing to a response whose body takes everything.\<close>

definition written :: "bytes list \<Rightarrow> response_writer \<Rightarrow> response_writer" where
  "written fs w =
     (writeHeader 200 w)\<lparr>rw_Conn := (rw_Conn w)\<lparr>conn_out := conn_out (rw_Conn w) @ fs\<rparr>\<rparr>"

lemma writeBody_written:
  "conn_cap (rw_Conn w) = None \<Longrightarrow> writeBody f w = (None, written [f] w)"
  by (simp add: writeBody_def written_def connWrite_def)

lemma writeHeader_idem [simp]: "writeHeader a (writeHeader b w) = writeHeader b w"
  by (simp add: writeHeader_def)

lemma written_fields [simp]:
  "rw_Header (written fs w) = rw_Header w" "rw_Status (written fs w) = rw_Status (writeHeader 200 w)"
  "rw_Sent (written fs w) = rw_Sent (writeHeader 200 w)"
  "rw_Conn (written fs w) = (rw_Conn w)\<lparr>conn_out := conn_out (rw_Conn w) @ fs\<rparr>"
  by (simp_all add: written_def)

lemma written_written: "written gs (written fs w) = written (fs @ gs) w"
  by (auto simp: written_def writeHeader_def)

lemma written_writeHeader: "written fs (writeHeader 200 w) = written fs w"
  by (simp add: written_def)

lemma writeFrames_written:
  "conn_cap (rw_Conn w) = None \<Longrightarrow> writeFrames fs (writeHeader 200 w) = (True, written fs w)"
proof (induction fs arbitrary: w)
  case Nil
  then show ?case by (simp add: written_def)
next
  case (Cons f fs)
  have h: "written [f] w = writeHeader 200 (written [f] w)"
    by (cases "rw_Status w") (simp_all add: writeHeader_def written_def)
  have "writeFrames (f # fs) (writeHeader 200 w) = writeFrames fs (written [f] w)"
    using Cons.prems by (simp add: writeBody_written written_writeHeader)
  also have "\<dots> = writeFrames fs (writeHeader 200 (written [f] w))" by (subst h) (rule refl)
  also have "\<dots> = (True, written fs (written [f] w))" using Cons.prems by (intro Cons.IH) simp
  finally show ?case by (simp add: written_written)
qed

lemma bidiLoop_frames:
  assumes "framed p" "validStreamingPayload p (encodeProtobuf p)"
    and "conn_in (rw_Conn w) = concat (replicate n (wireFrame p)) @ r" "conn_cap (rw_Conn w) = None"
  shows "0 < n \<Longrightarrow> bidiLoop n w =
    (True, written (replicate n (wireFrame p)) (w\<lparr>rw_Conn := (rw_Conn w)\<lparr>conn_in := r\<rparr>\<rparr>))"
  using assms(3,4)
proof (induction n arbitrary: w)
  case (Suc n)
  let ?w = "w\<lparr>rw_Conn := (rw_Conn w)\<lparr>conn_in := concat (replicate n (wireFrame p)) @ r\<rparr>\<rparr>"
  have "readFrameBody w = (Inr (wireFrame p, encodeProtobuf p, p), ?w)"
    using Suc.prems assms(1) by (simp add: readFrameBody_def readIdentityFrame_wire)
  then have step: "bidiLoop (Suc n) w = bidiLoop n (written [wireFrame p] ?w)"
    using assms(2) Suc.prems by (simp add: writeBody_written written_writeHeader)
  show ?case
  proof (cases n)
    case 0
    with step show ?thesis by simp
  next
    case (Suc k)
    then have "bidiLoop n (written [wireFrame p] ?w) =
        (True, written (replicate n (wireFrame p))
          ((written [wireFrame p] ?w)\<lparr>rw_Conn := (rw_Conn (written [wireFrame p] ?w))\<lparr>conn_in := r\<rparr>\<rparr>))"
      using Suc.prems by (intro Suc.IH) simp_all
    also have "(written [wireFrame p] ?w)\<lparr>rw_Conn := (rw_Conn (written [wireFrame p] ?w))\<lparr>conn_in := r\<rparr>\<rparr> =
        written [wireFrame p] (w\<lparr>rw_Conn := (rw_Conn w)\<lparr>conn_in := r\<rparr>\<rparr>)"
      by (simp add: written_def writeHeader_def)
    finally show ?thesis using step by (simp add: written_written)
  qed
qed simp

lemma framesLoop_frames:
  assumes "length m \<le> 2 * 2 ^ 20" "validateResponseFrame z (envelope f m) spec = None"
    and "conn_in c = concat (replicate n (envelope f m)) @ r"
  shows "framesLoop z spec arrival n index agg arrived c =
    ((agg @ concat (replicate n (envelope f m)), arrived @ map arrival [index..<index + n], index + n, None),
     c\<lparr>conn_in := r\<rparr>)"
  using assms(3)
proof (induction n arbitrary: index agg arrived c)
  case (Suc n)
  have l: "length m < 2 ^ 32" using assms(1) by simp
  have "conn_in c = envelope f m @ (concat (replicate n (envelope f m)) @ r)" using Suc.prems by simp
  note rd = readFull_envelope [OF this l]
  have "framesLoop z spec arrival (Suc n) index agg arrived c =
      framesLoop z spec arrival n (Suc index) (agg @ envelope f m) (arrived @ [arrival index])
        (c\<lparr>conn_in := concat (replicate n (envelope f m)) @ r\<rparr>)"
    unfolding framesLoop.simps rd(1) prod.case sum.case list.sel rd(2) Let_def rd(3)
    using assms(1) assms(2) by (simp add: rd(4))
  also have "\<dots> = ((agg @ envelope f m @ concat (replicate n (envelope f m)),
      arrived @ arrival index # map arrival [Suc index..<Suc index + n], Suc index + n, None), c\<lparr>conn_in := r\<rparr>)"
    using Suc.IH by simp
  finally have run: "framesLoop z spec arrival (Suc n) index agg arrived c =
      ((agg @ envelope f m @ concat (replicate n (envelope f m)),
        arrived @ arrival index # map arrival [Suc index..<Suc index + n], Suc index + n, None), c\<lparr>conn_in := r\<rparr>)" .
  have "[index..<index + Suc n] = index # [Suc index..<Suc index + n]" by (simp add: upt_conv_Cons del: upt_Suc)
  then show ?case unfolding run by (simp del: framesLoop.simps upt_Suc)
qed simp

section \<open>The request as the target sees it\<close>

lemmas literal_fold = equalFold_def toLower_def lowerChar_def

text \<open>The header names the two sides use are pairwise different.\<close>

lemma header_names:
  "\<not> equalFold ''Content-Type'' ''grpc-encoding''"
  "\<not> equalFold ''Content-Type'' ''Trailer''"
  "\<not> equalFold ''Content-Type'' ''grpc-status''"
  "\<not> equalFold ''Content-Type'' ''grpc-message''"
  "\<not> equalFold ''Content-Type'' ''x-plab-text''"
  "\<not> equalFold ''Content-Type'' ''x-plab-bin-bin''"
  "\<not> equalFold ''Content-Type'' ''x-plab-ready''"
  "\<not> equalFold ''grpc-encoding'' ''Content-Type''"
  "\<not> equalFold ''grpc-encoding'' ''Trailer''"
  "\<not> equalFold ''grpc-encoding'' ''grpc-status''"
  "\<not> equalFold ''grpc-encoding'' ''grpc-message''"
  "\<not> equalFold ''grpc-encoding'' ''x-plab-text''"
  "\<not> equalFold ''grpc-encoding'' ''x-plab-bin-bin''"
  "\<not> equalFold ''grpc-encoding'' ''x-plab-ready''"
  "\<not> equalFold ''Trailer'' ''Content-Type''"
  "\<not> equalFold ''Trailer'' ''grpc-encoding''"
  "\<not> equalFold ''Trailer'' ''grpc-status''"
  "\<not> equalFold ''Trailer'' ''grpc-message''"
  "\<not> equalFold ''Trailer'' ''x-plab-text''"
  "\<not> equalFold ''Trailer'' ''x-plab-bin-bin''"
  "\<not> equalFold ''Trailer'' ''x-plab-ready''"
  "\<not> equalFold ''grpc-status'' ''Content-Type''"
  "\<not> equalFold ''grpc-status'' ''grpc-encoding''"
  "\<not> equalFold ''grpc-status'' ''Trailer''"
  "\<not> equalFold ''grpc-status'' ''grpc-message''"
  "\<not> equalFold ''grpc-status'' ''x-plab-text''"
  "\<not> equalFold ''grpc-status'' ''x-plab-bin-bin''"
  "\<not> equalFold ''grpc-status'' ''x-plab-ready''"
  "\<not> equalFold ''grpc-message'' ''Content-Type''"
  "\<not> equalFold ''grpc-message'' ''grpc-encoding''"
  "\<not> equalFold ''grpc-message'' ''Trailer''"
  "\<not> equalFold ''grpc-message'' ''grpc-status''"
  "\<not> equalFold ''grpc-message'' ''x-plab-text''"
  "\<not> equalFold ''grpc-message'' ''x-plab-bin-bin''"
  "\<not> equalFold ''grpc-message'' ''x-plab-ready''"
  "\<not> equalFold ''x-plab-text'' ''Content-Type''"
  "\<not> equalFold ''x-plab-text'' ''grpc-encoding''"
  "\<not> equalFold ''x-plab-text'' ''Trailer''"
  "\<not> equalFold ''x-plab-text'' ''grpc-status''"
  "\<not> equalFold ''x-plab-text'' ''grpc-message''"
  "\<not> equalFold ''x-plab-text'' ''x-plab-bin-bin''"
  "\<not> equalFold ''x-plab-text'' ''x-plab-ready''"
  "\<not> equalFold ''x-plab-bin-bin'' ''Content-Type''"
  "\<not> equalFold ''x-plab-bin-bin'' ''grpc-encoding''"
  "\<not> equalFold ''x-plab-bin-bin'' ''Trailer''"
  "\<not> equalFold ''x-plab-bin-bin'' ''grpc-status''"
  "\<not> equalFold ''x-plab-bin-bin'' ''grpc-message''"
  "\<not> equalFold ''x-plab-bin-bin'' ''x-plab-text''"
  "\<not> equalFold ''x-plab-bin-bin'' ''x-plab-ready''"
  "\<not> equalFold ''x-plab-ready'' ''Content-Type''"
  "\<not> equalFold ''x-plab-ready'' ''grpc-encoding''"
  "\<not> equalFold ''x-plab-ready'' ''Trailer''"
  "\<not> equalFold ''x-plab-ready'' ''grpc-status''"
  "\<not> equalFold ''x-plab-ready'' ''grpc-message''"
  "\<not> equalFold ''x-plab-ready'' ''x-plab-text''"
  "\<not> equalFold ''x-plab-ready'' ''x-plab-bin-bin''"
  by (simp_all add: literal_fold)

lemma request_headers:
  "headerGet (q_Header (rpcRequest spec extra)) ''Content-Type'' = ''application/grpc+proto''"
  "headerGet (q_Header (rpcRequest spec extra)) ''grpc-encoding'' = sc_compression spec"
  "headerGet (q_Header (rpcRequest spec extra)) ''grpc-accept-encoding'' = sc_compression spec"
  "headerGet (q_Header (rpcRequest spec extra)) ''x-plab-text'' = headerGet extra ''x-plab-text''"
  "headerGet (q_Header (rpcRequest spec extra)) ''x-plab-bin-bin'' = headerGet extra ''x-plab-bin-bin''"
  "headerGet (q_Header (rpcRequest spec extra)) ''grpc-timeout'' = headerGet extra ''grpc-timeout''"
  "headerContainsToken (q_Header (rpcRequest spec extra)) ''Te'' ''trailers''"
  by (simp_all add: rpcRequest_def headerGet_Cons literal_fold headerContainsToken_def headerValues_def
      trimSpace_def isSpace_def)

lemma content_type_prefix: "hasPrefix (toLower ''application/grpc+proto'') ''application/grpc+proto''"
  by (simp add: hasPrefix_def toLower_def lowerChar_def)

lemma trimPrefix_path: "trimPrefix (echoPath method) servicePrefix = method"
  by (simp add: trimPrefix_def echoPath_def servicePrefix_def hasPrefix_def)

lemma content_type_grpc: "isGRPCContentType ''application/grpc+proto''"
  by (simp add: isGRPCContentType_def toLower_def lowerChar_def trimSpace_def isSpace_def)

lemma binary_metadata:
  "Grpc_Executor.matchesBinaryMetadata ''AAECAw==''" "Grpc_Server.matchesBinaryMetadata ''AAECAw==''"
proof -
  have "b64Encode [0, 1, 2, 3] = ''AAECAw==''" by (simp add: b64Char_def char_of_def bit_0)
  moreover have "b64Decode (b64Encode [0, 1, 2, 3]) = Some [0, 1, 2, 3]" by (rule b64Decode_b64Encode)
  ultimately have "b64Decode ''AAECAw=='' = Some [0, 1, 2, 3]" by simp
  moreover have "trimRightEq ''AAECAw=='' = ''AAECAw''" by (simp add: trimRightEq_def)
  ultimately have "rawStdDecode (trimRightEq ''AAECAw=='') = Some [0, 1, 2, 3]"
    by (simp add: rawStdDecode_def numeral_2_eq_2)
  then show "Grpc_Executor.matchesBinaryMetadata ''AAECAw==''" "Grpc_Server.matchesBinaryMetadata ''AAECAw==''"
    by (simp_all add: Grpc_Executor.matchesBinaryMetadata_def Grpc_Server.matchesBinaryMetadata_def)
qed

text \<open>The trailers a success declares.\<close>

lemma declared:
  "headerGet h ''Trailer'' = ''grpc-status, grpc-message'' \<Longrightarrow>
     declaredTrailers h = [''grpc-status'', ''grpc-message'']"
  "headerGet h ''Trailer'' = ''grpc-status, grpc-message, x-plab-bin-bin'' \<Longrightarrow>
     declaredTrailers h = [''grpc-status'', ''grpc-message'', ''x-plab-bin-bin'']"
  by (simp_all add: declaredTrailers_def trimSpace_def isSpace_def)

lemma trailer_get:
  "headerGet (p_Trailer (finishResponse w)) m =
     (if list_ex (equalFold m) (declaredTrailers (rw_Sent (writeHeader 200 w))) then headerGet (rw_Header w) m else [])"
  by (simp add: finishResponse_def Let_def headerGet_declared)

lemma finish_fields:
  "p_ProtoMajor (finishResponse w) = 2" "p_ProtoMinor (finishResponse w) = 0"
  "p_StatusCode (finishResponse w) = the (rw_Status (writeHeader 200 w))"
  "p_Header (finishResponse w) = rw_Sent (writeHeader 200 w)"
  "p_Body (finishResponse w) =
     \<lparr>conn_in = concat (conn_out (rw_Conn w)), conn_end = EOF, conn_out = [], conn_cap = None\<rparr>"
  by (simp_all add: finishResponse_def Let_def)

end
