(* ===== verification/Grpc_Run.thy ===== *)
theory Grpc_Run
  imports Grpc_Interop
begin

text \<open>
  Whole RPCs and whole runs: every scenario of the executor passes against the target, the three
  terminal outcomes included, and a run exits with success exactly when its channels open.
\<close>

section \<open>A good response passes\<close>

definition metadataOf :: "scenario_spec \<Rightarrow> http_header" where
  "metadataOf spec = (if sc_metadataProfile spec = metadataProfileV1
     then [(''x-plab-text'', ''protocol-lab''), (''x-plab-bin-bin'', ''AAECAw=='')] else [])"

definition goodResponse :: "scenario_spec \<Rightarrow> h2_response \<Rightarrow> byte \<Rightarrow> bytes \<Rightarrow> bool" where
  "goodResponse spec resp f m \<longleftrightarrow>
     p_ProtoMajor resp = 2 \<and> p_ProtoMinor resp = 0 \<and> p_StatusCode resp = 200 \<and>
     headerGet (p_Header resp) ''Content-Type'' = ''application/grpc+proto'' \<and>
     headerGet (p_Header resp) ''grpc-encoding'' = sc_compression spec \<and>
     headerGet (p_Trailer resp) ''grpc-status'' = ''0'' \<and>
     (sc_metadataProfile spec = metadataProfileV1 \<longrightarrow>
        headerGet (p_Header resp) ''x-plab-text'' = ''protocol-lab'' \<and>
        headerGet (p_Trailer resp) ''x-plab-bin-bin'' = ''AAECAw=='') \<and>
     p_Body resp = \<lparr>conn_in = concat (replicate (sc_responseCount spec) (envelope f m)), conn_end = EOF,
       conn_out = [], conn_cap = None\<rparr>"

text \<open>What a passed observation reports.\<close>

definition passedObservation :: "scenario_spec \<Rightarrow> rpc_env \<Rightarrow> bytes \<Rightarrow> rpc_observation \<Rightarrow> bool" where
  "passedObservation spec env frame obs \<longleftrightarrow>
     o_Passed obs \<and> o_Error obs = [] \<and> \<not> o_TimedOut obs \<and> o_StreamComplete obs \<and>
     o_ResponseMessageCount obs = sc_responseCount spec \<and>
     o_ResponseFrame obs = concat (replicate (sc_responseCount spec) frame) \<and>
     o_MessageArrivalNanos obs = map (e_arrival env) [0..<sc_responseCount spec] \<and>
     o_LatencyNanos obs = e_endNanos env"

lemma responseFrames_good:
  assumes "goodResponse spec resp f m" "length m \<le> 2 * 2 ^ 20" "validateResponseFrame z (envelope f m) spec = None"
  shows "readAndValidateResponseFrames z (p_Body resp) spec arrival =
    (concat (replicate (sc_responseCount spec) (envelope f m)), map arrival [0..<sc_responseCount spec],
     sc_responseCount spec, None)"
proof -
  have "conn_in (p_Body resp) = concat (replicate (sc_responseCount spec) (envelope f m)) @ []"
    "conn_end (p_Body resp) = EOF"
    using assms(1) by (simp_all add: goodResponse_def)
  with framesLoop_frames [OF assms(2,3) this(1), of arrival 0 "[]" "[]"] show ?thesis
    by (simp add: readAndValidateResponseFrames_def halfClosed_def)
qed

lemma invoke_good:
  assumes "e_newRequest env = None" "e_roundTrip env (rpcRequest spec (metadataOf spec)) frames = Inr resp"
    and good: "goodResponse spec resp f m" "length m \<le> 2 * 2 ^ 20" "validateResponseFrame z (envelope f m) spec = None"
    and "sc_rpcType spec \<in> {''client-streaming'', ''bidirectional-streaming''} \<Longrightarrow> sc_requestCount spec > 1"
  shows "passedObservation spec env (envelope f m) (invoke z env frames spec)"
proof -
  have p: "responseProblems spec resp (sc_responseCount spec) None = []"
    using good(1) assms(6) by (auto simp: responseProblems_def goodResponse_def content_type_grpc binary_metadata)

  show ?thesis
    unfolding invoke_def assms(1) option.case Let_def metadataOf_def [symmetric] assms(2) sum.case
      responseFrames_good [OF good] prod.case p
    by (simp add: passedObservation_def noObservation_def)
qed

section \<open>The target answers\<close>

definition coherent :: "scenario_spec \<Rightarrow> bool" where
  "coherent spec \<longleftrightarrow>
     sc_path spec = echoPath (sc_method spec) \<and> sc_method spec \<in> set serviceMethods \<and>
     sc_compression spec = (if sc_method spec = ''UnaryGzip'' then ''gzip'' else ''identity'') \<and>
     (sc_metadataProfile spec = metadataProfileV1 \<longleftrightarrow> sc_method spec = ''UnaryFixedMetadata'') \<and>
     sc_payloadHash spec = sha256Hex (sc_payload spec) \<and>
     sc_protobufHash spec = sha256Hex (encodeProtobuf (sc_payload spec)) \<and>
     sc_protobufBytes spec = length (encodeProtobuf (sc_payload spec)) \<and>
     (sc_compression spec = ''identity'' \<longrightarrow>
        sc_frameHash spec = sha256Hex (wireFrame (sc_payload spec)) \<and>
        sc_frameBytes spec = length (wireFrame (sc_payload spec)))"

lemma validate_identity:
  assumes "coherent spec" "sc_compression spec = ''identity''" "framed (sc_payload spec)"
  shows "validateResponseFrame z (wireFrame (sc_payload spec)) spec = None"
proof -
  have "length (encodeProtobuf (sc_payload spec)) < 2 ^ 32" using assms(3) by (simp add: framed_def maxFrameBytes_def)
  with assms(1,2) show ?thesis by (simp add: validateResponseFrame_def decode_identity coherent_def)
qed

lemma accepted:
  assumes "coherent spec"
  shows "handleRPC z (rpcRequest spec (metadataOf spec @ extra)) w =
    (let method = sc_method spec; compression = sc_compression spec in
     if method = ''ClientCancellation'' then handleClientCancellation z w
     else if method \<in> set [''ServerStreamingEcho'', ''ClientStreamingEcho'', ''BidirectionalStreamingEcho'']
     then (Returned, handleStreaming method w)
     else (case readAllBody (maxFrameBytes + 1) w of
         (Inl e, w1) \<Rightarrow> (Returned, writeGRPCError ''13'' ''request read failed'' w1)
       | (Inr body, w1) \<Rightarrow>
           (case Grpc_Server.decodeFrame z body compression of
              Inl e \<Rightarrow> (Returned, writeGRPCError ''3'' ''invalid deterministic request'' w1)
            | Inr (protobuf, payload) \<Rightarrow>
                if \<not> validScenarioPayload method payload protobuf
                then (Returned, writeGRPCError ''3'' ''invalid deterministic request'' w1)
                else if method = ''DeadlineExceeded'' then
                  (if headerGet extra ''grpc-timeout'' \<noteq> ''50m''
                   then (Returned, writeGRPCError ''3'' ''grpc-timeout must be exactly 50m'' w1)
                   else (ReturnedAfter 250000000, w1))
                else if method = ''TrailersOnlyStatus'' then
                  (Returned, writeHeader 200 (setHeader ''grpc-message'' ''plab invalid fixture''
                    (setHeader ''grpc-status'' ''3'' (setHeader ''grpc-encoding'' ''identity''
                      (setHeader ''Content-Type'' ''application/grpc+proto'' w1)))))
                else answerUnary z method compression protobuf w1)))"
proof -
  have m: "trimPrefix (q_Path (rpcRequest spec x)) servicePrefix = sc_method spec" for x
    using assms by (simp add: rpcRequest_def coherent_def trimPrefix_path)
  have q: "q_ProtoMajor (rpcRequest spec x) = 2" "q_TLSVersion (rpcRequest spec x) = Some 0x304"
      "q_ALPN (rpcRequest spec x) = ''h2''" "q_Method (rpcRequest spec x) = ''POST''" for x
    by (simp_all add: rpcRequest_def)
  have meta: "sc_method spec = ''UnaryFixedMetadata'' \<Longrightarrow>
      headerGet (metadataOf spec @ extra) ''x-plab-text'' = ''protocol-lab'' \<and>
      headerGet (metadataOf spec @ extra) ''x-plab-bin-bin'' = ''AAECAw==''"
    "headerGet (metadataOf spec @ extra) ''grpc-timeout'' = headerGet extra ''grpc-timeout''"
    using assms by (simp_all add: coherent_def metadataOf_def headerGet_Cons literal_fold)
  have c: "sc_method spec \<in> set serviceMethods"
    "sc_compression spec = (if sc_method spec = ''UnaryGzip'' then ''gzip'' else ''identity'')"
    using assms by (simp_all add: coherent_def)
  have te: "headerContainsToken (q_Header (rpcRequest spec x)) ''Te'' ''trailers'' = True" for x
    by (simp only: request_headers)
  have fixed: "(sc_method spec = ''UnaryFixedMetadata'' \<and>
      (headerGet (metadataOf spec @ extra) ''x-plab-text'' \<noteq> ''protocol-lab'' \<or>
       \<not> Grpc_Server.matchesBinaryMetadata (headerGet (metadataOf spec @ extra) ''x-plab-bin-bin''))) = False"
    using meta(1) by (auto simp: binary_metadata)
  show ?thesis
    unfolding handleRPC_def q m Let_def request_headers(1-6) meta(2) te fixed c(2) [symmetric]
    using c(1) by (simp add: content_type_prefix)
qed

lemma readAllBody_new:
  "length body \<le> maxFrameBytes \<Longrightarrow> readAllBody (maxFrameBytes + 1) (newWriter body) = (Inr body, newWriter [])"
  by (simp add: readAllBody_def readAllLimited_def newWriter_def)

lemma newWriter_fields [simp]:
  "rw_Header (newWriter b) = []" "rw_Status (newWriter b) = None" "rw_Sent (newWriter b) = []"
  "rw_Conn (newWriter b) = \<lparr>conn_in = b, conn_end = EOF, conn_out = [], conn_cap = None\<rparr>"
  by (simp_all add: newWriter_def)

lemma unary_good:
  assumes "coherent spec" "sc_method spec \<in> {''UnaryEcho'', ''UnaryGzip'', ''UnaryFixedMetadata''}"
    "sc_responseCount spec = 1" "length (envelope f m) \<le> maxFrameBytes"
    "Grpc_Server.decodeFrame z (envelope f m) (sc_compression spec) = Inr (pb, p)"
    "validScenarioPayload (sc_method spec) p pb"
    "Grpc_Executor.encodeFrame z pb (sc_compression spec) = Inr (envelope f m)"
  shows "\<exists>w. handleRPC z (rpcRequest spec (metadataOf spec)) (newWriter (envelope f m)) = (Returned, w) \<and>
    goodResponse spec (finishResponse w) f m"
proof -
  have run: "handleRPC z (rpcRequest spec (metadataOf spec)) (newWriter (envelope f m)) =
      answerUnary z (sc_method spec) (sc_compression spec) pb (newWriter [])"
    using accepted [OF assms(1), of z "[]"] assms(2,5,6) readAllBody_new [OF assms(4)]
    by (auto simp: Let_def)
  have meta: "sc_metadataProfile spec = metadataProfileV1 \<longleftrightarrow> sc_method spec = ''UnaryFixedMetadata''"
    using assms(1) by (simp add: coherent_def)
  show ?thesis
    unfolding run answerUnary_def encoders_agree assms(7) sum.case Let_def
    using meta assms(3)
    by (auto simp: goodResponse_def finish_fields trailer_get writeBody_written finishOK_def
        declared header_names)
qed

lemma length_encodeProtobuf:
  "length (encodeProtobuf (replicate n b)) = (if n = 0 then 0 else 1 + length (varint n) + n)"
  by (simp add: encodeProtobuf_def)

lemma fixture_lengths:
  "length (encodeProtobuf (replicate 128 b)) = 131" "length (encodeProtobuf (replicate 1024 b)) = 1027"
  "length (encodeProtobuf (replicate (2 ^ 20) b)) = 1048580"
  unfolding length_encodeProtobuf by (simp_all add: varint.simps)

lemma stream_fixture: "framed streamPayload" "validStreamingPayload streamPayload (encodeProtobuf streamPayload)"
  by (simp_all add: streamPayload_def framed_def validStreamingPayload_def fixture_lengths maxFrameBytes_def)

lemma good_stream:
  assumes "coherent spec" "sc_method spec \<noteq> ''UnaryFixedMetadata''" "sc_method spec \<noteq> ''UnaryGzip''"
    "headerGet (rw_Header w) ''Trailer'' = ''grpc-status, grpc-message''" "rw_Status w = None"
    "headerGet (rw_Header w) ''Content-Type'' = ''application/grpc+proto''"
    "headerGet (rw_Header w) ''grpc-encoding'' = ''identity''" "conn_out (rw_Conn w) = []"
  shows "goodResponse spec (finishResponse (finishOK (written (replicate (sc_responseCount spec) (envelope f m)) w))) f m"
  using assms
  by (simp add: goodResponse_def coherent_def finish_fields trailer_get finishOK_def declared header_names)

lemma streaming_good:
  assumes "coherent spec"
    "(sc_method spec, sc_requestCount spec, sc_responseCount spec) \<in>
       {(''ServerStreamingEcho'', 1, 100), (''ClientStreamingEcho'', 100, 1), (''BidirectionalStreamingEcho'', 100, 100)}"
  shows "\<exists>w. handleRPC z (rpcRequest spec (metadataOf spec))
      (newWriter (concat (replicate (sc_requestCount spec) (wireFrame streamPayload)))) = (Returned, w) \<and>
    goodResponse spec (finishResponse w) 0 (encodeProtobuf streamPayload)"
proof -
  let ?n = "sc_requestCount spec" and ?k = "sc_responseCount spec" and ?f = "wireFrame streamPayload"
  let ?w = "newWriter (concat (replicate ?n ?f))"
  have run: "handleRPC z (rpcRequest spec (metadataOf spec)) ?w = (Returned, handleStreaming (sc_method spec) ?w)"
    using accepted [OF assms(1), of z "[]" ?w] assms(2) by (auto simp: Let_def)
  have out: "handleStreaming (sc_method spec) ?w = finishOK (written (replicate ?k ?f) (startGRPC (newWriter [])))"
  proof (cases "sc_method spec = ''BidirectionalStreamingEcho''")
    case True
    have "bidiLoop 100 (startGRPC ?w) = (True, written (replicate 100 ?f)
        ((startGRPC ?w)\<lparr>rw_Conn := (rw_Conn (startGRPC ?w))\<lparr>conn_in := []\<rparr>\<rparr>))"
      using True assms(2) by (intro bidiLoop_frames stream_fixture) (auto simp: startGRPC_def)
    moreover have "(startGRPC ?w)\<lparr>rw_Conn := (rw_Conn (startGRPC ?w))\<lparr>conn_in := []\<rparr>\<rparr> = startGRPC (newWriter [])"
      by (simp add: startGRPC_def newWriter_def setHeader_def)
    ultimately have loop: "bidiLoop 100 (startGRPC ?w) = (True, written (replicate 100 ?f) (startGRPC (newWriter [])))"
      by (simp only:)
    have "halfClosed (rw_Conn (written fs (startGRPC (newWriter []))))" for fs
      by (simp add: halfClosed_def startGRPC_def)
    with True assms(2) loop show ?thesis
      by (simp add: handleStreaming_def handleBidirectionalStreaming_def streamMessageCount_def)
  next
    case False
    have "requestLoop ?n ?w = (Some (replicate ?n ?f), ?w\<lparr>rw_Conn := (rw_Conn ?w)\<lparr>conn_in := []\<rparr>\<rparr>)"
      by (intro requestLoop_frames stream_fixture) simp
    then have "requestLoop ?n ?w = (Some (replicate ?n ?f), newWriter [])" by (simp add: newWriter_def)
    moreover have "writeFrames fs (writeHeader 200 (startGRPC (newWriter []))) = (True, written fs (startGRPC (newWriter [])))"
      for fs by (rule writeFrames_written) (simp add: startGRPC_def)
    ultimately show ?thesis
      using False assms(2)
      by (auto simp: handleStreaming_def streamMessageCount_def halfClosed_def last_replicate hd_replicate)
  qed
  have "goodResponse spec (finishResponse (finishOK (written (replicate ?k (envelope 0 (encodeProtobuf streamPayload)))
      (startGRPC (newWriter []))))) 0 (encodeProtobuf streamPayload)"
    using assms by (intro good_stream) (auto simp: startGRPC_def header_names)
  then show ?thesis unfolding run out by (simp add: wireFrame_def)
qed

section \<open>One invocation against the target\<close>

definition targetTrip :: "gzip_codec \<Rightarrow> nat \<Rightarrow> h2_request \<Rightarrow> bytes \<Rightarrow> h2_response go" where
  "targetTrip z limit req body =
     (case handleRPC z req (newWriter body) of
        (ReturnedAfter d, w) \<Rightarrow> if limit \<le> d then Inl TimeoutError else Inr (finishResponse w)
      | (_, w) \<Rightarrow> Inr (finishResponse w))"

text \<open>Compression as \<^verbatim>\<open>compress/gzip\<close> promises it, on the one message the scenario compresses: it
  succeeds, decompresses to what it was given, and does not expand beyond the frame limit.\<close>

definition gzipWorks :: "gzip_codec \<Rightarrow> bool" where
  "gzipWorks z \<longleftrightarrow> (case gz_compress z (encodeProtobuf streamPayload) of
     Inl e \<Rightarrow> False
   | Inr m \<Rightarrow> gz_decompress z m = Inr (encodeProtobuf streamPayload) \<and> length m \<le> maxFrameBytes - 5)"

definition requestFrame :: "gzip_codec \<Rightarrow> scenario_spec \<Rightarrow> bytes" where
  "requestFrame z spec = frameOf z (encodeProtobuf (sc_payload spec)) (sc_compression spec)"

lemma requestFrame_identity:
  "sc_compression spec = ''identity'' \<Longrightarrow> requestFrame z spec = wireFrame (sc_payload spec)"
  by (simp add: requestFrame_def frameOf_def encodeFrame_identity wireFrame_def)

lemma served_identity:
  assumes "coherent spec" "sc_method spec \<in> {''UnaryEcho'', ''UnaryFixedMetadata''}"
    "sc_requestCount spec = 1" "sc_responseCount spec = 1" "sc_rpcType spec = ''unary''"
    "framed (sc_payload spec)" "validScenarioPayload (sc_method spec) (sc_payload spec) (encodeProtobuf (sc_payload spec))"
    "e_newRequest env = None" "e_roundTrip env = targetTrip z limit"
  shows "passedObservation spec env (requestFrame z spec)
    (invoke z env (concat (replicate (sc_requestCount spec) (requestFrame z spec))) spec)"
proof -
  let ?p = "sc_payload spec"
  have id: "sc_compression spec = ''identity''" using assms(1,2) by (auto simp: coherent_def)
  have l: "length (encodeProtobuf ?p) < 2 ^ 32" "length (envelope 0 (encodeProtobuf ?p)) \<le> maxFrameBytes"
    "length (encodeProtobuf ?p) \<le> 2 * 2 ^ 20"
    using assms(6) by (simp_all add: framed_def maxFrameBytes_def)
  have "\<exists>w. handleRPC z (rpcRequest spec (metadataOf spec)) (newWriter (envelope 0 (encodeProtobuf ?p))) = (Returned, w) \<and>
      goodResponse spec (finishResponse w) 0 (encodeProtobuf ?p)"
    using assms(2) id l(2) assms(7) decode_identity(1) [OF l(1), unfolded wireFrame_def]
    by (intro unary_good [OF assms(1) _ assms(4)]) (auto simp: encodeFrame_identity)
  then obtain w where w: "targetTrip z limit (rpcRequest spec (metadataOf spec)) (envelope 0 (encodeProtobuf ?p)) = Inr (finishResponse w)"
      "goodResponse spec (finishResponse w) 0 (encodeProtobuf ?p)"
    by (auto simp: targetTrip_def)
  have "passedObservation spec env (envelope 0 (encodeProtobuf ?p)) (invoke z env (envelope 0 (encodeProtobuf ?p)) spec)"
    using assms(5,8,9) w l(3) validate_identity [OF assms(1) id assms(6)]
    by (intro invoke_good [where resp = "finishResponse w"]) (simp_all add: wireFrame_def)
  then show ?thesis using assms(3) by (simp add: requestFrame_identity [OF id] wireFrame_def)
qed

lemma served_stream:
  assumes "coherent spec" "sc_payload spec = streamPayload"
    "(sc_method spec, sc_requestCount spec, sc_responseCount spec, sc_rpcType spec) \<in>
       {(''ServerStreamingEcho'', 1, 100, ''server-streaming''), (''ClientStreamingEcho'', 100, 1, ''client-streaming''),
        (''BidirectionalStreamingEcho'', 100, 100, ''bidirectional-streaming'')}"
    "e_newRequest env = None" "e_roundTrip env = targetTrip z limit"
  shows "passedObservation spec env (requestFrame z spec)
    (invoke z env (concat (replicate (sc_requestCount spec) (requestFrame z spec))) spec)"
proof -
  have id: "sc_compression spec = ''identity''" using assms(1,3) by (auto simp: coherent_def)
  have frame: "requestFrame z spec = wireFrame streamPayload"
    using requestFrame_identity [OF id] assms(2) by simp
  have "\<exists>w. handleRPC z (rpcRequest spec (metadataOf spec))
      (newWriter (concat (replicate (sc_requestCount spec) (wireFrame streamPayload)))) = (Returned, w) \<and>
    goodResponse spec (finishResponse w) 0 (encodeProtobuf streamPayload)"
    using assms(3) by (intro streaming_good [OF assms(1)]) auto
  then obtain w where w: "targetTrip z limit (rpcRequest spec (metadataOf spec))
      (concat (replicate (sc_requestCount spec) (wireFrame streamPayload))) = Inr (finishResponse w)"
      "goodResponse spec (finishResponse w) 0 (encodeProtobuf streamPayload)"
    by (auto simp: targetTrip_def)
  have "validateResponseFrame z (envelope 0 (encodeProtobuf streamPayload)) spec = None"
    using validate_identity [OF assms(1) id] stream_fixture(1) assms(2) by (simp add: wireFrame_def)
  moreover have "length (encodeProtobuf streamPayload) \<le> 2 * 2 ^ 20"
    using stream_fixture(1) by (simp add: framed_def maxFrameBytes_def)
  ultimately have "passedObservation spec env (envelope 0 (encodeProtobuf streamPayload))
      (invoke z env (concat (replicate (sc_requestCount spec) (wireFrame streamPayload))) spec)"
    using assms(3,4,5) w by (intro invoke_good [where resp = "finishResponse w"]) auto
  then show ?thesis by (simp add: frame wireFrame_def)
qed

lemma served_gzip:
  assumes "gzipWorks z" "spec = gzipSpec z i" "e_newRequest env = None" "e_roundTrip env = targetTrip z limit"
  shows "passedObservation spec env (requestFrame z spec)
    (invoke z env (concat (replicate (sc_requestCount spec) (requestFrame z spec))) spec)"
proof -
  obtain m where m: "gz_compress z (encodeProtobuf streamPayload) = Inr m"
      "gz_decompress z m = Inr (encodeProtobuf streamPayload)" "length m \<le> maxFrameBytes - 5"
    using assms(1) by (auto simp: gzipWorks_def split: sum.splits)
  have s: "sc_method spec = ''UnaryGzip''" "sc_compression spec = ''gzip''" "sc_payload spec = streamPayload"
      "sc_requestCount spec = 1" "sc_responseCount spec = 1" "sc_rpcType spec = ''unary''"
    using assms(2) by (simp_all add: gzipSpec_def streamPayload_def Let_def)
  have c: "coherent spec"
    using assms(2) by (simp add: coherent_def gzipSpec_def serviceMethods_def metadataProfileV1_def Let_def)
  have l: "length m < 2 ^ 32" "length (envelope 1 m) \<le> maxFrameBytes" "length m \<le> 2 * 2 ^ 20"
    using m(3) by (simp_all add: maxFrameBytes_def)
  have p: "length streamPayload < 2 ^ 63" by (simp add: streamPayload_def)
  have frame: "requestFrame z spec = envelope 1 m"
    by (simp add: requestFrame_def frameOf_def s encodeFrame_gzip [OF m(1)])
  note dec = decode_gzip [OF l(1) m(2) p]
  have "validScenarioPayload ''UnaryGzip'' streamPayload (encodeProtobuf streamPayload)"
    using stream_fixture(2) by (simp add: validScenarioPayload_def isFixture_def validStreamingPayload_def streamPayload_def)
  then have "\<exists>w. handleRPC z (rpcRequest spec (metadataOf spec)) (newWriter (envelope 1 m)) = (Returned, w) \<and>
      goodResponse spec (finishResponse w) 1 m"
    using dec(1) s(1,2,5) l(2) encodeFrame_gzip [OF m(1)] by (intro unary_good [OF c]) simp_all
  then obtain w where w: "targetTrip z limit (rpcRequest spec (metadataOf spec)) (envelope 1 m) = Inr (finishResponse w)"
      "goodResponse spec (finishResponse w) 1 m"
    by (auto simp: targetTrip_def)
  have "validateResponseFrame z (envelope 1 m) spec = None"
    using dec(2) s(2,3) c by (simp add: validateResponseFrame_def coherent_def)
  then have "passedObservation spec env (envelope 1 m) (invoke z env (envelope 1 m) spec)"
    using assms(3,4) w l(3) s(6) by (intro invoke_good [where resp = "finishResponse w"]) simp_all
  then show ?thesis using s(4) by (simp add: frame)
qed

section \<open>The scenarios\<close>

lemma identity_coherent:
  assumes "method \<in> set serviceMethods" "method \<noteq> ''UnaryGzip''" "method \<noteq> ''UnaryFixedMetadata''"
  shows "coherent (makeIdentitySpec z i method p d)"
  using assms
  by (simp add: coherent_def makeIdentitySpec_def Let_def frameOf_def encodeFrame_identity wireFrame_def metadataProfileV1_def)

lemma metadata_coherent:
  "coherent ((makeIdentitySpec z i ''UnaryFixedMetadata'' p d)\<lparr>sc_metadataProfile := metadataProfileV1\<rparr>)"
  by (simp add: coherent_def makeIdentitySpec_def Let_def frameOf_def encodeFrame_identity wireFrame_def serviceMethods_def)

lemma stream_coherent:
  assumes "method \<in> set serviceMethods" "method \<noteq> ''UnaryGzip''" "method \<noteq> ''UnaryFixedMetadata''"
  shows "coherent (makeStreamingSpec z i method t a b)" "sc_payload (makeStreamingSpec z i method t a b) = streamPayload"
  using assms
  by (simp_all add: coherent_def makeStreamingSpec_def Let_def frameOf_def encodeFrame_identity wireFrame_def
      metadataProfileV1_def streamPayload_def)

lemma coherent_terminal [simp]:
  "coherent (spec\<lparr>sc_lifecycle := l\<rparr>) = coherent spec"
  "coherent (spec\<lparr>sc_responseCount := n, sc_terminalMode := m, sc_expectedStatus := s, sc_expectedMessage := t\<rparr>) = coherent spec"
  "coherent (spec\<lparr>sc_responseCount := n, sc_terminalMode := m, sc_expectedStatus := s\<rparr>) = coherent spec"
  "coherent (spec\<lparr>sc_rpcType := r, sc_responseCount := n, sc_terminalMode := m, sc_expectedStatus := s\<rparr>) = coherent spec"
  by (simp_all add: coherent_def)

lemma echo_fixtures:
  "framed []" "framed (replicate 128 b)" "framed (replicate (2 ^ 20) b)"
  "validScenarioPayload ''UnaryEcho'' [] (encodeProtobuf [])"
  "validScenarioPayload ''UnaryEcho'' (replicate 128 71) (encodeProtobuf (replicate 128 71))"
  "validScenarioPayload ''UnaryEcho'' (replicate (2 ^ 20) 76) (encodeProtobuf (replicate (2 ^ 20) 76))"
  "validScenarioPayload ''UnaryFixedMetadata'' (replicate 128 71) (encodeProtobuf (replicate 128 71))"
  "validScenarioPayload ''TrailersOnlyStatus'' (replicate 128 71) (encodeProtobuf (replicate 128 71))"
  "validScenarioPayload ''DeadlineExceeded'' (replicate 128 71) (encodeProtobuf (replicate 128 71))"
  "validScenarioPayload ''ClientCancellation'' (replicate 128 71) (encodeProtobuf (replicate 128 71))"
  unfolding framed_def validScenarioPayload_def isFixture_def fixture_lengths
  by (simp_all add: encodeProtobuf_def maxFrameBytes_def)

lemma specFor_known: "specFor z i = Some spec \<Longrightarrow> i \<in> set supportedScenarioIDs"
  unfolding specFor_def supportedScenarioIDs_def Let_def by (simp split: if_splits)

lemma specFor_eqs:
  "specFor z ''grpc.h2.unary.echo'' =
     Some (makeIdentitySpec z ''grpc.h2.unary.echo'' ''UnaryEcho'' (replicate 128 71) (5 * 10 ^ 9))"
  "specFor z ''grpc.h2.unary.empty'' =
     Some (makeIdentitySpec z ''grpc.h2.unary.empty'' ''UnaryEcho'' [] (5 * 10 ^ 9))"
  "specFor z ''grpc.h2.unary.fixed-metadata'' =
     Some ((makeIdentitySpec z ''grpc.h2.unary.fixed-metadata'' ''UnaryFixedMetadata'' (replicate 128 71) (5 * 10 ^ 9))
       \<lparr>sc_metadataProfile := metadataProfileV1\<rparr>)"
  "specFor z ''grpc.h2.unary.gzip'' = Some (gzipSpec z ''grpc.h2.unary.gzip'')"
  "specFor z ''grpc.h2.unary.large'' =
     Some (makeIdentitySpec z ''grpc.h2.unary.large'' ''UnaryEcho'' (replicate (2 ^ 20) 76) (10 * 10 ^ 9))"
  "specFor z ''grpc.h2.server-streaming.echo'' =
     Some (makeStreamingSpec z ''grpc.h2.server-streaming.echo'' ''ServerStreamingEcho'' ''server-streaming'' 1 100)"
  "specFor z ''grpc.h2.client-streaming.echo'' =
     Some (makeStreamingSpec z ''grpc.h2.client-streaming.echo'' ''ClientStreamingEcho'' ''client-streaming'' 100 1)"
  "specFor z ''grpc.h2.bidi-streaming.echo'' =
     Some (makeStreamingSpec z ''grpc.h2.bidi-streaming.echo'' ''BidirectionalStreamingEcho'' ''bidirectional-streaming'' 100 100)"
  "specFor z ''grpc.h2.trailers-only-status'' =
     Some ((makeIdentitySpec z ''grpc.h2.trailers-only-status'' ''TrailersOnlyStatus'' (replicate 128 71) (5 * 10 ^ 9))
       \<lparr>sc_responseCount := 0, sc_terminalMode := ''trailers-only'', sc_expectedStatus := ''3'',
        sc_expectedMessage := ''plab invalid fixture''\<rparr>)"
  "specFor z ''grpc.h2.deadline-exceeded'' =
     Some ((makeIdentitySpec z ''grpc.h2.deadline-exceeded'' ''DeadlineExceeded'' (replicate 128 71) (50 * 10 ^ 6))
       \<lparr>sc_responseCount := 0, sc_terminalMode := ''deadline-exceeded'', sc_expectedStatus := ''4''\<rparr>)"
  "specFor z ''grpc.h2.client-cancellation'' =
     Some ((makeIdentitySpec z ''grpc.h2.client-cancellation'' ''ClientCancellation'' (replicate 128 71) (5 * 10 ^ 9))
       \<lparr>sc_rpcType := ''server-streaming'', sc_responseCount := 0,
        sc_terminalMode := ''client-cancellation'', sc_expectedStatus := ''1''\<rparr>)"
  "specFor z ''grpc.h2.unary.echo-new-channel'' =
     Some ((makeIdentitySpec z ''grpc.h2.unary.echo-new-channel'' ''UnaryEcho'' (replicate 128 71) (5 * 10 ^ 9))
       \<lparr>sc_lifecycle := ''new-channel-per-operation''\<rparr>)"
  unfolding specFor_def Let_def by (simp_all add: metadataProfileV1_def)

text \<open>Every scenario that ends in success is one of these.\<close>

inductive successful :: "gzip_codec \<Rightarrow> scenario_spec \<Rightarrow> bool" for z where
  echo: "p \<in> {[], replicate 128 71, replicate (2 ^ 20) 76} \<Longrightarrow>
     successful z ((makeIdentitySpec z i ''UnaryEcho'' p d)\<lparr>sc_lifecycle := l\<rparr>)"
| metadata: "successful z ((makeIdentitySpec z i ''UnaryFixedMetadata'' (replicate 128 71) d)
     \<lparr>sc_metadataProfile := metadataProfileV1\<rparr>)"
| gzip: "successful z (gzipSpec z i)"
| server: "successful z (makeStreamingSpec z i ''ServerStreamingEcho'' ''server-streaming'' 1 100)"
| client: "successful z (makeStreamingSpec z i ''ClientStreamingEcho'' ''client-streaming'' 100 1)"
| bidi: "successful z (makeStreamingSpec z i ''BidirectionalStreamingEcho'' ''bidirectional-streaming'' 100 100)"

lemma successful_plain:
  assumes "p \<in> {[], replicate 128 71, replicate (2 ^ 20) 76}"
  shows "successful z (makeIdentitySpec z i ''UnaryEcho'' p d)"
proof -
  have "(makeIdentitySpec z i ''UnaryEcho'' p d)\<lparr>sc_lifecycle := ''pre-established-channel''\<rparr> =
      makeIdentitySpec z i ''UnaryEcho'' p d"
    by (simp add: makeIdentitySpec_def Let_def)
  then show ?thesis using successful.echo [OF assms] by metis
qed

lemma specFor_successful:
  assumes "specFor z i = Some spec" "sc_terminalMode spec = ''''"
  shows "successful z spec"
proof -
  have "i \<in> set supportedScenarioIDs" using assms(1) by (rule specFor_known)
  then have "\<exists>s. specFor z i = Some s \<and> (sc_terminalMode s = '''' \<longrightarrow> successful z s)"
    unfolding supportedScenarioIDs_def set_simps insert_iff empty_iff
    by (elim disjE) (simp_all add: specFor_eqs successful.intros [simplified] successful_plain [simplified])
  with assms show ?thesis by simp
qed

lemma rpc_served:
  assumes "successful z spec" "gzipWorks z" "e_newRequest env = None" "e_roundTrip env = targetTrip z limit"
  shows "passedObservation spec env (requestFrame z spec)
    (invoke z env (concat (replicate (sc_requestCount spec) (requestFrame z spec))) spec)"
  using assms(1)
proof cases
  case (echo p l i d)
  have m: "''UnaryEcho'' \<in> set serviceMethods" by (simp add: serviceMethods_def)
  have "framed p" "validScenarioPayload ''UnaryEcho'' p (encodeProtobuf p)"
    using echo(2) echo_fixtures by blast+
  moreover have c: "coherent ((makeIdentitySpec z i ''UnaryEcho'' p d)\<lparr>sc_lifecycle := l\<rparr>)"
    using identity_coherent [OF m] by simp
  ultimately show ?thesis
    unfolding echo(1) using assms(3,4)
    by (intro served_identity [OF c]) (simp_all add: makeIdentitySpec_def Let_def)
next
  case (metadata i d)
  then show ?thesis
    using assms(3,4) echo_fixtures(2,7) unfolding metadata
    by (intro served_identity [OF metadata_coherent]) (simp_all add: makeIdentitySpec_def Let_def)
next
  case (gzip i)
  with assms(2-4) show ?thesis by (intro served_gzip)
next
  case (server i)
  with assms(3,4) stream_coherent [of "''ServerStreamingEcho''"] show ?thesis
    by (intro served_stream) (simp_all add: serviceMethods_def, simp add: makeStreamingSpec_def Let_def)
next
  case (client i)
  with assms(3,4) stream_coherent [of "''ClientStreamingEcho''"] show ?thesis
    by (intro served_stream) (simp_all add: serviceMethods_def, simp add: makeStreamingSpec_def Let_def)
next
  case (bidi i)
  with assms(3,4) stream_coherent [of "''BidirectionalStreamingEcho''"] show ?thesis
    by (intro served_stream) (simp_all add: serviceMethods_def, simp add: makeStreamingSpec_def Let_def)
qed

section \<open>Terminal outcomes\<close>

text \<open>The specification of the three scenarios that do not end in success.\<close>

definition fixtureRPC :: "scenario_spec \<Rightarrow> bool" where
  "fixtureRPC spec \<longleftrightarrow> coherent spec \<and> sc_payload spec = replicate 128 71 \<and>
     sc_metadataProfile spec \<noteq> metadataProfileV1 \<and> sc_compression spec = ''identity''"

lemma fixture_frame:
  assumes "fixtureRPC spec"
  shows "requestFrame z spec = wireFrame (replicate 128 71)" "spec\<lparr>sc_compression := ''identity''\<rparr> = spec"
    "Grpc_Server.decodeFrame z (wireFrame (replicate 128 71)) ''identity'' =
       Inr (encodeProtobuf (replicate 128 71), replicate 128 71)"
    "readAllBody (maxFrameBytes + 1) (newWriter (wireFrame (replicate 128 71))) =
       (Inr (wireFrame (replicate 128 71)), newWriter [])"
proof -
  have l: "length (encodeProtobuf (replicate 128 (71 :: byte))) = 131" by (rule fixture_lengths)
  show "requestFrame z spec = wireFrame (replicate 128 71)"
    using assms by (simp add: fixtureRPC_def requestFrame_identity)
  show "spec\<lparr>sc_compression := ''identity''\<rparr> = spec" using assms by (cases spec) (simp add: fixtureRPC_def)
  show "Grpc_Server.decodeFrame z (wireFrame (replicate 128 71)) ''identity'' =
      Inr (encodeProtobuf (replicate 128 71), replicate 128 71)"
    by (rule decode_identity(1)) (simp add: l)
  show "readAllBody (maxFrameBytes + 1) (newWriter (wireFrame (replicate 128 71))) =
      (Inr (wireFrame (replicate 128 71)), newWriter [])"
    by (rule readAllBody_new) (simp add: wireFrame_def l maxFrameBytes_def)
qed

lemma fixture_accepted:
  assumes "fixtureRPC spec"
  shows "sc_method spec = ''ClientCancellation'' \<Longrightarrow>
      handleRPC z (rpcRequest spec extra) (newWriter (wireFrame (replicate 128 71))) =
      (UntilCancelled, writeHeader 200 (setHeader ''x-plab-ready'' ''1''
        (setHeader ''grpc-encoding'' ''identity'' (setHeader ''Content-Type'' ''application/grpc+proto'' (newWriter [])))))"
    "sc_method spec = ''DeadlineExceeded'' \<Longrightarrow> headerGet extra ''grpc-timeout'' = ''50m'' \<Longrightarrow>
      handleRPC z (rpcRequest spec extra) (newWriter (wireFrame (replicate 128 71))) =
      (ReturnedAfter 250000000, newWriter [])"
    "sc_method spec = ''TrailersOnlyStatus'' \<Longrightarrow>
      handleRPC z (rpcRequest spec extra) (newWriter (wireFrame (replicate 128 71))) =
      (Returned, writeHeader 200 (setHeader ''grpc-message'' ''plab invalid fixture''
        (setHeader ''grpc-status'' ''3'' (setHeader ''grpc-encoding'' ''identity''
          (setHeader ''Content-Type'' ''application/grpc+proto'' (newWriter []))))))"
proof -
  have m: "metadataOf spec @ extra = extra" using assms by (simp add: fixtureRPC_def metadataOf_def)
  have a: "coherent spec" "sc_compression spec = ''identity''" using assms by (simp_all add: fixtureRPC_def)
  note acc = accepted [OF a(1), of z extra, unfolded m a(2) Let_def]
  note fr = fixture_frame [OF assms]
  show "sc_method spec = ''ClientCancellation'' \<Longrightarrow>
      handleRPC z (rpcRequest spec extra) (newWriter (wireFrame (replicate 128 71))) =
      (UntilCancelled, writeHeader 200 (setHeader ''x-plab-ready'' ''1''
        (setHeader ''grpc-encoding'' ''identity'' (setHeader ''Content-Type'' ''application/grpc+proto'' (newWriter [])))))"
    using echo_fixtures(10) by (simp add: acc handleClientCancellation_def fr(3,4) [unfolded Suc_eq_plus1 [symmetric]])
  show "sc_method spec = ''DeadlineExceeded'' \<Longrightarrow> headerGet extra ''grpc-timeout'' = ''50m'' \<Longrightarrow>
      handleRPC z (rpcRequest spec extra) (newWriter (wireFrame (replicate 128 71))) =
      (ReturnedAfter 250000000, newWriter [])"
    using echo_fixtures(9) by (simp add: acc fr(3,4) [unfolded Suc_eq_plus1 [symmetric]])
  show "sc_method spec = ''TrailersOnlyStatus'' \<Longrightarrow>
      handleRPC z (rpcRequest spec extra) (newWriter (wireFrame (replicate 128 71))) =
      (Returned, writeHeader 200 (setHeader ''grpc-message'' ''plab invalid fixture''
        (setHeader ''grpc-status'' ''3'' (setHeader ''grpc-encoding'' ''identity''
          (setHeader ''Content-Type'' ''application/grpc+proto'' (newWriter []))))))"
    using echo_fixtures(8) by (simp add: acc fr(3,4) [unfolded Suc_eq_plus1 [symmetric]])
qed

text \<open>What the libraries promise about a terminal call: the context of a cancelled call reports the
  cancellation, and a read of its body returns bytes the target wrote, in order, though perhaps not all of
  them. How long the round trip took is the clock's business; the deadline outcome is passed only
  inside a window of that time.\<close>

definition contextLaws :: "scenario_spec \<Rightarrow> rpc_env \<Rightarrow> bool" where
  "contextLaws spec env \<longleftrightarrow> (\<forall>c. \<exists>rest. conn_in c = fst (e_cancelledRead env c) @ rest) \<and>
     (sc_terminalMode spec = ''client-cancellation'' \<longrightarrow> e_contextErr env = Some contextCanceled)"

definition deadlineWindow :: "rpc_env \<Rightarrow> bool" where
  "deadlineWindow env \<longleftrightarrow> 40 * 10 ^ 6 \<le> e_headerNanos env \<and> e_headerNanos env < 250 * 10 ^ 6"

definition terminalOutcome :: "scenario_spec \<Rightarrow> rpc_observation \<Rightarrow> bool \<Rightarrow> bool" where
  "terminalOutcome spec obs passes \<longleftrightarrow> o_Passed obs = passes \<and> (o_Error obs = [] \<longleftrightarrow> passes) \<and>
     o_NoResponseData obs \<and> o_ExpectedTerminalOutcome obs = passes \<and>
     o_GRPCStatus obs = sc_expectedStatus spec \<and> o_GRPCMessage obs = sc_expectedMessage spec"

lemma cancelled_nothing:
  assumes "contextLaws spec env" "conn_in c = []"
  shows "fst (e_cancelledRead env c) = []"
  using assms unfolding contextLaws_def by (metis append_is_Nil_conv)

lemma terminal_served:
  assumes "fixtureRPC spec" "contextLaws spec env" "e_newRequest env = None" "e_roundTrip env = targetTrip z (50 * 10 ^ 6)"
    and "(sc_method spec, sc_terminalMode spec, sc_expectedStatus spec, sc_expectedMessage spec) \<in>
      {(''TrailersOnlyStatus'', ''trailers-only'', ''3'', ''plab invalid fixture''),
       (''DeadlineExceeded'', ''deadline-exceeded'', ''4'', ''''),
       (''ClientCancellation'', ''client-cancellation'', ''1'', '''')}"
  shows "terminalOutcome spec (invokeTerminal env (requestFrame z spec) spec)
    (sc_terminalMode spec = ''deadline-exceeded'' \<longrightarrow> deadlineWindow env)"
proof -
  note fr = fixture_frame [OF assms(1)] and acc = fixture_accepted [OF assms(1), where z = z]
  have t: "headerGet [(''grpc-timeout'', ''50m'')] ''grpc-timeout'' = ''50m''" by (simp add: headerGet_Cons)
  from assms(5) consider (only) "sc_method spec = ''TrailersOnlyStatus''" "sc_terminalMode spec = ''trailers-only''"
      "sc_expectedStatus spec = ''3''" "sc_expectedMessage spec = ''plab invalid fixture''"
    | (deadline) "sc_method spec = ''DeadlineExceeded''" "sc_terminalMode spec = ''deadline-exceeded''" "sc_expectedStatus spec = ''4''"
      "sc_expectedMessage spec = []"
    | (cancel) "sc_method spec = ''ClientCancellation''" "sc_terminalMode spec = ''client-cancellation''" "sc_expectedStatus spec = ''1''"
      "sc_expectedMessage spec = []"
    by auto
  then show ?thesis
  proof cases
    case only
    then show ?thesis
      using assms(3,4) acc(3) [OF only(1), where extra = "[]"]
      by (simp add: invokeTerminal_def fr(1,2) Let_def targetTrip_def trailersOnlyOutcome_def finish_fields
          header_names content_type_grpc terminalOutcome_def noObservation_def)
  next
    case deadline
    then show ?thesis
      using assms(3,4) acc(2) [OF deadline(1) t]
      by (simp add: invokeTerminal_def fr(1,2) Let_def targetTrip_def deadlineOutcome_def deadlineWindow_def
          terminalOutcome_def noObservation_def)
  next
    case cancel
    have "e_contextErr env = Some contextCanceled" using assms(2) cancel(2) by (simp add: contextLaws_def)
    moreover obtain readErr where
      "e_cancelledRead env \<lparr>conn_in = [], conn_end = EOF, conn_out = [], conn_cap = None\<rparr> = ([], readErr)"
      using cancelled_nothing [OF assms(2), of "\<lparr>conn_in = [], conn_end = EOF, conn_out = [], conn_cap = None\<rparr>"]
      by (metis conn.simps(1) prod.collapse)
    ultimately show ?thesis
      using assms(3,4) acc(1) [OF cancel(1), where extra = "[]"] cancel
      by (auto simp: invokeTerminal_def fr(1,2) Let_def targetTrip_def cancellationOutcome_def
          finish_fields header_names terminalOutcome_def noObservation_def contextCanceled_def split: prod.split)
  qed
qed

lemma specFor_terminal:
  assumes "specFor z i = Some spec" "sc_terminalMode spec \<noteq> ''''"
  shows "fixtureRPC spec \<and> (sc_method spec, sc_terminalMode spec, sc_expectedStatus spec, sc_expectedMessage spec) \<in>
      {(''TrailersOnlyStatus'', ''trailers-only'', ''3'', ''plab invalid fixture''),
       (''DeadlineExceeded'', ''deadline-exceeded'', ''4'', ''''),
       (''ClientCancellation'', ''client-cancellation'', ''1'', '''')}" (is "?P spec")
proof -
  have fix': "fixtureRPC (makeIdentitySpec z j mname (replicate 128 71) d)"
    if "mname \<in> {''TrailersOnlyStatus'', ''DeadlineExceeded'', ''ClientCancellation''}" for j mname d
    using that identity_coherent [of mname]
    by (auto simp: fixtureRPC_def serviceMethods_def makeIdentitySpec_def metadataProfileV1_def Let_def)
  have upd: "fixtureRPC (s\<lparr>sc_responseCount := n, sc_terminalMode := m, sc_expectedStatus := x, sc_expectedMessage := y\<rparr>) = fixtureRPC s"
    "fixtureRPC (s\<lparr>sc_responseCount := n, sc_terminalMode := m, sc_expectedStatus := x\<rparr>) = fixtureRPC s"
    "fixtureRPC (s\<lparr>sc_rpcType := r, sc_responseCount := n, sc_terminalMode := m, sc_expectedStatus := x\<rparr>) = fixtureRPC s"
    "fixtureRPC (s\<lparr>sc_rpcType := r\<rparr>) = fixtureRPC s"
    for s n m x y r by (simp_all add: fixtureRPC_def coherent_def)
  have plain: "sc_terminalMode (makeIdentitySpec z j mname p d) = ''''" "sc_terminalMode (gzipSpec z j) = ''''"
    "sc_terminalMode (makeStreamingSpec z j mname t a b) = ''''" "sc_method (makeIdentitySpec z j mname p d) = mname"
    "sc_expectedMessage (makeIdentitySpec z j mname p d) = ''''" for j mname p d t a b
    by (simp_all add: makeIdentitySpec_def gzipSpec_def makeStreamingSpec_def Let_def)
  have "i \<in> set supportedScenarioIDs" using assms(1) by (rule specFor_known)
  then have "\<exists>s. specFor z i = Some s \<and> (sc_terminalMode s = '''' \<or> ?P s)"
    unfolding supportedScenarioIDs_def set_simps insert_iff empty_iff
    by (elim disjE) (simp_all add: specFor_eqs plain fix' upd)
  with assms show ?thesis by auto
qed

section \<open>Whole runs\<close>

definition targetBacked :: "gzip_codec \<Rightarrow> scenario_spec \<Rightarrow> run_env \<Rightarrow> bool" where
  "targetBacked z spec r \<longleftrightarrow>
     e_newRequest (r_warm r) = None \<and> e_roundTrip (r_warm r) = targetTrip z (50 * 10 ^ 6) \<and>
     e_newRequest (r_rpc r) = None \<and> e_roundTrip (r_rpc r) = targetTrip z (50 * 10 ^ 6) \<and> contextLaws spec (r_rpc r) \<and>
     deadlineWindow (r_rpc r)"

text \<open>The channels a scenario needs.\<close>

definition opens :: "channel_env \<Rightarrow> bool" where
  "opens ch \<longleftrightarrow> (case openChannel ch of Inl e \<Rightarrow> False | Inr leaf \<Rightarrow> True)"

definition channelReady :: "scenario_spec \<Rightarrow> (nat \<Rightarrow> run_env) \<Rightarrow> bool" where
  "channelReady spec ops \<longleftrightarrow>
     (if newChannel spec
      then loadTargetAndRoots (r_channel (ops 0)) = None \<and> list_all (\<lambda>i. opens (r_channel (ops i))) [0..<10]
      else if sc_terminalMode spec \<noteq> ''''
      then loadTargetAndRoots (r_channel (ops 0)) = None \<and> opens (r_channel (ops 0))
      else establish (r_channel (ops 0)) = None)"

lemma execute_target:
  assumes "successful z spec" "gzipWorks z" "targetBacked z spec r"
  shows "(case execute z r spec profile of (res, err) \<Rightarrow> (x_Passed res, err = None)) =
    (let ok = establish (r_channel r) = None in (ok, ok))"
proof -
  have served: "passedObservation spec env (requestFrame z spec)
      (invoke z env (concat (replicate (sc_requestCount spec) (requestFrame z spec))) spec)"
    if "env \<in> {r_warm r, r_rpc r}" for env
    using that assms(3) by (intro rpc_served [OF assms(1,2)]) (auto simp: targetBacked_def)
  then have "o_Passed (invoke z env (concat (replicate (sc_requestCount spec) (requestFrame z spec))) spec)"
      "\<not> o_TimedOut (invoke z env (concat (replicate (sc_requestCount spec) (requestFrame z spec))) spec)"
    if "env \<in> {r_warm r, r_rpc r}" for env using that by (auto simp: passedObservation_def)
  then show ?thesis
    by (cases "establish (r_channel r)")
      (auto simp: execute_def requestFrame_def [symmetric] rpcMetrics_def baseResult_def Let_def)
qed

lemma executeTerminal_target:
  assumes "specFor z i = Some spec" "sc_terminalMode spec \<noteq> ''''" "targetBacked z spec r"
  shows "(case executeTerminal z r spec profile of (res, err) \<Rightarrow> (x_Passed res, err = None)) =
    (let ok = loadTargetAndRoots (r_channel r) = None \<and> opens (r_channel r) in (ok, ok))"
proof -
  have "terminalOutcome spec (invokeTerminal (r_rpc r) (requestFrame z spec) spec)
      (sc_terminalMode spec = ''deadline-exceeded'' \<longrightarrow> deadlineWindow (r_rpc r))"
    using specFor_terminal [OF assms(1,2)] assms(3)
    by (intro terminal_served) (auto simp: targetBacked_def)
  then have "o_Passed (invokeTerminal (r_rpc r) (requestFrame z spec) spec)" 
    using assms(3) by (simp add: terminalOutcome_def targetBacked_def)
  then show ?thesis
    by (cases "loadTargetAndRoots (r_channel r)"; cases "openChannel (r_channel r)")
      (auto simp: executeTerminal_def requestFrame_def [symmetric] opens_def baseResult_def Let_def)
qed

lemma newChannelLoop_target:
  assumes "successful z spec" "gzipWorks z" "sc_requestCount spec = 1" "list_all (\<lambda>i. targetBacked z spec (ops i)) is"
  shows "(case newChannelLoop z spec (requestFrame z spec) ops is st of
      Inl e \<Rightarrow> \<not> list_all (\<lambda>i. opens (r_channel (ops i))) is
    | Inr st' \<Rightarrow> list_all (\<lambda>i. opens (r_channel (ops i))) is \<and> length (k_latencies st') = length (k_latencies st) + length is)"
  using assms(4)
proof (induction "is" arbitrary: st)
  case (Cons i "is")
  have "passedObservation spec (r_rpc (ops i)) (requestFrame z spec)
      (invoke z (r_rpc (ops i)) (concat (replicate (sc_requestCount spec) (requestFrame z spec))) spec)"
    using Cons.prems by (intro rpc_served [OF assms(1,2)]) (auto simp: targetBacked_def)
  then have p: "o_Passed (invoke z (r_rpc (ops i)) (requestFrame z spec) spec)"
    using assms(3) by (simp add: passedObservation_def)
  show ?case
  proof (cases "openChannel (r_channel (ops i))")
    case (Inl e)
    then show ?thesis by (simp add: opens_def)
  next
    case (Inr leaf)
    let ?st = "st\<lparr>k_latencies := k_latencies st @ [r_elapsed (ops i)], k_read := k_read st + r_read (ops i),
      k_written := k_written st + r_written (ops i),
      k_last := (invoke z (r_rpc (ops i)) (requestFrame z spec) spec)\<lparr>o_LatencyNanos := r_elapsed (ops i)\<rparr>\<rparr>"
    have "newChannelLoop z spec (requestFrame z spec) ops (i # is) st = newChannelLoop z spec (requestFrame z spec) ops is ?st"
      using Inr p by (simp add: Let_def)
    with Cons.IH [of ?st] Cons.prems Inr show ?thesis by (simp add: opens_def split: sum.splits)
  qed
qed simp

lemma executeNewChannel_target:
  assumes "successful z spec" "gzipWorks z" "sc_requestCount spec = 1" "list_all (\<lambda>i. targetBacked z spec (ops i)) [0..<10]"
  shows "(case executeNewChannel z ops spec profile of (res, err) \<Rightarrow> (x_Passed res, err = None)) =
    (let ok = loadTargetAndRoots (r_channel (ops 0)) = None \<and> list_all (\<lambda>i. opens (r_channel (ops i))) [0..<10] in (ok, ok))"
  using newChannelLoop_target [OF assms, of "\<lparr>k_latencies = [], k_read = 0, k_written = 0, k_last = noObservation\<rparr>"]
  by (cases "loadTargetAndRoots (r_channel (ops 0))")
    (auto simp: executeNewChannel_def requestFrame_def [symmetric] baseResult_def Let_def
      simp del: upt_rec_numeral split: sum.splits)

end
