(* ===== verification/Lab_Certificates.thy ===== *)
theory Lab_Certificates
  imports Go_Sha256
begin

text \<open>
  The certificates the packages ship: the leaf of \<^verbatim>\<open>implementations/go-dns-dot/certs/leaf.pem\<close> and
  of \<^verbatim>\<open>implementations/go-grpc-h2/certs/leaf.pem\<close>, decoded, their public key parts, and the file
  \<^verbatim>\<open>executors/go-grpc-h2-executor/certs/root.pem\<close>. Their SHA-256 digests are computed here.
\<close>

definition fromHex :: "string \<Rightarrow> bytes" where
  "fromHex v = (case hexDecode v of Some b \<Rightarrow> b | None \<Rightarrow> [])"

definition dotLeafHex :: string where
  "dotLeafHex =
    (''308201d63082017ca00302010202142fd7a355fe5bd3ae5e990be0ff9703139d64e45f300a06082a'' @
     ''8648ce3d040302302b3129302706035504030c2050726f746f636f6c4c6162205365637572652044'' @
     ''4e53205465737420526f6f74301e170d3236303731333137323531365a170d333630373130313732'' @
     ''3531365a30183116301406035504030c0d646e732e706c61622e746573743059301306072a8648ce'' @
     ''3d020106082a8648ce3d030107034200042cc8c306ab1ee443c903b92a8cd22f3a26b89133eeb05b'' @
     ''1b29b788c498bd44973b1dfd953d3230869c0272f6e27dced675ab31ed683dc550747d52d608fd9e'' @
     ''45a3819030818d30180603551d110411300f820d646e732e706c61622e74657374300c0603551d13'' @
     ''0101ff04023000300e0603551d0f0101ff04040302078030130603551d25040c300a06082b060105'' @
     ''05070301301d0603551d0e0416041461e41e85facdcffaee32e465197b4859444d9286301f060355'' @
     ''1d230418301680144bbc8c3041c45544dcbc5b881f5d74f4ea1b841c300a06082a8648ce3d040302'' @
     ''0348003045022100b2c3c91519039ae36acc819e39f296c9dc13c0d38a65edabef65bd8a7677a1ff'' @
     ''02202fdf8dd0e9f9465b5da6de6ef824d9510ac0cd1924ef5fa2fcbcf43c03cf4f4c'')"

definition grpcLeafHex :: string where
  "grpcLeafHex =
    (''308201cf30820175a003020102021450b21c5d835b244914d52c0bbef91f6cca660263300a06082a'' @
     ''8648ce3d04030230253123302106035504030c1a50726f746f636f6c4c6162206752504320546573'' @
     ''7420526f6f74301e170d3236303731333137323534345a170d3238313031353137323534345a3019'' @
     ''3117301506035504030c0e677270632e706c61622e746573743059301306072a8648ce3d02010608'' @
     ''2a8648ce3d03010703420004c97ac2ec1c09f4ace617bd44596ceb22238a58069b56ef28abbf3377'' @
     ''cfa2c142e7d06afd56cc1893cdf441b68fd40b2406be4dfd8d4888028f16e9f35a900807a3818e30'' @
     ''818b30190603551d1104123010820e677270632e706c61622e7465737430130603551d25040c300a'' @
     ''06082b06010505070301300b0603551d0f040403020780300c0603551d130101ff04023000301d06'' @
     ''03551d0e041604147f4092f800275403f95aad2577edfbf917123631301f0603551d230418301680'' @
     ''146a9cb941a5a2dcf59b02b7ba58f74a12d2acf9a8300a06082a8648ce3d04030203480030450220'' @
     ''7278e6799d7e7fd36b0c9095af9bc1497cf5136f258690e52192ad32c8a46b930221009112907f4f'' @
     ''acf29477751b59af1d9af5754ac42956e04dddbce6934c04b59611'')"

definition grpcRootHex :: string where
  "grpcRootHex =
    (''2d2d2d2d2d424547494e2043455254494649434154452d2d2d2d2d0a4d4949426e7a434341555767'' @
     ''4177494241674955494f7151705952353044556858745270416e416f5673426d4b686b7743675949'' @
     ''4b6f5a497a6a3045417749770a4a54456a4d434547413155454177776155484a766447396a623278'' @
     ''4d595749675a314a51517942555a584e3049464a76623351774868634e4d6a59774e7a457a0a4d54'' @
     ''63794e5451305768634e4d7a59774e7a45774d5463794e545130576a416c4d534d77495159445651'' @
     ''514444427051636d393062324e76624578685969426e0a556c42444946526c63335167556d397664'' @
     ''44425a4d424d4742797147534d34394167454743437147534d34394177454841304941424e6d4179'' @
     ''462b51506862300a34464f662f5262627a364a5657582f4f50452f784c56544362515a584874464d'' @
     ''6a6c644f4e564b6d546d594f52636e4b33504a786a4a754239434c53326f34770a336633316f6b4d'' @
     ''374b306d6a557a42524d4230474131556444675157424252716e4c6c4270614c63395a7343743770'' @
     ''5939306f5330717a357144416642674e560a48534d4547444157674252716e4c6c4270614c63395a'' @
     ''73437437705939306f5330717a357144415042674e5648524d4241663845425441444151482f4d41'' @
     ''6f470a43437147534d343942414d43413067414d455543495143396d655832374247634861353045'' @
     ''3636326d6f3777357a545477314f6554467a4f65393349594132480a4b77496759365a3437347534'' @
     ''634138466f6b4a6f5739584c4a66617036544652424774304543646848425236434f383d0a2d2d2d'' @
     ''2d2d454e442043455254494649434154452d2d2d2d2d0a'')"

definition dotLeaf :: bytes where "dotLeaf = fromHex dotLeafHex"
definition dotLeafKey :: bytes where "dotLeafKey = take 91 (drop 150 dotLeaf)"
definition grpcLeaf :: bytes where "grpcLeaf = fromHex grpcLeafHex"
definition grpcLeafKey :: bytes where "grpcLeafKey = take 91 (drop 145 grpcLeaf)"
definition grpcRootPEM :: bytes where "grpcRootPEM = fromHex grpcRootHex"

section \<open>Digests\<close>

lemma fromHex_decode: "hexOk v \<Longrightarrow> hexDecode v = Some (fromHex v) \<and> length (fromHex v) = length v div 2"
  using hexDecode_ok [of v] by (auto simp: fromHex_def)

lemma hexDecode_drop:
  "hexDecode v = Some b \<Longrightarrow> hexDecode (drop (2 * n) v) = Some (drop n b)"
proof (induction v arbitrary: b n rule: hexDecode.induct)
  case (3 c d r)
  then show ?case by (cases n) (auto split: option.splits)
qed simp_all

lemma fromHex_part:
  "hexOk v \<Longrightarrow> take n (drop k (fromHex v)) = fromHex (take (2 * n) (drop (2 * k) v))"
  using hexDecode_take [OF hexDecode_drop [of v "fromHex v" k], of n] fromHex_decode [of v]
  by (simp add: fromHex_def [of "take (2 * n) (drop (2 * k) v)"])

lemma hexOk_part: "hexOk v \<Longrightarrow> 2 * (n + k) \<le> length v \<Longrightarrow> hexOk (take (2 * n) (drop (2 * k) v))"
  by (auto simp: hexOk_def list_all_iff dest!: in_set_takeD in_set_dropD)

lemma digest_fromHex:
  assumes "hexOk v" "length v = 2 * n"
    and "hexDecode p = Some ([0x80] @ replicate ((119 - n mod 64) mod 64) 0 @ be64 (of_nat (8 * n)))"
  shows "sha256Hex (fromHex v) = hexState (shaAbsorbB (stateBits shaInit) (wordsBits (hexBits (v @ p))))"
  using fromHex_decode [OF assms(1)] assms(2,3) by (intro sha256Hex_eval) auto

lemma pad_91:
  "hexDecode (''800000000000000000000000000000000000000000000000000000000000000000000002d8'') =
     Some ([0x80] @ replicate ((119 - 91 mod 64) mod 64) 0 @ be64 (of_nat (8 * 91)))"
  by code_simp

lemma pad_467:
  "hexDecode (''800000000000000000000000000000000000000000000000000000000000000000000000000000000000000e98'') =
     Some ([0x80] @ replicate ((119 - 467 mod 64) mod 64) 0 @ be64 (of_nat (8 * 467)))"
  by code_simp

lemma pad_474:
  "hexDecode (''8000000000000000000000000000000000000000000000000000000000000000000000000ed0'') =
     Some ([0x80] @ replicate ((119 - 474 mod 64) mod 64) 0 @ be64 (of_nat (8 * 474)))"
  by code_simp

lemma pad_623:
  "hexDecode (''8000000000000000000000000000001378'') =
     Some ([0x80] @ replicate ((119 - 623 mod 64) mod 64) 0 @ be64 (of_nat (8 * 623)))"
  by code_simp

text \<open>The hexadecimal texts are well-formed.\<close>

lemma certificate_hex:
  "hexOk dotLeafHex" "length dotLeafHex = 2 * 474" "hexOk grpcLeafHex" "length grpcLeafHex = 2 * 467"
  "hexOk grpcRootHex" "length grpcRootHex = 2 * 623"
  by (simp_all add: dotLeafHex_def grpcLeafHex_def grpcRootHex_def hexOk_def hexVal_def)

lemma dotLeaf_digest:
  "sha256Hex dotLeaf = ''b57bdd3eb90b36455900c17de9ff9a02c623e1f6b27626ad7821a40e35e8251c''"
  unfolding dotLeaf_def digest_fromHex [OF certificate_hex(1,2) pad_474] unfolding dotLeafHex_def
  by (simp only: sha_eval)

lemma grpcLeaf_digest:
  "sha256Hex grpcLeaf = ''4627eed7781247db01e5641e4799e1c71e45543c10e304c99ed74b6e0bc0e254''"
  unfolding grpcLeaf_def digest_fromHex [OF certificate_hex(3,4) pad_467] unfolding grpcLeafHex_def
  by (simp only: sha_eval)

lemma grpcRootPEM_digest:
  "sha256Hex grpcRootPEM = ''dda81fe80d268bbd91993339ceef728a7e9e181d1faee88af35d73be2a7b039b''"
  unfolding grpcRootPEM_def digest_fromHex [OF certificate_hex(5,6) pad_623] unfolding grpcRootHex_def
  by (simp only: sha_eval)

lemma dotLeafKey_digest:
  "sha256Hex dotLeafKey = ''cfa6d5d08ee2071e28fd96205b088156fa71b460262470e5b994624b0537cf25''"
proof -
  let ?v = "take (2 * 91) (drop (2 * 150) dotLeafHex)"
  have k: "dotLeafKey = fromHex ?v" unfolding dotLeafKey_def dotLeaf_def by (rule fromHex_part) (rule certificate_hex)
  have ok: "hexOk ?v" by (rule hexOk_part) (simp_all add: certificate_hex)
  have len: "length ?v = 2 * 91" by (simp add: certificate_hex)
  have "sha256Hex dotLeafKey = hexState (shaAbsorbB (stateBits shaInit) (wordsBits (hexBits (?v @ ''800000000000000000000000000000000000000000000000000000000000000000000002d8''))))"
    unfolding k by (rule digest_fromHex [OF ok len pad_91])
  also have "?v = ''3059301306072a8648ce3d020106082a8648ce3d030107034200042cc8c306ab1ee443c903b92a8cd22f3a26b89133eeb05b1b29b788c498bd44973b1dfd953d3230869c0272f6e27dced675ab31ed683dc550747d52d608fd9e45''" unfolding dotLeafHex_def by simp
  finally show ?thesis by (simp only: sha_eval)
qed

lemma grpcLeafKey_digest:
  "sha256Hex grpcLeafKey = ''83737e10fac4d3acac8245615dc510b8c12deb8f4756af3eaddf21118f18e4ea''"
proof -
  let ?v = "take (2 * 91) (drop (2 * 145) grpcLeafHex)"
  have k: "grpcLeafKey = fromHex ?v" unfolding grpcLeafKey_def grpcLeaf_def by (rule fromHex_part) (rule certificate_hex)
  have ok: "hexOk ?v" by (rule hexOk_part) (simp_all add: certificate_hex)
  have len: "length ?v = 2 * 91" by (simp add: certificate_hex)
  have "sha256Hex grpcLeafKey = hexState (shaAbsorbB (stateBits shaInit) (wordsBits (hexBits (?v @ ''800000000000000000000000000000000000000000000000000000000000000000000002d8''))))"
    unfolding k by (rule digest_fromHex [OF ok len pad_91])
  also have "?v = ''3059301306072a8648ce3d020106082a8648ce3d03010703420004c97ac2ec1c09f4ace617bd44596ceb22238a58069b56ef28abbf3377cfa2c142e7d06afd56cc1893cdf441b68fd40b2406be4dfd8d4888028f16e9f35a900807''" unfolding grpcLeafHex_def by simp
  finally show ?thesis by (simp only: sha_eval)
qed

end
