(* ===== verification/Grpc_Checks.thy ===== *)
theory Grpc_Checks
  imports Grpc_Run Lab_Certificates
begin

text \<open>
  What the verdicts of the gRPC pair mean: a passed observation proves the response it saw, a
  success status of the target proves a well-formed request, and the command exits with success
  exactly when the channels open. The properties of the pair are at the end.
\<close>

section \<open>What a passed observation proves\<close>

definition framesMatch :: "gzip_codec \<Rightarrow> scenario_spec \<Rightarrow> bytes \<Rightarrow> bool" where
  "framesMatch z spec frame \<longleftrightarrow>
     (case Grpc_Executor.decodeFrame z frame (sc_compression spec) of
        Inl e \<Rightarrow> False
      | Inr (protobuf, payload) \<Rightarrow>
          length payload = length (sc_payload spec) \<and> sha256Hex payload = sc_payloadHash spec \<and>
          length protobuf = sc_protobufBytes spec \<and> sha256Hex protobuf = sc_protobufHash spec)"

lemma validated_match: "validateResponseFrame z frame spec = None \<Longrightarrow> framesMatch z spec frame"
  by (auto simp: validateResponseFrame_def framesMatch_def split: sum.splits if_splits)

lemma readFull_split: "readFull n c = (Inr xs, c1) \<Longrightarrow> conn_in c = xs @ conn_in c1 \<and> conn_end c1 = conn_end c"
  by (auto simp: readFull_def split: if_splits)

lemma framesLoop_accepted:
  assumes "framesLoop z spec arrival n index agg arrived c = ((agg', arrived', k, None), c')"
  shows "\<exists>fs. length fs = n \<and> list_all (framesMatch z spec) fs \<and> conn_in c = concat fs @ conn_in c' \<and>
    conn_end c' = conn_end c \<and> agg' = agg @ concat fs"
  using assms
proof (induction n arbitrary: index agg arrived c)
  case (Suc n)
  from Suc.prems obtain header c1 message c2 where
    step: "readFull 5 c = (Inr header, c1)" "readFull (unat (uint32 (tl header))) c1 = (Inr message, c2)"
      "validateResponseFrame z (header @ message) spec = None"
      "framesLoop z spec arrival n (Suc index) (agg @ header @ message) (arrived @ [arrival index]) c2 =
         ((agg', arrived', k, None), c')"
    by (auto simp: Let_def split: prod.splits sum.splits if_splits option.splits)
  from Suc.IH [OF step(4)] obtain fs where
    fs: "length fs = n" "list_all (framesMatch z spec) fs" "conn_in c2 = concat fs @ conn_in c'"
      "conn_end c' = conn_end c2" "agg' = (agg @ header @ message) @ concat fs" by auto
  show ?case
    using fs readFull_split [OF step(1)] readFull_split [OF step(2)] validated_match [OF step(3)]
    by (intro exI [of _ "(header @ message) # fs"]) simp
qed simp

lemma responseFrames_accepted:
  assumes "readAndValidateResponseFrames z c spec arrival = (body, arrived, k, None)"
  shows "\<exists>fs. length fs = sc_responseCount spec \<and> list_all (framesMatch z spec) fs \<and> conn_in c = concat fs \<and>
    errorsIs (conn_end c) EOF \<and> body = concat fs \<and> k = sc_responseCount spec"
proof -
  from assms obtain n c1 where
    l: "framesLoop z spec arrival (sc_responseCount spec) 0 [] [] c = ((body, arrived, n, None), c1)"
      "halfClosed c1" "k = sc_responseCount spec"
    by (auto simp: readAndValidateResponseFrames_def split: prod.splits option.splits if_splits)
  from framesLoop_accepted [OF l(1)] show ?thesis using l(2,3) by (auto simp: halfClosed_def)
qed

lemma invoke_passed:
  assumes "o_Passed (invoke z env frames spec)"
  shows "\<exists>resp fs. e_roundTrip env (rpcRequest spec (metadataOf spec)) frames = Inr resp \<and>
    p_ProtoMajor resp = 2 \<and> p_StatusCode resp = 200 \<and> headerGet (p_Trailer resp) ''grpc-status'' = ''0'' \<and>
    length fs = sc_responseCount spec \<and> list_all (framesMatch z spec) fs \<and>
    conn_in (p_Body resp) = concat fs \<and> errorsIs (conn_end (p_Body resp)) EOF \<and>
    o_ResponseFrame (invoke z env frames spec) = concat fs"
proof -
  have n: "e_newRequest env = None" using assms by (cases "e_newRequest env") (simp_all add: invoke_def noObservation_def)
  obtain resp where r: "e_roundTrip env (rpcRequest spec (metadataOf spec)) frames = Inr resp"
    using assms unfolding invoke_def n option.case Let_def metadataOf_def [symmetric]
    by (cases "e_roundTrip env (rpcRequest spec (metadataOf spec)) frames") (simp_all add: noObservation_def)
  obtain body arrived k e where f: "readAndValidateResponseFrames z (p_Body resp) spec (e_arrival env) = (body, arrived, k, e)"
    by (metis prod_cases4)
  note run = invoke_def [of z env frames spec, unfolded n option.case Let_def metadataOf_def [symmetric] r sum.case f prod.case]
  have p: "responseProblems spec resp k e = []" using assms unfolding run by simp
  then have e: "e = None" by (auto simp: responseProblems_def split: option.splits)
  have "p_ProtoMajor resp = 2 \<and> p_StatusCode resp = 200 \<and> headerGet (p_Trailer resp) ''grpc-status'' = ''0''"
    using p by (auto simp: responseProblems_def Let_def split: if_splits)
  moreover have "o_ResponseFrame (invoke z env frames spec) = body" unfolding run by simp
  moreover obtain fs where "length fs = sc_responseCount spec" "list_all (framesMatch z spec) fs"
      "conn_in (p_Body resp) = concat fs" "errorsIs (conn_end (p_Body resp)) EOF" "body = concat fs"
    using responseFrames_accepted [OF f [unfolded e]] by blast
  ultimately show ?thesis using r by blast
qed

section \<open>Whole commands\<close>

lemma newChannel_spec:
  assumes "specFor z i = Some spec" "newChannel spec"
  shows "sc_requestCount spec = 1 \<and> sc_terminalMode spec = ''''"
proof -
  have plain: "sc_lifecycle (makeIdentitySpec z j mname p d) = ''pre-established-channel''" "sc_lifecycle (gzipSpec z j) = ''''"
    "sc_lifecycle (makeStreamingSpec z j mname t a b) = ''pre-established-channel''"
    "sc_terminalMode (makeIdentitySpec z j mname p d) = ''''" "sc_requestCount (makeIdentitySpec z j mname p d) = 1"
    for j mname p d t a b
    by (simp_all add: makeIdentitySpec_def gzipSpec_def makeStreamingSpec_def Let_def)
  have "i \<in> set supportedScenarioIDs" using assms(1) by (rule specFor_known)
  then have "\<exists>s. specFor z i = Some s \<and> (newChannel s \<longrightarrow> sc_requestCount s = 1 \<and> sc_terminalMode s = '''')"
    unfolding supportedScenarioIDs_def set_simps insert_iff empty_iff
    by (elim disjE) (simp_all add: specFor_eqs plain newChannel_def)
  with assms show ?thesis by auto
qed

text \<open>How the command turns the outcome of a run into its exit status.\<close>

lemma exit_verdict:
  assumes "(case run of (res, err) \<Rightarrow> (x_Passed res, err = None)) = (let ok = good in (ok, ok))"
  shows "snd (case run of (result, err) \<Rightarrow>
      let final = (if err = None then result else result\<lparr>x_Passed := False\<rparr>) in
      if (None :: go_error option) \<noteq> None then (None, 1)
      else (Some final, if err \<noteq> None \<or> \<not> x_Passed final then 1 else 0)) = (if good then 0 else (1 :: nat))"
  using assms by (cases run) (auto simp: Let_def)

lemma command_exit:
  assumes "specFor z (trimSpace (env ''PLAB_SCENARIO_ID'')) = Some spec" "trimSpace url \<noteq> ''''"
    and "validateSelection env spec = Inr profile" "gzipWorks z" "list_all (\<lambda>i. targetBacked z spec (ops i)) [0..<10]"
  shows "snd (runMain z env url ops None) = (if channelReady spec ops then 0 else 1)"
proof -
  have b: "targetBacked z spec (ops 0)" using assms(5) by (simp add: list_all_iff)
  note run = runMain_def [of z env url ops None, unfolded assms(1,3) option.case sum.case]
  consider (churn) "newChannel spec" | (terminal) "\<not> newChannel spec" "sc_terminalMode spec \<noteq> ''''"
    | (plain) "\<not> newChannel spec" "sc_terminalMode spec = ''''" by blast
  then show ?thesis
  proof cases
    case churn
    with newChannel_spec [OF assms(1)] specFor_successful [OF assms(1)]
    have "successful z spec" "sc_requestCount spec = 1" by simp_all
    note v = exit_verdict [OF executeNewChannel_target [OF this(1) assms(4) this(2) assms(5)]]
    show ?thesis unfolding run channelReady_def using churn assms(2) v by (simp del: upt_rec_numeral)
  next
    case terminal
    note v = exit_verdict [OF executeTerminal_target [OF assms(1) terminal(2) b]]
    show ?thesis unfolding run channelReady_def using terminal assms(2) v by (simp del: upt_rec_numeral)
  next
    case plain
    note v = exit_verdict [OF execute_target [OF specFor_successful [OF assms(1) plain(2)] assms(4) b]]
    show ?thesis unfolding run channelReady_def using plain assms(2) v by (simp del: upt_rec_numeral)
  qed
qed

section \<open>What the target accepts\<close>

definition grpcStatus :: "response_writer \<Rightarrow> string" where
  "grpcStatus w = headerGet (p_Trailer (finishResponse w)) ''grpc-status''"

lemma rejected_status:
  "rw_Status w = None \<Longrightarrow> grpcStatus (writeGRPCError s m w) = s"
  by (simp add: grpcStatus_def writeGRPCError_def trailer_get declared header_names)

lemma undeclared_status:
  assumes "headerGet (rw_Sent (writeHeader 200 w)) ''Trailer'' = ''''"
  shows "grpcStatus w = ''''"
proof -
  have "declaredTrailers (rw_Sent (writeHeader 200 w)) = [[]]"
    unfolding declaredTrailers_def assms by (simp add: trimSpace_def)
  then show ?thesis by (simp add: grpcStatus_def trailer_get equalFold_def toLower_def)
qed

lemma httpError_status:
  "rw_Status w = None \<Longrightarrow> headerGet (rw_Header w) ''Trailer'' = '''' \<Longrightarrow> grpcStatus (httpError m code w) = ''''"
proof (rule undeclared_status)
  assume "rw_Status w = None" "headerGet (rw_Header w) ''Trailer'' = ''''"
  moreover have "\<not> equalFold ''X-Content-Type-Options'' ''Trailer''" by (simp add: literal_fold)
  ultimately show "headerGet (rw_Sent (writeHeader 200 (httpError m code w))) ''Trailer'' = ''''"
    by (simp add: httpError_def writeBody_def header_names split: prod.splits)
qed

lemma readAllBody_writer:
  assumes "readAllBody (maxFrameBytes + 1) (newWriter body) = (res, w)"
  shows "rw_Header w = [] \<and> rw_Status w = None \<and> res = Inr (take (maxFrameBytes + 1) body)"
  using assms by (auto simp: readAllBody_def readAllLimited_def split: if_splits)

lemma cancellation_status:
  assumes "handleClientCancellation z (newWriter body) = (e, w)"
  shows "grpcStatus w \<noteq> ''0''"
proof -
  obtain res w1 where r: "readAllBody (maxFrameBytes + 1) (newWriter body) = (res, w1)" by force
  note p = readAllBody_writer [OF r]
  have "grpcStatus (writeHeader 200 (setHeader ''x-plab-ready'' ''1'' (setHeader ''grpc-encoding'' ''identity''
      (setHeader ''Content-Type'' ''application/grpc+proto'' w1)))) = ''''"
    using p by (intro undeclared_status) (simp add: header_names)
  then show ?thesis
    using assms p rejected_status [of w1] unfolding handleClientCancellation_def r prod.case
    by (auto split: sum.splits if_splits)
qed

lemma unary_success:
  assumes "handleRPC z r (newWriter body) = (e, w)" "grpcStatus w = ''0''"
    and "trimPrefix (q_Path r) servicePrefix \<notin> {''ServerStreamingEcho'', ''ClientStreamingEcho'', ''BidirectionalStreamingEcho''}"
  shows "\<exists>pb p. Grpc_Server.decodeFrame z (take (maxFrameBytes + 1) body)
      (if trimPrefix (q_Path r) servicePrefix = ''UnaryGzip'' then ''gzip'' else ''identity'') = Inr (pb, p) \<and>
    validScenarioPayload (trimPrefix (q_Path r) servicePrefix) p pb \<and>
    q_ProtoMajor r = 2 \<and> q_TLSVersion r = Some 0x304 \<and> q_Method r = ''POST''"
proof -
  obtain res w1 where rd: "readAllBody (maxFrameBytes + 1) (newWriter body) = (res, w1)" by force
  note p = readAllBody_writer [OF rd]
  have only: "grpcStatus (writeHeader 200 (setHeader ''grpc-message'' ''plab invalid fixture''
      (setHeader ''grpc-status'' ''3'' (setHeader ''grpc-encoding'' ''identity''
        (setHeader ''Content-Type'' ''application/grpc+proto'' w1))))) = ''''"
    using p by (intro undeclared_status) (simp add: header_names)
  have waits: "grpcStatus w1 = ''''" using p by (intro undeclared_status) simp
  show ?thesis
    using assms p only waits rejected_status [of w1] rejected_status [of "newWriter body"] httpError_status [of "newWriter body"]
      cancellation_status [of z body]
    unfolding handleRPC_def rd prod.case notFound_def
    by (auto simp: Let_def split: sum.splits if_splits)
qed

section \<open>The properties\<close>

text \<open>C11: Every scenario of the gRPC executor that is to succeed does so against the gRPC target,
  whatever the round trips and the clock return besides: unary calls with the fixture, the empty and
  the large payload, with metadata and with compression, and the three streaming calls. The
  observation passes, reports no error, and holds exactly the expected messages.\<close>

theorem rpc_interop:
  assumes "specFor z i = Some spec" "sc_terminalMode spec = ''''" "gzipWorks z"
    and "e_newRequest env = None" "e_roundTrip env = targetTrip z limit"
  shows "passedObservation spec env (requestFrame z spec)
    (invoke z env (concat (replicate (sc_requestCount spec) (requestFrame z spec))) spec)"
  using rpc_served [OF specFor_successful [OF assms(1,2)] assms(3-5)] .

definition sampleEnv :: rpc_env where
  "sampleEnv = \<lparr>e_newRequest = None, e_roundTrip = targetTrip storedGzip (50 * 10 ^ 6), e_headerNanos = 45 * 10 ^ 6,
     e_arrival = int, e_endNanos = 46 * 10 ^ 6, e_contextErr = None,
     e_cancelledRead = (\<lambda>_. ([], Some contextCanceled))\<rparr>"

lemma storedGzip_works: "gzipWorks storedGzip"
  by (simp add: gzipWorks_def storedGzip_def streamPayload_def fixture_lengths maxFrameBytes_def)

lemma sampleEnv_backed:
  "e_newRequest sampleEnv = None" "e_roundTrip sampleEnv = targetTrip storedGzip (50 * 10 ^ 6)" 
  "sc_terminalMode spec \<noteq> ''client-cancellation'' \<Longrightarrow> contextLaws spec sampleEnv" "deadlineWindow sampleEnv"
  by (simp_all add: sampleEnv_def contextLaws_def deadlineWindow_def)

theorem rpc_interop_witness:
  "\<exists>spec. specFor storedGzip ''grpc.h2.bidi-streaming.echo'' = Some spec \<and>
     o_Passed (invoke storedGzip sampleEnv (concat (replicate 100 (requestFrame storedGzip spec))) spec) \<and>
     o_ResponseMessageCount (invoke storedGzip sampleEnv (concat (replicate 100 (requestFrame storedGzip spec))) spec) = 100"
proof -
  let ?s = "makeStreamingSpec storedGzip ''grpc.h2.bidi-streaming.echo'' ''BidirectionalStreamingEcho'' ''bidirectional-streaming'' 100 100"
  have s: "sc_terminalMode ?s = ''''" "sc_requestCount ?s = 100" "sc_responseCount ?s = 100"
    by (simp_all add: makeStreamingSpec_def Let_def)
  note p = rpc_interop [OF specFor_eqs(8) s(1) storedGzip_works sampleEnv_backed(1,2), unfolded s(2)]
  then show ?thesis
    by (intro exI [of _ ?s]) (simp only: specFor_eqs(8) passedObservation_def s(3) simp_thms)
qed

text \<open>C12: The three scenarios that must not succeed end as specified against the target: the
  trailers-only reply with its status and message, the deadline that fires before the target
  answers, the cancellation after the initial metadata. Each reports the expected status and message and
  no response data; the trailers-only reply and the cancellation always pass, whatever part of the
  target's response a read after the cancellation returns, and the deadline passes exactly when the
  round trip came back between 40 and 250 milliseconds after it started.\<close>

theorem terminal_interop:
  assumes "specFor z i = Some spec" "sc_terminalMode spec \<noteq> []" "contextLaws spec env"
    and "e_newRequest env = None" "e_roundTrip env = targetTrip z (50 * 10 ^ 6)"
  shows "terminalOutcome spec (invokeTerminal env (requestFrame z spec) spec)
    (sc_terminalMode spec = ''deadline-exceeded'' \<longrightarrow>
       40 * 10 ^ 6 \<le> e_headerNanos env \<and> e_headerNanos env < 250 * 10 ^ 6)"
  using specFor_terminal [OF assms(1,2)] assms(3-5) unfolding deadlineWindow_def [symmetric]
  by (intro terminal_served) simp_all

definition cancelledEnv :: rpc_env where
  "cancelledEnv = sampleEnv\<lparr>e_contextErr := Some contextCanceled,
     e_cancelledRead := (\<lambda>c. (take 3 (conn_in c), Some contextCanceled))\<rparr>"

theorem terminal_interop_witness:
  "\<exists>spec. specFor storedGzip ''grpc.h2.client-cancellation'' = Some spec \<and>
     o_Passed (invokeTerminal cancelledEnv (requestFrame storedGzip spec) spec) \<and>
     o_GRPCStatus (invokeTerminal cancelledEnv (requestFrame storedGzip spec) spec) = ''1''"
proof -
  let ?s = "(makeIdentitySpec storedGzip ''grpc.h2.client-cancellation'' ''ClientCancellation'' (replicate 128 71) (5 * 10 ^ 9))
       \<lparr>sc_rpcType := ''server-streaming'', sc_responseCount := 0,
        sc_terminalMode := ''client-cancellation'', sc_expectedStatus := ''1''\<rparr>"
  have s: "sc_terminalMode ?s \<noteq> []" "sc_terminalMode ?s \<noteq> ''deadline-exceeded''" "sc_expectedStatus ?s = ''1''" by simp_all
  have "contextLaws ?s cancelledEnv" unfolding contextLaws_def cancelledEnv_def
    by simp (metis append_take_drop_id)
  moreover have "e_newRequest cancelledEnv = None" "e_roundTrip cancelledEnv = targetTrip storedGzip (50 * 10 ^ 6)"
    by (simp_all add: cancelledEnv_def sampleEnv_def)
  ultimately have "terminalOutcome ?s (invokeTerminal cancelledEnv (requestFrame storedGzip ?s) ?s) True"
    using terminal_interop [OF specFor_eqs(11) s(1), of cancelledEnv] s(2) by simp
  then show ?thesis
    by (intro exI [of _ ?s]) (simp only: specFor_eqs(11) terminalOutcome_def s(3) simp_thms)
qed

text \<open>C13: A passed observation is evidence. If the executor reports that a call passed, then the
  transport returned an HTTP/2 response with status 200 and the trailer grpc-status 0, its body ended
  cleanly, and it was exactly the specified number of frames, each of which decodes to a message and
  a payload with the specified lengths and digests.\<close>

theorem invoke_sound:
  assumes "o_Passed (invoke z env frames spec)"
  shows "\<exists>resp fs. e_roundTrip env (rpcRequest spec (metadataOf spec)) frames = Inr resp \<and>
    p_ProtoMajor resp = 2 \<and> p_StatusCode resp = 200 \<and> headerGet (p_Trailer resp) ''grpc-status'' = ''0'' \<and>
    length fs = sc_responseCount spec \<and> list_all (framesMatch z spec) fs \<and>
    conn_in (p_Body resp) = concat fs \<and> errorsIs (conn_end (p_Body resp)) EOF \<and>
    o_ResponseFrame (invoke z env frames spec) = concat fs"
  using assms by (rule invoke_passed)

theorem invoke_sound_witness:
  "\<exists>resp fs. targetTrip storedGzip (50 * 10 ^ 6) (rpcRequest (gzipSpec storedGzip ''g'') []) (requestFrame storedGzip (gzipSpec storedGzip ''g'')) =
      Inr resp \<and> p_StatusCode resp = 200 \<and> length fs = 1 \<and> list_all (framesMatch storedGzip (gzipSpec storedGzip ''g'')) fs \<and>
      conn_in (p_Body resp) = concat fs"
proof -
  let ?s = "gzipSpec storedGzip ''g''" and ?f = "requestFrame storedGzip (gzipSpec storedGzip ''g'')"
  have s: "sc_requestCount ?s = 1" "sc_responseCount ?s = 1" "metadataOf ?s = []"
    by (simp_all add: gzipSpec_def metadataOf_def metadataProfileV1_def Let_def)
  have "o_Passed (invoke storedGzip sampleEnv ?f ?s)"
    using rpc_served [OF successful.gzip storedGzip_works sampleEnv_backed(1,2), of "''g''"] s(1)
    by (simp add: passedObservation_def)
  from invoke_sound [OF this] show ?thesis unfolding s sampleEnv_backed by blast
qed

text \<open>C14: The target reports success only for its fixtures. For every request and every body, if a
  method that is not streaming ends with the trailer grpc-status 0, then the request came over HTTP/2
  with TLS 1.3 as a POST, and the body was one envelope, with the compression of the method, around a
  message whose payload is the one the method is specified for; every other request is refused.\<close>

theorem success_only_on_fixtures:
  assumes "handleRPC z r (newWriter body) = (e, w)" "headerGet (p_Trailer (finishResponse w)) ''grpc-status'' = ''0''"
    and "trimPrefix (q_Path r) servicePrefix \<notin> {''ServerStreamingEcho'', ''ClientStreamingEcho'', ''BidirectionalStreamingEcho''}"
  shows "\<exists>pb p. Grpc_Server.decodeFrame z (take (maxFrameBytes + 1) body)
      (if trimPrefix (q_Path r) servicePrefix = ''UnaryGzip'' then ''gzip'' else ''identity'') = Inr (pb, p) \<and>
    validScenarioPayload (trimPrefix (q_Path r) servicePrefix) p pb \<and>
    q_ProtoMajor r = 2 \<and> q_TLSVersion r = Some 0x304 \<and> q_Method r = ''POST''"
  using unary_success [of z r body e w] assms by (simp add: grpcStatus_def)

theorem success_only_on_fixtures_witness:
  "\<exists>(r :: h2_request) pb p. Grpc_Server.decodeFrame storedGzip (take (maxFrameBytes + 1) (wireFrame [])) ''identity'' = Inr (pb, p) \<and>
     validScenarioPayload ''UnaryEcho'' p pb \<and> q_Path r = echoPath ''UnaryEcho'' \<and> q_Method r = ''POST''"
proof -
  let ?s = "makeIdentitySpec storedGzip ''e'' ''UnaryEcho'' [] 0"
  have c: "coherent ?s" by (rule identity_coherent) (simp_all add: serviceMethods_def)
  have s: "sc_method ?s = ''UnaryEcho''" "sc_compression ?s = ''identity''" "sc_responseCount ?s = 1" "sc_path ?s = echoPath ''UnaryEcho''"
    by (simp_all add: makeIdentitySpec_def Let_def)
  have "\<exists>w. handleRPC storedGzip (rpcRequest ?s (metadataOf ?s)) (newWriter (envelope 0 [])) = (Returned, w) \<and>
      goodResponse ?s (finishResponse w) 0 []"
    using decode_identity(1) [of "[]" storedGzip] echo_fixtures(4)
    by (intro unary_good [OF c]) (simp_all add: s maxFrameBytes_def wireFrame_def encodeProtobuf_def encodeFrame_identity)
  then obtain w where w: "handleRPC storedGzip (rpcRequest ?s (metadataOf ?s)) (newWriter (wireFrame [])) = (Returned, w)"
      "headerGet (p_Trailer (finishResponse w)) ''grpc-status'' = ''0''"
    by (auto simp: goodResponse_def wireFrame_def encodeProtobuf_def)
  have q: "q_Path (rpcRequest ?s (metadataOf ?s)) = echoPath ''UnaryEcho''" "q_Method (rpcRequest ?s (metadataOf ?s)) = ''POST''"
    by (simp_all add: rpcRequest_def s)
  show ?thesis
    by (rule exI [of _ "rpcRequest ?s (metadataOf ?s)"])
      (insert success_only_on_fixtures [OF w, unfolded q trimPrefix_path], auto simp: q)
qed

text \<open>A run of the gRPC command against the target ends with exit status 0 exactly when the
  channels it needs are established, in each of its three modes: one pre-established channel, one
  channel for a terminal outcome, ten new channels. The selection is one the command accepts, the
  target answers every round trip, and the artifacts can be written.\<close>

theorem grpc_run_exit:
  assumes "specFor z (trimSpace (env ''PLAB_SCENARIO_ID'')) = Some spec" "trimSpace url \<noteq> ''''"
    and "validateSelection env spec = Inr profile" "gzipWorks z" "list_all (\<lambda>i. targetBacked z spec (ops i)) [0..<10]"
  shows "snd (runMain z env url ops None) = (if channelReady spec ops then 0 else 1)"
  using assms by (rule command_exit)

definition sampleSelection :: env where
  "sampleSelection name =
     (case map_of [(''PLAB_EXECUTOR_ID'', ''go-grpc-h2-executor''), (''PLAB_EXECUTOR_VERSION'', ''0.4.2''),
        (''PLAB_LOAD_GENERATOR_ID'', ''go-x-net-http2-grpc-load''), (''PLAB_LOAD_GENERATOR_VERSION'', ''0.4.2''),
        (''PLAB_SCENARIO_ID'', ''grpc.h2.unary.echo''), (''PLAB_PROTOCOL'', ''h2''),
        (''PLAB_PROTOCOL_VARIANT'', ''grpc-over-h2-tls-alpn''), (''PLAB_LOAD_PROFILE_ID'', ''grpc-h2-smoke''),
        (''PLAB_CONNECTIONS'', ''1''), (''PLAB_CONCURRENCY'', ''1''), (''PLAB_STREAMS_PER_CONNECTION'', ''1''),
        (''PLAB_DURATION_SECONDS'', ''5''), (''PLAB_WARMUP_SECONDS'', ''1''), (''PLAB_REPETITION'', ''1'')] name of
        None \<Rightarrow> '''' | Some v \<Rightarrow> v)"

definition sampleRun :: run_env where
  "sampleRun = \<lparr>r_channel = \<lparr>c_urlOk = True, c_rootPEM = Inr grpcRootPEM, c_rootsParse = True, c_dial = None, c_handshake = None,
       c_state = \<lparr>ts_Version = 0x304, ts_ALPN = ''h2'', ts_Mutual = True, ts_DidResume = False, ts_Peers = [(grpcLeaf, grpcLeafKey)]\<rparr>,
       c_newConn = None\<rparr>,
     r_warm = sampleEnv, r_rpc = sampleEnv, r_read = 100, r_written = 100, r_elapsed = 10 ^ 6\<rparr>"

lemma sampleSelection_accepted:
  "trimSpace (sampleSelection ''PLAB_SCENARIO_ID'') = ''grpc.h2.unary.echo''"
  "sc_id spec = ''grpc.h2.unary.echo'' \<Longrightarrow> sc_lifecycle spec = ''pre-established-channel'' \<Longrightarrow>
     sc_terminalMode spec = '''' \<Longrightarrow> validateSelection sampleSelection spec = Inr loadProfileSmoke"
  by (simp_all add: sampleSelection_def validateSelection_def Let_def trimSpace_def isSpace_def newChannel_def
      executorID_def executorVersion_def loadGeneratorID_def loadGeneratorVersion_def protocolVariant_def
      loadProfileSmoke_def loadProfileDiagnostic_def loadProfileChannelChurn_def smokeScenarios_def)

text \<open>The channel of the sample run: the shipped root and leaf certificates are the pinned ones.\<close>

lemma sampleRun_opens: "establish (r_channel sampleRun) = None"
  by (simp add: establish_def loadTargetAndRoots_def sampleRun_def pinnedLeaf_def grpcRootPEM_digest grpcLeaf_digest
      grpcLeafKey_digest expectedRootPEMHash_def expectedLeafCertificateHash_def expectedLeafSPKIHash_def)

theorem grpc_run_exit_witness:
  "snd (runMain storedGzip sampleSelection ''https://localhost:18444'' (\<lambda>_. sampleRun) None) = 0"
proof -
  let ?s = "makeIdentitySpec storedGzip ''grpc.h2.unary.echo'' ''UnaryEcho'' (replicate 128 71) (5 * 10 ^ 9)"
  have "specFor storedGzip (trimSpace (sampleSelection ''PLAB_SCENARIO_ID'')) = Some ?s"
    by (simp only: sampleSelection_accepted(1) specFor_eqs(1))
  moreover have "trimSpace ''https://localhost:18444'' \<noteq> ''''" by (simp add: trimSpace_def isSpace_def)
  moreover have "validateSelection sampleSelection ?s = Inr loadProfileSmoke"
    by (rule sampleSelection_accepted(2)) (simp_all add: makeIdentitySpec_def Let_def)
  moreover have "list_all (\<lambda>i. targetBacked storedGzip ?s sampleRun) [0..<10]"
    using sampleEnv_backed(1,2,4) sampleEnv_backed(3) [of ?s]
    by (simp add: list_all_iff targetBacked_def sampleRun_def makeIdentitySpec_def Let_def)
  ultimately have "snd (runMain storedGzip sampleSelection ''https://localhost:18444'' (\<lambda>_. sampleRun) None) =
      (if channelReady ?s (\<lambda>_. sampleRun) then 0 else 1)"
    by (intro grpc_run_exit storedGzip_works)
  moreover have "channelReady ?s (\<lambda>_. sampleRun)"
    by (simp add: channelReady_def newChannel_def makeIdentitySpec_def Let_def sampleRun_opens)
  ultimately show ?thesis by simp
qed

lemma signed_negative:
  fixes x :: int
  shows "(x + 2 ^ 63) mod 2 ^ 64 - 2 ^ 63 < 0 \<longleftrightarrow> 2 ^ 63 \<le> x mod 2 ^ 64"
proof -
  define y where "y = x mod 2 ^ 64"
  have y: "0 \<le> y" "y < 2 ^ 64" by (simp_all add: y_def)
  have m: "(x + 2 ^ 63) mod 2 ^ 64 = (y + 2 ^ 63) mod 2 ^ 64" unfolding y_def by (rule mod_add_left_eq [symmetric])
  have "(y + 2 ^ 63) mod 2 ^ 64 = (if y < 2 ^ 63 then y + 2 ^ 63 else y - 2 ^ 63)"
  proof (cases "y < 2 ^ 63")
    case False
    have "(y + 2 ^ 63) mod 2 ^ 64 = (y - 2 ^ 63 + 2 ^ 64) mod 2 ^ 64" by (simp add: add.commute)
    also have "\<dots> = (y - 2 ^ 63) mod 2 ^ 64" by (rule mod_add_self2)
    also have "\<dots> = y - 2 ^ 63" using False y by (intro mod_pos_pos_trivial) simp_all
    finally show ?thesis using False by simp
  qed (use y in simp)
  then show ?thesis using y unfolding m y_def [symmetric] by simp
qed

text \<open>C16: The request timeout of the gRPC command is a 64-bit number of nanoseconds. A configured
  positive number of seconds gives the number in that range that is congruent to it in nanoseconds
  modulo \<open>2 ^ 64\<close>. So the timeout is the configured one exactly when it is at most 9223372036 seconds,
  about 292 years; the next 9223372037 numbers all give a negative timeout, and in general the timeout is
  negative exactly when the nanoseconds modulo \<open>2 ^ 64\<close> reach \<open>2 ^ 63\<close>.\<close>

theorem request_timeout_width:
  assumes "atoi (trimSpace (env name)) = (s, None)" "0 < s"
  shows "let d = durationFromEnvironment env name fallback in
    - (2 ^ 63) \<le> d \<and> d < 2 ^ 63 \<and> d mod 2 ^ 64 = s * 10 ^ 9 mod 2 ^ 64 \<and>
    (d = s * 10 ^ 9 \<longleftrightarrow> s \<le> 9223372036) \<and>
    (d < 0 \<longleftrightarrow> 2 ^ 63 \<le> s * 10 ^ 9 mod 2 ^ 64) \<and>
    (9223372036 < s \<and> s \<le> 18446744073 \<longrightarrow> d < 0)"
proof -
  let ?d = "durationFromEnvironment env name fallback"
  have w: "sint (word_of_int (k * 10 ^ 9) :: 64 word) = (k * 10 ^ 9 + 2 ^ 63) mod 2 ^ 64 - 2 ^ 63" for k
    unfolding signed_of_int signed_take_bit_eq_take_bit_shift take_bit_eq_mod by simp
  have v: "trimSpace (env name) \<noteq> []" using assms(1) by (auto simp: atoi_def)
  define x where "x = s * 10 ^ 9"
  have d: "?d = (x + 2 ^ 63) mod 2 ^ 64 - 2 ^ 63"
    unfolding durationFromEnvironment_def Let_def assms(1) prod.case option.case w x_def using v assms(2) by auto
  have range: "- (2 ^ 63) \<le> ?d" "?d < 2 ^ 63" unfolding d by simp_all
  have cong: "?d mod 2 ^ 64 = x mod 2 ^ 64" unfolding d by (simp add: mod_diff_left_eq)
  have neg: "?d < 0 \<longleftrightarrow> 2 ^ 63 \<le> x mod 2 ^ 64" unfolding d by (rule signed_negative)
  have exact: "?d = x \<longleftrightarrow> s \<le> 9223372036" using range unfolding d x_def using assms(2) by auto
  have "2 ^ 63 \<le> x mod 2 ^ 64" if "9223372036 < s" "s \<le> 18446744073"
    using that by (simp add: x_def)
  with range cong neg exact show ?thesis unfolding Let_def x_def by blast
qed

theorem request_timeout_width_witness:
  "durationFromEnvironment (\<lambda>_. ''18446744073'') ''PLAB_REQUEST_TIMEOUT_SECONDS'' 0 < 0"
proof -
  have "atoi (trimSpace ''18446744073'') = (18446744073, None)"
    by (simp add: atoi_def parseSigned_def trimSpace_def isSpace_def)
  from request_timeout_width [of "\<lambda>_. ''18446744073''", OF this, of "''PLAB_REQUEST_TIMEOUT_SECONDS''" 0] show ?thesis
    by (simp add: Let_def)
qed

end
