(* ===== verification/Dot_Target.thy ===== *)
theory Dot_Target
  imports Go_Sha256
begin

text \<open>
  The DNS-over-TLS target of \<^verbatim>\<open>implementations/go-dns-dot/source/main.go\<close>: the connection
  handler, which checks the TLS negotiation and then answers the one fixture query, message by
  message, keeping the set of message IDs that are being answered. TLS is a library: a connection
  comes with the result of its handshake and with the stream of decrypted bytes.
\<close>

section \<open>Constants\<close>

definition alpn :: string where "alpn = ''dot''"

definition requiredQueryHash :: string where
  "requiredQueryHash = ''c46b9fb76019b5a644d0884b17e816cb7c3076275d9468c27d180f70488eb8ec''"

definition mustHex :: "string \<Rightarrow> bytes" where
  \<comment> \<open>an undecodable constant panics while the package is initialised\<close>
  "mustHex v = (case hexDecode v of Some b \<Rightarrow> b | None \<Rightarrow> [])"

definition canonicalResponse :: bytes where
  "canonicalResponse = mustHex
    (''00008400000100010000000004706c616204746573740000010001c00c00010001000000000004c0'' @
     ''000201'')"

definition envOr :: "env \<Rightarrow> string \<Rightarrow> string \<Rightarrow> string" where
  "envOr getenv name fallback =
     (let v = trimSpace (getenv name) in if v \<noteq> '''' then v else fallback)"

text \<open>\<^verbatim>\<open>net.JoinHostPort\<close> on a host without a colon.\<close>

definition defaultListen :: "env \<Rightarrow> string" where
  "defaultListen getenv =
     (let v = trimSpace (getenv ''PLAB_DOT_LISTEN'') in
      if v \<noteq> '''' then v else ''127.0.0.1:'' @ envOr getenv ''PLAB_DOT_PORT'' ''18530'')"

section \<open>One connection\<close>

datatype dot_log =
    NotTLS | HandshakeRejected go_error | NegotiationMismatch
  | PrefixReadFailed go_error | LengthRejected nat | QueryReadFailed go_error
  | ZeroID | ReusedID | OutsideFixture | WriteFailed go_error

record tls_negotiation =
  n_Version :: nat
  n_Protocol :: string
  n_DidResume :: bool

definition putID :: "bytes \<Rightarrow> u16 \<Rightarrow> bytes" where
  "putID m mid = be16 mid @ drop 2 m"

definition framedResponse :: "u16 \<Rightarrow> bytes" where
  "framedResponse mid =
     (let response = putID canonicalResponse mid in be16 (of_nat (length response)) @ response)"

text \<open>One pass of the loop: \<open>Inl\<close> is a return with its log line, \<open>Inr\<close> the state for the next pass.\<close>

definition dotRound :: "u16 set \<Rightarrow> conn \<Rightarrow> dot_log list \<times> conn + u16 set \<times> conn" where
  "dotRound outstanding c =
     (case readFull 2 c of
        (Inl e, c1) \<Rightarrow>
          Inl (if \<not> errorsIs e EOF \<and> \<not> errorsIs e ErrClosed then [PrefixReadFailed e] else [], c1)
      | (Inr prefix, c1) \<Rightarrow>
          (let len = unat (uint16 prefix) in
           if len \<noteq> 27 then Inl ([LengthRejected len], c1)
           else (case readFull len c1 of
               (Inl e, c2) \<Rightarrow> Inl ([QueryReadFailed e], c2)
             | (Inr query, c2) \<Rightarrow>
                 (let mid = uint16 (take 2 query) in
                  if mid = 0 then Inl ([ZeroID], c2)
                  else if mid \<in> outstanding then Inl ([ReusedID], c2)
                  else (let outstanding1 = insert mid outstanding in
                    if sha256Hex (putID query 0) \<noteq> requiredQueryHash then Inl ([OutsideFixture], c2)
                    else (case connWrite (framedResponse mid) c2 of
                        (Some e, c3) \<Rightarrow> Inl ([WriteFailed e], c3)
                      | (None, c3) \<Rightarrow> Inr (outstanding1 - {mid}, c3)))))))"

lemma dotRound_shrinks:
  "dotRound outs c = Inr (outs', c') \<Longrightarrow> length (conn_in c') < length (conn_in c)"
  by (auto simp: dotRound_def Let_def split: prod.splits sum.splits option.splits if_splits
      dest!: readFull_decreases connWrite_frame(1))

function handleLoop :: "u16 set \<Rightarrow> conn \<Rightarrow> dot_log list \<times> conn" where
  "handleLoop outstanding c =
     (case dotRound outstanding c of Inl r \<Rightarrow> r | Inr (outstanding', c') \<Rightarrow> handleLoop outstanding' c')"
  by pat_completeness auto
termination
  by (relation "measure (\<lambda>(outs, c). length (conn_in c))") (auto intro: dotRound_shrinks)

declare handleLoop.simps [simp del]

definition handle :: "bool \<Rightarrow> go_error option \<Rightarrow> tls_negotiation \<Rightarrow> conn \<Rightarrow> dot_log list \<times> conn" where
  "handle isTLS handshake state c =
     (if \<not> isTLS then ([NotTLS], c)
      else (case handshake of
          Some e \<Rightarrow> ([HandshakeRejected e], c)
        | None \<Rightarrow>
            if n_Version state \<noteq> 0x304 \<or> n_Protocol state \<noteq> alpn \<or> n_DidResume state
            then ([NegotiationMismatch], c)
            else handleLoop {} c))"

section \<open>Facts about the fixture\<close>

lemma target_response [simp]: "length canonicalResponse = 43"
  using hexDecode_ok [of "''00008400000100010000000004706c616204746573740000010001c00c00010001000000000004c0000201''"]
  by (auto simp: canonicalResponse_def mustHex_def hexOk_def hexVal_def)

lemma dot_putID [simp]:
  "2 \<le> length m \<Longrightarrow> length (putID m mid) = length m" "uint16 (putID m mid) = mid"
  "putID (putID m i) j = putID m j"
  by (simp_all add: putID_def)

section \<open>The outstanding message IDs\<close>

text \<open>What the loop accepts, and how a pass ends.\<close>

definition dotAccepted :: "bytes \<Rightarrow> bool" where
  "dotAccepted query \<longleftrightarrow> length query = 27 \<and> uint16 query \<noteq> 0 \<and>
     sha256Hex (putID query 0) = requiredQueryHash"

definition dotFrame :: "bytes \<Rightarrow> bytes" where
  "dotFrame m = be16 (of_nat (length m)) @ m"

lemma uint16_take [simp]: "uint16 (take 2 m) = uint16 m"
  by (cases m rule: list.exhaust [case_names Nil Cons]; cases "tl m") (auto simp: numeral_2_eq_2)

text \<open>A pass that starts with no outstanding ID never meets a reused one, and ends without one.\<close>

lemma dotRound_empty:
  assumes "dotRound {} c = Inr (outs, c')"
  shows "outs = {} \<and> (\<exists>q. conn_in c = dotFrame q @ conn_in c' \<and> dotAccepted q \<and>
    conn_out c' = conn_out c @ [framedResponse (uint16 q)])"
proof -
  from assms obtain prefix q where
      "length prefix = 2" "conn_in c = prefix @ q @ conn_in c'" "length q = unat (uint16 prefix)"
      "dotAccepted q" "conn_out c' = conn_out c @ [framedResponse (uint16 q)]" "outs = {}"
    by (auto simp: dotRound_def dotAccepted_def Let_def readFull_Inr split: prod.splits sum.splits option.splits if_splits
        dest!: connWrite_out(1))
  moreover from this have "prefix @ q = dotFrame q"
    using be16_length [of prefix] by (simp add: dotFrame_def)
  ultimately show ?thesis by (metis append.assoc)
qed

lemma dotRound_returns:
  assumes "dotRound {} c = Inl (log, c')"
  shows "ReusedID \<notin> set log \<and> length log \<le> 1 \<and> conn_out c' = conn_out c"
  using assms
  by (auto simp: dotRound_def Let_def split: prod.splits sum.splits option.splits if_splits
      dest!: readFull_frame(2) connWrite_out(2))

lemma dotRound_serves:
  assumes "conn_in c = dotFrame q @ r" "dotAccepted q" "conn_cap c = None"
  shows "dotRound {} c = Inr ({}, c\<lparr>conn_in := r, conn_out := conn_out c @ [framedResponse (uint16 q)]\<rparr>)"
proof -
  have l: "length q = 27" using assms(2) by (simp add: dotAccepted_def)
  have "readFull 2 c = (Inr (be16 (of_nat (length q))), c\<lparr>conn_in := q @ r\<rparr>)"
    using assms(1) by (intro readFull_append) (simp_all add: dotFrame_def)
  with l assms(2,3) show ?thesis
    by (simp add: dotRound_def conn_simps dotAccepted_def)
qed

text \<open>A pass that returns although an accepted query is in front of the stream failed to write.\<close>

lemma dotRound_stops:
  assumes "dotRound {} c = Inl (log, c')" "conn_in c = dotFrame q @ r" "dotAccepted q"
  shows "\<exists>e. conn_cap c = Some (0, e) \<and> log = [WriteFailed e]"
proof -
  have l: "length q = 27" using assms(3) by (simp add: dotAccepted_def)
  have "readFull 2 c = (Inr (be16 (of_nat (length q))), c\<lparr>conn_in := q @ r\<rparr>)"
    using assms(2) by (intro readFull_append) (simp_all add: dotFrame_def)
  with l assms(1,3) show ?thesis
    by (auto simp: dotRound_def conn_simps dotAccepted_def connWrite_def Let_def split: option.splits prod.splits nat.splits)
qed

lemma dotRound_cap:
  "dotRound outs c = Inr (outs', c') \<Longrightarrow> conn_cap c = map_option (\<lambda>(n, e). (Suc n, e)) (conn_cap c')"
  by (auto simp: dotRound_def Let_def connWrite_def split: prod.splits sum.splits option.splits if_splits nat.splits
      dest!: readFull_frame(3))

text \<open>The handler on any stream: it answers the queries in front of it for as long as they are
  accepted and their answers can be written.\<close>

definition answeredUpTo :: "conn \<Rightarrow> dot_log list \<Rightarrow> bytes list \<Rightarrow> bytes \<Rightarrow> bool" where
  "answeredUpTo c log qs rest \<longleftrightarrow>
     conn_in c = concat (map dotFrame qs) @ rest \<and> list_all dotAccepted qs \<and>
     (\<forall>q r. dotAccepted q \<and> rest = dotFrame q @ r \<longrightarrow>
        (\<exists>e. conn_cap c = Some (length qs, e) \<and> log = [WriteFailed e]))"

lemma answeredUpTo_Cons:
  assumes "answeredUpTo c' log qs rest" "dotAccepted q" "conn_in c = dotFrame q @ conn_in c'"
    and "conn_cap c = map_option (\<lambda>(n, e). (Suc n, e)) (conn_cap c')"
  shows "answeredUpTo c log (q # qs) rest"
  using assms by (fastforce simp: answeredUpTo_def)

lemma handleLoop_serves:
  "\<exists>qs rest. answeredUpTo c (fst (handleLoop {} c)) qs rest \<and>
     length (fst (handleLoop {} c)) \<le> 1 \<and> ReusedID \<notin> set (fst (handleLoop {} c)) \<and>
     conn_out (snd (handleLoop {} c)) = conn_out c @ map (\<lambda>q. framedResponse (uint16 q)) qs"
proof (induction "length (conn_in c)" arbitrary: c rule: less_induct)
  case less
  show ?case
  proof (cases "dotRound {} c")
    case (Inl r)
    obtain log c' where r: "r = (log, c')" by force
    have "answeredUpTo c log [] (conn_in c)"
      using dotRound_stops [of c log c'] Inl r by (auto simp: answeredUpTo_def)
    with Inl r dotRound_returns [of c log c'] show ?thesis
      by (intro exI [of _ "[] :: bytes list"] exI [of _ "conn_in c"]) (simp add: handleLoop.simps [of "{}" c])
  next
    case (Inr s)
    obtain outs c' where s: "s = (outs, c')" by force
    from dotRound_empty [of c outs c'] Inr s obtain q where
      q: "outs = {}" "conn_in c = dotFrame q @ conn_in c'" "dotAccepted q"
        "conn_out c' = conn_out c @ [framedResponse (uint16 q)]" by auto
    have "length (conn_in c') < length (conn_in c)" using dotRound_shrinks [of "{}" c outs c'] Inr s by simp
    from less [OF this] obtain qs rest where
      "answeredUpTo c' (fst (handleLoop {} c')) qs rest"
      "length (fst (handleLoop {} c')) \<le> 1" "ReusedID \<notin> set (fst (handleLoop {} c'))"
      "conn_out (snd (handleLoop {} c')) = conn_out c' @ map (\<lambda>q. framedResponse (uint16 q)) qs" by auto
    with Inr s q answeredUpTo_Cons [of c' _ qs rest q c] dotRound_cap [of "{}" c outs c'] show ?thesis
      by (intro exI [of _ "q # qs"] exI [of _ rest]) (simp add: handleLoop.simps [of "{}" c])
  qed
qed

text \<open>A stream of accepted queries is read to its end and answered.\<close>

lemma handleLoop_accepted:
  assumes "list_all dotAccepted qs" "conn_in c = concat (map dotFrame qs) @ r" "conn_cap c = None"
  shows "handleLoop {} c = handleLoop {} (c\<lparr>conn_in := r, conn_out := conn_out c @ map (\<lambda>q. framedResponse (uint16 q)) qs\<rparr>)"
  using assms
proof (induction qs arbitrary: c)
  case Nil
  then have "r = conn_in c" by simp
  then show ?case by simp
next
  case (Cons q qs)
  let ?c = "c\<lparr>conn_in := concat (map dotFrame qs) @ r, conn_out := conn_out c @ [framedResponse (uint16 q)]\<rparr>"
  have "dotRound {} c = Inr ({}, ?c)" using Cons.prems by (intro dotRound_serves) simp_all
  then have "handleLoop {} c = handleLoop {} ?c" by (simp add: handleLoop.simps [of "{}" c])
  also have "\<dots> = handleLoop {} (?c\<lparr>conn_in := r, conn_out := conn_out ?c @ map (\<lambda>q. framedResponse (uint16 q)) qs\<rparr>)"
    using Cons.prems by (intro Cons.IH) simp_all
  finally show ?case by simp
qed

lemma handleLoop_waits:
  assumes "length (conn_in c) < 2"
  shows "conn_out (snd (handleLoop {} c)) = conn_out c \<and> conn_in (snd (handleLoop {} c)) = []"
  using assms by (simp add: handleLoop.simps [of "{}" c] dotRound_def readFull_def)

text \<open>A query of the fixture's length that is not accepted ends the connection, and what follows it
  is not read.\<close>

lemma handleLoop_refuses:
  assumes "conn_in c = dotFrame q @ r" "length q = 27" "\<not> dotAccepted q"
  shows "conn_out (snd (handleLoop {} c)) = conn_out c \<and> conn_in (snd (handleLoop {} c)) = r"
proof -
  have "readFull 2 c = (Inr (be16 (of_nat (length q))), c\<lparr>conn_in := q @ r\<rparr>)"
    using assms(1) by (intro readFull_append) (simp_all add: dotFrame_def)
  with assms(2,3) show ?thesis
    by (auto simp: handleLoop.simps [of "{}" c] dotRound_def conn_simps dotAccepted_def Let_def)
qed

section \<open>The properties\<close>

text \<open>C18: Whatever stream a client sends over an accepted TLS connection and however its writes
  fail, the handler of the DNS-over-TLS target returns with at most one log line and answers exactly
  the longest run of accepted queries in front of the stream that its writes allow: the answers are
  the framed response to each of these queries, in order and under the ID of the query; what follows
  them does not begin with an accepted query, unless it is the query whose answer could not be
  written, which is then logged. The check for a reused outstanding message ID never fires: a
  message ID is outstanding only while its own answer is written, so a client may use one ID for
  every query.\<close>

theorem dot_handle_answers:
  assumes "n_Version state = 0x304" "n_Protocol state = alpn" "\<not> n_DidResume state"
  shows "\<exists>qs rest. conn_in c = concat (map dotFrame qs) @ rest \<and> list_all dotAccepted qs \<and>
    (case handle True None state c of (log, c') \<Rightarrow>
       length log \<le> 1 \<and> ReusedID \<notin> set log \<and>
       conn_out c' = conn_out c @ map (\<lambda>q. framedResponse (uint16 q)) qs \<and>
       (\<forall>q r. dotAccepted q \<and> rest = dotFrame q @ r \<longrightarrow>
          (\<exists>e. conn_cap c = Some (length qs, e) \<and> log = [WriteFailed e])))"
proof -
  have "handle True None state c = handleLoop {} c" using assms by (simp add: handle_def)
  then show ?thesis unfolding case_prod_beta
    using handleLoop_serves [of c, unfolded answeredUpTo_def] by (elim ssubst) blast
qed

end
