(* ===== verification/Dot_Executor.thy ===== *)
theory Dot_Executor
  imports Go_Sha256 Go_Float
begin

text \<open>
  The DNS-over-TLS executor of \<^verbatim>\<open>executors/go-dns-dot-executor/source/main.go\<close>: the scenario
  selection from the environment, the checks of the TLS connection, one query with its validity
  checks, the phases over one connection, the cache flush of the resolver scenario, the metrics,
  the pinned configuration and the command. TLS, HTTP and URL parsing are libraries: what their
  calls return is an argument.
\<close>

section \<open>Constants and the selected scenario\<close>

definition executorID :: string where "executorID = ''go-dns-dot-executor''"
definition executorVersion :: string where "executorVersion = ''0.3.0''"
definition loadGeneratorID :: string where "loadGeneratorID = ''go-dns-dot-load''"
definition loadGeneratorVersion :: string where "loadGeneratorVersion = ''0.3.0''"
definition strictScenario :: string where "strictScenario = ''dns.dot.query.a''"
definition interopScenario :: string where "interopScenario = ''dns.dot.interoperability.query.a''"
definition resolverScenario :: string where
  "resolverScenario = ''dns.dot.resolver.interoperability.query.a''"
definition supportedProfile :: string where "supportedProfile = ''secure-dns-smoke''"
definition serverName :: string where "serverName = ''dns.plab.test''"
definition alpn :: string where "alpn = ''dot''"
definition fixtureID :: string where "fixtureID = ''dns.plab-test-a.canonical''"
definition resolverFixtureID :: string where "resolverFixtureID = ''dns.resolver-plab-test-a-v2.canonical''"
definition certificateProfile :: string where "certificateProfile = ''plab-secure-dns-single-leaf-p256-v1''"
definition strictTLSProfile :: string where "strictTLSProfile = ''plab-secure-dns-tls13-v1''"
definition interopTLSProfile :: string where "interopTLSProfile = ''plab-secure-dns-interoperability-v2''"
definition interopCertProfile :: string where
  "interopCertProfile = ''plab-secure-dns-interoperability-leaf-v2''"
definition requiredCipher :: string where "requiredCipher = ''TLS_AES_128_GCM_SHA256''"
definition queryHash :: string where
  "queryHash = ''c46b9fb76019b5a644d0884b17e816cb7c3076275d9468c27d180f70488eb8ec''"
definition responseHash :: string where
  "responseHash = ''9d488461675ad5ab9f74c7b203861e1ad17521e413a407a25e6611012a595620''"
definition resolverQueryHash :: string where
  "resolverQueryHash = ''423b6325f73f2f72a948fe3b5593e99201b0cb24f0dcdcffe897e784da3106c6''"
definition resolverResponseHash :: string where
  "resolverResponseHash = ''c63893fec8b20373c3233d3c4884b9f84e3d15a01218ccb144422f074b778931''"
definition leafDERHash :: string where
  "leafDERHash = ''b57bdd3eb90b36455900c17de9ff9a02c623e1f6b27626ad7821a40e35e8251c''"
definition leafSPKIHash :: string where
  "leafSPKIHash = ''cfa6d5d08ee2071e28fd96205b088156fa71b460262470e5b994624b0537cf25''"

definition mustHex :: "string \<Rightarrow> bytes" where
  \<comment> \<open>an undecodable constant panics while the package is initialised\<close>
  "mustHex v = (case hexDecode v of Some b \<Rightarrow> b | None \<Rightarrow> [])"

definition hash :: "bytes \<Rightarrow> string" where "hash v = sha256Hex v"

definition canonicalQuery :: bytes where
  "canonicalQuery = mustHex (''00000000000100000000000004706c616204746573740000010001'')"

definition canonicalResponse :: bytes where
  "canonicalResponse = mustHex
    (''00008400000100010000000004706c616204746573740000010001c00c00010001000000000004c0'' @
     ''000201'')"

definition resolverQuery :: bytes where
  "resolverQuery = mustHex (''00000100000100000000000004706c616204746573740000010001'')"

definition resolverResponse :: bytes where
  "resolverResponse = mustHex
    (''00008180000100010000000004706c616204746573740000010001c00c00010001000000000004c0'' @
     ''000201'')"

definition knownUnsupported :: "string list" where
  "knownUnsupported =
     [''dns.classic.tcp.query.a'', ''dns.classic.udp-truncated-tcp-retry'', ''dns.classic.udp.query.a'',
      ''dns.doh2.query.a'', ''dns.doh2.interoperability.query.a'', ''dns.doh3.get.a'', ''dns.doh3.query.a'',
      ''dns.doh3.query.aaaa'', ''dns.doh3.query.cname-chain'', ''dns.doh3.query.large-dnssec-shaped'',
      ''dns.doh3.query.nodata'', ''dns.doh3.query.nxdomain'', ''dns.doh3.interoperability.query.a'',
      ''dns.doq.query.a'', ''dns.doq.interoperability.query.a'']"

definition supportedScenarios :: "string list" where
  "supportedScenarios = [strictScenario, interopScenario, resolverScenario]"

definition selectedScenario :: "env \<Rightarrow> string" where
  "selectedScenario getenv =
     (let i = trimSpace (getenv ''PLAB_SCENARIO_ID'') in if i = '''' then strictScenario else i)"

definition selectedFixtureID :: "env \<Rightarrow> string" where
  "selectedFixtureID getenv = (if selectedScenario getenv = resolverScenario then resolverFixtureID else fixtureID)"

definition canonicalFixture :: "env \<Rightarrow> bytes \<times> bytes \<times> string \<times> string" where
  "canonicalFixture getenv =
     (if selectedScenario getenv = resolverScenario
      then (resolverQuery, resolverResponse, resolverQueryHash, resolverResponseHash)
      else (canonicalQuery, canonicalResponse, queryHash, responseHash))"

definition protocolVariant :: "env \<Rightarrow> string" where
  "protocolVariant getenv =
     (if selectedScenario getenv = resolverScenario then ''dot-rfc7858-recursive-resolver''
      else if selectedScenario getenv = interopScenario then ''dot-rfc7858-interoperability''
      else ''dot-tls1.3-tcp'')"

definition tlsProfileID :: "env \<Rightarrow> string" where
  "tlsProfileID getenv =
     (if selectedScenario getenv = interopScenario \<or> selectedScenario getenv = resolverScenario
      then interopTLSProfile else strictTLSProfile)"

definition selectedCertificateProfile :: "env \<Rightarrow> string" where
  "selectedCertificateProfile getenv =
     (if selectedScenario getenv = interopScenario \<or> selectedScenario getenv = resolverScenario
      then interopCertProfile else certificateProfile)"

section \<open>The TLS connection\<close>

text \<open>A certificate: its DER bytes, its public key bytes, and the names of its algorithms and
  curve (empty unless the key is an ECDSA key). The state of a connection gives the name of its
  cipher suite. The two provenance maps of the proof, which describe the machine, are left out.\<close>

record certificate =
  ct_Raw :: bytes
  ct_SPKI :: bytes
  ct_SignatureAlgorithm :: string
  ct_PublicKeyAlgorithm :: string
  ct_Curve :: string

record tls_state =
  ts_Version :: u16
  ts_CipherSuite :: string
  ts_Protocol :: string
  ts_HandshakeComplete :: bool
  ts_DidResume :: bool
  ts_Peers :: "certificate list"
  ts_VerifiedChains :: nat

record tls_proof =
  t_TLSProfileID :: string
  t_TLSVersion :: string
  t_CipherSuite :: string
  t_KeyExchangeGroup :: string
  t_SignatureScheme :: string
  t_ALPN :: string
  t_ServerName :: string
  t_HandshakeComplete :: bool
  t_DidResume :: bool
  t_EarlyDataAttempted :: bool
  t_CertificateProfile :: string
  t_CertificateDERSHA256 :: string
  t_CertificateSPKISHA256 :: string
  t_CertificateSignatureAlgorithm :: string
  t_CertificatePublicKeyAlgorithm :: string
  t_CertificateNamedCurve :: string
  t_VerifiedChainCount :: nat
  t_SentCertificateCount :: nat
  t_TrustAnchorSent :: bool
  t_ConnectionLatencyMilliseconds :: rat

definition noTLSProof :: tls_proof where
  "noTLSProof =
     \<lparr>t_TLSProfileID = '''', t_TLSVersion = '''', t_CipherSuite = '''', t_KeyExchangeGroup = '''',
      t_SignatureScheme = '''', t_ALPN = '''', t_ServerName = '''', t_HandshakeComplete = False,
      t_DidResume = False, t_EarlyDataAttempted = False, t_CertificateProfile = '''',
      t_CertificateDERSHA256 = '''', t_CertificateSPKISHA256 = '''', t_CertificateSignatureAlgorithm = '''',
      t_CertificatePublicKeyAlgorithm = '''', t_CertificateNamedCurve = '''', t_VerifiedChainCount = 0,
      t_SentCertificateCount = 0, t_TrustAnchorSent = False, t_ConnectionLatencyMilliseconds = 0\<rparr>"

definition tlsVersionName :: "u16 \<Rightarrow> string" where
  "tlsVersionName v = (if v = 0x304 then ''TLS1.3'' else ''0x'' @ hexEncode (be16 v))"

text \<open>The proof as it is filled in, and the failures found in it.\<close>

definition observeTLS :: "env \<Rightarrow> tls_state \<Rightarrow> tls_proof" where
  "observeTLS getenv st =
     (let p = noTLSProof
        \<lparr>t_TLSProfileID := tlsProfileID getenv, t_TLSVersion := tlsVersionName (ts_Version st),
         t_CipherSuite := ts_CipherSuite st, t_ALPN := ts_Protocol st, t_ServerName := serverName,
         t_HandshakeComplete := ts_HandshakeComplete st, t_DidResume := ts_DidResume st,
         t_EarlyDataAttempted := False, t_CertificateProfile := selectedCertificateProfile getenv,
         t_VerifiedChainCount := ts_VerifiedChains st, t_KeyExchangeGroup := ''X25519'',
         t_SignatureScheme := ''ecdsa_secp256r1_sha256'', t_SentCertificateCount := length (ts_Peers st),
         t_TrustAnchorSent := False\<rparr> in
      case ts_Peers st of
        [] \<Rightarrow> p
      | cert # _ \<Rightarrow> p\<lparr>t_CertificateDERSHA256 := hash (ct_Raw cert), t_CertificateSPKISHA256 := hash (ct_SPKI cert),
          t_CertificateSignatureAlgorithm := ct_SignatureAlgorithm cert,
          t_CertificatePublicKeyAlgorithm := ct_PublicKeyAlgorithm cert, t_CertificateNamedCurve := ct_Curve cert\<rparr>)"

definition tlsFailures :: "env \<Rightarrow> tls_state \<Rightarrow> tls_proof \<Rightarrow> string list" where
  "tlsFailures getenv st p =
     (if ts_Version st \<noteq> 0x304 then [''exact TLS 1.3 was not negotiated''] else []) @
     (if \<not> ts_HandshakeComplete st then [''TLS handshake incomplete''] else []) @
     (if ts_DidResume st then [''session resumption detected''] else []) @
     (if ts_Protocol st \<noteq> alpn then [''ALPN mismatch''] else []) @
     (if selectedScenario getenv = strictScenario \<and> t_CipherSuite p \<noteq> requiredCipher
      then [''cipher-suite mismatch''] else []) @
     (if ts_VerifiedChains st = 0 then [''certificate chain not authenticated''] else []) @
     (if t_CertificateDERSHA256 p \<noteq> leafDERHash then [''leaf DER hash mismatch''] else []) @
     (if t_CertificateSPKISHA256 p \<noteq> leafSPKIHash then [''leaf SPKI hash mismatch''] else [])"

definition validateTLS :: "env \<Rightarrow> tls_state \<Rightarrow> tls_proof \<times> go_error option" where
  "validateTLS getenv st =
     (let p = observeTLS getenv st; failures = tlsFailures getenv st p in
      (p, if failures \<noteq> [] then Some (Errorf (joinWith ''; '' failures)) else None))"

text \<open>What connecting meets: the dial, the handshake with the state it reaches, and the time until
  then.\<close>

record connect_env =
  k_dial :: "go_error option"
  k_handshake :: "go_error option"
  k_state :: tls_state
  k_nanos :: int

definition durationMS :: "int \<Rightarrow> rat" where
  "durationMS ns = fdiv (f64 (of_int ns)) (10 ^ 6)"

definition connect :: "env \<Rightarrow> connect_env \<Rightarrow> tls_proof \<times> go_error option" where
  "connect getenv k =
     (case k_dial k of
        Some e \<Rightarrow> (noTLSProof, Some e)
      | None \<Rightarrow> (case k_handshake k of
          Some e \<Rightarrow> (noTLSProof, Some e)
        | None \<Rightarrow>
            (case validateTLS getenv (k_state k) of (p, err) \<Rightarrow>
               (p\<lparr>t_ConnectionLatencyMilliseconds := durationMS (k_nanos k)\<rparr>, err))))"

section \<open>One query\<close>

record dns_proof =
  p_FixtureID :: string
  p_Transport :: string
  p_QuestionName :: string
  p_QuestionType :: string
  p_QuestionClass :: string
  p_Answer :: string
  p_TTLSeconds :: int
  p_ResponseCode :: string
  p_AuthoritativeAnswer :: bool
  p_RecursionDesired :: bool
  p_RecursionAvailable :: bool
  p_ExternalUpstreamUsed :: bool
  p_CacheEnabled :: bool
  p_Framing :: string
  p_LengthPrefixOctets :: int
  p_ByteOrder :: string
  p_RuntimeMessageID :: u16
  p_ResponseMessageID :: u16
  p_MessageIDCorrelated :: bool
  p_MessageIDUniqueAmongOutstanding :: bool
  p_CanonicalHashNormalization :: string
  p_QueryLengthBytes :: nat
  p_QueryNormalizedSHA256 :: string
  p_ResponseLengthBytes :: nat
  p_ResponseNormalizedSHA256 :: string
  p_RequestFramedHex :: string
  p_ResponseFramedHex :: string

definition frame :: "bytes \<Rightarrow> bytes" where
  "frame m = be16 (of_nat (length m)) @ m"

definition withID :: "bytes \<Rightarrow> u16 \<Rightarrow> bytes" where
  "withID m mid = be16 mid @ drop 2 m"

definition proofOf :: "env \<Rightarrow> u16 \<Rightarrow> bytes \<Rightarrow> bytes \<Rightarrow> bytes \<Rightarrow> dns_proof" where
  "proofOf getenv mid query prefix response =
     (let resolver = selectedScenario getenv = resolverScenario in
      \<lparr>p_FixtureID = selectedFixtureID getenv, p_Transport = ''dot'', p_QuestionName = ''plab.test.'',
       p_QuestionType = ''A'', p_QuestionClass = ''IN'', p_Answer = ''192.0.2.1'', p_TTLSeconds = 0,
       p_ResponseCode = ''NOERROR'', p_AuthoritativeAnswer = \<not> resolver, p_RecursionDesired = resolver,
       p_RecursionAvailable = resolver, p_ExternalUpstreamUsed = False, p_CacheEnabled = False,
       p_Framing = ''two-octet-network-order-length-prefix'', p_LengthPrefixOctets = 2,
       p_ByteOrder = ''network'', p_RuntimeMessageID = mid, p_ResponseMessageID = uint16 response,
       p_MessageIDCorrelated = True, p_MessageIDUniqueAmongOutstanding = True,
       p_CanonicalHashNormalization = ''set-message-id-to-zero'', p_QueryLengthBytes = length query,
       p_QueryNormalizedSHA256 = hash (withID query 0), p_ResponseLengthBytes = length response,
       p_ResponseNormalizedSHA256 = hash (withID response 0), p_RequestFramedHex = hexEncode (frame query),
       p_ResponseFramedHex = hexEncode (prefix @ response)\<rparr>)"

text \<open>The peer of a connection: what a write does to it, or the error of the write. The two-octet
  length is at most 65535, so only a length of zero is out of range.\<close>

type_synonym dot_peer = "bytes \<Rightarrow> conn \<Rightarrow> conn go"

definition exchange ::
  "env \<Rightarrow> go_error option \<Rightarrow> dot_peer \<Rightarrow> conn \<Rightarrow> u16 \<Rightarrow> (dns_proof option \<times> int \<times> go_error option) \<times> conn" where
  "exchange getenv setDeadline peer c mid =
     (case setDeadline of
        Some e \<Rightarrow> ((None, 0, Some e), c)
      | None \<Rightarrow>
          (case canonicalFixture getenv of (queryTemplate, responseTemplate, expectedQueryHash, expectedResponseHash) \<Rightarrow>
             let query = withID queryTemplate mid; framed = frame query in
             case peer framed c of
               Inl e \<Rightarrow> ((None, 0, Some e), c)
             | Inr c0 \<Rightarrow> (case readFull 2 c0 of
                 (Inl e, c1) \<Rightarrow> ((None, int (length framed), Some e), c1)
               | (Inr prefix, c1) \<Rightarrow>
                   (let len = unat (uint16 prefix) in
                    if len = 0 then ((None, int (length framed + 2), Some (Malformed ''malformed DoT response length'')), c1)
                    else (case readFull len c1 of
                        (Inl e, c2) \<Rightarrow> ((None, int (length framed + 2), Some e), c2)
                      | (Inr response, c2) \<Rightarrow>
                          (let transferred = int (length framed + 2 + length response) in
                           if length response \<noteq> length responseTemplate
                           then ((None, transferred, Some (Malformed (''response length mismatch: '' @ itoa (length response)))), c2)
                           else if uint16 (take 2 response) \<noteq> mid
                           then ((None, transferred, Some (Malformed ''response message ID did not correlate'')), c2)
                           else if hash (withID response 0) \<noteq> expectedResponseHash \<or> withID response 0 \<noteq> responseTemplate
                           then ((None, transferred, Some (Malformed ''canonical response content/hash mismatch'')), c2)
                           else if hash (withID query 0) \<noteq> expectedQueryHash
                           then ((None, transferred, Some (Errorf ''canonical query content/hash mismatch'')), c2)
                           else ((Some (proofOf getenv mid query prefix response), transferred, None), c2)))))))"

section \<open>The resolver's cache\<close>

definition joinHostPort :: "string \<Rightarrow> string \<Rightarrow> string" where
  "joinHostPort host port =
     (if CHR '':'' \<in> set host then ''['' @ host @ '']:'' @ port else host @ '':'' @ port)"

definition itoaInt :: "int \<Rightarrow> string" where
  "itoaInt i = (if i < 0 then CHR ''-'' # itoa (nat (- i)) else itoa (nat i))"

text \<open>The address split into host and port, and the answer of the control endpoint to the POST: its
  status and body.\<close>

record flush_env =
  f_split :: "(string \<times> string) go"
  f_post :: "string \<Rightarrow> (nat \<times> string) go"

definition flushResolverCache :: "env \<Rightarrow> flush_env \<Rightarrow> go_error option" where
  "flushResolverCache getenv fl =
     (case f_split fl of
        Inl e \<Rightarrow> Some (Wrapf ''resolver control address'' e)
      | Inr (host, portText) \<Rightarrow>
          (case atoi portText of
             (_, Some e) \<Rightarrow> Some (Wrapf ''resolver control port'' (Errorf ''strconv.Atoi: parsing port''))
           | (port, None) \<Rightarrow>
               (let configured = trimSpace (getenv ''PLAB_RESOLVER_CONTROL_URL'');
                    controlURL = (if configured = ''''
                      then ''http://'' @ joinHostPort host (itoaInt (sint (word_of_int (port + 1) :: 64 word))) @ ''/flush''
                      else configured) in
                case f_post fl controlURL of
                  Inl e \<Rightarrow> Some (Wrapf ''resolver cache flush failed'' e)
                | Inr (status, body) \<Rightarrow>
                    if status \<noteq> 204
                    then Some (Errorf (''resolver cache flush returned '' @ itoa status @ '': '' @ trimSpace (take 1024 body)))
                    else None)))"

section \<open>Phases\<close>

record summary =
  s_Phase :: string
  s_DurationSeconds :: rat
  s_CompletedOperations :: int
  s_MalformedOperations :: int
  s_RetryCount :: int
  s_FailedOperations :: int
  s_TimedOutOperations :: int
  s_TotalTransferredBytes :: int
  s_EffectiveConcurrency :: int
  s_Latencies :: "rat list"
  s_LastProof :: "dns_proof option"
  s_TLSProof :: tls_proof
  s_Errors :: "string \<rightharpoonup> nat"

definition countError :: "string \<Rightarrow> (string \<rightharpoonup> nat) \<Rightarrow> (string \<rightharpoonup> nat)" where
  "countError text m = m(text \<mapsto> (case m text of None \<Rightarrow> 1 | Some n \<Rightarrow> Suc n))"

text \<open>One round of the loop: the cache flush, the deadline call, the peer, the measured time. The
  list of rounds is as long as the deadline lets the loop go on; a preflight has at least one.\<close>

record round =
  r_flush :: flush_env
  r_deadline :: "go_error option"
  r_peer :: dot_peer
  r_nanos :: int

definition recordFailure :: "go_error \<Rightarrow> summary \<Rightarrow> summary" where
  "recordFailure e s =
     (if asMalformed e then s\<lparr>s_MalformedOperations := s_MalformedOperations s + 1\<rparr>
      else if isTimeout e then s\<lparr>s_TimedOutOperations := s_TimedOutOperations s + 1\<rparr>
      else s\<lparr>s_FailedOperations := s_FailedOperations s + 1\<rparr>)
     \<lparr>s_Errors := countError (errorText e) (s_Errors s)\<rparr>"

fun phaseLoop :: "env \<Rightarrow> bool \<Rightarrow> round list \<Rightarrow> u16 \<Rightarrow> conn \<Rightarrow> summary \<Rightarrow> summary \<times> go_error option" where
  "phaseLoop getenv once [] nextID c s = (s, None)"
| "phaseLoop getenv once (r # rs) nextID c s =
     (let mid = (if nextID = 0 then 1 else nextID) in
      case (if selectedScenario getenv = resolverScenario then flushResolverCache getenv (r_flush r) else None) of
        Some e \<Rightarrow> (s\<lparr>s_FailedOperations := s_FailedOperations s + 1, s_Errors := countError (errorText e) (s_Errors s)\<rparr>, Some e)
      | None \<Rightarrow>
          (case exchange getenv (r_deadline r) (r_peer r) c mid of
             ((p, n, Some e), c') \<Rightarrow>
               (recordFailure e (s\<lparr>s_TotalTransferredBytes := s_TotalTransferredBytes s + n\<rparr>), Some e)
           | ((p, n, None), c') \<Rightarrow>
               (let s1 = s\<lparr>s_TotalTransferredBytes := s_TotalTransferredBytes s + n,
                      s_CompletedOperations := s_CompletedOperations s + 1,
                      s_Latencies := s_Latencies s @ [durationMS (r_nanos r)], s_LastProof := p\<rparr> in
                if once then (s1, None) else phaseLoop getenv once rs (mid + 1) c' s1)))"

definition newSummary :: "bool \<Rightarrow> tls_proof \<Rightarrow> summary" where
  "newSummary once p =
     \<lparr>s_Phase = (if once then ''preflight'' else ''measured''), s_DurationSeconds = 0, s_CompletedOperations = 0,
      s_MalformedOperations = 0, s_RetryCount = 0, s_FailedOperations = 0, s_TimedOutOperations = 0,
      s_TotalTransferredBytes = 0, s_EffectiveConcurrency = 1, s_Latencies = [], s_LastProof = None,
      s_TLSProof = p, s_Errors = Map.empty\<rparr>"

definition runPhase ::
  "env \<Rightarrow> connect_env \<Rightarrow> bool \<Rightarrow> round list \<Rightarrow> conn \<Rightarrow> rat \<Rightarrow> summary \<times> go_error option" where
  "runPhase getenv k once rounds c elapsed =
     (case connect getenv k of
        (p, Some e) \<Rightarrow> ((newSummary once p)\<lparr>s_FailedOperations := 1\<rparr>, Some e)
      | (p, None) \<Rightarrow>
          (case phaseLoop getenv once rounds 1 c (newSummary once p) of
             (s, Some e) \<Rightarrow> (s, Some e)
           | (s, None) \<Rightarrow> (s\<lparr>s_DurationSeconds := elapsed\<rparr>, None)))"

definition hasFailures :: "summary \<Rightarrow> bool" where
  "hasFailures s \<longleftrightarrow> s_MalformedOperations s \<noteq> 0 \<or> s_RetryCount s \<noteq> 0 \<or> s_FailedOperations s \<noteq> 0 \<or>
     s_TimedOutOperations s \<noteq> 0"

section \<open>Metrics and the result\<close>

fun sumFrom :: "rat \<Rightarrow> rat list \<Rightarrow> rat" where
  "sumFrom t [] = t"
| "sumFrom t (x # xs) = sumFrom (fadd t x) xs"

definition mean :: "rat list \<Rightarrow> rat" where
  "mean v = (if v = [] then 0 else fdiv (sumFrom 0 v) (f64 (of_nat (length v))))"

definition percentile :: "rat list \<Rightarrow> rat \<Rightarrow> rat" where
  "percentile values q =
     (if values = [] then 0
      else (let v = sort values; n = int (length v);
                i = \<lceil>fmul q (f64 (of_int n))\<rceil> - 1; j = (if i < 0 then 0 else i);
                k = (if j \<ge> n then n - 1 else j) in
            v ! nat k))"

record metric_set =
  m_QueriesPerSecond :: rat
  m_QueryLatencyMean :: rat
  m_QueryLatencyPercentiles :: "rat list"
  m_ConnectionLatency :: rat
  m_CompletedOperations :: int
  m_MalformedOperations :: int
  m_RetryCount :: int
  m_FailedOperations :: int
  m_TimedOutOperations :: int
  m_TotalTransferredBytes :: int
  m_EffectiveConcurrency :: int

record result =
  res_SchemaVersion :: string
  res_ScenarioID :: string
  res_LoadProfileID :: string
  res_Status :: string
  res_Executor :: "string \<times> string"
  res_LoadGenerator :: "string \<times> string"
  res_Variant :: string
  res_FallbackDetected :: bool
  res_TLS :: tls_proof
  res_DNS :: "dns_proof option"
  res_ResolverRole :: bool
  res_RequestedLoad :: "(string \<times> string) list"
  res_Metrics :: metric_set

text \<open>The percentiles 50, 75, 90, 95 and 99.\<close>

definition normalizeResult :: "env \<Rightarrow> summary \<Rightarrow> (string \<times> string) list \<Rightarrow> result" where
  "normalizeResult getenv s requested =
     \<lparr>res_SchemaVersion = ''protocol-lab.dns-dot-executor-result.v1'', res_ScenarioID = selectedScenario getenv,
      res_LoadProfileID = supportedProfile, res_Status = ''passed'', res_Executor = (executorID, executorVersion),
      res_LoadGenerator = (loadGeneratorID, loadGeneratorVersion), res_Variant = protocolVariant getenv,
      res_FallbackDetected = False, res_TLS = s_TLSProof s, res_DNS = s_LastProof s,
      res_ResolverRole = (selectedScenario getenv = resolverScenario), res_RequestedLoad = requested,
      res_Metrics =
        \<lparr>m_QueriesPerSecond = fdiv (f64 (of_int (s_CompletedOperations s))) (s_DurationSeconds s),
         m_QueryLatencyMean = mean (s_Latencies s),
         m_QueryLatencyPercentiles = map (\<lambda>q. percentile (s_Latencies s) (f64 q)) [50 / 100, 75 / 100, 90 / 100, 95 / 100, 99 / 100],
         m_ConnectionLatency = t_ConnectionLatencyMilliseconds (s_TLSProof s),
         m_CompletedOperations = s_CompletedOperations s, m_MalformedOperations = s_MalformedOperations s,
         m_RetryCount = s_RetryCount s, m_FailedOperations = s_FailedOperations s,
         m_TimedOutOperations = s_TimedOutOperations s, m_TotalTransferredBytes = s_TotalTransferredBytes s,
         m_EffectiveConcurrency = s_EffectiveConcurrency s\<rparr>\<rparr>"

record validation_doc =
  v_ScenarioID :: string
  v_FixtureID :: string
  v_Passed :: bool
  v_ObservedProtocol :: string
  v_FallbackDetected :: bool
  v_Completed :: int
  v_Malformed :: int
  v_Retries :: int
  v_Failed :: int
  v_TimedOut :: int
  v_Error :: string

definition validationDocument :: "env \<Rightarrow> summary \<Rightarrow> go_error option \<Rightarrow> validation_doc" where
  "validationDocument getenv s err =
     \<lparr>v_ScenarioID = selectedScenario getenv, v_FixtureID = selectedFixtureID getenv, v_Passed = (err = None),
      v_ObservedProtocol = (if t_ALPN (s_TLSProof s) = alpn then ''dot'' else ''''),
      v_FallbackDetected = (t_ALPN (s_TLSProof s) \<noteq> alpn), v_Completed = s_CompletedOperations s,
      v_Malformed = s_MalformedOperations s, v_Retries = s_RetryCount s, v_Failed = s_FailedOperations s,
      v_TimedOut = s_TimedOutOperations s, v_Error = (case err of None \<Rightarrow> '''' | Some e \<Rightarrow> errorText e)\<rparr>"

section \<open>Identity, configuration and the command\<close>

definition verifySubstitution :: "env \<Rightarrow> string \<Rightarrow> string \<Rightarrow> bool" where
  \<comment> \<open>\<open>False\<close> is the substitution that ends the process with code 2\<close>
  "verifySubstitution getenv name expected \<longleftrightarrow>
     trimSpace (getenv name) = '''' \<or> trimSpace (getenv name) = expected"

text \<open>The exit code of the check, or none when it returns.\<close>

definition checkIdentity :: "env \<Rightarrow> nat option" where
  "checkIdentity getenv =
     (if \<not> (verifySubstitution getenv ''PLAB_EXECUTOR_ID'' executorID \<and>
             verifySubstitution getenv ''PLAB_EXECUTOR_VERSION'' executorVersion \<and>
             verifySubstitution getenv ''PLAB_LOAD_GENERATOR_ID'' loadGeneratorID \<and>
             verifySubstitution getenv ''PLAB_LOAD_GENERATOR_VERSION'' loadGeneratorVersion \<and>
             verifySubstitution getenv ''PLAB_PROTOCOL'' ''dot'' \<and>
             verifySubstitution getenv ''PLAB_PROTOCOL_VARIANT'' (protocolVariant getenv)) then Some 2
      else (let scenario = selectedScenario getenv in
        if scenario \<in> set supportedScenarios then None
        else if scenario \<in> set knownUnsupported then Some 3
        else Some 2))"

definition envInt :: "env \<Rightarrow> string \<Rightarrow> int" where
  "envInt getenv name = fst (atoi (trimSpace (getenv name)))"

definition loadConfig :: "env \<Rightarrow> (string \<times> string) list go" where
  "loadConfig getenv =
     (if selectedScenario getenv \<notin> set supportedScenarios
      then Inl (Errorf ''exact supported scenario identity is required'')
      else if trimSpace (getenv ''PLAB_LOAD_PROFILE_ID'') \<noteq> supportedProfile
      then Inl (Errorf (''supports load profile '' @ quoted supportedProfile @ '' only''))
      else if envInt getenv ''PLAB_CONNECTIONS'' \<noteq> 1 \<or> envInt getenv ''PLAB_CONCURRENCY'' \<noteq> 1 \<or>
        envInt getenv ''PLAB_DURATION_SECONDS'' \<noteq> 5 \<or> envInt getenv ''PLAB_WARMUP_SECONDS'' \<noteq> 1 \<or>
        envInt getenv ''PLAB_REPETITION'' \<noteq> 1
      then Inl (Errorf ''secure-dns-smoke requires connections=1 concurrency=1 duration=5 warmup=1 repetition=1'')
      else Inr [(''connections'', ''1''), (''concurrency'', ''1''), (''outstandingQueries'', ''1''),
        (''connectionReuse'', ''reuse''), (''durationSeconds'', ''5''), (''warmupSeconds'', ''1''),
        (''repetition'', ''1''), (''queryTimeoutMilliseconds'', ''5000''), (''maxRetries'', ''0'')])"

text \<open>Whether a text contains another; the address checks of \<^verbatim>\<open>net.SplitHostPort\<close> and the scheme
  and host of \<^verbatim>\<open>url.Parse\<close> are arguments.\<close>

fun contains :: "string \<Rightarrow> string \<Rightarrow> bool" where
  "contains t [] = (t = [])"
| "contains t (c # cs) = (hasPrefix (c # cs) t \<or> contains t cs)"

definition normalizeTarget ::
  "(string \<Rightarrow> go_error option) \<Rightarrow> (string \<Rightarrow> (string \<times> string) go) \<Rightarrow> string \<Rightarrow> string go" where
  "normalizeTarget split parse v =
     (let value = trimSpace v in
      if value = '''' then Inl (Errorf ''target address required'')
      else if \<not> contains ''://'' value then (case split value of Some e \<Rightarrow> Inl e | None \<Rightarrow> Inr value)
      else (case parse value of
          Inl e \<Rightarrow> Inl e
        | Inr (scheme, host) \<Rightarrow>
            if scheme \<noteq> ''tls'' \<or> host = '''' then Inl (Errorf ''DoT target must use tls://host:port'')
            else Inr host))"

definition loadRoots :: "bytes go \<Rightarrow> (bytes \<Rightarrow> bool) \<Rightarrow> go_error option" where
  "loadRoots file parses =
     (case file of Inl e \<Rightarrow> Some e
      | Inr pem \<Rightarrow> if \<not> parses pem then Some (Errorf ''root PEM contained no certificate'') else None)"

text \<open>What one invocation writes, in order, and its exit code. Every \<^verbatim>\<open>writeRequired\<close> succeeds.\<close>

datatype artifact =
    ValidationJson validation_doc | ResultValidation validation_doc | WireSummary dns_proof
  | TlsNegotiation tls_proof | ProtocolProof string tls_proof "dns_proof option" | ExecutorIdentity string
  | ResolverSummary int | UpstreamProof | WarmupSummary summary | LoadSummary summary
  | LoadGeneratorIdentity "string \<times> string" | ExecutorResult result | ResultJson result

definition writeResolverArtifacts :: "env \<Rightarrow> summary \<Rightarrow> artifact list" where
  "writeResolverArtifacts getenv s =
     (if selectedScenario getenv \<noteq> resolverScenario then []
      else [ResolverSummary (s_CompletedOperations s), UpstreamProof])"

type_synonym phase_run = "summary \<times> go_error option"

definition runMain ::
  "env \<Rightarrow> string go \<Rightarrow> go_error option \<Rightarrow> bool \<Rightarrow> phase_run \<Rightarrow> phase_run \<Rightarrow> phase_run \<Rightarrow> artifact list \<times> nat" where
  \<comment> \<open>the three phases are what \<open>runPhase\<close> returns for them\<close>
  "runMain getenv address roots validationOnly preflight warmup measured =
     (case checkIdentity getenv of
        Some code \<Rightarrow> ([], code)
      | None \<Rightarrow> (case address of
          Inl e \<Rightarrow> ([], 2)
        | Inr _ \<Rightarrow> (case roots of
            Some e \<Rightarrow> ([], 2)
          | None \<Rightarrow>
              (let s = fst preflight; doc = validationDocument getenv s (snd preflight);
                   gate = [ValidationJson doc, ResultValidation doc] @
                     (case s_LastProof s of None \<Rightarrow> [] | Some p \<Rightarrow> [WireSummary p]) @
                     [TlsNegotiation (s_TLSProof s), ProtocolProof (protocolVariant getenv) (s_TLSProof s) (s_LastProof s),
                      ExecutorIdentity executorID] @ writeResolverArtifacts getenv s in
               if snd preflight \<noteq> None then (gate, 1)
               else if validationOnly then (gate, 0)
               else (case loadConfig getenv of
                   Inl e \<Rightarrow> (gate, 2)
                 | Inr requested \<Rightarrow>
                     (let warmed = gate @ [WarmupSummary (fst warmup)] in
                      if snd warmup \<noteq> None \<or> s_CompletedOperations (fst warmup) = 0 \<or> hasFailures (fst warmup)
                      then (warmed, 1)
                      else (let loaded = warmed @ [LoadSummary (fst measured)] in
                        if snd measured \<noteq> None \<or> s_CompletedOperations (fst measured) = 0 \<or> hasFailures (fst measured)
                        then (loaded, 1)
                        else (let res = normalizeResult getenv (fst measured) requested in
                          (loaded @ [LoadGeneratorIdentity (res_LoadGenerator res), ExecutorResult res, ResultJson res] @
                             writeResolverArtifacts getenv (fst measured), 0)))))))))"

end
