(* ===== verification/Dot_Interop.thy ===== *)
theory Dot_Interop
  imports Dot_Target Dot_Executor Lab_Certificates
begin

text \<open>
  The DNS-over-TLS executor against the DNS-over-TLS target. Each has its own copy of the fixtures
  and digests; they agree, the executor's interface to a server (\<open>dot_server\<close>) is interpreted on
  the target, and so every query, phase and run of the authoritative scenarios succeeds, while the
  resolver scenario is refused.
\<close>

section \<open>The fixtures\<close>

lemma dot_mustHex: "hexOk v \<Longrightarrow> hexDecode v = Some (Dot_Executor.mustHex v) \<and> length (Dot_Executor.mustHex v) = length v div 2"
  using hexDecode_ok [of v] by (auto simp: Dot_Executor.mustHex_def)

lemma dot_hash_mustHex:
  assumes "hexOk v" "length v = 2 * n"
    and "hexDecode p = Some ([0x80] @ replicate ((119 - n mod 64) mod 64) 0 @ be64 (of_nat (8 * n)))"
  shows "hash (Dot_Executor.mustHex v) = hexState (shaAbsorbB (stateBits shaInit) (wordsBits (hexBits (v @ p))))"
  using dot_mustHex [OF assms(1)] assms(2,3) unfolding hash_def
  by (intro sha256Hex_eval) auto

lemma dot_lengths [simp]:
  "length canonicalQuery = 27" "length resolverQuery = 27"
  "length Dot_Executor.canonicalResponse = 43" "length resolverResponse = 43"
  by (simp_all add: canonicalQuery_def resolverQuery_def Dot_Executor.canonicalResponse_def resolverResponse_def
      dot_mustHex hexOk_def hexVal_def)

lemma dot_query_digest: "hash canonicalQuery = queryHash"
  unfolding canonicalQuery_def queryHash_def
  by (subst dot_hash_mustHex [OF _ _ pad_27]) (simp_all only: sha_eval, simp_all add: hexOk_def hexVal_def)

lemma resolver_query_digest: "hash resolverQuery = resolverQueryHash"
  unfolding resolverQuery_def resolverQueryHash_def
  by (subst dot_hash_mustHex [OF _ _ pad_27]) (simp_all only: sha_eval, simp_all add: hexOk_def hexVal_def)

lemma dot_response_digest: "hash Dot_Executor.canonicalResponse = responseHash"
  unfolding Dot_Executor.canonicalResponse_def responseHash_def
  by (subst dot_hash_mustHex [OF _ _ pad_43]) (simp_all only: sha_eval, simp_all add: hexOk_def hexVal_def)

lemma resolver_response_digest: "hash resolverResponse = resolverResponseHash"
  unfolding resolverResponse_def resolverResponseHash_def
  by (subst dot_hash_mustHex [OF _ _ pad_43]) (simp_all only: sha_eval, simp_all add: hexOk_def hexVal_def)

lemmas dot_digests = dot_query_digest resolver_query_digest dot_response_digest resolver_response_digest

lemma dot_heads:
  "take 4 canonicalQuery = [0, 0, 0, 0]" "take 4 resolverQuery = [0, 0, 1, 0]"
  "take 4 Dot_Executor.canonicalResponse = [0, 0, 0x84, 0]" "take 4 resolverResponse = [0, 0, 0x81, 0x80]"
proof -
  have t: "hexOk v \<Longrightarrow> take 8 v = w \<Longrightarrow> hexDecode w = Some b \<Longrightarrow> take 4 (Dot_Executor.mustHex v) = b" for v w b
    using hexDecode_take [of v "Dot_Executor.mustHex v" 4] dot_mustHex [of v] by simp
  show "take 4 canonicalQuery = [0, 0, 0, 0]" "take 4 resolverQuery = [0, 0, 1, 0]"
    "take 4 Dot_Executor.canonicalResponse = [0, 0, 0x84, 0]" "take 4 resolverResponse = [0, 0, 0x81, 0x80]"
    unfolding canonicalQuery_def resolverQuery_def Dot_Executor.canonicalResponse_def resolverResponse_def
    by (rule t, simp add: hexOk_def hexVal_def, simp, simp add: hexVal_def)+
qed

lemma dot_withID [simp]:
  "uint16 (withID m mid) = mid" "withID (withID m i) j = withID m j"
  "2 \<le> length m \<Longrightarrow> length (withID m mid) = length m"
  by (simp_all add: withID_def)

lemma withID_self: "2 \<le> length m \<Longrightarrow> withID m (uint16 m) = m"
  by (cases m rule: list.exhaust [case_names Nil Cons]; cases "tl m") (auto simp: withID_def be16_uint16 simp del: uint16.simps)

lemma dot_zero_ids:
  "withID canonicalQuery 0 = canonicalQuery" "withID resolverQuery 0 = resolverQuery"
  "withID Dot_Executor.canonicalResponse 0 = Dot_Executor.canonicalResponse" "withID resolverResponse 0 = resolverResponse"
proof -
  have "take 4 m = 0 # 0 # r \<Longrightarrow> withID m 0 = m" for m r
    by (cases m rule: list.exhaust [case_names Nil Cons]; cases "tl m") (auto simp: withID_def be16_def)
  then show "withID canonicalQuery 0 = canonicalQuery" "withID resolverQuery 0 = resolverQuery"
    "withID Dot_Executor.canonicalResponse 0 = Dot_Executor.canonicalResponse" "withID resolverResponse 0 = resolverResponse"
    using dot_heads by blast+
qed

lemma dot_agree:
  "putID = withID" "Dot_Target.canonicalResponse = Dot_Executor.canonicalResponse" "requiredQueryHash = queryHash"
  "dotFrame = frame" "framedResponse mid = frame (withID Dot_Executor.canonicalResponse mid)" "sha256Hex = hash"
  by (simp_all add: fun_eq_iff putID_def withID_def Dot_Target.canonicalResponse_def Dot_Executor.canonicalResponse_def
      Dot_Target.mustHex_def Dot_Executor.mustHex_def requiredQueryHash_def queryHash_def dotFrame_def frame_def
      framedResponse_def hash_def Let_def del: target_response)

section \<open>The interface to a server\<close>

text \<open>What the executor relies on: on a connection the server has \<open>served\<close> so far, it answers the
  framed query under any non-zero message ID with the framed response under that ID, which leaves the
  connection served; and the fixture is what its digests say. A peer may differ from round to round, as
  the time at which it is written to does; \<open>answering\<close> says which ones the law is for.\<close>

locale dot_server =
  fixes answering :: "dot_peer \<Rightarrow> bool"
    and served :: "conn \<Rightarrow> bool"
    and query response :: bytes
    and queryDigest responseDigest :: string
  assumes answers: "answering peer \<Longrightarrow> mid \<noteq> 0 \<Longrightarrow> served c \<Longrightarrow>
      \<exists>c0. peer (frame (withID query mid)) c = Inr c0 \<and> conn_in c0 = frame (withID response mid) \<and>
        served (c0\<lparr>conn_in := []\<rparr>)"
    and lengths: "2 \<le> length query" "2 \<le> length response" "length response < 65536"
    and zero: "withID query 0 = query" "withID response 0 = response"
    and digests: "hash query = queryDigest" "hash response = responseDigest"
begin

definition provenBy :: "env \<Rightarrow> u16 \<Rightarrow> dns_proof" where
  "provenBy getenv mid = proofOf getenv mid (withID query mid) (be16 (of_nat (length response))) (withID response mid)"

lemma exchange_answered:
  assumes "canonicalFixture getenv = (query, response, queryDigest, responseDigest)" "answering peer" "mid \<noteq> 0" "served c"
  shows "\<exists>c'. exchange getenv None peer c mid =
    ((Some (provenBy getenv mid), int (length query + length response + 4), None), c') \<and> served c'"
proof -
  obtain c0 where c0: "peer (frame (withID query mid)) c = Inr c0" "conn_in c0 = frame (withID response mid)"
      "served (c0\<lparr>conn_in := []\<rparr>)"
    using answers [OF assms(2-4)] by blast
  have "readFull 2 c0 = (Inr (be16 (of_nat (length response))), c0\<lparr>conn_in := withID response mid\<rparr>)"
    using lengths c0(2) by (simp add: readFull_def frame_def)
  moreover have "readFull (length response) (c0\<lparr>conn_in := withID response mid\<rparr>) =
      (Inr (withID response mid), c0\<lparr>conn_in := []\<rparr>)"
    using lengths by (simp add: readFull_def)
  moreover have "length response \<noteq> 0" "unat (of_nat (length response) :: u16) = length response"
    using lengths by (auto simp: unat_of_nat)
  moreover have "length (frame (withID query mid)) = length query + 2" using lengths by (simp add: frame_def)
  ultimately show ?thesis
    using lengths c0(3) by (simp add: exchange_def assms(1) c0(1) zero digests provenBy_def Let_def)
qed

text \<open>A phase over rounds of such a server, where the cache flush of the resolver scenario
  succeeds.\<close>

definition servedRound :: "env \<Rightarrow> round \<Rightarrow> bool" where
  "servedRound getenv r \<longleftrightarrow> answering (r_peer r) \<and> r_deadline r = None \<and>
     (selectedScenario getenv = resolverScenario \<longrightarrow> flushResolverCache getenv (r_flush r) = None)"

lemma phaseLoop_answered:
  assumes "canonicalFixture getenv = (query, response, queryDigest, responseDigest)"
  shows "list_all (servedRound getenv) rs \<Longrightarrow> served c \<Longrightarrow>
    \<exists>p. phaseLoop getenv False rs nextID c s =
      (s\<lparr>s_TotalTransferredBytes := s_TotalTransferredBytes s + int (length rs) * int (length query + length response + 4),
         s_CompletedOperations := s_CompletedOperations s + int (length rs),
         s_Latencies := s_Latencies s @ map (\<lambda>r. durationMS (r_nanos r)) rs, s_LastProof := p\<rparr>, None) \<and>
      (if rs = [] then p = s_LastProof s else \<exists>mid. mid \<noteq> 0 \<and> p = Some (provenBy getenv mid))"
proof (induction rs arbitrary: nextID c s)
  case Nil
  then show ?case by (intro exI [of _ "s_LastProof s"]) simp
next
  case (Cons r rs)
  let ?mid = "if nextID = 0 then 1 else nextID" and ?n = "int (length query + length response + 4)"
  let ?s = "s\<lparr>s_TotalTransferredBytes := s_TotalTransferredBytes s + ?n, s_CompletedOperations := s_CompletedOperations s + 1,
      s_Latencies := s_Latencies s @ [durationMS (r_nanos r)], s_LastProof := Some (provenBy getenv ?mid)\<rparr>"
  have m: "?mid \<noteq> 0" by simp
  have a: "answering (r_peer r)" using Cons.prems by (simp add: servedRound_def)
  obtain c' where x: "exchange getenv None (r_peer r) c ?mid = ((Some (provenBy getenv ?mid), ?n, None), c')" "served c'"
    using exchange_answered [OF assms a m Cons.prems(2)] by blast
  have "phaseLoop getenv False (r # rs) nextID c s = phaseLoop getenv False rs (?mid + 1) c' ?s"
    using Cons.prems x(1) by (auto simp: servedRound_def Let_def)
  moreover obtain p where "phaseLoop getenv False rs (?mid + 1) c' ?s =
      (?s\<lparr>s_TotalTransferredBytes := s_TotalTransferredBytes ?s + int (length rs) * ?n,
          s_CompletedOperations := s_CompletedOperations ?s + int (length rs),
          s_Latencies := s_Latencies ?s @ map (\<lambda>r. durationMS (r_nanos r)) rs, s_LastProof := p\<rparr>, None)"
      "if rs = [] then p = s_LastProof ?s else \<exists>mid. mid \<noteq> 0 \<and> p = Some (provenBy getenv mid)"
    using Cons.IH [of c' "?mid + 1" ?s] Cons.prems x(2) by auto
  moreover from this(2) have "\<exists>mid. mid \<noteq> 0 \<and> p = Some (provenBy getenv mid)"
    using m by (cases "rs = []") (simp_all, metis)
  ultimately show ?case by (intro exI [of _ p]) (simp add: algebra_simps)
qed

end

section \<open>The target as a server\<close>

text \<open>A phase has one TLS connection, which the target serves by one run of its connection handler.
  At any moment the target has read what the executor wrote on the connection so far, and has written
  \<open>targetReplies\<close> of it. It still waits for input exactly when it would read one more byte; otherwise
  the handler has returned and closed the connection. A write of the executor extends what the executor
  can read by the replies to all that was written, less those it had before, and the connection ends
  with a timeout while the target waits and with the end of the file after it returned. \<open>t\<close> is the time
  of the write in nanoseconds since the connection was accepted: 30 seconds after that moment the
  deadline of the connection has passed. The TLS session is the one the executor negotiates.\<close>

definition negotiated :: tls_negotiation where
  "negotiated = \<lparr>n_Version = 0x304, n_Protocol = ''dot'', n_DidResume = False\<rparr>"

definition targetSession :: "bytes \<Rightarrow> conn" where
  "targetSession sent = snd (handle True None negotiated
     \<lparr>conn_in = sent, conn_end = TimeoutError, conn_out = [], conn_cap = None\<rparr>)"

definition targetReplies :: "bytes \<Rightarrow> bytes" where
  "targetReplies sent = concat (conn_out (targetSession sent))"

definition targetWaits :: "bytes \<Rightarrow> bool" where
  "targetWaits sent \<longleftrightarrow> conn_in (targetSession (sent @ [0])) = []"

definition connectionDeadline :: int where
  "connectionDeadline = 30 * 10 ^ 9"

definition targetPeer :: "int \<Rightarrow> dot_peer" where
  "targetPeer t written c =
     (let before = concat (conn_out c); sent = before @ written; live = t < connectionDeadline in
      Inr (c\<lparr>conn_out := conn_out c @ [written],
        conn_in := conn_in c @ (if live then drop (length (targetReplies before)) (targetReplies sent) else []),
        conn_end := (if live \<and> targetWaits sent then TimeoutError else EOF)\<rparr>))"

lemma negotiated_handle: "handle True None negotiated c = handleLoop {} c"
  by (simp add: handle_def negotiated_def Dot_Target.alpn_def)

text \<open>The session of the executor: every query it wrote was accepted and the replies to all of them
  are read.\<close>

definition served :: "conn \<Rightarrow> bool" where
  "served c \<longleftrightarrow> conn_in c = [] \<and>
     (\<exists>qs. list_all dotAccepted qs \<and> concat (conn_out c) = concat (map dotFrame qs))"

lemma target_session:
  assumes "list_all dotAccepted qs"
  shows "targetReplies (concat (map dotFrame qs)) = concat (map (\<lambda>q. framedResponse (uint16 q)) qs)"
    and "targetWaits (concat (map dotFrame qs))"
proof -
  let ?c = "\<lambda>bs. \<lparr>conn_in = bs, conn_end = TimeoutError, conn_out = [], conn_cap = None\<rparr>"
  let ?s = "concat (map dotFrame qs)"
  let ?d = "\<lambda>r. (?c r)\<lparr>conn_out := map (\<lambda>q. framedResponse (uint16 q)) qs\<rparr>"
  have "handleLoop {} (?c (?s @ r)) = handleLoop {} (?d r)" for r
    using handleLoop_accepted [OF assms, of "?c (?s @ r)" r] by simp
  from this [of "[]"] this [of "[0]"]
  show "targetReplies ?s = concat (map (\<lambda>q. framedResponse (uint16 q)) qs)" "targetWaits ?s"
    using handleLoop_waits [of "?d []"] handleLoop_waits [of "?d [0]"]
    by (simp_all add: targetReplies_def targetWaits_def targetSession_def negotiated_handle)
qed

definition timely :: "dot_peer \<Rightarrow> bool" where
  "timely peer \<longleftrightarrow> (\<exists>t. peer = targetPeer t \<and> t < connectionDeadline)"

lemma targetPeer_answers:
  assumes "timely peer" "mid \<noteq> 0" "served c"
  shows "\<exists>c0. peer (frame (withID canonicalQuery mid)) c = Inr c0 \<and>
    conn_in c0 = frame (withID Dot_Executor.canonicalResponse mid) \<and> served (c0\<lparr>conn_in := []\<rparr>)"
proof -
  let ?q = "withID canonicalQuery mid"
  obtain t where t: "peer = targetPeer t" "t < connectionDeadline" using assms(1) by (auto simp: timely_def)
  have q: "dotAccepted ?q" using assms(2) by (simp add: dotAccepted_def dot_agree dot_zero_ids dot_digests)
  from assms(3) obtain qs where
    qs: "list_all dotAccepted qs" "concat (conn_out c) = concat (map dotFrame qs)" "conn_in c = []"
    by (auto simp: served_def)
  have all: "list_all dotAccepted (qs @ [?q])" using qs(1) q by simp
  have sent: "concat (map dotFrame (qs @ [?q])) = concat (conn_out c) @ frame ?q"
    using qs(2) by (simp add: dot_agree)
  note new = target_session [OF all, unfolded sent]
  have "\<exists>ps. list_all dotAccepted ps \<and> concat (conn_out c) @ frame ?q = concat (map dotFrame ps)"
    using all sent by metis
  with new target_session [OF qs(1)] qs t show ?thesis
    by (simp add: targetPeer_def Let_def served_def dot_agree(5))
qed

interpretation dot_target: dot_server timely served canonicalQuery Dot_Executor.canonicalResponse queryHash responseHash
  by unfold_locales (simp_all add: targetPeer_answers dot_zero_ids dot_digests)

text \<open>The query of the resolver scenario is not answered, and the target closes the connection.\<close>

lemma targetPeer_refuses:
  assumes "conn_out c = []" "conn_in c = []" "timely peer"
  shows "peer (frame (withID resolverQuery mid)) c =
    Inr (c\<lparr>conn_out := [frame (withID resolverQuery mid)], conn_end := EOF\<rparr>)"
proof -
  let ?q = "withID resolverQuery mid"
  let ?c = "\<lambda>bs. \<lparr>conn_in = bs, conn_end = TimeoutError, conn_out = [], conn_cap = None\<rparr>"
  obtain t where t: "peer = targetPeer t" using assms(3) by (auto simp: timely_def)
  have "queryHash \<noteq> resolverQueryHash" by (simp add: queryHash_def resolverQueryHash_def)
  then have q: "\<not> dotAccepted ?q" by (simp add: dotAccepted_def dot_agree dot_zero_ids dot_digests)
  have r: "conn_out (snd (handleLoop {} (?c (frame ?q @ r)))) = [] \<and> conn_in (snd (handleLoop {} (?c (frame ?q @ r)))) = r" for r
    using handleLoop_refuses [of "?c (frame ?q @ r)" ?q r] q by (simp add: dot_agree)
  from r [of "[]"] r [of "[0]"] show ?thesis
    using assms(1,2) t
    by (simp add: targetPeer_def targetReplies_def targetWaits_def targetSession_def negotiated_handle)
qed

section \<open>The TLS session\<close>

text \<open>The state of a full TLS 1.3 session with the certificate of the target.\<close>

definition shippedCertificate :: certificate where
  "shippedCertificate = \<lparr>ct_Raw = dotLeaf, ct_SPKI = dotLeafKey, ct_SignatureAlgorithm = ''ECDSA-SHA256'',
     ct_PublicKeyAlgorithm = ''ECDSA'', ct_Curve = ''P-256''\<rparr>"

definition fullSession :: tls_state where
  "fullSession = \<lparr>ts_Version = 0x304, ts_CipherSuite = ''TLS_AES_128_GCM_SHA256'', ts_Protocol = ''dot'',
     ts_HandshakeComplete = True, ts_DidResume = False, ts_Peers = [shippedCertificate], ts_VerifiedChains = 1\<rparr>"

lemma fullSession_valid: "snd (validateTLS getenv fullSession) = None"
  by (simp add: validateTLS_def tlsFailures_def observeTLS_def fullSession_def shippedCertificate_def Let_def
      requiredCipher_def Dot_Executor.alpn_def noTLSProof_def dot_agree [symmetric] dotLeaf_digest dotLeafKey_digest
      leafDERHash_def leafSPKIHash_def)

lemma session_opens:
  assumes "k_dial k = None" "k_handshake k = None" "k_state k = fullSession"
  shows "\<exists>p. connect getenv k = (p, None)"
  using fullSession_valid [of getenv] assms
  by (cases "validateTLS getenv fullSession") (simp add: connect_def)

section \<open>Phases and runs\<close>

text \<open>A round against the target, with its write before the deadline of the target's connection.\<close>

definition targetRound :: "round \<Rightarrow> bool" where
  "targetRound r \<longleftrightarrow> timely (r_peer r) \<and> r_deadline r = None"

definition authoritative :: "env \<Rightarrow> bool" where
  "authoritative getenv \<longleftrightarrow> selectedScenario getenv \<in> {strictScenario, interopScenario}"

lemma authoritative_fixture:
  assumes "authoritative getenv"
  shows "selectedScenario getenv \<noteq> resolverScenario"
    "canonicalFixture getenv = (canonicalQuery, Dot_Executor.canonicalResponse, queryHash, responseHash)"
  using assms by (auto simp: authoritative_def strictScenario_def interopScenario_def resolverScenario_def canonicalFixture_def)

definition cleanPhase :: "summary \<Rightarrow> bool" where
  "cleanPhase s \<longleftrightarrow> s_MalformedOperations s = 0 \<and> s_RetryCount s = 0 \<and> s_FailedOperations s = 0 \<and>
     s_TimedOutOperations s = 0 \<and> s_Errors s = Map.empty"

text \<open>What the proof of a completed query says.\<close>

definition provenQuery :: "env \<Rightarrow> dns_proof \<Rightarrow> bool" where
  "provenQuery getenv p \<longleftrightarrow> (\<exists>mid. mid \<noteq> 0 \<and> p = proofOf getenv mid (withID canonicalQuery mid) (be16 43)
     (withID Dot_Executor.canonicalResponse mid))"

lemma provenQuery_answer: "mid \<noteq> 0 \<Longrightarrow> provenQuery getenv (dot_target.provenBy getenv mid)"
  by (auto simp: provenQuery_def dot_target.provenBy_def)

lemma dot_phase:
  assumes "authoritative getenv" "connect getenv k = (p, None)" "list_all targetRound rs" "served c"
  shows "case runPhase getenv k False rs c elapsed of (s, err) \<Rightarrow> err = None \<and> cleanPhase s \<and>
    s_CompletedOperations s = int (length rs) \<and> s_TotalTransferredBytes s = 74 * int (length rs) \<and>
    s_DurationSeconds s = elapsed \<and> (rs \<noteq> [] \<longrightarrow> (\<exists>q. s_LastProof s = Some q \<and> provenQuery getenv q))"
proof -
  note fx = authoritative_fixture [OF assms(1)]
  have "list_all (dot_target.servedRound getenv) rs"
    using assms(3) fx(1) by (simp add: list_all_iff targetRound_def dot_target.servedRound_def)
  from dot_target.phaseLoop_answered [OF fx(2) this assms(4), of 1 "newSummary False p"] assms(2) show ?thesis
    by (auto simp: runPhase_def newSummary_def cleanPhase_def provenQuery_answer split: if_splits)
qed

lemma dot_preflight:
  assumes "authoritative getenv" "connect getenv k = (p, None)" "targetRound r" "served c"
  shows "case runPhase getenv k True (r # rs) c elapsed of (s, err) \<Rightarrow> err = None \<and> cleanPhase s \<and> s_CompletedOperations s = 1"
proof -
  note fx = authoritative_fixture [OF assms(1)]
  have "timely (r_peer r)" using assms(3) by (simp add: targetRound_def)
  then obtain c' where "exchange getenv None (r_peer r) c 1 = ((Some (dot_target.provenBy getenv 1), 74, None), c')"
    using dot_target.exchange_answered [OF fx(2) _ _ assms(4), of "r_peer r" 1] by auto
  with assms fx(1) show ?thesis
    by (simp add: runPhase_def targetRound_def newSummary_def cleanPhase_def Let_def)
qed

text \<open>A phase starts with a connection on which nothing was written.\<close>

definition quiet :: conn where
  "quiet = \<lparr>conn_in = [], conn_end = TimeoutError, conn_out = [], conn_cap = None\<rparr>"

lemma served_quiet: "served quiet"
  by (simp add: served_def quiet_def exI [of _ "[]"])

section \<open>The properties\<close>

text \<open>C17: A run of the DNS-over-TLS command against the target passes, for the strict and for the
  interoperability scenario. When the selection and the load profile are accepted, the three TLS
  sessions open and the measured phase has at least one round, as the warm-up, the exit code is 0 and
  the result on disk counts exactly the rounds of the measured phase with 74 bytes each, no malformed,
  retried, failed or timed-out operation, and holds the proof of a query whose answer was checked
  byte for byte. All rounds of a phase share one connection, served by one run of the target's
  handler, and write before the 30 second deadline of that connection.\<close>

theorem dot_run_interop:
  assumes "authoritative getenv" "checkIdentity getenv = None" "loadConfig getenv = Inr requested"
    and "connect getenv k0 = (p0, None)" "connect getenv k1 = (p1, None)" "connect getenv k2 = (p2, None)"
    and "list_all targetRound (r # t1 @ t2)" "t1 \<noteq> []" "t2 \<noteq> []"
  shows "\<exists>res q. case runMain getenv (Inr address) None False (runPhase getenv k0 True [r] quiet d0)
      (runPhase getenv k1 False t1 quiet d1) (runPhase getenv k2 False t2 quiet d2) of (written, code) \<Rightarrow>
    code = 0 \<and> last written = ResultJson res \<and> res_Status res = ''passed'' \<and>
    m_CompletedOperations (res_Metrics res) = int (length t2) \<and>
    m_TotalTransferredBytes (res_Metrics res) = 74 * int (length t2) \<and>
    m_MalformedOperations (res_Metrics res) = 0 \<and> m_RetryCount (res_Metrics res) = 0 \<and>
    m_FailedOperations (res_Metrics res) = 0 \<and> m_TimedOutOperations (res_Metrics res) = 0 \<and>
    res_DNS res = Some q \<and> provenQuery getenv q"
proof -
  have l: "list_all targetRound t1" "list_all targetRound t2" "targetRound r" using assms(7) by simp_all
  obtain s0 e0 where a: "runPhase getenv k0 True [r] quiet d0 = (s0, e0)" by force
  obtain s1 e1 where b: "runPhase getenv k1 False t1 quiet d1 = (s1, e1)" by force
  obtain s2 e2 where m: "runPhase getenv k2 False t2 quiet d2 = (s2, e2)" by force
  note pa = dot_preflight [OF assms(1,4) l(3) served_quiet, of "[]" d0, unfolded a prod.case]
  note pb = dot_phase [OF assms(1,5) l(1) served_quiet, of d1, unfolded b prod.case]
  note pm = dot_phase [OF assms(1,6) l(2) served_quiet, of d2, unfolded m prod.case]
  obtain q where q: "s_LastProof s2 = Some q" "provenQuery getenv q" using pm assms(9) by blast
  have w: "writeResolverArtifacts getenv s = []" for s
    using authoritative_fixture(1) [OF assms(1)] by (simp add: writeResolverArtifacts_def)
  show ?thesis
    unfolding a b m runMain_def assms(2,3) option.case sum.case Let_def fst_conv snd_conv w
    using pa pb pm q assms(8,9)
    by (intro exI [of _ "normalizeResult getenv s2 requested"] exI [of _ q])
      (simp add: cleanPhase_def hasFailures_def normalizeResult_def)
qed

definition sampleRound :: round where
  "sampleRound = \<lparr>r_flush = \<lparr>f_split = Inl EOF, f_post = (\<lambda>_. Inl EOF)\<rparr>, r_deadline = None, r_peer = targetPeer 900000,
     r_nanos = 250000\<rparr>"

lemma sample_timely: "targetRound sampleRound" "targetRound (sampleRound\<lparr>r_flush := f\<rparr>)" "timely (targetPeer 900000)"
  by (auto simp: targetRound_def sampleRound_def timely_def connectionDeadline_def)

definition sampleConnect :: connect_env where
  "sampleConnect = \<lparr>k_dial = None, k_handshake = None, k_state = fullSession, k_nanos = 3000000\<rparr>"

definition smokeEnv :: env where
  "smokeEnv name =
     (case map_of [(''PLAB_LOAD_PROFILE_ID'', ''secure-dns-smoke''), (''PLAB_CONNECTIONS'', ''1''), (''PLAB_CONCURRENCY'', ''1''),
        (''PLAB_DURATION_SECONDS'', ''5''), (''PLAB_WARMUP_SECONDS'', ''1''), (''PLAB_REPETITION'', ''1'')] name of
        None \<Rightarrow> '''' | Some v \<Rightarrow> v)"

lemma smokeEnv_strict: "selectedScenario smokeEnv = strictScenario" "authoritative smokeEnv"
  by (simp_all add: selectedScenario_def smokeEnv_def trimSpace_def authoritative_def)

lemma smokeEnv_accepted: "checkIdentity smokeEnv = None" "\<exists>r. loadConfig smokeEnv = Inr r"
proof -
  have v: "verifySubstitution smokeEnv ''PLAB_EXECUTOR_ID'' x" "verifySubstitution smokeEnv ''PLAB_EXECUTOR_VERSION'' x"
    "verifySubstitution smokeEnv ''PLAB_LOAD_GENERATOR_ID'' x" "verifySubstitution smokeEnv ''PLAB_LOAD_GENERATOR_VERSION'' x"
    "verifySubstitution smokeEnv ''PLAB_PROTOCOL'' x" "verifySubstitution smokeEnv ''PLAB_PROTOCOL_VARIANT'' x" for x
    by (simp_all add: verifySubstitution_def smokeEnv_def trimSpace_def)
  show "checkIdentity smokeEnv = None"
    by (simp add: checkIdentity_def v smokeEnv_strict supportedScenarios_def Let_def)
  show "\<exists>r. loadConfig smokeEnv = Inr r"
    by (simp add: loadConfig_def smokeEnv_strict supportedScenarios_def)
      (simp add: smokeEnv_def trimSpace_def isSpace_def supportedProfile_def envInt_def atoi_def parseSigned_def)
qed

theorem dot_run_interop_witness:
  "\<exists>res. case runMain smokeEnv (Inr ''127.0.0.1:18530'') None False (runPhase smokeEnv sampleConnect True [sampleRound] quiet 1)
      (runPhase smokeEnv sampleConnect False [sampleRound] quiet 1)
      (runPhase smokeEnv sampleConnect False [sampleRound, sampleRound] quiet 5) of (written, code) \<Rightarrow>
    code = 0 \<and> last written = ResultJson res \<and> m_CompletedOperations (res_Metrics res) = 2 \<and>
    m_TotalTransferredBytes (res_Metrics res) = 148"
proof -
  obtain p where p: "connect smokeEnv sampleConnect = (p, None)"
    using session_opens [of sampleConnect smokeEnv] by (auto simp: sampleConnect_def)
  obtain requested where r: "loadConfig smokeEnv = Inr requested" using smokeEnv_accepted(2) by blast
  have t: "list_all targetRound (sampleRound # [sampleRound] @ [sampleRound, sampleRound])"
    by (simp add: sample_timely)
  from dot_run_interop [OF smokeEnv_strict(2) smokeEnv_accepted(1) r p p p t, of "''127.0.0.1:18530''" 1 1 5]
  show ?thesis unfolding case_prod_beta by auto
qed

text \<open>The target is an authority, not a resolver. In the resolver scenario, with a successful
  cache flush and an open session, the first query of a phase is refused: the phase ends at once with
  an error, one failed operation, no completed one and only the query transferred.\<close>

theorem dot_resolver_refused:
  assumes "selectedScenario getenv = resolverScenario" "connect getenv k = (p, None)"
    and "flushResolverCache getenv (r_flush r) = None" "targetRound r"
  shows "case runPhase getenv k once (r # rs) quiet elapsed of (s, err) \<Rightarrow>
    err = Some EOF \<and> s_FailedOperations s = 1 \<and> s_CompletedOperations s = 0 \<and> s_TotalTransferredBytes s = 29 \<and>
    s_LastProof s = None \<and> s_Errors s = [''EOF'' \<mapsto> 1]"
proof -
  have fx: "canonicalFixture getenv = (resolverQuery, resolverResponse, resolverQueryHash, resolverResponseHash)"
    using assms(1) by (simp add: canonicalFixture_def)
  have "timely (r_peer r)" using assms(4) by (simp add: targetRound_def)
  note w = targetPeer_refuses [OF _ _ this, of quiet 1, unfolded quiet_def, simplified]
  have "\<exists>c'. exchange getenv None (r_peer r) quiet 1 = ((None, 29, Some EOF), c')"
    by (simp add: quiet_def exchange_def fx w Let_def readFull_empty) (simp add: frame_def)
  then obtain c' where "exchange getenv None (r_peer r) quiet 1 = ((None, 29, Some EOF), c')" by blast
  with assms show ?thesis
    by (simp add: runPhase_def targetRound_def newSummary_def recordFailure_def countError_def Let_def)
qed

definition resolverEnv :: env where
  "resolverEnv name = (if name = ''PLAB_SCENARIO_ID'' then resolverScenario else '''')"

theorem dot_resolver_refused_witness:
  "case runPhase resolverEnv sampleConnect True
     [sampleRound\<lparr>r_flush := \<lparr>f_split = Inr (''127.0.0.1'', ''853''), f_post = (\<lambda>_. Inr (204, ''''))\<rparr>\<rparr>] quiet 1 of (s, err) \<Rightarrow>
     err = Some EOF \<and> s_FailedOperations s = 1"
proof -
  let ?r = "sampleRound\<lparr>r_flush := \<lparr>f_split = Inr (''127.0.0.1'', ''853''), f_post = (\<lambda>_. Inr (204, ''''))\<rparr>\<rparr>"
  obtain p where p: "connect resolverEnv sampleConnect = (p, None)"
    using session_opens [of sampleConnect resolverEnv] by (auto simp: sampleConnect_def)
  have "selectedScenario resolverEnv = resolverScenario"
    by (simp add: selectedScenario_def resolverEnv_def resolverScenario_def trimSpace_def isSpace_def)
  moreover have "flushResolverCache resolverEnv (r_flush ?r) = None"
    by (simp add: flushResolverCache_def atoi_def parseSigned_def Let_def)
  ultimately show ?thesis using dot_resolver_refused [of resolverEnv sampleConnect p ?r True "[]" 1] p sample_timely(2)
    by (auto split: prod.splits)
qed

text \<open>A query the DNS-over-TLS executor counts as completed was answered exactly. Whatever the
  server does, if an exchange returns no error then what the connection delivered starts with the
  two-octet length and the response of the fixture under the message ID of the query, byte for byte,
  the rest is left unread, and the transferred bytes are those of the two framed messages.\<close>

theorem dot_exchange_sound:
  assumes "exchange getenv setDeadline peer c mid = ((p, n, None), c')"
  shows "case canonicalFixture getenv of (q, r, qd, rd) \<Rightarrow>
    \<exists>c0. peer (frame (withID q mid)) c = Inr c0 \<and> conn_in c0 = frame (withID r mid) @ conn_in c' \<and>
      n = int (length (frame (withID q mid)) + length (frame (withID r mid))) \<and> hash (withID r 0) = rd"
proof -
  obtain q r qd rd where fx: "canonicalFixture getenv = (q, r, qd, rd)" by (cases "canonicalFixture getenv") auto
  from assms obtain c0 prefix c1 response where
    x: "peer (frame (withID q mid)) c = Inr c0" "readFull 2 c0 = (Inr prefix, c1)"
      "readFull (unat (uint16 prefix)) c1 = (Inr response, c')" "length response = length r" "uint16 response = mid"
      "hash (withID response 0) = rd" "withID response 0 = r" "unat (uint16 prefix) \<noteq> 0"
      "n = int (length (frame (withID q mid)) + 2 + length response)"
    by (auto simp: exchange_def fx Let_def split: option.splits sum.splits prod.splits if_splits)
  have l: "length prefix = 2" "conn_in c0 = prefix @ response @ conn_in c'" "length response = unat (uint16 prefix)"
    using x(2,3) by (auto simp: readFull_Inr)
  have "2 \<le> length r" using fx by (auto simp: canonicalFixture_def split: if_splits)
  then have "2 \<le> length response" using x(4) by simp
  moreover have "withID r mid = withID response mid" using x(7) by auto
  ultimately have "withID r mid = response" using x(5) withID_self [of response] by simp
  moreover have "prefix = be16 (of_nat (length response))" using be16_length [of prefix] l(1,3) by simp
  ultimately show ?thesis using x l fx by (auto simp: frame_def)
qed

theorem dot_exchange_sound_witness:
  "\<exists>c0 (c' :: conn). targetPeer 900000 (frame (withID canonicalQuery 7)) quiet = Inr c0 \<and>
     conn_in c0 = frame (withID Dot_Executor.canonicalResponse 7) @ conn_in c'"
proof -
  note fx = authoritative_fixture(2) [OF smokeEnv_strict(2)]
  obtain c' where "exchange smokeEnv None (targetPeer 900000) quiet 7 = ((Some (dot_target.provenBy smokeEnv 7), 74, None), c')"
    using dot_target.exchange_answered [OF fx sample_timely(3) _ served_quiet, of 7] by auto
  from dot_exchange_sound [OF this] show ?thesis unfolding fx prod.case by blast
qed

theorem dot_handle_answers_witness:
  "\<exists>qs rest. frame (withID canonicalQuery 9) @ frame (withID canonicalQuery 9) = concat (map dotFrame qs) @ rest \<and>
     list_all dotAccepted qs \<and>
     (case handle True None negotiated
         (quiet\<lparr>conn_in := frame (withID canonicalQuery 9) @ frame (withID canonicalQuery 9)\<rparr>) of (logged, c') \<Rightarrow>
       length logged \<le> 1 \<and> ReusedID \<notin> set logged \<and> conn_out c' = map (\<lambda>q. framedResponse (uint16 q)) qs \<and>
       \<not> (\<exists>q r. dotAccepted q \<and> rest = dotFrame q @ r))"
  using dot_handle_answers [of negotiated
      "quiet\<lparr>conn_in := frame (withID canonicalQuery 9) @ frame (withID canonicalQuery 9)\<rparr>"]
  by (simp add: negotiated_def Dot_Target.alpn_def quiet_def)

end
