(* ===== verification/Doq_Target.thy ===== *)
theory Doq_Target
  imports Go_Sha256
begin

text \<open>
  The DNS-over-QUIC target of \<^verbatim>\<open>implementations/go-dns-doq/source/main.go\<close>: the check of the
  connection, and the handler that reads the one query of a stream, answers it and ends the stream,
  or closes the whole connection with an error code. QUIC is a library outside the repository: a
  connection comes with its state and its accepted streams, a stream with the bytes its peer sends
  and with what the deadline and close calls return.
\<close>

section \<open>Constants\<close>

definition doqALPN :: string where "doqALPN = ''doq''"
definition doqProtocolError :: nat where "doqProtocolError = 0x2"

definition queryHash :: string where
  "queryHash = ''c46b9fb76019b5a644d0884b17e816cb7c3076275d9468c27d180f70488eb8ec''"

definition mustHex :: "string \<Rightarrow> bytes" where
  \<comment> \<open>an undecodable constant panics while the package is initialised\<close>
  "mustHex v = (case hexDecode v of Some b \<Rightarrow> b | None \<Rightarrow> [])"

definition canonicalQuery :: bytes where
  "canonicalQuery = mustHex (''00000000000100000000000004706c616204746573740000010001'')"

definition canonicalResponse :: bytes where
  "canonicalResponse = mustHex
    (''00008400000100010000000004706c616204746573740000010001c00c00010001000000000004c0'' @
     ''000201'')"

definition hash :: "bytes \<Rightarrow> string" where "hash v = sha256Hex v"

definition frame :: "bytes \<Rightarrow> bytes" where
  "frame m = be16 (of_nat (length m)) @ m"

text \<open>The loop runs over the indexes of \<open>left\<close>.\<close>

definition equal :: "bytes \<Rightarrow> bytes \<Rightarrow> bool" where
  "equal left right \<longleftrightarrow> length left = length right \<and> list_all (\<lambda>i. left ! i = right ! i) [0..<length left]"

definition envOr :: "env \<Rightarrow> string \<Rightarrow> string \<Rightarrow> string" where
  "envOr getenv name fallback =
     (let v = trimSpace (getenv name) in if v \<noteq> '''' then v else fallback)"

definition defaultListen :: "env \<Rightarrow> string" where
  "defaultListen getenv =
     (let v = trimSpace (getenv ''PLAB_DOQ_LISTEN'') in
      if v \<noteq> '''' then v else ''127.0.0.1:'' @ envOr getenv ''PLAB_DOQ_PORT'' ''18532'')"

section \<open>One stream\<close>

definition validateRequestFrame :: "bytes \<Rightarrow> go_error option" where
  "validateRequestFrame value =
     (if length value \<noteq> 29 \<or> uint16 (take 2 value) \<noteq> 27 then Some (Errorf ''DoQ request framing mismatch'')
      else (let message = drop 2 value in
        if length message \<noteq> 27 \<or> uint16 (take 2 message) \<noteq> 0 \<or> hash message \<noteq> queryHash \<or> \<not> equal message canonicalQuery
        then Some (Errorf ''DoQ request semantic identity mismatch'')
        else None))"

text \<open>A stream as it is accepted, and how its handler leaves it: the answer was written and the stream
  ended, or the connection is closed with an application error code and a reason.\<close>

record doq_stream =
  ds_deadline :: "go_error option"
  ds_conn :: conn
  ds_close :: "go_error option"

datatype stream_end = Finished | CloseWithError nat string

definition handleStream :: "doq_stream \<Rightarrow> conn \<times> stream_end" where
  "handleStream s =
     (case ds_deadline s of
        Some e \<Rightarrow> (ds_conn s, CloseWithError 0x1 ''DoQ stream deadline failed'')
      | None \<Rightarrow>
          (case readAllLimited 30 (ds_conn s) of
             (Inl e, c) \<Rightarrow> (c, CloseWithError doqProtocolError ''invalid DoQ request message'')
           | (Inr request, c) \<Rightarrow>
               if validateRequestFrame request \<noteq> None
               then (c, CloseWithError doqProtocolError ''invalid DoQ request message'')
               else (case connWrite (frame canonicalResponse) c of
                   (Some e, c1) \<Rightarrow> (c1, CloseWithError 0x1 ''DoQ response write failed'')
                 | (None, c1) \<Rightarrow>
                     (case ds_close s of
                        Some e \<Rightarrow> (c1, CloseWithError 0x1 ''DoQ response FIN failed'')
                      | None \<Rightarrow> (c1, Finished)))))"

section \<open>One connection\<close>

record quic_negotiation =
  q_Version :: nat
  q_TLSVersion :: nat
  q_ALPN :: string
  q_DidResume :: bool
  q_Used0RTT :: bool

text \<open>The streams accepted until accepting fails; each runs in a goroutine of its own on its own
  stream, so what they do is listed per stream.\<close>

definition serveConnection :: "quic_negotiation \<Rightarrow> doq_stream list \<Rightarrow> stream_end + (conn \<times> stream_end) list" where
  "serveConnection state streams =
     (if q_Version state \<noteq> 1 \<or> q_TLSVersion state \<noteq> 0x304 \<or> q_ALPN state \<noteq> doqALPN \<or> q_DidResume state \<or> q_Used0RTT state
      then Inl (CloseWithError doqProtocolError ''exact QUIC v1 / DoQ TLS binding required'')
      else Inr (map handleStream streams))"

section \<open>Facts about the fixture\<close>

lemma equal_iff [simp]: "equal left right \<longleftrightarrow> left = right"
  by (auto simp: equal_def list_all_iff intro: nth_equalityI)

lemma doq_target_mustHex: "hexOk v \<Longrightarrow> hexDecode v = Some (mustHex v) \<and> length (mustHex v) = length v div 2"
  using hexDecode_ok [of v] by (auto simp: mustHex_def)

lemma doq_target_lengths [simp]: "length canonicalQuery = 27" "length canonicalResponse = 43"
  by (simp_all add: canonicalQuery_def canonicalResponse_def doq_target_mustHex hexOk_def hexVal_def)

lemma doq_target_digest: "hash canonicalQuery = queryHash"
proof -
  have "hash (mustHex v) = hexState (shaAbsorbB (stateBits shaInit) (wordsBits (hexBits (v @ p))))"
    if "hexOk v" "length v = 2 * n"
      "hexDecode p = Some ([0x80] @ replicate ((119 - n mod 64) mod 64) 0 @ be64 (of_nat (8 * n)))" for v p n
    using doq_target_mustHex [OF that(1)] that(2,3) unfolding hash_def by (intro sha256Hex_eval) auto
  note h = this [OF _ _ pad_27]
  show ?thesis unfolding canonicalQuery_def queryHash_def
    by (subst h) (simp_all only: sha_eval, simp_all add: hexOk_def hexVal_def)
qed

lemma doq_target_id: "uint16 canonicalQuery = 0"
  by (simp add: canonicalQuery_def mustHex_def hexVal_def)

lemma uint16_take2: "uint16 (take 2 m) = uint16 m"
  by (cases m rule: list.exhaust [case_names Nil Cons]; cases "tl m") (auto simp: numeral_2_eq_2)

lemma validateRequestFrame_iff: "validateRequestFrame v = None \<longleftrightarrow> v = frame canonicalQuery"
proof
  assume r: "validateRequestFrame v = None"
  then have v: "length v = 29" "uint16 (take 2 v) = 27" "drop 2 v = canonicalQuery"
    by (auto simp: validateRequestFrame_def Let_def split: if_splits)
  have "take 2 v = be16 27" using be16_length [of "take 2 v"] v by simp
  with v(3) append_take_drop_id [of 2 v] show "v = frame canonicalQuery" by (simp add: frame_def)
next
  assume "v = frame canonicalQuery"
  then show "validateRequestFrame v = None"
    by (simp add: validateRequestFrame_def Let_def frame_def doq_target_digest doq_target_id uint16_take2)
qed

lemma handleStream_finishes:
  assumes "ds_deadline s = None" "conn_in (ds_conn s) = frame canonicalQuery" "conn_end (ds_conn s) = EOF"
    and "connWrite (frame canonicalResponse) (ds_conn s) = (None, c')" "ds_close s = None"
  shows "snd (handleStream s) = Finished"
  using assms by (auto simp: handleStream_def readAllLimited_def frame_def validateRequestFrame_iff connWrite_def
      split: option.splits prod.splits nat.splits)

section \<open>The property\<close>

text \<open>The DNS-over-QUIC target answers a stream exactly when the stream holds the framed query of
  the fixture and nothing else. Whatever a client sends and whichever library calls fail, the handler
  writes nothing or the framed response once; it ends the stream only after writing it, to exactly that
  query, and otherwise closes the connection with the internal or the protocol error code.\<close>

theorem doq_stream_exact:
  "case handleStream s of (c, e) \<Rightarrow>
     (if e = Finished then conn_in (ds_conn s) = frame canonicalQuery \<and> conn_end (ds_conn s) = EOF \<and>
        conn_out c = conn_out (ds_conn s) @ [frame canonicalResponse]
      else (\<exists>code reason. e = CloseWithError code reason \<and> code \<in> {0x1, doqProtocolError}) \<and>
        (conn_out c = conn_out (ds_conn s) \<or>
         conn_in (ds_conn s) = frame canonicalQuery \<and> conn_out c = conn_out (ds_conn s) @ [frame canonicalResponse]))"
proof (cases "ds_deadline s")
  case None
  let ?c = "ds_conn s"
  have l: "take 30 m \<noteq> frame canonicalQuery" if "30 \<le> length m" for m
    using that by (auto simp: frame_def dest!: arg_cong [where f = length])
  have q: "conn_in ?c = frame canonicalQuery \<and> conn_end ?c = EOF \<and> conn_out c = conn_out ?c"
    if "readAllLimited 30 ?c = (Inr request, c)" "validateRequestFrame request = None" for request c
    using that l unfolding validateRequestFrame_iff by (auto simp: readAllLimited_def split: if_splits)
  have o: "conn_out c = conn_out ?c" if "readAllLimited 30 ?c = (r, c)" for r c
    using that by (auto simp: readAllLimited_def split: if_splits)
  obtain r c1 where r: "readAllLimited 30 ?c = (r, c1)" by force
  show ?thesis
  proof (cases "\<exists>request. r = Inr request \<and> validateRequestFrame request = None")
    case True
    then have "conn_in ?c = frame canonicalQuery" "conn_end ?c = EOF" "conn_out c1 = conn_out ?c" using q r by auto
    moreover obtain w c2 where w: "connWrite (frame canonicalResponse) c1 = (w, c2)" by force
    moreover have "conn_out c2 = (if w = None then conn_out c1 @ [frame canonicalResponse] else conn_out c1)"
      using w connWrite_out [of "frame canonicalResponse" c1] by (cases w) auto
    ultimately show ?thesis
      using True None r by (cases "ds_close s"; cases w) (auto simp: handleStream_def)
  next
    case False
    with None r o [OF r] show ?thesis by (cases r) (auto simp: handleStream_def)
  qed
qed (simp add: handleStream_def)

end
