(* ===== verification/Dns_Message.thy ===== *)
theory Dns_Message
  imports Go_Sha256 "HOL-Library.Monad_Syntax"
begin

text \<open>
  What the parsers of DNS messages share: reads of a message that may leave it, which panic in Go and
  are \<open>None\<close> here, conditions that are evaluated from left to right, and the reference for names with
  compression pointers, independent of any parser.
\<close>

section \<open>Slices that may panic\<close>

definition index :: "bytes \<Rightarrow> nat \<Rightarrow> byte option" where
  "index m i = (if i < length m then Some (m ! i) else None)"

text \<open>\<^verbatim>\<open>m[i:j]\<close>; a slice beyond its length would need capacity, which no caller relies on.\<close>

definition slice :: "bytes \<Rightarrow> nat \<Rightarrow> nat \<Rightarrow> bytes option" where
  "slice m i j = (if i \<le> j \<and> j \<le> length m then Some (take (j - i) (drop i m)) else None)"

definition slice16 :: "bytes \<Rightarrow> nat \<Rightarrow> nat \<Rightarrow> u16 option" where
  "slice16 m i j = slice m i j \<bind> (\<lambda>b. if 2 \<le> length b then Some (uint16 b) else None)"

definition slice32 :: "bytes \<Rightarrow> nat \<Rightarrow> nat \<Rightarrow> u32 option" where
  "slice32 m i j = slice m i j \<bind> (\<lambda>b. if 4 \<le> length b then Some (uint32 b) else None)"

named_theorems in_range \<comment> \<open>accesses within bounds return\<close>

lemma index_in [in_range]: "i < length m \<Longrightarrow> index m i = Some (m ! i)"
  by (simp add: index_def)

lemma slice_in [in_range]: "i \<le> j \<Longrightarrow> j \<le> length m \<Longrightarrow> slice m i j = Some (take (j - i) (drop i m))"
  by (simp add: slice_def)

lemma slice16_in [in_range]:
  "i + 2 \<le> j \<Longrightarrow> j \<le> length m \<Longrightarrow> slice16 m i j = Some (uint16 (take (j - i) (drop i m)))"
  by (simp add: slice16_def slice_def)

lemma slice32_in [in_range]:
  "i + 4 \<le> j \<Longrightarrow> j \<le> length m \<Longrightarrow> slice32 m i j = Some (uint32 (take (j - i) (drop i m)))"
  by (simp add: slice32_def slice_def)

section \<open>Conditions\<close>

text \<open>The conditions are evaluated from left to right and only as far as needed, as \<^verbatim>\<open>||\<close> does:
  what follows a test that fails is not read.\<close>

definition orElse :: "bool option \<Rightarrow> bool option \<Rightarrow> bool option" where
  "orElse a b = do { x \<leftarrow> a; if x then Some True else b }"

definition differs :: "'a option \<Rightarrow> 'a \<Rightarrow> bool option" where
  "differs a v = map_option (\<lambda>x. x \<noteq> v) a"

lemma differs_in [in_range]: "differs (Some x) v = Some (x \<noteq> v)"
  by (simp add: differs_def)

lemma uint_take:
  "length b = 2 \<Longrightarrow> uint16 b = x \<longleftrightarrow> b = be16 x" "length b = 4 \<Longrightarrow> uint32 b = y \<longleftrightarrow> b = be32 y"
  by (auto simp: numeral_eq_Suc length_Suc_conv be16_uint16 be32_uint32 simp del: uint16.simps uint32.simps)

lemma take_split:
  assumes "length a = k" "k \<le> length m"
  shows "take (k + n) m = a @ b \<longleftrightarrow> take k m = a \<and> take n (drop k m) = b"
  using assms by (simp add: take_add)

section \<open>What a name denotes\<close>

text \<open>The reference: \<open>decodes m off labels nxt n\<close> says that at offset \<open>off\<close> the message \<open>m\<close> has the
  labels of a name, that what follows the name in the message is at \<open>nxt\<close>, and that reading it takes
  \<open>n\<close> labels and pointers. A name whose pointers form a cycle has no such derivation.\<close>

definition pointerTarget :: "byte \<Rightarrow> byte \<Rightarrow> nat" where
  "pointerTarget value low = unat (push_bit 8 (ucast (value AND 0x3f)) OR ucast low :: u64)"

inductive decodes :: "bytes \<Rightarrow> nat \<Rightarrow> string list \<Rightarrow> nat \<Rightarrow> nat \<Rightarrow> bool" where
  Root: "off < length m \<Longrightarrow> m ! off = 0 \<Longrightarrow> decodes m off [] (off + 1) 0"
| Pointer: "off + 1 < length m \<Longrightarrow> m ! off AND 0xc0 = 0xc0 \<Longrightarrow>
    decodes m (pointerTarget (m ! off) (m ! (off + 1))) labels nxt n \<Longrightarrow> decodes m off labels (off + 2) (Suc n)"
| Label: "m ! off \<noteq> 0 \<Longrightarrow> m ! off AND 0xc0 = 0 \<Longrightarrow> off + 1 + unat (m ! off) \<le> length m \<Longrightarrow>
    decodes m (off + 1 + unat (m ! off)) labels nxt n \<Longrightarrow>
    decodes m off (to_string (take (unat (m ! off)) (drop (off + 1) m)) # labels) nxt (Suc n)"

lemma pointer_tag [simp]: "(v :: byte) AND 0xc0 = 0xc0 \<Longrightarrow> v \<noteq> 0"
  by auto

lemma label_short: "(v :: byte) AND 0xc0 = 0 \<Longrightarrow> unat v \<le> 63"
proof -
  assume v: "v AND 0xc0 = 0"
  have "bit (0xc0 :: byte) 6" "bit (0xc0 :: byte) 7" by (simp_all add: bit_numeral_rec eval_nat_numeral)
  then have "\<not> bit v 6" "\<not> bit v 7" using arg_cong [OF v, of "\<lambda>x. bit x 6"] arg_cong [OF v, of "\<lambda>x. bit x 7"]
    by (simp_all add: bit_and_iff)
  then have "bit v n \<Longrightarrow> n < 6" for n
    using bit_imp_le_length [of v n] by (cases "n = 6 \<or> n = 7") auto
  then have "take_bit 6 v = v" by (auto intro!: bit_eqI simp: bit_take_bit_iff)
  then have "unat v = take_bit 6 (unat v)" by (metis unsigned_take_bit_eq)
  then have "unat v < 2 ^ 6" by (metis take_bit_nat_less_exp)
  then show ?thesis by simp
qed

lemma decodes_bounds: "decodes m off labels nxt n \<Longrightarrow> off < nxt \<and> nxt \<le> length m"
  by (induction rule: decodes.induct) auto

inductive_cases decodesE: "decodes m off labels nxt n"

lemma decodes_deterministic:
  "decodes m off labels nxt n \<Longrightarrow> decodes m off labels' nxt' n' \<Longrightarrow> labels' = labels \<and> nxt' = nxt \<and> n' = n"
proof (induction arbitrary: labels' nxt' n' rule: decodes.induct)
  case (Root off m)
  from Root(3) show ?case by (rule decodesE) (use Root(2) in auto)
next
  case (Pointer off m labels nxt n)
  from Pointer.prems show ?case by (rule decodesE) (use Pointer.hyps(2) in \<open>auto dest!: Pointer.IH [unfolded One_nat_def add_Suc_right add_0_right]\<close>)
next
  case (Label m off labels nxt n)
  from Label.prems show ?case by (rule decodesE) (use Label.hyps(1,2) in \<open>auto dest!: Label.IH [unfolded One_nat_def add_Suc_right add_0_right add_Suc]\<close>)
qed

section \<open>The answer to the fixture query\<close>

text \<open>The header of an answer with one question and one record, the two names, and around them the
  type and class of the question and the A record. The names may be written in any way that decodes to
  labels which, joined with dots, give the expected text.\<close>

definition namedAt :: "bytes \<Rightarrow> nat \<Rightarrow> nat \<Rightarrow> bool" where
  "namedAt m off nxt \<longleftrightarrow> (\<exists>labels n. decodes m off labels nxt n \<and> n < 32 \<and> joinWith ''.'' labels = ''plab.test'')"

definition answerRecord :: bytes where
  "answerRecord = be16 1 @ be16 1 @ be32 0 @ be16 4 @ [192, 0, 2, 1]"

definition answerMessage :: "u16 \<Rightarrow> bytes \<Rightarrow> bool" where
  "answerMessage flags m \<longleftrightarrow> take 12 m = be16 0 @ be16 flags @ be16 1 @ be16 1 @ be16 0 @ be16 0 \<and>
     (\<exists>q a. namedAt m 12 q \<and> take 4 (drop q m) = be16 1 @ be16 1 \<and> namedAt m (q + 4) a \<and> drop a m = answerRecord)"

lemma namedAt_bounds: "namedAt m off nxt \<Longrightarrow> off < nxt \<and> nxt \<le> length m"
  by (auto simp: namedAt_def dest: decodes_bounds)

lemma namedAt_unique: "namedAt m off a \<Longrightarrow> namedAt m off b \<Longrightarrow> a = b"
  by (auto simp: namedAt_def dest: decodes_deterministic)

lemma split_at: "i + n = j \<Longrightarrow> drop i m = take n (drop i m) @ drop j m"
  by (metis append_take_drop_id drop_drop add.commute)

lemma answerRecord_iff:
  assumes "nxt + 10 \<le> length m"
  shows "drop nxt m = answerRecord \<longleftrightarrow>
    uint16 (take 2 (drop nxt m)) = 1 \<and> uint16 (take 2 (drop (nxt + 2) m)) = 1 \<and> uint32 (take 4 (drop (nxt + 4) m)) = 0 \<and>
    unat (uint16 (take 2 (drop (nxt + 8) m))) = 4 \<and> nxt + 10 + 4 = length m \<and> take 4 (drop (nxt + 10) m) = [192, 0, 2, 1]"
proof -
  have "drop nxt m = take 2 (drop nxt m) @ drop (nxt + 2) m" by (rule split_at) simp
  also have "drop (nxt + 2) m = take 2 (drop (nxt + 2) m) @ drop (nxt + 4) m" by (rule split_at) simp
  also have "drop (nxt + 4) m = take 4 (drop (nxt + 4) m) @ drop (nxt + 8) m" by (rule split_at) simp
  also have "drop (nxt + 8) m = take 2 (drop (nxt + 8) m) @ drop (nxt + 10) m" by (rule split_at) simp
  finally have d: "drop nxt m = take 2 (drop nxt m) @ take 2 (drop (nxt + 2) m) @ take 4 (drop (nxt + 4) m) @
      take 2 (drop (nxt + 8) m) @ drop (nxt + 10) m" .
  have "unat (uint16 b) = 4 \<longleftrightarrow> uint16 b = 4" for b
    by (auto intro: unsigned_word_eqI)
  moreover have e: "drop (nxt + 10) m = b \<longleftrightarrow> nxt + 10 + 4 = length m \<and> take 4 (drop (nxt + 10) m) = b" if "length b = 4" for b
    using assms that by (cases "drop (nxt + 10) m = b") auto
  ultimately show ?thesis
    using assms by (subst d) (auto simp: answerRecord_def uint_take e)
qed

lemma header_iff:
  assumes "12 \<le> length m"
  shows "take 12 m = be16 a @ be16 b @ be16 c @ be16 d @ be16 e @ be16 f \<longleftrightarrow>
      take 2 m = be16 a \<and> take 2 (drop 2 m) = be16 b \<and> take 2 (drop 4 m) = be16 c \<and> take 2 (drop 6 m) = be16 d \<and>
      take 2 (drop 8 m) = be16 e \<and> take 2 (drop 10 m) = be16 f"
  using assms take_split [of "be16 a" 2 m 10] take_split [of _ 2 "drop 2 m" 8]
    take_split [of _ 2 "drop 4 m" 6] take_split [of _ 2 "drop 6 m" 4] take_split [of _ 2 "drop 8 m" 2]
  by simp

lemma question_iff:
  assumes "q + 4 \<le> length m"
  shows "take 4 (drop q m) = be16 1 @ be16 1 \<longleftrightarrow> take 2 (drop q m) = be16 1 \<and> take 2 (drop (q + 2) m) = be16 1"
  using take_split [of "be16 1" 2 "drop q m" 2 "be16 1"] assms by (simp add: add.commute)

lemma answer_bounds:
  "take 4 (drop q m) = be16 1 @ be16 1 \<Longrightarrow> q + 4 \<le> length m" "drop a m = answerRecord \<Longrightarrow> a + 10 \<le> length m"
  by (auto simp: answerRecord_def dest!: arg_cong [where f = length])

end
