(* ===== verification/Doq_Wire.thy ===== *)
theory Doq_Wire
  imports Dns_Message
begin

text \<open>
  The wire checks of the DNS-over-QUIC executor, \<^verbatim>\<open>executors/go-dns-doq-executor/source/dns.go\<close>:
  the fixtures, the parser of a possibly compressed DNS name and the check of a framed response.
  These run on bytes a server chooses, so what Go does out of range is part of the model (\<open>None\<close>).
\<close>

section \<open>Fixtures\<close>

definition fixtureID :: string where "fixtureID = ''dns.plab-test-a.canonical''"
definition queryHash :: string where
  "queryHash = ''c46b9fb76019b5a644d0884b17e816cb7c3076275d9468c27d180f70488eb8ec''"
definition responseHash :: string where
  "responseHash = ''9d488461675ad5ab9f74c7b203861e1ad17521e413a407a25e6611012a595620''"

definition mustHex :: "string \<Rightarrow> bytes" where
  \<comment> \<open>an undecodable constant panics while the package is initialised\<close>
  "mustHex v = (case hexDecode v of Some b \<Rightarrow> b | None \<Rightarrow> [])"

definition hash :: "bytes \<Rightarrow> string" where "hash v = sha256Hex v"

definition canonicalQuery :: bytes where
  "canonicalQuery = mustHex (''00000000000100000000000004706c616204746573740000010001'')"

definition canonicalResponse :: bytes where
  "canonicalResponse = mustHex
    (''00008400000100010000000004706c616204746573740000010001c00c00010001000000000004c0'' @
     ''000201'')"

definition frame :: "bytes \<Rightarrow> bytes" where
  "frame m = be16 (of_nat (length m)) @ m"

section \<open>Names\<close>

text \<open>The loop of \<^verbatim>\<open>readName\<close>: its first argument is the number of passes left of 32, and
  \<open>seen\<close> holds the offsets that were visited.\<close>

fun readNameLoop ::
  "nat \<Rightarrow> bytes \<Rightarrow> nat \<Rightarrow> nat \<Rightarrow> bool \<Rightarrow> nat set \<Rightarrow> string list \<Rightarrow> (string \<times> nat) go option" where
  "readNameLoop 0 m offset nxt jumped seen labels = Some (Inl (Errorf ''DNS name exceeded parser bound''))"
| "readNameLoop (Suc steps) m offset nxt jumped seen labels =
     (if offset \<ge> length m \<or> offset \<in> seen then Some (Inl (Errorf ''invalid DNS name''))
      else do {
        value \<leftarrow> index m offset;
        if value = 0 then Some (Inr (joinWith ''.'' labels @ ''.'', if \<not> jumped then offset + 1 else nxt))
        else if value AND 0xc0 = 0xc0 then
          if offset + 1 \<ge> length m then Some (Inl (Errorf ''truncated DNS pointer''))
          else do {
            low \<leftarrow> index m (offset + 1);
            readNameLoop steps m (unat (push_bit 8 (ucast (value AND 0x3f)) OR ucast low :: u64))
              (if \<not> jumped then offset + 2 else nxt) True (insert offset seen) labels
          }
        else if value AND 0xc0 \<noteq> 0 \<or> unat value > 63 \<or> offset + 1 + unat value > length m
          then Some (Inl (Errorf ''invalid DNS label''))
        else do {
          label \<leftarrow> slice m (offset + 1) (offset + 1 + unat value);
          readNameLoop steps m (offset + 1 + unat value)
            (if \<not> jumped then offset + 1 + unat value else nxt) jumped (insert offset seen)
            (labels @ [to_string label])
        }
      })"

definition readName :: "bytes \<Rightarrow> nat \<Rightarrow> (string \<times> nat) go option" where
  "readName m offset = readNameLoop 32 m offset offset False {} []"

section \<open>The check of a response\<close>

record dns_proof =
  p_FixtureID :: string
  p_Transport :: string
  p_QuestionName :: string
  p_QuestionType :: string
  p_QuestionClass :: string
  p_Answer :: string
  p_TTLSeconds :: int
  p_ResponseCode :: string
  p_AuthoritativeAnswer :: bool
  p_RecursionDesired :: bool
  p_RecursionAvailable :: bool
  p_ExternalUpstreamUsed :: bool
  p_CacheEnabled :: bool
  p_Framing :: string
  p_AuthorityMode :: string
  p_RequestMessageID :: u16
  p_RuntimeMessageID :: u16
  p_ResponseMessageID :: u16
  p_CanonicalHashNormalization :: string
  p_QueryLengthBytes :: nat
  p_QueryFramedLengthBytes :: nat
  p_QueryNormalizedSHA256 :: string
  p_ResponseRawLengthBytes :: nat
  p_ResponseFramedLengthBytes :: nat
  p_ResponseCanonicalLengthBytes :: nat
  p_ResponseNormalizedSHA256 :: string
  p_ResponseCompressionDiffered :: bool
  p_ResponseCanonicalized :: bool
  p_RawResponseEqualityRequired :: bool

definition acceptedProof :: "bytes \<Rightarrow> bytes \<Rightarrow> string \<Rightarrow> dns_proof" where
  "acceptedProof raw message normalizedHash =
     \<lparr>p_FixtureID = fixtureID, p_Transport = ''doq'', p_QuestionName = ''plab.test.'', p_QuestionType = ''A'',
      p_QuestionClass = ''IN'', p_Answer = ''192.0.2.1'', p_TTLSeconds = 0, p_ResponseCode = ''NOERROR'',
      p_AuthoritativeAnswer = True, p_RecursionDesired = False, p_RecursionAvailable = False,
      p_ExternalUpstreamUsed = False, p_CacheEnabled = False,
      p_Framing = ''two-octet-network-order-length-prefix'', p_AuthorityMode = ''local-fixture-authoritative'',
      p_RequestMessageID = 0, p_RuntimeMessageID = 0, p_ResponseMessageID = 0,
      p_CanonicalHashNormalization = ''identity'', p_QueryLengthBytes = 27, p_QueryFramedLengthBytes = 29,
      p_QueryNormalizedSHA256 = queryHash, p_ResponseRawLengthBytes = length message,
      p_ResponseFramedLengthBytes = length raw, p_ResponseCanonicalLengthBytes = 43,
      p_ResponseNormalizedSHA256 = normalizedHash, p_ResponseCompressionDiffered = (message \<noteq> canonicalResponse),
      p_ResponseCanonicalized = True, p_RawResponseEqualityRequired = False\<rparr>"

abbreviation malformed :: "string \<Rightarrow> 'a go option" where
  "malformed s \<equiv> Some (Inl (Malformed s))"

definition nameIs :: "(string \<times> nat) go \<Rightarrow> string \<Rightarrow> bool" where
  "nameIs r name \<longleftrightarrow> (case r of Inl _ \<Rightarrow> False | Inr (n, _) \<Rightarrow> n = name)"

definition nextOf :: "(string \<times> nat) go \<Rightarrow> nat" where
  "nextOf r = (case r of Inl _ \<Rightarrow> 0 | Inr (_, nxt) \<Rightarrow> nxt)"

definition checkAnswer :: "bytes \<Rightarrow> bytes \<Rightarrow> nat \<Rightarrow> dns_proof go option" where
  "checkAnswer raw message nxt = do {
     typeCode \<leftarrow> slice16 message nxt (nxt + 2);
     classCode \<leftarrow> slice16 message (nxt + 2) (nxt + 4);
     ttl \<leftarrow> slice32 message (nxt + 4) (nxt + 8);
     len \<leftarrow> slice16 message (nxt + 8) (nxt + 10);
     bad \<leftarrow> (if typeCode \<noteq> 1 \<or> classCode \<noteq> 1 \<or> ttl \<noteq> 0 \<or> unat len \<noteq> 4 \<or> nxt + 10 + 4 \<noteq> length message
       then Some True else differs (slice message (nxt + 10) (nxt + 10 + 4)) [192, 0, 2, 1]);
     if bad then malformed ''A answer semantics mismatch''
     else (let normalizedHash = hash canonicalResponse in
       if length canonicalQuery \<noteq> 27 \<or> hash canonicalQuery \<noteq> queryHash \<or> length canonicalResponse \<noteq> 43 \<or>
          normalizedHash \<noteq> responseHash
       then Some (Inl (Errorf ''internal canonical DNS fixture mismatch''))
       else Some (Inr (acceptedProof raw message normalizedHash)))
   }"

definition validateDNSFrame :: "bytes \<Rightarrow> dns_proof go option" where
  "validateDNSFrame raw = do {
     bad \<leftarrow> (if length raw \<noteq> 45 then Some True else differs (slice16 raw 0 2) 43);
     if bad then malformed ''DoQ response framing mismatch''
     else do {
       message \<leftarrow> slice raw 2 (length raw);
       bad \<leftarrow> (if length message < 12 then Some True else differs (slice16 message 0 2) 0);
       if bad then malformed ''response message ID must be zero''
       else do {
         flags \<leftarrow> slice16 message 2 4;
         if flags \<noteq> 0x8400 then malformed ''response flags or rcode mismatch''
         else do {
           bad \<leftarrow> orElse (differs (slice16 message 4 6) 1) (orElse (differs (slice16 message 6 8) 1)
             (orElse (differs (slice16 message 8 10) 0) (differs (slice16 message 10 12) 0)));
           if bad then malformed ''response section counts mismatch''
           else do {
             question \<leftarrow> readName message 12;
             if \<not> nameIs question ''plab.test.'' then malformed ''response question name mismatch''
             else do {
               let nxt = nextOf question;
               bad \<leftarrow> (if nxt + 4 > length message then Some True
                 else orElse (differs (slice16 message nxt (nxt + 2)) 1)
                   (differs (slice16 message (nxt + 2) (nxt + 4)) 1));
               if bad then malformed ''response question type or class mismatch''
               else do {
                 owner \<leftarrow> readName message (nxt + 4);
                 if \<not> nameIs owner ''plab.test.'' \<or> nextOf owner + 10 > length message
                 then malformed ''answer owner or header mismatch''
                 else checkAnswer raw message (nextOf owner)
               }
             }
           }
         }
       }
     }
   }"

section \<open>The parser implements the reference\<close>

text \<open>It never indexes outside the message.\<close>

lemma readNameLoop_total: "\<exists>r. readNameLoop steps m off nxt jumped seen labels = Some r"
  by (induction steps arbitrary: off nxt jumped seen labels) (auto simp: in_range)

lemma readNameLoop_sound:
  "readNameLoop steps m off nxt jumped seen labels = Some (Inr (name, nxt')) \<Longrightarrow>
   \<exists>ls nx n. decodes m off ls nx n \<and> n < steps \<and> name = joinWith ''.'' (labels @ ls) @ ''.'' \<and>
     nxt' = (if jumped then nxt else nx)"
proof (induction steps arbitrary: off nxt jumped seen labels)
  case (Suc steps)
  let ?v = "m ! off"
  from Suc.prems have off: "off < length m" "off \<notin> seen" by (auto split: if_splits)
  consider "?v = 0" | "?v AND 0xc0 = 0xc0" | "?v \<noteq> 0" "?v AND 0xc0 = 0"
    using Suc.prems off by (auto simp: in_range split: if_splits)
  then show ?case
  proof cases
    case 1
    with Suc.prems off show ?thesis by (auto simp: in_range intro!: exI decodes.Root)
  next
    case 2
    with Suc.prems off have l: "off + 1 < length m" by (auto simp: in_range split: if_splits)
    let ?t = "pointerTarget ?v (m ! (off + 1))"
    from 2 l Suc.prems off have "readNameLoop steps m ?t (if \<not> jumped then off + 2 else nxt) True (insert off seen) labels =
        Some (Inr (name, nxt'))" by (auto simp: in_range pointerTarget_def)
    from Suc.IH [OF this] obtain ls nx n where "decodes m ?t ls nx n" "n < steps"
      "name = joinWith ''.'' (labels @ ls) @ ''.''" "nxt' = (if \<not> jumped then off + 2 else nxt)" by auto
    with decodes.Pointer [OF l 2, of ls nx n] show ?thesis by (intro exI [of _ ls] exI [of _ "off + 2"] exI [of _ "Suc n"]) auto
  next
    case 3
    then have tag: "?v AND 0xc0 \<noteq> 0xc0" by auto
    with 3 Suc.prems off have l: "off + 1 + unat ?v \<le> length m" by (auto simp: in_range split: if_splits)
    let ?o = "off + 1 + unat ?v" and ?l = "to_string (take (unat ?v) (drop (off + 1) m))"
    from 3 tag l Suc.prems off have "readNameLoop steps m ?o (if \<not> jumped then ?o else nxt) jumped (insert off seen) (labels @ [?l]) =
        Some (Inr (name, nxt'))" by (auto simp: in_range split: if_splits)
    from Suc.IH [OF this] obtain ls nx n where "decodes m ?o ls nx n" "n < steps"
      "name = joinWith ''.'' ((labels @ [?l]) @ ls) @ ''.''" "nxt' = (if jumped then nxt else nx)" by auto
    with decodes.Label [OF 3 l, of ls nx n] show ?thesis
      by (intro exI [of _ "?l # ls"] exI [of _ nx] exI [of _ "Suc n"]) simp
  qed
qed simp

text \<open>Conversely a name that decodes is read: an offset that was visited would decode in more steps
  than it has left, so the check for a cycle does not reject it.\<close>

lemma readNameLoop_complete:
  "decodes m off ls nx n \<Longrightarrow> n < steps \<Longrightarrow>
   (\<And>s ls' nx' k. s \<in> seen \<Longrightarrow> decodes m s ls' nx' k \<Longrightarrow> n < k) \<Longrightarrow>
   readNameLoop steps m off nxt jumped seen labels =
     Some (Inr (joinWith ''.'' (labels @ ls) @ ''.'', if jumped then nxt else nx))"
proof (induction arbitrary: steps nxt jumped seen labels rule: decodes.induct)
  case (Root off m)
  then have "off \<notin> seen" by (metis decodes.Root less_irrefl)
  with Root show ?case by (cases steps) (auto simp: in_range)
next
  case (Pointer off m ls nx n)
  note d = decodes.Pointer [OF Pointer.hyps]
  have "off \<notin> seen" using d Pointer.prems(2) by blast
  moreover obtain k where "steps = Suc k" "n < k" using Pointer.prems(1) by (cases steps) auto
  moreover have "n < k'" if "s \<in> insert off seen" "decodes m s ls' nx' k'" for s ls' nx' k'
    using that Pointer.prems(2) [of s ls' nx' k'] decodes_deterministic [OF d, of ls' nx' k'] by auto
  ultimately show ?case
    using Pointer.hyps(1,2) Pointer.IH [of k "insert off seen"] by (auto simp: in_range pointerTarget_def)
next
  case (Label m off ls nx n)
  note d = decodes.Label [OF Label.hyps]
  have "off \<notin> seen" using d Label.prems(2) by blast
  moreover obtain k where "steps = Suc k" "n < k" using Label.prems(1) by (cases steps) auto
  moreover have "n < k'" if "s \<in> insert off seen" "decodes m s ls' nx' k'" for s ls' nx' k'
    using that Label.prems(2) [of s ls' nx' k'] decodes_deterministic [OF d, of ls' nx' k'] by auto
  moreover have "m ! off AND 0xc0 \<noteq> 0xc0" using Label.hyps(2) by auto
  ultimately show ?case
    using Label.hyps(1,2,3) label_short [OF Label.hyps(2)] Label.IH [of k "insert off seen"] by (auto simp: in_range)
qed

lemma readName_iff:
  "readName m off = Some (Inr (name, nxt)) \<longleftrightarrow>
   (\<exists>labels n. decodes m off labels nxt n \<and> n < 32 \<and> name = joinWith ''.'' labels @ ''.'')"
  (is "?l \<longleftrightarrow> ?r")
proof
  assume ?l
  from readNameLoop_sound [OF this [unfolded readName_def]] show ?r by auto
next
  assume ?r
  then obtain labels n where d: "decodes m off labels nxt n" "n < 32" "name = joinWith ''.'' labels @ ''.''" by blast
  then show ?l using readNameLoop_complete [OF d(1,2), of "{}"] by (simp add: readName_def)
qed

section \<open>The check of a response, as a description of the message\<close>

lemma doq_mustHex: "hexOk v \<Longrightarrow> hexDecode v = Some (mustHex v) \<and> length (mustHex v) = length v div 2"
  using hexDecode_ok [of v] by (auto simp: mustHex_def)

lemma doq_hash_mustHex:
  assumes "hexOk v" "length v = 2 * n"
    and "hexDecode p = Some ([0x80] @ replicate ((119 - n mod 64) mod 64) 0 @ be64 (of_nat (8 * n)))"
  shows "hash (mustHex v) = hexState (shaAbsorbB (stateBits shaInit) (wordsBits (hexBits (v @ p))))"
  using doq_mustHex [OF assms(1)] assms(2,3) unfolding hash_def
  by (intro sha256Hex_eval) auto

lemma doq_lengths [simp]: "length canonicalQuery = 27" "length canonicalResponse = 43"
  by (simp_all add: canonicalQuery_def canonicalResponse_def doq_mustHex hexOk_def hexVal_def)

lemma doq_query_digest: "hash canonicalQuery = queryHash"
  unfolding canonicalQuery_def queryHash_def
  by (subst doq_hash_mustHex [OF _ _ pad_27]) (simp_all only: sha_eval, simp_all add: hexOk_def hexVal_def)

lemma doq_response_digest: "hash canonicalResponse = responseHash"
  unfolding canonicalResponse_def responseHash_def
  by (subst doq_hash_mustHex [OF _ _ pad_43]) (simp_all only: sha_eval, simp_all add: hexOk_def hexVal_def)

text \<open>What is accepted: an authoritative answer of 43 bytes.\<close>

definition doqAnswer :: "bytes \<Rightarrow> bool" where
  "doqAnswer m \<longleftrightarrow> length m = 43 \<and> answerMessage 0x8400 m"

lemma named_iff:
  assumes "readName m off = Some r"
  shows "namedAt m off nxt \<longleftrightarrow> nameIs r ''plab.test.'' \<and> nextOf r = nxt"
proof -
  have eq: "joinWith ''.'' labels @ ''.'' = ''plab.test.'' \<longleftrightarrow> joinWith ''.'' labels = ''plab.test''" for labels
    using append_same_eq [of "joinWith ''.'' labels" "''.''" "''plab.test''"] by simp
  have "namedAt m off nxt \<longleftrightarrow> readName m off = Some (Inr (''plab.test.'', nxt))"
    unfolding readName_iff namedAt_def by (metis eq)
  with assms show ?thesis by (auto simp: nameIs_def nextOf_def split: sum.splits prod.splits)
qed

lemma readName_total: "\<exists>r. readName m off = Some r"
  unfolding readName_def by (rule readNameLoop_total)

lemma checkAnswer_in:
  assumes "nxt + 10 \<le> length m"
  shows "checkAnswer raw m nxt =
    Some (if drop nxt m = answerRecord then Inr (acceptedProof raw m responseHash)
      else Inl (Malformed ''A answer semantics mismatch''))"
  using assms answerRecord_iff [OF assms]
  by (auto simp: checkAnswer_def in_range doq_query_digest doq_response_digest Let_def add.assoc)

lemma validateDNSFrame_framing:
  assumes "length raw \<noteq> 45 \<or> take 2 raw \<noteq> be16 43"
  shows "validateDNSFrame raw = malformed ''DoQ response framing mismatch''"
  using assms by (auto simp: validateDNSFrame_def in_range uint_take)

lemma validateDNSFrame_message:
  assumes "length m = 43"
  shows "\<exists>r. validateDNSFrame (frame m) = Some r \<and>
    (r = Inr p \<longleftrightarrow> doqAnswer m \<and> p = acceptedProof (frame m) m responseHash)"
proof -
  have f: "length (frame m) = 45" "take 2 (frame m) = be16 43" "drop 2 (frame m) = m" using assms by (simp_all add: frame_def)
  obtain rq where rq: "readName m 12 = Some rq" using readName_total by blast
  obtain ro where ro: "readName m (nextOf rq + 4) = Some ro" using readName_total by blast
  note n = named_iff [OF rq] named_iff [OF ro]
  have v: "validateDNSFrame (frame m) =
     (if take 2 m \<noteq> be16 0 then malformed ''response message ID must be zero''
      else if take 2 (drop 2 m) \<noteq> be16 0x8400 then malformed ''response flags or rcode mismatch''
      else if take 2 (drop 4 m) \<noteq> be16 1 \<or> take 2 (drop 6 m) \<noteq> be16 1 \<or> take 2 (drop 8 m) \<noteq> be16 0 \<or> take 2 (drop 10 m) \<noteq> be16 0
      then malformed ''response section counts mismatch''
      else if \<not> nameIs rq ''plab.test.'' then malformed ''response question name mismatch''
      else if nextOf rq + 4 > 43 \<or> take 4 (drop (nextOf rq) m) \<noteq> be16 1 @ be16 1
      then malformed ''response question type or class mismatch''
      else if \<not> nameIs ro ''plab.test.'' \<or> nextOf ro + 10 > 43 then malformed ''answer owner or header mismatch''
      else Some (if drop (nextOf ro) m = answerRecord then Inr (acceptedProof (frame m) m responseHash)
        else Inl (Malformed ''A answer semantics mismatch'')))"
    using assms question_iff [of "nextOf rq" m]
    by (cases "nextOf rq + 4 > 43") (simp_all add: validateDNSFrame_def in_range f uint_take rq ro orElse_def checkAnswer_in Let_def)
  have d: "doqAnswer m \<longleftrightarrow> take 12 m = be16 0 @ be16 0x8400 @ be16 1 @ be16 1 @ be16 0 @ be16 0 \<and>
      nameIs rq ''plab.test.'' \<and> take 4 (drop (nextOf rq) m) = be16 1 @ be16 1 \<and> nameIs ro ''plab.test.'' \<and>
      drop (nextOf ro) m = answerRecord"
    using assms n ro by (auto simp: doqAnswer_def answerMessage_def)
  have h: "take 12 m = be16 0 @ be16 0x8400 @ be16 1 @ be16 1 @ be16 0 @ be16 0 \<longleftrightarrow>
      take 2 m = be16 0 \<and> take 2 (drop 2 m) = be16 0x8400 \<and> take 2 (drop 4 m) = be16 1 \<and> take 2 (drop 6 m) = be16 1 \<and>
      take 2 (drop 8 m) = be16 0 \<and> take 2 (drop 10 m) = be16 0" by (rule header_iff) (simp add: assms)
  have b: "take 4 (drop (nextOf rq) m) = be16 1 @ be16 1 \<Longrightarrow> nextOf rq + 4 \<le> 43"
    "drop (nextOf ro) m = answerRecord \<Longrightarrow> nextOf ro + 10 \<le> 43"
    using answer_bounds [of _ m] by (simp_all only: assms)
  show ?thesis unfolding v d h using b by auto
qed

section \<open>The fixture is such an answer\<close>

lemma doq_response_bytes:
  "canonicalResponse =
    [0, 0, 0x84, 0, 0, 1, 0, 1, 0, 0, 0, 0, 4, 112, 108, 97, 98, 4, 116, 101, 115, 116, 0, 0, 1, 0, 1, 0xc0, 0x0c,
     0, 1, 0, 1, 0, 0, 0, 0, 0, 4, 192, 0, 2, 1]"
  by (simp add: canonicalResponse_def mustHex_def hexVal_def)

lemma canonical_names:
  "namedAt canonicalResponse 12 23" "namedAt canonicalResponse 27 29"
proof -
  let ?m = "canonicalResponse"
  have v: "?m ! 12 = 4" "?m ! 17 = 4" "?m ! 22 = 0" "?m ! 27 = 0xc0" "?m ! 28 = 0x0c"
    by (simp_all add: doq_response_bytes)
  have l: "to_string (take 4 (drop 13 ?m)) = ''plab''" "to_string (take 4 (drop 18 ?m)) = ''test''"
    by (simp_all add: doq_response_bytes to_string_eq_iff of_string_def)
  have t: "pointerTarget 0xc0 0x0c = 12" by (simp add: pointerTarget_def)
  have "decodes ?m 22 [] (22 + 1) 0" by (rule decodes.Root) (simp_all add: v)
  then have "decodes ?m 17 [''test''] 23 (Suc 0)" using decodes.Label [of ?m 17 "[]" 23 0] by (simp add: v l)
  then have d: "decodes ?m 12 [''plab'', ''test''] 23 (Suc (Suc 0))"
    using decodes.Label [of ?m 12 "[''test'']" 23 "Suc 0"] by (simp add: v l)
  then have "decodes ?m 27 [''plab'', ''test''] 29 (Suc (Suc (Suc 0)))"
    using decodes.Pointer [of 27 ?m "[''plab'', ''test'']" 23 "Suc (Suc 0)"] by (simp add: v t)
  with d show "namedAt ?m 12 23" "namedAt ?m 27 29" by (auto simp: namedAt_def intro!: exI [of _ "[''plab'', ''test'']"])
qed

lemma canonical_answer: "answerMessage 0x8400 canonicalResponse"
  unfolding answerMessage_def
  by (intro conjI exI [of _ 23] exI [of _ 29])
    (simp_all add: canonical_names, simp_all add: doq_response_bytes be16_def be32_def answerRecord_def)

section \<open>The properties\<close>

text \<open>C20: The name parser of the DNS-over-QUIC executor terminates on every message without indexing
  outside it, and implements the reference: it returns a name and the offset after it exactly for the
  names that decode in fewer than 32 labels and pointers. Names with a pointer cycle, pointers or
  labels past the end and reserved label types are errors.\<close>

theorem readName_correct:
  "(\<exists>r. readName m off = Some r) \<and>
   (readName m off = Some (Inr (name, nxt)) \<longleftrightarrow>
      (\<exists>labels n. decodes m off labels nxt n \<and> n < 32 \<and> name = joinWith ''.'' labels @ ''.''))"
  using readName_total readName_iff by blast

text \<open>C21: No response crashes the DNS-over-QUIC executor: on every byte sequence the check of a
  response returns, and it accepts exactly the frames of 43-byte messages with the fixed header, the
  question type and class, the A record 192.0.2.1 and two names that read as plab.test.\<close>

theorem validateDNSFrame_exact:
  "\<exists>r. validateDNSFrame raw = Some r \<and>
     (r = Inr p \<longleftrightarrow> (\<exists>m. raw = frame m \<and> doqAnswer m \<and> p = acceptedProof raw m responseHash))"
proof (cases "length raw = 45 \<and> take 2 raw = be16 43")
  case True
  then have raw: "raw = frame (drop 2 raw)" "length (drop 2 raw) = 43"
    using append_take_drop_id [of 2 raw] by (auto simp: frame_def)
  moreover have "m = drop 2 raw" if "raw = frame m" for m using that by (simp add: frame_def)
  ultimately show ?thesis using validateDNSFrame_message [OF raw(2), of p] by metis
next
  case False
  then have "raw \<noteq> frame m" if "doqAnswer m" for m
  proof -
    have "length m = 43" using that by (simp add: doqAnswer_def)
    then have "length (frame m) = 45 \<and> take 2 (frame m) = be16 43" by (simp add: frame_def)
    with False show ?thesis by metis
  qed
  with validateDNSFrame_framing [of raw] False show ?thesis by auto
qed

text \<open>The labels of a name are not empty, so only two label sequences join to plab.test.\<close>

lemma decodes_labels: "decodes m off labels nxt n \<Longrightarrow> list_all (\<lambda>l. l \<noteq> []) labels"
proof (induction rule: decodes.induct)
  case (Label m off labels nxt n)
  have "0 < unat (m ! off)" using Label.hyps(1) by (simp add: unat_gt_0)
  moreover have "length (to_string (take (unat (m ! off)) (drop (off + 1) m))) = unat (m ! off)"
    using Label.hyps(3) by (simp add: to_string_def)
  ultimately show ?case using Label.IH
    by (metis (mono_tags, lifting) length_greater_0_conv list.pred_inject(2))
qed simp_all

lemma joined_name:
  assumes "list_all (\<lambda>l. l \<noteq> []) labels"
  shows "joinWith ''.'' labels = ''plab.test'' \<longleftrightarrow> labels \<in> {[''plab'', ''test''], [''plab.test'']}"
proof
  assume j: "joinWith ''.'' labels = ''plab.test''"
  show "labels \<in> {[''plab'', ''test''], [''plab.test'']}"
  proof (cases labels rule: list.exhaust [case_names Nil Cons])
    case (Cons a ls)
    show ?thesis
    proof (cases ls)
      case (Cons b r)
      with j \<open>labels = a # ls\<close> have "a @ ''.'' @ joinWith ''.'' (b # r) = ''plab.test''" by simp
      then have ab: "a = ''plab''" "joinWith ''.'' (b # r) = ''test''"
        by (auto simp: append_eq_Cons_conv simp del: joinWith.simps)
      then have "r = []" by (cases r) (auto simp: append_eq_Cons_conv)
      with ab Cons \<open>labels = a # ls\<close> show ?thesis by simp
    qed (use j Cons in simp)
  qed (use j in simp)
qed auto

text \<open>A response whose question is the single label plab.test, with a dot inside the label.\<close>

definition dottedResponse :: bytes where
  "dottedResponse = mustHex
    (''00008400000100010000000009706c61622e746573740000010001c00c00010001000000000004c0'' @
     ''000201'')"

lemma dotted_bytes:
  "dottedResponse =
    [0, 0, 0x84, 0, 0, 1, 0, 1, 0, 0, 0, 0, 9, 112, 108, 97, 98, 46, 116, 101, 115, 116, 0, 0, 1, 0, 1, 0xc0, 0x0c,
     0, 1, 0, 1, 0, 0, 0, 0, 0, 4, 192, 0, 2, 1]"
  by (simp add: dottedResponse_def mustHex_def hexVal_def)

lemma dotted_digest: "hash dottedResponse \<noteq> responseHash"
  unfolding dottedResponse_def responseHash_def
  by (subst doq_hash_mustHex [OF _ _ pad_43]) (simp_all only: sha_eval, simp_all add: hexOk_def hexVal_def)

lemma dotted_names:
  "decodes dottedResponse 12 [''plab.test''] 23 1" "decodes dottedResponse 27 [''plab.test''] 29 2"
proof -
  have r: "decodes dottedResponse 22 [] (22 + 1) 0" by (rule decodes.Root) (simp_all add: dotted_bytes)
  have l: "to_string (take 9 (drop 13 dottedResponse)) = ''plab.test''" by (simp add: dotted_bytes to_string_eq_iff of_string_def)
  have v: "dottedResponse ! 12 = 9" "dottedResponse ! 27 = 0xc0" "dottedResponse ! 28 = 0x0c" "length dottedResponse = 43"
    by (simp_all add: dotted_bytes)
  have t: "pointerTarget 0xc0 0x0c = 12" by (simp add: pointerTarget_def)
  show d: "decodes dottedResponse 12 [''plab.test''] 23 1"
    using decodes.Label [of dottedResponse 12 "[]" 23 0] r by (simp add: v l)
  show "decodes dottedResponse 27 [''plab.test''] 29 2"
    using decodes.Pointer [of 27 dottedResponse "[''plab.test'']" 23 1] d by (simp add: v t numeral_2_eq_2)
qed

lemma dotted_accepted:
  "validateDNSFrame (frame dottedResponse) = Some (Inr (acceptedProof (frame dottedResponse) dottedResponse responseHash))"
proof -
  have "namedAt dottedResponse 12 23" "namedAt dottedResponse (23 + 4) 29"
    using dotted_names by (auto simp: namedAt_def intro!: exI [of _ "[''plab.test'']"])
  then have "doqAnswer dottedResponse"
    unfolding doqAnswer_def answerMessage_def by (intro conjI exI [of _ 23] exI [of _ 29]) (simp_all add: dotted_bytes be16_def be32_def answerRecord_def)
  moreover from this have "length dottedResponse = 43" by (simp add: doqAnswer_def)
  ultimately show ?thesis
    using validateDNSFrame_message [of dottedResponse "acceptedProof (frame dottedResponse) dottedResponse responseHash"] by auto
qed

text \<open>C23: The check does not see labels: in any message, at any offset, a name reads as plab.test
  exactly when it decodes, in fewer than 32 steps, to the two labels plab and test or to the single label
  plab.test with a dot inside. The second kind passes the whole check: there is a response that asks for
  this other name and is accepted, and its proof states the digest of the fixture, which is not the
  digest of the message.\<close>

theorem accepted_labels:
  "(readName m off = Some (Inr (''plab.test.'', nxt)) \<longleftrightarrow>
      (\<exists>n. n < 32 \<and> (decodes m off [''plab'', ''test''] nxt n \<or> decodes m off [''plab.test''] nxt n))) \<and>
   (\<exists>r k n p. validateDNSFrame (frame r) = Some (Inr p) \<and> decodes r 12 [''plab.test''] k n \<and>
      p_ResponseNormalizedSHA256 p = responseHash \<and> hash r \<noteq> responseHash)"
proof
  have eq: "''plab.test.'' = joinWith ''.'' labels @ ''.'' \<longleftrightarrow> joinWith ''.'' labels = ''plab.test''" for labels
    using append_same_eq [of "joinWith ''.'' labels" "''.''" "''plab.test''"] by auto
  show "readName m off = Some (Inr (''plab.test.'', nxt)) \<longleftrightarrow>
      (\<exists>n. n < 32 \<and> (decodes m off [''plab'', ''test''] nxt n \<or> decodes m off [''plab.test''] nxt n))"
    unfolding readName_iff eq using joined_name [OF decodes_labels] by blast
  have "p_ResponseNormalizedSHA256 (acceptedProof (frame dottedResponse) dottedResponse responseHash) = responseHash"
    by (simp add: acceptedProof_def)
  with dotted_accepted dotted_names(1) dotted_digest
  show "\<exists>r k n p. validateDNSFrame (frame r) = Some (Inr p) \<and> decodes r 12 [''plab.test''] k n \<and>
      p_ResponseNormalizedSHA256 p = responseHash \<and> hash r \<noteq> responseHash" by blast
qed

end
