(* ===== verification/Doq_Executor.thy ===== *)
theory Doq_Executor
  imports Doq_Wire Go_Float
begin

text \<open>
  The DNS-over-QUIC executor of \<^verbatim>\<open>executors/go-dns-doq-executor/source/main.go\<close>: the scenario
  selection, the checks of the QUIC connection, one query per stream with its validity checks, the
  phases, the metrics, the pinned configuration and the command. QUIC, TLS and URL parsing are
  libraries: what their calls return is an argument. A panic is \<open>None\<close>, as in the wire checks.
\<close>

section \<open>Constants and the selected scenario\<close>

definition executorID :: string where "executorID = ''go-dns-doq-executor''"
definition executorVersion :: string where "executorVersion = ''0.2.2''"
definition loadGeneratorID :: string where "loadGeneratorID = ''go-quic-dns-load''"
definition loadGeneratorVersion :: string where "loadGeneratorVersion = ''0.2.2''"
definition strictScenario :: string where "strictScenario = ''dns.doq.query.a''"
definition interopScenario :: string where "interopScenario = ''dns.doq.interoperability.query.a''"
definition supportedProfile :: string where "supportedProfile = ''secure-dns-smoke''"
definition serverName :: string where "serverName = ''dns.plab.test''"
definition certificateProfile :: string where "certificateProfile = ''plab-secure-dns-single-leaf-p256-v1''"
definition strictTLSProfile :: string where "strictTLSProfile = ''plab-secure-dns-tls13-v1''"
definition interopTLSProfile :: string where "interopTLSProfile = ''plab-secure-dns-interoperability-v2''"
definition interopCertProfile :: string where
  "interopCertProfile = ''plab-secure-dns-interoperability-leaf-v2''"
definition requiredCipher :: string where "requiredCipher = ''TLS_AES_128_GCM_SHA256''"
definition leafDERHash :: string where
  "leafDERHash = ''b57bdd3eb90b36455900c17de9ff9a02c623e1f6b27626ad7821a40e35e8251c''"
definition leafSPKIHash :: string where
  "leafSPKIHash = ''cfa6d5d08ee2071e28fd96205b088156fa71b460262470e5b994624b0537cf25''"
definition doqALPN :: string where "doqALPN = ''doq''"

definition knownUnsupported :: "string list" where
  "knownUnsupported =
     [''dns.classic.tcp.query.a'', ''dns.classic.udp-truncated-tcp-retry'', ''dns.classic.udp.query.a'',
      ''dns.doh2.query.a'', ''dns.doh2.interoperability.query.a'', ''dns.doh3.get.a'', ''dns.doh3.query.a'',
      ''dns.doh3.interoperability.query.a'', ''dns.doh3.query.aaaa'', ''dns.doh3.query.cname-chain'',
      ''dns.doh3.query.large-dnssec-shaped'', ''dns.doh3.query.nodata'', ''dns.doh3.query.nxdomain'',
      ''dns.dot.query.a'', ''dns.dot.interoperability.query.a'']"

definition supportedScenarios :: "string list" where
  "supportedScenarios = [strictScenario, interopScenario]"

definition selectedScenario :: "env \<Rightarrow> string" where
  "selectedScenario getenv =
     (let i = trimSpace (getenv ''PLAB_SCENARIO_ID'') in if i = '''' then strictScenario else i)"

definition protocolVariant :: "env \<Rightarrow> string" where
  "protocolVariant getenv =
     (if selectedScenario getenv = interopScenario then ''doq-rfc9250-interoperability'' else ''dns-over-quic-v1'')"

definition tlsProfileID :: "env \<Rightarrow> string" where
  "tlsProfileID getenv =
     (if selectedScenario getenv = interopScenario then interopTLSProfile else strictTLSProfile)"

definition selectedCertificateProfile :: "env \<Rightarrow> string" where
  "selectedCertificateProfile getenv =
     (if selectedScenario getenv = interopScenario then interopCertProfile else certificateProfile)"

section \<open>The QUIC connection\<close>

text \<open>The first certificate of the peer with the names of its algorithms and of its curve (empty unless
  its key is an ECDSA key), and the state of a connection, with the library's names for its version
  and its cipher suite. The two provenance maps, which describe the machine, are left out.\<close>

record certificate =
  ct_Raw :: bytes
  ct_SPKI :: bytes
  ct_SignatureAlgorithm :: string
  ct_PublicKeyAlgorithm :: string
  ct_Curve :: string

record quic_state =
  qs_Version :: u32
  qs_VersionName :: string
  qs_TLSVersion :: u16
  qs_CipherSuite :: string
  qs_Protocol :: string
  qs_HandshakeComplete :: bool
  qs_DidResume :: bool
  qs_Used0RTT :: bool
  qs_DatagramsRemote :: bool
  qs_DatagramsLocal :: bool
  qs_Peers :: "certificate list"
  qs_VerifiedChains :: nat

record tls_proof =
  t_TLSProfileID :: string
  t_TLSVersion :: string
  t_CipherSuite :: string
  t_KeyExchangeGroup :: string
  t_SignatureScheme :: string
  t_ALPN :: string
  t_ServerName :: string
  t_HandshakeComplete :: bool
  t_DidResume :: bool
  t_EarlyDataAttempted :: bool
  t_CertificateProfile :: string
  t_CertificateDERSHA256 :: string
  t_CertificateSPKISHA256 :: string
  t_CertificateSignatureAlgorithm :: string
  t_CertificatePublicKeyAlgorithm :: string
  t_CertificateNamedCurve :: string
  t_VerifiedChainCount :: nat
  t_SentCertificateCount :: nat
  t_TrustAnchorSent :: bool
  t_ConnectionLatencyMilliseconds :: rat

record quic_proof =
  qp_Version :: string
  qp_VersionNumber :: u32
  qp_ALPN :: string
  qp_UsedZeroRTT :: bool
  qp_SupportsDatagrams :: bool
  qp_Binding :: string
  qp_ConnectionReused :: bool
  qp_ClientInitiatedBidiStreams :: bool

definition tlsVersionName :: "u16 \<Rightarrow> string" where
  "tlsVersionName v = (if v = 0x304 then ''TLS1.3'' else ''0x'' @ hexEncode (be16 v))"

definition observeTLS :: "env \<Rightarrow> quic_state \<Rightarrow> rat \<Rightarrow> tls_proof" where
  "observeTLS getenv st latency =
     (let p = \<lparr>t_TLSProfileID = tlsProfileID getenv, t_TLSVersion = tlsVersionName (qs_TLSVersion st),
         t_CipherSuite = qs_CipherSuite st, t_KeyExchangeGroup = ''X25519'',
         t_SignatureScheme = ''ecdsa_secp256r1_sha256'', t_ALPN = qs_Protocol st, t_ServerName = serverName,
         t_HandshakeComplete = qs_HandshakeComplete st, t_DidResume = qs_DidResume st,
         t_EarlyDataAttempted = qs_Used0RTT st, t_CertificateProfile = selectedCertificateProfile getenv,
         t_CertificateDERSHA256 = '''', t_CertificateSPKISHA256 = '''', t_CertificateSignatureAlgorithm = '''',
         t_CertificatePublicKeyAlgorithm = '''', t_CertificateNamedCurve = '''',
         t_VerifiedChainCount = qs_VerifiedChains st, t_SentCertificateCount = length (qs_Peers st),
         t_TrustAnchorSent = False, t_ConnectionLatencyMilliseconds = latency\<rparr> in
      case qs_Peers st of
        [] \<Rightarrow> p
      | cert # _ \<Rightarrow> p\<lparr>t_CertificateDERSHA256 := hash (ct_Raw cert), t_CertificateSPKISHA256 := hash (ct_SPKI cert),
          t_CertificateSignatureAlgorithm := ct_SignatureAlgorithm cert,
          t_CertificatePublicKeyAlgorithm := ct_PublicKeyAlgorithm cert, t_CertificateNamedCurve := ct_Curve cert\<rparr>)"

definition observeQUIC :: "quic_state \<Rightarrow> bool \<Rightarrow> quic_proof" where
  "observeQUIC st reused =
     \<lparr>qp_Version = qs_VersionName st, qp_VersionNumber = qs_Version st, qp_ALPN = qs_Protocol st,
      qp_UsedZeroRTT = qs_Used0RTT st, qp_SupportsDatagrams = (qs_DatagramsRemote st \<or> qs_DatagramsLocal st),
      qp_Binding = ''dns-over-quic-rfc9250'', qp_ConnectionReused = reused, qp_ClientInitiatedBidiStreams = True\<rparr>"

definition connectionFailures :: "quic_state \<Rightarrow> tls_proof \<Rightarrow> string list" where
  "connectionFailures st p =
     (if qs_Version st \<noteq> 1 \<or> qs_VersionName st \<noteq> ''v1'' then [''exact QUIC v1 was not negotiated''] else []) @
     (if qs_TLSVersion st \<noteq> 0x304 \<or> \<not> qs_HandshakeComplete st \<or> qs_DidResume st \<or> qs_Used0RTT st
      then [''exact fresh TLS 1.3 state mismatch''] else []) @
     (if qs_Protocol st \<noteq> doqALPN then [''DoQ ALPN mismatch''] else []) @
     (if t_CipherSuite p \<noteq> requiredCipher \<or> qs_VerifiedChains st = 0
      then [''cipher suite or certificate authentication mismatch''] else []) @
     (if t_CertificateDERSHA256 p \<noteq> leafDERHash \<or> t_CertificateSPKISHA256 p \<noteq> leafSPKIHash
      then [''certificate identity mismatch''] else [])"

definition validateConnection ::
  "env \<Rightarrow> quic_state \<Rightarrow> rat \<Rightarrow> bool \<Rightarrow> tls_proof \<times> quic_proof \<times> go_error option" where
  "validateConnection getenv st latency reused =
     (let tlsValue = observeTLS getenv st latency; quicValue = observeQUIC st reused;
          failures = connectionFailures st tlsValue in
      (tlsValue, quicValue, if failures \<noteq> [] then Some (Errorf (joinWith ''; '' failures)) else None))"

section \<open>One query\<close>

record stream_proof =
  sp_StreamID :: u64
  sp_StreamType :: string
  sp_Queries :: int
  sp_Responses :: int
  sp_ClientFinAfterQuery :: bool
  sp_ServerFinAfterResponse :: bool
  sp_UnexpectedReset :: bool
  sp_ProtocolErrorClose :: bool

record exchange_proof =
  e_DNS :: dns_proof
  e_TLS :: tls_proof
  e_QUIC :: quic_proof
  e_Stream :: stream_proof
  e_QueryLatencyMilliseconds :: rat
  e_TimeToFirstByteMilliseconds :: rat
  e_TransferredBytes :: int

definition durationMS :: "int \<Rightarrow> rat" where
  "durationMS ns = fdiv (f64 (of_int ns)) (10 ^ 6)"

text \<open>\<^verbatim>\<open>context.DeadlineExceeded\<close>, and the executor's own notion of a timeout.\<close>

definition deadlineExceeded :: go_error where
  "deadlineExceeded = NetError ''context deadline exceeded''"

definition isTimeoutErr :: "go_error \<Rightarrow> bool" where
  "isTimeoutErr e \<longleftrightarrow> errorsIs e deadlineExceeded \<or> isTimeout e"

definition firstError :: "go_error option \<Rightarrow> go_error \<Rightarrow> go_error" where
  "firstError err fallback = (case err of Some e \<Rightarrow> e | None \<Rightarrow> fallback)"

text \<open>What the stream of a query meets: opening it, its deadline, the write, ending the sending side,
  and, for the bytes that were written, the reads that return without an error and the last one, each
  with its bytes and the time since the start. The stream deadline makes a read return in the end.\<close>

record answer =
  a_reads :: "(bytes \<times> int) list"
  a_last :: "bytes \<times> int"
  a_end :: go_error

record exchange_env =
  x_open :: "go_error option"
  x_deadline :: "go_error option"
  x_write :: "bytes \<Rightarrow> nat \<times> go_error option"
  x_close :: "go_error option"
  x_answer :: "bytes \<Rightarrow> answer"
  x_expired :: bool
  x_streamID :: u64
  x_state :: quic_state
  x_nanos :: int

definition received :: "rat \<Rightarrow> bytes \<times> int \<Rightarrow> rat" where
  "received firstByte r =
     (case r of (buffer, t) \<Rightarrow> if buffer \<noteq> [] \<and> firstByte = 0 then durationMS t else firstByte)"

fun readLoop :: "(bytes \<times> int) list \<Rightarrow> bytes \<times> int \<Rightarrow> go_error \<Rightarrow> bool \<Rightarrow> rat \<Rightarrow> bytes \<Rightarrow> (rat \<times> bytes) go" where
  "readLoop [] final readErr expired firstByte response =
     (if errorsIs readErr EOF then Inr (received firstByte final, response @ fst final)
      else if errorsIs readErr deadlineExceeded \<or> expired then Inl deadlineExceeded
      else Inl readErr)"
| "readLoop (r # rs) final readErr expired firstByte response =
     (if length (response @ fst r) > 45 then Inl (Malformed ''DoQ response exceeded canonical bound'')
      else readLoop rs final readErr expired (received firstByte r) (response @ fst r))"

definition streamProofOf :: "u64 \<Rightarrow> stream_proof" where
  "streamProofOf i =
     \<lparr>sp_StreamID = i, sp_StreamType = ''client-initiated-bidirectional'', sp_Queries = 1, sp_Responses = 1,
      sp_ClientFinAfterQuery = True, sp_ServerFinAfterResponse = True, sp_UnexpectedReset = False,
      sp_ProtocolErrorClose = False\<rparr>"

definition exchange :: "env \<Rightarrow> exchange_env \<Rightarrow> bool \<Rightarrow> rat \<Rightarrow> exchange_proof go option" where
  "exchange getenv x reused latency =
     (case x_open x of
        Some e \<Rightarrow> Some (Inl e)
      | None \<Rightarrow> (case x_deadline x of
          Some e \<Rightarrow> Some (Inl e)
        | None \<Rightarrow>
            (let query = frame canonicalQuery in
             case x_write x query of (written, err) \<Rightarrow>
               if err \<noteq> None \<or> written \<noteq> length query then Some (Inl (firstError err ErrShortWrite))
               else (case x_close x of
                   Some e \<Rightarrow> Some (Inl e)
                 | None \<Rightarrow>
                     (let a = x_answer x query in
                      case readLoop (a_reads a) (a_last a) (a_end a) (x_expired x) 0 [] of
                        Inl e \<Rightarrow> Some (Inl e)
                      | Inr (firstByte, response) \<Rightarrow> do {
                          dnsValue \<leftarrow> validateDNSFrame response;
                          Some (case dnsValue of
                              Inl e \<Rightarrow> Inl e
                            | Inr dns \<Rightarrow>
                                (case validateConnection getenv (x_state x) latency reused of
                                   (tlsValue, quicValue, Some e) \<Rightarrow> Inl e
                                 | (tlsValue, quicValue, None) \<Rightarrow>
                                     Inr \<lparr>e_DNS = dns, e_TLS = tlsValue, e_QUIC = quicValue,
                                       e_Stream = streamProofOf (x_streamID x),
                                       e_QueryLatencyMilliseconds = durationMS (x_nanos x),
                                       e_TimeToFirstByteMilliseconds = firstByte,
                                       e_TransferredBytes = int (length query + length response)\<rparr>))
                        })))))"

section \<open>Phases\<close>

record summary =
  s_Phase :: string
  s_DurationSeconds :: rat
  s_CompletedOperations :: int
  s_MalformedOperations :: int
  s_RetryCount :: int
  s_FailedOperations :: int
  s_TimedOutOperations :: int
  s_TotalTransferredBytes :: int
  s_EffectiveConcurrency :: int
  s_EffectiveStreams :: int
  s_ActiveConnections :: int
  s_QueryLatencies :: "rat list"
  s_TimeToFirstByte :: "rat list"
  s_ConnectionLatencyMilliseconds :: rat
  s_LastProof :: "exchange_proof option"
  s_Errors :: "string \<rightharpoonup> nat"

definition recordProof :: "exchange_proof \<Rightarrow> summary \<Rightarrow> summary" where
  "recordProof p s =
     s\<lparr>s_CompletedOperations := s_CompletedOperations s + 1,
       s_TotalTransferredBytes := s_TotalTransferredBytes s + e_TransferredBytes p,
       s_QueryLatencies := s_QueryLatencies s @ [e_QueryLatencyMilliseconds p],
       s_TimeToFirstByte := s_TimeToFirstByte s @ [e_TimeToFirstByteMilliseconds p],
       s_LastProof := Some p\<rparr>"

definition classify :: "go_error \<Rightarrow> summary \<Rightarrow> summary" where
  "classify e s =
     (let s1 = (if asMalformed e then s\<lparr>s_MalformedOperations := s_MalformedOperations s + 1\<rparr>
        else if isTimeoutErr e then s\<lparr>s_TimedOutOperations := s_TimedOutOperations s + 1\<rparr>
        else s\<lparr>s_FailedOperations := s_FailedOperations s + 1\<rparr>) in
      s1\<lparr>s_Errors := (s_Errors s)(errorText e \<mapsto> (case s_Errors s (errorText e) of None \<Rightarrow> 1 | Some n \<Rightarrow> Suc n))\<rparr>)"

definition newSummary :: "bool \<Rightarrow> summary" where
  "newSummary once =
     \<lparr>s_Phase = (if once then ''preflight'' else ''measured''), s_DurationSeconds = 0, s_CompletedOperations = 0,
      s_MalformedOperations = 0, s_RetryCount = 0, s_FailedOperations = 0, s_TimedOutOperations = 0,
      s_TotalTransferredBytes = 0, s_EffectiveConcurrency = 1, s_EffectiveStreams = 1, s_ActiveConnections = 1,
      s_QueryLatencies = [], s_TimeToFirstByte = [], s_ConnectionLatencyMilliseconds = 0, s_LastProof = None,
      s_Errors = Map.empty\<rparr>"

type_synonym phase_run = "summary \<times> go_error option"

text \<open>The loop over the streams the deadline leaves time for.\<close>

fun phaseLoop :: "env \<Rightarrow> exchange_env list \<Rightarrow> summary \<Rightarrow> phase_run option" where
  "phaseLoop getenv [] s = Some (s, None)"
| "phaseLoop getenv (x # xs) s = do {
     r \<leftarrow> exchange getenv x True (s_ConnectionLatencyMilliseconds s);
     case r of Inl e \<Rightarrow> Some (classify e s, Some e) | Inr p \<Rightarrow> phaseLoop getenv xs (recordProof p s)
   }"

text \<open>What a phase meets: the dial with its time and the state it reaches, the first stream, the
  streams of the loop and the time the loop took.\<close>

record phase_env =
  ph_dial :: "go_error option"
  ph_nanos :: int
  ph_state :: quic_state
  ph_first :: exchange_env
  ph_streams :: "exchange_env list"
  ph_seconds :: rat

definition runPhase :: "env \<Rightarrow> phase_env \<Rightarrow> bool \<Rightarrow> phase_run option" where
  "runPhase getenv ph once =
     (case ph_dial ph of
        Some e \<Rightarrow> Some (classify e (newSummary once), Some e)
      | None \<Rightarrow>
          (let latency = durationMS (ph_nanos ph);
               s = (newSummary once)\<lparr>s_ConnectionLatencyMilliseconds := latency\<rparr> in
           case validateConnection getenv (ph_state ph) latency False of
             (_, _, Some e) \<Rightarrow> Some (classify e s, Some e)
           | (_, _, None) \<Rightarrow> do {
               first \<leftarrow> exchange getenv (ph_first ph) False latency;
               (case first of
                  Inl e \<Rightarrow> Some (classify e s, Some e)
                | Inr p \<Rightarrow>
                    if once
                    then Some ((recordProof p s)\<lparr>s_DurationSeconds := fdiv (e_QueryLatencyMilliseconds p) 1000\<rparr>, None)
                    else do {
                      (s1, err) \<leftarrow> phaseLoop getenv (ph_streams ph) s;
                      Some (case err of Some e \<Rightarrow> (s1, Some e)
                        | None \<Rightarrow> (s1\<lparr>s_DurationSeconds := ph_seconds ph\<rparr>, None))
                    })
             }))"

definition hasFailures :: "summary \<Rightarrow> bool" where
  "hasFailures s \<longleftrightarrow> s_MalformedOperations s \<noteq> 0 \<or> s_RetryCount s \<noteq> 0 \<or> s_FailedOperations s \<noteq> 0 \<or>
     s_TimedOutOperations s \<noteq> 0"

section \<open>Metrics and the result\<close>

fun sumFrom :: "rat \<Rightarrow> rat list \<Rightarrow> rat" where
  "sumFrom t [] = t"
| "sumFrom t (x # xs) = sumFrom (fadd t x) xs"

definition mean :: "rat list \<Rightarrow> rat" where
  "mean v = (if v = [] then 0 else fdiv (sumFrom 0 v) (f64 (of_nat (length v))))"

definition percentile :: "rat list \<Rightarrow> rat \<Rightarrow> rat" where
  "percentile values q =
     (if values = [] then 0
      else (let v = sort values; n = int (length v);
                i = \<lceil>fmul q (f64 (of_int n))\<rceil> - 1; j = (if i < 0 then 0 else i);
                k = (if j \<ge> n then n - 1 else j) in
            v ! nat k))"

record metric_set =
  m_QueriesPerSecond :: rat
  m_QueryLatencyMean :: rat
  m_QueryLatencyPercentiles :: "rat list"
  m_TimeToFirstByte :: rat
  m_ConnectionLatency :: rat
  m_CompletedOperations :: int
  m_MalformedOperations :: int
  m_RetryCount :: int
  m_FailedOperations :: int
  m_TimedOutOperations :: int
  m_TotalTransferredBytes :: int
  m_EffectiveConcurrency :: int
  m_EffectiveStreams :: int

record result =
  res_SchemaVersion :: string
  res_ScenarioID :: string
  res_LoadProfileID :: string
  res_Status :: string
  res_Executor :: "string \<times> string"
  res_LoadGenerator :: "string \<times> string"
  res_Variant :: string
  res_FallbackDetected :: bool
  res_Proof :: exchange_proof
  res_RequestedLoad :: "(string \<times> string) list"
  res_ActiveConnections :: int
  res_ActiveStreams :: int
  res_Metrics :: metric_set

text \<open>The percentiles 50, 75, 90, 95 and 99. Without a proof the fields of the nil pointer are read,
  which panics.\<close>

definition metricsOf :: "summary \<Rightarrow> metric_set" where
  "metricsOf s =
     \<lparr>m_QueriesPerSecond = fdiv (f64 (of_int (s_CompletedOperations s))) (s_DurationSeconds s),
      m_QueryLatencyMean = mean (s_QueryLatencies s),
      m_QueryLatencyPercentiles =
        map (\<lambda>q. percentile (s_QueryLatencies s) (f64 q)) [50 / 100, 75 / 100, 90 / 100, 95 / 100, 99 / 100],
      m_TimeToFirstByte = mean (s_TimeToFirstByte s), m_ConnectionLatency = s_ConnectionLatencyMilliseconds s,
      m_CompletedOperations = s_CompletedOperations s, m_MalformedOperations = s_MalformedOperations s,
      m_RetryCount = s_RetryCount s, m_FailedOperations = s_FailedOperations s,
      m_TimedOutOperations = s_TimedOutOperations s, m_TotalTransferredBytes = s_TotalTransferredBytes s,
      m_EffectiveConcurrency = s_EffectiveConcurrency s, m_EffectiveStreams = s_EffectiveStreams s\<rparr>"

definition normalizeResult :: "env \<Rightarrow> summary \<Rightarrow> (string \<times> string) list \<Rightarrow> result option" where
  "normalizeResult getenv s requested = do {
     p \<leftarrow> s_LastProof s;
     Some \<lparr>res_SchemaVersion = ''protocol-lab.dns-doq-executor-result.v1'', res_ScenarioID = selectedScenario getenv,
       res_LoadProfileID = supportedProfile, res_Status = ''passed'', res_Executor = (executorID, executorVersion),
       res_LoadGenerator = (loadGeneratorID, loadGeneratorVersion), res_Variant = protocolVariant getenv,
       res_FallbackDetected = False, res_Proof = p, res_RequestedLoad = requested,
       res_ActiveConnections = s_ActiveConnections s, res_ActiveStreams = s_EffectiveStreams s,
       res_Metrics = metricsOf s\<rparr>
   }"

record validation_doc =
  v_ScenarioID :: string
  v_FixtureID :: string
  v_Passed :: bool
  v_ObservedProtocol :: string
  v_Variant :: string
  v_FallbackDetected :: bool
  v_Completed :: int
  v_Malformed :: int
  v_Retries :: int
  v_Failed :: int
  v_TimedOut :: int
  v_Error :: string

definition observedProtocol :: "summary \<Rightarrow> string" where
  "observedProtocol s =
     (case s_LastProof s of
        None \<Rightarrow> ''''
      | Some p \<Rightarrow> if qp_Version (e_QUIC p) = ''v1'' \<and> t_ALPN (e_TLS p) = doqALPN \<and> p_Transport (e_DNS p) = ''doq''
          then ''doq'' else '''')"

definition errorString :: "go_error option \<Rightarrow> string" where
  "errorString err = (case err of None \<Rightarrow> '''' | Some e \<Rightarrow> errorText e)"

definition validationDocument :: "env \<Rightarrow> summary \<Rightarrow> go_error option \<Rightarrow> validation_doc" where
  "validationDocument getenv s err =
     \<lparr>v_ScenarioID = selectedScenario getenv, v_FixtureID = fixtureID, v_Passed = (err = None),
      v_ObservedProtocol = observedProtocol s, v_Variant = protocolVariant getenv,
      v_FallbackDetected = (observedProtocol s \<noteq> ''doq''),
      v_Completed = s_CompletedOperations s, v_Malformed = s_MalformedOperations s, v_Retries = s_RetryCount s,
      v_Failed = s_FailedOperations s, v_TimedOut = s_TimedOutOperations s, v_Error = errorString err\<rparr>"

section \<open>Identity, configuration and the command\<close>

text \<open>\<open>False\<close> is the mismatch that ends the process with code 2.\<close>

definition requireIdentity :: "env \<Rightarrow> string \<Rightarrow> string \<Rightarrow> bool" where
  "requireIdentity getenv variable expected \<longleftrightarrow> trimSpace (getenv variable) = expected"

datatype artifact =
    Unsupported string | ResultUnsupported string
  | ValidationJson validation_doc | ResultValidation validation_doc | WireSummary dns_proof
  | QuicSummary quic_proof stream_proof | TlsNegotiation tls_proof
  | ProtocolProof string string bool "exchange_proof option" | ExecutorIdentity string string "string list"
  | WarmupSummary summary | LoadSummary summary
  | LoadGeneratorIdentity "string \<times> string" | ExecutorResult result | ResultJson result

text \<open>The exit code of the check with what it writes, or none when it returns.\<close>

definition checkIdentityOrExit :: "env \<Rightarrow> (artifact list \<times> nat) option" where
  "checkIdentityOrExit getenv =
     (if \<not> (requireIdentity getenv ''PLAB_EXECUTOR_ID'' executorID \<and>
             requireIdentity getenv ''PLAB_EXECUTOR_VERSION'' executorVersion \<and>
             requireIdentity getenv ''PLAB_LOAD_GENERATOR_ID'' loadGeneratorID \<and>
             requireIdentity getenv ''PLAB_LOAD_GENERATOR_VERSION'' loadGeneratorVersion \<and>
             requireIdentity getenv ''PLAB_PROTOCOL'' ''doq'' \<and>
             requireIdentity getenv ''PLAB_PROTOCOL_VARIANT'' (protocolVariant getenv)) then Some ([], 2)
      else (let scenario = trimSpace (getenv ''PLAB_SCENARIO_ID'') in
        if scenario \<in> set supportedScenarios then None
        else if scenario \<in> set knownUnsupported then Some ([Unsupported scenario, ResultUnsupported scenario], 3)
        else Some ([], 2)))"

definition envInt :: "env \<Rightarrow> string \<Rightarrow> int" where
  "envInt getenv name = fst (atoi (trimSpace (getenv name)))"

definition loadConfig :: "env \<Rightarrow> (string \<times> string) list go" where
  "loadConfig getenv =
     (if trimSpace (getenv ''PLAB_LOAD_PROFILE_ID'') \<noteq> supportedProfile
      then Inl (Errorf (''supports load profile '' @ quoted supportedProfile @ '' only''))
      else if envInt getenv ''PLAB_CONNECTIONS'' \<noteq> 1 \<or> envInt getenv ''PLAB_CONCURRENCY'' \<noteq> 1 \<or>
        envInt getenv ''PLAB_STREAMS_PER_CONNECTION'' \<noteq> 1 \<or> envInt getenv ''PLAB_DURATION_SECONDS'' \<noteq> 5 \<or>
        envInt getenv ''PLAB_WARMUP_SECONDS'' \<noteq> 1 \<or> envInt getenv ''PLAB_REPETITION'' \<noteq> 1
      then Inl (Errorf ''secure-dns-smoke requires connections=1 concurrency=1 streams=1 duration=5 warmup=1 repetition=1'')
      else Inr [(''connections'', ''1''), (''concurrency'', ''1''), (''outstandingQueries'', ''1''),
        (''streamsPerConnection'', ''1''), (''connectionReuse'', ''reuse''), (''durationSeconds'', ''5''),
        (''warmupSeconds'', ''1''), (''repetition'', ''1''), (''queryTimeoutMilliseconds'', ''5000''), (''maxRetries'', ''0'')])"

text \<open>The parts of a parsed URL, and the check of \<^verbatim>\<open>net.SplitHostPort\<close>.\<close>

record parsed_url =
  u_Scheme :: string
  u_Host :: string
  u_Path :: string
  u_RawQuery :: string
  u_Fragment :: string

definition normalizeTarget ::
  "(string \<Rightarrow> parsed_url go) \<Rightarrow> (string \<Rightarrow> go_error option) \<Rightarrow> string \<Rightarrow> string go" where
  "normalizeTarget parse split value =
     (case parse (trimSpace value) of
        Inl e \<Rightarrow> Inl e
      | Inr u \<Rightarrow>
          if u_Scheme u \<noteq> ''doq'' \<or> u_Host u = '''' \<or> u_Path u \<noteq> '''' \<or> u_RawQuery u \<noteq> '''' \<or> u_Fragment u \<noteq> ''''
          then Inl (Errorf ''DoQ target must be an exact doq://host:port URL without path, query, or fragment'')
          else if split (u_Host u) \<noteq> None then Inl (Errorf ''DoQ target must include an explicit port'')
          else Inr (u_Host u))"

definition loadRoots :: "bytes go \<Rightarrow> (bytes \<Rightarrow> bool) \<Rightarrow> go_error option" where
  "loadRoots file parses =
     (case file of Inl e \<Rightarrow> Some e
      | Inr pem \<Rightarrow> if \<not> parses pem then Some (Errorf ''root PEM contained no certificate'') else None)"

text \<open>What one invocation writes, in order, and its exit code. Every \<^verbatim>\<open>writeRequired\<close> succeeds.\<close>

definition writeEvidence :: "env \<Rightarrow> summary \<Rightarrow> go_error option \<Rightarrow> artifact list" where
  "writeEvidence getenv s err =
     (let validation = validationDocument getenv s err in
      [ValidationJson validation, ResultValidation validation] @
      (case s_LastProof s of
         None \<Rightarrow> []
       | Some p \<Rightarrow> [WireSummary (e_DNS p), QuicSummary (e_QUIC p) (e_Stream p), TlsNegotiation (e_TLS p)]) @
      [ProtocolProof (observedProtocol s) (protocolVariant getenv) (observedProtocol s \<noteq> ''doq'') (s_LastProof s)])"

definition rejected :: "phase_run \<Rightarrow> bool" where
  "rejected r \<longleftrightarrow> snd r \<noteq> None \<or> s_CompletedOperations (fst r) = 0 \<or> hasFailures (fst r)"

definition runMain ::
  "env \<Rightarrow> string go \<Rightarrow> go_error option \<Rightarrow> bool \<Rightarrow> phase_env \<Rightarrow> phase_env \<Rightarrow> phase_env \<Rightarrow> (artifact list \<times> nat) option" where
  "runMain getenv address roots validationOnly pre warm load =
     (case checkIdentityOrExit getenv of
        Some r \<Rightarrow> Some r
      | None \<Rightarrow> (case address of
          Inl e \<Rightarrow> Some ([], 2)
        | Inr _ \<Rightarrow> (case roots of
            Some e \<Rightarrow> Some ([], 2)
          | None \<Rightarrow> do {
              preflight \<leftarrow> runPhase getenv pre True;
              let gate = writeEvidence getenv (fst preflight) (snd preflight) @
                [ExecutorIdentity executorID executorVersion [strictScenario, interopScenario]];
              if snd preflight \<noteq> None then Some (gate, 1)
              else if validationOnly then Some (gate, 0)
              else (case loadConfig getenv of
                  Inl e \<Rightarrow> Some (gate, 2)
                | Inr requested \<Rightarrow> do {
                    warmup \<leftarrow> runPhase getenv warm False;
                    let warmed = gate @ [WarmupSummary (fst warmup)];
                    if rejected warmup then Some (warmed, 1)
                    else do {
                      measured \<leftarrow> runPhase getenv load False;
                      let loaded = warmed @ [LoadSummary (fst measured)];
                      if rejected measured then Some (loaded, 1)
                      else do {
                        normalized \<leftarrow> normalizeResult getenv (fst measured) requested;
                        Some (loaded @ [LoadGeneratorIdentity (res_LoadGenerator normalized),
                          ExecutorResult normalized, ResultJson normalized], 0)
                      }
                    }
                  })
            })))"

end
