(* ===== verification/Secure_Dns_Phase.thy ===== *)
theory Secure_Dns_Phase
  imports Go_Base "HOL-Library.Monad_Syntax"
begin

text \<open>
  The measured loop the DNS-over-QUIC and DNS-over-HTTPS executors share in shape: one exchange per
  pass, whose error is classified and ends the loop and whose proof is recorded. The locale states what
  the summary of such an executor promises; its lemmas, on termination without a panic, on accounting
  and on a run of successes, are proved once and interpreted for each executor.
\<close>

locale phase_loop =
  fixes step :: "'x \<Rightarrow> 's \<Rightarrow> 'p go option"
    and loop :: "'x list \<Rightarrow> 's \<Rightarrow> ('s \<times> go_error option) option"
    and recorded :: "'p \<Rightarrow> 's \<Rightarrow> 's"
    and classified :: "go_error \<Rightarrow> 's \<Rightarrow> 's"
    and completed failures transferred :: "'s \<Rightarrow> int"
    and lastProof :: "'s \<Rightarrow> 'p option"
    and bytesOf :: "'p \<Rightarrow> int"
    and clean :: "'s \<Rightarrow> bool"
  assumes loop_Nil: "loop [] s = Some (s, None)"
    and loop_Cons: "loop (x # xs) s = step x s \<bind> (\<lambda>r. case r of
          Inl e \<Rightarrow> Some (classified e s, Some e) | Inr p \<Rightarrow> loop xs (recorded p s))"
    and step_total: "\<exists>r. step x s = Some r"
    and recorded_laws: "completed (recorded p s) = completed s + 1" "failures (recorded p s) = failures s"
      "transferred (recorded p s) = transferred s + bytesOf p" "lastProof (recorded p s) = Some p"
      "clean (recorded p s) = clean s"
    and classified_laws: "completed (classified e s) = completed s" "failures (classified e s) = failures s + 1"
      "transferred (classified e s) = transferred s" "lastProof (classified e s) = lastProof s"
begin

lemma loop_step:
  "(\<exists>e. step x s = Some (Inl e) \<and> loop (x # xs) s = Some (classified e s, Some e)) \<or>
   (\<exists>p. step x s = Some (Inr p) \<and> loop (x # xs) s = loop xs (recorded p s))"
proof -
  obtain r where "step x s = Some r" using step_total by blast
  then show ?thesis by (cases r) (auto simp: loop_Cons)
qed

lemma loop_total: "\<exists>s' err. loop xs s = Some (s', err)"
proof (induction xs arbitrary: s)
  case (Cons x xs)
  then show ?case using loop_step [of x s xs] by metis
qed (simp add: loop_Nil)

text \<open>Accounting: a phase adds its completed queries and at most one failure, exactly when it ends in an
  error; it has a proof as soon as it completed a query.\<close>

lemma loop_accounts:
  "loop xs s = Some (s', err) \<Longrightarrow>
     completed s \<le> completed s' \<and> completed s' \<le> completed s + int (length xs) \<and>
     failures s' = failures s + (if err = None then 0 else 1) \<and>
     (err = None \<longrightarrow> completed s' = completed s + int (length xs)) \<and>
     (completed s' = completed s \<and> lastProof s' = lastProof s \<or> lastProof s' \<noteq> None)"
proof (induction xs arbitrary: s)
  case (Cons x xs)
  from loop_step [of x s xs] show ?case
  proof (elim disjE exE conjE)
    fix p
    assume "step x s = Some (Inr p)" "loop (x # xs) s = loop xs (recorded p s)"
    with Cons.prems Cons.IH [of "recorded p s"] show ?thesis by (auto simp: recorded_laws)
  qed (use Cons.prems in \<open>auto simp: classified_laws\<close>)
qed (simp add: loop_Nil)

text \<open>A loop whose exchanges all succeed in the states with an invariant they keep.\<close>

lemma loop_keeps:
  assumes "\<And>x s. x \<in> set xs \<Longrightarrow> good s \<Longrightarrow> \<exists>p. step x s = Some (Inr p) \<and> P p \<and> good (recorded p s)"
    and "good s" "\<And>p. P p \<Longrightarrow> bytesOf p = k"
  shows "\<exists>s'. loop xs s = Some (s', None) \<and> good s' \<and> completed s' = completed s + int (length xs) \<and> failures s' = failures s \<and>
    transferred s' = transferred s + k * int (length xs) \<and>
    clean s' = clean s \<and> (if xs = [] then s' = s else \<exists>p. lastProof s' = Some p \<and> P p)"
  using assms(1,2)
proof (induction xs arbitrary: s)
  case (Cons x xs)
  obtain p where p: "step x s = Some (Inr p)" "P p" "good (recorded p s)" using Cons.prems(1) [of x s] Cons.prems(2) by auto
  obtain s' where s': "loop xs (recorded p s) = Some (s', None)" "good s'"
    "completed s' = completed s + int (length (x # xs))" "failures s' = failures s"
    "transferred s' = transferred s + k * int (length (x # xs))" "clean s' = clean s"
    "if xs = [] then s' = recorded p s else \<exists>p. lastProof s' = Some p \<and> P p"
    using Cons.IH [of "recorded p s"] Cons.prems(1) p(3) by (auto simp: recorded_laws assms(3) [OF p(2)] algebra_simps)
  have "loop (x # xs) s = Some (s', None)" using p(1) s'(1) by (simp add: loop_Cons)
  with s' p(2) show ?case by (auto simp: recorded_laws split: if_splits)
qed (simp add: loop_Nil)

lemma loop_succeeds:
  assumes "\<And>x s. x \<in> set xs \<Longrightarrow> \<exists>p. step x s = Some (Inr p) \<and> P p" "\<And>p. P p \<Longrightarrow> bytesOf p = k"
  shows "\<exists>s'. loop xs s = Some (s', None) \<and> completed s' = completed s + int (length xs) \<and> failures s' = failures s \<and>
    transferred s' = transferred s + k * int (length xs) \<and>
    clean s' = clean s \<and> (if xs = [] then s' = s else \<exists>p. lastProof s' = Some p \<and> P p)"
  using loop_keeps [of xs "\<lambda>_. True" P s k] assms by blast

end

end
