(* ===== verification/Doq_Interop.thy ===== *)
theory Doq_Interop
  imports Doq_Target Doq_Executor Lab_Certificates Secure_Dns_Phase
begin

text \<open>
  The DNS-over-QUIC executor in front of any network, and against the DNS-over-QUIC target. No run of
  the executor panics; an exchange it accepts received an acceptable answer; and its interface to a
  server (\<open>doq_server\<close>) is interpreted on the stream handler of the target, so every phase and run
  against the target succeeds, however the stream cuts the answer into pieces.
\<close>

section \<open>The executor never panics\<close>

lemma validateDNSFrame_total: "\<exists>r. validateDNSFrame raw = Some r"
proof (cases "length raw = 45 \<and> take 2 raw = be16 43")
  case True
  then have raw: "raw = Doq_Wire.frame (drop 2 raw)" "length (drop 2 raw) = 43"
    using append_take_drop_id [of 2 raw] by (auto simp: Doq_Wire.frame_def)
  then show ?thesis using validateDNSFrame_message [OF raw(2)] by metis
qed (use validateDNSFrame_framing in auto)

lemma exchange_total: "\<exists>r. exchange getenv x reused latency = Some r"
  using validateDNSFrame_total
  by (auto simp: exchange_def Let_def split: option.splits sum.splits prod.splits) (metis bind.bind_lunit)+

definition cleanPhase :: "summary \<Rightarrow> bool" where
  "cleanPhase s \<longleftrightarrow> s_MalformedOperations s = 0 \<and> s_RetryCount s = 0 \<and> s_FailedOperations s = 0 \<and>
     s_TimedOutOperations s = 0 \<and> s_Errors s = Map.empty"

definition failureCount :: "summary \<Rightarrow> int" where
  "failureCount s = s_MalformedOperations s + s_FailedOperations s + s_TimedOutOperations s"

lemma doq_summary_laws:
  "s_CompletedOperations (recordProof p s) = s_CompletedOperations s + 1" "failureCount (recordProof p s) = failureCount s"
  "s_TotalTransferredBytes (recordProof p s) = s_TotalTransferredBytes s + e_TransferredBytes p"
  "s_LastProof (recordProof p s) = Some p" "cleanPhase (recordProof p s) = cleanPhase s"
  "s_CompletedOperations (classify e s) = s_CompletedOperations s" "failureCount (classify e s) = failureCount s + 1"
  "s_TotalTransferredBytes (classify e s) = s_TotalTransferredBytes s" "s_LastProof (classify e s) = s_LastProof s"
  by (simp_all add: recordProof_def classify_def failureCount_def cleanPhase_def Let_def)

interpretation doq_loop: phase_loop "\<lambda>x s. exchange getenv x True (s_ConnectionLatencyMilliseconds s)" "phaseLoop getenv"
  recordProof classify s_CompletedOperations failureCount s_TotalTransferredBytes s_LastProof e_TransferredBytes cleanPhase
  for getenv
  by unfold_locales (simp_all add: exchange_total doq_summary_laws)

lemma runPhase_total: "\<exists>r. runPhase getenv ph once = Some r"
proof -
  obtain r where "exchange getenv (ph_first ph) False (durationMS (ph_nanos ph)) = Some r" using exchange_total by blast
  moreover obtain q where "phaseLoop getenv (ph_streams ph)
      ((newSummary once)\<lparr>s_ConnectionLatencyMilliseconds := durationMS (ph_nanos ph)\<rparr>) = Some q"
    using doq_loop.loop_total by blast
  ultimately show ?thesis
    by (cases r; cases q; cases "validateConnection getenv (ph_state ph) (durationMS (ph_nanos ph)) False")
      (auto simp: runPhase_def Let_def split: option.splits)
qed

lemma runPhase_proof:
  assumes "runPhase getenv ph False = Some r" "\<not> rejected r"
  shows "s_LastProof (fst r) \<noteq> None"
proof -
  let ?l = "durationMS (ph_nanos ph)"
  let ?s = "(newSummary False)\<lparr>s_ConnectionLatencyMilliseconds := ?l\<rparr>"
  obtain u where u: "exchange getenv (ph_first ph) False ?l = Some u" using exchange_total by blast
  obtain s' err where l: "phaseLoop getenv (ph_streams ph) ?s = Some (s', err)"
    using doq_loop.loop_total by blast
  have "snd r = None" "s_CompletedOperations (fst r) \<noteq> 0" using assms(2) by (auto simp: rejected_def)
  with assms(1) u l have "fst r = s'\<lparr>s_DurationSeconds := ph_seconds ph\<rparr>" "s_CompletedOperations s' \<noteq> 0"
    by (auto simp: runPhase_def Let_def split: option.splits prod.splits sum.splits)
  with doq_loop.loop_accounts [OF l] show ?thesis by (auto simp: newSummary_def)
qed

section \<open>What an accepted exchange received\<close>

definition receivedBytes :: "answer \<Rightarrow> bytes" where
  "receivedBytes a = concat (map fst (a_reads a)) @ fst (a_last a)"

lemma readLoop_Inr:
  "readLoop rs final e expired fb response = Inr (fb', out) \<Longrightarrow>
     errorsIs e EOF \<and> out = response @ concat (map fst rs) @ fst final"
proof (induction rs arbitrary: fb response)
  case (Cons r rs)
  then show ?case using Cons.IH [of "received fb r" "response @ fst r"] by (auto split: if_splits)
qed (auto split: if_splits)

lemma readLoop_EOF:
  "length (response @ concat (map fst rs)) \<le> 45 \<Longrightarrow>
     \<exists>fb'. readLoop rs final EOF expired fb response = Inr (fb', response @ concat (map fst rs) @ fst final)"
proof (induction rs arbitrary: fb response)
  case (Cons r rs)
  then show ?case using Cons.IH [of "response @ fst r" "received fb r"] by auto
qed simp

lemma validateConnection_ok:
  "snd (snd (validateConnection getenv st latency reused)) = None \<longleftrightarrow>
     connectionFailures st (observeTLS getenv st latency) = []"
  by (simp add: validateConnection_def Let_def)

section \<open>The interface to a server\<close>

text \<open>A server answers what it receives on a stream with bytes, and ends the stream or not. The
  executor relies on one that answers the framed query with the framed response and ends the stream,
  over a connection whose state passes the checks.\<close>

type_synonym doq_serve = "bytes \<Rightarrow> bytes \<times> bool"

definition delivers :: "doq_serve \<Rightarrow> bytes \<Rightarrow> answer \<Rightarrow> bool" where
  "delivers serve written a \<longleftrightarrow> receivedBytes a = fst (serve written) \<and> (a_end a = EOF \<longleftrightarrow> snd (serve written))"

definition openStream :: "doq_serve \<Rightarrow> quic_state \<Rightarrow> exchange_env \<Rightarrow> bool" where
  "openStream serve st x \<longleftrightarrow> x_open x = None \<and> x_deadline x = None \<and> x_close x = None \<and> x_state x = st \<and>
     x_write x (Doq_Wire.frame Doq_Wire.canonicalQuery) = (29, None) \<and>
     delivers serve (Doq_Wire.frame Doq_Wire.canonicalQuery) (x_answer x (Doq_Wire.frame Doq_Wire.canonicalQuery))"

definition provenExchange :: "exchange_proof \<Rightarrow> bool" where
  "provenExchange p \<longleftrightarrow> e_TransferredBytes p = 74 \<and> p_Answer (e_DNS p) = ''192.0.2.1'' \<and>
     \<not> p_ResponseCompressionDiffered (e_DNS p) \<and> p_ResponseNormalizedSHA256 (e_DNS p) = Doq_Wire.hash Doq_Wire.canonicalResponse"

lemma canonical_accepted:
  "validateDNSFrame (Doq_Wire.frame Doq_Wire.canonicalResponse) =
     Some (Inr (acceptedProof (Doq_Wire.frame Doq_Wire.canonicalResponse) Doq_Wire.canonicalResponse responseHash))"
  using validateDNSFrame_message [of Doq_Wire.canonicalResponse
      "acceptedProof (Doq_Wire.frame Doq_Wire.canonicalResponse) Doq_Wire.canonicalResponse responseHash"] canonical_answer
  by (auto simp: doqAnswer_def)

locale doq_server =
  fixes serve :: doq_serve and st :: quic_state
  assumes answers: "serve (Doq_Wire.frame Doq_Wire.canonicalQuery) = (Doq_Wire.frame Doq_Wire.canonicalResponse, True)"
    and session: "connectionFailures st (observeTLS getenv st latency) = []"
begin

lemma exchange_answered:
  assumes "openStream serve st x"
  shows "\<exists>p. exchange getenv x reused latency = Some (Inr p) \<and> provenExchange p"
proof -
  let ?q = "Doq_Wire.frame Doq_Wire.canonicalQuery" and ?r = "Doq_Wire.frame Doq_Wire.canonicalResponse"
  let ?a = "x_answer x ?q"
  have l: "length ?q = 29" "length ?r = 45" by (simp_all add: Doq_Wire.frame_def)
  have a: "receivedBytes ?a = ?r" "a_end ?a = EOF" using assms answers by (auto simp: openStream_def delivers_def)
  then have "length (concat (map fst (a_reads ?a))) \<le> 45" using l(2) by (simp add: receivedBytes_def flip: a(1))
  then obtain fb where r: "readLoop (a_reads ?a) (a_last ?a) EOF (x_expired x) 0 [] = Inr (fb, ?r)"
    using readLoop_EOF [of "[]" "a_reads ?a" "a_last ?a" "x_expired x" 0] a(1) by (auto simp: receivedBytes_def)
  obtain tv qv where v: "validateConnection getenv st latency reused = (tv, qv, None)"
    using validateConnection_ok [of getenv st latency reused] session by (metis prod.collapse)
  show ?thesis
    using assms l a(2) r v
    by (simp add: exchange_def openStream_def Let_def canonical_accepted provenExchange_def acceptedProof_def doq_response_digest)
qed

definition servedPhase :: "phase_env \<Rightarrow> bool" where
  "servedPhase ph \<longleftrightarrow> ph_dial ph = None \<and> ph_state ph = st \<and> list_all (openStream serve st) (ph_first ph # ph_streams ph)"

lemma phase_answered:
  assumes "servedPhase ph"
  shows "\<exists>s. runPhase getenv ph False = Some (s, None) \<and> cleanPhase s \<and>
    s_CompletedOperations s = int (length (ph_streams ph)) \<and> s_TotalTransferredBytes s = 74 * int (length (ph_streams ph)) \<and>
    (ph_streams ph \<noteq> [] \<longrightarrow> (\<exists>p. s_LastProof s = Some p \<and> provenExchange p))"
proof -
  let ?l = "durationMS (ph_nanos ph)"
  let ?s = "(newSummary False)\<lparr>s_ConnectionLatencyMilliseconds := ?l\<rparr>"
  have c: "cleanPhase ?s" by (simp add: newSummary_def cleanPhase_def)
  have b: "e_TransferredBytes p = 74" if "provenExchange p" for p using that by (simp add: provenExchange_def)
  have streams: "\<exists>p. exchange getenv x True (s_ConnectionLatencyMilliseconds s) = Some (Inr p) \<and> provenExchange p"
    if "x \<in> set (ph_streams ph)" for x s
    using that assms exchange_answered by (auto simp: servedPhase_def list_all_iff)
  obtain tv qv where v: "validateConnection getenv st ?l False = (tv, qv, None)"
    using validateConnection_ok [of getenv st ?l False] session by (metis prod.collapse)
  obtain p where p: "exchange getenv (ph_first ph) False ?l = Some (Inr p)"
    using exchange_answered assms by (fastforce simp: servedPhase_def)
  obtain s' where "phaseLoop getenv (ph_streams ph) ?s = Some (s', None)" "cleanPhase s'"
    "s_CompletedOperations s' = s_CompletedOperations ?s + int (length (ph_streams ph))"
    "s_TotalTransferredBytes s' = s_TotalTransferredBytes ?s + 74 * int (length (ph_streams ph))"
    "if ph_streams ph = [] then s' = ?s else \<exists>p. s_LastProof s' = Some p \<and> provenExchange p"
    using doq_loop.loop_succeeds [of "ph_streams ph" getenv provenExchange 74 ?s] streams b c by blast
  with assms v p show ?thesis
    by (auto simp: runPhase_def servedPhase_def Let_def cleanPhase_def newSummary_def split: if_splits)
qed

lemma preflight_answered:
  assumes "servedPhase ph"
  shows "\<exists>s. runPhase getenv ph True = Some (s, None)"
proof -
  let ?l = "durationMS (ph_nanos ph)"
  obtain tv qv where v: "validateConnection getenv st ?l False = (tv, qv, None)"
    using validateConnection_ok [of getenv st ?l False] session by (metis prod.collapse)
  obtain p where "exchange getenv (ph_first ph) False ?l = Some (Inr p)"
    using exchange_answered assms by (fastforce simp: servedPhase_def)
  with assms v show ?thesis by (auto simp: runPhase_def servedPhase_def Let_def)
qed

end

section \<open>The target as a server\<close>

text \<open>The two packages have their own copies of the fixtures; they agree.\<close>

lemma doq_agree:
  "Doq_Target.frame = Doq_Wire.frame" "Doq_Target.canonicalQuery = Doq_Wire.canonicalQuery"
  "Doq_Target.canonicalResponse = Doq_Wire.canonicalResponse"
  by (simp_all add: fun_eq_iff Doq_Target.frame_def Doq_Wire.frame_def Doq_Target.canonicalQuery_def
      Doq_Wire.canonicalQuery_def Doq_Target.canonicalResponse_def Doq_Wire.canonicalResponse_def
      Doq_Target.mustHex_def Doq_Wire.mustHex_def del: doq_lengths doq_target_lengths)

text \<open>What the client writes and ends is the stream the handler of the target reads; its calls
  succeed. It ends the stream when the handler finishes, and resets it when the connection is closed.\<close>

definition acceptedStream :: "bytes \<Rightarrow> doq_stream" where
  "acceptedStream written =
     \<lparr>ds_deadline = None, ds_conn = \<lparr>conn_in = written, conn_end = EOF, conn_out = [], conn_cap = None\<rparr>, ds_close = None\<rparr>"

definition targetServe :: doq_serve where
  "targetServe written = (case handleStream (acceptedStream written) of (c, e) \<Rightarrow> (concat (conn_out c), e = Finished))"

definition shippedCertificate :: certificate where
  "shippedCertificate = \<lparr>ct_Raw = dotLeaf, ct_SPKI = dotLeafKey, ct_SignatureAlgorithm = ''ECDSA-SHA256'',
     ct_PublicKeyAlgorithm = ''ECDSA'', ct_Curve = ''P-256''\<rparr>"

definition fullSession :: quic_state where
  "fullSession = \<lparr>qs_Version = 1, qs_VersionName = ''v1'', qs_TLSVersion = 0x304,
     qs_CipherSuite = ''TLS_AES_128_GCM_SHA256'', qs_Protocol = ''doq'', qs_HandshakeComplete = True,
     qs_DidResume = False, qs_Used0RTT = False, qs_DatagramsRemote = False, qs_DatagramsLocal = False,
     qs_Peers = [shippedCertificate], qs_VerifiedChains = 1\<rparr>"

lemma targetServe_answers:
  "targetServe (Doq_Wire.frame Doq_Wire.canonicalQuery) = (Doq_Wire.frame Doq_Wire.canonicalResponse, True)"
proof -
  let ?s = "acceptedStream (Doq_Wire.frame Doq_Wire.canonicalQuery)"
  obtain c e where h: "handleStream ?s = (c, e)" by force
  have l: "length (Doq_Wire.frame Doq_Wire.canonicalQuery) = 29" by (simp add: Doq_Wire.frame_def)
  have "validateRequestFrame (Doq_Wire.frame Doq_Wire.canonicalQuery) = None"
    by (simp add: validateRequestFrame_iff doq_agree)
  with l show ?thesis
    by (simp add: targetServe_def handleStream_def acceptedStream_def readAllLimited_def connWrite_def doq_agree)
qed

lemma doq_session_valid: "connectionFailures fullSession (observeTLS getenv fullSession latency) = []"
  by (simp add: connectionFailures_def observeTLS_def fullSession_def shippedCertificate_def Let_def requiredCipher_def
      Doq_Executor.doqALPN_def Doq_Wire.hash_def dotLeaf_digest dotLeafKey_digest leafDERHash_def leafSPKIHash_def)

interpretation doq_target: doq_server targetServe fullSession
  by unfold_locales (simp_all add: targetServe_answers doq_session_valid)

section \<open>The properties\<close>

text \<open>C19: A run of the DNS-over-QUIC command against the target passes. When the selection and the
  load profile are accepted, the three connections reach the full session with the certificate of the
  lab, and every stream is served by the handler of the target, whatever pieces its answer arrives in,
  the exit code is 0 and the result counts exactly the streams of the measured loop with 74 bytes each
  and no malformed, retried, failed or timed-out operation; the warm-up stream that opens each phase is
  not counted.\<close>

theorem doq_run_interop:
  assumes "checkIdentityOrExit getenv = None" "loadConfig getenv = Inr requested"
    and "\<And>ph. ph \<in> {pre, warm, load} \<Longrightarrow> ph_dial ph = None \<and> ph_state ph = fullSession \<and>
      list_all (openStream targetServe fullSession) (ph_first ph # ph_streams ph)"
    and "ph_streams warm \<noteq> []" "ph_streams load \<noteq> []"
  shows "\<exists>res written. runMain getenv (Inr address) None False pre warm load = Some (written @ [ResultJson res], 0) \<and>
    res_Status res = ''passed'' \<and> provenExchange (res_Proof res) \<and>
    m_CompletedOperations (res_Metrics res) = int (length (ph_streams load)) \<and>
    m_TotalTransferredBytes (res_Metrics res) = 74 * int (length (ph_streams load)) \<and>
    m_MalformedOperations (res_Metrics res) = 0 \<and> m_RetryCount (res_Metrics res) = 0 \<and>
    m_FailedOperations (res_Metrics res) = 0 \<and> m_TimedOutOperations (res_Metrics res) = 0"
proof -
  have served: "doq_target.servedPhase pre" "doq_target.servedPhase warm" "doq_target.servedPhase load"
    unfolding doq_target.servedPhase_def by (rule assms(3), blast)+
  obtain s0 where a: "runPhase getenv pre True = Some (s0, None)"
    using doq_target.preflight_answered [OF served(1)] by blast
  obtain s1 where b: "runPhase getenv warm False = Some (s1, None)" "cleanPhase s1"
      "s_CompletedOperations s1 = int (length (ph_streams warm))"
    using doq_target.phase_answered [OF served(2)] by blast
  obtain s2 p where m: "runPhase getenv load False = Some (s2, None)" "cleanPhase s2" "s_LastProof s2 = Some p"
      "provenExchange p" "s_CompletedOperations s2 = int (length (ph_streams load))"
      "s_TotalTransferredBytes s2 = 74 * int (length (ph_streams load))"
    using doq_target.phase_answered [OF served(3)] assms(5) by blast
  have ok: "rejected (s1, None) = False" "rejected (s2, None) = False"
    using b m assms(4,5) by (simp_all add: rejected_def hasFailures_def cleanPhase_def)
  obtain res where n: "normalizeResult getenv s2 requested = Some res" "res_Status res = ''passed''" "res_Proof res = p"
      "res_Metrics res = metricsOf s2"
    using m(3) by (simp add: normalizeResult_def)
  have "\<exists>written. runMain getenv (Inr address) None False pre warm load = Some (written @ [ResultJson res], 0)"
    unfolding runMain_def assms(1,2) option.case sum.case a b(1) m(1) Option.bind.simps Let_def fst_conv snd_conv ok n(1) if_False
    by simp
  with n m show ?thesis by (auto simp: metricsOf_def cleanPhase_def)
qed

text \<open>Whatever a server sends and whatever the connection does, a query the DNS-over-QUIC executor
  counts was written in full and ended, the stream was ended by the peer with an acceptable answer and
  nothing else, and the connection passed every check of version, freshness, protocol, cipher suite,
  authentication and certificate.\<close>

theorem doq_exchange_sound:
  assumes "exchange getenv x reused latency = Some (Inr p)"
  shows "\<exists>m. receivedBytes (x_answer x (Doq_Wire.frame Doq_Wire.canonicalQuery)) = Doq_Wire.frame m \<and> doqAnswer m \<and>
    errorsIs (a_end (x_answer x (Doq_Wire.frame Doq_Wire.canonicalQuery))) EOF \<and>
    x_write x (Doq_Wire.frame Doq_Wire.canonicalQuery) = (29, None) \<and> x_close x = None \<and>
    e_TransferredBytes p = 74 \<and> connectionFailures (x_state x) (observeTLS getenv (x_state x) latency) = []"
proof -
  let ?q = "Doq_Wire.frame Doq_Wire.canonicalQuery"
  let ?a = "x_answer x ?q"
  have l: "length ?q = 29" by (simp add: Doq_Wire.frame_def)
  obtain tv qv ve where v: "validateConnection getenv (x_state x) latency reused = (tv, qv, ve)" by (metis prod_cases3)
  from assms l obtain fb response where
    x: "x_write x ?q = (29, None)" "x_close x = None"
      "readLoop (a_reads ?a) (a_last ?a) (a_end ?a) (x_expired x) 0 [] = Inr (fb, response)"
    by (auto simp: exchange_def Let_def split: option.splits sum.splits prod.splits if_splits)
  obtain y where y: "validateDNSFrame response = Some y" using validateDNSFrame_total by blast
  from assms l x y v obtain dns where
    z: "validateDNSFrame response = Some (Inr dns)" "ve = None" "e_TransferredBytes p = int (29 + length response)"
    by (cases y; cases ve) (auto simp: exchange_def Let_def split: option.splits if_splits)
  have r: "response = receivedBytes ?a" "errorsIs (a_end ?a) EOF" using readLoop_Inr [OF x(3)] by (simp_all add: receivedBytes_def)
  have f: "length response = 45 \<and> take 2 response = be16 43"
    using z(1) validateDNSFrame_framing [of response] by auto
  then have raw: "response = Doq_Wire.frame (drop 2 response)" "length (drop 2 response) = 43"
    using append_take_drop_id [of 2 response] by (auto simp: Doq_Wire.frame_def)
  then have "doqAnswer (drop 2 response)"
    using validateDNSFrame_message [OF raw(2), of dns] z(1) by (metis option.inject)
  moreover have "connectionFailures (x_state x) (observeTLS getenv (x_state x) latency) = []"
    using validateConnection_ok [of getenv "x_state x" latency reused] v z(2) by simp
  ultimately show ?thesis using raw f r x z(3) by (intro exI [of _ "drop 2 response"]) auto
qed

text \<open>C22: The DNS-over-QUIC command always ends with an exit code: no environment, server, library
  error or byte sequence makes it panic. The parser never leaves the message, and the proof that the
  result dereferences is there whenever a measured phase is accepted.\<close>

theorem doq_main_returns:
  "\<exists>written code. runMain getenv address roots validationOnly pre warm load = Some (written, code) \<and> code \<in> {0, 1, 2, 3}"
proof -
  obtain s0 e0 where a: "runPhase getenv pre True = Some (s0, e0)" using runPhase_total [of getenv pre True] by auto
  obtain r1 where b: "runPhase getenv warm False = Some r1" using runPhase_total by blast
  obtain r2 where m: "runPhase getenv load False = Some r2" using runPhase_total by blast
  have n: "\<exists>res. normalizeResult getenv (fst r2) requested = Some res" if "\<not> rejected r2" for requested
    using runPhase_proof [OF m that] by (auto simp: normalizeResult_def)
  have i: "code \<in> {2, 3}" if "checkIdentityOrExit getenv = Some (written, code)" for written code
    using that by (auto simp: checkIdentityOrExit_def Let_def split: if_splits)
  show ?thesis
  proof (cases "checkIdentityOrExit getenv")
    case (Some r)
    with i show ?thesis by (cases r) (auto simp: runMain_def)
  next
    case None
    have p: "\<exists>written code. runMain getenv (Inr ad) None validationOnly pre warm load = Some (written, code) \<and> code \<in> {0, 1, 2, 3}" for ad
    proof (cases "loadConfig getenv")
      case (Inl e)
      then show ?thesis unfolding runMain_def None option.case sum.case a Option.bind.simps Let_def by simp
    next
      case (Inr requested)
      show ?thesis unfolding runMain_def None Inr option.case sum.case a b m Option.bind.simps Let_def
        using n [of requested] by auto
    qed
    with None show ?thesis by (cases address; cases roots) (simp_all add: runMain_def)
  qed
qed

section \<open>A concrete run\<close>

text \<open>An answer that arrives byte by byte, with the end of the stream in a read of its own.\<close>

definition bytewise :: "bytes \<Rightarrow> answer" where
  "bytewise written =
     \<lparr>a_reads = map (\<lambda>b. ([b], 150000)) (fst (targetServe written)), a_last = ([], 160000), a_end = EOF\<rparr>"

definition sampleStream :: exchange_env where
  "sampleStream = \<lparr>x_open = None, x_deadline = None, x_write = (\<lambda>b. (length b, None)), x_close = None,
     x_answer = bytewise, x_expired = False, x_streamID = 4, x_state = fullSession, x_nanos = 200000\<rparr>"

definition samplePhase :: "nat \<Rightarrow> phase_env" where
  "samplePhase n = \<lparr>ph_dial = None, ph_nanos = 3000000, ph_state = fullSession, ph_first = sampleStream,
     ph_streams = replicate n sampleStream, ph_seconds = 5\<rparr>"

definition smokeEnv :: env where
  "smokeEnv name =
     (case map_of [(''PLAB_EXECUTOR_ID'', executorID), (''PLAB_EXECUTOR_VERSION'', executorVersion),
        (''PLAB_LOAD_GENERATOR_ID'', loadGeneratorID), (''PLAB_LOAD_GENERATOR_VERSION'', loadGeneratorVersion),
        (''PLAB_PROTOCOL'', ''doq''), (''PLAB_PROTOCOL_VARIANT'', ''dns-over-quic-v1''), (''PLAB_SCENARIO_ID'', strictScenario),
        (''PLAB_LOAD_PROFILE_ID'', ''secure-dns-smoke''), (''PLAB_CONNECTIONS'', ''1''), (''PLAB_CONCURRENCY'', ''1''),
        (''PLAB_STREAMS_PER_CONNECTION'', ''1''), (''PLAB_DURATION_SECONDS'', ''5''), (''PLAB_WARMUP_SECONDS'', ''1''),
        (''PLAB_REPETITION'', ''1'')] name of
        None \<Rightarrow> '''' | Some v \<Rightarrow> v)"

lemma sampleStream_open: "openStream targetServe fullSession sampleStream"
proof -
  have "concat (map (\<lambda>b. [b]) xs) = xs" for xs :: bytes by (induction xs) simp_all
  then show ?thesis
    by (simp add: openStream_def sampleStream_def delivers_def receivedBytes_def bytewise_def targetServe_answers o_def)
      (simp add: Doq_Wire.frame_def)
qed

lemma samplePhase_served:
  "ph_dial (samplePhase n) = None \<and> ph_state (samplePhase n) = fullSession \<and>
     list_all (openStream targetServe fullSession) (ph_first (samplePhase n) # ph_streams (samplePhase n))"
  using sampleStream_open by (simp add: samplePhase_def list_all_iff)

lemma doq_env_accepted: "checkIdentityOrExit smokeEnv = None" "\<exists>r. loadConfig smokeEnv = Inr r"
proof -
  have t: "trimSpace v = v" if "v \<in> {executorID, executorVersion, loadGeneratorID, loadGeneratorVersion, strictScenario}" for v
    using that by (auto simp: executorID_def executorVersion_def loadGeneratorID_def loadGeneratorVersion_def strictScenario_def
        trimSpace_def isSpace_def)
  have s: "selectedScenario smokeEnv = strictScenario"
    using t by (simp add: selectedScenario_def smokeEnv_def)
  have "protocolVariant smokeEnv = ''dns-over-quic-v1''"
    by (simp add: protocolVariant_def s) (simp add: strictScenario_def interopScenario_def)
  then show "checkIdentityOrExit smokeEnv = None"
    by (simp add: checkIdentityOrExit_def requireIdentity_def smokeEnv_def t supportedScenarios_def Let_def)
      (simp add: trimSpace_def isSpace_def)
  show "\<exists>r. loadConfig smokeEnv = Inr r"
    by (simp add: loadConfig_def smokeEnv_def trimSpace_def isSpace_def supportedProfile_def envInt_def atoi_def parseSigned_def)
qed

theorem doq_run_interop_witness:
  "\<exists>res written. runMain smokeEnv (Inr ''127.0.0.1:18532'') None False (samplePhase 0) (samplePhase 1) (samplePhase 3) =
      Some (written @ [ResultJson res], 0) \<and> m_CompletedOperations (res_Metrics res) = 3 \<and>
    m_TotalTransferredBytes (res_Metrics res) = 222"
proof -
  obtain r where r: "loadConfig smokeEnv = Inr r" using doq_env_accepted(2) by blast
  have p: "ph_dial ph = None \<and> ph_state ph = fullSession \<and> list_all (openStream targetServe fullSession) (ph_first ph # ph_streams ph)"
    if "ph \<in> {samplePhase 0, samplePhase 1, samplePhase 3}" for ph
  proof -
    from that obtain n where "ph = samplePhase n" by blast
    then show ?thesis using samplePhase_served [of n] by simp
  qed
  have n: "ph_streams (samplePhase 1) \<noteq> []" "ph_streams (samplePhase 3) \<noteq> []" "length (ph_streams (samplePhase 3)) = 3"
    by (simp_all add: samplePhase_def)
  from doq_run_interop [where address = "''127.0.0.1:18532''" and pre = "samplePhase 0", OF doq_env_accepted(1) r p n(1,2)] n(3)
  show ?thesis by fastforce
qed

theorem doq_exchange_sound_witness:
  "\<exists>p m. exchange smokeEnv sampleStream True 3 = Some (Inr p) \<and> doqAnswer m \<and> e_TransferredBytes p = 74 \<and>
     receivedBytes (bytewise (Doq_Wire.frame Doq_Wire.canonicalQuery)) = Doq_Wire.frame m"
proof -
  obtain p where p: "exchange smokeEnv sampleStream True 3 = Some (Inr p)"
    using doq_target.exchange_answered [OF sampleStream_open] by blast
  from doq_exchange_sound [OF p] p show ?thesis by (auto simp: sampleStream_def)
qed

end
