(* ===== verification/Doh2_Target.thy ===== *)
theory Doh2_Target
  imports Go_Http2 Go_Sha256
begin

text \<open>
  The DNS-over-HTTPS target of \<^verbatim>\<open>implementations/go-dns-doh2/source/main.go\<close>: the request handler,
  which checks the connection, the request line, the headers and the digest of the body in this order
  and answers with the fixture response. HTTP/2 itself is \<^verbatim>\<open>net/http\<close>'s.
\<close>

definition queryHash :: string where
  "queryHash = ''c46b9fb76019b5a644d0884b17e816cb7c3076275d9468c27d180f70488eb8ec''"

definition mediaType :: string where "mediaType = ''application/dns-message''"

definition mustHex :: "string \<Rightarrow> bytes" where
  \<comment> \<open>an undecodable constant panics while the package is initialised\<close>
  "mustHex v = (case hexDecode v of Some b \<Rightarrow> b | None \<Rightarrow> [])"

definition canonicalResponse :: bytes where
  "canonicalResponse = mustHex
    (''00008400000100010000000004706c616204746573740000010001c00c00010001000000000004c0'' @
     ''000201'')"

definition digest :: "bytes \<Rightarrow> bytes" where "digest v = sha256Sum v"

definition sha256HexText :: "bytes \<Rightarrow> string" where
  "sha256HexText v = hexEncode (digest v)"

definition envOr :: "env \<Rightarrow> string \<Rightarrow> string \<Rightarrow> string" where
  "envOr getenv name fallback =
     (let v = trimSpace (getenv name) in if v \<noteq> '''' then v else fallback)"

definition defaultListen :: "env \<Rightarrow> string" where
  "defaultListen getenv =
     (let v = trimSpace (getenv ''PLAB_DOH2_LISTEN'') in
      if v \<noteq> '''' then v else ''127.0.0.1:'' @ envOr getenv ''PLAB_DOH2_PORT'' ''18531'')"

text \<open>A request with its authority and whether its TLS session was resumed; the body is what the
  writer's connection delivers.\<close>

record doh_request = h2_request +
  q_Host :: string
  q_DidResume :: bool

definition handle :: "doh_request \<Rightarrow> response_writer \<Rightarrow> response_writer" where
  "handle r w =
     (if q_ProtoMajor r \<noteq> 2 \<or> q_TLSVersion r = None \<or> q_TLSVersion r \<noteq> Some 0x304 \<or> q_ALPN r \<noteq> ''h2'' \<or> q_DidResume r
      then httpError ''exact HTTP/2 over fresh TLS 1.3 with h2 ALPN required'' 505 w
      else if q_Method r \<noteq> ''POST'' \<or> q_Path r \<noteq> ''/dns-query'' \<or> q_Host r \<noteq> ''dns.plab.test''
      then httpError ''exact POST /dns-query authority required'' 404 w
      else if headerGet (q_Header r) ''Content-Type'' \<noteq> mediaType \<or> headerGet (q_Header r) ''Accept'' \<noteq> mediaType \<or>
        headerGet (q_Header r) ''Cache-Control'' \<noteq> ''no-cache''
      then httpError ''exact DoH request headers required'' 415 w
      else (case readAllLimited 28 (rw_Conn w) of (body, c) \<Rightarrow>
        let w1 = w\<lparr>rw_Conn := c\<rparr> in
        if (case body of Inl _ \<Rightarrow> True
            | Inr b \<Rightarrow> length b \<noteq> 27 \<or> sha256HexText b \<noteq> queryHash \<or> b ! 0 \<noteq> 0 \<or> b ! 1 \<noteq> 0)
        then httpError ''request is not dns.plab-test-a.canonical'' 400 w1
        else snd (writeBody canonicalResponse (writeHeader 200
          (setHeader ''Cache-Control'' ''no-store'' (setHeader ''Content-Type'' mediaType w1))))))"

definition respond :: "doh_request \<Rightarrow> bytes \<Rightarrow> h2_response" where
  "respond r body = finishResponse (handle r (newWriter body))"

section \<open>The property\<close>

definition exactRequest :: "doh_request \<Rightarrow> bool" where
  "exactRequest r \<longleftrightarrow> q_ProtoMajor r = 2 \<and> q_TLSVersion r = Some 0x304 \<and> q_ALPN r = ''h2'' \<and> \<not> q_DidResume r \<and>
     q_Method r = ''POST'' \<and> q_Path r = ''/dns-query'' \<and> q_Host r = ''dns.plab.test'' \<and>
     headerGet (q_Header r) ''Content-Type'' = mediaType \<and> headerGet (q_Header r) ''Accept'' = mediaType \<and>
     headerGet (q_Header r) ''Cache-Control'' = ''no-cache''"

definition fixtureQuery :: "bytes \<Rightarrow> bool" where
  "fixtureQuery b \<longleftrightarrow> length b = 27 \<and> sha256HexText b = queryHash \<and> b ! 0 = 0 \<and> b ! 1 = 0"

lemma doh2_served:
  assumes "exactRequest r" "fixtureQuery body"
  shows "p_StatusCode (respond r body) = 200 \<and> headerGet (p_Header (respond r body)) ''Content-Type'' = mediaType \<and>
    headerGet (p_Header (respond r body)) ''Cache-Control'' = ''no-store'' \<and>
    p_Body (respond r body) = \<lparr>conn_in = canonicalResponse, conn_end = EOF, conn_out = [], conn_cap = None\<rparr>"
proof -
  let ?c = "\<lparr>conn_in = [], conn_end = EOF, conn_out = [], conn_cap = None\<rparr>"
  have rd: "readAllLimited 28 (rw_Conn (newWriter body)) = (Inr body, ?c)"
    using assms(2) by (simp add: readAllLimited_def newWriter_def fixtureQuery_def)
  let ?w = "setHeader ''Cache-Control'' ''no-store'' (setHeader ''Content-Type'' mediaType ((newWriter body)\<lparr>rw_Conn := ?c\<rparr>))"
  have "handle r (newWriter body) = snd (writeBody canonicalResponse (writeHeader 200 ?w))"
    using assms unfolding handle_def rd by (simp add: exactRequest_def fixtureQuery_def)
  then show ?thesis
    by (simp add: respond_def finishResponse_def writeBody_fields Let_def equalFold_def toLower_def lowerChar_def)
      (simp add: writeBody_def connWrite_def newWriter_def Let_def)
qed

text \<open>The DNS-over-HTTPS target answers a request with status 200, the media type of DNS messages, a
  cache prohibition and exactly the fixture response when the connection, the request line, the headers
  and the body are those of the scenario; every other request, whatever its body, is refused with one of
  the four error statuses and a plain text.\<close>

theorem doh2_answers:
  "if exactRequest r \<and> fixtureQuery body
   then p_StatusCode (respond r body) = 200 \<and> headerGet (p_Header (respond r body)) ''Content-Type'' = mediaType \<and>
     headerGet (p_Header (respond r body)) ''Cache-Control'' = ''no-store'' \<and> conn_in (p_Body (respond r body)) = canonicalResponse
   else p_StatusCode (respond r body) \<in> {400, 404, 415, 505} \<and>
     headerGet (p_Header (respond r body)) ''Content-Type'' = ''text/plain; charset=utf-8''"
proof (cases "exactRequest r \<and> fixtureQuery body")
  case True
  then show ?thesis using doh2_served [of r body] by simp
next
  case False
  obtain b c where rd: "readAllLimited 28 (rw_Conn (newWriter body)) = (b, c)" by force
  have q: "fixtureQuery body" if "b = Inr y" "fixtureQuery y" for y
    using that rd by (auto simp: readAllLimited_def newWriter_def fixtureQuery_def split: if_splits)
  have "\<exists>msg code w. handle r (newWriter body) = httpError msg code w \<and> code \<in> {400, 404, 415, 505} \<and> rw_Status w = None"
  proof (cases "exactRequest r")
    case True
    with False have "\<not> fixtureQuery body" by simp
    with q have "case b of Inl _ \<Rightarrow> True | Inr b \<Rightarrow> \<not> fixtureQuery b" by (auto split: sum.splits)
    with True rd show ?thesis
      by (intro exI [of _ "''request is not dns.plab-test-a.canonical''"] exI [of _ 400] exI [of _ "(newWriter body)\<lparr>rw_Conn := c\<rparr>"])
        (auto simp: handle_def exactRequest_def fixtureQuery_def newWriter_def Let_def split: sum.splits)
  next
    case False
    let ?a = "q_ProtoMajor r \<noteq> 2 \<or> q_TLSVersion r = None \<or> q_TLSVersion r \<noteq> Some 0x304 \<or> q_ALPN r \<noteq> ''h2'' \<or> q_DidResume r"
    let ?b = "q_Method r \<noteq> ''POST'' \<or> q_Path r \<noteq> ''/dns-query'' \<or> q_Host r \<noteq> ''dns.plab.test''"
    have s: "rw_Status (newWriter body) = None" by (simp add: newWriter_def)
    consider ?a | "\<not> ?a" ?b | "\<not> ?a" "\<not> ?b" by blast
    then show ?thesis
    proof cases
      case 1
      with s show ?thesis unfolding handle_def if_P [OF 1] by blast
    next
      case 2
      with s show ?thesis unfolding handle_def if_not_P [OF 2(1)] if_P [OF 2(2)] by blast
    next
      case 3
      with False have c: "headerGet (q_Header r) ''Content-Type'' \<noteq> mediaType \<or> headerGet (q_Header r) ''Accept'' \<noteq> mediaType \<or>
        headerGet (q_Header r) ''Cache-Control'' \<noteq> ''no-cache''" unfolding exactRequest_def by blast
      with s show ?thesis unfolding handle_def if_not_P [OF 3(1)] if_not_P [OF 3(2)] if_P [OF c] by blast
    qed
  qed
  then show ?thesis using False errorResponse_fields by (auto simp: respond_def)
qed

end
