(* ===== verification/Doh2_Wire.thy ===== *)
theory Doh2_Wire
  imports Doq_Wire
begin

text \<open>
  The scenario selection and the wire checks of the DNS-over-HTTPS executor,
  \<^verbatim>\<open>executors/go-dns-doh2-executor/source/main.go\<close>: two pairs of fixtures, for an authority and for a
  resolver, the name parser, and the check of a response of any length. What Go does out of range is
  part of the model (\<open>None\<close>).
\<close>

section \<open>Constants and the selected scenario\<close>

definition strictScenario :: string where "strictScenario = ''dns.doh2.query.a''"
definition interopScenario :: string where "interopScenario = ''dns.doh2.interoperability.query.a''"
definition resolverScenario :: string where
  "resolverScenario = ''dns.doh2.resolver.interoperability.query.a''"
definition fixtureID :: string where "fixtureID = ''dns.plab-test-a.canonical''"
definition resolverFixtureID :: string where "resolverFixtureID = ''dns.resolver-plab-test-a-v2.canonical''"
definition queryHash :: string where
  "queryHash = ''c46b9fb76019b5a644d0884b17e816cb7c3076275d9468c27d180f70488eb8ec''"
definition responseHash :: string where
  "responseHash = ''9d488461675ad5ab9f74c7b203861e1ad17521e413a407a25e6611012a595620''"
definition resolverQueryHash :: string where
  "resolverQueryHash = ''423b6325f73f2f72a948fe3b5593e99201b0cb24f0dcdcffe897e784da3106c6''"
definition resolverResponseHash :: string where
  "resolverResponseHash = ''c63893fec8b20373c3233d3c4884b9f84e3d15a01218ccb144422f074b778931''"

definition mustHex :: "string \<Rightarrow> bytes" where
  \<comment> \<open>an undecodable constant panics while the package is initialised\<close>
  "mustHex v = (case hexDecode v of Some b \<Rightarrow> b | None \<Rightarrow> [])"

definition hash :: "bytes \<Rightarrow> string" where "hash v = sha256Hex v"

definition canonicalQuery :: bytes where
  "canonicalQuery = mustHex (''00000000000100000000000004706c616204746573740000010001'')"

definition canonicalResponse :: bytes where
  "canonicalResponse = mustHex
    (''00008400000100010000000004706c616204746573740000010001c00c00010001000000000004c0'' @
     ''000201'')"

definition resolverQuery :: bytes where
  "resolverQuery = mustHex (''00000100000100000000000004706c616204746573740000010001'')"

definition resolverResponse :: bytes where
  "resolverResponse = mustHex
    (''00008180000100010000000004706c616204746573740000010001c00c00010001000000000004c0'' @
     ''000201'')"

definition selectedScenario :: "env \<Rightarrow> string" where
  "selectedScenario getenv =
     (let i = trimSpace (getenv ''PLAB_SCENARIO_ID'') in if i = '''' then strictScenario else i)"

definition selectedFixtureID :: "env \<Rightarrow> string" where
  "selectedFixtureID getenv = (if selectedScenario getenv = resolverScenario then resolverFixtureID else fixtureID)"

definition canonicalFixture :: "env \<Rightarrow> bytes \<times> bytes \<times> string \<times> string" where
  "canonicalFixture getenv =
     (if selectedScenario getenv = resolverScenario
      then (resolverQuery, resolverResponse, resolverQueryHash, resolverResponseHash)
      else (canonicalQuery, canonicalResponse, queryHash, responseHash))"

section \<open>Names\<close>

fun readNameLoop ::
  "nat \<Rightarrow> bytes \<Rightarrow> nat \<Rightarrow> nat \<Rightarrow> bool \<Rightarrow> nat set \<Rightarrow> string list \<Rightarrow> (string \<times> nat) go option" where
  "readNameLoop 0 m offset nxt jumped seen labels = Some (Inl (Errorf ''DNS name exceeded parser bound''))"
| "readNameLoop (Suc steps) m offset nxt jumped seen labels =
     (if offset \<ge> length m then Some (Inl (Errorf ''truncated DNS name''))
      else if offset \<in> seen then Some (Inl (Errorf ''DNS compression loop''))
      else do {
        b \<leftarrow> index m offset;
        if b = 0 then Some (Inr (joinWith ''.'' labels @ ''.'', if \<not> jumped then offset + 1 else nxt))
        else if b AND 0xc0 = 0xc0 then
          if offset + 1 \<ge> length m then Some (Inl (Errorf ''truncated DNS pointer''))
          else do {
            low \<leftarrow> index m (offset + 1);
            readNameLoop steps m (unat (push_bit 8 (ucast (b AND 0x3f)) OR ucast low :: u64))
              (if \<not> jumped then offset + 2 else nxt) True (insert offset seen) labels
          }
        else if b AND 0xc0 \<noteq> 0 \<or> unat b > 63 \<or> offset + 1 + unat b > length m
          then Some (Inl (Errorf ''invalid DNS label''))
        else do {
          label \<leftarrow> slice m (offset + 1) (offset + 1 + unat b);
          readNameLoop steps m (offset + 1 + unat b)
            (if \<not> jumped then offset + 1 + unat b else nxt) jumped (insert offset seen)
            (labels @ [to_string label])
        }
      })"

definition readName :: "bytes \<Rightarrow> nat \<Rightarrow> (string \<times> nat) go option" where
  "readName m offset = readNameLoop 32 m offset offset False {} []"

section \<open>The check of a response\<close>

record dns_proof =
  p_FixtureID :: string
  p_Transport :: string
  p_QuestionName :: string
  p_QuestionType :: string
  p_QuestionClass :: string
  p_Answer :: string
  p_TTLSeconds :: int
  p_ResponseCode :: string
  p_AuthoritativeAnswer :: bool
  p_RecursionDesired :: bool
  p_RecursionAvailable :: bool
  p_ExternalUpstreamUsed :: bool
  p_CacheEnabled :: bool
  p_Framing :: string
  p_AuthorityMode :: string
  p_RequestMessageID :: u16
  p_RuntimeMessageID :: u16
  p_ResponseMessageID :: u16
  p_CanonicalHashNormalization :: string
  p_QueryLengthBytes :: nat
  p_QueryNormalizedSHA256 :: string
  p_ResponseRawLengthBytes :: nat
  p_ResponseCanonicalLengthBytes :: nat
  p_ResponseLengthBytes :: nat
  p_ResponseNormalizedSHA256 :: string
  p_ResponseCompressionDiffered :: bool
  p_ResponseCanonicalized :: bool
  p_RawResponseEqualityRequired :: bool

definition acceptedProof :: "env \<Rightarrow> bytes \<Rightarrow> dns_proof" where
  "acceptedProof getenv raw =
     (case canonicalFixture getenv of (query, canonical, expectedQueryHash, expectedResponseHash) \<Rightarrow>
      let resolver = selectedScenario getenv = resolverScenario in
      \<lparr>p_FixtureID = selectedFixtureID getenv, p_Transport = ''doh2'', p_QuestionName = ''plab.test.'',
       p_QuestionType = ''A'', p_QuestionClass = ''IN'', p_Answer = ''192.0.2.1'', p_TTLSeconds = 0,
       p_ResponseCode = ''NOERROR'', p_AuthoritativeAnswer = \<not> resolver, p_RecursionDesired = resolver,
       p_RecursionAvailable = resolver, p_ExternalUpstreamUsed = False, p_CacheEnabled = False,
       p_Framing = ''bare-dns-message-body'',
       p_AuthorityMode = (if resolver then ''local-fixture-recursive'' else ''local-fixture-authoritative''),
       p_RequestMessageID = 0, p_RuntimeMessageID = 0, p_ResponseMessageID = 0,
       p_CanonicalHashNormalization = ''identity'', p_QueryLengthBytes = length query,
       p_QueryNormalizedSHA256 = expectedQueryHash, p_ResponseRawLengthBytes = length raw,
       p_ResponseCanonicalLengthBytes = length canonical, p_ResponseLengthBytes = length canonical,
       p_ResponseNormalizedSHA256 = hash canonical, p_ResponseCompressionDiffered = (raw \<noteq> canonical),
       p_ResponseCanonicalized = True, p_RawResponseEqualityRequired = False\<rparr>)"

abbreviation badDNS :: "string \<Rightarrow> 'a go option" where
  "badDNS s \<equiv> Some (Inl (Malformed s))"

definition validateAnswer :: "env \<Rightarrow> bytes \<Rightarrow> nat \<Rightarrow> dns_proof go option" where
  "validateAnswer getenv raw nxt = do {
     typ \<leftarrow> slice16 raw nxt (nxt + 2);
     cls \<leftarrow> slice16 raw (nxt + 2) (nxt + 4);
     ttl \<leftarrow> slice32 raw (nxt + 4) (nxt + 8);
     len \<leftarrow> slice16 raw (nxt + 8) (nxt + 10);
     bad \<leftarrow> (if typ \<noteq> 1 \<or> cls \<noteq> 1 \<or> ttl \<noteq> 0 \<or> unat len \<noteq> 4 \<or> nxt + 10 + 4 \<noteq> length raw
       then Some True else differs (slice raw (nxt + 10) (nxt + 10 + 4)) [192, 0, 2, 1]);
     if bad then badDNS ''A answer semantics mismatch''
     else (case canonicalFixture getenv of (query, canonical, expectedQueryHash, expectedResponseHash) \<Rightarrow>
       if length canonical \<noteq> 43 \<or> hash canonical \<noteq> expectedResponseHash
       then Some (Inl (Errorf ''internal canonical response fixture mismatch''))
       else Some (Inr (acceptedProof getenv raw)))
   }"

definition expectedFlags :: "env \<Rightarrow> u16" where
  "expectedFlags getenv = (if selectedScenario getenv = resolverScenario then 0x8180 else 0x8400)"

definition flagsMismatch :: "u16 \<Rightarrow> u16 \<Rightarrow> string" where
  "flagsMismatch expected flags =
     ''response flags/rcode mismatch: expected 0x'' @ hexEncode (be16 expected) @ '', observed 0x'' @ hexEncode (be16 flags)"

definition validateDNS :: "env \<Rightarrow> bytes \<Rightarrow> dns_proof go option" where
  "validateDNS getenv raw = do {
     bad \<leftarrow> (if length raw < 12 then Some True else differs (slice16 raw 0 2) 0);
     if bad then badDNS ''response message ID must be zero''
     else do {
       flags \<leftarrow> slice16 raw 2 4;
       if flags \<noteq> expectedFlags getenv
       then badDNS (flagsMismatch (expectedFlags getenv) flags)
       else do {
         bad \<leftarrow> orElse (differs (slice16 raw 4 6) 1) (orElse (differs (slice16 raw 6 8) 1)
           (orElse (differs (slice16 raw 8 10) 0) (differs (slice16 raw 10 12) 0)));
         if bad then badDNS ''response section counts mismatch''
         else do {
           question \<leftarrow> readName raw 12;
           if \<not> nameIs question ''plab.test.'' then badDNS ''response question name mismatch''
           else do {
             let nxt = nextOf question;
             bad \<leftarrow> (if nxt + 4 > length raw then Some True
               else orElse (differs (slice16 raw nxt (nxt + 2)) 1) (differs (slice16 raw (nxt + 2) (nxt + 4)) 1));
             if bad then badDNS ''response question type/class mismatch''
             else do {
               owner \<leftarrow> readName raw (nxt + 4);
               if \<not> nameIs owner ''plab.test.'' then badDNS ''answer owner mismatch''
               else if nextOf owner + 10 > length raw then badDNS ''truncated answer''
               else validateAnswer getenv raw (nextOf owner)
             }
           }
         }
       }
     }
   }"

section \<open>The two parsers agree\<close>

text \<open>The parser is a second copy of the one of the DNS-over-QUIC executor; they differ in the texts of
  two errors only.\<close>

definition outcome :: "'a go option \<Rightarrow> 'a option option" where
  "outcome r = map_option (\<lambda>s. case s of Inl _ \<Rightarrow> None | Inr x \<Rightarrow> Some x) r"

lemma readNameLoop_agrees:
  "outcome (readNameLoop steps m off nxt jumped seen labels) =
     outcome (Doq_Wire.readNameLoop steps m off nxt jumped seen labels)"
proof (induction steps arbitrary: off nxt jumped seen labels)
  case (Suc steps)
  show ?case
  proof (cases "off < length m \<and> off \<notin> seen")
    case True
    then show ?thesis
      by (simp add: Suc index_in slice_def outcome_def [of "Some _"])
  qed (auto simp: outcome_def)
qed (simp add: outcome_def)

lemma readName_agrees:
  "outcome (readName m off) = outcome (Doq_Wire.readName m off)"
  unfolding readName_def Doq_Wire.readName_def by (rule readNameLoop_agrees)

lemma outcome_iff: "outcome r = Some (Some x) \<longleftrightarrow> r = Some (Inr x)" "outcome r = None \<longleftrightarrow> r = None"
  by (cases r; cases "the r"; auto simp: outcome_def)+

lemma doh2_readName_total: "\<exists>r. readName m off = Some r"
  using readName_agrees [of m off] Doq_Wire.readName_total [of m off] outcome_iff(2) by (metis not_None_eq)

lemma doh2_readName_Inr: "readName m off = Some (Inr x) \<longleftrightarrow> Doq_Wire.readName m off = Some (Inr x)"
  unfolding outcome_iff(1) [symmetric] readName_agrees ..

lemma named_result: "nameIs r n \<and> nextOf r = k \<longleftrightarrow> r = Inr (n, k)"
  by (cases r) (auto simp: nameIs_def nextOf_def)

lemma doh2_named_iff:
  assumes "readName m off = Some r"
  shows "namedAt m off nxt \<longleftrightarrow> nameIs r ''plab.test.'' \<and> nextOf r = nxt"
proof -
  obtain s where s: "Doq_Wire.readName m off = Some s" using Doq_Wire.readName_total by blast
  then show ?thesis using named_iff [OF s] doh2_readName_Inr [of m off] assms unfolding named_result by simp
qed

section \<open>The fixtures\<close>

lemma doh2_mustHex: "mustHex = Doq_Wire.mustHex" "hash = Doq_Wire.hash"
  by (simp_all add: fun_eq_iff mustHex_def Doq_Wire.mustHex_def hash_def Doq_Wire.hash_def)

lemma doh2_lengths [simp]:
  "length canonicalQuery = 27" "length resolverQuery = 27" "length canonicalResponse = 43" "length resolverResponse = 43"
  by (simp_all add: canonicalQuery_def resolverQuery_def canonicalResponse_def resolverResponse_def
      doh2_mustHex doq_mustHex hexOk_def hexVal_def)

lemma doh2_query_digest: "hash canonicalQuery = queryHash"
  unfolding canonicalQuery_def queryHash_def doh2_mustHex
  by (subst doq_hash_mustHex [OF _ _ pad_27]) (simp_all only: sha_eval, simp_all add: hexOk_def hexVal_def)

lemma doh2_response_digest: "hash canonicalResponse = responseHash"
  unfolding canonicalResponse_def responseHash_def doh2_mustHex
  by (subst doq_hash_mustHex [OF _ _ pad_43]) (simp_all only: sha_eval, simp_all add: hexOk_def hexVal_def)

lemma doh2_resolver_digest: "hash resolverResponse = resolverResponseHash"
  unfolding resolverResponse_def resolverResponseHash_def doh2_mustHex
  by (subst doq_hash_mustHex [OF _ _ pad_43]) (simp_all only: sha_eval, simp_all add: hexOk_def hexVal_def)

section \<open>What the check accepts\<close>

lemma validateAnswer_in:
  assumes "nxt + 10 \<le> length m"
  shows "validateAnswer getenv m nxt =
    Some (if drop nxt m = answerRecord then Inr (acceptedProof getenv m) else Inl (Malformed ''A answer semantics mismatch''))"
  using assms answerRecord_iff [OF assms]
  by (auto simp: validateAnswer_def in_range canonicalFixture_def doh2_response_digest doh2_resolver_digest add.assoc)

lemma validateDNS_iff:
  "\<exists>r. validateDNS getenv m = Some r \<and> (r = Inr p \<longleftrightarrow> answerMessage (expectedFlags getenv) m \<and> p = acceptedProof getenv m)"
proof (cases "12 \<le> length m")
  case False
  then have "\<not> answerMessage (expectedFlags getenv) m" by (auto simp: answerMessage_def dest!: arg_cong [where f = length])
  with False show ?thesis by (simp add: validateDNS_def)
next
  case True
  obtain rq where rq: "readName m 12 = Some rq" using doh2_readName_total by blast
  obtain ro where ro: "readName m (nextOf rq + 4) = Some ro" using doh2_readName_total by blast
  let ?f = "expectedFlags getenv"
  have v: "validateDNS getenv m =
     (if take 2 m \<noteq> be16 0 then badDNS ''response message ID must be zero''
      else if take 2 (drop 2 m) \<noteq> be16 ?f then badDNS (flagsMismatch ?f (uint16 (take 2 (drop 2 m))))
      else if take 2 (drop 4 m) \<noteq> be16 1 \<or> take 2 (drop 6 m) \<noteq> be16 1 \<or> take 2 (drop 8 m) \<noteq> be16 0 \<or> take 2 (drop 10 m) \<noteq> be16 0
      then badDNS ''response section counts mismatch''
      else if \<not> nameIs rq ''plab.test.'' then badDNS ''response question name mismatch''
      else if nextOf rq + 4 > length m \<or> take 4 (drop (nextOf rq) m) \<noteq> be16 1 @ be16 1
      then badDNS ''response question type/class mismatch''
      else if \<not> nameIs ro ''plab.test.'' then badDNS ''answer owner mismatch''
      else if nextOf ro + 10 > length m then badDNS ''truncated answer''
      else Some (if drop (nextOf ro) m = answerRecord then Inr (acceptedProof getenv m)
        else Inl (Malformed ''A answer semantics mismatch'')))"
    using True question_iff [of "nextOf rq" m]
    by (cases "nextOf rq + 4 > length m")
      (simp_all add: validateDNS_def in_range uint_take rq ro orElse_def validateAnswer_in Let_def)
  have d: "answerMessage ?f m \<longleftrightarrow> take 12 m = be16 0 @ be16 ?f @ be16 1 @ be16 1 @ be16 0 @ be16 0 \<and>
      nameIs rq ''plab.test.'' \<and> take 4 (drop (nextOf rq) m) = be16 1 @ be16 1 \<and> nameIs ro ''plab.test.'' \<and>
      drop (nextOf ro) m = answerRecord"
    using doh2_named_iff [OF rq] doh2_named_iff [OF ro] ro by (auto simp: answerMessage_def)
  note h = header_iff [OF True, of 0 ?f 1 1 0 0]
  have b: "take 4 (drop (nextOf rq) m) = be16 1 @ be16 1 \<Longrightarrow> nextOf rq + 4 \<le> length m"
    "drop (nextOf ro) m = answerRecord \<Longrightarrow> nextOf ro + 10 \<le> length m" by (rule answer_bounds, assumption)+
  show ?thesis unfolding v d h using b by auto
qed

section \<open>The property\<close>

text \<open>The name parser of the DNS-over-HTTPS executor, a copy of the one of the DNS-over-QUIC executor,
  returns the same name and offset on every message and fails on the same messages; and on every body the
  response check returns, accepting exactly the answers with the header flags of the selected scenario, two
  names that read as plab.test and the A record 192.0.2.1.\<close>

theorem doh2_check_exact:
  "outcome (readName m off) = outcome (Doq_Wire.readName m off) \<and>
   (\<exists>r. validateDNS getenv m = Some r \<and>
     (r = Inr p \<longleftrightarrow> answerMessage (expectedFlags getenv) m \<and> p = acceptedProof getenv m))"
  using readName_agrees validateDNS_iff by blast

end
