(* ===== verification/Doh2_Executor.thy ===== *)
theory Doh2_Executor
  imports Doh2_Wire Go_Http2 Go_Float
begin

text \<open>
  The DNS-over-HTTPS executor of \<^verbatim>\<open>executors/go-dns-doh2-executor/source/main.go\<close> around its wire
  checks: the TLS checks, one POST with its proofs, the cache flush of the resolver scenario, phases,
  metrics, the pinned configuration and the command. HTTP/2, TLS and URL parsing are libraries: what
  their calls return is an argument. A panic is \<open>None\<close>.
\<close>

section \<open>Constants\<close>

definition executorID :: string where "executorID = ''go-dns-doh2-executor''"
definition executorVersion :: string where "executorVersion = ''0.3.0''"
definition loadGeneratorID :: string where "loadGeneratorID = ''go-dns-doh2-load''"
definition loadGeneratorVersion :: string where "loadGeneratorVersion = ''0.3.0''"
definition supportedProfile :: string where "supportedProfile = ''secure-dns-smoke''"
definition serverName :: string where "serverName = ''dns.plab.test''"
definition mediaType :: string where "mediaType = ''application/dns-message''"
definition certificateProfile :: string where "certificateProfile = ''plab-secure-dns-single-leaf-p256-v1''"
definition strictTLSProfile :: string where "strictTLSProfile = ''plab-secure-dns-tls13-v1''"
definition interopTLSProfile :: string where "interopTLSProfile = ''plab-secure-dns-interoperability-v2''"
definition interopCertProfile :: string where
  "interopCertProfile = ''plab-secure-dns-interoperability-leaf-v2''"
definition requiredCipher :: string where "requiredCipher = ''TLS_AES_128_GCM_SHA256''"
definition leafDERHash :: string where
  "leafDERHash = ''b57bdd3eb90b36455900c17de9ff9a02c623e1f6b27626ad7821a40e35e8251c''"
definition leafSPKIHash :: string where
  "leafSPKIHash = ''cfa6d5d08ee2071e28fd96205b088156fa71b460262470e5b994624b0537cf25''"

definition knownUnsupported :: "string list" where
  "knownUnsupported =
     [''dns.classic.tcp.query.a'', ''dns.classic.udp-truncated-tcp-retry'', ''dns.classic.udp.query.a'',
      ''dns.doh3.get.a'', ''dns.doh3.query.a'', ''dns.doh3.query.aaaa'', ''dns.doh3.query.cname-chain'',
      ''dns.doh3.query.large-dnssec-shaped'', ''dns.doh3.query.nodata'', ''dns.doh3.query.nxdomain'',
      ''dns.doh3.interoperability.query.a'', ''dns.doq.query.a'', ''dns.doq.interoperability.query.a'',
      ''dns.dot.query.a'', ''dns.dot.interoperability.query.a'']"

definition supportedScenarios :: "string list" where
  "supportedScenarios = [strictScenario, interopScenario, resolverScenario]"

definition protocolVariant :: "env \<Rightarrow> string" where
  "protocolVariant getenv =
     (if selectedScenario getenv = resolverScenario then ''doh-h2-rfc8484-recursive-resolver''
      else if selectedScenario getenv = interopScenario then ''doh-h2-rfc8484-interoperability''
      else ''doh-h2-tls-alpn'')"

definition tlsProfileID :: "env \<Rightarrow> string" where
  "tlsProfileID getenv =
     (if selectedScenario getenv = interopScenario \<or> selectedScenario getenv = resolverScenario
      then interopTLSProfile else strictTLSProfile)"

definition selectedCertificateProfile :: "env \<Rightarrow> string" where
  "selectedCertificateProfile getenv =
     (if selectedScenario getenv = interopScenario \<or> selectedScenario getenv = resolverScenario
      then interopCertProfile else certificateProfile)"

section \<open>The TLS connection\<close>

record certificate =
  ct_Raw :: bytes
  ct_SPKI :: bytes
  ct_SignatureAlgorithm :: string
  ct_PublicKeyAlgorithm :: string
  ct_Curve :: string

record tls_state =
  ts_Version :: u16
  ts_CipherSuite :: string
  ts_Protocol :: string
  ts_HandshakeComplete :: bool
  ts_DidResume :: bool
  ts_Peers :: "certificate list"
  ts_VerifiedChains :: nat

record tls_proof =
  t_TLSProfileID :: string
  t_TLSVersion :: string
  t_CipherSuite :: string
  t_KeyExchangeGroup :: string
  t_SignatureScheme :: string
  t_ALPN :: string
  t_ServerName :: string
  t_HandshakeComplete :: bool
  t_DidResume :: bool
  t_EarlyDataAttempted :: bool
  t_CertificateProfile :: string
  t_CertificateDERSHA256 :: string
  t_CertificateSPKISHA256 :: string
  t_CertificateSignatureAlgorithm :: string
  t_CertificatePublicKeyAlgorithm :: string
  t_CertificateNamedCurve :: string
  t_VerifiedChainCount :: nat
  t_SentCertificateCount :: nat
  t_TrustAnchorSent :: bool
  t_ConnectionLatencyMilliseconds :: rat

definition tlsVersionName :: "u16 \<Rightarrow> string" where
  "tlsVersionName v = (if v = 0x304 then ''TLS1.3'' else ''0x'' @ hexEncode (be16 v))"

text \<open>The proof as it is filled in, without the two provenance maps that describe the machine, and the
  failures found in it.\<close>

definition observeTLS :: "env \<Rightarrow> tls_state \<Rightarrow> tls_proof" where
  "observeTLS getenv st =
     (let p = \<lparr>t_TLSProfileID = tlsProfileID getenv, t_TLSVersion = tlsVersionName (ts_Version st),
         t_CipherSuite = ts_CipherSuite st, t_KeyExchangeGroup = ''X25519'',
         t_SignatureScheme = ''ecdsa_secp256r1_sha256'', t_ALPN = ts_Protocol st, t_ServerName = serverName,
         t_HandshakeComplete = ts_HandshakeComplete st, t_DidResume = ts_DidResume st,
         t_EarlyDataAttempted = False, t_CertificateProfile = selectedCertificateProfile getenv,
         t_CertificateDERSHA256 = '''', t_CertificateSPKISHA256 = '''', t_CertificateSignatureAlgorithm = '''',
         t_CertificatePublicKeyAlgorithm = '''', t_CertificateNamedCurve = '''',
         t_VerifiedChainCount = ts_VerifiedChains st, t_SentCertificateCount = length (ts_Peers st),
         t_TrustAnchorSent = False, t_ConnectionLatencyMilliseconds = 0\<rparr> in
      case ts_Peers st of
        [] \<Rightarrow> p
      | cert # _ \<Rightarrow> p\<lparr>t_CertificateDERSHA256 := hash (ct_Raw cert), t_CertificateSPKISHA256 := hash (ct_SPKI cert),
          t_CertificateSignatureAlgorithm := ct_SignatureAlgorithm cert,
          t_CertificatePublicKeyAlgorithm := ct_PublicKeyAlgorithm cert, t_CertificateNamedCurve := ct_Curve cert\<rparr>)"

definition tlsFailures :: "env \<Rightarrow> tls_state \<Rightarrow> tls_proof \<Rightarrow> string list" where
  "tlsFailures getenv st p =
     (if ts_Version st \<noteq> 0x304 then [''exact TLS 1.3 was not negotiated''] else []) @
     (if \<not> ts_HandshakeComplete st then [''TLS handshake incomplete''] else []) @
     (if ts_DidResume st then [''session resumption detected''] else []) @
     (if ts_Protocol st \<noteq> ''h2'' then [''ALPN mismatch''] else []) @
     (if selectedScenario getenv = strictScenario \<and> t_CipherSuite p \<noteq> requiredCipher
      then [''cipher-suite mismatch''] else []) @
     (if ts_VerifiedChains st = 0 then [''certificate chain not authenticated''] else []) @
     (if t_CertificateDERSHA256 p \<noteq> leafDERHash then [''leaf DER hash mismatch''] else []) @
     (if t_CertificateSPKISHA256 p \<noteq> leafSPKIHash then [''leaf SPKI hash mismatch''] else [])"

text \<open>A response without TLS has no state. The proof that is returned beside an error is not used.\<close>

definition validateTLS :: "env \<Rightarrow> tls_state option \<Rightarrow> tls_proof go" where
  "validateTLS getenv state =
     (case state of
        None \<Rightarrow> Inl (Errorf ''missing TLS state'')
      | Some st \<Rightarrow>
          (let p = observeTLS getenv st; failures = tlsFailures getenv st p in
           if failures \<noteq> [] then Inl (Errorf (joinWith ''; '' failures)) else Inr p))"

section \<open>The resolver's cache\<close>

definition joinHostPort :: "string \<Rightarrow> string \<Rightarrow> string" where
  "joinHostPort host port =
     (if CHR '':'' \<in> set host then ''['' @ host @ '']:'' @ port else host @ '':'' @ port)"

definition itoaInt :: "int \<Rightarrow> string" where
  "itoaInt i = (if i < 0 then CHR ''-'' # itoa (nat (- i)) else itoa (nat i))"

text \<open>The parsed endpoint as host name and port text, and the answer of the control endpoint.\<close>

record flush_env =
  f_parse :: "(string \<times> string) go"
  f_post :: "string \<Rightarrow> (nat \<times> string) go"

definition flushResolverCache :: "env \<Rightarrow> flush_env \<Rightarrow> go_error option" where
  "flushResolverCache getenv fl =
     (case f_parse fl of
        Inl e \<Rightarrow> Some (Wrapf ''resolver control address'' e)
      | Inr (hostname, portText) \<Rightarrow>
          (case (if portText = '''' then (443, None) else atoi portText) of
             (_, Some e) \<Rightarrow> Some (Wrapf ''resolver control port'' (Errorf ''strconv.Atoi: parsing port''))
           | (port, None) \<Rightarrow>
               (let configured = trimSpace (getenv ''PLAB_RESOLVER_CONTROL_URL'');
                    controlURL = (if configured = ''''
                      then ''http://'' @ joinHostPort hostname (itoaInt (sint (word_of_int (port + 1) :: 64 word))) @ ''/flush''
                      else configured) in
                case f_post fl controlURL of
                  Inl e \<Rightarrow> Some (Wrapf ''resolver cache flush failed'' e)
                | Inr (status, body) \<Rightarrow>
                    if status \<noteq> 204
                    then Some (Errorf (''resolver cache flush returned '' @ itoa status @ '': '' @ trimSpace (take 1024 body)))
                    else None)))"

section \<open>One query\<close>

record http_proof =
  h_Version :: string
  h_Method :: string
  h_Scheme :: string
  h_Authority :: string
  h_Path :: string
  h_StatusCode :: nat
  h_RequestAccept :: string
  h_RequestContentType :: string
  h_RequestCacheControl :: string
  h_ResponseContentType :: string
  h_ResponseCacheControl :: string
  h_BodyFraming :: string
  h_ConnectionReused :: bool
  h_HTTP1FallbackDetected :: bool

record exchange_proof =
  e_DNS :: dns_proof
  e_HTTP :: http_proof
  e_TLS :: tls_proof
  e_QueryLatencyMilliseconds :: rat
  e_TimeToFirstByteMilliseconds :: rat
  e_TransferredBytes :: int
  e_ConnectionLatencyMilliseconds :: rat

definition durationMS :: "int \<Rightarrow> rat" where
  "durationMS ns = fdiv (f64 (of_int ns)) (10 ^ 6)"

text \<open>The request as it is handed to the client, and what sending it meets: the cache flush, building
  the request, the response or an error, whether the connection was reused, the TLS state of the
  response, and the times of the trace callbacks and of the end.\<close>

record client_request =
  cr_Method :: string
  cr_Host :: string
  cr_Header :: http_header
  cr_Body :: bytes

record exchange_env =
  x_flush :: flush_env
  x_newRequest :: "go_error option"
  x_do :: "client_request \<Rightarrow> h2_response go"
  x_reused :: bool
  x_tls :: "tls_state option"
  x_connNanos :: int
  x_firstNanos :: int
  x_nanos :: int

definition buildRequest :: "bytes \<Rightarrow> client_request" where
  "buildRequest query =
     \<lparr>cr_Method = ''POST'', cr_Host = serverName,
      cr_Header = headerSet (headerSet (headerSet [] ''Accept'' mediaType) ''Content-Type'' mediaType) ''Cache-Control'' ''no-cache'',
      cr_Body = query\<rparr>"

definition protoText :: "h2_response \<Rightarrow> string" where
  "protoText r = ''HTTP/'' @ itoa (p_ProtoMajor r) @ ''.'' @ itoa (p_ProtoMinor r)"

definition httpProofOf :: "h2_response \<Rightarrow> bool \<Rightarrow> http_proof" where
  "httpProofOf r observedReused =
     \<lparr>h_Version = protoText r, h_Method = ''POST'', h_Scheme = ''https'', h_Authority = serverName,
      h_Path = ''/dns-query'', h_StatusCode = p_StatusCode r, h_RequestAccept = mediaType,
      h_RequestContentType = mediaType, h_RequestCacheControl = ''no-cache'',
      h_ResponseContentType = headerGet (p_Header r) ''Content-Type'',
      h_ResponseCacheControl = headerGet (p_Header r) ''Cache-Control'', h_BodyFraming = ''bare-dns-message-body'',
      h_ConnectionReused = observedReused, h_HTTP1FallbackDetected = (p_ProtoMajor r = 1)\<rparr>"

definition boolText :: "bool \<Rightarrow> string" where
  "boolText b = (if b then ''true'' else ''false'')"

text \<open>The checks of the response head, in order.\<close>

definition headFailure :: "env \<Rightarrow> h2_response \<Rightarrow> bool \<Rightarrow> bool \<Rightarrow> string option" where
  "headFailure getenv r reused observedReused =
     (let httpValue = httpProofOf r observedReused in
      if observedReused \<noteq> reused
      then Some (''HTTP/2 connection reuse mismatch: expected '' @ boolText reused @ '', observed '' @ boolText observedReused)
      else if p_ProtoMajor r \<noteq> 2 \<or> protoText r \<noteq> ''HTTP/2.0'' then Some ''HTTP/2 protocol proof mismatch or fallback''
      else if p_StatusCode r \<noteq> 200 \<or> h_ResponseContentType httpValue \<noteq> mediaType
      then Some ''DoH2 response status/header mismatch''
      else if selectedScenario getenv = strictScenario \<and> h_ResponseCacheControl httpValue \<noteq> ''no-store''
      then Some ''strict DoH2 response requires Cache-Control: no-store''
      else None)"

definition exchange :: "env \<Rightarrow> exchange_env \<Rightarrow> bool \<Rightarrow> exchange_proof go option" where
  "exchange getenv x reused =
     (case (if selectedScenario getenv = resolverScenario then flushResolverCache getenv (x_flush x) else None) of
        Some e \<Rightarrow> Some (Inl e)
      | None \<Rightarrow>
          (case canonicalFixture getenv of (query, _, _, _) \<Rightarrow>
           (case x_newRequest x of
              Some e \<Rightarrow> Some (Inl e)
            | None \<Rightarrow>
                (case x_do x (buildRequest query) of
                   Inl e \<Rightarrow> Some (Inl e)
                 | Inr response \<Rightarrow>
                     (case fst (readAllLimited 65536 (p_Body response)) of
                        Inl e \<Rightarrow> Some (Inl e)
                      | Inr body \<Rightarrow>
                          (case validateTLS getenv (x_tls x) of
                             Inl e \<Rightarrow> Some (Inl e)
                           | Inr tlsValue \<Rightarrow>
                               (case headFailure getenv response reused (x_reused x) of
                                  Some reason \<Rightarrow> Some (Inl (Malformed reason))
                                | None \<Rightarrow> do {
                                    dnsValue \<leftarrow> validateDNS getenv body;
                                    Some (case dnsValue of
                                        Inl e \<Rightarrow> Inl e
                                      | Inr dns \<Rightarrow>
                                          Inr \<lparr>e_DNS = dns, e_HTTP = httpProofOf response (x_reused x), e_TLS = tlsValue,
                                            e_QueryLatencyMilliseconds = durationMS (x_nanos x),
                                            e_TimeToFirstByteMilliseconds = durationMS (x_firstNanos x),
                                            e_TransferredBytes = int (length query + length body),
                                            e_ConnectionLatencyMilliseconds =
                                              (if \<not> x_reused x then durationMS (x_connNanos x) else 0)\<rparr>)
                                  })))))))"

section \<open>Phases\<close>

definition deadlineExceeded :: go_error where
  "deadlineExceeded = NetError ''context deadline exceeded''"

definition isTimeoutErr :: "go_error \<Rightarrow> bool" where
  "isTimeoutErr e \<longleftrightarrow> errorsIs e deadlineExceeded \<or> isTimeout e"

record summary =
  s_Phase :: string
  s_DurationSeconds :: rat
  s_CompletedOperations :: int
  s_MalformedOperations :: int
  s_RetryCount :: int
  s_FailedOperations :: int
  s_TimedOutOperations :: int
  s_TotalTransferredBytes :: int
  s_EffectiveConcurrency :: int
  s_EffectiveStreams :: int
  s_ActiveConnections :: int
  s_QueryLatencies :: "rat list"
  s_TimeToFirstByte :: "rat list"
  s_ConnectionLatencyMilliseconds :: rat
  s_LastProof :: "exchange_proof option"
  s_Errors :: "string \<rightharpoonup> nat"

definition recordProof :: "exchange_proof \<Rightarrow> summary \<Rightarrow> summary" where
  "recordProof p s =
     s\<lparr>s_CompletedOperations := s_CompletedOperations s + 1,
       s_TotalTransferredBytes := s_TotalTransferredBytes s + e_TransferredBytes p,
       s_QueryLatencies := s_QueryLatencies s @ [e_QueryLatencyMilliseconds p],
       s_TimeToFirstByte := s_TimeToFirstByte s @ [e_TimeToFirstByteMilliseconds p],
       s_LastProof := Some p\<rparr>"

definition classify :: "go_error \<Rightarrow> summary \<Rightarrow> summary" where
  "classify e s =
     (let s1 = (if asMalformed e then s\<lparr>s_MalformedOperations := s_MalformedOperations s + 1\<rparr>
        else if isTimeoutErr e then s\<lparr>s_TimedOutOperations := s_TimedOutOperations s + 1\<rparr>
        else s\<lparr>s_FailedOperations := s_FailedOperations s + 1\<rparr>) in
      s1\<lparr>s_Errors := (s_Errors s)(errorText e \<mapsto> (case s_Errors s (errorText e) of None \<Rightarrow> 1 | Some n \<Rightarrow> Suc n))\<rparr>)"

definition newSummary :: "bool \<Rightarrow> summary" where
  "newSummary once =
     \<lparr>s_Phase = (if once then ''preflight'' else ''measured''), s_DurationSeconds = 0, s_CompletedOperations = 0,
      s_MalformedOperations = 0, s_RetryCount = 0, s_FailedOperations = 0, s_TimedOutOperations = 0,
      s_TotalTransferredBytes = 0, s_EffectiveConcurrency = 1, s_EffectiveStreams = 1, s_ActiveConnections = 1,
      s_QueryLatencies = [], s_TimeToFirstByte = [], s_ConnectionLatencyMilliseconds = 0, s_LastProof = None,
      s_Errors = Map.empty\<rparr>"

type_synonym phase_run = "summary \<times> go_error option"

text \<open>The loop over the queries the deadline leaves time for.\<close>

fun phaseLoop :: "env \<Rightarrow> exchange_env list \<Rightarrow> summary \<Rightarrow> phase_run option" where
  "phaseLoop getenv [] s = Some (s, None)"
| "phaseLoop getenv (x # xs) s = do {
     r \<leftarrow> exchange getenv x True;
     case r of Inl e \<Rightarrow> Some (classify e s, Some e) | Inr p \<Rightarrow> phaseLoop getenv xs (recordProof p s)
   }"

text \<open>What a phase meets: the query that opens the connection, those of the loop, and its duration.\<close>

record phase_env =
  ph_first :: exchange_env
  ph_queries :: "exchange_env list"
  ph_seconds :: rat

definition runPhase :: "env \<Rightarrow> phase_env \<Rightarrow> bool \<Rightarrow> phase_run option" where
  "runPhase getenv ph once = do {
     first \<leftarrow> exchange getenv (ph_first ph) False;
     (case first of
        Inl e \<Rightarrow> Some (classify e (newSummary once), Some e)
      | Inr p \<Rightarrow>
          (let latency = e_ConnectionLatencyMilliseconds p;
               s = (newSummary once)\<lparr>s_ConnectionLatencyMilliseconds := latency\<rparr>;
               p1 = p\<lparr>e_TLS := (e_TLS p)\<lparr>t_ConnectionLatencyMilliseconds := latency\<rparr>\<rparr> in
           if once
           then Some ((recordProof p1 s)\<lparr>s_DurationSeconds := fdiv (e_QueryLatencyMilliseconds p1) 1000\<rparr>, None)
           else do {
             (s1, err) \<leftarrow> phaseLoop getenv (ph_queries ph) s;
             Some (case err of Some e \<Rightarrow> (s1, Some e)
               | None \<Rightarrow> (s1\<lparr>s_DurationSeconds := ph_seconds ph\<rparr>, None))
           }))
   }"

definition hasFailures :: "summary \<Rightarrow> bool" where
  "hasFailures s \<longleftrightarrow> s_MalformedOperations s \<noteq> 0 \<or> s_RetryCount s \<noteq> 0 \<or> s_FailedOperations s \<noteq> 0 \<or>
     s_TimedOutOperations s \<noteq> 0"

section \<open>Metrics and the result\<close>

fun sumFrom :: "rat \<Rightarrow> rat list \<Rightarrow> rat" where
  "sumFrom t [] = t"
| "sumFrom t (x # xs) = sumFrom (fadd t x) xs"

definition mean :: "rat list \<Rightarrow> rat" where
  "mean v = (if v = [] then 0 else fdiv (sumFrom 0 v) (f64 (of_nat (length v))))"

definition percentile :: "rat list \<Rightarrow> rat \<Rightarrow> rat" where
  "percentile values q =
     (if values = [] then 0
      else (let v = sort values; n = int (length v);
                i = \<lceil>fmul q (f64 (of_int n))\<rceil> - 1; j = (if i < 0 then 0 else i);
                k = (if j \<ge> n then n - 1 else j) in
            v ! nat k))"

record metric_set =
  m_QueriesPerSecond :: rat
  m_QueryLatencyMean :: rat
  m_QueryLatencyPercentiles :: "rat list"
  m_TimeToFirstByte :: rat
  m_ConnectionLatency :: rat
  m_CompletedOperations :: int
  m_MalformedOperations :: int
  m_RetryCount :: int
  m_FailedOperations :: int
  m_TimedOutOperations :: int
  m_TotalTransferredBytes :: int
  m_EffectiveConcurrency :: int
  m_EffectiveStreams :: int

record result =
  res_SchemaVersion :: string
  res_ScenarioID :: string
  res_LoadProfileID :: string
  res_Status :: string
  res_Executor :: "string \<times> string"
  res_LoadGenerator :: "string \<times> string"
  res_Variant :: string
  res_FallbackDetected :: bool
  res_Proof :: exchange_proof
  res_ResolverRole :: bool
  res_RequestedLoad :: "(string \<times> string) list"
  res_ActiveConnections :: int
  res_ActiveStreams :: int
  res_Metrics :: metric_set

text \<open>The percentiles 50, 75, 90, 95 and 99. Without a proof the fields of the nil pointer are read,
  which panics.\<close>

definition metricsOf :: "summary \<Rightarrow> metric_set" where
  "metricsOf s =
     \<lparr>m_QueriesPerSecond = fdiv (f64 (of_int (s_CompletedOperations s))) (s_DurationSeconds s),
      m_QueryLatencyMean = mean (s_QueryLatencies s),
      m_QueryLatencyPercentiles =
        map (\<lambda>q. percentile (s_QueryLatencies s) (f64 q)) [50 / 100, 75 / 100, 90 / 100, 95 / 100, 99 / 100],
      m_TimeToFirstByte = mean (s_TimeToFirstByte s), m_ConnectionLatency = s_ConnectionLatencyMilliseconds s,
      m_CompletedOperations = s_CompletedOperations s, m_MalformedOperations = s_MalformedOperations s,
      m_RetryCount = s_RetryCount s, m_FailedOperations = s_FailedOperations s,
      m_TimedOutOperations = s_TimedOutOperations s, m_TotalTransferredBytes = s_TotalTransferredBytes s,
      m_EffectiveConcurrency = s_EffectiveConcurrency s, m_EffectiveStreams = s_EffectiveStreams s\<rparr>"

definition normalizeResult :: "env \<Rightarrow> summary \<Rightarrow> (string \<times> string) list \<Rightarrow> result option" where
  "normalizeResult getenv s requested = do {
     p \<leftarrow> s_LastProof s;
     let p1 = p\<lparr>e_TLS := (e_TLS p)\<lparr>t_ConnectionLatencyMilliseconds := s_ConnectionLatencyMilliseconds s\<rparr>\<rparr>;
     Some \<lparr>res_SchemaVersion = ''protocol-lab.dns-doh2-executor-result.v1'', res_ScenarioID = selectedScenario getenv,
       res_LoadProfileID = supportedProfile, res_Status = ''passed'', res_Executor = (executorID, executorVersion),
       res_LoadGenerator = (loadGeneratorID, loadGeneratorVersion), res_Variant = protocolVariant getenv,
       res_FallbackDetected = False, res_Proof = p1, res_ResolverRole = (selectedScenario getenv = resolverScenario),
       res_RequestedLoad = requested, res_ActiveConnections = s_ActiveConnections s,
       res_ActiveStreams = s_EffectiveStreams s, res_Metrics = metricsOf s\<rparr>
   }"

record validation_doc =
  v_ScenarioID :: string
  v_FixtureID :: string
  v_Passed :: bool
  v_ObservedProtocol :: string
  v_Variant :: string
  v_FallbackDetected :: bool
  v_Completed :: int
  v_Malformed :: int
  v_Retries :: int
  v_Failed :: int
  v_TimedOut :: int
  v_ResolverRole :: bool
  v_Error :: string

definition observedProtocol :: "summary \<Rightarrow> string" where
  "observedProtocol s =
     (case s_LastProof s of
        None \<Rightarrow> ''''
      | Some p \<Rightarrow> if h_Version (e_HTTP p) = ''HTTP/2.0'' \<and> t_ALPN (e_TLS p) = ''h2'' then ''doh2'' else '''')"

definition errorString :: "go_error option \<Rightarrow> string" where
  "errorString err = (case err of None \<Rightarrow> '''' | Some e \<Rightarrow> errorText e)"

definition validationDocument :: "env \<Rightarrow> summary \<Rightarrow> go_error option \<Rightarrow> validation_doc" where
  "validationDocument getenv s err =
     \<lparr>v_ScenarioID = selectedScenario getenv, v_FixtureID = selectedFixtureID getenv, v_Passed = (err = None),
      v_ObservedProtocol = observedProtocol s, v_Variant = protocolVariant getenv,
      v_FallbackDetected = (observedProtocol s \<noteq> ''doh2''),
      v_Completed = s_CompletedOperations s, v_Malformed = s_MalformedOperations s, v_Retries = s_RetryCount s,
      v_Failed = s_FailedOperations s, v_TimedOut = s_TimedOutOperations s,
      v_ResolverRole = (selectedScenario getenv = resolverScenario), v_Error = errorString err\<rparr>"

section \<open>Identity, configuration and the command\<close>

text \<open>\<open>False\<close> is the substitution that ends the process with code 2.\<close>

definition verifySubstitution :: "env \<Rightarrow> string \<Rightarrow> string \<Rightarrow> bool" where
  "verifySubstitution getenv name expected \<longleftrightarrow>
     trimSpace (getenv name) = '''' \<or> trimSpace (getenv name) = expected"

datatype artifact =
    Unsupported string | ResultUnsupported string
  | ValidationJson validation_doc | ResultValidation validation_doc | WireSummary dns_proof
  | HttpSummary http_proof | TlsNegotiation tls_proof
  | ProtocolProof string string bool "exchange_proof option" | ExecutorIdentity string string "string list"
  | ResolverSummary int | UpstreamProof | WarmupSummary summary | LoadSummary summary
  | LoadGeneratorIdentity "string \<times> string" | ExecutorResult result | ResultJson result

definition checkIdentityOrExit :: "env \<Rightarrow> (artifact list \<times> nat) option" where
  "checkIdentityOrExit getenv =
     (if \<not> (verifySubstitution getenv ''PLAB_EXECUTOR_ID'' executorID \<and>
             verifySubstitution getenv ''PLAB_EXECUTOR_VERSION'' executorVersion \<and>
             verifySubstitution getenv ''PLAB_LOAD_GENERATOR_ID'' loadGeneratorID \<and>
             verifySubstitution getenv ''PLAB_LOAD_GENERATOR_VERSION'' loadGeneratorVersion \<and>
             verifySubstitution getenv ''PLAB_PROTOCOL'' ''doh2'' \<and>
             verifySubstitution getenv ''PLAB_PROTOCOL_VARIANT'' (protocolVariant getenv)) then Some ([], 2)
      else (let configured = trimSpace (getenv ''PLAB_SCENARIO_ID'');
                scenario = (if configured = '''' then strictScenario else configured) in
        if scenario \<in> set supportedScenarios then None
        else if scenario \<in> set knownUnsupported then Some ([Unsupported scenario, ResultUnsupported scenario], 3)
        else Some ([], 2)))"

definition envInt :: "env \<Rightarrow> string \<Rightarrow> int" where
  "envInt getenv name = fst (atoi (trimSpace (getenv name)))"

definition loadConfig :: "env \<Rightarrow> (string \<times> string) list go" where
  "loadConfig getenv =
     (if selectedScenario getenv \<notin> set supportedScenarios
      then Inl (Errorf ''exact supported scenario identity is required'')
      else if trimSpace (getenv ''PLAB_LOAD_PROFILE_ID'') \<noteq> supportedProfile
      then Inl (Errorf (''supports load profile '' @ quoted supportedProfile @ '' only''))
      else if envInt getenv ''PLAB_CONNECTIONS'' \<noteq> 1 \<or> envInt getenv ''PLAB_CONCURRENCY'' \<noteq> 1 \<or>
        envInt getenv ''PLAB_STREAMS_PER_CONNECTION'' \<noteq> 1 \<or> envInt getenv ''PLAB_DURATION_SECONDS'' \<noteq> 5 \<or>
        envInt getenv ''PLAB_WARMUP_SECONDS'' \<noteq> 1 \<or> envInt getenv ''PLAB_REPETITION'' \<noteq> 1
      then Inl (Errorf ''secure-dns-smoke requires connections=1 concurrency=1 duration=5 warmup=1 repetition=1'')
      else Inr [(''connections'', ''1''), (''concurrency'', ''1''), (''outstandingQueries'', ''1''),
        (''streamsPerConnection'', ''1''), (''connectionReuse'', ''reuse''), (''durationSeconds'', ''5''),
        (''warmupSeconds'', ''1''), (''repetition'', ''1''), (''queryTimeoutMilliseconds'', ''5000''), (''maxRetries'', ''0'')])"

text \<open>The parts of a parsed URL; \<open>show\<close> is \<^verbatim>\<open>parsed.String()\<close>.\<close>

record parsed_url =
  u_Scheme :: string
  u_Host :: string
  u_Path :: string
  u_RawQuery :: string
  u_Fragment :: string

definition normalizeTarget ::
  "(string \<Rightarrow> parsed_url go) \<Rightarrow> (parsed_url \<Rightarrow> string) \<Rightarrow> string \<Rightarrow> string go" where
  "normalizeTarget parse unparse v =
     (let value = trimSpace v in
      if value = '''' then Inl (Errorf ''target address required'')
      else (case parse value of
          Inl e \<Rightarrow> Inl e
        | Inr u \<Rightarrow>
            if u_Scheme u \<noteq> ''https'' \<or> u_Host u = '''' \<or> u_RawQuery u \<noteq> '''' \<or> u_Fragment u \<noteq> ''''
            then Inl (Errorf ''DoH2 target must be an https URL without query or fragment'')
            else if u_Path u \<noteq> '''' \<and> u_Path u \<noteq> ''/'' \<and> u_Path u \<noteq> ''/dns-query''
            then Inl (Errorf ''DoH2 target path must be /dns-query'')
            else Inr (unparse (u\<lparr>u_Path := ''/dns-query''\<rparr>))))"

definition loadRoots :: "bytes go \<Rightarrow> (bytes \<Rightarrow> bool) \<Rightarrow> go_error option" where
  "loadRoots file parses =
     (case file of Inl e \<Rightarrow> Some e
      | Inr pem \<Rightarrow> if \<not> parses pem then Some (Errorf ''root PEM contained no certificate'') else None)"

definition writeEvidence :: "env \<Rightarrow> summary \<Rightarrow> go_error option \<Rightarrow> artifact list" where
  "writeEvidence getenv s err =
     (let validation = validationDocument getenv s err in
      [ValidationJson validation, ResultValidation validation] @
      (case s_LastProof s of
         None \<Rightarrow> []
       | Some p \<Rightarrow> [WireSummary (e_DNS p), HttpSummary (e_HTTP p), TlsNegotiation (e_TLS p)]) @
      [ProtocolProof (observedProtocol s) (protocolVariant getenv) (observedProtocol s \<noteq> ''doh2'') (s_LastProof s)])"

definition writeResolverArtifacts :: "env \<Rightarrow> summary \<Rightarrow> artifact list" where
  "writeResolverArtifacts getenv s =
     (if selectedScenario getenv \<noteq> resolverScenario then []
      else [ResolverSummary (s_CompletedOperations s), UpstreamProof])"

definition rejected :: "phase_run \<Rightarrow> bool" where
  "rejected r \<longleftrightarrow> snd r \<noteq> None \<or> s_CompletedOperations (fst r) = 0 \<or> hasFailures (fst r)"

text \<open>What one invocation writes, in order, and its exit code. Every \<^verbatim>\<open>writeRequired\<close> succeeds.\<close>

definition runMain ::
  "env \<Rightarrow> string go \<Rightarrow> go_error option \<Rightarrow> bool \<Rightarrow> phase_env \<Rightarrow> phase_env \<Rightarrow> phase_env \<Rightarrow> (artifact list \<times> nat) option" where
  "runMain getenv endpoint roots validationOnly pre warm load =
     (case checkIdentityOrExit getenv of
        Some r \<Rightarrow> Some r
      | None \<Rightarrow> (case endpoint of
          Inl e \<Rightarrow> Some ([], 2)
        | Inr _ \<Rightarrow> (case roots of
            Some e \<Rightarrow> Some ([], 2)
          | None \<Rightarrow> do {
              preflight \<leftarrow> runPhase getenv pre True;
              let gate = writeEvidence getenv (fst preflight) (snd preflight) @
                [ExecutorIdentity executorID executorVersion [strictScenario, interopScenario, resolverScenario]] @
                writeResolverArtifacts getenv (fst preflight);
              if snd preflight \<noteq> None then Some (gate, 1)
              else if validationOnly then Some (gate, 0)
              else (case loadConfig getenv of
                  Inl e \<Rightarrow> Some (gate, 2)
                | Inr requested \<Rightarrow> do {
                    warmup \<leftarrow> runPhase getenv warm False;
                    let warmed = gate @ [WarmupSummary (fst warmup)];
                    if rejected warmup then Some (warmed, 1)
                    else do {
                      measured \<leftarrow> runPhase getenv load False;
                      let loaded = warmed @ [LoadSummary (fst measured)];
                      if rejected measured then Some (loaded, 1)
                      else do {
                        normalized \<leftarrow> normalizeResult getenv (fst measured) requested;
                        Some (loaded @ [LoadGeneratorIdentity (res_LoadGenerator normalized),
                          ExecutorResult normalized, ResultJson normalized] @
                          writeResolverArtifacts getenv (fst measured), 0)
                      }
                    }
                  })
            })))"

end
