(* ===== verification/Doh2_Interop.thy ===== *)
theory Doh2_Interop
  imports Doh2_Target Doh2_Executor Secure_Dns_Phase Lab_Certificates
begin

text \<open>
  The DNS-over-HTTPS executor in front of any server and against the DNS-over-HTTPS target: no run
  panics, an accepted exchange received an acceptable answer over a checked connection, and the interface
  to a server (\<open>doh2_server\<close>) is interpreted on the request handler of the target, so that runs of the two
  authoritative scenarios pass; the resolver scenario is refused.
\<close>

section \<open>The executor never panics\<close>

lemma doh2_exchange_total: "\<exists>r. exchange getenv x reused = Some r"
proof -
  have "\<exists>r. validateDNS getenv raw = Some r" for raw using validateDNS_iff by blast
  then show ?thesis
    by (auto simp: exchange_def Let_def split: option.splits sum.splits prod.splits) (metis bind.bind_lunit)+
qed

definition cleanPhase :: "summary \<Rightarrow> bool" where
  "cleanPhase s \<longleftrightarrow> s_MalformedOperations s = 0 \<and> s_RetryCount s = 0 \<and> s_FailedOperations s = 0 \<and>
     s_TimedOutOperations s = 0 \<and> s_Errors s = Map.empty"

definition failureCount :: "summary \<Rightarrow> int" where
  "failureCount s = s_MalformedOperations s + s_FailedOperations s + s_TimedOutOperations s"

lemma doh2_summary_laws:
  "s_CompletedOperations (recordProof p s) = s_CompletedOperations s + 1" "failureCount (recordProof p s) = failureCount s"
  "s_TotalTransferredBytes (recordProof p s) = s_TotalTransferredBytes s + e_TransferredBytes p"
  "s_LastProof (recordProof p s) = Some p" "cleanPhase (recordProof p s) = cleanPhase s"
  "s_CompletedOperations (classify e s) = s_CompletedOperations s" "failureCount (classify e s) = failureCount s + 1"
  "s_TotalTransferredBytes (classify e s) = s_TotalTransferredBytes s" "s_LastProof (classify e s) = s_LastProof s"
  by (simp_all add: recordProof_def classify_def failureCount_def cleanPhase_def Let_def)

interpretation doh2_loop: phase_loop "\<lambda>x s. exchange getenv x True" "phaseLoop getenv" recordProof classify
  s_CompletedOperations failureCount s_TotalTransferredBytes s_LastProof e_TransferredBytes cleanPhase for getenv
  by unfold_locales (simp_all add: doh2_exchange_total doh2_summary_laws)

lemma doh2_runPhase_total: "\<exists>r. runPhase getenv ph once = Some r"
proof -
  obtain u where u: "exchange getenv (ph_first ph) False = Some u" using doh2_exchange_total by blast
  show ?thesis
  proof (cases u)
    case (Inr p)
    obtain s' err where "phaseLoop getenv (ph_queries ph)
        ((newSummary once)\<lparr>s_ConnectionLatencyMilliseconds := e_ConnectionLatencyMilliseconds p\<rparr>) = Some (s', err)"
      using doh2_loop.loop_total by blast
    with u Inr show ?thesis by (cases once; cases err) (simp_all add: runPhase_def Let_def)
  qed (simp add: runPhase_def u)
qed

lemma doh2_runPhase_proof:
  assumes "runPhase getenv ph False = Some r" "\<not> rejected r"
  shows "s_LastProof (fst r) \<noteq> None"
proof -
  obtain u where u: "exchange getenv (ph_first ph) False = Some u" using doh2_exchange_total by blast
  have r: "snd r = None" "s_CompletedOperations (fst r) \<noteq> 0" using assms(2) by (auto simp: rejected_def)
  with assms(1) u obtain p where p: "u = Inr p" by (cases u) (auto simp: runPhase_def)
  let ?s = "(newSummary False)\<lparr>s_ConnectionLatencyMilliseconds := e_ConnectionLatencyMilliseconds p\<rparr>"
  obtain s' err where l: "phaseLoop getenv (ph_queries ph) ?s = Some (s', err)" using doh2_loop.loop_total by blast
  with assms(1) u p r have "fst r = s'\<lparr>s_DurationSeconds := ph_seconds ph\<rparr>" "s_CompletedOperations s' \<noteq> 0"
    by (auto simp: runPhase_def Let_def split: option.splits)
  with doh2_loop.loop_accounts [OF l] show ?thesis by (auto simp: newSummary_def)
qed

section \<open>The interface to a server\<close>

text \<open>The executor relies on a server that answers the fixture request with a response whose head and
  body pass the checks of the authoritative scenarios, over a connection whose TLS state passes them.\<close>

type_synonym doh2_serve = "client_request \<Rightarrow> h2_response go"

definition authoritative :: "env \<Rightarrow> bool" where
  "authoritative getenv \<longleftrightarrow> selectedScenario getenv \<in> {strictScenario, interopScenario}"

lemma doh2_authoritative:
  assumes "authoritative getenv"
  shows "selectedScenario getenv \<noteq> resolverScenario"
    "canonicalFixture getenv = (Doh2_Wire.canonicalQuery, Doh2_Wire.canonicalResponse, Doh2_Wire.queryHash, Doh2_Wire.responseHash)"
    "expectedFlags getenv = 0x8400"
  using assms by (auto simp: authoritative_def strictScenario_def interopScenario_def resolverScenario_def
      canonicalFixture_def expectedFlags_def)

definition queryServed :: "doh2_serve \<Rightarrow> tls_state \<Rightarrow> bool \<Rightarrow> exchange_env \<Rightarrow> bool" where
  "queryServed serve st reused x \<longleftrightarrow> x_newRequest x = None \<and> x_do x = serve \<and> x_tls x = Some st \<and> x_reused x = reused"

locale doh2_server =
  fixes serve :: doh2_serve and st :: tls_state and response :: h2_response and body :: bytes
  assumes answers: "serve (buildRequest Doh2_Wire.canonicalQuery) = Inr response"
    and proto: "p_ProtoMajor response = 2" "p_ProtoMinor response = 0"
    and status: "p_StatusCode response = 200"
    and headers: "headerGet (p_Header response) ''Content-Type'' = Doh2_Executor.mediaType"
      "headerGet (p_Header response) ''Cache-Control'' = ''no-store''"
    and content: "fst (readAllLimited 65536 (p_Body response)) = Inr body" "answerMessage 0x8400 body"
    and session: "tlsFailures getenv st (observeTLS getenv st) = []"
begin

definition proven :: "exchange_proof \<Rightarrow> bool" where
  "proven p \<longleftrightarrow> e_TransferredBytes p = int (27 + length body) \<and> p_Answer (e_DNS p) = ''192.0.2.1'' \<and>
     p_ResponseRawLengthBytes (e_DNS p) = length body \<and> h_Version (e_HTTP p) = ''HTTP/2.0'' \<and> h_StatusCode (e_HTTP p) = 200"

lemma exchange_answered:
  assumes "authoritative getenv" "queryServed serve st reused x"
  shows "\<exists>p. exchange getenv x reused = Some (Inr p) \<and> proven p"
proof -
  note a = doh2_authoritative [OF assms(1)]
  have t: "protoText response = ''HTTP/2.0''" by (simp add: protoText_def proto itoa.simps char_of_def bit_0)
  have h: "headFailure getenv response reused reused = None"
    by (simp add: headFailure_def httpProofOf_def t proto status headers Let_def)
  have v: "validateTLS getenv (Some st) = Inr (observeTLS getenv st)" by (simp add: validateTLS_def session Let_def)
  have d: "validateDNS getenv body = Some (Inr (acceptedProof getenv body))"
    using validateDNS_iff [of getenv body "acceptedProof getenv body"] content(2) a(3) by auto
  show ?thesis
    using assms(2) a answers content h v d
    by (simp add: exchange_def queryServed_def proven_def httpProofOf_def acceptedProof_def t status Let_def)
qed

definition servedPhase :: "phase_env \<Rightarrow> bool" where
  "servedPhase ph \<longleftrightarrow> queryServed serve st False (ph_first ph) \<and> list_all (queryServed serve st True) (ph_queries ph)"

lemma phase_answered:
  assumes "authoritative getenv" "servedPhase ph"
  shows "\<exists>s. runPhase getenv ph False = Some (s, None) \<and> cleanPhase s \<and>
    s_CompletedOperations s = int (length (ph_queries ph)) \<and>
    s_TotalTransferredBytes s = int (27 + length body) * int (length (ph_queries ph)) \<and>
    (ph_queries ph \<noteq> [] \<longrightarrow> (\<exists>p. s_LastProof s = Some p \<and> proven p))"
proof -
  obtain p where p: "exchange getenv (ph_first ph) False = Some (Inr p)"
    using exchange_answered [OF assms(1)] assms(2) by (fastforce simp: servedPhase_def)
  let ?s = "(newSummary False)\<lparr>s_ConnectionLatencyMilliseconds := e_ConnectionLatencyMilliseconds p\<rparr>"
  have c: "cleanPhase ?s" by (simp add: newSummary_def cleanPhase_def)
  have b: "e_TransferredBytes p = int (27 + length body)" if "proven p" for p using that by (simp add: proven_def)
  have q: "\<exists>p. exchange getenv x True = Some (Inr p) \<and> proven p" if "x \<in> set (ph_queries ph)" for x and s :: summary
    using that assms(2) exchange_answered [OF assms(1)] by (auto simp: servedPhase_def list_all_iff)
  obtain s' where "phaseLoop getenv (ph_queries ph) ?s = Some (s', None)" "cleanPhase s'"
    "s_CompletedOperations s' = s_CompletedOperations ?s + int (length (ph_queries ph))"
    "s_TotalTransferredBytes s' = s_TotalTransferredBytes ?s + int (27 + length body) * int (length (ph_queries ph))"
    "if ph_queries ph = [] then s' = ?s else \<exists>p. s_LastProof s' = Some p \<and> proven p"
    using doh2_loop.loop_succeeds [of "ph_queries ph" getenv proven "int (27 + length body)" ?s] q b c by blast
  with p show ?thesis by (auto simp: runPhase_def Let_def cleanPhase_def newSummary_def split: if_splits)
qed

lemma preflight_answered:
  assumes "authoritative getenv" "servedPhase ph"
  shows "\<exists>s. runPhase getenv ph True = Some (s, None)"
proof -
  obtain p where "exchange getenv (ph_first ph) False = Some (Inr p)"
    using exchange_answered [OF assms(1)] assms(2) by (fastforce simp: servedPhase_def)
  then show ?thesis by (simp add: runPhase_def Let_def)
qed

end

section \<open>The target as a server\<close>

text \<open>The transport sends the request over an HTTP/2 connection with a full TLS 1.3 handshake to the path
  of the endpoint, which \<open>normalizeTarget\<close> sets to the one below in every endpoint it returns.\<close>

definition toServer :: "client_request \<Rightarrow> doh_request" where
  "toServer cr = \<lparr>q_ProtoMajor = 2, q_TLSVersion = Some 0x304, q_ALPN = ''h2'', q_Method = cr_Method cr,
     q_Path = ''/dns-query'', q_Header = cr_Header cr, q_Host = cr_Host cr, q_DidResume = False\<rparr>"

definition targetServe :: doh2_serve where
  "targetServe cr = Inr (respond (toServer cr) (cr_Body cr))"

definition shippedCertificate :: certificate where
  "shippedCertificate = \<lparr>ct_Raw = dotLeaf, ct_SPKI = dotLeafKey, ct_SignatureAlgorithm = ''ECDSA-SHA256'',
     ct_PublicKeyAlgorithm = ''ECDSA'', ct_Curve = ''P-256''\<rparr>"

definition fullSession :: tls_state where
  "fullSession = \<lparr>ts_Version = 0x304, ts_CipherSuite = ''TLS_AES_128_GCM_SHA256'', ts_Protocol = ''h2'',
     ts_HandshakeComplete = True, ts_DidResume = False, ts_Peers = [shippedCertificate], ts_VerifiedChains = 1\<rparr>"

lemma doh2_session_valid: "tlsFailures getenv fullSession (observeTLS getenv fullSession) = []"
  by (simp add: tlsFailures_def observeTLS_def fullSession_def shippedCertificate_def Let_def requiredCipher_def
      Doh2_Wire.hash_def dotLeaf_digest dotLeafKey_digest leafDERHash_def leafSPKIHash_def)

lemma doh2_agree:
  "Doh2_Target.canonicalResponse = Doh2_Wire.canonicalResponse" "Doh2_Target.mediaType = Doh2_Executor.mediaType"
  "Doh2_Wire.canonicalResponse = Doq_Wire.canonicalResponse" "sha256HexText = Doh2_Wire.hash"
  "Doh2_Target.queryHash = Doh2_Wire.queryHash"
  by (simp_all add: fun_eq_iff Doh2_Target.canonicalResponse_def Doh2_Wire.canonicalResponse_def Doq_Wire.canonicalResponse_def
      Doh2_Target.mustHex_def Doh2_Wire.mustHex_def Doq_Wire.mustHex_def Doh2_Target.mediaType_def Doh2_Executor.mediaType_def
      sha256HexText_def digest_def Doh2_Wire.hash_def sha256Hex_def Doh2_Target.queryHash_def Doh2_Wire.queryHash_def
      del: doh2_lengths doq_lengths)

lemma doh2_query_head: "Doh2_Wire.canonicalQuery ! 0 = 0" "Doh2_Wire.canonicalQuery ! 1 = 0"
  by (simp_all add: Doh2_Wire.canonicalQuery_def Doh2_Wire.mustHex_def hexVal_def)

lemma doh2_exact:
  "exactRequest (toServer (buildRequest query))" "fixtureQuery Doh2_Wire.canonicalQuery"
  by (simp_all add: exactRequest_def toServer_def buildRequest_def serverName_def doh2_agree equalFold_def toLower_def lowerChar_def
      fixtureQuery_def doh2_query_digest doh2_query_head doh2_query_head [simplified])

interpretation doh2_target: doh2_server targetServe fullSession
  "respond (toServer (buildRequest Doh2_Wire.canonicalQuery)) Doh2_Wire.canonicalQuery" Doh2_Wire.canonicalResponse
proof unfold_locales
  let ?r = "respond (toServer (buildRequest Doh2_Wire.canonicalQuery)) Doh2_Wire.canonicalQuery"
  note served = doh2_served [OF doh2_exact(1) doh2_exact(2), of Doh2_Wire.canonicalQuery, unfolded doh2_agree(1,2)]
  show "targetServe (buildRequest Doh2_Wire.canonicalQuery) = Inr ?r" by (simp add: targetServe_def buildRequest_def)
  show "p_ProtoMajor ?r = 2" "p_ProtoMinor ?r = 0" by (simp_all add: respond_def finishResponse_def Let_def)
  show "p_StatusCode ?r = 200" "headerGet (p_Header ?r) ''Content-Type'' = Doh2_Executor.mediaType"
    "headerGet (p_Header ?r) ''Cache-Control'' = ''no-store''" using served by blast+
  show "fst (readAllLimited 65536 (p_Body ?r)) = Inr Doh2_Wire.canonicalResponse"
    using served by (simp add: readAllLimited_def)
  show "answerMessage 0x8400 Doh2_Wire.canonicalResponse" unfolding doh2_agree(3) by (rule canonical_answer)
  show "tlsFailures getenv fullSession (observeTLS getenv fullSession) = []" for getenv by (rule doh2_session_valid)
qed

section \<open>The properties\<close>

text \<open>C24: A run of the DNS-over-HTTPS command against the target passes, for the strict and for the
  interoperability scenario: when the selection and the load profile are accepted, every connection has
  the full TLS session with the certificate of the lab, is opened by the first query of its phase and
  reused by the others, and every query is served by the handler of the target, the exit code is 0, the
  last file written is the result, and it counts exactly the queries of the measured loop with 70 bytes
  each and no failure of any kind.\<close>

theorem doh2_run_interop:
  assumes "authoritative getenv" "checkIdentityOrExit getenv = None" "loadConfig getenv = Inr requested"
    and "\<And>ph. ph \<in> {pre, warm, load} \<Longrightarrow> queryServed targetServe fullSession False (ph_first ph) \<and>
      list_all (queryServed targetServe fullSession True) (ph_queries ph)"
    and "ph_queries warm \<noteq> []" "ph_queries load \<noteq> []"
  shows "\<exists>res written. runMain getenv (Inr endpoint) None False pre warm load = Some (written @ [ResultJson res], 0) \<and>
    res_Status res = ''passed'' \<and> h_Version (e_HTTP (res_Proof res)) = ''HTTP/2.0'' \<and>
    m_CompletedOperations (res_Metrics res) = int (length (ph_queries load)) \<and>
    m_TotalTransferredBytes (res_Metrics res) = 70 * int (length (ph_queries load)) \<and>
    m_MalformedOperations (res_Metrics res) = 0 \<and> m_RetryCount (res_Metrics res) = 0 \<and>
    m_FailedOperations (res_Metrics res) = 0 \<and> m_TimedOutOperations (res_Metrics res) = 0"
proof -
  have served: "doh2_target.servedPhase pre" "doh2_target.servedPhase warm" "doh2_target.servedPhase load"
    unfolding doh2_target.servedPhase_def by (rule assms(4), blast)+
  obtain s0 where a: "runPhase getenv pre True = Some (s0, None)"
    using doh2_target.preflight_answered [OF assms(1) served(1)] by blast
  obtain s1 where b: "runPhase getenv warm False = Some (s1, None)" "cleanPhase s1"
      "s_CompletedOperations s1 = int (length (ph_queries warm))"
    using doh2_target.phase_answered [OF assms(1) served(2)] by blast
  obtain s2 p where m: "runPhase getenv load False = Some (s2, None)" "cleanPhase s2" "s_LastProof s2 = Some p"
      "doh2_target.proven p" "s_CompletedOperations s2 = int (length (ph_queries load))"
      "s_TotalTransferredBytes s2 = int (27 + length Doh2_Wire.canonicalResponse) * int (length (ph_queries load))"
    using doh2_target.phase_answered [OF assms(1) served(3)] assms(6) by blast
  have ok: "rejected (s1, None) = False" "rejected (s2, None) = False"
    using b m assms(5,6) by (simp_all add: rejected_def hasFailures_def cleanPhase_def)
  have w: "writeResolverArtifacts getenv s = []" for s
    using doh2_authoritative(1) [OF assms(1)] by (simp add: writeResolverArtifacts_def)
  obtain res where n: "normalizeResult getenv s2 requested = Some res" "res_Status res = ''passed''"
      "e_HTTP (res_Proof res) = e_HTTP p" "res_Metrics res = metricsOf s2"
    using m(3) by (simp add: normalizeResult_def Let_def)
  have "\<exists>written. runMain getenv (Inr endpoint) None False pre warm load = Some (written @ [ResultJson res], 0)"
    unfolding runMain_def assms(2,3) option.case sum.case a b(1) m(1) Option.bind.simps Let_def fst_conv snd_conv ok n(1) w if_False
    by simp
  with n m show ?thesis by (auto simp: metricsOf_def cleanPhase_def doh2_target.proven_def)
qed

text \<open>Whatever a server answers, a query the DNS-over-HTTPS executor counts was answered over HTTP/2
  with status 200 and the media type of DNS messages, by a body that is an acceptable answer with the
  flags of the scenario, over a TLS connection without a failed check, reused exactly when it should be.\<close>

theorem doh2_exchange_sound:
  assumes "exchange getenv x reused = Some (Inr p)"
  shows "\<exists>r body st. x_do x (buildRequest (fst (canonicalFixture getenv))) = Inr r \<and>
    fst (readAllLimited 65536 (p_Body r)) = Inr body \<and> answerMessage (expectedFlags getenv) body \<and>
    p_ProtoMajor r = 2 \<and> p_StatusCode r = 200 \<and> headerGet (p_Header r) ''Content-Type'' = Doh2_Executor.mediaType \<and>
    x_tls x = Some st \<and> tlsFailures getenv st (observeTLS getenv st) = [] \<and> x_reused x = reused \<and>
    e_TransferredBytes p = int (27 + length body)"
proof -
  let ?q = "fst (canonicalFixture getenv)"
  have l: "length ?q = 27" by (simp add: canonicalFixture_def)
  obtain q c qh ch where fx: "canonicalFixture getenv = (q, c, qh, ch)" by (metis prod_cases4)
  from assms obtain r body tv where
    x: "x_do x (buildRequest q) = Inr r" "fst (readAllLimited 65536 (p_Body r)) = Inr body"
      "validateTLS getenv (x_tls x) = Inr tv" "headFailure getenv r reused (x_reused x) = None"
    by (auto simp: exchange_def fx split: option.splits sum.splits if_splits)
  obtain d where d: "validateDNS getenv body = Some d" using validateDNS_iff by blast
  from assms x d obtain dns where
    z: "d = Inr dns" "e_TransferredBytes p = int (length q + length body)"
    by (cases d) (auto simp: exchange_def fx split: option.splits if_splits)
  have "answerMessage (expectedFlags getenv) body" using validateDNS_iff [of getenv body dns] d z(1) by auto
  moreover have "p_ProtoMajor r = 2 \<and> p_StatusCode r = 200 \<and> headerGet (p_Header r) ''Content-Type'' = Doh2_Executor.mediaType \<and>
      x_reused x = reused"
    using x(4) by (auto simp: headFailure_def httpProofOf_def Let_def split: if_splits)
  moreover have "\<exists>st. x_tls x = Some st \<and> tlsFailures getenv st (observeTLS getenv st) = []"
    using x(3) by (auto simp: validateTLS_def Let_def split: option.splits if_splits)
  ultimately show ?thesis using x(1,2) z(2) l fx by auto
qed

text \<open>The DNS-over-HTTPS command always ends with an exit code: no environment, server, library error
  or body makes it panic.\<close>

theorem doh2_main_returns:
  "\<exists>written code. runMain getenv endpoint roots validationOnly pre warm load = Some (written, code) \<and> code \<in> {0, 1, 2, 3}"
proof -
  obtain s0 e0 where a: "runPhase getenv pre True = Some (s0, e0)" using doh2_runPhase_total [of getenv pre True] by auto
  obtain r1 where b: "runPhase getenv warm False = Some r1" using doh2_runPhase_total by blast
  obtain r2 where m: "runPhase getenv load False = Some r2" using doh2_runPhase_total by blast
  have n: "\<exists>res. normalizeResult getenv (fst r2) requested = Some res" if "\<not> rejected r2" for requested
    using doh2_runPhase_proof [OF m that] by (auto simp: normalizeResult_def Let_def)
  have i: "code \<in> {2, 3}" if "checkIdentityOrExit getenv = Some (written, code)" for written code
    using that by (auto simp: checkIdentityOrExit_def Let_def split: if_splits)
  show ?thesis
  proof (cases "checkIdentityOrExit getenv")
    case (Some r)
    with i show ?thesis by (cases r) (auto simp: runMain_def)
  next
    case None
    have p: "\<exists>written code. runMain getenv (Inr ad) None validationOnly pre warm load = Some (written, code) \<and> code \<in> {0, 1, 2, 3}" for ad
    proof (cases "loadConfig getenv")
      case (Inl e)
      then show ?thesis unfolding runMain_def None option.case sum.case a Option.bind.simps Let_def by simp
    next
      case (Inr requested)
      show ?thesis unfolding runMain_def None Inr option.case sum.case a b m Option.bind.simps Let_def
        using n [of requested] by auto
    qed
    with None show ?thesis by (cases endpoint; cases roots) (simp_all add: runMain_def)
  qed
qed

section \<open>A concrete run\<close>

definition sampleQuery :: "bool \<Rightarrow> exchange_env" where
  "sampleQuery reused = \<lparr>x_flush = \<lparr>f_parse = Inl EOF, f_post = (\<lambda>_. Inl EOF)\<rparr>, x_newRequest = None, x_do = targetServe,
     x_reused = reused, x_tls = Some fullSession, x_connNanos = 3000000, x_firstNanos = 150000, x_nanos = 200000\<rparr>"

definition samplePhase :: "nat \<Rightarrow> phase_env" where
  "samplePhase n = \<lparr>ph_first = sampleQuery False, ph_queries = replicate n (sampleQuery True), ph_seconds = 5\<rparr>"

definition smokeEnv :: env where
  "smokeEnv name =
     (case map_of [(''PLAB_LOAD_PROFILE_ID'', ''secure-dns-smoke''), (''PLAB_CONNECTIONS'', ''1''), (''PLAB_CONCURRENCY'', ''1''),
        (''PLAB_STREAMS_PER_CONNECTION'', ''1''), (''PLAB_DURATION_SECONDS'', ''5''), (''PLAB_WARMUP_SECONDS'', ''1''),
        (''PLAB_REPETITION'', ''1'')] name of
        None \<Rightarrow> '''' | Some v \<Rightarrow> v)"

lemma samplePhase_queries:
  "queryServed targetServe fullSession False (ph_first (samplePhase n)) \<and>
     list_all (queryServed targetServe fullSession True) (ph_queries (samplePhase n))"
  by (simp add: samplePhase_def sampleQuery_def queryServed_def list_all_iff)

lemma doh2_env_accepted:
  "selectedScenario smokeEnv = strictScenario" "checkIdentityOrExit smokeEnv = None" "\<exists>r. loadConfig smokeEnv = Inr r"
proof -
  show s: "selectedScenario smokeEnv = strictScenario" by (simp add: selectedScenario_def smokeEnv_def trimSpace_def)
  have v: "verifySubstitution smokeEnv ''PLAB_EXECUTOR_ID'' x" "verifySubstitution smokeEnv ''PLAB_EXECUTOR_VERSION'' x"
    "verifySubstitution smokeEnv ''PLAB_LOAD_GENERATOR_ID'' x" "verifySubstitution smokeEnv ''PLAB_LOAD_GENERATOR_VERSION'' x"
    "verifySubstitution smokeEnv ''PLAB_PROTOCOL'' x" "verifySubstitution smokeEnv ''PLAB_PROTOCOL_VARIANT'' x"
    "trimSpace (smokeEnv ''PLAB_SCENARIO_ID'') = []" for x
    by (simp_all add: verifySubstitution_def smokeEnv_def trimSpace_def)
  show "checkIdentityOrExit smokeEnv = None" by (simp add: checkIdentityOrExit_def v supportedScenarios_def Let_def)
  show "\<exists>r. loadConfig smokeEnv = Inr r"
    by (simp add: loadConfig_def s supportedScenarios_def)
      (simp add: smokeEnv_def trimSpace_def isSpace_def supportedProfile_def envInt_def atoi_def parseSigned_def)
qed

theorem doh2_run_interop_witness:
  "\<exists>res written. runMain smokeEnv (Inr ''https://127.0.0.1:18531/dns-query'') None False (samplePhase 0) (samplePhase 1) (samplePhase 4) =
      Some (written @ [ResultJson res], 0) \<and> m_CompletedOperations (res_Metrics res) = 4 \<and>
    m_TotalTransferredBytes (res_Metrics res) = 280"
proof -
  obtain r where r: "loadConfig smokeEnv = Inr r" using doh2_env_accepted(3) by blast
  have a: "authoritative smokeEnv" by (simp add: authoritative_def doh2_env_accepted(1))
  have p: "queryServed targetServe fullSession False (ph_first ph) \<and> list_all (queryServed targetServe fullSession True) (ph_queries ph)"
    if "ph \<in> {samplePhase 0, samplePhase 1, samplePhase 4}" for ph
  proof -
    from that obtain n where "ph = samplePhase n" by blast
    then show ?thesis using samplePhase_queries [of n] by simp
  qed
  have n: "ph_queries (samplePhase 1) \<noteq> []" "ph_queries (samplePhase 4) \<noteq> []" "length (ph_queries (samplePhase 4)) = 4"
    by (simp_all add: samplePhase_def)
  from doh2_run_interop [where endpoint = "''https://127.0.0.1:18531/dns-query''" and pre = "samplePhase 0",
      OF a doh2_env_accepted(2) r p n(1,2)] n(3)
  show ?thesis by fastforce
qed

theorem doh2_exchange_sound_witness:
  "\<exists>p body. exchange smokeEnv (sampleQuery True) True = Some (Inr p) \<and> answerMessage (expectedFlags smokeEnv) body \<and>
     e_TransferredBytes p = int (27 + length body)"
proof -
  have a: "authoritative smokeEnv" by (simp add: authoritative_def doh2_env_accepted(1))
  have q: "queryServed targetServe fullSession True (sampleQuery True)" by (simp add: queryServed_def sampleQuery_def)
  obtain p where p: "exchange smokeEnv (sampleQuery True) True = Some (Inr p)"
    using doh2_target.exchange_answered [OF a q] by blast
  from doh2_exchange_sound [OF p] p show ?thesis by blast
qed

end
