(* ===== verification/Doh3_Fixtures.thy ===== *)
theory Doh3_Fixtures
  imports Go_Sha256
begin

text \<open>
  The fixtures of DNS over HTTP/3, \<^verbatim>\<open>executors/go-dns-doh3-executor/source/fixtures.go\<close>; the file
  \<^verbatim>\<open>implementations/go-dns-doh3/source/fixtures.go\<close> of the target is the same text. Eight scenarios,
  each with a query and a response in hexadecimal and their digests, the value of the GET parameter, and
  the checks that use the DNS library, whose \<^verbatim>\<open>Unpack\<close> is an argument.
\<close>

section \<open>The table\<close>

record fixture =
  f_ScenarioID :: string
  f_FixtureID :: string
  f_Method :: string
  f_QueryHex :: string
  f_ResponseHex :: string
  f_QueryHash :: string
  f_ResponseHash :: string
  f_QuestionName :: string
  f_QuestionType :: string
  f_RCode :: string
  f_Answer :: string

definition hexQueryQueryA :: string where
  "hexQueryQueryA =
    ''00000000000100000000000004706c616204746573740000010001''"

definition hexResponseQueryA :: string where
  "hexResponseQueryA =
    (''00008400000100010000000004706c616204746573740000010001c00c00010001000000000004c0'' @
     ''000201'')"

definition queryA :: fixture where
  "queryA =
     \<lparr>f_ScenarioID = ''dns.doh3.query.a'', f_FixtureID = ''dns.plab-test-a.canonical'', f_Method = ''POST'',
      f_QueryHex = hexQueryQueryA, f_ResponseHex = hexResponseQueryA,
      f_QueryHash = ''c46b9fb76019b5a644d0884b17e816cb7c3076275d9468c27d180f70488eb8ec'',
      f_ResponseHash = ''9d488461675ad5ab9f74c7b203861e1ad17521e413a407a25e6611012a595620'',
      f_QuestionName = ''plab.test.'', f_QuestionType = ''A'', f_RCode = ''NOERROR'',
      f_Answer = ''192.0.2.1''\<rparr>"

definition interoperabilityA :: fixture where
  "interoperabilityA =
     \<lparr>f_ScenarioID = ''dns.doh3.interoperability.query.a'', f_FixtureID = ''dns.plab-test-a.canonical'', f_Method = ''POST'',
      f_QueryHex = hexQueryQueryA, f_ResponseHex = hexResponseQueryA,
      f_QueryHash = ''c46b9fb76019b5a644d0884b17e816cb7c3076275d9468c27d180f70488eb8ec'',
      f_ResponseHash = ''9d488461675ad5ab9f74c7b203861e1ad17521e413a407a25e6611012a595620'',
      f_QuestionName = ''plab.test.'', f_QuestionType = ''A'', f_RCode = ''NOERROR'',
      f_Answer = ''192.0.2.1''\<rparr>"

definition getA :: fixture where
  "getA =
     \<lparr>f_ScenarioID = ''dns.doh3.get.a'', f_FixtureID = ''dns.plab-test-a-v2.canonical'', f_Method = ''GET'',
      f_QueryHex = hexQueryQueryA, f_ResponseHex = hexResponseQueryA,
      f_QueryHash = ''c46b9fb76019b5a644d0884b17e816cb7c3076275d9468c27d180f70488eb8ec'',
      f_ResponseHash = ''9d488461675ad5ab9f74c7b203861e1ad17521e413a407a25e6611012a595620'',
      f_QuestionName = ''plab.test.'', f_QuestionType = ''A'', f_RCode = ''NOERROR'',
      f_Answer = ''192.0.2.1''\<rparr>"

definition hexQueryQueryAAAA :: string where
  "hexQueryQueryAAAA =
    ''00000000000100000000000004706c6162047465737400001c0001''"

definition hexResponseQueryAAAA :: string where
  "hexResponseQueryAAAA =
    (''00008400000100010000000004706c6162047465737400001c0001c00c001c000100000000001020'' @
     ''010db8000000000000000000000001'')"

definition queryAAAA :: fixture where
  "queryAAAA =
     \<lparr>f_ScenarioID = ''dns.doh3.query.aaaa'', f_FixtureID = ''dns.plab-test-aaaa.canonical'', f_Method = ''POST'',
      f_QueryHex = hexQueryQueryAAAA, f_ResponseHex = hexResponseQueryAAAA,
      f_QueryHash = ''71a4f6add06b9f00589f84add45f19dc12b91699436287f8dbefb73f01931b69'',
      f_ResponseHash = ''6ab207b08c4dd2c1a902d8d15276e79f6ec6916b043f25a3df851b146d7b072c'',
      f_QuestionName = ''plab.test.'', f_QuestionType = ''AAAA'', f_RCode = ''NOERROR'',
      f_Answer = ''2001:db8::1''\<rparr>"

definition hexQueryCnameChain :: string where
  "hexQueryCnameChain =
    ''00000000000100000000000005616c69617304706c616204746573740000010001''"

definition hexResponseCnameChain :: string where
  "hexResponseCnameChain =
    (''00008400000100020000000005616c69617304706c616204746573740000010001c00c0005000100'' @
     ''00000000120674617267657404706c61620474657374000674617267657404706c61620474657374'' @
     ''0000010001000000000004c0000201'')"

definition cnameChain :: fixture where
  "cnameChain =
     \<lparr>f_ScenarioID = ''dns.doh3.query.cname-chain'', f_FixtureID = ''dns.alias-plab-test-cname-chain.canonical'', f_Method = ''POST'',
      f_QueryHex = hexQueryCnameChain, f_ResponseHex = hexResponseCnameChain,
      f_QueryHash = ''381c93525a301b3f5a9af24a453840cdd6d58695ba91556f6b9bb2e9da7e4a3a'',
      f_ResponseHash = ''2b785cc8e748778dc0187d876f2829ac36e3e8fd1ce5d338053966522922648b'',
      f_QuestionName = ''alias.plab.test.'', f_QuestionType = ''A'', f_RCode = ''NOERROR'',
      f_Answer = ''alias.plab.test. CNAME target.plab.test.; target.plab.test. A 192.0.2.1''\<rparr>"

definition hexQueryLargeDnssec :: string where
  "hexQueryLargeDnssec =
    (''00000000000100000000000106646e736b657904706c616204746573740000300001000029020000'' @
     ''0080000000'')"

definition hexResponseLargeDnssec :: string where
  "hexResponseLargeDnssec =
    (''00008400000100070000000106646e736b657904706c616204746573740000300001c00c00300001'' @
     ''0000000000440101030d010101010101010101010101010101010101010101010101010101010101'' @
     ''01010101010101010101010101010101010101010101010101010101010101010101c00c00300001'' @
     ''0000000000440101030d020202020202020202020202020202020202020202020202020202020202'' @
     ''02020202020202020202020202020202020202020202020202020202020202020202c00c00300001'' @
     ''0000000000440101030d030303030303030303030303030303030303030303030303030303030303'' @
     ''03030303030303030303030303030303030303030303030303030303030303030303c00c00300001'' @
     ''0000000000440101030d040404040404040404040404040404040404040404040404040404040404'' @
     ''04040404040404040404040404040404040404040404040404040404040404040404c00c00300001'' @
     ''0000000000440101030d050505050505050505050505050505050505050505050505050505050505'' @
     ''05050505050505050505050505050505050505050505050505050505050505050505c00c00300001'' @
     ''0000000000440101030d060606060606060606060606060606060606060606060606060606060606'' @
     ''06060606060606060606060606060606060606060606060606060606060606060606c00c002e0001'' @
     ''00000000005d00300d030000000077359400713fb300303904706c6162047465737400a5a5a5a5a5'' @
     ''a5a5a5a5a5a5a5a5a5a5a5a5a5a5a5a5a5a5a5a5a5a5a5a5a5a5a5a5a5a5a5a5a5a5a5a5a5a5a5a5'' @
     ''a5a5a5a5a5a5a5a5a5a5a5a5a5a5a5a5a5a5a50000290200000080000000'')"

definition largeDnssec :: fixture where
  "largeDnssec =
     \<lparr>f_ScenarioID = ''dns.doh3.query.large-dnssec-shaped'', f_FixtureID = ''dns.dnskey-plab-test-large-edns-dnssec-shaped.canonical'', f_Method = ''POST'',
      f_QueryHex = hexQueryLargeDnssec, f_ResponseHex = hexResponseLargeDnssec,
      f_QueryHash = ''7445dfa148164c2ee02186b962f735847e9d62f46414287ebf5cf6a3dfce9e4f'',
      f_ResponseHash = ''1cc5bafd114a4f34d824c01a685b04e82cae6110c648046c461d3688782e8665'',
      f_QuestionName = ''dnskey.plab.test.'', f_QuestionType = ''DNSKEY'', f_RCode = ''NOERROR'',
      f_Answer = ''DNSKEY-and-RRSIG-shaped-record-set''\<rparr>"

definition hexQueryNodata :: string where
  "hexQueryNodata =
    ''00000000000100000000000004706c616204746573740000100001''"

definition hexResponseNodata :: string where
  "hexResponseNodata =
    (''00008400000100000001000004706c61620474657374000010000104706c61620474657374000006'' @
     ''0001000000000038026e7304706c61620474657374000a686f73746d617374657204706c61620474'' @
     ''657374000000000100000e10000002580001518000000000'')"

definition nodata :: fixture where
  "nodata =
     \<lparr>f_ScenarioID = ''dns.doh3.query.nodata'', f_FixtureID = ''dns.plab-test-txt-nodata.canonical'', f_Method = ''POST'',
      f_QueryHex = hexQueryNodata, f_ResponseHex = hexResponseNodata,
      f_QueryHash = ''81902ef4d65703055001add4228c06b683f93f3506bc896963d7334d6fcedeef'',
      f_ResponseHash = ''dcd160b39184623116b119ef1e83470d3ced747e4e9a4d488316a57e08847c7c'',
      f_QuestionName = ''plab.test.'', f_QuestionType = ''TXT'', f_RCode = ''NOERROR'',
      f_Answer = ''NOERROR/NODATA''\<rparr>"

definition hexQueryNxdomain :: string where
  "hexQueryNxdomain =
    ''000000000001000000000000076d697373696e6704706c616204746573740000010001''"

definition hexResponseNxdomain :: string where
  "hexResponseNxdomain =
    (''000084030001000000010000076d697373696e6704706c61620474657374000001000104706c6162'' @
     ''04746573740000060001000000000038026e7304706c61620474657374000a686f73746d61737465'' @
     ''7204706c61620474657374000000000100000e10000002580001518000000000'')"

definition nxdomain :: fixture where
  "nxdomain =
     \<lparr>f_ScenarioID = ''dns.doh3.query.nxdomain'', f_FixtureID = ''dns.missing-plab-test-nxdomain.canonical'', f_Method = ''POST'',
      f_QueryHex = hexQueryNxdomain, f_ResponseHex = hexResponseNxdomain,
      f_QueryHash = ''c3631fbb40f06d7230de8cd5f22f5950e2fb728b02bd8724cdcaaee8fb33b5c4'',
      f_ResponseHash = ''587769ddca87bf6e758044ecfe73e847e635eace1ce1ea8a5cd38b1c225d8d23'',
      f_QuestionName = ''missing.plab.test.'', f_QuestionType = ''A'', f_RCode = ''NXDOMAIN'',
      f_Answer = ''NXDOMAIN''\<rparr>"

text \<open>The map from scenario names to fixtures, as the list of its values: every key is the scenario name of
  its value.\<close>

definition fixtures :: "fixture list" where
  "fixtures = [queryA, interoperabilityA, getA, queryAAAA, cnameChain, largeDnssec, nodata, nxdomain]"

definition bytesOf :: "string \<Rightarrow> bytes" where
  \<comment> \<open>an undecodable constant panics; every constant of the table decodes\<close>
  "bytesOf v = (case hexDecode v of Some b \<Rightarrow> b | None \<Rightarrow> [])"

definition hashOf :: "bytes \<Rightarrow> string" where "hashOf v = sha256Hex v"

section \<open>The GET parameter\<close>

text \<open>\<^verbatim>\<open>base64.RawURLEncoding\<close>: the alphabet for URLs, without padding.\<close>

definition urlChar :: "nat \<Rightarrow> char" where
  "urlChar i =
     (if i < 26 then char_of (65 + i) else if i < 52 then char_of (71 + i)
      else if i < 62 then char_of (i - 4) else if i = 62 then CHR ''-'' else CHR ''_'')"

fun rawURLEncode :: "bytes \<Rightarrow> string" where
  "rawURLEncode [] = []"
| "rawURLEncode [a] = [urlChar (unat a div 4), urlChar (unat a mod 4 * 16)]"
| "rawURLEncode [a, b] =
     [urlChar (unat a div 4), urlChar (unat a mod 4 * 16 + unat b div 16), urlChar (unat b mod 16 * 4)]"
| "rawURLEncode (a # b # c # r) =
     urlChar (unat a div 4) # urlChar (unat a mod 4 * 16 + unat b div 16) #
     urlChar (unat b mod 16 * 4 + unat c div 64) # urlChar (unat c mod 64) # rawURLEncode r"

definition getValue :: "fixture \<Rightarrow> string" where
  "getValue f = rawURLEncode (bytesOf (f_QueryHex f))"

section \<open>Checks with the DNS library\<close>

text \<open>What the code reads of a \<^verbatim>\<open>dns.Msg\<close>: its ID, its questions with the names of their types, and the
  name of its response code. The rest of a message is the extension of the record, so that
  \<^verbatim>\<open>reflect.DeepEqual\<close> is equality.\<close>

record dns_msg =
  ms_Id :: nat
  ms_Question :: "(string \<times> string) list"
  ms_Rcode :: string

definition validateFixture :: "(bytes \<Rightarrow> 'a dns_msg_scheme go) \<Rightarrow> fixture \<Rightarrow> go_error option" where
  "validateFixture unpack f =
     (let query = bytesOf (f_QueryHex f); response = bytesOf (f_ResponseHex f) in
      if hashOf query \<noteq> f_QueryHash f \<or> hashOf response \<noteq> f_ResponseHash f
      then Some (Errorf (f_ScenarioID f @ '' canonical hash mismatch''))
      else (case unpack query of
          Inl e \<Rightarrow> Some e
        | Inr q \<Rightarrow> (case unpack response of
            Inl e \<Rightarrow> Some e
          | Inr r \<Rightarrow>
              if ms_Id q \<noteq> 0 \<or> ms_Id r \<noteq> 0 \<or> length (ms_Question q) \<noteq> 1 \<or> fst (hd (ms_Question q)) \<noteq> f_QuestionName f \<or>
                 snd (hd (ms_Question q)) \<noteq> f_QuestionType f \<or> ms_Rcode r \<noteq> f_RCode f
              then Some (Errorf (f_ScenarioID f @ '' semantic mismatch''))
              else None)))"

definition semanticEqual :: "(bytes \<Rightarrow> 'a dns_msg_scheme go) \<Rightarrow> bytes \<Rightarrow> fixture \<Rightarrow> bool" where
  "semanticEqual unpack actual f \<longleftrightarrow>
     (case unpack actual of
        Inl _ \<Rightarrow> False
      | Inr a \<Rightarrow> (case unpack (bytesOf (f_ResponseHex f)) of Inl _ \<Rightarrow> False | Inr e \<Rightarrow> a = e))"

section \<open>The digests of the table\<close>

lemma bytesOf_decode: "hexOk v \<Longrightarrow> hexDecode v = Some (bytesOf v) \<and> length (bytesOf v) = length v div 2"
  using hexDecode_ok [of v] by (auto simp: bytesOf_def)

lemma hashOf_eval:
  assumes "hexOk v" "length v = 2 * n"
    and "hexDecode p = Some ([0x80] @ replicate ((119 - n mod 64) mod 64) 0 @ be64 (of_nat (8 * n)))"
  shows "hashOf (bytesOf v) = hexState (shaAbsorbB (stateBits shaInit) (wordsBits (hexBits (v @ p))))"
  using bytesOf_decode [OF assms(1)] assms(2,3) unfolding hashOf_def by (intro sha256Hex_eval) auto

lemma pad_33:
  "hexDecode ''80000000000000000000000000000000000000000000000000000000000108'' =
     Some ([0x80] @ replicate ((119 - 33 mod 64) mod 64) 0 @ be64 (of_nat (8 * 33)))"
  by code_simp

lemma pad_35:
  "hexDecode ''8000000000000000000000000000000000000000000000000000000118'' =
     Some ([0x80] @ replicate ((119 - 35 mod 64) mod 64) 0 @ be64 (of_nat (8 * 35)))"
  by code_simp

lemma doh3_pad_45:
  "hexDecode ''80000000000000000000000000000000000168'' =
     Some ([0x80] @ replicate ((119 - 45 mod 64) mod 64) 0 @ be64 (of_nat (8 * 45)))"
  by code_simp

lemma pad_55:
  "hexDecode ''8000000000000001b8'' =
     Some ([0x80] @ replicate ((119 - 55 mod 64) mod 64) 0 @ be64 (of_nat (8 * 55)))"
  by code_simp

lemma pad_95:
  "hexDecode ''8000000000000000000000000000000000000000000000000000000000000002f8'' =
     Some ([0x80] @ replicate ((119 - 95 mod 64) mod 64) 0 @ be64 (of_nat (8 * 95)))"
  by code_simp

lemma pad_104:
  "hexDecode ''800000000000000000000000000000000000000000000340'' =
     Some ([0x80] @ replicate ((119 - 104 mod 64) mod 64) 0 @ be64 (of_nat (8 * 104)))"
  by code_simp

lemma pad_112:
  "hexDecode ''80000000000000000000000000000380'' =
     Some ([0x80] @ replicate ((119 - 112 mod 64) mod 64) 0 @ be64 (of_nat (8 * 112)))"
  by code_simp

lemma doh3_pad_630:
  "hexDecode ''800000000000000013b0'' =
     Some ([0x80] @ replicate ((119 - 630 mod 64) mod 64) 0 @ be64 (of_nat (8 * 630)))"
  by code_simp

lemma hexQueryQueryA_digest: "hashOf (bytesOf hexQueryQueryA) = ''c46b9fb76019b5a644d0884b17e816cb7c3076275d9468c27d180f70488eb8ec''"
  unfolding hexQueryQueryA_def
  by (subst hashOf_eval [OF _ _ pad_27]) (simp_all only: sha_eval, simp_all add: hexOk_def hexVal_def)

lemma hexResponseQueryA_digest: "hashOf (bytesOf hexResponseQueryA) = ''9d488461675ad5ab9f74c7b203861e1ad17521e413a407a25e6611012a595620''"
  unfolding hexResponseQueryA_def
  by (subst hashOf_eval [OF _ _ pad_43]) (simp_all only: sha_eval, simp_all add: hexOk_def hexVal_def)

lemma hexQueryQueryAAAA_digest: "hashOf (bytesOf hexQueryQueryAAAA) = ''71a4f6add06b9f00589f84add45f19dc12b91699436287f8dbefb73f01931b69''"
  unfolding hexQueryQueryAAAA_def
  by (subst hashOf_eval [OF _ _ pad_27]) (simp_all only: sha_eval, simp_all add: hexOk_def hexVal_def)

lemma hexResponseQueryAAAA_digest: "hashOf (bytesOf hexResponseQueryAAAA) = ''6ab207b08c4dd2c1a902d8d15276e79f6ec6916b043f25a3df851b146d7b072c''"
  unfolding hexResponseQueryAAAA_def
  by (subst hashOf_eval [OF _ _ pad_55]) (simp_all only: sha_eval, simp_all add: hexOk_def hexVal_def)

lemma hexQueryCnameChain_digest: "hashOf (bytesOf hexQueryCnameChain) = ''381c93525a301b3f5a9af24a453840cdd6d58695ba91556f6b9bb2e9da7e4a3a''"
  unfolding hexQueryCnameChain_def
  by (subst hashOf_eval [OF _ _ pad_33]) (simp_all only: sha_eval, simp_all add: hexOk_def hexVal_def)

lemma hexResponseCnameChain_digest: "hashOf (bytesOf hexResponseCnameChain) = ''2b785cc8e748778dc0187d876f2829ac36e3e8fd1ce5d338053966522922648b''"
  unfolding hexResponseCnameChain_def
  by (subst hashOf_eval [OF _ _ pad_95]) (simp_all only: sha_eval, simp_all add: hexOk_def hexVal_def)

lemma hexQueryLargeDnssec_digest: "hashOf (bytesOf hexQueryLargeDnssec) = ''7445dfa148164c2ee02186b962f735847e9d62f46414287ebf5cf6a3dfce9e4f''"
  unfolding hexQueryLargeDnssec_def
  by (subst hashOf_eval [OF _ _ doh3_pad_45]) (simp_all only: sha_eval, simp_all add: hexOk_def hexVal_def)

lemma hexResponseLargeDnssec_digest: "hashOf (bytesOf hexResponseLargeDnssec) = ''1cc5bafd114a4f34d824c01a685b04e82cae6110c648046c461d3688782e8665''"
  unfolding hexResponseLargeDnssec_def
  by (subst hashOf_eval [OF _ _ doh3_pad_630]) (simp_all only: sha_eval, simp_all add: hexOk_def hexVal_def)

lemma hexQueryNodata_digest: "hashOf (bytesOf hexQueryNodata) = ''81902ef4d65703055001add4228c06b683f93f3506bc896963d7334d6fcedeef''"
  unfolding hexQueryNodata_def
  by (subst hashOf_eval [OF _ _ pad_27]) (simp_all only: sha_eval, simp_all add: hexOk_def hexVal_def)

lemma hexResponseNodata_digest: "hashOf (bytesOf hexResponseNodata) = ''dcd160b39184623116b119ef1e83470d3ced747e4e9a4d488316a57e08847c7c''"
  unfolding hexResponseNodata_def
  by (subst hashOf_eval [OF _ _ pad_104]) (simp_all only: sha_eval, simp_all add: hexOk_def hexVal_def)

lemma hexQueryNxdomain_digest: "hashOf (bytesOf hexQueryNxdomain) = ''c3631fbb40f06d7230de8cd5f22f5950e2fb728b02bd8724cdcaaee8fb33b5c4''"
  unfolding hexQueryNxdomain_def
  by (subst hashOf_eval [OF _ _ pad_35]) (simp_all only: sha_eval, simp_all add: hexOk_def hexVal_def)

lemma hexResponseNxdomain_digest: "hashOf (bytesOf hexResponseNxdomain) = ''587769ddca87bf6e758044ecfe73e847e635eace1ce1ea8a5cd38b1c225d8d23''"
  unfolding hexResponseNxdomain_def
  by (subst hashOf_eval [OF _ _ pad_112]) (simp_all only: sha_eval, simp_all add: hexOk_def hexVal_def)

lemmas fixture_digests = hexQueryQueryA_digest hexResponseQueryA_digest hexQueryQueryAAAA_digest hexResponseQueryAAAA_digest hexQueryCnameChain_digest hexResponseCnameChain_digest hexQueryLargeDnssec_digest hexResponseLargeDnssec_digest hexQueryNodata_digest hexResponseNodata_digest hexQueryNxdomain_digest hexResponseNxdomain_digest

lemmas fixture_defs = queryA_def interoperabilityA_def getA_def queryAAAA_def cnameChain_def largeDnssec_def
  nodata_def nxdomain_def

lemma fixtures_digests:
  "f \<in> set fixtures \<Longrightarrow> hashOf (bytesOf (f_QueryHex f)) = f_QueryHash f \<and> hashOf (bytesOf (f_ResponseHex f)) = f_ResponseHash f"
  by (auto simp: fixtures_def fixture_defs fixture_digests)

lemma hexOk_fixtures:
  "f \<in> set fixtures \<Longrightarrow> hexOk (f_QueryHex f) \<and> length (f_QueryHex f) < 2048"
  by (auto simp: fixtures_def fixture_defs hexQueryQueryA_def hexResponseQueryA_def hexQueryQueryAAAA_def hexResponseQueryAAAA_def hexQueryCnameChain_def hexQueryLargeDnssec_def hexQueryNodata_def hexQueryNxdomain_def hexOk_def hexVal_def)

end
