(* ===== verification/Doh3_Target.thy ===== *)
theory Doh3_Target
  imports Go_Http2 Doh3_Fixtures
begin

text \<open>
  The DNS-over-HTTP/3 target of \<^verbatim>\<open>implementations/go-dns-doh3/source/main.go\<close>: the fixture check before
  it listens and the request handler. HTTP/3, QUIC and TLS are libraries. Go iterates over the map of
  fixtures in an unspecified order: the order is an argument of the handler.
\<close>

definition implementationID :: string where "implementationID = ''go-dns-doh3''"
definition implementationVersion :: string where "implementationVersion = ''0.2.0''"
definition mediaType :: string where "mediaType = ''application/dns-message''"

definition envOr :: "env \<Rightarrow> string \<Rightarrow> string \<Rightarrow> string" where
  "envOr getenv name fallback =
     (let v = trimSpace (getenv name) in if v \<noteq> '''' then v else fallback)"

section \<open>Query parameters\<close>

text \<open>\<^verbatim>\<open>url.QueryUnescape\<close> and \<^verbatim>\<open>URL.Query\<close> of the standard library: parts without a key and parts that do not
  decode are dropped; the keys of the resulting map are what the handler counts.\<close>

fun queryUnescape :: "string \<Rightarrow> string option" where
  "queryUnescape [] = Some []"
| "queryUnescape (ch # cs) =
     (if ch = CHR ''%'' then
        (case cs of
           a # b # r \<Rightarrow> (case (hexVal a, hexVal b) of
               (Some x, Some y) \<Rightarrow> map_option (\<lambda>p. char_of (16 * x + y) # p) (queryUnescape r)
             | _ \<Rightarrow> None)
         | _ \<Rightarrow> None)
      else map_option (\<lambda>p. (if ch = CHR ''+'' then CHR '' '' else ch) # p) (queryUnescape cs))"

definition queryPart :: "string \<Rightarrow> (string \<times> string) option" where
  "queryPart part =
     (if CHR '';'' \<in> set part \<or> part = '''' then None
      else (case (queryUnescape (takeWhile (\<lambda>ch. ch \<noteq> CHR ''='') part),
          queryUnescape (drop 1 (dropWhile (\<lambda>ch. ch \<noteq> CHR ''='') part))) of
          (Some k, Some v) \<Rightarrow> Some (k, v)
        | _ \<Rightarrow> None))"

definition queryKeys :: "string \<Rightarrow> string list" where
  "queryKeys rawQuery = remdups (map fst (List.map_filter queryPart (splitOn CHR ''&'' rawQuery)))"

section \<open>The handler\<close>

record doh3_request = h2_request +
  q_Proto :: string
  q_Host :: string
  q_DidResume :: bool
  q_RawQuery :: string
  q_ContentLength :: int

definition selectFixture :: "fixture list \<Rightarrow> string \<Rightarrow> bytes \<Rightarrow> fixture option" where
  "selectFixture order reqMethod query =
     find (\<lambda>f. f_Method f = reqMethod \<and> hashOf query = f_QueryHash f \<and> query = bytesOf (f_QueryHex f)) order"

text \<open>The query a request carries, or the message and the status it is refused with.\<close>

definition requestQuery :: "doh3_request \<Rightarrow> response_writer \<Rightarrow> ((string \<times> nat) + bytes) \<times> response_writer" where
  "requestQuery r w =
     (if q_Method r = ''GET'' then
        (if headerGet (q_Header r) ''Content-Type'' \<noteq> '''' \<or> q_ContentLength r > 0
         then Inl (''GET body/content-type prohibited'', 400)
         else if length (queryKeys (q_RawQuery r)) \<noteq> 1
         then Inl (''exact dns parameter required'', 400)
         else if q_RawQuery r \<noteq> ''dns='' @ getValue getA
         then Inl (''canonical unpadded base64url dns parameter required'', 400)
         else Inr (bytesOf (f_QueryHex getA)), w)
      else if q_Method r = ''POST'' then
        (if q_RawQuery r \<noteq> '''' \<or> headerGet (q_Header r) ''Content-Type'' \<noteq> mediaType
         then (Inl (''exact POST media binding required'', 415), w)
         else (case readAllLimited 1024 (rw_Conn w) of (body, c) \<Rightarrow>
           (case body of Inl _ \<Rightarrow> Inl (''query read failed'', 400) | Inr query \<Rightarrow> Inr query, w\<lparr>rw_Conn := c\<rparr>)))
      else (Inl (''GET or POST required'', 405), w))"

definition writeSelected :: "fixture option \<Rightarrow> response_writer \<Rightarrow> response_writer" where
  "writeSelected selected w =
     (case selected of
        None \<Rightarrow> httpError ''unknown deterministic DNS fixture'' 400 w
      | Some f \<Rightarrow>
          snd (writeBody (bytesOf (f_ResponseHex f)) (writeHeader 200
            (setHeader ''Cache-Control'' ''no-store'' (setHeader ''Content-Type'' mediaType w)))))"

definition handle :: "fixture list \<Rightarrow> doh3_request \<Rightarrow> response_writer \<Rightarrow> response_writer" where
  "handle order r w =
     (if q_ProtoMajor r \<noteq> 3 \<or> q_Proto r \<noteq> ''HTTP/3.0'' \<or> q_TLSVersion r = None \<or> q_TLSVersion r \<noteq> Some 0x304 \<or>
        q_ALPN r \<noteq> ''h3'' \<or> q_DidResume r
      then httpError ''exact HTTP/3 over fresh TLS 1.3 required'' 505 w
      else if q_Host r \<noteq> ''dns.plab.test'' \<or> q_Path r \<noteq> ''/dns-query'' \<or> headerGet (q_Header r) ''Accept'' \<noteq> mediaType \<or>
        headerGet (q_Header r) ''Cache-Control'' \<noteq> ''no-cache''
      then httpError ''exact DoH3 authority/path/headers required'' 400 w
      else (case requestQuery r w of (q, w1) \<Rightarrow>
        (case q of
           Inl (msg, code) \<Rightarrow> httpError msg code w1
         | Inr query \<Rightarrow>
             writeSelected (selectFixture order (q_Method r) query) w1)))"

definition respond :: "fixture list \<Rightarrow> doh3_request \<Rightarrow> bytes \<Rightarrow> h2_response" where
  "respond order r body = (finishResponse (handle order r (newWriter body)))\<lparr>p_ProtoMajor := 3\<rparr>"

text \<open>The server refuses to start with the first fixture that does not check.\<close>

fun startup :: "(bytes \<Rightarrow> 'a dns_msg_scheme go) \<Rightarrow> fixture list \<Rightarrow> go_error option" where
  "startup unpack [] = None"
| "startup unpack (f # fs) =
     (case validateFixture unpack f of Some e \<Rightarrow> Some e | None \<Rightarrow> startup unpack fs)"

section \<open>Selection does not depend on the iteration order\<close>

lemma fixtures_functional:
  assumes "f \<in> set fixtures" "g \<in> set fixtures" "f_QueryHash f = f_QueryHash g"
  shows "f_ResponseHex f = f_ResponseHex g"
  using assms by (auto simp: fixtures_def fixture_defs)

lemma selectFixture_iff:
  assumes "set order = set fixtures"
  shows "map_option f_ResponseHex (selectFixture order reqMethod query) = Some response \<longleftrightarrow>
    (\<exists>f \<in> set fixtures. f_Method f = reqMethod \<and> query = bytesOf (f_QueryHex f) \<and> response = f_ResponseHex f)"
proof
  assume "map_option f_ResponseHex (selectFixture order reqMethod query) = Some response"
  then show "\<exists>f \<in> set fixtures. f_Method f = reqMethod \<and> query = bytesOf (f_QueryHex f) \<and> response = f_ResponseHex f"
    using assms by (auto simp: selectFixture_def find_Some_iff)
next
  assume "\<exists>f \<in> set fixtures. f_Method f = reqMethod \<and> query = bytesOf (f_QueryHex f) \<and> response = f_ResponseHex f"
  then obtain f where f: "f \<in> set fixtures" "f_Method f = reqMethod" "query = bytesOf (f_QueryHex f)" "response = f_ResponseHex f"
    by blast
  have h: "hashOf query = f_QueryHash f" using fixtures_digests [OF f(1)] f(3) by simp
  obtain g where g: "selectFixture order reqMethod query = Some g"
    using f assms h by (cases "selectFixture order reqMethod query") (auto simp: selectFixture_def find_None_iff)
  then have "g \<in> set fixtures" "hashOf query = f_QueryHash g"
    using assms by (auto simp: selectFixture_def find_Some_iff)
  with fixtures_functional [OF f(1)] h g f(4) show "map_option f_ResponseHex (selectFixture order reqMethod query) = Some response"
    by simp
qed

lemma handle_any_order:
  assumes "set order = set fixtures"
  shows "handle order r w = handle fixtures r w"
proof -
  have "map_option f_ResponseHex (selectFixture order m query) = map_option f_ResponseHex (selectFixture fixtures m query)" for m query
    using selectFixture_iff [OF assms] selectFixture_iff [of fixtures] by (metis option.exhaust)
  moreover have "writeSelected a v = writeSelected b v" if "map_option f_ResponseHex a = map_option f_ResponseHex b" for a b v
    using that by (cases a; cases b) (simp_all add: writeSelected_def)
  ultimately have "writeSelected (selectFixture order m query) v = writeSelected (selectFixture fixtures m query) v" for m query v
    by blast
  then show ?thesis unfolding handle_def by (simp only:)
qed

section \<open>The property\<close>

definition exactHead :: "doh3_request \<Rightarrow> bool" where
  "exactHead r \<longleftrightarrow> q_ProtoMajor r = 3 \<and> q_Proto r = ''HTTP/3.0'' \<and> q_TLSVersion r = Some 0x304 \<and> q_ALPN r = ''h3'' \<and>
     \<not> q_DidResume r \<and> q_Host r = ''dns.plab.test'' \<and> q_Path r = ''/dns-query'' \<and>
     headerGet (q_Header r) ''Accept'' = mediaType \<and> headerGet (q_Header r) ''Cache-Control'' = ''no-cache''"

text \<open>The fixture a request asks for: by a GET with the canonical parameter and no body, or by a POST of
  its query.\<close>

definition asksFor :: "doh3_request \<Rightarrow> bytes \<Rightarrow> fixture \<Rightarrow> bool" where
  "asksFor r body f \<longleftrightarrow> f \<in> set fixtures \<and> f_Method f = q_Method r \<and>
     (if q_Method r = ''GET''
      then headerGet (q_Header r) ''Content-Type'' = '''' \<and> q_ContentLength r \<le> 0 \<and> q_RawQuery r = ''dns='' @ getValue getA
      else headerGet (q_Header r) ''Content-Type'' = mediaType \<and> q_RawQuery r = '''' \<and> body = bytesOf (f_QueryHex f))"

lemma fixtures_method:
  assumes "f \<in> set fixtures"
  shows "f_Method f = ''GET'' \<Longrightarrow> f_QueryHex f = f_QueryHex getA" "f_Method f \<in> {''GET'', ''POST''}"
    "length (bytesOf (f_QueryHex f)) < 1024"
proof -
  show "f_Method f = ''GET'' \<Longrightarrow> f_QueryHex f = f_QueryHex getA" "f_Method f \<in> {''GET'', ''POST''}"
    using assms unfolding fixtures_def by (auto simp: fixture_defs)
  show "length (bytesOf (f_QueryHex f)) < 1024"
    using hexOk_fixtures [OF assms] bytesOf_decode [of "f_QueryHex f"] by auto
qed

lemma hexDecode_length: "hexDecode v = Some b \<Longrightarrow> length b \<le> length v"
  by (induction v arbitrary: b rule: hexDecode.induct) (fastforce split: option.splits)+

lemma fixture_response_length:
  assumes "f \<in> set fixtures"
  shows "length (bytesOf (f_ResponseHex f)) < 65536"
proof -
  have "length (f_ResponseHex f) < 2048"
    using assms by (auto simp: fixtures_def fixture_defs hexResponseQueryA_def hexResponseQueryAAAA_def hexResponseCnameChain_def
        hexResponseLargeDnssec_def hexResponseNodata_def hexResponseNxdomain_def)
  then show ?thesis using hexDecode_length [of "f_ResponseHex f"] by (auto simp: bytesOf_def split: option.splits)
qed

lemma getValue_keys: "length (queryKeys (''dns='' @ getValue getA)) = 1"
proof -
  have "getValue getA = ''AAAAAAABAAAAAAAABHBsYWIEdGVzdAAAAQAB''"
    by (simp add: getValue_def getA_def hexQueryQueryA_def bytesOf_def hexVal_def urlChar_def char_of_def bit_0)
  then show ?thesis by (simp add: queryKeys_def queryPart_def List.map_filter_def)
qed

lemma requestQuery_served:
  assumes "asksFor r body f"
  shows "\<exists>w1. requestQuery r (newWriter body) = (Inr (bytesOf (f_QueryHex f)), w1) \<and> rw_Status w1 = None \<and>
    rw_Header w1 = [] \<and> conn_out (rw_Conn w1) = [] \<and> conn_cap (rw_Conn w1) = None"
proof (cases "q_Method r = ''GET''")
  case True
  with assms fixtures_method(1) [of f] have "f_QueryHex f = f_QueryHex getA" by (auto simp: asksFor_def)
  with True assms getValue_keys show ?thesis by (auto simp: asksFor_def requestQuery_def newWriter_def)
next
  case False
  with assms fixtures_method(2) [of f] have "q_Method r = ''POST''" by (auto simp: asksFor_def)
  moreover have "length (bytesOf (f_QueryHex f)) < 1024" using assms fixtures_method(3) by (simp add: asksFor_def)
  ultimately show ?thesis
    using assms by (auto simp: asksFor_def requestQuery_def newWriter_def readAllLimited_def mediaType_def)
qed

lemma doh3_served:
  assumes "exactHead r" "asksFor r body f" "set order = set fixtures"
  shows "respond order r body =
    \<lparr>p_ProtoMajor = 3, p_ProtoMinor = 0, p_StatusCode = 200,
     p_Header = [(''Content-Type'', mediaType), (''Cache-Control'', ''no-store'')],
     p_Body = \<lparr>conn_in = bytesOf (f_ResponseHex f), conn_end = EOF, conn_out = [], conn_cap = None\<rparr>, p_Trailer = []\<rparr>"
proof -
  obtain w1 where w1: "requestQuery r (newWriter body) = (Inr (bytesOf (f_QueryHex f)), w1)" "rw_Status w1 = None"
    "rw_Header w1 = []" "conn_out (rw_Conn w1) = []" "conn_cap (rw_Conn w1) = None"
    using requestQuery_served [OF assms(2)] by blast
  have "map_option f_ResponseHex (selectFixture order (q_Method r) (bytesOf (f_QueryHex f))) = Some (f_ResponseHex f)"
    using selectFixture_iff [OF assms(3)] assms(2) by (auto simp: asksFor_def)
  then obtain g where g: "selectFixture order (q_Method r) (bytesOf (f_QueryHex f)) = Some g" "f_ResponseHex g = f_ResponseHex f"
    by auto
  have "handle order r (newWriter body) = snd (writeBody (bytesOf (f_ResponseHex f)) (writeHeader 200
      (setHeader ''Cache-Control'' ''no-store'' (setHeader ''Content-Type'' mediaType w1))))"
    using assms(1) w1(1) g by (simp add: handle_def exactHead_def writeSelected_def)
  with served_response [OF w1(2-5)] show ?thesis by (simp add: respond_def)
qed

lemma requestQuery_refuses:
  assumes "requestQuery r (newWriter body) = (q, w1)"
  shows "rw_Status w1 = None \<and> (\<forall>msg code. q = Inl (msg, code) \<longrightarrow> code \<in> {400, 405, 415}) \<and>
    (\<forall>query. q = Inr query \<longrightarrow> (\<forall>f \<in> set fixtures. f_Method f = q_Method r \<and> query = bytesOf (f_QueryHex f) \<longrightarrow> asksFor r body f))"
proof -
  have "take 1024 body \<noteq> bytesOf (f_QueryHex f)" if "1024 \<le> length body" "f \<in> set fixtures" for f
    using fixtures_method(3) [OF that(2)] that(1) by (auto dest: arg_cong [where f = length])
  with assms show ?thesis
    by (auto simp: requestQuery_def newWriter_def asksFor_def readAllLimited_def split: if_splits sum.splits)
qed

lemma handle_refuses:
  assumes "set order = set fixtures" "\<not> exactHead r \<or> (\<forall>f. \<not> asksFor r body f)"
  shows "\<exists>msg code w. handle order r (newWriter body) = httpError msg code w \<and> code \<in> {400, 405, 415, 505} \<and> rw_Status w = None"
proof -
  have s: "rw_Status (newWriter body) = None" by (simp add: newWriter_def)
  let ?a = "q_ProtoMajor r \<noteq> 3 \<or> q_Proto r \<noteq> ''HTTP/3.0'' \<or> q_TLSVersion r = None \<or> q_TLSVersion r \<noteq> Some 0x304 \<or>
    q_ALPN r \<noteq> ''h3'' \<or> q_DidResume r"
  let ?b = "q_Host r \<noteq> ''dns.plab.test'' \<or> q_Path r \<noteq> ''/dns-query'' \<or> headerGet (q_Header r) ''Accept'' \<noteq> mediaType \<or>
    headerGet (q_Header r) ''Cache-Control'' \<noteq> ''no-cache''"
  consider ?a | "\<not> ?a" ?b | "\<not> ?a" "\<not> ?b" by blast
  then show ?thesis
  proof cases
    case 1
    with s show ?thesis unfolding handle_def if_P [OF 1] by blast
  next
    case 2
    with s show ?thesis unfolding handle_def if_not_P [OF 2(1)] if_P [OF 2(2)] by blast
  next
    case 3
    obtain q w1 where q: "requestQuery r (newWriter body) = (q, w1)" by force
    note k = requestQuery_refuses [OF q]
    have none: "selectFixture order (q_Method r) query = None" if "q = Inr query" for query
    proof (rule ccontr)
      assume "selectFixture order (q_Method r) query \<noteq> None"
      then obtain f where "selectFixture order (q_Method r) query = Some f" by blast
      then have "map_option f_ResponseHex (selectFixture order (q_Method r) query) = Some (f_ResponseHex f)" by simp
      then obtain g where "g \<in> set fixtures" "f_Method g = q_Method r" "query = bytesOf (f_QueryHex g)"
        unfolding selectFixture_iff [OF assms(1)] by blast
      with k that have "asksFor r body g" by blast
      moreover have "exactHead r" using 3 unfolding exactHead_def by blast
      ultimately show False using assms(2) by blast
    qed
    show ?thesis
    proof (cases q)
      case (Inl e)
      with k show ?thesis unfolding handle_def if_not_P [OF 3(1)] if_not_P [OF 3(2)] q
        by (cases e) fastforce
    next
      case (Inr query)
      with k none show ?thesis unfolding handle_def if_not_P [OF 3(1)] if_not_P [OF 3(2)] q
        by (auto simp: writeSelected_def)
    qed
  qed
qed

text \<open>The DNS-over-HTTP/3 target answers a request over a fresh HTTP/3 connection with status 200, the
  media type of DNS messages, a cache prohibition and exactly the response of the fixture it asks for, by
  a GET with the canonical parameter or a POST of the query, whatever order Go iterates over the map of
  fixtures in; every other request is refused with one of four error statuses and a plain text.\<close>

theorem doh3_answers:
  assumes "set order = set fixtures"
  shows "(exactHead r \<and> asksFor r body f \<longrightarrow> p_StatusCode (respond order r body) = 200 \<and>
     headerGet (p_Header (respond order r body)) ''Content-Type'' = mediaType \<and>
     headerGet (p_Header (respond order r body)) ''Cache-Control'' = ''no-store'' \<and>
     conn_in (p_Body (respond order r body)) = bytesOf (f_ResponseHex f)) \<and>
   (\<not> exactHead r \<or> (\<forall>f. \<not> asksFor r body f) \<longrightarrow> p_StatusCode (respond order r body) \<in> {400, 405, 415, 505} \<and>
     headerGet (p_Header (respond order r body)) ''Content-Type'' = ''text/plain; charset=utf-8'') \<and>
   respond order r body = respond fixtures r body"
proof -
  have any: "respond order r body = respond fixtures r body" by (simp add: respond_def handle_any_order [OF assms])
  have refused: "p_StatusCode (respond order r body) \<in> {400, 405, 415, 505} \<and>
     headerGet (p_Header (respond order r body)) ''Content-Type'' = ''text/plain; charset=utf-8''"
    if n: "\<not> exactHead r \<or> (\<forall>f. \<not> asksFor r body f)"
  proof -
    have "\<exists>msg code w. handle order r (newWriter body) = httpError msg code w \<and> code \<in> {400, 405, 415, 505} \<and> rw_Status w = None"
      by (rule handle_refuses [OF assms n])
    then show ?thesis using errorResponse_fields by (auto simp: respond_def)
  qed
  have served: "p_StatusCode (respond order r body) = 200 \<and>
     headerGet (p_Header (respond order r body)) ''Content-Type'' = mediaType \<and>
     headerGet (p_Header (respond order r body)) ''Cache-Control'' = ''no-store'' \<and>
     conn_in (p_Body (respond order r body)) = bytesOf (f_ResponseHex f)" if "exactHead r" "asksFor r body f"
    unfolding doh3_served [OF that assms] by (simp add: headerGet_Cons equalFold_def toLower_def lowerChar_def)
  show ?thesis using any refused served by blast
qed

section \<open>A concrete request\<close>

definition sampleGet :: doh3_request where
  "sampleGet = \<lparr>q_ProtoMajor = 3, q_TLSVersion = Some 0x304, q_ALPN = ''h3'', q_Method = ''GET'', q_Path = ''/dns-query'',
     q_Header = [(''Accept'', mediaType), (''Cache-Control'', ''no-cache'')], q_Proto = ''HTTP/3.0'', q_Host = ''dns.plab.test'',
     q_DidResume = False, q_RawQuery = ''dns='' @ getValue getA, q_ContentLength = 0\<rparr>"

theorem doh3_answers_witness:
  "p_StatusCode (respond (rev fixtures) sampleGet []) = 200 \<and>
   conn_in (p_Body (respond (rev fixtures) sampleGet [])) = bytesOf (f_ResponseHex getA) \<and>
   respond (rev fixtures) sampleGet [] = respond fixtures sampleGet []"
proof -
  have "exactHead sampleGet"
    by (simp add: exactHead_def sampleGet_def headerGet_Cons equalFold_def toLower_def lowerChar_def)
  moreover have "asksFor sampleGet [] getA"
    by (simp add: asksFor_def sampleGet_def headerGet_Cons equalFold_def toLower_def lowerChar_def fixtures_def)
      (simp add: getA_def)
  ultimately show ?thesis using doh3_answers [of "rev fixtures" sampleGet "[]" getA] unfolding set_rev by blast
qed

end
