(* ===== verification/Doh3_Executor.thy ===== *)
theory Doh3_Executor
  imports Go_Http2 Go_Float Doh3_Fixtures "HOL-Library.List_Lexorder" "HOL-Library.Char_ord"
begin

text \<open>
  The DNS-over-HTTP/3 executor of \<^verbatim>\<open>executors/go-dns-doh3-executor/source/main.go\<close>: the client of a phase
  with its dial counter, one GET or POST with its four proofs, phases, metrics, the pinned configuration
  and the command. HTTP/3, QUIC, TLS, URL parsing and the DNS message library are arguments: what their
  calls return. The panic of a result without a proof is \<open>None\<close>.
\<close>

section \<open>Constants\<close>

definition executorID :: string where "executorID = ''go-dns-doh3-executor''"
definition executorVersion :: string where "executorVersion = ''0.2.2''"
definition loadGeneratorID :: string where "loadGeneratorID = ''go-dns-doh3-load''"
definition loadGeneratorVersion :: string where "loadGeneratorVersion = ''0.2.2''"
definition interopScenario :: string where "interopScenario = ''dns.doh3.interoperability.query.a''"
definition profileID :: string where "profileID = ''secure-dns-smoke''"
definition serverName :: string where "serverName = ''dns.plab.test''"
definition mediaType :: string where "mediaType = ''application/dns-message''"
definition certificateProfile :: string where "certificateProfile = ''plab-secure-dns-single-leaf-p256-v1''"
definition strictTLSProfile :: string where "strictTLSProfile = ''plab-secure-dns-tls13-v1''"
definition interopTLSProfile :: string where "interopTLSProfile = ''plab-secure-dns-interoperability-v2''"
definition interopCertProfile :: string where
  "interopCertProfile = ''plab-secure-dns-interoperability-leaf-v2''"
definition requiredCipher :: string where "requiredCipher = ''TLS_AES_128_GCM_SHA256''"
definition leafDERHash :: string where
  "leafDERHash = ''b57bdd3eb90b36455900c17de9ff9a02c623e1f6b27626ad7821a40e35e8251c''"
definition leafSPKIHash :: string where
  "leafSPKIHash = ''cfa6d5d08ee2071e28fd96205b088156fa71b460262470e5b994624b0537cf25''"

definition knownUnsupported :: "string list" where
  "knownUnsupported =
     [''dns.classic.tcp.query.a'', ''dns.classic.udp-truncated-tcp-retry'', ''dns.classic.udp.query.a'',
      ''dns.doh2.query.a'', ''dns.doh2.interoperability.query.a'', ''dns.doq.query.a'',
      ''dns.doq.interoperability.query.a'', ''dns.dot.query.a'', ''dns.dot.interoperability.query.a'']"

definition protocolVariant :: "string \<Rightarrow> string" where
  "protocolVariant scenarioID =
     (if scenarioID = interopScenario then ''doh-h3-rfc8484-interoperability'' else ''doh-h3-quic-v1'')"

definition tlsProfileID :: "string \<Rightarrow> string" where
  "tlsProfileID scenarioID = (if scenarioID = interopScenario then interopTLSProfile else strictTLSProfile)"

definition selectedCertificateProfile :: "string \<Rightarrow> string" where
  "selectedCertificateProfile scenarioID =
     (if scenarioID = interopScenario then interopCertProfile else certificateProfile)"

definition sortedScenarioIDs :: "fixture list \<Rightarrow> string list" where
  \<comment> \<open>the argument is the order of the iteration over the map\<close>
  "sortedScenarioIDs order = sort (map f_ScenarioID order)"

section \<open>The TLS and QUIC connections\<close>

record certificate =
  ct_Raw :: bytes
  ct_SPKI :: bytes
  ct_SignatureAlgorithm :: string
  ct_PublicKeyAlgorithm :: string
  ct_Curve :: string

record tls_state =
  ts_Version :: u16
  ts_CipherSuite :: string
  ts_Protocol :: string
  ts_HandshakeComplete :: bool
  ts_DidResume :: bool
  ts_Peers :: "certificate list"
  ts_VerifiedChains :: nat

record tls_proof =
  t_TLSProfileID :: string
  t_TLSVersion :: string
  t_CipherSuite :: string
  t_KeyExchangeGroup :: string
  t_SignatureScheme :: string
  t_ALPN :: string
  t_ServerName :: string
  t_HandshakeComplete :: bool
  t_DidResume :: bool
  t_EarlyDataAttempted :: bool
  t_CertificateProfile :: string
  t_CertificateDERSHA256 :: string
  t_CertificateSPKISHA256 :: string
  t_CertificateSignatureAlgorithm :: string
  t_CertificatePublicKeyAlgorithm :: string
  t_CertificateNamedCurve :: string
  t_VerifiedChainCount :: nat
  t_SentCertificateCount :: nat
  t_TrustAnchorSent :: bool
  t_ConnectionLatencyMilliseconds :: rat

definition tlsVersionName :: "u16 \<Rightarrow> string" where
  "tlsVersionName v = (if v = 0x304 then ''TLS1.3'' else ''0x'' @ hexEncode (be16 v))"

text \<open>The proof as it is filled in, without the two provenance maps that describe the machine.\<close>

definition observeTLS :: "tls_state \<Rightarrow> rat \<Rightarrow> string \<Rightarrow> tls_proof" where
  "observeTLS st latency scenarioID =
     (let p = \<lparr>t_TLSProfileID = tlsProfileID scenarioID, t_TLSVersion = tlsVersionName (ts_Version st),
         t_CipherSuite = ts_CipherSuite st, t_KeyExchangeGroup = ''X25519'',
         t_SignatureScheme = ''ecdsa_secp256r1_sha256'', t_ALPN = ts_Protocol st, t_ServerName = serverName,
         t_HandshakeComplete = ts_HandshakeComplete st, t_DidResume = ts_DidResume st,
         t_EarlyDataAttempted = False, t_CertificateProfile = selectedCertificateProfile scenarioID,
         t_CertificateDERSHA256 = '''', t_CertificateSPKISHA256 = '''', t_CertificateSignatureAlgorithm = '''',
         t_CertificatePublicKeyAlgorithm = '''', t_CertificateNamedCurve = '''',
         t_VerifiedChainCount = ts_VerifiedChains st, t_SentCertificateCount = length (ts_Peers st),
         t_TrustAnchorSent = False, t_ConnectionLatencyMilliseconds = latency\<rparr> in
      case ts_Peers st of
        [] \<Rightarrow> p
      | c # _ \<Rightarrow> p\<lparr>t_CertificateDERSHA256 := hashOf (ct_Raw c), t_CertificateSPKISHA256 := hashOf (ct_SPKI c),
          t_CertificateSignatureAlgorithm := ct_SignatureAlgorithm c,
          t_CertificatePublicKeyAlgorithm := ct_PublicKeyAlgorithm c, t_CertificateNamedCurve := ct_Curve c\<rparr>)"

text \<open>A response without TLS has no state. The proof that is returned beside an error is not used.\<close>

definition validateTLS :: "tls_state option \<Rightarrow> rat \<Rightarrow> string \<Rightarrow> tls_proof go" where
  "validateTLS state latency scenarioID =
     (case state of
        None \<Rightarrow> Inl (Errorf ''missing TLS state'')
      | Some st \<Rightarrow>
          (let p = observeTLS st latency scenarioID in
           if ts_Version st \<noteq> 0x304 \<or> \<not> ts_HandshakeComplete st \<or> ts_DidResume st \<or> ts_Protocol st \<noteq> ''h3'' \<or>
              t_CipherSuite p \<noteq> requiredCipher \<or> ts_VerifiedChains st = 0 \<or> t_CertificateDERSHA256 p \<noteq> leafDERHash \<or>
              t_CertificateSPKISHA256 p \<noteq> leafSPKIHash
           then Inl (Errorf ''TLS 1.3 / h3 / certificate identity gate failed'') else Inr p))"

text \<open>The state a QUIC connection reports; the name of its version is the library's.\<close>

record quic_state =
  qs_Version :: "32 word"
  qs_VersionText :: string
  qs_Protocol :: string
  qs_Used0RTT :: bool
  qs_LocalDatagrams :: bool
  qs_RemoteDatagrams :: bool

record quic_proof =
  k_Version :: string
  k_VersionNumber :: "32 word"
  k_ALPN :: string
  k_UsedZeroRTT :: bool
  k_SupportsDatagrams :: bool
  k_Binding :: string
  k_ConnectionReused :: bool

definition validateQUIC :: "quic_state option \<Rightarrow> bool \<Rightarrow> quic_proof go" where
  "validateQUIC conn reused =
     (case conn of
        None \<Rightarrow> Inl (Errorf ''missing QUIC connection'')
      | Some s \<Rightarrow>
          if qs_Version s \<noteq> 1 \<or> qs_Used0RTT s \<or> qs_Protocol s \<noteq> ''h3''
          then Inl (Errorf ''exact QUIC v1 HTTP/3 binding gate failed'')
          else Inr \<lparr>k_Version = qs_VersionText s, k_VersionNumber = qs_Version s, k_ALPN = qs_Protocol s,
            k_UsedZeroRTT = qs_Used0RTT s, k_SupportsDatagrams = (qs_LocalDatagrams s \<or> qs_RemoteDatagrams s),
            k_Binding = ''http3-rfc9114-quic-v1'', k_ConnectionReused = reused\<rparr>)"

section \<open>The check of a response\<close>

record dns_proof =
  p_FixtureID :: string
  p_Transport :: string
  p_QuestionName :: string
  p_QuestionType :: string
  p_QuestionClass :: string
  p_Answer :: string
  p_ResponseCode :: string
  p_AuthoritativeAnswer :: bool
  p_RecursionDesired :: bool
  p_RecursionAvailable :: bool
  p_ExternalUpstreamUsed :: bool
  p_CacheEnabled :: bool
  p_Framing :: string
  p_AuthorityMode :: string
  p_RequestMessageID :: u16
  p_ResponseMessageID :: u16
  p_CanonicalHashNormalization :: string
  p_QueryLengthBytes :: nat
  p_QueryNormalizedSHA256 :: string
  p_ResponseRawLengthBytes :: nat
  p_ResponseCanonicalLengthBytes :: nat
  p_ResponseNormalizedSHA256 :: string
  p_ResponseCompressionDiffered :: bool
  p_ResponseCanonicalized :: bool
  p_RawResponseEqualityRequired :: bool
  p_DNSSECSignatureValidity :: string

definition dnsProofOf :: "bytes \<Rightarrow> fixture \<Rightarrow> dns_proof" where
  "dnsProofOf raw f =
     (let canonical = bytesOf (f_ResponseHex f) in
      \<lparr>p_FixtureID = f_FixtureID f, p_Transport = ''doh3'', p_QuestionName = f_QuestionName f,
       p_QuestionType = f_QuestionType f, p_QuestionClass = ''IN'', p_Answer = f_Answer f, p_ResponseCode = f_RCode f,
       p_AuthoritativeAnswer = True, p_RecursionDesired = False, p_RecursionAvailable = False,
       p_ExternalUpstreamUsed = False, p_CacheEnabled = False, p_Framing = ''bare-dns-message-body'',
       p_AuthorityMode = ''local-fixture-authoritative'', p_RequestMessageID = 0, p_ResponseMessageID = 0,
       p_CanonicalHashNormalization = ''identity'', p_QueryLengthBytes = length (bytesOf (f_QueryHex f)),
       p_QueryNormalizedSHA256 = hashOf (bytesOf (f_QueryHex f)), p_ResponseRawLengthBytes = length raw,
       p_ResponseCanonicalLengthBytes = length canonical, p_ResponseNormalizedSHA256 = hashOf canonical,
       p_ResponseCompressionDiffered = (raw \<noteq> canonical), p_ResponseCanonicalized = True,
       p_RawResponseEqualityRequired = False,
       p_DNSSECSignatureValidity =
         (if f_ScenarioID f = ''dns.doh3.query.large-dnssec-shaped'' then ''not-claimed'' else '''')\<rparr>)"

definition validateDNS :: "(bytes \<Rightarrow> 'a dns_msg_scheme go) \<Rightarrow> bytes \<Rightarrow> fixture \<Rightarrow> dns_proof go" where
  "validateDNS unpack raw f =
     (if \<not> semanticEqual unpack raw f then Inl (Malformed ''DNS response semantic fixture mismatch'')
      else (let p = dnsProofOf raw f in
        if p_QueryNormalizedSHA256 p \<noteq> f_QueryHash f \<or> p_ResponseNormalizedSHA256 p \<noteq> f_ResponseHash f
        then Inl (Errorf ''canonical DNS hash mismatch'') else Inr p))"

section \<open>One query\<close>

text \<open>What a phase keeps of its client: the connection of the last successful dial, the number of dials, and
  how long the last one took. \<open>dial\<close> is the function the transport calls to connect.\<close>

record phase_client =
  pc_connection :: "quic_state option"
  pc_dialCount :: "32 word"
  pc_connectionLatency :: rat

definition newPhaseClient :: phase_client where
  "newPhaseClient = \<lparr>pc_connection = None, pc_dialCount = 0, pc_connectionLatency = 0\<rparr>"

definition durationMS :: "int \<Rightarrow> rat" where
  "durationMS ns = fdiv (f64 (of_int ns)) (10 ^ 6)"

definition dial :: "(quic_state \<times> int) go \<Rightarrow> phase_client \<Rightarrow> phase_client" where
  "dial r pc =
     (case r of
        Inl e \<Rightarrow> pc
      | Inr (conn, nanos) \<Rightarrow>
          pc\<lparr>pc_connection := Some conn, pc_connectionLatency := durationMS nanos, pc_dialCount := pc_dialCount pc + 1\<rparr>)"

record http_proof =
  h_Version :: string
  h_Method :: string
  h_Scheme :: string
  h_Authority :: string
  h_Path :: string
  h_RequestTarget :: string
  h_StatusCode :: nat
  h_RequestAccept :: string
  h_RequestContentType :: string
  h_RequestCacheControl :: string
  h_ResponseContentType :: string
  h_ResponseCacheControl :: string
  h_BodyFraming :: string
  h_ConnectionReused :: bool
  h_FallbackDetected :: bool
  h_GETQueryEncoding :: string
  h_GETRequestBody :: string

record exchange_proof =
  e_DNS :: dns_proof
  e_HTTP :: http_proof
  e_TLS :: tls_proof
  e_QUIC :: quic_proof
  e_QueryLatencyMilliseconds :: rat
  e_TimeToFirstByteMilliseconds :: rat
  e_TransferredBytes :: int

text \<open>The request as it is handed to the client, and what sending it meets: an error while it is built, the
  dials of the transport, the response or an error, its TLS state, and the times of the trace callback
  and of the end.\<close>

record client_request =
  cr_Method :: string
  cr_Target :: string
  cr_Host :: string
  cr_Header :: http_header
  cr_Body :: bytes

record exchange_env =
  x_newRequest :: "go_error option"
  x_dials :: "(quic_state \<times> int) go list"
  x_do :: "client_request \<Rightarrow> h2_response go"
  x_tls :: "tls_state option"
  x_firstNanos :: int
  x_nanos :: int

definition buildRequest :: "string \<Rightarrow> fixture \<Rightarrow> client_request" where
  "buildRequest endpoint f =
     (let get = (f_Method f = ''GET'');
          h = headerSet (headerSet [] ''Accept'' mediaType) ''Cache-Control'' ''no-cache'' in
      \<lparr>cr_Method = f_Method f, cr_Target = (if get then endpoint @ ''?dns='' @ getValue f else endpoint),
       cr_Host = serverName, cr_Header = (if f_Method f = ''POST'' then headerSet h ''Content-Type'' mediaType else h),
       cr_Body = (if get then [] else bytesOf (f_QueryHex f))\<rparr>)"

definition protoText :: "h2_response \<Rightarrow> string" where
  "protoText r = ''HTTP/'' @ itoa (p_ProtoMajor r) @ ''.'' @ itoa (p_ProtoMinor r)"

definition httpProofOf :: "fixture \<Rightarrow> client_request \<Rightarrow> h2_response \<Rightarrow> bool \<Rightarrow> http_proof" where
  "httpProofOf f req r reused =
     (let get = (f_Method f = ''GET'') in
      \<lparr>h_Version = protoText r, h_Method = f_Method f, h_Scheme = ''https'', h_Authority = serverName,
       h_Path = ''/dns-query'', h_RequestTarget = ''/dns-query'' @ (if get then ''?dns='' @ getValue f else ''''),
       h_StatusCode = p_StatusCode r, h_RequestAccept = mediaType,
       h_RequestContentType = headerGet (cr_Header req) ''Content-Type'', h_RequestCacheControl = ''no-cache'',
       h_ResponseContentType = headerGet (p_Header r) ''Content-Type'',
       h_ResponseCacheControl = headerGet (p_Header r) ''Cache-Control'', h_BodyFraming = ''bare-dns-message-body'',
       h_ConnectionReused = reused, h_FallbackDetected = (p_ProtoMajor r \<noteq> 3),
       h_GETQueryEncoding = (if get then ''base64url-unpadded'' else ''''),
       h_GETRequestBody = (if get then ''absent'' else '''')\<rparr>)"

definition boolText :: "bool \<Rightarrow> string" where
  "boolText b = (if b then ''true'' else ''false'')"

text \<open>The checks of a response, in order, over the client as the request left it.\<close>

definition checkResponse ::
  "(bytes \<Rightarrow> 'a dns_msg_scheme go) \<Rightarrow> string \<Rightarrow> fixture \<Rightarrow> exchange_env \<Rightarrow> phase_client \<Rightarrow> h2_response \<Rightarrow> bool \<Rightarrow> bool \<Rightarrow>
     exchange_proof go" where
  "checkResponse unpack endpoint f x pc response reused expectReused =
     (case fst (readAllLimited 65536 (p_Body response)) of
        Inl e \<Rightarrow> Inl e
      | Inr raw \<Rightarrow>
          if reused \<noteq> expectReused
          then Inl (Malformed (''HTTP/3 connection reuse mismatch expected='' @ boolText expectReused @ '' observed='' @ boolText reused))
          else (case validateTLS (x_tls x) (pc_connectionLatency pc) (f_ScenarioID f) of
              Inl e \<Rightarrow> Inl e
            | Inr tlsValue \<Rightarrow> (case validateQUIC (pc_connection pc) reused of
                Inl e \<Rightarrow> Inl e
              | Inr quicValue \<Rightarrow>
                  (let httpValue = httpProofOf f (buildRequest endpoint f) response reused in
                   if p_ProtoMajor response \<noteq> 3 \<or> protoText response \<noteq> ''HTTP/3.0'' \<or> p_StatusCode response \<noteq> 200 \<or>
                      h_ResponseContentType httpValue \<noteq> mediaType \<or> h_ResponseCacheControl httpValue \<noteq> ''no-store''
                   then Inl (Malformed ''DoH3 protocol/status/header proof mismatch or fallback'')
                   else (case validateDNS unpack raw f of
                       Inl e \<Rightarrow> Inl e
                     | Inr dnsValue \<Rightarrow>
                         Inr \<lparr>e_DNS = dnsValue, e_HTTP = httpValue, e_TLS = tlsValue, e_QUIC = quicValue,
                           e_QueryLatencyMilliseconds = durationMS (x_nanos x),
                           e_TimeToFirstByteMilliseconds = durationMS (x_firstNanos x),
                           e_TransferredBytes = int (length (bytesOf (f_QueryHex f)) + length raw)\<rparr>)))))"

definition exchange ::
  "(bytes \<Rightarrow> 'a dns_msg_scheme go) \<Rightarrow> string \<Rightarrow> fixture \<Rightarrow> exchange_env \<Rightarrow> phase_client \<Rightarrow> bool \<Rightarrow>
     exchange_proof go \<times> phase_client" where
  "exchange unpack endpoint f x pc expectReused =
     (case x_newRequest x of
        Some e \<Rightarrow> (Inl e, pc)
      | None \<Rightarrow>
          (let before = pc_dialCount pc; pc1 = fold dial (x_dials x) pc in
           (case x_do x (buildRequest endpoint f) of
              Inl e \<Rightarrow> Inl e
            | Inr response \<Rightarrow> checkResponse unpack endpoint f x pc1 response (sint before > 0) expectReused,
            pc1)))"

section \<open>Phases\<close>

definition deadlineExceeded :: go_error where
  "deadlineExceeded = NetError ''context deadline exceeded''"

definition isTimeoutErr :: "go_error \<Rightarrow> bool" where
  "isTimeoutErr e \<longleftrightarrow> errorsIs e deadlineExceeded \<or> isTimeout e"

record summary =
  s_Phase :: string
  s_DurationSeconds :: rat
  s_CompletedOperations :: int
  s_MalformedOperations :: int
  s_RetryCount :: int
  s_FailedOperations :: int
  s_TimedOutOperations :: int
  s_TotalTransferredBytes :: int
  s_EffectiveConcurrency :: int
  s_EffectiveStreams :: int
  s_ActiveConnections :: int
  s_QueryLatencies :: "rat list"
  s_TimeToFirstByte :: "rat list"
  s_ConnectionLatencyMilliseconds :: rat
  s_LastProof :: "exchange_proof option"
  s_Errors :: "string \<rightharpoonup> nat"

definition recordProof :: "exchange_proof \<Rightarrow> summary \<Rightarrow> summary" where
  "recordProof p s =
     s\<lparr>s_CompletedOperations := s_CompletedOperations s + 1,
       s_TotalTransferredBytes := s_TotalTransferredBytes s + e_TransferredBytes p,
       s_QueryLatencies := s_QueryLatencies s @ [e_QueryLatencyMilliseconds p],
       s_TimeToFirstByte := s_TimeToFirstByte s @ [e_TimeToFirstByteMilliseconds p],
       s_LastProof := Some p\<rparr>"

definition classify :: "go_error \<Rightarrow> summary \<Rightarrow> summary" where
  "classify e s =
     (let s1 = (if asMalformed e then s\<lparr>s_MalformedOperations := s_MalformedOperations s + 1\<rparr>
        else if isTimeoutErr e then s\<lparr>s_TimedOutOperations := s_TimedOutOperations s + 1\<rparr>
        else s\<lparr>s_FailedOperations := s_FailedOperations s + 1\<rparr>) in
      s1\<lparr>s_Errors := (s_Errors s)(errorText e \<mapsto> (case s_Errors s (errorText e) of None \<Rightarrow> 1 | Some n \<Rightarrow> Suc n))\<rparr>)"

definition newSummary :: "bool \<Rightarrow> summary" where
  "newSummary once =
     \<lparr>s_Phase = (if once then ''preflight'' else ''measured''), s_DurationSeconds = 0, s_CompletedOperations = 0,
      s_MalformedOperations = 0, s_RetryCount = 0, s_FailedOperations = 0, s_TimedOutOperations = 0,
      s_TotalTransferredBytes = 0, s_EffectiveConcurrency = 1, s_EffectiveStreams = 1, s_ActiveConnections = 1,
      s_QueryLatencies = [], s_TimeToFirstByte = [], s_ConnectionLatencyMilliseconds = 0, s_LastProof = None,
      s_Errors = Map.empty\<rparr>"

type_synonym phase_run = "summary \<times> go_error option"

text \<open>The loop over the queries the deadline leaves time for, over the summary and the client. The client
  is not used after an error.\<close>

fun phaseLoop ::
  "(bytes \<Rightarrow> 'a dns_msg_scheme go) \<Rightarrow> string \<Rightarrow> fixture \<Rightarrow> exchange_env list \<Rightarrow> summary \<times> phase_client \<Rightarrow>
     (summary \<times> phase_client) \<times> go_error option" where
  "phaseLoop unpack endpoint f [] (s, pc) = ((s, pc), None)"
| "phaseLoop unpack endpoint f (x # xs) (s, pc) =
     (case exchange unpack endpoint f x pc True of
        (Inl e, _) \<Rightarrow> ((classify e s, pc), Some e)
      | (Inr p, pc1) \<Rightarrow> phaseLoop unpack endpoint f xs (recordProof p s, pc1))"

text \<open>What a phase meets: the query that opens the connection, those of the loop, and its duration.\<close>

record phase_env =
  ph_first :: exchange_env
  ph_queries :: "exchange_env list"
  ph_seconds :: rat

definition runPhase ::
  "(bytes \<Rightarrow> 'a dns_msg_scheme go) \<Rightarrow> string \<Rightarrow> fixture \<Rightarrow> phase_env \<Rightarrow> bool \<Rightarrow> phase_run" where
  "runPhase unpack endpoint f ph once =
     (case exchange unpack endpoint f (ph_first ph) newPhaseClient False of (first, pc) \<Rightarrow>
      let s = (newSummary once)\<lparr>s_ConnectionLatencyMilliseconds := pc_connectionLatency pc\<rparr> in
      case first of
        Inl e \<Rightarrow> (classify e s, Some e)
      | Inr p \<Rightarrow>
          if once
          then ((recordProof p s)\<lparr>s_DurationSeconds := fdiv (e_QueryLatencyMilliseconds p) 1000\<rparr>, None)
          else (case phaseLoop unpack endpoint f (ph_queries ph) (s, pc) of
              ((s1, _), Some e) \<Rightarrow> (s1, Some e)
            | ((s1, _), None) \<Rightarrow> (s1\<lparr>s_DurationSeconds := ph_seconds ph\<rparr>, None)))"

definition hasFailures :: "summary \<Rightarrow> bool" where
  "hasFailures s \<longleftrightarrow> s_MalformedOperations s \<noteq> 0 \<or> s_RetryCount s \<noteq> 0 \<or> s_FailedOperations s \<noteq> 0 \<or>
     s_TimedOutOperations s \<noteq> 0"

section \<open>Metrics and the result\<close>

fun sumFrom :: "rat \<Rightarrow> rat list \<Rightarrow> rat" where
  "sumFrom t [] = t"
| "sumFrom t (x # xs) = sumFrom (fadd t x) xs"

definition mean :: "rat list \<Rightarrow> rat" where
  "mean v = (if v = [] then 0 else fdiv (sumFrom 0 v) (f64 (of_nat (length v))))"

definition percentile :: "rat list \<Rightarrow> rat \<Rightarrow> rat" where
  "percentile values q =
     (if values = [] then 0
      else (let v = sort values; n = int (length v);
                i = \<lceil>fmul q (f64 (of_int n))\<rceil> - 1; j = (if i < 0 then 0 else i);
                k = (if j \<ge> n then n - 1 else j) in
            v ! nat k))"

record metric_set =
  m_QueriesPerSecond :: rat
  m_QueryLatencyMean :: rat
  m_QueryLatencyPercentiles :: "rat list"
  m_TimeToFirstByte :: rat
  m_ConnectionLatency :: rat
  m_CompletedOperations :: int
  m_MalformedOperations :: int
  m_RetryCount :: int
  m_FailedOperations :: int
  m_TimedOutOperations :: int
  m_TotalTransferredBytes :: int
  m_EffectiveConcurrency :: int
  m_EffectiveStreams :: int

record result =
  res_SchemaVersion :: string
  res_ScenarioID :: string
  res_LoadProfileID :: string
  res_Status :: string
  res_Executor :: "string \<times> string"
  res_LoadGenerator :: "string \<times> string"
  res_Variant :: string
  res_FallbackDetected :: bool
  res_Proof :: exchange_proof
  res_RequestedLoad :: "(string \<times> string) list"
  res_ActiveConnections :: int
  res_ActiveStreams :: int
  res_Metrics :: metric_set

text \<open>The percentiles 50, 75, 90, 95 and 99. Without a proof the fields of the nil pointer are read,
  which panics.\<close>

definition metricsOf :: "summary \<Rightarrow> metric_set" where
  "metricsOf s =
     \<lparr>m_QueriesPerSecond = fdiv (f64 (of_int (s_CompletedOperations s))) (s_DurationSeconds s),
      m_QueryLatencyMean = mean (s_QueryLatencies s),
      m_QueryLatencyPercentiles =
        map (\<lambda>q. percentile (s_QueryLatencies s) (f64 q)) [50 / 100, 75 / 100, 90 / 100, 95 / 100, 99 / 100],
      m_TimeToFirstByte = mean (s_TimeToFirstByte s), m_ConnectionLatency = s_ConnectionLatencyMilliseconds s,
      m_CompletedOperations = s_CompletedOperations s, m_MalformedOperations = s_MalformedOperations s,
      m_RetryCount = s_RetryCount s, m_FailedOperations = s_FailedOperations s,
      m_TimedOutOperations = s_TimedOutOperations s, m_TotalTransferredBytes = s_TotalTransferredBytes s,
      m_EffectiveConcurrency = s_EffectiveConcurrency s, m_EffectiveStreams = s_EffectiveStreams s\<rparr>"

definition normalizeResult :: "fixture \<Rightarrow> summary \<Rightarrow> (string \<times> string) list \<Rightarrow> result option" where
  "normalizeResult f s requested =
     (case s_LastProof s of
        None \<Rightarrow> None
      | Some p \<Rightarrow>
          Some \<lparr>res_SchemaVersion = ''protocol-lab.dns-doh3-executor-result.v1'', res_ScenarioID = f_ScenarioID f,
            res_LoadProfileID = profileID, res_Status = ''passed'', res_Executor = (executorID, executorVersion),
            res_LoadGenerator = (loadGeneratorID, loadGeneratorVersion), res_Variant = protocolVariant (f_ScenarioID f),
            res_FallbackDetected = False, res_Proof = p, res_RequestedLoad = requested,
            res_ActiveConnections = s_ActiveConnections s, res_ActiveStreams = s_EffectiveStreams s,
            res_Metrics = metricsOf s\<rparr>)"

record validation_doc =
  v_ScenarioID :: string
  v_FixtureID :: string
  v_Passed :: bool
  v_ObservedProtocol :: string
  v_Variant :: string
  v_FallbackDetected :: bool
  v_Completed :: int
  v_Malformed :: int
  v_Retries :: int
  v_Failed :: int
  v_TimedOut :: int
  v_Error :: string

definition observedProtocol :: "summary \<Rightarrow> string" where
  "observedProtocol s =
     (case s_LastProof s of
        None \<Rightarrow> ''''
      | Some p \<Rightarrow>
          if h_Version (e_HTTP p) = ''HTTP/3.0'' \<and> t_ALPN (e_TLS p) = ''h3'' \<and> k_Version (e_QUIC p) = ''v1''
          then ''doh3'' else '''')"

definition errorString :: "go_error option \<Rightarrow> string" where
  "errorString err = (case err of None \<Rightarrow> '''' | Some e \<Rightarrow> errorText e)"

definition validationDocument :: "fixture \<Rightarrow> summary \<Rightarrow> go_error option \<Rightarrow> validation_doc" where
  "validationDocument f s err =
     \<lparr>v_ScenarioID = f_ScenarioID f, v_FixtureID = f_FixtureID f, v_Passed = (err = None),
      v_ObservedProtocol = observedProtocol s, v_Variant = protocolVariant (f_ScenarioID f),
      v_FallbackDetected = (observedProtocol s \<noteq> ''doh3''),
      v_Completed = s_CompletedOperations s, v_Malformed = s_MalformedOperations s, v_Retries = s_RetryCount s,
      v_Failed = s_FailedOperations s, v_TimedOut = s_TimedOutOperations s, v_Error = errorString err\<rparr>"

section \<open>Identity, configuration and the command\<close>

text \<open>\<open>False\<close> is the mismatch that ends the process with code 2.\<close>

definition requireIdentity :: "env \<Rightarrow> string \<Rightarrow> string \<Rightarrow> bool" where
  "requireIdentity getenv name expected \<longleftrightarrow> trimSpace (getenv name) = expected"

datatype artifact =
    Unsupported string | ResultUnsupported string
  | ValidationJson validation_doc | ResultValidation validation_doc | WireSummary dns_proof
  | HttpSummary http_proof | QuicSummary quic_proof | TlsNegotiation tls_proof
  | ProtocolProof string string bool "exchange_proof option" | ExecutorIdentity string string "string list"
  | WarmupSummary summary | LoadSummary summary
  | LoadGeneratorIdentity "string \<times> string" | ExecutorResult result | ResultJson result

text \<open>The fixture of the selected scenario, or what is written and the exit code.\<close>

definition checkIdentityOrExit :: "env \<Rightarrow> (artifact list \<times> nat) + fixture" where
  "checkIdentityOrExit getenv =
     (let i = trimSpace (getenv ''PLAB_SCENARIO_ID'') in
      if \<not> (requireIdentity getenv ''PLAB_EXECUTOR_ID'' executorID \<and>
             requireIdentity getenv ''PLAB_EXECUTOR_VERSION'' executorVersion \<and>
             requireIdentity getenv ''PLAB_LOAD_GENERATOR_ID'' loadGeneratorID \<and>
             requireIdentity getenv ''PLAB_LOAD_GENERATOR_VERSION'' loadGeneratorVersion \<and>
             requireIdentity getenv ''PLAB_PROTOCOL'' ''doh3'' \<and>
             requireIdentity getenv ''PLAB_PROTOCOL_VARIANT'' (protocolVariant i)) then Inl ([], 2)
      else (case find (\<lambda>f. f_ScenarioID f = i) fixtures of
          Some f \<Rightarrow> Inr f
        | None \<Rightarrow>
            if i \<in> set knownUnsupported then Inl ([Unsupported i, ResultUnsupported i], 3) else Inl ([], 2)))"

definition envInt :: "env \<Rightarrow> string \<Rightarrow> int" where
  "envInt getenv name = fst (atoi (trimSpace (getenv name)))"

definition loadConfig :: "env \<Rightarrow> (string \<times> string) list go" where
  "loadConfig getenv =
     (if trimSpace (getenv ''PLAB_LOAD_PROFILE_ID'') \<noteq> profileID
      then Inl (Errorf (''supports load profile '' @ quoted profileID @ '' only''))
      else if envInt getenv ''PLAB_CONNECTIONS'' \<noteq> 1 \<or> envInt getenv ''PLAB_CONCURRENCY'' \<noteq> 1 \<or>
        envInt getenv ''PLAB_DURATION_SECONDS'' \<noteq> 5 \<or> envInt getenv ''PLAB_WARMUP_SECONDS'' \<noteq> 1 \<or>
        envInt getenv ''PLAB_REPETITION'' \<noteq> 1
      then Inl (Errorf ''secure-dns-smoke mismatch'')
      else Inr [(''connections'', ''1''), (''concurrency'', ''1''), (''outstandingQueries'', ''1''),
        (''connectionReuse'', ''reuse''), (''durationSeconds'', ''5''), (''warmupSeconds'', ''1''),
        (''repetition'', ''1''), (''queryTimeoutMilliseconds'', ''5000''), (''maxRetries'', ''0'')])"

text \<open>The parts of a parsed URL; \<open>show\<close> is \<^verbatim>\<open>parsed.String()\<close>.\<close>

record parsed_url =
  u_Scheme :: string
  u_Host :: string
  u_Path :: string
  u_RawQuery :: string
  u_Fragment :: string

definition normalizeTarget ::
  "(string \<Rightarrow> parsed_url go) \<Rightarrow> (parsed_url \<Rightarrow> string) \<Rightarrow> string \<Rightarrow> string go" where
  "normalizeTarget parse unparse v =
     (case parse (trimSpace v) of
        Inl e \<Rightarrow> Inl e
      | Inr u \<Rightarrow>
          if u_Scheme u \<noteq> ''https'' \<or> u_Host u = '''' \<or> u_RawQuery u \<noteq> '''' \<or> u_Fragment u \<noteq> ''''
          then Inl (Errorf ''DoH3 target must be https without query or fragment'')
          else if u_Path u \<noteq> '''' \<and> u_Path u \<noteq> ''/'' \<and> u_Path u \<noteq> ''/dns-query''
          then Inl (Errorf ''DoH3 target path must be /dns-query'')
          else Inr (unparse (u\<lparr>u_Path := ''/dns-query''\<rparr>)))"

definition loadRoots :: "bytes go \<Rightarrow> (bytes \<Rightarrow> bool) \<Rightarrow> go_error option" where
  "loadRoots file parses =
     (case file of Inl e \<Rightarrow> Some e
      | Inr pem \<Rightarrow> if \<not> parses pem then Some (Errorf ''root PEM contained no certificate'') else None)"

definition writeEvidence :: "fixture \<Rightarrow> summary \<Rightarrow> go_error option \<Rightarrow> artifact list" where
  "writeEvidence f s err =
     (let validation = validationDocument f s err in
      [ValidationJson validation, ResultValidation validation] @
      (case s_LastProof s of
         None \<Rightarrow> []
       | Some p \<Rightarrow> [WireSummary (e_DNS p), HttpSummary (e_HTTP p), QuicSummary (e_QUIC p), TlsNegotiation (e_TLS p)]) @
      [ProtocolProof (observedProtocol s) (protocolVariant (f_ScenarioID f)) (observedProtocol s \<noteq> ''doh3'') (s_LastProof s)])"

definition rejected :: "phase_run \<Rightarrow> bool" where
  "rejected r \<longleftrightarrow> snd r \<noteq> None \<or> s_CompletedOperations (fst r) = 0 \<or> hasFailures (fst r)"

text \<open>What one invocation writes, in order, and its exit code. Every \<^verbatim>\<open>writeRequired\<close> succeeds.\<close>

definition runMain ::
  "(bytes \<Rightarrow> 'a dns_msg_scheme go) \<Rightarrow> fixture list \<Rightarrow> env \<Rightarrow> string go \<Rightarrow> go_error option \<Rightarrow> bool \<Rightarrow>
     phase_env \<Rightarrow> phase_env \<Rightarrow> phase_env \<Rightarrow> (artifact list \<times> nat) option" where
  "runMain unpack order getenv target roots validationOnly pre warm load =
     (case checkIdentityOrExit getenv of
        Inl r \<Rightarrow> Some r
      | Inr f \<Rightarrow> (case target of
          Inl e \<Rightarrow> Some ([], 2)
        | Inr endpoint \<Rightarrow> (case roots of
            Some e \<Rightarrow> Some ([], 2)
          | None \<Rightarrow>
              (let preflight = runPhase unpack endpoint f pre True;
                   gate = writeEvidence f (fst preflight) (snd preflight) @
                     [ExecutorIdentity executorID executorVersion (sortedScenarioIDs order)] in
               if snd preflight \<noteq> None then Some (gate, 1)
               else if validationOnly then Some (gate, 0)
               else (case loadConfig getenv of
                   Inl e \<Rightarrow> Some (gate, 2)
                 | Inr requested \<Rightarrow>
                     (let warmup = runPhase unpack endpoint f warm False;
                          warmed = gate @ [WarmupSummary (fst warmup)] in
                      if rejected warmup then Some (warmed, 1)
                      else (let measured = runPhase unpack endpoint f load False;
                                loaded = warmed @ [LoadSummary (fst measured)] in
                        if rejected measured then Some (loaded, 1)
                        else (case normalizeResult f (fst measured) requested of
                            None \<Rightarrow> None
                          | Some normalized \<Rightarrow>
                              Some (loaded @ [LoadGeneratorIdentity (res_LoadGenerator normalized),
                                ExecutorResult normalized, ResultJson normalized], 0)))))))))"

end
