(* ===== verification/Doh3_Interop.thy ===== *)
theory Doh3_Interop
  imports Doh3_Target Doh3_Executor Secure_Dns_Phase Lab_Certificates
begin

text \<open>
  The DNS-over-HTTP/3 executor in front of any server and against the DNS-over-HTTP/3 target: the
  connection of a phase is dialled once and then reused, an accepted exchange received the message of the
  fixture over checked connections, and the interface to a server (\<open>doh3_server\<close>) is interpreted on the
  request handler of the target, so that runs of all eight scenarios pass.
\<close>

section \<open>The loop of a phase\<close>

definition cleanPhase :: "summary \<Rightarrow> bool" where
  "cleanPhase s \<longleftrightarrow> s_MalformedOperations s = 0 \<and> s_RetryCount s = 0 \<and> s_FailedOperations s = 0 \<and>
     s_TimedOutOperations s = 0 \<and> s_Errors s = Map.empty"

definition failureCount :: "summary \<Rightarrow> int" where
  "failureCount s = s_MalformedOperations s + s_FailedOperations s + s_TimedOutOperations s"

definition stepOf ::
  "(bytes \<Rightarrow> 'a dns_msg_scheme go) \<Rightarrow> string \<Rightarrow> fixture \<Rightarrow> exchange_env \<Rightarrow> summary \<times> phase_client \<Rightarrow>
     (exchange_proof \<times> phase_client) go option" where
  "stepOf unpack endpoint f x s =
     Some (case exchange unpack endpoint f x (snd s) True of (Inl e, _) \<Rightarrow> Inl e | (Inr p, pc) \<Rightarrow> Inr (p, pc))"

definition noteOf :: "exchange_proof \<times> phase_client \<Rightarrow> summary \<times> phase_client \<Rightarrow> summary \<times> phase_client" where
  "noteOf r s = (recordProof (fst r) (fst s), snd r)"

lemma doh3_summary_laws:
  "s_CompletedOperations (recordProof p s) = s_CompletedOperations s + 1" "failureCount (recordProof p s) = failureCount s"
  "s_TotalTransferredBytes (recordProof p s) = s_TotalTransferredBytes s + e_TransferredBytes p"
  "s_LastProof (recordProof p s) = Some p" "cleanPhase (recordProof p s) = cleanPhase s"
  "s_CompletedOperations (classify e s) = s_CompletedOperations s" "failureCount (classify e s) = failureCount s + 1"
  "s_TotalTransferredBytes (classify e s) = s_TotalTransferredBytes s" "s_LastProof (classify e s) = s_LastProof s"
  by (simp_all add: recordProof_def classify_def failureCount_def cleanPhase_def Let_def)

text \<open>The proof of the summary together with the client it is noted with.\<close>

definition lastOf :: "summary \<times> phase_client \<Rightarrow> (exchange_proof \<times> phase_client) option" where
  "lastOf s = map_option (\<lambda>p. (p, snd s)) (s_LastProof (fst s))"

interpretation doh3_loop: phase_loop "stepOf unpack endpoint f" "\<lambda>xs s. Some (phaseLoop unpack endpoint f xs s)" noteOf
  "\<lambda>e s. (classify e (fst s), snd s)" "\<lambda>s. s_CompletedOperations (fst s)" "\<lambda>s. failureCount (fst s)"
  "\<lambda>s. s_TotalTransferredBytes (fst s)" lastOf "\<lambda>r. e_TransferredBytes (fst r)" "\<lambda>s. cleanPhase (fst s)"
  for unpack endpoint f
  by unfold_locales
    (auto simp: doh3_summary_laws stepOf_def noteOf_def lastOf_def split: prod.splits sum.splits)

section \<open>The interface to a server\<close>

text \<open>The executor relies on a server that answers the request of every fixture with a response whose head
  passes the checks and whose body reads as the message of the fixture, over a TLS session and a QUIC
  connection that pass the checks.\<close>

type_synonym doh3_serve = "client_request \<Rightarrow> h2_response go"

text \<open>The first query of a phase dials once, the others not at all.\<close>

definition firstServed :: "doh3_serve \<Rightarrow> tls_state \<Rightarrow> quic_state \<Rightarrow> exchange_env \<Rightarrow> bool" where
  "firstServed serve st conn x \<longleftrightarrow> x_newRequest x = None \<and> (\<exists>nanos. x_dials x = [Inr (conn, nanos)]) \<and> x_do x = serve \<and> x_tls x = Some st"

definition queryServed :: "doh3_serve \<Rightarrow> tls_state \<Rightarrow> exchange_env \<Rightarrow> bool" where
  "queryServed serve st x \<longleftrightarrow> x_newRequest x = None \<and> x_dials x = [] \<and> x_do x = serve \<and> x_tls x = Some st"

definition connected :: "quic_state \<Rightarrow> phase_client \<Rightarrow> bool" where
  "connected conn pc \<longleftrightarrow> pc_connection pc = Some conn \<and> sint (pc_dialCount pc) > 0"

definition proven :: "(fixture \<Rightarrow> bytes) \<Rightarrow> fixture \<Rightarrow> exchange_proof \<Rightarrow> bool" where
  "proven body f p \<longleftrightarrow> e_TransferredBytes p = int (length (bytesOf (f_QueryHex f)) + length (body f)) \<and>
     e_DNS p = dnsProofOf (body f) f \<and> h_Version (e_HTTP p) = ''HTTP/3.0'' \<and> h_StatusCode (e_HTTP p) = 200"

definition readsFixture :: "(bytes \<Rightarrow> 'a dns_msg_scheme go) \<Rightarrow> string \<Rightarrow> fixture \<Rightarrow> bool" where
  "readsFixture unpack endpoint f \<longleftrightarrow> f \<in> set fixtures \<and> CHR ''?'' \<notin> set endpoint \<and> (\<exists>m. unpack (bytesOf (f_ResponseHex f)) = Inr m)"

definition servedPhase :: "doh3_serve \<Rightarrow> tls_state \<Rightarrow> quic_state \<Rightarrow> phase_env \<Rightarrow> bool" where
  "servedPhase serve st conn ph \<longleftrightarrow> firstServed serve st conn (ph_first ph) \<and> list_all (queryServed serve st) (ph_queries ph)"

locale doh3_server =
  fixes serve :: doh3_serve and st :: tls_state and conn :: quic_state
    and response :: "fixture \<Rightarrow> h2_response" and body :: "fixture \<Rightarrow> bytes"
    and unpack :: "bytes \<Rightarrow> 'a dns_msg_scheme go"
  assumes answers: "f \<in> set fixtures \<Longrightarrow> CHR ''?'' \<notin> set endpoint \<Longrightarrow> serve (buildRequest endpoint f) = Inr (response f)"
    and proto: "f \<in> set fixtures \<Longrightarrow> p_ProtoMajor (response f) = 3 \<and> p_ProtoMinor (response f) = 0 \<and> p_StatusCode (response f) = 200"
    and headers: "f \<in> set fixtures \<Longrightarrow> headerGet (p_Header (response f)) ''Content-Type'' = Doh3_Executor.mediaType \<and>
      headerGet (p_Header (response f)) ''Cache-Control'' = ''no-store''"
    and content: "f \<in> set fixtures \<Longrightarrow> fst (readAllLimited 65536 (p_Body (response f))) = Inr (body f)"
    and readable: "f \<in> set fixtures \<Longrightarrow> unpack (bytesOf (f_ResponseHex f)) = Inr m \<Longrightarrow> unpack (body f) = Inr m"
    and session: "validateTLS (Some st) latency scenarioID = Inr (observeTLS st latency scenarioID)"
    and binding: "\<exists>k. validateQUIC (Some conn) reused = Inr k \<and> k_ConnectionReused k = reused"
begin

lemma response_accepted:
  assumes "readsFixture unpack endpoint f" "pc_connection pc = Some conn" "x_tls x = Some st"
  shows "\<exists>p. checkResponse unpack endpoint f x pc (response f) reused reused = Inr p \<and> proven body f p"
proof -
  note f = assms(1) [unfolded readsFixture_def]
  have t: "protoText (response f) = ''HTTP/3.0''" using proto f by (simp add: protoText_def itoa.simps char_of_def bit_0)
  have d: "validateDNS unpack (body f) f = Inr (dnsProofOf (body f) f)"
    using readable f fixtures_digests [of f] by (auto simp: validateDNS_def semanticEqual_def dnsProofOf_def Let_def)
  obtain k where k: "validateQUIC (Some conn) reused = Inr k" using binding by blast
  show ?thesis
    using f t d k assms(2,3) proto [of f] headers [of f] content [of f] session
    by (simp add: checkResponse_def httpProofOf_def proven_def Let_def)
qed

lemma first_answered:
  assumes "readsFixture unpack endpoint f" "firstServed serve st conn x"
  shows "\<exists>p pc. exchange unpack endpoint f x newPhaseClient False = (Inr p, pc) \<and> proven body f p \<and> connected conn pc"
proof -
  obtain nanos where x: "x_dials x = [Inr (conn, nanos)]" "x_newRequest x = None" "x_do x = serve" "x_tls x = Some st"
    using assms(2) by (auto simp: firstServed_def)
  let ?pc = "fold dial (x_dials x) newPhaseClient"
  have pc: "pc_connection ?pc = Some conn" "connected conn ?pc" by (simp_all add: x dial_def newPhaseClient_def connected_def)
  with response_accepted [OF assms(1) pc(1) x(4), of False] answers assms(1) x show ?thesis
    by (auto simp: exchange_def newPhaseClient_def readsFixture_def Let_def)
qed

lemma query_answered:
  assumes "readsFixture unpack endpoint f" "queryServed serve st x" "connected conn pc"
  shows "\<exists>p. exchange unpack endpoint f x pc True = (Inr p, pc) \<and> proven body f p"
  using response_accepted [OF assms(1), of pc x True] answers assms
  by (auto simp: exchange_def queryServed_def connected_def readsFixture_def Let_def)

lemma phase_answered:
  assumes "readsFixture unpack endpoint f" "servedPhase serve st conn ph"
  shows "\<exists>s. runPhase unpack endpoint f ph False = (s, None) \<and> cleanPhase s \<and>
    s_CompletedOperations s = int (length (ph_queries ph)) \<and>
    s_TotalTransferredBytes s = int (length (bytesOf (f_QueryHex f)) + length (body f)) * int (length (ph_queries ph)) \<and>
    (ph_queries ph \<noteq> [] \<longrightarrow> (\<exists>p. s_LastProof s = Some p \<and> proven body f p))"
proof -
  let ?k = "int (length (bytesOf (f_QueryHex f)) + length (body f))" and ?n = "int (length (ph_queries ph))"
  obtain p pc where p: "exchange unpack endpoint f (ph_first ph) newPhaseClient False = (Inr p, pc)" "connected conn pc"
    using first_answered [OF assms(1)] assms(2) by (fastforce simp: servedPhase_def)
  let ?s = "((newSummary False)\<lparr>s_ConnectionLatencyMilliseconds := pc_connectionLatency pc\<rparr>, pc)"
  have q: "\<exists>r. stepOf unpack endpoint f x s = Some (Inr r) \<and> proven body f (fst r) \<and> connected conn (snd (noteOf r s))"
    if "x \<in> set (ph_queries ph)" "connected conn (snd s)" for x s
  proof -
    from that(1) assms(2) have "queryServed serve st x" by (simp add: servedPhase_def list_all_iff)
    from query_answered [OF assms(1) this that(2)] that(2) show ?thesis by (auto simp: stepOf_def noteOf_def)
  qed
  have b: "e_TransferredBytes (fst r) = ?k" if "proven body f (fst r)" for r :: "exchange_proof \<times> phase_client"
    using that by (simp add: proven_def)
  obtain s' where s': "phaseLoop unpack endpoint f (ph_queries ph) ?s = (s', None)"
    "s_CompletedOperations (fst s') = s_CompletedOperations (fst ?s) + ?n"
    "s_TotalTransferredBytes (fst s') = s_TotalTransferredBytes (fst ?s) + ?k * ?n"
    "cleanPhase (fst s') = cleanPhase (fst ?s)" "if ph_queries ph = [] then s' = ?s else \<exists>r. lastOf s' = Some r \<and> proven body f (fst r)"
    using doh3_loop.loop_keeps [where xs = "ph_queries ph" and good = "\<lambda>s. connected conn (snd s)" and P = "\<lambda>r. proven body f (fst r)"
      and s = ?s and k = ?k, OF q _ b] p(2) by auto
  then show ?thesis
    by (cases s') (auto simp: runPhase_def p Let_def newSummary_def cleanPhase_def lastOf_def split: if_splits)
qed

lemma preflight_answered:
  assumes "readsFixture unpack endpoint f" "servedPhase serve st conn ph"
  shows "\<exists>s. runPhase unpack endpoint f ph True = (s, None)"
  using first_answered [OF assms(1), of "ph_first ph"] assms(2) by (auto simp: runPhase_def servedPhase_def Let_def)

end

section \<open>The target as a server\<close>

text \<open>The transport sends the request over an HTTP/3 connection with a full TLS 1.3 handshake to the path of
  the endpoint, which \<open>normalizeTarget\<close> sets to the one below in every endpoint it returns, with the query of
  the request's URL and the length of its body.\<close>

definition toServer :: "client_request \<Rightarrow> doh3_request" where
  "toServer cr = \<lparr>q_ProtoMajor = 3, q_TLSVersion = Some 0x304, q_ALPN = ''h3'', q_Method = cr_Method cr,
     q_Path = ''/dns-query'', q_Header = cr_Header cr, q_Proto = ''HTTP/3.0'', q_Host = cr_Host cr, q_DidResume = False,
     q_RawQuery = drop 1 (dropWhile (\<lambda>ch. ch \<noteq> CHR ''?'') (cr_Target cr)), q_ContentLength = int (length (cr_Body cr))\<rparr>"

definition targetServe :: "fixture list \<Rightarrow> doh3_serve" where
  "targetServe order cr = Inr (respond order (toServer cr) (cr_Body cr))"

definition shippedCertificate :: certificate where
  "shippedCertificate = \<lparr>ct_Raw = dotLeaf, ct_SPKI = dotLeafKey, ct_SignatureAlgorithm = ''ECDSA-SHA256'',
     ct_PublicKeyAlgorithm = ''ECDSA'', ct_Curve = ''P-256''\<rparr>"

definition fullSession :: tls_state where
  "fullSession = \<lparr>ts_Version = 0x304, ts_CipherSuite = ''TLS_AES_128_GCM_SHA256'', ts_Protocol = ''h3'',
     ts_HandshakeComplete = True, ts_DidResume = False, ts_Peers = [shippedCertificate], ts_VerifiedChains = 1\<rparr>"

definition quicSession :: quic_state where
  "quicSession = \<lparr>qs_Version = 1, qs_VersionText = ''v1'', qs_Protocol = ''h3'', qs_Used0RTT = False,
     qs_LocalDatagrams = False, qs_RemoteDatagrams = False\<rparr>"

definition servedResponse :: "fixture \<Rightarrow> h2_response" where
  "servedResponse f =
    \<lparr>p_ProtoMajor = 3, p_ProtoMinor = 0, p_StatusCode = 200,
     p_Header = [(''Content-Type'', Doh3_Target.mediaType), (''Cache-Control'', ''no-store'')],
     p_Body = \<lparr>conn_in = bytesOf (f_ResponseHex f), conn_end = EOF, conn_out = [], conn_cap = None\<rparr>, p_Trailer = []\<rparr>"

lemma media_agree: "Doh3_Target.mediaType = Doh3_Executor.mediaType"
  by (simp add: Doh3_Target.mediaType_def Doh3_Executor.mediaType_def)

lemma getValue_GET: "f \<in> set fixtures \<Longrightarrow> f_Method f = ''GET'' \<Longrightarrow> getValue f = getValue getA"
  using fixtures_method(1) [of f] by (simp add: getValue_def)

lemma request_asks:
  assumes "f \<in> set fixtures" "CHR ''?'' \<notin> set endpoint"
  shows "exactHead (toServer (buildRequest endpoint f))"
    "asksFor (toServer (buildRequest endpoint f)) (cr_Body (buildRequest endpoint f)) f"
proof -
  have q: "dropWhile (\<lambda>ch. ch \<noteq> CHR ''?'') endpoint = []" "dropWhile (\<lambda>ch. ch \<noteq> CHR ''?'') (endpoint @ CHR ''?'' # r) = CHR ''?'' # r" for r
    using assms(2) by (auto simp: dropWhile_append3)
  note m = fixtures_method(1,2) [OF assms(1)] getValue_GET [OF assms(1)]
  show "exactHead (toServer (buildRequest endpoint f))"
    by (simp add: exactHead_def toServer_def buildRequest_def serverName_def media_agree equalFold_def toLower_def lowerChar_def Let_def)
  show "asksFor (toServer (buildRequest endpoint f)) (cr_Body (buildRequest endpoint f)) f"
  proof (cases "f_Method f = ''GET''")
    case True
    with m(3) assms(1) q(2) show ?thesis
      by (simp add: asksFor_def toServer_def buildRequest_def equalFold_def toLower_def lowerChar_def Let_def)
  next
    case False
    with m(2) have "f_Method f = ''POST''" by blast
    with assms(1) show ?thesis
      by (simp add: q(1) asksFor_def toServer_def buildRequest_def media_agree equalFold_def toLower_def lowerChar_def Let_def)
  qed
qed

lemma target_serves:
  assumes "f \<in> set fixtures" "CHR ''?'' \<notin> set endpoint" "set order = set fixtures"
  shows "targetServe order (buildRequest endpoint f) = Inr (servedResponse f)"
  unfolding targetServe_def servedResponse_def doh3_served [OF request_asks [OF assms(1,2)] assms(3)] ..

interpretation doh3_target: doh3_server "targetServe fixtures" fullSession quicSession servedResponse
  "\<lambda>f. bytesOf (f_ResponseHex f)" unpack for unpack
proof unfold_locales
  fix f :: fixture
  assume f: "f \<in> set fixtures"
  show "targetServe fixtures (buildRequest endpoint f) = Inr (servedResponse f)" if "CHR ''?'' \<notin> set endpoint" for endpoint
    by (rule target_serves [OF f that refl])
  show "fst (readAllLimited 65536 (p_Body (servedResponse f))) = Inr (bytesOf (f_ResponseHex f))"
    using fixture_response_length [OF f] by (simp add: servedResponse_def readAllLimited_def)
next
  show "validateTLS (Some fullSession) latency scenarioID = Inr (observeTLS fullSession latency scenarioID)" for latency scenarioID
    by (simp add: validateTLS_def observeTLS_def fullSession_def shippedCertificate_def Let_def requiredCipher_def
        hashOf_def dotLeaf_digest dotLeafKey_digest leafDERHash_def leafSPKIHash_def)
  show "\<exists>k. validateQUIC (Some quicSession) reused = Inr k \<and> k_ConnectionReused k = reused" for reused
    by (simp add: validateQUIC_def quicSession_def)
qed (simp_all add: servedResponse_def media_agree headerGet_Cons equalFold_def toLower_def lowerChar_def)

lemma targetServe_any:
  assumes "set order = set fixtures"
  shows "targetServe order = targetServe fixtures"
  by (rule ext) (simp only: targetServe_def respond_def handle_any_order [OF assms])

definition targetPhase :: "phase_env \<Rightarrow> bool" where
  "targetPhase ph \<longleftrightarrow>
     (\<exists>order. set order = set fixtures \<and> firstServed (targetServe order) fullSession quicSession (ph_first ph)) \<and>
     list_all (\<lambda>x. \<exists>order. set order = set fixtures \<and> queryServed (targetServe order) fullSession x) (ph_queries ph)"

lemma targetPhase_served:
  assumes "targetPhase ph"
  shows "servedPhase (targetServe fixtures) fullSession quicSession ph"
  using assms targetServe_any unfolding targetPhase_def servedPhase_def list_all_iff by metis

section \<open>The properties\<close>

text \<open>C25: A run of the DNS-over-HTTP/3 command against the target passes for each of the eight scenarios,
  whatever order Go iterates over the map of fixtures in at each request: when the selection and the load
  profile are accepted, the endpoint has no query, the DNS library reads the response of the fixture, every
  connection is dialled by the first query of its phase with the sessions of the lab and reused by the
  others, and every query is served by the handler of the target, the exit code is 0, the last file written
  is the result, and it counts exactly the queries of the measured loop, with the bytes of the query and of
  the response for each, the DNS evidence of the fixture, and no failure of any kind.\<close>

theorem doh3_run_interop:
  assumes "checkIdentityOrExit getenv = Inr f" "loadConfig getenv = Inr requested" "CHR ''?'' \<notin> set endpoint"
    and "unpack (bytesOf (f_ResponseHex f)) = Inr m"
    and "\<And>ph. ph \<in> {pre, warm, load} \<Longrightarrow> targetPhase ph" "ph_queries warm \<noteq> []" "ph_queries load \<noteq> []"
  shows "\<exists>res written. runMain unpack order getenv (Inr endpoint) None False pre warm load = Some (written @ [ResultJson res], 0) \<and>
    res_Status res = ''passed'' \<and> res_ScenarioID res = f_ScenarioID f \<and> h_Version (e_HTTP (res_Proof res)) = ''HTTP/3.0'' \<and>
    e_DNS (res_Proof res) = dnsProofOf (bytesOf (f_ResponseHex f)) f \<and>
    m_CompletedOperations (res_Metrics res) = int (length (ph_queries load)) \<and>
    m_TotalTransferredBytes (res_Metrics res) =
      int (length (bytesOf (f_QueryHex f)) + length (bytesOf (f_ResponseHex f))) * int (length (ph_queries load)) \<and>
    m_MalformedOperations (res_Metrics res) = 0 \<and> m_RetryCount (res_Metrics res) = 0 \<and>
    m_FailedOperations (res_Metrics res) = 0 \<and> m_TimedOutOperations (res_Metrics res) = 0"
proof -
  have "f \<in> set fixtures"
    using assms(1) by (auto simp: checkIdentityOrExit_def find_Some_iff Let_def split: if_splits option.splits)
  then have r: "readsFixture unpack endpoint f" using assms(3,4) by (simp add: readsFixture_def)
  have served: "servedPhase (targetServe fixtures) fullSession quicSession pre" "servedPhase (targetServe fixtures) fullSession quicSession warm" "servedPhase (targetServe fixtures) fullSession quicSession load"
    by (rule targetPhase_served, rule assms(5), blast)+
  obtain s0 where a: "runPhase unpack endpoint f pre True = (s0, None)"
    using doh3_target.preflight_answered [OF r served(1)] by blast
  obtain s1 where b: "runPhase unpack endpoint f warm False = (s1, None)" "cleanPhase s1"
      "s_CompletedOperations s1 = int (length (ph_queries warm))"
    using doh3_target.phase_answered [OF r served(2)] by blast
  obtain s2 p where m: "runPhase unpack endpoint f load False = (s2, None)" "cleanPhase s2" "s_LastProof s2 = Some p"
      "proven (\<lambda>f. bytesOf (f_ResponseHex f)) f p" "s_CompletedOperations s2 = int (length (ph_queries load))"
      "s_TotalTransferredBytes s2 =
        int (length (bytesOf (f_QueryHex f)) + length (bytesOf (f_ResponseHex f))) * int (length (ph_queries load))"
    using doh3_target.phase_answered [OF r served(3)] assms(7) by blast
  have ok: "rejected (s1, None) = False" "rejected (s2, None) = False"
    using b m assms(6,7) by (simp_all add: rejected_def hasFailures_def cleanPhase_def)
  obtain res where n: "normalizeResult f s2 requested = Some res" "res_Status res = ''passed''" "res_ScenarioID res = f_ScenarioID f"
      "res_Proof res = p" "res_Metrics res = metricsOf s2"
    using m(3) by (simp add: normalizeResult_def)
  have "\<exists>written. runMain unpack order getenv (Inr endpoint) None False pre warm load = Some (written @ [ResultJson res], 0)"
    unfolding runMain_def assms(1,2) option.case sum.case a b(1) m(1) Let_def fst_conv snd_conv ok n(1) if_False by simp
  with n m show ?thesis by (auto simp: metricsOf_def cleanPhase_def proven_def)
qed

text \<open>Whatever a server answers, a query the DNS-over-HTTP/3 executor counts was answered over HTTP/3
  with status 200, the media type of DNS messages and a cache prohibition by a body the DNS library reads
  as the same message as the fixture's response, over a TLS session without resumption and a QUIC version 1
  connection without early data that an earlier query dialled exactly when reuse was expected.\<close>

theorem doh3_exchange_sound:
  assumes "exchange unpack endpoint f x pc expectReused = (Inr p, pc')"
  shows "\<exists>r raw msg st conn. x_do x (buildRequest endpoint f) = Inr r \<and> fst (readAllLimited 65536 (p_Body r)) = Inr raw \<and>
    unpack raw = Inr msg \<and> unpack (bytesOf (f_ResponseHex f)) = Inr msg \<and>
    p_ProtoMajor r = 3 \<and> p_StatusCode r = 200 \<and> headerGet (p_Header r) ''Content-Type'' = Doh3_Executor.mediaType \<and>
    headerGet (p_Header r) ''Cache-Control'' = ''no-store'' \<and>
    x_tls x = Some st \<and> ts_Version st = 0x304 \<and> \<not> ts_DidResume st \<and> t_CertificateDERSHA256 (e_TLS p) = leafDERHash \<and>
    pc_connection pc' = Some conn \<and> qs_Version conn = 1 \<and> \<not> qs_Used0RTT conn \<and>
    (sint (pc_dialCount pc) > 0) = expectReused \<and> e_TransferredBytes p = int (length (bytesOf (f_QueryHex f)) + length raw)"
proof -
  from assms obtain r where r: "x_do x (buildRequest endpoint f) = Inr r"
      "checkResponse unpack endpoint f x pc' r (sint (pc_dialCount pc) > 0) expectReused = Inr p"
    by (auto simp: exchange_def Let_def split: option.splits sum.splits)
  then obtain raw tv qv dv where c: "fst (readAllLimited 65536 (p_Body r)) = Inr raw" "(sint (pc_dialCount pc) > 0) = expectReused"
      "validateTLS (x_tls x) (pc_connectionLatency pc') (f_ScenarioID f) = Inr tv"
      "validateQUIC (pc_connection pc') (sint (pc_dialCount pc) > 0) = Inr qv" "validateDNS unpack raw f = Inr dv"
      "p_ProtoMajor r = 3" "p_StatusCode r = 200" "headerGet (p_Header r) ''Content-Type'' = Doh3_Executor.mediaType"
      "headerGet (p_Header r) ''Cache-Control'' = ''no-store''" "e_TLS p = tv"
      "e_TransferredBytes p = int (length (bytesOf (f_QueryHex f)) + length raw)"
    by (auto simp: checkResponse_def httpProofOf_def Let_def split: sum.splits if_splits)
  have "\<exists>st. x_tls x = Some st \<and> ts_Version st = 0x304 \<and> \<not> ts_DidResume st \<and> t_CertificateDERSHA256 tv = leafDERHash"
    using c(3) by (auto simp: validateTLS_def Let_def split: option.splits if_splits)
  moreover have "\<exists>conn. pc_connection pc' = Some conn \<and> qs_Version conn = 1 \<and> \<not> qs_Used0RTT conn"
    using c(4) by (auto simp: validateQUIC_def split: option.splits if_splits)
  moreover have "\<exists>msg. unpack raw = Inr msg \<and> unpack (bytesOf (f_ResponseHex f)) = Inr msg"
    using c(5) by (auto simp: validateDNS_def semanticEqual_def split: if_splits sum.splits)
  ultimately show ?thesis using r(1) c by metis
qed

section \<open>The command never panics\<close>

lemma doh3_runPhase_proof:
  assumes "runPhase unpack endpoint f ph False = r" "\<not> rejected r"
  shows "s_LastProof (fst r) \<noteq> None"
proof -
  obtain u pc where u: "exchange unpack endpoint f (ph_first ph) newPhaseClient False = (u, pc)" by force
  have r: "snd r = None" "s_CompletedOperations (fst r) \<noteq> 0" using assms(2) by (auto simp: rejected_def)
  with assms(1) u obtain p where p: "u = Inr p" by (cases u) (auto simp: runPhase_def Let_def)
  let ?s = "((newSummary False)\<lparr>s_ConnectionLatencyMilliseconds := pc_connectionLatency pc\<rparr>, pc)"
  obtain s' err where l: "phaseLoop unpack endpoint f (ph_queries ph) ?s = (s', err)" by (rule prod.exhaust)
  obtain s1 pc1 where s': "s' = (s1, pc1)" by force
  from assms(1) u p r l s' have "fst r = s1\<lparr>s_DurationSeconds := ph_seconds ph\<rparr>" "s_CompletedOperations s1 \<noteq> 0"
    by (auto simp: runPhase_def Let_def split: option.splits)
  with doh3_loop.loop_accounts [of unpack endpoint f "ph_queries ph" ?s s' err] l s' show ?thesis
    by (auto simp: newSummary_def lastOf_def)
qed

lemma doh3_main_returns:
  "\<exists>written code. runMain unpack order getenv target roots validationOnly pre warm load = Some (written, code) \<and> code \<in> {0, 1, 2, 3}"
proof (cases "checkIdentityOrExit getenv")
  case (Inl r)
  then have "snd r \<in> {2, 3}"
    by (auto simp: checkIdentityOrExit_def Let_def split: if_splits option.splits)
  with Inl show ?thesis by (cases r) (auto simp: runMain_def)
next
  case (Inr f)
  have n: "normalizeResult f (fst (runPhase unpack endpoint f load False)) requested \<noteq> None"
    if "\<not> rejected (runPhase unpack endpoint f load False)" for endpoint requested
    using doh3_runPhase_proof [OF refl that] by (auto simp: normalizeResult_def)
  show ?thesis by (auto simp: runMain_def Inr Let_def split: sum.splits option.splits) (metis n)
qed

section \<open>A concrete run\<close>

definition sampleQuery :: "bool \<Rightarrow> exchange_env" where
  "sampleQuery reused = \<lparr>x_newRequest = None, x_dials = (if reused then [] else [Inr (quicSession, 3000000)]),
     x_do = targetServe (rev fixtures), x_tls = Some fullSession, x_firstNanos = 150000, x_nanos = 200000\<rparr>"

definition samplePhase :: "nat \<Rightarrow> phase_env" where
  "samplePhase n = \<lparr>ph_first = sampleQuery False, ph_queries = replicate n (sampleQuery True), ph_seconds = 5\<rparr>"

definition getEnv :: env where
  "getEnv name =
     (case map_of [(''PLAB_EXECUTOR_ID'', ''go-dns-doh3-executor''), (''PLAB_EXECUTOR_VERSION'', ''0.2.2''),
        (''PLAB_LOAD_GENERATOR_ID'', ''go-dns-doh3-load''), (''PLAB_LOAD_GENERATOR_VERSION'', ''0.2.2''),
        (''PLAB_PROTOCOL'', ''doh3''), (''PLAB_PROTOCOL_VARIANT'', ''doh-h3-quic-v1''), (''PLAB_SCENARIO_ID'', ''dns.doh3.get.a''),
        (''PLAB_LOAD_PROFILE_ID'', ''secure-dns-smoke''), (''PLAB_CONNECTIONS'', ''1''), (''PLAB_CONCURRENCY'', ''1''),
        (''PLAB_DURATION_SECONDS'', ''5''), (''PLAB_WARMUP_SECONDS'', ''1''), (''PLAB_REPETITION'', ''1'')] name of
        None \<Rightarrow> '''' | Some v \<Rightarrow> v)"

text \<open>A library that reads the ID and the response code of a header.\<close>

definition headerUnpack :: "bytes \<Rightarrow> dns_msg go" where
  "headerUnpack b =
     (if length b < 12 then Inl (Errorf ''dns: overflow unpacking uint16'')
      else Inr \<lparr>ms_Id = unat (uint16 (take 2 b)), ms_Question = [],
        ms_Rcode = (if b ! 3 AND 0xf = 0 then ''NOERROR'' else ''NXDOMAIN'')\<rparr>)"

lemma samplePhase_target: "targetPhase (samplePhase n)"
  unfolding targetPhase_def
  by (auto simp: samplePhase_def sampleQuery_def firstServed_def queryServed_def list_all_iff intro!: exI [of _ "rev fixtures"])

lemma getEnv_identity: "checkIdentityOrExit getEnv = Inr getA"
proof -
  have i: "trimSpace (getEnv ''PLAB_SCENARIO_ID'') = ''dns.doh3.get.a''" by (simp add: getEnv_def trimSpace_def isSpace_def)
  have v: "protocolVariant ''dns.doh3.get.a'' = ''doh-h3-quic-v1''" by (simp add: protocolVariant_def interopScenario_def)
  have q: "requireIdentity getEnv ''PLAB_EXECUTOR_ID'' executorID" "requireIdentity getEnv ''PLAB_EXECUTOR_VERSION'' executorVersion"
    "requireIdentity getEnv ''PLAB_LOAD_GENERATOR_ID'' loadGeneratorID"
    "requireIdentity getEnv ''PLAB_LOAD_GENERATOR_VERSION'' loadGeneratorVersion"
    "requireIdentity getEnv ''PLAB_PROTOCOL'' ''doh3''" "requireIdentity getEnv ''PLAB_PROTOCOL_VARIANT'' ''doh-h3-quic-v1''"
    by (simp_all add: requireIdentity_def getEnv_def trimSpace_def isSpace_def executorID_def executorVersion_def
        loadGeneratorID_def loadGeneratorVersion_def)
  have f: "find (\<lambda>f. f_ScenarioID f = ''dns.doh3.get.a'') fixtures = Some getA"
    unfolding fixtures_def by (simp add: queryA_def interoperabilityA_def) (simp add: getA_def)
  show ?thesis unfolding checkIdentityOrExit_def Let_def i v f by (simp add: q)
qed

lemma getEnv_config: "\<exists>r. loadConfig getEnv = Inr r"
  unfolding loadConfig_def
  by (simp add: getEnv_def trimSpace_def isSpace_def profileID_def envInt_def atoi_def parseSigned_def)

lemma getA_lengths: "length (bytesOf (f_QueryHex getA)) = 27" "length (bytesOf (f_ResponseHex getA)) = 43"
  by (simp_all add: getA_def hexQueryQueryA_def hexResponseQueryA_def bytesOf_def hexVal_def)

theorem doh3_run_interop_witness:
  "\<exists>res written. runMain headerUnpack (rev fixtures) getEnv (Inr ''https://127.0.0.1:18533/dns-query'') None False
      (samplePhase 0) (samplePhase 1) (samplePhase 4) = Some (written @ [ResultJson res], 0) \<and>
    m_CompletedOperations (res_Metrics res) = 4 \<and> m_TotalTransferredBytes (res_Metrics res) = 280"
proof -
  obtain r where r: "loadConfig getEnv = Inr r" using getEnv_config by blast
  obtain msg where u: "headerUnpack (bytesOf (f_ResponseHex getA)) = Inr msg"
    by (simp add: headerUnpack_def getA_lengths)
  have q: "CHR ''?'' \<notin> set ''https://127.0.0.1:18533/dns-query''" by simp
  have p: "targetPhase ph" if "ph \<in> {samplePhase 0, samplePhase 1, samplePhase 4}" for ph
    using that samplePhase_target by blast
  have n: "ph_queries (samplePhase 1) \<noteq> []" "ph_queries (samplePhase 4) \<noteq> []" "length (ph_queries (samplePhase 4)) = 4"
    by (simp_all add: samplePhase_def)
  have k: "int (length (bytesOf (f_QueryHex getA)) + length (bytesOf (f_ResponseHex getA))) * int 4 = 280" by (simp add: getA_lengths)
  from doh3_run_interop [where order = "rev fixtures" and unpack = headerUnpack and pre = "samplePhase 0"
      and warm = "samplePhase 1" and load = "samplePhase 4" and endpoint = "''https://127.0.0.1:18533/dns-query''", OF getEnv_identity r q u p n(1,2), unfolded n(3) k]
  show ?thesis by fastforce
qed

theorem doh3_exchange_sound_witness:
  "\<exists>p pc raw msg. exchange headerUnpack ''https://127.0.0.1:18533/dns-query'' getA (sampleQuery False) newPhaseClient False = (Inr p, pc) \<and>
     headerUnpack raw = Inr msg \<and> headerUnpack (bytesOf (f_ResponseHex getA)) = Inr msg \<and> e_TransferredBytes p = int (27 + length raw)"
proof -
  have "getA \<in> set fixtures" by (simp add: fixtures_def)
  then have f: "readsFixture headerUnpack ''https://127.0.0.1:18533/dns-query'' getA"
    by (simp add: readsFixture_def headerUnpack_def getA_lengths)
  have s: "firstServed (targetServe fixtures) fullSession quicSession (sampleQuery False)"
    using targetServe_any [of "rev fixtures"] by (simp add: firstServed_def sampleQuery_def)
  obtain p pc where p: "exchange headerUnpack ''https://127.0.0.1:18533/dns-query'' getA (sampleQuery False) newPhaseClient False = (Inr p, pc)"
    using doh3_target.first_answered [OF f s] by blast
  from doh3_exchange_sound [OF p] p show ?thesis unfolding getA_lengths by blast
qed

end
