(* ===== verification/Tls13_Target.thy ===== *)
theory Tls13_Target
  imports Go_Sha256
begin

text \<open>
  The TLS 1.3 target of \<^verbatim>\<open>implementations/go-tls13/source/main.go\<close>: what it does on an accepted connection
  once the TLS library has shaken hands. For the handshake scenarios it closes; for the record scenarios it
  reads one command of 13 bytes and sends or receives a payload of a fixed octet. A connection of the TLS
  library is a \<open>conn\<close> of plaintext.
\<close>

definition alpn :: string where "alpn = ''protocol-lab-tls''"
definition requiredCipherSuite :: u16 where "requiredCipherSuite = 0x1301"
definition expectedLeafDERHash :: string where
  "expectedLeafDERHash = ''cf99a110e63d11b14d6a526d132b11b0363058f8eac30dd79a62f27fcbc38b5e''"
definition commandMagic :: string where "commandMagic = ''PLABTLS1''"

definition supportedScenarios :: "string list" where
  "supportedScenarios =
     [''tls.handshake.full'', ''tls.handshake.resumed'', ''tls.record.throughput'', ''tls.record.coverage'']"

definition hash :: "bytes \<Rightarrow> string" where "hash v = sha256Hex v"

text \<open>The check of the loaded certificate chain before the target listens.\<close>

definition checkCertificate :: "bytes list \<Rightarrow> go_error option" where
  "checkCertificate chain =
     (if chain = [] \<or> hash (hd chain) \<noteq> expectedLeafDERHash
      then Some (Errorf ''TLS certificate substitution detected'') else None)"

definition envOrDefault :: "env \<Rightarrow> string \<Rightarrow> string \<Rightarrow> string" where
  "envOrDefault getenv name fallback = (let v = trimSpace (getenv name) in if v \<noteq> '''' then v else fallback)"

definition configuredListenAddress :: "env \<Rightarrow> string" where
  "configuredListenAddress getenv =
     (let explicit = trimSpace (getenv ''PLAB_LISTEN_ADDRESS''); port = trimSpace (getenv ''PLAB_TARGET_PORT'') in
      if explicit \<noteq> '''' then explicit else if port \<noteq> '''' then ''127.0.0.1:'' @ port else ''127.0.0.1:18443'')"

section \<open>The record operation\<close>

text \<open>A write of a TLS connection takes all bytes or fails, so the loop of \<^verbatim>\<open>writeAll\<close> runs at most once.\<close>

definition writeAll :: "bytes \<Rightarrow> conn \<Rightarrow> go_error option \<times> conn" where
  "writeAll v c = (if v = [] then (None, c) else connWrite v c)"

definition payloadOf :: "nat \<Rightarrow> bytes" where "payloadOf octets = replicate octets 0x5a"

definition sendPayload :: "nat \<Rightarrow> conn \<Rightarrow> go_error option \<times> conn" where
  "sendPayload octets c =
     (case writeAll (payloadOf octets) c of (err, c1) \<Rightarrow>
      (map_option (Wrapf ''send deterministic payload'') err, c1))"

definition receivePayload :: "nat \<Rightarrow> conn \<Rightarrow> go_error option \<times> conn" where
  "receivePayload octets c =
     (case readFull octets c of
        (Inl e, c1) \<Rightarrow> (Some (Wrapf ''receive deterministic payload'' e), c1)
      | (Inr received, c1) \<Rightarrow>
          (let actual = sha256Sum received in
           if actual \<noteq> sha256Sum (payloadOf octets) then (Some (Errorf ''received payload hash mismatch''), c1)
           else (case writeAll (of_string ''OK'' @ actual) c1 of (err, c2) \<Rightarrow>
             (map_option (Wrapf ''send payload acknowledgement'') err, c2))))"

definition serveRecordOperation :: "conn \<Rightarrow> go_error option \<times> conn" where
  "serveRecordOperation c =
     (case readFull 13 c of
        (Inl e, c1) \<Rightarrow> (Some (Wrapf ''read record command'' e), c1)
      | (Inr header, c1) \<Rightarrow>
          if to_string (take 8 header) \<noteq> commandMagic then (Some (Errorf ''record command magic mismatch''), c1)
          else (let direction = header ! 8; octets = unat (uint32 (drop 9 header)) in
            if octets \<noteq> 1024 \<and> octets \<noteq> 65536 \<and> octets \<noteq> 1048576
            then (Some (Errorf (''unsupported record payload size '' @ itoa octets)), c1)
            else if direction = 83 then sendPayload octets c1
            else if direction = 67 then receivePayload octets c1
            else (Some (Errorf ''unsupported record direction''), c1)))"

text \<open>The state the server's side of the library reports after the handshake; X25519 is curve 29.\<close>

record server_state =
  ss_Version :: u16
  ss_Protocol :: string
  ss_CipherSuite :: u16
  ss_CurveID :: u16

text \<open>The connection a handler is given is a TLS connection; an error is printed, and the connection is
  closed in every case.\<close>

definition handle :: "env \<Rightarrow> server_state go \<Rightarrow> conn \<Rightarrow> go_error option \<times> conn" where
  "handle getenv handshake c =
     (case handshake of
        Inl e \<Rightarrow> (Some e, c)
      | Inr state \<Rightarrow>
          if ss_Version state \<noteq> 0x304 \<or> ss_Protocol state \<noteq> alpn \<or> ss_CipherSuite state \<noteq> requiredCipherSuite \<or>
             ss_CurveID state \<noteq> 29
          then (Some (Errorf ''unexpected negotiation''), c)
          else (let requested = trimSpace (getenv ''PLAB_SCENARIO_ID'') in
            if requested = ''tls.handshake.full'' \<or> requested = ''tls.handshake.resumed'' \<or> requested = '''' then (None, c)
            else if requested \<noteq> ''tls.record.throughput'' \<and> requested \<noteq> ''tls.record.coverage''
            then (Some (Errorf (''scenario is not supported by this target'')), c)
            else serveRecordOperation c))"

section \<open>What the record operation answers\<close>

definition command :: "8 word \<Rightarrow> nat \<Rightarrow> bytes" where
  "command direction octets = of_string commandMagic @ [direction] @ be32 (of_nat octets)"

definition payloadSizes :: "nat set" where "payloadSizes = {1024, 65536, 1048576}"

lemma command_parts:
  assumes "octets \<in> payloadSizes"
  shows "length (command d octets) = 13" "to_string (take 8 (command d octets)) = commandMagic" "command d octets ! 8 = d"
    "unat (uint32 (drop 9 (command d octets))) = octets"
  using assms by (auto simp: command_def commandMagic_def payloadSizes_def nth_append)

lemma readFull_command:
  assumes "octets \<in> payloadSizes" "conn_in c = command d octets @ rest"
  shows "readFull 13 c = (Inr (command d octets), c\<lparr>conn_in := rest\<rparr>)"
  using assms command_parts(1) [OF assms(1)] by (intro readFull_append) auto

lemma command_iff:
  assumes "length h = 13"
  shows "h = command (h ! 8) (unat (uint32 (drop 9 h))) \<longleftrightarrow> to_string (take 8 h) = commandMagic"
proof
  assume m: "to_string (take 8 h) = commandMagic"
  have "h = take 8 h @ [h ! 8] @ drop 9 h" using assms id_take_nth_drop [of 8 h] by simp
  moreover have "take 8 h = of_string commandMagic" using arg_cong [OF m, of of_string] by simp
  moreover have "be32 (uint32 (drop 9 h)) = drop 9 h"
  proof -
    obtain t where t: "drop 9 h = t" "length t = Suc (Suc (Suc (Suc 0)))" using assms by simp
    then obtain w x y z where "drop 9 h = [w, x, y, z]" by (auto simp: length_Suc_conv)
    then show ?thesis by (simp only: be32_uint32)
  qed
  ultimately show "h = command (h ! 8) (unat (uint32 (drop 9 h)))" by (simp add: command_def)
next
  assume "h = command (h ! 8) (unat (uint32 (drop 9 h)))"
  from arg_cong [OF this, of "take 8"] show "to_string (take 8 h) = commandMagic" by (simp add: command_def commandMagic_def)
qed

lemma serve_send:
  assumes "octets \<in> payloadSizes" "conn_in c = command 83 octets @ rest" "conn_cap c = None"
  shows "serveRecordOperation c = (None, c\<lparr>conn_in := rest, conn_out := conn_out c @ [payloadOf octets]\<rparr>)"
  using assms(1,3) command_parts [OF assms(1), of 83] unfolding serveRecordOperation_def readFull_command [OF assms(1,2)]
  by (auto simp: sendPayload_def writeAll_def payloadOf_def connWrite_ok payloadSizes_def Let_def)

lemma serve_receive:
  assumes "octets \<in> payloadSizes" "conn_in c = command 67 octets @ payloadOf octets @ rest" "conn_cap c = None"
  shows "serveRecordOperation c =
    (None, c\<lparr>conn_in := rest, conn_out := conn_out c @ [of_string ''OK'' @ sha256Sum (payloadOf octets)]\<rparr>)"
proof -
  have r: "readFull octets (c\<lparr>conn_in := payloadOf octets @ rest\<rparr>) = (Inr (payloadOf octets), c\<lparr>conn_in := rest\<rparr>)"
    by (subst readFull_append [where a = "payloadOf octets" and r = rest]) (simp_all add: payloadOf_def)
  have "of_string ''OK'' \<noteq> []" using length_of_string [of "''OK''"] by fastforce
  then show ?thesis
    using assms(1,3) command_parts [OF assms(1), of 67] unfolding serveRecordOperation_def readFull_command [OF assms(1,2)]
    by (auto simp: receivePayload_def r writeAll_def connWrite_ok payloadSizes_def Let_def)
qed

lemma receivePayload_cases:
  "case receivePayload n c of
     (None, c') \<Rightarrow> \<exists>rest received. conn_in c = received @ rest \<and> length received = n \<and>
       sha256Sum received = sha256Sum (payloadOf n) \<and> conn_out c' = conn_out c @ [of_string ''OK'' @ sha256Sum (payloadOf n)]
   | (Some e, c') \<Rightarrow> conn_out c' = conn_out c"
proof (cases "n \<le> length (conn_in c)")
  case True
  let ?r = "take n (conn_in c)"
  have w: "of_string ''OK'' \<noteq> []" using length_of_string [of "''OK''"] by fastforce
  have "conn_in c = ?r @ drop n (conn_in c)" "length ?r = n" using True by simp_all
  then have e: "\<exists>rest received. conn_in c = received @ rest \<and> length received = n \<and> sha256Sum received = sha256Sum (payloadOf n)"
    if "sha256Sum ?r = sha256Sum (payloadOf n)" using that by blast
  show ?thesis
  proof (cases "sha256Sum ?r = sha256Sum (payloadOf n)")
    case eq: True
    obtain err c1 where "connWrite (of_string ''OK'' @ sha256Sum (payloadOf n)) (c\<lparr>conn_in := drop n (conn_in c)\<rparr>) = (err, c1)" by force
    with connWrite_out [of "of_string ''OK'' @ sha256Sum (payloadOf n)" "c\<lparr>conn_in := drop n (conn_in c)\<rparr>"] e [OF eq] eq True w
    show ?thesis by (cases err) (auto simp: receivePayload_def readFull_def writeAll_def Let_def)
  qed (simp add: receivePayload_def readFull_def True Let_def)
qed (simp add: receivePayload_def readFull_def)

section \<open>The property\<close>

definition servedOperation :: "conn \<Rightarrow> conn \<Rightarrow> bool" where
  "servedOperation c c' \<longleftrightarrow>
     (\<exists>octets \<in> payloadSizes. \<exists>rest.
        conn_in c = command 83 octets @ rest \<and> conn_out c' = conn_out c @ [payloadOf octets] \<or>
        (\<exists>received. conn_in c = command 67 octets @ received @ rest \<and> length received = octets \<and>
           sha256Sum received = sha256Sum (payloadOf octets) \<and>
           conn_out c' = conn_out c @ [of_string ''OK'' @ sha256Sum (payloadOf octets)]))"

lemma served_receive:
  assumes "n \<in> payloadSizes" "conn_in c = command 67 n @ rest" "serveRecordOperation c = receivePayload n (c\<lparr>conn_in := rest\<rparr>)"
  shows "case serveRecordOperation c of (None, c') \<Rightarrow> servedOperation c c' | (Some e, c') \<Rightarrow> conn_out c' = conn_out c"
proof -
  obtain err c' where r: "receivePayload n (c\<lparr>conn_in := rest\<rparr>) = (err, c')" by force
  show ?thesis
  proof (cases err)
    case None
    with receivePayload_cases [of "c\<lparr>conn_in := rest\<rparr>" n] r obtain rest' received where
      "rest = received @ rest'" "length received = n" "sha256Sum received = sha256Sum (payloadOf n)"
      "conn_out c' = conn_out c @ [of_string ''OK'' @ sha256Sum (payloadOf n)]" by auto
    with assms(1,2) have "servedOperation c c'" unfolding servedOperation_def by blast
    with assms(3) r None show ?thesis by simp
  next
    case (Some e)
    with receivePayload_cases [of "c\<lparr>conn_in := rest\<rparr>" n] r assms(3) show ?thesis by simp
  qed
qed

text \<open>On any connection, the record operation of the TLS 1.3 target succeeds only after a well-formed
  command with one of the three sizes: for the direction to the client it has sent exactly the payload, for
  the direction to the server it has read that many bytes with the digest of the payload and sent exactly
  the acknowledgement with that digest. In every other case, also when the peer stops in the middle, it has
  sent nothing.\<close>

theorem tls13_target_exact:
  "case serveRecordOperation c of
     (None, c') \<Rightarrow> servedOperation c c'
   | (Some e, c') \<Rightarrow> conn_out c' = conn_out c"
proof (cases "length (conn_in c) < 13")
  case True
  then show ?thesis by (simp add: serveRecordOperation_def readFull_def)
next
  case False
  let ?h = "take 13 (conn_in c)" and ?rest = "drop 13 (conn_in c)"
  let ?n = "unat (uint32 (drop 9 ?h))" and ?c = "c\<lparr>conn_in := ?rest\<rparr>"
  have rd: "readFull 13 c = (Inr ?h, ?c)" using False by (simp add: readFull_def)
  have h: "conn_in c = command (?h ! 8) ?n @ ?rest" if "to_string (take 8 ?h) = commandMagic"
  proof -
    have "length ?h = 13" using False by simp
    from command_iff [OF this] that have "?h = command (?h ! 8) ?n" by blast
    then show ?thesis using append_take_drop_id [of 13 "conn_in c"] by (metis (no_types))
  qed
  consider "\<not> (to_string (take 8 ?h) = commandMagic \<and> ?n \<in> payloadSizes \<and> ?h ! 8 \<in> {83, 67})"
    | "to_string (take 8 ?h) = commandMagic" "?n \<in> payloadSizes" "?h ! 8 = 83"
    | "to_string (take 8 ?h) = commandMagic" "?n \<in> payloadSizes" "?h ! 8 = 67" by blast
  then show ?thesis
  proof cases
    case 1
    then have "\<exists>e. serveRecordOperation c = (Some e, ?c)"
      unfolding serveRecordOperation_def rd payloadSizes_def by (auto simp: Let_def)
    then show ?thesis by auto
  next
    case 2
    then have "serveRecordOperation c = sendPayload ?n ?c"
      unfolding serveRecordOperation_def rd payloadSizes_def by (auto simp: Let_def)
    moreover have "case sendPayload ?n ?c of (None, c') \<Rightarrow> conn_out c' = conn_out c @ [payloadOf ?n] | (Some e, c') \<Rightarrow> conn_out c' = conn_out c"
      using 2(2) by (auto simp: sendPayload_def writeAll_def payloadOf_def payloadSizes_def connWrite_def split: option.splits prod.splits nat.splits)
    ultimately show ?thesis using h [OF 2(1)] 2(2,3) by (fastforce simp: servedOperation_def split: option.splits prod.splits)
  next
    case 3
    then have "serveRecordOperation c = receivePayload ?n ?c"
      unfolding serveRecordOperation_def rd payloadSizes_def by (auto simp: Let_def)
    then show ?thesis using served_receive [OF 3(2), of c ?rest] h [OF 3(1)] 3(3) by simp
  qed
qed

end
