(* ===== verification/Tls13_Record.thy ===== *)
theory Tls13_Record
  imports Go_Base
begin

text \<open>
  The parser of encrypted records with which the TLS 1.3 executor
  (\<^verbatim>\<open>executors/go-tls13-executor/source/main.go\<close>) watches a connection, and its wrapper around both
  directions. The parser is fed whatever pieces the reads and writes of the TLS library have; it counts
  complete records and their bytes.
\<close>

record parser =
  pr_pending :: bytes
  pr_count :: nat
  pr_bytes :: nat

definition newParser :: parser where
  "newParser = \<lparr>pr_pending = [], pr_count = 0, pr_bytes = 0\<rparr>"

text \<open>The loop of \<open>feed\<close> over the pending bytes; each complete record removes at least five of them.\<close>

function drain :: "parser \<Rightarrow> parser" where
  "drain p =
     (if length (pr_pending p) < 5 then p
      else (let len = unat (uint16 (take 2 (drop 3 (pr_pending p)))) in
        if len > 18432 then p\<lparr>pr_pending := []\<rparr>
        else if length (pr_pending p) < 5 + len then p
        else drain (p\<lparr>pr_count := pr_count p + 1, pr_bytes := pr_bytes p + (5 + len), pr_pending := drop (5 + len) (pr_pending p)\<rparr>)))"
  by pat_completeness auto
termination by (relation "measure (\<lambda>p. length (pr_pending p))") auto

declare drain.simps [simp del]

definition feed :: "parser \<Rightarrow> bytes \<Rightarrow> parser" where
  "feed p value = drain (p\<lparr>pr_pending := pr_pending p @ value\<rparr>)"

section \<open>The watched connection\<close>

datatype wire_event = Wrote bytes | Received bytes

record observing_conn =
  oc_sent :: parser
  oc_received :: parser

definition newRecordObservingConn :: observing_conn where
  "newRecordObservingConn = \<lparr>oc_sent = newParser, oc_received = newParser\<rparr>"

fun observe :: "wire_event \<Rightarrow> observing_conn \<Rightarrow> observing_conn" where
  "observe (Wrote b) c = c\<lparr>oc_sent := feed (oc_sent c) b\<rparr>"
| "observe (Received b) c = c\<lparr>oc_received := feed (oc_received c) b\<rparr>"

record record_counter =
  rc_Records :: int
  rc_CiphertextBytes :: int

record record_snapshot =
  sn_Sent :: record_counter
  sn_Received :: record_counter

definition snapshot :: "observing_conn \<Rightarrow> record_snapshot" where
  "snapshot c =
     \<lparr>sn_Sent = \<lparr>rc_Records = int (pr_count (oc_sent c)), rc_CiphertextBytes = int (pr_bytes (oc_sent c))\<rparr>,
      sn_Received = \<lparr>rc_Records = int (pr_count (oc_received c)), rc_CiphertextBytes = int (pr_bytes (oc_received c))\<rparr>\<rparr>"

definition subtractCounter :: "record_counter \<Rightarrow> record_counter \<Rightarrow> record_counter" where
  "subtractCounter a b =
     \<lparr>rc_Records = rc_Records a - rc_Records b, rc_CiphertextBytes = rc_CiphertextBytes a - rc_CiphertextBytes b\<rparr>"

definition subtractSnapshot :: "record_snapshot \<Rightarrow> record_snapshot \<Rightarrow> record_snapshot" where
  "subtractSnapshot a b =
     \<lparr>sn_Sent = subtractCounter (sn_Sent a) (sn_Sent b), sn_Received = subtractCounter (sn_Received a) (sn_Received b)\<rparr>"

section \<open>Records in any pieces\<close>

text \<open>A record as it is on the wire: five bytes of header, the last two of which are the length of the
  rest, which the parser accepts up to 18432 bytes. A stream of records may end inside one.\<close>

definition wireRecord :: "bytes \<Rightarrow> bool" where
  "wireRecord r \<longleftrightarrow> 5 \<le> length r \<and> length r = 5 + unat (uint16 (take 2 (drop 3 r))) \<and> length r \<le> 5 + 18432"

definition partRecord :: "bytes \<Rightarrow> bool" where
  "partRecord t \<longleftrightarrow> (\<exists>r rest. wireRecord r \<and> r = t @ rest \<and> rest \<noteq> [])"

lemma drain_part:
  assumes "partRecord (pr_pending p)"
  shows "drain p = p"
proof -
  obtain r rest where r: "wireRecord r" "r = pr_pending p @ rest" "rest \<noteq> []" using assms by (auto simp: partRecord_def)
  show ?thesis
  proof (cases "length (pr_pending p) < 5")
    case False
    let ?len = "unat (uint16 (take 2 (drop 3 (pr_pending p))))"
    have "take 2 (drop 3 r) = take 2 (drop 3 (pr_pending p))" using False by (simp add: r(2))
    then have "length r = 5 + ?len" "?len \<le> 18432" using r(1) by (auto simp: wireRecord_def)
    moreover have "length (pr_pending p) < length r" using r(2,3) by simp
    ultimately show ?thesis using False by (simp add: drain.simps [of p] Let_def)
  qed (simp add: drain.simps [of p])
qed

lemma drain_record:
  assumes "wireRecord r" "pr_pending p = r @ rest"
  shows "drain p = drain (p\<lparr>pr_count := pr_count p + 1, pr_bytes := pr_bytes p + length r, pr_pending := rest\<rparr>)"
proof -
  let ?len = "unat (uint16 (take 2 (drop 3 (pr_pending p))))"
  obtain k where k: "unat (uint16 (take 2 (drop 3 r))) = k" "length r = 5 + k" "length r \<le> 5 + 18432"
    using assms(1) unfolding wireRecord_def by blast
  have "take 2 (drop 3 (pr_pending p)) = take 2 (drop 3 r)" using assms(2) k(2) by simp
  then have l: "5 + ?len = length r" "?len \<le> 18432" using k by simp_all
  then have c: "\<not> length (pr_pending p) < 5" "\<not> ?len > 18432" "\<not> length (pr_pending p) < 5 + ?len"
    using arg_cong [OF assms(2), of length] k(2) unfolding l(1) by simp_all
  have "drain p = drain (p\<lparr>pr_count := pr_count p + 1, pr_bytes := pr_bytes p + (5 + ?len), pr_pending := drop (5 + ?len) (pr_pending p)\<rparr>)"
    unfolding drain.simps [of p] Let_def if_not_P [OF c(1)] if_not_P [OF c(2)] if_not_P [OF c(3)] ..
  moreover have "drop (length r) (pr_pending p) = rest" using assms(2) by simp
  ultimately show ?thesis unfolding l(1) by simp
qed

lemma drain_records:
  assumes "list_all wireRecord rs" "partRecord t" "pr_pending p = concat rs @ t"
  shows "drain p = p\<lparr>pr_count := pr_count p + length rs, pr_bytes := pr_bytes p + length (concat rs), pr_pending := t\<rparr>"
  using assms
proof (induction rs arbitrary: p)
  case Nil
  then show ?case using drain_part [of p] by simp
next
  case (Cons r rs)
  let ?p = "p\<lparr>pr_count := pr_count p + 1, pr_bytes := pr_bytes p + length r, pr_pending := concat rs @ t\<rparr>"
  have "drain p = drain ?p" using drain_record [of r p "concat rs @ t"] Cons.prems by simp
  with Cons.IH [of ?p] Cons.prems show ?case by simp
qed

text \<open>A prefix of a stream of records is complete records and a part of the next one.\<close>

lemma partRecord_Nil: "partRecord []"
  unfolding partRecord_def by (intro exI [of _ "replicate 5 0"]) (simp add: wireRecord_def numeral_eq_Suc)

lemma partRecord_append: "partRecord (a @ b) \<Longrightarrow> partRecord a"
  by (auto simp: partRecord_def)

lemma stream_prefix:
  assumes "list_all wireRecord rs" "partRecord t" "concat rs @ t = a @ b"
  shows "\<exists>rs1 rs2 t1. rs = rs1 @ rs2 \<and> a = concat rs1 @ t1 \<and> partRecord t1"
  using assms
proof (induction rs arbitrary: a)
  case Nil
  then show ?case using partRecord_append [of a b] by fastforce
next
  case (Cons r rs)
  from Cons.prems(3) obtain us where "a = r @ us \<and> concat rs @ t = us @ b \<or> r = a @ us \<and> us @ concat rs @ t = b"
    by (auto simp: append_eq_append_conv2)
  then show ?case
  proof
    assume u: "a = r @ us \<and> concat rs @ t = us @ b"
    then obtain rs1 rs2 t1 where "rs = rs1 @ rs2" "us = concat rs1 @ t1" "partRecord t1" using Cons.IH [of us] Cons.prems by auto
    with u show ?thesis by (intro exI [of _ "r # rs1"] exI [of _ rs2] exI [of _ t1]) simp
  next
    assume u: "r = a @ us \<and> us @ concat rs @ t = b"
    show ?thesis
    proof (cases "us = []")
      case True
      with u partRecord_Nil show ?thesis by (intro exI [of _ "[r]"] exI [of _ rs] exI [of _ "[]"]) simp
    next
      case False
      with u Cons.prems(1) have "partRecord a" by (auto simp: partRecord_def)
      then show ?thesis by (intro exI [of _ "[]"] exI [of _ "r # rs"] exI [of _ a]) simp
    qed
  qed
qed

lemma feed_stream:
  assumes "list_all wireRecord rs" "partRecord t" "concat chunks = concat rs @ t"
  shows "foldl feed newParser chunks = \<lparr>pr_pending = t, pr_count = length rs, pr_bytes = length (concat rs)\<rparr>"
  using assms
proof (induction chunks arbitrary: rs t rule: rev_induct)
  case Nil
  then have "rs = [] \<and> t = []" by (cases rs) (auto simp: wireRecord_def)
  then show ?case by (simp add: newParser_def)
next
  case (snoc c cs)
  have c: "concat rs @ t = concat cs @ c" using snoc.prems(3) by simp
  obtain rs1 rs2 t1 where s: "rs = rs1 @ rs2" "concat cs = concat rs1 @ t1" "partRecord t1"
    using stream_prefix [OF snoc.prems(1,2) c] by blast
  then have t: "t1 @ c = concat rs2 @ t" using c by simp
  have "foldl feed newParser cs = \<lparr>pr_pending = t1, pr_count = length rs1, pr_bytes = length (concat rs1)\<rparr>"
    using snoc.IH [of rs1 t1] snoc.prems(1) s by simp
  then have "foldl feed newParser (cs @ [c]) = drain \<lparr>pr_pending = t1 @ c, pr_count = length rs1, pr_bytes = length (concat rs1)\<rparr>"
    by simp (simp add: feed_def)
  also have "\<dots> = \<lparr>pr_pending = t, pr_count = length rs, pr_bytes = length (concat rs)\<rparr>"
    using snoc.prems(1,2) s(1) t by (subst drain_records [of rs2 t]) auto
  finally show ?case .
qed

lemma drain_grows: "pr_count p \<le> pr_count (drain p) \<and> pr_bytes p \<le> pr_bytes (drain p)"
proof (induction p rule: drain.induct)
  case (1 p)
  then show ?case by (subst (1 2) drain.simps) (force simp: Let_def)
qed

lemma feed_grows: "pr_count p \<le> pr_count (feed p v)"
  using drain_grows [of "p\<lparr>pr_pending := pr_pending p @ v\<rparr>"] by (simp add: feed_def)

section \<open>The property\<close>

text \<open>C27: The record parser does not depend on how the TLS library cuts the stream: fed a stream of records
  that ends anywhere inside one, in any pieces, it counts exactly the complete records and their bytes,
  keeps exactly the part of the last one, and is in the same state as when it is fed the stream at
  once.\<close>

theorem tls13_records_counted:
  assumes "list_all wireRecord rs" "partRecord t" "concat chunks = concat rs @ t"
  shows "pr_count (foldl feed newParser chunks) = length rs \<and> pr_bytes (foldl feed newParser chunks) = length (concat rs) \<and>
    pr_pending (foldl feed newParser chunks) = t \<and> foldl feed newParser chunks = feed newParser (concat chunks)"
  using feed_stream [OF assms] feed_stream [OF assms(1,2), of "[concat chunks]"] assms(3) by simp

theorem tls13_records_counted_witness:
  "pr_count (foldl feed newParser [[23, 3], [3, 0, 2, 1], [2, 23, 3, 3, 0, 0, 23], [3]]) = 2 \<and>
   pr_bytes (foldl feed newParser [[23, 3], [3, 0, 2, 1], [2, 23, 3, 3, 0, 0, 23], [3]]) = 12"
proof -
  have r: "list_all wireRecord [[23, 3, 3, 0, 2, 1, 2], [23, 3, 3, 0, 0]]" by (simp add: wireRecord_def)
  have t: "partRecord [23, 3]"
    unfolding partRecord_def by (intro exI [of _ "[23, 3, 3, 0, 0]"] exI [of _ "[3, 0, 0]"]) (simp add: wireRecord_def)
  let ?cs = "[[23, 3], [3, 0, 2, 1], [2, 23, 3, 3, 0, 0, 23], [3]] :: bytes list"
  have "concat ?cs = concat [[23, 3, 3, 0, 2, 1, 2], [23, 3, 3, 0, 0]] @ [23, 3]" by simp
  from tls13_records_counted [OF r t this] have "pr_count (foldl feed newParser ?cs) = length [[23, 3, 3, 0, 2, 1, 2], [23, 3, 3, 0, 0 :: 8 word]]"
    "pr_bytes (foldl feed newParser ?cs) = length (concat [[23, 3, 3, 0, 2, 1, 2], [23, 3, 3, 0, 0 :: 8 word]])" by blast+
  then show ?thesis unfolding foldl.simps by simp
qed

end
