(* ===== verification/Tls13_Session.thy ===== *)
theory Tls13_Session
  imports Go_Base
begin

text \<open>
  The single-use session cache of the TLS 1.3 executor
  (\<^verbatim>\<open>executors/go-tls13-executor/source/main.go\<close>, \<^verbatim>\<open>singleUseSessionCache\<close>). The TLS library calls
  \<open>Put\<close> and \<open>Get\<close>, each under the lock of the cache; a session is the library's value, here a number, and
  \<open>None\<close> the nil pointer.
\<close>

record cache =
  c_key :: string
  c_session :: "nat option"
  c_puts :: nat
  c_gets :: nat
  c_hits :: nat

definition newCache :: cache where
  "newCache = \<lparr>c_key = [], c_session = None, c_puts = 0, c_gets = 0, c_hits = 0\<rparr>"

definition Put :: "string \<Rightarrow> nat option \<Rightarrow> cache \<Rightarrow> cache" where
  "Put key session c = c\<lparr>c_puts := c_puts c + 1, c_key := key, c_session := session\<rparr>"

definition Get :: "string \<Rightarrow> cache \<Rightarrow> nat option \<times> cache" where
  "Get key c =
     (let c1 = c\<lparr>c_gets := c_gets c + 1\<rparr> in
      if c_session c1 = None \<or> c_key c1 \<noteq> key then (None, c1)
      else (c_session c1, c1\<lparr>c_session := None, c_hits := c_hits c + 1\<rparr>))"

definition counts :: "cache \<Rightarrow> nat \<times> nat \<times> nat \<times> bool" where
  "counts c = (c_puts c, c_gets c, c_hits c, c_session c \<noteq> None)"

text \<open>The calls the library makes while it uses the cache.\<close>

datatype cache_call = CallPut string "nat option" | CallGet string

fun callCache :: "cache_call \<Rightarrow> cache \<Rightarrow> cache" where
  "callCache (CallPut key session) c = Put key session c"
| "callCache (CallGet key) c = snd (Get key c)"

section \<open>Histories of a cache\<close>

datatype cache_event = WasPut string "nat option" | WasGot string "nat option"

inductive history :: "cache_event list \<Rightarrow> cache \<Rightarrow> bool" where
  start: "history [] newCache"
| put: "history es c \<Longrightarrow> history (es @ [WasPut key session]) (Put key session c)"
| get: "history es c \<Longrightarrow> Get key c = (result, c') \<Longrightarrow> history (es @ [WasGot key result]) c'"

definition stored :: "nat \<Rightarrow> cache_event list \<Rightarrow> nat" where
  "stored s es = length (filter (\<lambda>e. \<exists>key. e = WasPut key (Some s)) es)"

definition handedOut :: "nat \<Rightarrow> cache_event list \<Rightarrow> nat" where
  "handedOut s es = length (filter (\<lambda>e. \<exists>key. e = WasGot key (Some s)) es)"

lemma history_counters:
  "history es c \<Longrightarrow>
     c_puts c = length (filter (\<lambda>e. \<exists>key s. e = WasPut key s) es) \<and>
     c_gets c = length (filter (\<lambda>e. \<exists>key r. e = WasGot key r) es) \<and>
     c_hits c = length (filter (\<lambda>e. \<exists>key s. e = WasGot key (Some s)) es) \<and>
     c_hits c + (if c_session c = None then 0 else 1) \<le> c_puts c \<and> c_hits c \<le> c_gets c"
proof (induction rule: history.induct)
  case (get es c key result c')
  then show ?case by (cases "c_session c") (auto simp: Get_def Let_def split: if_splits)
qed (auto simp: newCache_def Put_def)

lemma history_single_use:
  "history es c \<Longrightarrow> handedOut s es + (if c_session c = Some s then 1 else 0) \<le> stored s es"
  by (induction rule: history.induct)
    (auto simp: newCache_def Put_def Get_def Let_def stored_def handedOut_def split: if_splits)

lemma callCache_history:
  assumes "history es c"
  shows "\<exists>es'. history (es @ es') (fold callCache cs c)"
  using assms
proof (induction cs arbitrary: es c)
  case Nil
  then show ?case by (intro exI [of _ "[]"]) simp
next
  case (Cons a cs)
  have "\<exists>e. history (es @ [e]) (callCache a c)"
  proof (cases a)
    case (CallPut key session)
    then show ?thesis using history.put [OF Cons.prems] by auto
  next
    case (CallGet key)
    then show ?thesis using history.get [OF Cons.prems, of key "fst (Get key c)" "snd (Get key c)"] by auto
  qed
  then obtain e where "history (es @ [e]) (callCache a c)" by blast
  from Cons.IH [OF this] show ?case by auto
qed

section \<open>A use of the cache with one hit\<close>

fun isPut :: "cache_call \<Rightarrow> bool" where
  "isPut (CallPut key session) = True"
| "isPut (CallGet key) = False"

lemma calls_gets: "c_gets (fold callCache cs c) = c_gets c + length (filter (\<lambda>a. \<not> isPut a) cs)"
proof (induction cs arbitrary: c)
  case (Cons a cs)
  then show ?case by (cases a) (auto simp: Put_def Get_def Let_def)
qed simp

lemma puts_hits: "list_all isPut cs \<Longrightarrow> c_hits (fold callCache cs c) = c_hits c"
proof (induction cs arbitrary: c)
  case (Cons a cs)
  then show ?case by (cases a) (auto simp: Put_def)
qed simp

text \<open>Calls that asked once and hit once: there is one \<open>Get\<close>, and it handed out the session the cache
  held at that moment.\<close>

lemma single_hit:
  assumes "c_gets (fold callCache cs c) = c_gets c + 1" "c_hits (fold callCache cs c) = c_hits c + 1"
  shows "\<exists>before key after ticket. cs = before @ CallGet key # after \<and> list_all isPut before \<and> list_all isPut after \<and>
    c_session (fold callCache before c) = Some ticket \<and> c_key (fold callCache before c) = key \<and>
    fst (Get key (fold callCache before c)) = Some ticket"
proof -
  have "length (filter (\<lambda>a. \<not> isPut a) cs) = 1" using assms(1) by (simp add: calls_gets)
  then obtain a where "filter (\<lambda>a. \<not> isPut a) cs = [a]" by (auto simp: length_Suc_conv)
  then obtain before after where s: "cs = before @ a # after" "\<not> isPut a" "list_all isPut before" "list_all isPut after"
    by (auto simp: filter_eq_Cons_iff list_all_iff) (metis filter_empty_conv)
  then obtain key where a: "a = CallGet key" by (cases a) auto
  let ?c = "fold callCache before c"
  have "c_hits (snd (Get key ?c)) = c_hits ?c + 1"
    using assms(2) puts_hits [OF s(4)] puts_hits [OF s(3)] by (simp add: s(1) a)
  then obtain ticket where "c_session ?c = Some ticket" "c_key ?c = key"
    by (auto simp: Get_def Let_def split: if_splits)
  with s a show ?thesis by (auto simp: Get_def Let_def)
qed

section \<open>The property\<close>

text \<open>C28: In every sequence of calls the TLS library may make on the session cache, a session is handed out
  at most as often as it was stored, also while one is still held, so a ticket is never used twice; and the
  three counters of the proof are the numbers of stored, asked and found sessions.\<close>

theorem tls13_ticket_single_use:
  assumes "history es c"
  shows "handedOut s es + (if c_session c = Some s then 1 else 0) \<le> stored s es \<and>
    c_puts c = length (filter (\<lambda>e. \<exists>key s. e = WasPut key s) es) \<and>
    c_gets c = length (filter (\<lambda>e. \<exists>key r. e = WasGot key r) es) \<and>
    c_hits c = length (filter (\<lambda>e. \<exists>key s. e = WasGot key (Some s)) es) \<and>
    c_hits c \<le> c_gets c \<and> c_hits c \<le> c_puts c"
  using history_single_use [OF assms, of s] history_counters [OF assms] by auto

theorem tls13_ticket_single_use_witness:
  "\<exists>c. history [WasPut ''a'' (Some 7), WasGot ''a'' (Some 7), WasGot ''a'' None] c \<and> c_hits c = 1 \<and> c_gets c = 2 \<and>
     handedOut 7 [WasPut ''a'' (Some 7), WasGot ''a'' (Some 7), WasGot ''a'' None] \<le> 1"
proof -
  have "history [WasPut ''a'' (Some 7)] (Put ''a'' (Some 7) newCache)" using history.put [OF history.start] by simp
  from history.get [OF this, of "''a''"] obtain c1 where c1: "history [WasPut ''a'' (Some 7), WasGot ''a'' (Some 7)] c1"
    "c1 = snd (Get ''a'' (Put ''a'' (Some 7) newCache))" by (simp add: Get_def Put_def newCache_def)
  from history.get [OF c1(1), of "''a''"] c1(2) obtain c2 where
    c2: "history [WasPut ''a'' (Some 7), WasGot ''a'' (Some 7), WasGot ''a'' None] c2"
    by (simp add: Get_def Put_def newCache_def)
  from tls13_ticket_single_use [OF c2, of 7] c2 show ?thesis by (auto simp: stored_def)
qed

end
