(* ===== verification/Tls13_Executor.thy ===== *)
theory Tls13_Executor
  imports Tls13_Record Tls13_Session Go_Sha256 Go_Float
begin

text \<open>
  The TLS 1.3 executor of \<^verbatim>\<open>executors/go-tls13-executor/source/main.go\<close> around its record parser and
  session cache: the check of a handshake, full and resumed handshakes, record cases with their wire
  observations, phases, metrics, the accepted load shapes and the command. Dialling, the TLS library, the
  clock and URL parsing are arguments: what their calls return and which calls they make on the cache.
  Plaintext streams are \<open>conn\<close>. A phase that never ends is \<open>None\<close>.
\<close>

section \<open>Constants\<close>

definition executorID :: string where "executorID = ''go-tls13-executor''"
definition executorVersion :: string where "executorVersion = ''0.3.2''"
definition loadGeneratorID :: string where "loadGeneratorID = ''go-crypto-tls13-load''"
definition loadGeneratorVersion :: string where "loadGeneratorVersion = ''0.3.2''"
definition fullScenarioID :: string where "fullScenarioID = ''tls.handshake.full''"
definition resumedScenarioID :: string where "resumedScenarioID = ''tls.handshake.resumed''"
definition recordThroughputScenarioID :: string where "recordThroughputScenarioID = ''tls.record.throughput''"
definition recordCoverageScenarioID :: string where "recordCoverageScenarioID = ''tls.record.coverage''"
definition tlsSmokeProfileID :: string where "tlsSmokeProfileID = ''tls-smoke''"
definition tlsDiagnosticProfileID :: string where "tlsDiagnosticProfileID = ''tls-diagnostic''"
definition serverName :: string where "serverName = ''tls.plab.test''"
definition alpn :: string where "alpn = ''protocol-lab-tls''"
definition requiredCipherSuite :: string where "requiredCipherSuite = ''TLS_AES_128_GCM_SHA256''"
definition requiredKeyExchange :: string where "requiredKeyExchange = ''X25519''"
definition certificateProfile :: string where "certificateProfile = ''plab-single-leaf-p256-v1''"
definition leafDERHash :: string where
  "leafDERHash = ''cf99a110e63d11b14d6a526d132b11b0363058f8eac30dd79a62f27fcbc38b5e''"
definition leafSPKIHash :: string where
  "leafSPKIHash = ''407e0f88780f510da95d16cbf92243a3879c6c676be5b3c5779f11d31e646fc0''"
definition commandMagic :: string where "commandMagic = ''PLABTLS1''"
definition payloadOctet :: "8 word" where "payloadOctet = 0x5a"

definition supportedScenarioIDs :: "string list" where
  "supportedScenarioIDs = [fullScenarioID, resumedScenarioID, recordThroughputScenarioID, recordCoverageScenarioID]"

definition hash :: "bytes \<Rightarrow> string" where "hash v = sha256Hex v"

definition payloadHash :: "nat \<Rightarrow> string" where "payloadHash octets = hash (replicate octets payloadOctet)"

definition durationMS :: "int \<Rightarrow> rat" where
  "durationMS ns = fdiv (f64 (of_int ns)) (10 ^ 6)"

text \<open>\<^verbatim>\<open>Duration.Seconds\<close> of the standard library: whole seconds and the rest are converted apart.\<close>

definition durationSeconds :: "int \<Rightarrow> rat" where
  "durationSeconds ns =
     fadd (f64 (of_int (sgn ns * (\<bar>ns\<bar> div 10 ^ 9)))) (fdiv (f64 (of_int (sgn ns * (\<bar>ns\<bar> mod 10 ^ 9)))) (10 ^ 9))"

section \<open>The check of a handshake\<close>

record certificate =
  ct_Raw :: bytes
  ct_SPKI :: bytes
  ct_SignatureAlgorithm :: string
  ct_PublicKeyAlgorithm :: string
  ct_Curve :: string

text \<open>The state of a connection; the names of the cipher suite and of the curve are the library's.\<close>

record tls_state =
  ts_Version :: u16
  ts_CipherSuite :: string
  ts_CurveID :: string
  ts_Protocol :: string
  ts_HandshakeComplete :: bool
  ts_DidResume :: bool
  ts_Peers :: "certificate list"
  ts_VerifiedChains :: nat

record observation =
  o_TLSProfileID :: string
  o_TLSVersion :: string
  o_CipherSuite :: string
  o_KeyExchangeGroup :: string
  o_ALPN :: string
  o_ServerName :: string
  o_HandshakeComplete :: bool
  o_DidResume :: bool
  o_EarlyDataAttempted :: bool
  o_ApplicationDataBytesSent :: nat
  o_ApplicationDataBytesReceived :: nat
  o_CertificateProfile :: string
  o_CertificateDERSHA256 :: string
  o_CertificateSPKISHA256 :: string
  o_CertificateSignatureAlgorithm :: string
  o_CertificatePublicKeyAlgorithm :: string
  o_CertificateNamedCurve :: string
  o_VerifiedChainCount :: nat
  o_TLSHandshakeLatencyMS :: rat
  o_ConnectionAndHandshakeLatencyMS :: rat

definition noObservation :: observation where
  "noObservation =
     \<lparr>o_TLSProfileID = '''', o_TLSVersion = '''', o_CipherSuite = '''', o_KeyExchangeGroup = '''', o_ALPN = '''',
      o_ServerName = '''', o_HandshakeComplete = False, o_DidResume = False, o_EarlyDataAttempted = False,
      o_ApplicationDataBytesSent = 0, o_ApplicationDataBytesReceived = 0, o_CertificateProfile = '''',
      o_CertificateDERSHA256 = '''', o_CertificateSPKISHA256 = '''', o_CertificateSignatureAlgorithm = '''',
      o_CertificatePublicKeyAlgorithm = '''', o_CertificateNamedCurve = '''', o_VerifiedChainCount = 0,
      o_TLSHandshakeLatencyMS = 0, o_ConnectionAndHandshakeLatencyMS = 0\<rparr>"

definition tlsVersionName :: "u16 \<Rightarrow> string" where
  "tlsVersionName v = (if v = 0x304 then ''TLS1.3'' else ''0x'' @ hexEncode (be16 v))"

definition observeState :: "tls_state \<Rightarrow> observation" where
  "observeState st =
     (let o1 = noObservation\<lparr>o_TLSVersion := tlsVersionName (ts_Version st), o_CipherSuite := ts_CipherSuite st,
         o_KeyExchangeGroup := ts_CurveID st, o_ALPN := ts_Protocol st, o_ServerName := serverName,
         o_HandshakeComplete := ts_HandshakeComplete st, o_DidResume := ts_DidResume st,
         o_CertificateProfile := certificateProfile, o_VerifiedChainCount := ts_VerifiedChains st,
         o_TLSProfileID := ''plab-tls13-p256-v1''\<rparr> in
      case ts_Peers st of
        [] \<Rightarrow> o1
      | c # _ \<Rightarrow> o1\<lparr>o_CertificateDERSHA256 := hash (ct_Raw c), o_CertificateSPKISHA256 := hash (ct_SPKI c),
          o_CertificateSignatureAlgorithm := ct_SignatureAlgorithm c,
          o_CertificatePublicKeyAlgorithm := ct_PublicKeyAlgorithm c, o_CertificateNamedCurve := ct_Curve c\<rparr>)"

definition stateFailures :: "tls_state \<Rightarrow> bool \<Rightarrow> string list" where
  "stateFailures st expectResume =
     (let o1 = observeState st in
      (if ts_Version st \<noteq> 0x304 then [''exact TLS 1.3 was not negotiated''] else []) @
      (if \<not> ts_HandshakeComplete st then [''handshake incomplete''] else []) @
      (if ts_DidResume st \<noteq> expectResume then [''session state mismatch''] else []) @
      (if ts_Protocol st \<noteq> alpn then [''ALPN mismatch''] else []) @
      (if o_CipherSuite o1 \<noteq> requiredCipherSuite then [''cipher mismatch''] else []) @
      (if o_KeyExchangeGroup o1 \<noteq> requiredKeyExchange then [''key exchange mismatch''] else []) @
      (if ts_VerifiedChains st = 0 then [''certificate not verified''] else []) @
      (if o_CertificateDERSHA256 o1 \<noteq> leafDERHash \<or> o_CertificateSPKISHA256 o1 \<noteq> leafSPKIHash
       then [''certificate hash mismatch''] else []))"

definition validateState :: "tls_state \<Rightarrow> bool \<Rightarrow> observation \<times> go_error option" where
  "validateState st expectResume =
     (observeState st,
      if stateFailures st expectResume \<noteq> [] then Some (Errorf (joinWith ''; '' (stateFailures st expectResume))) else None)"

section \<open>Handshakes\<close>

text \<open>What one handshake meets: dialling, the handshake with the calls it makes on the session cache and the
  state it ends in, the two latencies, and for the draining of the ticket an error while the deadline is
  set, the calls on the cache, and the stream after the handshake.\<close>

record handshake_env =
  hs_dial :: "go_error option"
  hs_calls :: "cache_call list"
  hs_result :: "tls_state go"
  hs_nanos :: int
  hs_connNanos :: int
  hs_deadline :: "go_error option"
  hs_drainCalls :: "cache_call list"
  hs_stream :: conn

text \<open>A read into a buffer that is not empty returns a byte or an error, so the loop of
  \<^verbatim>\<open>drainSessionTicket\<close> ends with its first read.\<close>

definition drainSessionTicket :: "handshake_env \<Rightarrow> go_error option" where
  "drainSessionTicket h =
     (case hs_deadline h of
        Some e \<Rightarrow> Some e
      | None \<Rightarrow>
          if conn_in (hs_stream h) \<noteq> [] then Some (Errorf ''unexpected application data while awaiting ticket'')
          else if errorsIs (conn_end (hs_stream h)) EOF then None
          else Some (Wrapf ''session ticket was not received'' (conn_end (hs_stream h))))"

text \<open>The cache is \<open>None\<close> where the code passes nil; the library then makes no calls.\<close>

definition useCache :: "cache_call list \<Rightarrow> cache option \<Rightarrow> cache option" where
  "useCache calls cache = map_option (fold callCache calls) cache"

definition runHandshake ::
  "handshake_env \<Rightarrow> cache option \<Rightarrow> bool \<Rightarrow> bool \<Rightarrow> (observation \<times> go_error option) \<times> cache option" where
  "runHandshake h cache expectResume drainTicket =
     (case hs_dial h of
        Some e \<Rightarrow> ((noObservation, Some e), cache)
      | None \<Rightarrow>
          (let cache1 = useCache (hs_calls h) cache in
           case hs_result h of
             Inl e \<Rightarrow> ((noObservation, Some e), cache1)
           | Inr st \<Rightarrow>
               (case validateState st expectResume of (o1, err) \<Rightarrow>
                let o2 = o1\<lparr>o_TLSHandshakeLatencyMS := durationMS (hs_nanos h),
                  o_ConnectionAndHandshakeLatencyMS := durationMS (hs_connNanos h)\<rparr> in
                if err = None \<and> drainTicket
                then ((o2, drainSessionTicket h), useCache (hs_drainCalls h) cache1)
                else ((o2, err), cache1))))"

record resumption_proof =
  rp_SourceSession :: observation
  rp_MeasuredSession :: observation
  rp_ConsumedExactlyOnce :: bool
  rp_CachePutCountAfterSource :: int
  rp_CacheGetCount :: int
  rp_CacheHitCount :: int

definition runResumed ::
  "handshake_env \<Rightarrow> handshake_env \<Rightarrow> observation \<times> resumption_proof option \<times> go_error option" where
  "runResumed source measured =
     (case runHandshake source (Some newCache) False True of
        ((o1, Some e), _) \<Rightarrow> (o1, None, Some (Wrapf ''unmeasured source handshake failed'' e))
      | ((o1, None), cache) \<Rightarrow>
          (case counts (the cache) of (puts, sourceGets, sourceHits, available) \<Rightarrow>
           if \<not> available \<or> puts < 1
           then (o1, None, Some (Errorf ''source handshake did not yield a resumable TLS 1.3 ticket''))
           else (case runHandshake measured cache True False of ((o2, err), cache2) \<Rightarrow>
             (case counts (the cache2) of (_, totalGets, totalHits, availableAfter) \<Rightarrow>
              let mg = int totalGets - int sourceGets; mh = int totalHits - int sourceHits;
                  once = mg = 1 \<and> mh = 1 \<and> \<not> availableAfter;
                  p = \<lparr>rp_SourceSession = o1, rp_MeasuredSession = o2, rp_ConsumedExactlyOnce = once,
                    rp_CachePutCountAfterSource = int puts, rp_CacheGetCount = mg, rp_CacheHitCount = mh\<rparr> in
              if err \<noteq> None then (o2, Some p, err)
              else if \<not> once then (o2, Some p, Some (Errorf ''session ticket was not consumed exactly once''))
              else (o2, Some p, None)))))"

section \<open>Record cases\<close>

record record_case =
  k_CaseID :: string
  k_Direction :: string
  k_ApplicationDataBytes :: nat
  k_PayloadSHA256 :: string
  k_TransferLatencyMS :: rat
  k_BytesPerSecond :: rat
  k_WireRecordDelta :: record_snapshot
  k_Negotiation :: observation

text \<open>What one record case meets: dialling, the handshake, the plaintext stream, the encrypted pieces on the
  wire before and during the transfer, and the time of the transfer.\<close>

record case_env =
  e_dial :: "go_error option"
  e_result :: "tls_state go"
  e_hsNanos :: int
  e_stream :: conn
  e_setup :: "wire_event list"
  e_transfer :: "wire_event list"
  e_nanos :: int

definition writeAll :: "bytes \<Rightarrow> conn \<Rightarrow> go_error option \<times> conn" where
  \<comment> \<open>a write of a TLS connection takes all bytes or fails\<close>
  "writeAll v c = (if v = [] then (None, c) else connWrite v c)"

definition commandHeader :: "8 word \<Rightarrow> nat \<Rightarrow> bytes" where
  "commandHeader dir octets = of_string commandMagic @ [dir] @ be32 (of_nat octets)"

definition directionByte :: "string \<Rightarrow> 8 word" where
  "directionByte direction = (if direction = ''client-to-server'' then 67 else 83)"

definition receiveCase :: "nat \<Rightarrow> conn \<Rightarrow> go_error option" where
  "receiveCase octets c =
     (case fst (readFull octets c) of
        Inl e \<Rightarrow> Some e
      | Inr received \<Rightarrow>
          if hash received \<noteq> payloadHash octets then Some (Errorf ''server-to-client payload hash mismatch'') else None)"

definition sendCase :: "nat \<Rightarrow> conn \<Rightarrow> go_error option" where
  "sendCase octets c =
     (case writeAll (replicate octets payloadOctet) c of
        (Some e, _) \<Rightarrow> Some e
      | (None, c1) \<Rightarrow>
          (case fst (readFull 34 c1) of
             Inl e \<Rightarrow> Some e
           | Inr ack \<Rightarrow>
               if to_string (take 2 ack) \<noteq> ''OK'' \<or> hexEncode (drop 2 ack) \<noteq> payloadHash octets
               then Some (Errorf ''client-to-server acknowledgement hash mismatch'') else None))"

definition noSnapshot :: record_snapshot where
  "noSnapshot =
     \<lparr>sn_Sent = \<lparr>rc_Records = 0, rc_CiphertextBytes = 0\<rparr>, sn_Received = \<lparr>rc_Records = 0, rc_CiphertextBytes = 0\<rparr>\<rparr>"

definition noCase :: "string \<Rightarrow> string \<Rightarrow> nat \<Rightarrow> record_case" where
  "noCase caseID direction octets =
     \<lparr>k_CaseID = caseID, k_Direction = direction, k_ApplicationDataBytes = octets, k_PayloadSHA256 = payloadHash octets,
      k_TransferLatencyMS = 0, k_BytesPerSecond = 0, k_WireRecordDelta = noSnapshot, k_Negotiation = noObservation\<rparr>"

definition negotiationOf :: "env \<Rightarrow> case_env \<Rightarrow> observation \<Rightarrow> observation" where
  "negotiationOf getenv k o1 =
     (let o2 = (if trimSpace (getenv ''PLAB_SCENARIO_ID'') = recordCoverageScenarioID
        then o1\<lparr>o_TLSProfileID := ''plab-tls13-aes128gcm-p256-server-auth-v2'',
          o_CertificateProfile := ''plab-single-leaf-p256-server-v2''\<rparr> else o1) in
      o2\<lparr>o_TLSHandshakeLatencyMS := durationMS (e_hsNanos k), o_ConnectionAndHandshakeLatencyMS := durationMS (e_hsNanos k)\<rparr>)"

text \<open>The end of a case, after a transfer that succeeded: the observation of the wire and its two checks.\<close>

definition finishCase :: "case_env \<Rightarrow> string \<Rightarrow> nat \<Rightarrow> observation \<Rightarrow> record_case \<Rightarrow> record_case \<times> go_error option" where
  "finishCase k direction octets neg o1 =
     (let watched = fold observe (e_setup k) newRecordObservingConn;
          delta = subtractSnapshot (snapshot (fold observe (e_transfer k) watched)) (snapshot watched);
          o2 = o1\<lparr>k_TransferLatencyMS := durationMS (e_nanos k),
            k_BytesPerSecond := (if e_nanos k > 0 then fdiv (f64 (of_nat octets)) (durationSeconds (e_nanos k)) else 0),
            k_WireRecordDelta := delta\<rparr> in
      if direction = ''server-to-client'' \<and> rc_Records (sn_Received delta) < 1
      then (o2, Some (Errorf ''no encrypted server-to-client TLS records were observed in the measured transfer window''))
      else if direction = ''client-to-server'' \<and> rc_Records (sn_Sent delta) < 1
      then (o2, Some (Errorf ''no encrypted client-to-server TLS records were observed in the measured transfer window''))
      else (o2\<lparr>k_Negotiation := (if directionByte direction = 83 then neg\<lparr>o_ApplicationDataBytesReceived := octets\<rparr>
        else neg\<lparr>o_ApplicationDataBytesSent := octets\<rparr>)\<rparr>, None))"

definition runRecordCase ::
  "env \<Rightarrow> case_env \<Rightarrow> string \<Rightarrow> string \<Rightarrow> nat \<Rightarrow> record_case \<times> go_error option" where
  "runRecordCase getenv k caseID direction octets =
     (let o0 = noCase caseID direction octets in
      case e_dial k of
        Some e \<Rightarrow> (o0, Some e)
      | None \<Rightarrow>
          (case e_result k of
             Inl e \<Rightarrow> (o0, Some e)
           | Inr st \<Rightarrow>
               (case validateState st False of
                  (_, Some e) \<Rightarrow> (o0, Some e)
                | (obs, None) \<Rightarrow>
                    (let neg = negotiationOf getenv k obs; o1 = o0\<lparr>k_Negotiation := neg\<rparr> in
                     case writeAll (commandHeader (directionByte direction) octets) (e_stream k) of
                       (Some e, _) \<Rightarrow> (o1, Some e)
                     | (None, c1) \<Rightarrow>
                         (case (if directionByte direction = 83 then receiveCase octets c1 else sendCase octets c1) of
                            Some e \<Rightarrow> (o1, Some e)
                          | None \<Rightarrow> finishCase k direction octets neg o1)))))"

section \<open>Operations\<close>

definition coverageCases :: "(string \<times> string \<times> nat) list" where
  "coverageCases =
     [(''client-to-server-1kib'', ''client-to-server'', 1024), (''server-to-client-1kib'', ''server-to-client'', 1024),
      (''client-to-server-64kib'', ''client-to-server'', 65536), (''server-to-client-64kib'', ''server-to-client'', 65536),
      (''client-to-server-1mib'', ''client-to-server'', 1048576), (''server-to-client-1mib'', ''server-to-client'', 1048576)]"

text \<open>What one operation meets: the handshakes of the handshake scenarios, and the record cases by name.\<close>

record op_env =
  op_handshake :: handshake_env
  op_source :: handshake_env
  op_case :: "string \<Rightarrow> case_env"

type_synonym op_result = "observation \<times> resumption_proof option \<times> record_case list \<times> go_error option"

fun coverageLoop ::
  "env \<Rightarrow> (string \<Rightarrow> case_env) \<Rightarrow> (string \<times> string \<times> nat) list \<Rightarrow> observation \<Rightarrow> record_case list \<Rightarrow> op_result" where
  "coverageLoop getenv env [] latest cases = (latest, None, cases, None)"
| "coverageLoop getenv env ((caseID, direction, octets) # ds) latest cases =
     (case runRecordCase getenv (env caseID) caseID direction octets of
        (c, Some e) \<Rightarrow> (k_Negotiation c, None, cases, Some (Wrapf (''record coverage case '' @ caseID @ '' failed'') e))
      | (c, None) \<Rightarrow> coverageLoop getenv env ds (k_Negotiation c) (cases @ [c]))"

definition runOperation :: "env \<Rightarrow> string \<Rightarrow> op_env \<Rightarrow> op_result" where
  "runOperation getenv scenario op =
     (if scenario = fullScenarioID
      then (case fst (runHandshake (op_handshake op) None False False) of (o1, err) \<Rightarrow> (o1, None, [], err))
      else if scenario = resumedScenarioID
      then (case runResumed (op_source op) (op_handshake op) of (o1, p, err) \<Rightarrow> (o1, p, [], err))
      else if scenario = recordThroughputScenarioID
      then (case runRecordCase getenv (op_case op ''server-to-client-1mib'') ''server-to-client-1mib'' ''server-to-client'' 1048576 of
          (c, err) \<Rightarrow> (k_Negotiation c, None, [c], err))
      else if scenario = recordCoverageScenarioID
      then coverageLoop getenv (op_case op) coverageCases noObservation []
      else (noObservation, None, [], Some (Errorf ''unsupported operation'')))"

section \<open>Phases\<close>

definition deadlineExceeded :: go_error where
  "deadlineExceeded = NetError ''context deadline exceeded''"

definition isTimeoutErr :: "go_error \<Rightarrow> bool" where
  "isTimeoutErr e \<longleftrightarrow> errorsIs e deadlineExceeded \<or> isTimeout e"

record load_config =
  cf_ScenarioID :: string
  cf_LoadProfileID :: string
  cf_Connections :: int
  cf_Concurrency :: int
  cf_HandshakesPerConnection :: int
  cf_ApplicationDataBytes :: int
  cf_TotalOperations :: int
  cf_Duration :: int
  cf_Warmup :: int
  cf_Repetition :: int
  cf_ConnectionTimeout :: int

record summary =
  s_Phase :: string
  s_DurationSeconds :: rat
  s_CompletedOperations :: int
  s_FailedOperations :: int
  s_TimedOutOperations :: int
  s_MaximumEffectiveConcurrency :: int
  s_TLSHandshakeLatencies :: "rat list"
  s_ConnectionAndHandshakeLatencies :: "rat list"
  s_TransferLatencies :: "rat list"
  s_TotalTransferredBytes :: int
  s_LastNegotiation :: "observation option"
  s_LastResumptionProof :: "resumption_proof option"
  s_LastRecordCases :: "record_case list"
  s_Errors :: "string \<rightharpoonup> nat"

definition newSummary :: "string \<Rightarrow> summary" where
  "newSummary phase =
     \<lparr>s_Phase = phase, s_DurationSeconds = 0, s_CompletedOperations = 0, s_FailedOperations = 0, s_TimedOutOperations = 0,
      s_MaximumEffectiveConcurrency = 1, s_TLSHandshakeLatencies = [], s_ConnectionAndHandshakeLatencies = [],
      s_TransferLatencies = [], s_TotalTransferredBytes = 0, s_LastNegotiation = None, s_LastResumptionProof = None,
      s_LastRecordCases = [], s_Errors = Map.empty\<rparr>"

definition recordError :: "go_error \<Rightarrow> summary \<Rightarrow> summary" where
  "recordError e s =
     (let s1 = (if isTimeoutErr e then s\<lparr>s_TimedOutOperations := s_TimedOutOperations s + 1\<rparr>
        else s\<lparr>s_FailedOperations := s_FailedOperations s + 1\<rparr>) in
      s1\<lparr>s_Errors := (s_Errors s)(errorText e \<mapsto> (case s_Errors s (errorText e) of None \<Rightarrow> 1 | Some n \<Rightarrow> Suc n))\<rparr>)"

definition recordSuccess :: "observation \<Rightarrow> resumption_proof option \<Rightarrow> record_case list \<Rightarrow> summary \<Rightarrow> summary" where
  "recordSuccess o1 r cases s =
     s\<lparr>s_CompletedOperations := s_CompletedOperations s + 1,
       s_TLSHandshakeLatencies := s_TLSHandshakeLatencies s @ [o_TLSHandshakeLatencyMS o1],
       s_ConnectionAndHandshakeLatencies := s_ConnectionAndHandshakeLatencies s @ [o_ConnectionAndHandshakeLatencyMS o1],
       s_LastNegotiation := Some o1, s_LastResumptionProof := r, s_LastRecordCases := cases,
       s_TransferLatencies := s_TransferLatencies s @ map k_TransferLatencyMS cases,
       s_TotalTransferredBytes := s_TotalTransferredBytes s + sum_list (map (\<lambda>c. int (k_ApplicationDataBytes c)) cases)\<rparr>"

text \<open>A pass of the loop: the time since the start when it begins, and what its operation meets. The value
  is \<open>None\<close> when the loop still runs after the given passes.\<close>

record phase_round =
  r_elapsed :: int
  r_op :: op_env

definition attempts :: "summary \<Rightarrow> int" where
  "attempts s = s_CompletedOperations s + s_FailedOperations s + s_TimedOutOperations s"

fun phaseLoop :: "load_config \<Rightarrow> env \<Rightarrow> int \<Rightarrow> phase_round list \<Rightarrow> summary \<Rightarrow> summary option" where
  "phaseLoop c getenv limit [] s =
     (if cf_TotalOperations c > 0 \<and> attempts s \<ge> cf_TotalOperations c then Some s else None)"
| "phaseLoop c getenv limit (r # rs) s =
     (if cf_TotalOperations c > 0 \<and> attempts s \<ge> cf_TotalOperations c then Some s
      else if cf_TotalOperations c = 0 \<and> r_elapsed r \<ge> limit then Some s
      else (case runOperation getenv (cf_ScenarioID c) (r_op r) of
          (_, _, _, Some e) \<Rightarrow> phaseLoop c getenv limit rs (recordError e s)
        | (o1, p, cases, None) \<Rightarrow> phaseLoop c getenv limit rs (recordSuccess o1 p cases s)))"

record phase_env =
  ph_rounds :: "phase_round list"
  ph_nanos :: int

definition runPhase :: "load_config \<Rightarrow> env \<Rightarrow> phase_env \<Rightarrow> string \<Rightarrow> summary option" where
  "runPhase c getenv ph phase =
     (let limit = (if phase = ''warmup'' then cf_Warmup c else cf_Duration c) in
      map_option (\<lambda>s. s\<lparr>s_DurationSeconds := durationSeconds (ph_nanos ph)\<rparr>)
        (phaseLoop c getenv limit (ph_rounds ph) (newSummary phase)))"

section \<open>Metrics and the result\<close>

fun sumFrom :: "rat \<Rightarrow> rat list \<Rightarrow> rat" where
  "sumFrom t [] = t"
| "sumFrom t (x # xs) = sumFrom (fadd t x) xs"

definition mean :: "rat list \<Rightarrow> rat" where
  "mean v = (if v = [] then 0 else fdiv (sumFrom 0 v) (f64 (of_nat (length v))))"

definition percentile :: "rat list \<Rightarrow> rat \<Rightarrow> rat" where
  "percentile values q =
     (if values = [] then 0
      else (let v = sort values; n = int (length v);
                i = \<lceil>fmul q (f64 (of_int n))\<rceil> - 1; j = (if i < 0 then 0 else i);
                k = (if j \<ge> n then n - 1 else j) in
            v ! nat k))"

record metric_set =
  m_HandshakesPerSecond :: rat
  m_HandshakeLatencyMean :: rat
  m_HandshakeLatencyPercentiles :: "rat list"
  m_ConnectionAndHandshakeLatencyMean :: rat
  m_BytesPerSecond :: rat
  m_TransferLatencyMean :: rat
  m_TransferLatencyPercentiles :: "rat list"
  m_TotalTransferredBytes :: int
  m_CompletedOperations :: int
  m_FailedOperations :: int
  m_TimedOutOperations :: int

text \<open>The percentiles 50, 75, 90, 95 and 99.\<close>

definition percentiles :: "rat list \<Rightarrow> rat list" where
  "percentiles v = map (\<lambda>q. percentile v (f64 q)) [50 / 100, 75 / 100, 90 / 100, 95 / 100, 99 / 100]"

definition normalizeMetrics :: "summary \<Rightarrow> metric_set" where
  "normalizeMetrics s =
     (let d = (if s_DurationSeconds s \<le> 0 then 1 else s_DurationSeconds s) in
      \<lparr>m_HandshakesPerSecond = fdiv (f64 (of_int (s_CompletedOperations s))) d,
       m_HandshakeLatencyMean = mean (s_TLSHandshakeLatencies s),
       m_HandshakeLatencyPercentiles = percentiles (s_TLSHandshakeLatencies s),
       m_ConnectionAndHandshakeLatencyMean = mean (s_ConnectionAndHandshakeLatencies s),
       m_BytesPerSecond = fdiv (f64 (of_int (s_TotalTransferredBytes s))) d,
       m_TransferLatencyMean = mean (s_TransferLatencies s),
       m_TransferLatencyPercentiles = percentiles (s_TransferLatencies s),
       m_TotalTransferredBytes = s_TotalTransferredBytes s, m_CompletedOperations = s_CompletedOperations s,
       m_FailedOperations = s_FailedOperations s, m_TimedOutOperations = s_TimedOutOperations s\<rparr>)"

record load_shape =
  l_Connections :: int
  l_Concurrency :: int
  l_HandshakesPerConnection :: int
  l_ApplicationDataBytes :: int
  l_TotalOperations :: "int option"
  l_DurationSeconds :: rat
  l_WarmupSeconds :: rat
  l_Repetition :: int

definition shapeFrom :: "load_config \<Rightarrow> load_shape" where
  "shapeFrom c =
     \<lparr>l_Connections = cf_Connections c, l_Concurrency = cf_Concurrency c,
      l_HandshakesPerConnection = cf_HandshakesPerConnection c, l_ApplicationDataBytes = cf_ApplicationDataBytes c,
      l_TotalOperations = (if cf_TotalOperations c > 0 then Some (cf_TotalOperations c) else None),
      l_DurationSeconds = durationSeconds (cf_Duration c), l_WarmupSeconds = durationSeconds (cf_Warmup c),
      l_Repetition = cf_Repetition c\<rparr>"

record result =
  res_SchemaVersion :: string
  res_ScenarioID :: string
  res_Mode :: string
  res_Executor :: "string \<times> string"
  res_LoadGenerator :: "string \<times> string"
  res_Status :: string
  res_ProtocolProof :: observation
  res_RequestedLoad :: load_shape
  res_EffectiveLoad :: load_shape
  res_Metrics :: metric_set

section \<open>Scenarios, configuration and the command\<close>

definition requestedScenario :: "env \<Rightarrow> (string \<times> string) go" where
  "requestedScenario getenv =
     (let s = trimSpace (getenv ''PLAB_SCENARIO_ID'') in
      if s = fullScenarioID then Inr (s, ''tls1.3-full'')
      else if s = resumedScenarioID then Inr (s, ''tls1.3-psk-resumed'')
      else if s = recordThroughputScenarioID then Inr (s, ''tls1.3-record'')
      else if s = recordCoverageScenarioID then Inr (s, ''tls1.3-record-coverage'')
      else Inl (Errorf (''unknown or invalid TLS scenario '' @ quoted s)))"

definition isKnownUnsupportedScenario :: "string \<Rightarrow> bool" where
  "isKnownUnsupportedScenario s \<longleftrightarrow>
     s \<in> {''tls.handshake.full.tls12'', ''tls.handshake.full.chacha20'', ''tls.handshake.mutual-auth'',
       ''tls.early-data.accepted'', ''tls.early-data.rejected'', ''tls.key-update.diagnostic''}"

definition isRecordScenario :: "string \<Rightarrow> bool" where
  "isRecordScenario s \<longleftrightarrow> s = recordThroughputScenarioID \<or> s = recordCoverageScenarioID"

definition scenarioMode :: "string \<Rightarrow> string" where
  "scenarioMode s =
     (if s = fullScenarioID then ''full-handshake'' else if s = resumedScenarioID then ''resumed-handshake''
      else if s = recordThroughputScenarioID then ''record-throughput''
      else if s = recordCoverageScenarioID then ''record-coverage'' else '''')"

definition envInt :: "env \<Rightarrow> string \<Rightarrow> int" where
  "envInt getenv name = fst (atoi (trimSpace (getenv name)))"

text \<open>\<^verbatim>\<open>time.Duration(n) * time.Second\<close> in 64 bits.\<close>

definition secondsOf :: "int \<Rightarrow> int" where
  "secondsOf n = sint (word_of_int (n * 10 ^ 9) :: 64 word)"

definition operationTimeout :: "env \<Rightarrow> int" where
  "operationTimeout getenv =
     (let n = envInt getenv ''PLAB_REQUEST_TIMEOUT_SECONDS'' in secondsOf (if n = 0 then 5 else n))"

definition smokeShape :: "load_config \<Rightarrow> bool" where
  "smokeShape c \<longleftrightarrow> cf_Connections c = 1 \<and> cf_Concurrency c = 1 \<and> cf_Duration c = 5 * 10 ^ 9 \<and> cf_Warmup c = 10 ^ 9 \<and>
     cf_Repetition c \<ge> 1 \<and> cf_ConnectionTimeout c = 5 * 10 ^ 9"

definition configOf :: "env \<Rightarrow> string \<Rightarrow> load_config" where
  "configOf getenv scenario =
     \<lparr>cf_ScenarioID = scenario, cf_LoadProfileID = trimSpace (getenv ''PLAB_LOAD_PROFILE_ID''),
      cf_Connections = envInt getenv ''PLAB_CONNECTIONS'', cf_Concurrency = envInt getenv ''PLAB_CONCURRENCY'',
      cf_HandshakesPerConnection = 1,
      cf_ApplicationDataBytes = (if scenario = recordThroughputScenarioID then 1048576 else 0),
      cf_TotalOperations = envInt getenv ''PLAB_TOTAL_OPERATIONS'',
      cf_Duration = secondsOf (envInt getenv ''PLAB_DURATION_SECONDS''),
      cf_Warmup = secondsOf (envInt getenv ''PLAB_WARMUP_SECONDS''), cf_Repetition = envInt getenv ''PLAB_REPETITION'',
      cf_ConnectionTimeout = operationTimeout getenv\<rparr>"

definition loadConfigFromEnvironment :: "env \<Rightarrow> load_config go" where
  "loadConfigFromEnvironment getenv =
     (case requestedScenario getenv of
        Inl e \<Rightarrow> Inl e
      | Inr (scenario, _) \<Rightarrow>
          (let c = configOf getenv scenario; profile = cf_LoadProfileID c in
           if scenario = recordCoverageScenarioID then
             (if profile = tlsSmokeProfileID then
                (if \<not> smokeShape c then Inl (Errorf ''tls-smoke record coverage requires connections=1 concurrency=1'') else Inr c)
              else if profile \<noteq> tlsDiagnosticProfileID \<or> cf_Connections c \<noteq> 1 \<or> cf_Concurrency c \<noteq> 1 \<or> cf_TotalOperations c \<noteq> 1 \<or>
                cf_Duration c \<noteq> 10 * 10 ^ 9 \<or> cf_Warmup c \<noteq> 0 \<or> cf_Repetition c < 1 \<or> cf_ConnectionTimeout c \<noteq> 15 * 10 ^ 9
              then Inl (Errorf ''record coverage requires the exact tls-smoke or tls-diagnostic shape'')
              else Inr c)
           else if profile \<noteq> tlsSmokeProfileID \<or> \<not> smokeShape c
           then Inl (Errorf (''tls-smoke with '' @ scenario @ '' requires connections=1 concurrency=1''))
           else Inr c))"

text \<open>The target address: \<open>split\<close> is \<^verbatim>\<open>net.SplitHostPort\<close>, \<open>parse\<close> \<^verbatim>\<open>url.Parse\<close> as scheme and host.\<close>

fun hasInfix :: "string \<Rightarrow> string \<Rightarrow> bool" where
  "hasInfix p [] \<longleftrightarrow> p = []"
| "hasInfix p (c # cs) \<longleftrightarrow> take (length p) (c # cs) = p \<or> hasInfix p cs"

definition normalizeTarget ::
  "(string \<Rightarrow> go_error option) \<Rightarrow> (string \<Rightarrow> (string \<times> string) go) \<Rightarrow> string \<Rightarrow> string go" where
  "normalizeTarget split parse v =
     (let value = trimSpace v in
      if value = '''' then Inl (Errorf ''target required'')
      else if \<not> hasInfix ''://'' value then (case split value of Some e \<Rightarrow> Inl e | None \<Rightarrow> Inr value)
      else (case parse value of
          Inl e \<Rightarrow> Inl e
        | Inr (scheme, host) \<Rightarrow>
            if scheme \<noteq> ''tls'' \<or> host = '''' then Inl (Errorf ''TLS target must use tls://host:port'') else Inr host))"

definition loadRoots :: "bytes go \<Rightarrow> (bytes \<Rightarrow> bool) \<Rightarrow> go_error option" where
  "loadRoots file parses =
     (case file of Inl e \<Rightarrow> Some e
      | Inr pem \<Rightarrow> if \<not> parses pem then Some (Errorf ''root PEM contained no certificate'') else None)"

definition errorString :: "go_error option \<Rightarrow> string" where
  "errorString err = (case err of None \<Rightarrow> '''' | Some e \<Rightarrow> errorText e)"

text \<open>\<open>False\<close> is the substitution that ends the process with code 2.\<close>

definition verifySubstitution :: "env \<Rightarrow> string \<Rightarrow> string \<Rightarrow> bool" where
  "verifySubstitution getenv name expected \<longleftrightarrow>
     trimSpace (getenv name) = '''' \<or> trimSpace (getenv name) = expected"

definition boolInt :: "bool \<Rightarrow> int" where "boolInt v = (if v then 1 else 0)"

record validation_doc =
  v_ScenarioID :: string
  v_Passed :: bool
  v_RequestedProtocol :: string
  v_ObservedProtocol :: string
  v_FallbackDetected :: bool
  v_DidResume :: bool
  v_UnexpectedFailureCount :: int
  v_TimeoutCount :: int
  v_Error :: string

definition validationOf :: "string \<Rightarrow> string \<Rightarrow> observation \<Rightarrow> go_error option \<Rightarrow> validation_doc" where
  "validationOf scenario variant o1 err =
     \<lparr>v_ScenarioID = scenario, v_Passed = (err = None), v_RequestedProtocol = variant, v_ObservedProtocol = o_TLSVersion o1,
      v_FallbackDetected = (o_TLSVersion o1 \<noteq> ''TLS1.3''), v_DidResume = o_DidResume o1,
      v_UnexpectedFailureCount = boolInt (err \<noteq> None),
      v_TimeoutCount = boolInt (case err of None \<Rightarrow> False | Some e \<Rightarrow> isTimeoutErr e), v_Error = errorString err\<rparr>"

datatype artifact =
    Unsupported string | ResultUnsupported string | ExecutorIdentity string string "string list"
  | ValidationJson validation_doc | ResultValidation validation_doc | ProtocolProof observation
  | TlsNegotiation observation | ResumptionProof "resumption_proof option"
  | PayloadHashes string "(string \<times> string \<times> nat \<times> string) list" | RecordCoverage bool "record_case list"
  | WarmupSummary summary | LoadSummary summary | Topology load_shape load_shape | HandshakeLatency "rat list"
  | LoadGeneratorIdentity "string \<times> string" | ExecutorResult result

definition writeIdentity :: "artifact list" where
  "writeIdentity = [ExecutorIdentity executorID executorVersion supportedScenarioIDs]"

definition emitUnsupported :: "string \<Rightarrow> artifact list" where
  "emitUnsupported scenario = [Unsupported scenario, ResultUnsupported scenario] @ writeIdentity"

definition writeRecordArtifacts :: "string \<Rightarrow> record_case list \<Rightarrow> artifact list" where
  "writeRecordArtifacts scenario cases =
     [PayloadHashes scenario (map (\<lambda>c. (k_CaseID c, k_Direction c, k_ApplicationDataBytes c, k_PayloadSHA256 c)) cases)] @
     (if scenario = recordCoverageScenarioID then [RecordCoverage (length cases = 6) cases] else [])"

definition writePreflight :: "string \<Rightarrow> string \<Rightarrow> op_result \<Rightarrow> artifact list" where
  "writePreflight scenario variant r =
     (case r of (o1, p, cases, err) \<Rightarrow>
      let validation = validationOf scenario variant o1 err in
      [ValidationJson validation, ResultValidation validation, ProtocolProof o1, TlsNegotiation o1] @
      (if scenario = resumedScenarioID then [ResumptionProof p] else []) @
      (if isRecordScenario scenario then writeRecordArtifacts scenario cases else []) @ writeIdentity)"

definition phaseRejected :: "summary \<Rightarrow> bool" where
  "phaseRejected s \<longleftrightarrow> s_FailedOperations s \<noteq> 0 \<or> s_TimedOutOperations s \<noteq> 0 \<or> s_CompletedOperations s = 0"

definition resultOf :: "string \<Rightarrow> load_config \<Rightarrow> summary \<Rightarrow> observation \<Rightarrow> result" where
  "resultOf scenario c s o1 =
     \<lparr>res_SchemaVersion = ''protocol-lab.tls-executor-result.v1'', res_ScenarioID = scenario, res_Mode = scenarioMode scenario,
      res_Executor = (executorID, executorVersion), res_LoadGenerator = (loadGeneratorID, loadGeneratorVersion),
      res_Status = ''passed'', res_ProtocolProof = o1, res_RequestedLoad = shapeFrom c,
      res_EffectiveLoad = (shapeFrom c)\<lparr>l_Concurrency := s_MaximumEffectiveConcurrency s\<rparr>,
      res_Metrics = normalizeMetrics s\<rparr>"

definition runMeasured :: "string \<Rightarrow> env \<Rightarrow> load_config \<Rightarrow> phase_env \<Rightarrow> artifact list \<Rightarrow> (artifact list \<times> nat) option" where
  "runMeasured scenario getenv c load written =
     (case runPhase c getenv load ''measured'' of
        None \<Rightarrow> None
      | Some s \<Rightarrow>
          (let loaded = written @ [LoadSummary s] in
           if phaseRejected s then Some (loaded, 1)
           else (case s_LastNegotiation s of
               None \<Rightarrow> Some (loaded, 1)
             | Some o1 \<Rightarrow>
                 (let r = resultOf scenario c s o1 in
                  Some (loaded @ [Topology (res_RequestedLoad r) (res_EffectiveLoad r),
                    HandshakeLatency (s_ConnectionAndHandshakeLatencies s), LoadGeneratorIdentity (res_LoadGenerator r)] @
                    (if scenario = resumedScenarioID then [ResumptionProof (s_LastResumptionProof s)] else []) @
                    (if isRecordScenario scenario then writeRecordArtifacts scenario (s_LastRecordCases s) else []) @
                    [ExecutorResult r], 0)))))"

text \<open>What one invocation writes, in order, and its exit code. Every \<^verbatim>\<open>writeRequired\<close> succeeds.\<close>

definition runMain ::
  "env \<Rightarrow> string go \<Rightarrow> go_error option \<Rightarrow> bool \<Rightarrow> op_env \<Rightarrow> phase_env \<Rightarrow> phase_env \<Rightarrow> (artifact list \<times> nat) option" where
  "runMain getenv target roots validationOnly pre warm load =
     (let requestedID = trimSpace (getenv ''PLAB_SCENARIO_ID'') in
      if \<not> (verifySubstitution getenv ''PLAB_EXECUTOR_ID'' executorID \<and>
             verifySubstitution getenv ''PLAB_EXECUTOR_VERSION'' executorVersion \<and>
             verifySubstitution getenv ''PLAB_LOAD_GENERATOR_ID'' loadGeneratorID \<and>
             verifySubstitution getenv ''PLAB_LOAD_GENERATOR_VERSION'' loadGeneratorVersion \<and>
             verifySubstitution getenv ''PLAB_PROTOCOL'' ''tls'') then Some ([], 2)
      else if isKnownUnsupportedScenario requestedID then Some (emitUnsupported requestedID, 3)
      else (case requestedScenario getenv of
          Inl e \<Rightarrow> Some ([], 2)
        | Inr (scenario, variant) \<Rightarrow>
            if \<not> verifySubstitution getenv ''PLAB_PROTOCOL_VARIANT'' variant then Some ([], 2)
            else (case target of
                Inl e \<Rightarrow> Some ([], 2)
              | Inr address \<Rightarrow> (case roots of
                  Some e \<Rightarrow> Some ([], 2)
                | None \<Rightarrow>
                    (let preflight = runOperation getenv scenario pre;
                         gate = writePreflight scenario variant preflight in
                     if snd (snd (snd preflight)) \<noteq> None then Some (gate, 1)
                     else if validationOnly then Some (gate, 0)
                     else (case loadConfigFromEnvironment getenv of
                         Inl e \<Rightarrow> Some (gate, 2)
                       | Inr c \<Rightarrow>
                           if cf_Warmup c > 0
                           then (case runPhase c getenv warm ''warmup'' of
                               None \<Rightarrow> None
                             | Some s \<Rightarrow>
                                 if phaseRejected s then Some (gate @ [WarmupSummary s], 1)
                                 else runMeasured scenario getenv c load (gate @ [WarmupSummary s]))
                           else runMeasured scenario getenv c load gate))))))"

end
