(* ===== verification/Tls_Certificate.thy ===== *)
theory Tls_Certificate
  imports Lab_Certificates
begin

text \<open>
  The leaf certificate of the TLS components, \<^verbatim>\<open>implementations/go-tls13/certs/leaf.pem\<close>, decoded, with
  its public key part and the computed digests of both.
\<close>

definition tlsLeafHex :: string where
  "tlsLeafHex =
    (''308201c63082016ca003020102020c504c41420000000000000011300a06082a8648ce3d04030230'' @
     ''233121301f06035504030c1850726f746f636f6c4c6162205465737420526f6f74207632301e170d'' @
     ''3236303731333137313231305a170d3238313031353137313231305a30183116301406035504030c'' @
     ''0d746c732e706c61622e746573743059301306072a8648ce3d020106082a8648ce3d030107034200'' @
     ''04df1c0e1a4324fb48d269a4d20686363a649a70554e5d7ffee3c8c0d8b7e038c651672e993a7218'' @
     ''0867e48a762e7c94827c871fc1ebea5d7650577a479afa6c85a3819030818d30180603551d110411'' @
     ''300f820d746c732e706c61622e74657374300c0603551d130101ff04023000300e0603551d0f0101'' @
     ''ff04040302078030130603551d25040c300a06082b06010505070301301d0603551d0e0416041442'' @
     ''27bf7299a71fc3ecc613e07561b262b65c205c301f0603551d2304183016801463d9d4d49067c50f'' @
     ''aed007db0988317f2ad9f831300a06082a8648ce3d0403020348003045022100e6744ddcbe9b99fa'' @
     ''77b3fcb3df148c1fa20ea0ec3d6642b23fca48f9881e4f17022063c0c1115e6ad3ad7c6bbbbf194d'' @
     ''d670eafbe9aae0d449b16b0c946e0a1c36a6'')"

definition tlsLeaf :: bytes where "tlsLeaf = fromHex tlsLeafHex"
definition tlsLeafKey :: bytes where "tlsLeafKey = take 91 (drop 134 tlsLeaf)"

lemma pad_458:
  "hexDecode (''800000000000000000000000000000000000000000000000000000000000000000000000000000000000000000000000000000000e50'') =
     Some ([0x80] @ replicate ((119 - 458 mod 64) mod 64) 0 @ be64 (of_nat (8 * 458)))"
  by code_simp

lemma tlsLeaf_hex: "hexOk tlsLeafHex" "length tlsLeafHex = 2 * 458"
  by (simp_all add: tlsLeafHex_def hexOk_def hexVal_def)

lemma tlsLeaf_digest:
  "sha256Hex tlsLeaf = ''cf99a110e63d11b14d6a526d132b11b0363058f8eac30dd79a62f27fcbc38b5e''"
  unfolding tlsLeaf_def digest_fromHex [OF tlsLeaf_hex pad_458] unfolding tlsLeafHex_def
  by (simp only: sha_eval)

lemma tlsLeafKey_digest:
  "sha256Hex tlsLeafKey = ''407e0f88780f510da95d16cbf92243a3879c6c676be5b3c5779f11d31e646fc0''"
proof -
  let ?v = "take (2 * 91) (drop (2 * 134) tlsLeafHex)"
  have k: "tlsLeafKey = fromHex ?v" unfolding tlsLeafKey_def tlsLeaf_def by (rule fromHex_part) (rule tlsLeaf_hex)
  have ok: "hexOk ?v" by (rule hexOk_part) (simp_all add: tlsLeaf_hex)
  have len: "length ?v = 2 * 91" by (simp add: tlsLeaf_hex)
  have "sha256Hex tlsLeafKey = hexState (shaAbsorbB (stateBits shaInit) (wordsBits (hexBits (?v @ ''800000000000000000000000000000000000000000000000000000000000000000000002d8''))))"
    unfolding k by (rule digest_fromHex [OF ok len pad_91])
  also have "?v = ''3059301306072a8648ce3d020106082a8648ce3d03010703420004df1c0e1a4324fb48d269a4d20686363a649a70554e5d7ffee3c8c0d8b7e038c651672e993a72180867e48a762e7c94827c871fc1ebea5d7650577a479afa6c85''" unfolding tlsLeafHex_def by simp
  finally show ?thesis by (simp only: sha_eval)
qed

end
