(* ===== verification/Tls13_Interop.thy ===== *)
theory Tls13_Interop
  imports Tls13_Target Tls13_Executor Tls_Certificate
begin

text \<open>
  The TLS 1.3 executor against the TLS 1.3 target, and what its phases and its verdicts mean: when a phase
  ends and what it counts, that an accepted resumption consumed one ticket of its own source handshake,
  and that runs of the four scenarios pass. The interface to the server of the record scenarios is the
  locale \<open>record_server\<close>, interpreted on the target's record operation.
\<close>

section \<open>When a phase ends\<close>

text \<open>One pass of the loop on the summary, and the number of passes the loop makes: it does not depend on
  the outcome of the operations, since every one of them is counted.\<close>

definition performRound :: "load_config \<Rightarrow> env \<Rightarrow> phase_round \<Rightarrow> summary \<Rightarrow> summary" where
  "performRound c getenv r s =
     (case runOperation getenv (cf_ScenarioID c) (r_op r) of
        (_, _, _, Some e) \<Rightarrow> recordError e s
      | (o1, p, cases, None) \<Rightarrow> recordSuccess o1 p cases s)"

fun passes :: "load_config \<Rightarrow> int \<Rightarrow> int \<Rightarrow> phase_round list \<Rightarrow> nat option" where
  "passes c limit a [] = (if cf_TotalOperations c > 0 \<and> a \<ge> cf_TotalOperations c then Some 0 else None)"
| "passes c limit a (r # rs) =
     (if cf_TotalOperations c > 0 \<and> a \<ge> cf_TotalOperations c then Some 0
      else if cf_TotalOperations c = 0 \<and> r_elapsed r \<ge> limit then Some 0
      else map_option Suc (passes c limit (a + 1) rs))"

lemma attempts_step [simp]:
  "attempts (recordError e s) = attempts s + 1" "attempts (recordSuccess o1 p cases s) = attempts s + 1"
  "attempts (performRound c getenv r s) = attempts s + 1" "attempts (newSummary phase) = 0"
  by (simp_all add: attempts_def recordError_def recordSuccess_def newSummary_def performRound_def Let_def split: prod.splits option.splits)

lemma attempts_rounds: "attempts (fold (performRound c getenv) rs s) = attempts s + int (length rs)"
  by (induction rs arbitrary: s) simp_all

lemma phaseLoop_passes:
  "phaseLoop c getenv limit rs s =
     map_option (\<lambda>n. fold (performRound c getenv) (take n rs) s) (passes c limit (attempts s) rs)"
proof (induction rs arbitrary: s)
  case (Cons r rs)
  have e: "phaseLoop c getenv limit (r # rs) s =
      (if cf_TotalOperations c > 0 \<and> attempts s \<ge> cf_TotalOperations c then Some s
       else if cf_TotalOperations c = 0 \<and> r_elapsed r \<ge> limit then Some s
       else phaseLoop c getenv limit rs (performRound c getenv r s))"
    by (auto simp: performRound_def split: prod.splits option.splits)
  have "phaseLoop c getenv limit rs (performRound c getenv r s) =
      map_option (\<lambda>n. fold (performRound c getenv) (take n rs) (performRound c getenv r s)) (passes c limit (attempts s + 1) rs)"
    using Cons [of "performRound c getenv r s"] by simp
  then show ?case unfolding e by (simp add: option.map_comp comp_def)
qed simp

lemma passes_total:
  "0 < cf_TotalOperations c \<Longrightarrow> a \<le> cf_TotalOperations c \<Longrightarrow> cf_TotalOperations c - a \<le> int (length rs) \<Longrightarrow>
     passes c limit a rs = Some (nat (cf_TotalOperations c - a))"
proof (induction rs arbitrary: a)
  case (Cons r rs)
  show ?case
  proof (cases "a = cf_TotalOperations c")
    case False
    with Cons.prems Cons.IH [of "a + 1"] show ?thesis by (auto simp: nat_diff_distrib' Suc_nat_eq_nat_zadd1)
  qed (use Cons.prems in simp)
qed simp

lemma passes_time:
  "cf_TotalOperations c = 0 \<Longrightarrow> list_all (\<lambda>r. r_elapsed r < limit) early \<Longrightarrow> limit \<le> r_elapsed r \<Longrightarrow>
     passes c limit a (early @ r # late) = Some (length early)"
  by (induction early arbitrary: a) auto

lemma passes_negative: "cf_TotalOperations c < 0 \<Longrightarrow> passes c limit a rs = None"
  by (induction rs arbitrary: a) auto

lemma passes_le: "passes c limit a rs = Some n \<Longrightarrow> n \<le> length rs"
  by (induction rs arbitrary: a n) (auto split: if_splits)

text \<open>When a phase of the TLS 1.3 executor ends. With a positive number of operations it ends after exactly
  that many, with failures and time-outs counted; with zero it ends at the first pass that begins after the
  limit, having made one operation for each pass before; in both cases every operation is counted once as
  completed, failed or timed out.\<close>

theorem tls13_phase_ends:
  "(cf_TotalOperations c > 0 \<longrightarrow> cf_TotalOperations c \<le> int (length rs) \<longrightarrow>
     (\<exists>s. phaseLoop c getenv limit rs (newSummary phase) = Some s \<and> attempts s = cf_TotalOperations c)) \<and>
   (cf_TotalOperations c = 0 \<longrightarrow> rs = early @ r # late \<longrightarrow> list_all (\<lambda>r. r_elapsed r < limit) early \<longrightarrow> limit \<le> r_elapsed r \<longrightarrow>
     (\<exists>s. phaseLoop c getenv limit rs (newSummary phase) = Some s \<and> attempts s = int (length early)))"
proof (intro conjI impI)
  assume "cf_TotalOperations c > 0" "cf_TotalOperations c \<le> int (length rs)"
  then show "\<exists>s. phaseLoop c getenv limit rs (newSummary phase) = Some s \<and> attempts s = cf_TotalOperations c"
    using passes_total [of c 0 rs limit] by (simp add: phaseLoop_passes attempts_rounds min_def) linarith
next
  assume "cf_TotalOperations c = 0" "rs = early @ r # late" "list_all (\<lambda>r. r_elapsed r < limit) early" "limit \<le> r_elapsed r"
  then show "\<exists>s. phaseLoop c getenv limit rs (newSummary phase) = Some s \<and> attempts s = int (length early)"
    using passes_time [of c limit early r 0 late] by (simp add: phaseLoop_passes attempts_rounds)
qed

text \<open>C30: A negative number of operations makes a phase of the TLS 1.3 executor run for ever: the configuration is
  accepted, the loop neither counts down nor looks at the clock, and no number of passes ends it.\<close>

theorem tls13_negative_never_ends:
  assumes "loadConfigFromEnvironment getenv = Inr c" "envInt getenv ''PLAB_TOTAL_OPERATIONS'' < 0"
  shows "runPhase c getenv ph phase = None"
proof -
  from assms(1) obtain scenario where "c = configOf getenv scenario"
    by (auto simp: loadConfigFromEnvironment_def Let_def split: sum.splits prod.splits if_splits)
  with assms(2) have "cf_TotalOperations c < 0" by (simp add: configOf_def)
  then show ?thesis by (simp add: runPhase_def phaseLoop_passes passes_negative Let_def)
qed

section \<open>The wire of a transfer\<close>

fun sentPieces :: "wire_event list \<Rightarrow> bytes list" where
  "sentPieces [] = []"
| "sentPieces (Wrote b # es) = b # sentPieces es"
| "sentPieces (Received b # es) = sentPieces es"

fun receivedPieces :: "wire_event list \<Rightarrow> bytes list" where
  "receivedPieces [] = []"
| "receivedPieces (Wrote b # es) = receivedPieces es"
| "receivedPieces (Received b # es) = b # receivedPieces es"

lemma observe_pieces:
  "oc_sent (fold observe es c) = foldl feed (oc_sent c) (sentPieces es)"
  "oc_received (fold observe es c) = foldl feed (oc_received c) (receivedPieces es)"
  by (induction es arbitrary: c rule: sentPieces.induct) simp_all

text \<open>TLS speaks in records, however the pieces cut them: before the transfer some were complete, and at
  least one more is complete at its end.\<close>

definition recordWindow :: "bytes list \<Rightarrow> bytes list \<Rightarrow> bool" where
  "recordWindow before during \<longleftrightarrow>
     (\<exists>rs1 rs2 t1 t2. list_all wireRecord (rs1 @ rs2) \<and> partRecord t1 \<and> partRecord t2 \<and> rs2 \<noteq> [] \<and>
        concat before = concat rs1 @ t1 \<and> concat (before @ during) = concat (rs1 @ rs2) @ t2)"

lemma tls13_window_counts:
  assumes "recordWindow before during"
  shows "pr_count (foldl feed newParser before) < pr_count (foldl feed (foldl feed newParser before) during)"
proof -
  obtain rs1 rs2 t1 t2 where w: "list_all wireRecord (rs1 @ rs2)" "partRecord t1" "partRecord t2" "rs2 \<noteq> []"
    "concat before = concat rs1 @ t1" "concat (before @ during) = concat (rs1 @ rs2) @ t2"
    using assms unfolding recordWindow_def by blast
  have "foldl feed newParser before = \<lparr>pr_pending = t1, pr_count = length rs1, pr_bytes = length (concat rs1)\<rparr>"
    using w by (intro feed_stream) simp_all
  moreover have "foldl feed newParser (before @ during) =
      \<lparr>pr_pending = t2, pr_count = length (rs1 @ rs2), pr_bytes = length (concat (rs1 @ rs2))\<rparr>"
    using w by (intro feed_stream) simp_all
  ultimately show ?thesis using w(4) by simp
qed

definition windowOf :: "string \<Rightarrow> case_env \<Rightarrow> bool" where
  "windowOf direction k \<longleftrightarrow>
     (if direction = ''server-to-client'' then recordWindow (receivedPieces (e_setup k)) (receivedPieces (e_transfer k))
      else recordWindow (sentPieces (e_setup k)) (sentPieces (e_transfer k)))"

lemma tls13_finish_accepts:
  assumes "direction \<in> {''server-to-client'', ''client-to-server''}" "windowOf direction k"
  shows "snd (finishCase k direction octets neg o1) = None \<and>
    k_ApplicationDataBytes (fst (finishCase k direction octets neg o1)) = k_ApplicationDataBytes o1"
proof (cases "direction = ''server-to-client''")
  case True
  with assms(2) show ?thesis
    using tls13_window_counts [of "receivedPieces (e_setup k)" "receivedPieces (e_transfer k)"]
    by (simp add: windowOf_def finishCase_def snapshot_def subtractSnapshot_def subtractCounter_def observe_pieces
        newRecordObservingConn_def Let_def)
next
  case False
  with assms show ?thesis
    using tls13_window_counts [of "sentPieces (e_setup k)" "sentPieces (e_transfer k)"]
    by (auto simp: windowOf_def finishCase_def snapshot_def subtractSnapshot_def subtractCounter_def observe_pieces
        newRecordObservingConn_def Let_def)
qed

section \<open>The interface to a server of record cases\<close>

text \<open>What the executor needs of the server's plaintext: after the command it sends the payload, or after the
  command and the payload it acknowledges with the digest.\<close>

definition plain :: "bytes \<Rightarrow> conn" where
  "plain input = \<lparr>conn_in = input, conn_end = EOF, conn_out = [], conn_cap = None\<rparr>"

definition clientBytes :: "string \<Rightarrow> nat \<Rightarrow> bytes" where
  "clientBytes direction octets =
     commandHeader (directionByte direction) octets @
     (if directionByte direction = 83 then [] else replicate octets payloadOctet)"

text \<open>A case over an accepted handshake, whose plaintext is what the server answers to the client's.\<close>

definition caseServed :: "(bytes \<Rightarrow> bytes) \<Rightarrow> tls_state \<Rightarrow> string \<Rightarrow> nat \<Rightarrow> case_env \<Rightarrow> bool" where
  "caseServed answer st direction octets k \<longleftrightarrow>
     e_dial k = None \<and> e_result k = Inr st \<and> e_stream k = plain (answer (clientBytes direction octets)) \<and> windowOf direction k"

definition sizes :: "nat set" where "sizes = {1024, 65536, 1048576}"

locale record_server =
  fixes answer :: "bytes \<Rightarrow> bytes" and st :: tls_state
  assumes sends: "octets \<in> sizes \<Longrightarrow> answer (commandHeader 83 octets) = replicate octets payloadOctet"
    and acknowledges: "octets \<in> sizes \<Longrightarrow> answer (commandHeader 67 octets @ replicate octets payloadOctet) =
      of_string ''OK'' @ sha256Sum (replicate octets payloadOctet)"
    and session: "stateFailures st False = []"
begin

lemma case_answered:
  assumes "octets \<in> sizes" "direction \<in> {''server-to-client'', ''client-to-server''}" "caseServed answer st direction octets k"
  shows "\<exists>c. runRecordCase getenv k caseID direction octets = (c, None) \<and> k_ApplicationDataBytes c = octets"
proof -
  have k: "e_dial k = None" "e_result k = Inr st" "e_stream k = plain (answer (clientBytes direction octets))" "windowOf direction k"
    using assms(3) by (simp_all add: caseServed_def)
  let ?c1 = "(plain (answer (clientBytes direction octets)))\<lparr>conn_out := [commandHeader (directionByte direction) octets]\<rparr>"
  have h: "writeAll (commandHeader (directionByte direction) octets) (e_stream k) = (None, ?c1)"
    by (simp add: k(3) Tls13_Executor.writeAll_def commandHeader_def plain_def connWrite_def)
  have v: "validateState st False = (observeState st, None)" by (simp add: validateState_def session)
  have t: "(if directionByte direction = 83 then receiveCase octets ?c1 else sendCase octets ?c1) = None"
  proof (cases "directionByte direction = 83")
    case True
    with sends [OF assms(1)] show ?thesis
      by (simp add: receiveCase_def clientBytes_def plain_def readFull_def payloadHash_def)
  next
    case False
    then have d: "directionByte direction = 67" by (simp add: directionByte_def split: if_splits)
    have a: "answer (clientBytes direction octets) = of_string ''OK'' @ sha256Sum (replicate octets payloadOctet)"
      using acknowledges [OF assms(1)] by (simp add: clientBytes_def d)
    show ?thesis
      using assms(1) unfolding a
      by (auto simp: d sendCase_def Tls13_Executor.writeAll_def plain_def connWrite_def readFull_def payloadHash_def
          Tls13_Executor.hash_def sha256Hex_def sizes_def)
  qed
  let ?neg = "negotiationOf getenv k (observeState st)"
  let ?o1 = "(noCase caseID direction octets)\<lparr>k_Negotiation := ?neg\<rparr>"
  have "runRecordCase getenv k caseID direction octets = finishCase k direction octets ?neg ?o1"
    by (simp add: runRecordCase_def k(1,2) v h t Let_def)
  moreover have "k_ApplicationDataBytes ?o1 = octets" by (simp add: noCase_def)
  ultimately show ?thesis using tls13_finish_accepts [OF assms(2) k(4), of octets ?neg ?o1] by (metis prod.collapse)
qed

end

section \<open>The target as a server\<close>

definition negotiated :: server_state where
  "negotiated = \<lparr>ss_Version = 0x304, ss_Protocol = Tls13_Target.alpn, ss_CipherSuite = Tls13_Target.requiredCipherSuite, ss_CurveID = 29\<rparr>"

definition recordAnswer :: "bytes \<Rightarrow> bytes" where
  "recordAnswer input = concat (conn_out (snd (serveRecordOperation (plain input))))"

definition targetAnswer :: "env \<Rightarrow> bytes \<Rightarrow> bytes" where
  "targetAnswer getenv input = concat (conn_out (snd (handle getenv (Inr negotiated) (plain input))))"

definition shippedCertificate :: certificate where
  "shippedCertificate = \<lparr>ct_Raw = tlsLeaf, ct_SPKI = tlsLeafKey, ct_SignatureAlgorithm = ''ECDSA-SHA256'',
     ct_PublicKeyAlgorithm = ''ECDSA'', ct_Curve = ''P-256''\<rparr>"

definition labSession :: "bool \<Rightarrow> tls_state" where
  "labSession resumed = \<lparr>ts_Version = 0x304, ts_CipherSuite = ''TLS_AES_128_GCM_SHA256'', ts_CurveID = ''X25519'',
     ts_Protocol = ''protocol-lab-tls'', ts_HandshakeComplete = True, ts_DidResume = resumed,
     ts_Peers = [shippedCertificate], ts_VerifiedChains = 1\<rparr>"

lemma labSession_valid: "stateFailures (labSession resumed) resumed = []"
  by (simp add: stateFailures_def observeState_def labSession_def shippedCertificate_def noObservation_def Let_def
      Tls13_Executor.alpn_def Tls13_Executor.requiredCipherSuite_def requiredKeyExchange_def Tls13_Executor.hash_def
      tlsLeaf_digest tlsLeafKey_digest leafDERHash_def leafSPKIHash_def)

lemma tls13_agree:
  "commandHeader = command" "replicate octets payloadOctet = payloadOf octets" "sizes = payloadSizes"
  by (simp_all add: fun_eq_iff commandHeader_def command_def Tls13_Executor.commandMagic_def Tls13_Target.commandMagic_def
      payloadOctet_def payloadOf_def sizes_def payloadSizes_def)

interpretation tls13_records: record_server recordAnswer "labSession False"
proof unfold_locales
  fix octets :: nat
  assume "octets \<in> sizes"
  then have n: "octets \<in> payloadSizes" by (simp add: tls13_agree)
  show "recordAnswer (commandHeader 83 octets) = replicate octets payloadOctet"
    unfolding recordAnswer_def tls13_agree using serve_send [OF n, of "plain (command 83 octets)" "[]"] by (simp add: plain_def)
  show "recordAnswer (commandHeader 67 octets @ replicate octets payloadOctet) =
      of_string ''OK'' @ sha256Sum (replicate octets payloadOctet)"
    unfolding recordAnswer_def tls13_agree
    using serve_receive [OF n, of "plain (command 67 octets @ payloadOf octets)" "[]"] by (simp add: plain_def)
qed (rule labSession_valid)

lemma tls13_target_records:
  assumes "isRecordScenario scenario" "trimSpace (getenv ''PLAB_SCENARIO_ID'') = scenario"
  shows "targetAnswer getenv = recordAnswer"
  using assms
  by (auto simp: fun_eq_iff targetAnswer_def recordAnswer_def handle_def negotiated_def isRecordScenario_def
      recordThroughputScenarioID_def recordCoverageScenarioID_def Let_def)

lemma tls13_target_closes:
  assumes "\<not> isRecordScenario scenario" "scenario \<in> set supportedScenarioIDs" "trimSpace (getenv ''PLAB_SCENARIO_ID'') = scenario"
  shows "targetAnswer getenv input = []"
  using assms
  by (auto simp: targetAnswer_def handle_def negotiated_def isRecordScenario_def supportedScenarioIDs_def fullScenarioID_def
      resumedScenarioID_def recordThroughputScenarioID_def recordCoverageScenarioID_def plain_def Let_def)

section \<open>Operations against the target\<close>

text \<open>A full handshake, a handshake that resumes with the one ticket its source handshake was sent before the
  target closed, and record cases. The library asks the cache once per handshake and stores a ticket when
  it reads it.\<close>

definition fullServed :: "handshake_env \<Rightarrow> bool" where
  "fullServed h \<longleftrightarrow> hs_dial h = None \<and> hs_result h = Inr (labSession False)"

definition resumedServed :: "env \<Rightarrow> handshake_env \<Rightarrow> handshake_env \<Rightarrow> bool" where
  "resumedServed getenv source measured \<longleftrightarrow>
     (\<exists>key ticket. hs_dial source = None \<and> hs_calls source = [CallGet key] \<and> hs_result source = Inr (labSession False) \<and>
        hs_deadline source = None \<and> hs_drainCalls source = [CallPut key (Some ticket)] \<and>
        hs_stream source = plain (targetAnswer getenv []) \<and>
        hs_dial measured = None \<and> hs_calls measured = [CallGet key] \<and> hs_result measured = Inr (labSession True))"

definition opServed :: "env \<Rightarrow> string \<Rightarrow> op_env \<Rightarrow> bool" where
  "opServed getenv scenario op \<longleftrightarrow>
     (if scenario = fullScenarioID then fullServed (op_handshake op)
      else if scenario = resumedScenarioID then resumedServed getenv (op_source op) (op_handshake op)
      else list_all (\<lambda>(caseID, direction, octets). caseServed (targetAnswer getenv) (labSession False) direction octets (op_case op caseID))
        (if scenario = recordThroughputScenarioID then [(''server-to-client-1mib'', ''server-to-client'', 1048576)] else coverageCases))"

definition opBytes :: "string \<Rightarrow> int" where
  "opBytes scenario =
     (if scenario = recordThroughputScenarioID then 1048576 else if scenario = recordCoverageScenarioID then 2230272 else 0)"

lemma tls13_handshake_answered:
  assumes "hs_dial h = None" "hs_result h = Inr (labSession resumed)"
  shows "\<exists>o1. runHandshake h cache resumed False = ((o1, None), useCache (hs_calls h) cache)"
  using assms by (simp add: runHandshake_def validateState_def labSession_valid Let_def)

lemma tls13_resumed_answered:
  assumes "resumedServed getenv source measured" "targetAnswer getenv [] = []"
  shows "\<exists>o1 p. runResumed source measured = (o1, Some p, None) \<and> rp_ConsumedExactlyOnce p"
proof -
  obtain key ticket where s: "hs_dial source = None" "hs_calls source = [CallGet key]" "hs_result source = Inr (labSession False)"
      "hs_deadline source = None" "hs_drainCalls source = [CallPut key (Some ticket)]" "hs_stream source = plain []"
      "hs_dial measured = None" "hs_calls measured = [CallGet key]" "hs_result measured = Inr (labSession True)"
    using assms by (auto simp: resumedServed_def)
  have "\<exists>o1. runHandshake source (Some newCache) False True =
      ((o1, None), Some \<lparr>c_key = key, c_session = Some ticket, c_puts = 1, c_gets = 1, c_hits = 0\<rparr>)"
    using s(1-6) by (simp add: runHandshake_def validateState_def labSession_valid drainSessionTicket_def plain_def useCache_def
        Get_def Put_def newCache_def Let_def)
  then obtain o1 where a: "runHandshake source (Some newCache) False True =
      ((o1, None), Some \<lparr>c_key = key, c_session = Some ticket, c_puts = 1, c_gets = 1, c_hits = 0\<rparr>)" by blast
  obtain o2 where b: "runHandshake measured (Some \<lparr>c_key = key, c_session = Some ticket, c_puts = 1, c_gets = 1, c_hits = 0\<rparr>) True False =
      ((o2, None), Some \<lparr>c_key = key, c_session = None, c_puts = 1, c_gets = 2, c_hits = 1\<rparr>)"
    using tls13_handshake_answered [OF s(7,9), of "Some \<lparr>c_key = key, c_session = Some ticket, c_puts = 1, c_gets = 1, c_hits = 0\<rparr>"] s(8)
    by (auto simp: useCache_def Get_def Let_def)
  show ?thesis unfolding runResumed_def a by (simp add: counts_def b [simplified] Let_def)
qed

lemma tls13_coverage_answered:
  assumes "list_all (\<lambda>(caseID, direction, octets). octets \<in> sizes \<and> direction \<in> {''server-to-client'', ''client-to-server''} \<and>
      caseServed recordAnswer (labSession False) direction octets (env caseID)) ds"
  shows "\<exists>o1 cs. coverageLoop getenv env ds latest cases = (o1, None, cases @ cs, None) \<and> length cs = length ds \<and>
    map (\<lambda>c. int (k_ApplicationDataBytes c)) cs = map (\<lambda>(_, _, octets). int octets) ds"
  using assms
proof (induction ds arbitrary: latest cases)
  case (Cons d ds)
  obtain caseID direction octets where d: "d = (caseID, direction, octets)" by (metis prod_cases3)
  with Cons.prems obtain c where c: "runRecordCase getenv (env caseID) caseID direction octets = (c, None)" "k_ApplicationDataBytes c = octets"
    using tls13_records.case_answered [of octets direction "env caseID" getenv caseID] by auto
  obtain o1 cs where "coverageLoop getenv env ds (k_Negotiation c) (cases @ [c]) = (o1, None, (cases @ [c]) @ cs, None)"
      "length cs = length ds" "map (\<lambda>c. int (k_ApplicationDataBytes c)) cs = map (\<lambda>(_, _, octets). int octets) ds"
    using Cons.IH [of "k_Negotiation c" "cases @ [c]"] Cons.prems by auto
  with c d show ?case by (intro exI [of _ o1] exI [of _ "c # cs"]) simp
qed simp

lemma tls13_operation_answered:
  assumes "scenario \<in> set supportedScenarioIDs" "trimSpace (getenv ''PLAB_SCENARIO_ID'') = scenario" "opServed getenv scenario op"
  shows "\<exists>o1 p cases. runOperation getenv scenario op = (o1, p, cases, None) \<and>
    sum_list (map (\<lambda>c. int (k_ApplicationDataBytes c)) cases) = opBytes scenario \<and>
    (scenario = recordCoverageScenarioID \<longrightarrow> length cases = 6)"
proof -
  note ids = fullScenarioID_def resumedScenarioID_def recordThroughputScenarioID_def recordCoverageScenarioID_def
  consider "scenario = fullScenarioID" | "scenario = resumedScenarioID" | "scenario = recordThroughputScenarioID"
    | "scenario = recordCoverageScenarioID" using assms(1) by (auto simp: supportedScenarioIDs_def)
  then show ?thesis
  proof cases
    case 1
    obtain o1 where "runHandshake (op_handshake op) None False False = ((o1, None), useCache (hs_calls (op_handshake op)) None)"
      using tls13_handshake_answered [of "op_handshake op" False None] assms(3) 1 by (auto simp: opServed_def fullServed_def)
    then show ?thesis using 1 by (simp add: runOperation_def opBytes_def ids)
  next
    case 2
    have "targetAnswer getenv [] = []" using tls13_target_closes [of scenario getenv "[]"] assms(1,2) 2 by (simp add: isRecordScenario_def ids)
    moreover have "resumedServed getenv (op_source op) (op_handshake op)" using assms(3) 2 by (simp add: opServed_def ids)
    ultimately obtain o1 p where "runResumed (op_source op) (op_handshake op) = (o1, Some p, None)" using tls13_resumed_answered by blast
    then show ?thesis using 2 by (simp add: runOperation_def opBytes_def ids)
  next
    case 3
    have a: "targetAnswer getenv = recordAnswer" using tls13_target_records [of scenario getenv] assms(2) 3 by (simp add: isRecordScenario_def)
    have "caseServed recordAnswer (labSession False) ''server-to-client'' 1048576 (op_case op ''server-to-client-1mib'')"
      using assms(3) 3 by (simp add: opServed_def a ids)
    then obtain c where "runRecordCase getenv (op_case op ''server-to-client-1mib'') ''server-to-client-1mib'' ''server-to-client'' 1048576 = (c, None)"
        "k_ApplicationDataBytes c = 1048576"
      using tls13_records.case_answered [of 1048576 "''server-to-client''" "op_case op ''server-to-client-1mib''" getenv "''server-to-client-1mib''"]
      by (auto simp: sizes_def)
    then show ?thesis using 3 by (simp add: runOperation_def opBytes_def ids)
  next
    case 4
    have a: "targetAnswer getenv = recordAnswer" using tls13_target_records [of scenario getenv] assms(2) 4 by (simp add: isRecordScenario_def)
    have "list_all (\<lambda>(caseID, direction, octets). octets \<in> sizes \<and> direction \<in> {''server-to-client'', ''client-to-server''} \<and>
        caseServed recordAnswer (labSession False) direction octets (op_case op caseID)) coverageCases"
      using assms(3) 4 by (simp add: opServed_def a ids coverageCases_def sizes_def)
    from tls13_coverage_answered [OF this, of getenv noObservation "[]"] obtain o1 cs where
      c: "coverageLoop getenv (op_case op) coverageCases noObservation [] = (o1, None, cs, None)" "length cs = 6"
        "map (\<lambda>c. int (k_ApplicationDataBytes c)) cs = map (\<lambda>(_, _, octets). int octets) coverageCases"
      by (auto simp: coverageCases_def)
    have "sum_list (map (\<lambda>(_, _, octets). int octets) coverageCases) = 2230272" by (simp add: coverageCases_def)
    with c 4 show ?thesis by (simp add: runOperation_def opBytes_def ids)
  qed
qed

section \<open>Runs against the target\<close>

definition servedRounds :: "env \<Rightarrow> load_config \<Rightarrow> phase_round list \<Rightarrow> bool" where
  "servedRounds getenv c rs \<longleftrightarrow> list_all (\<lambda>r. opServed getenv (cf_ScenarioID c) (r_op r)) rs"

lemma tls13_rounds_answered:
  assumes "cf_ScenarioID c \<in> set supportedScenarioIDs" "trimSpace (getenv ''PLAB_SCENARIO_ID'') = cf_ScenarioID c"
    and "servedRounds getenv c rs"
  shows "\<exists>s'. fold (performRound c getenv) rs s = s' \<and> s_CompletedOperations s' = s_CompletedOperations s + int (length rs) \<and>
    s_FailedOperations s' = s_FailedOperations s \<and> s_TimedOutOperations s' = s_TimedOutOperations s \<and> s_Errors s' = s_Errors s \<and>
    s_TotalTransferredBytes s' = s_TotalTransferredBytes s + opBytes (cf_ScenarioID c) * int (length rs) \<and>
    (rs \<noteq> [] \<longrightarrow> s_LastNegotiation s' \<noteq> None)"
  using assms(3)
proof (induction rs arbitrary: s)
  case (Cons r rs)
  obtain o1 p cases where "runOperation getenv (cf_ScenarioID c) (r_op r) = (o1, p, cases, None)"
      "sum_list (map (\<lambda>c. int (k_ApplicationDataBytes c)) cases) = opBytes (cf_ScenarioID c)"
    using tls13_operation_answered [of "cf_ScenarioID c" getenv "r_op r"] assms(1,2) Cons.prems by (auto simp: servedRounds_def)
  then have r: "performRound c getenv r s = recordSuccess o1 p cases s"
    "s_TotalTransferredBytes (recordSuccess o1 p cases s) = s_TotalTransferredBytes s + opBytes (cf_ScenarioID c)"
    by (simp_all add: performRound_def recordSuccess_def)
  have "servedRounds getenv c rs" using Cons.prems by (simp add: servedRounds_def)
  from Cons.IH [OF this, of "recordSuccess o1 p cases s"] r show ?case
    by (cases "rs = []") (auto simp: recordSuccess_def algebra_simps)
qed simp

lemma tls13_phase_answered:
  assumes "cf_ScenarioID c \<in> set supportedScenarioIDs" "trimSpace (getenv ''PLAB_SCENARIO_ID'') = cf_ScenarioID c"
    and "servedRounds getenv c (ph_rounds ph)"
    and "passes c (if phase = ''warmup'' then cf_Warmup c else cf_Duration c) 0 (ph_rounds ph) = Some n" "0 < n"
  shows "\<exists>s o1. runPhase c getenv ph phase = Some s \<and> \<not> phaseRejected s \<and> s_LastNegotiation s = Some o1 \<and>
    s_CompletedOperations s = int n \<and> s_TotalTransferredBytes s = opBytes (cf_ScenarioID c) * int n \<and>
    s_FailedOperations s = 0 \<and> s_TimedOutOperations s = 0"
proof -
  have n: "n \<le> length (ph_rounds ph)" using passes_le [OF assms(4)] .
  have "servedRounds getenv c (take n (ph_rounds ph))" using assms(3) by (auto simp: servedRounds_def list_all_iff dest: in_set_takeD)
  from tls13_rounds_answered [of c getenv, OF assms(1,2) this, of "newSummary phase"] n assms(5) obtain s' o1 where
    "fold (performRound c getenv) (take n (ph_rounds ph)) (newSummary phase) = s'" "s_CompletedOperations s' = int n"
    "s_FailedOperations s' = 0" "s_TimedOutOperations s' = 0" "s_LastNegotiation s' = Some o1"
    "s_TotalTransferredBytes s' = opBytes (cf_ScenarioID c) * int n"
    by (auto simp: newSummary_def min_def)
  with assms(4,5) show ?thesis by (simp add: runPhase_def phaseLoop_passes phaseRejected_def Let_def)
qed

text \<open>The environment selects a scenario without a substitution.\<close>

definition selected :: "env \<Rightarrow> string \<Rightarrow> string \<Rightarrow> bool" where
  "selected getenv scenario variant \<longleftrightarrow>
     verifySubstitution getenv ''PLAB_EXECUTOR_ID'' executorID \<and>
     verifySubstitution getenv ''PLAB_EXECUTOR_VERSION'' executorVersion \<and>
     verifySubstitution getenv ''PLAB_LOAD_GENERATOR_ID'' loadGeneratorID \<and>
     verifySubstitution getenv ''PLAB_LOAD_GENERATOR_VERSION'' loadGeneratorVersion \<and>
     verifySubstitution getenv ''PLAB_PROTOCOL'' ''tls'' \<and> requestedScenario getenv = Inr (scenario, variant) \<and>
     verifySubstitution getenv ''PLAB_PROTOCOL_VARIANT'' variant"

lemma tls13_requested_scenario:
  assumes "requestedScenario getenv = Inr (scenario, variant)"
  shows "trimSpace (getenv ''PLAB_SCENARIO_ID'') = scenario" "scenario \<in> set supportedScenarioIDs" "\<not> isKnownUnsupportedScenario scenario"
  using assms by (auto simp: requestedScenario_def supportedScenarioIDs_def isKnownUnsupportedScenario_def fullScenarioID_def
      resumedScenarioID_def recordThroughputScenarioID_def recordCoverageScenarioID_def Let_def split: if_splits)

lemma tls13_config_scenario:
  assumes "loadConfigFromEnvironment getenv = Inr c" "requestedScenario getenv = Inr (scenario, variant)"
  shows "cf_ScenarioID c = scenario"
  using assms by (auto simp: loadConfigFromEnvironment_def configOf_def Let_def split: if_splits)

lemma tls13_selected_run:
  assumes "selected getenv scenario variant" "runOperation getenv scenario pre = (o0, p0, cases0, None)"
    and "loadConfigFromEnvironment getenv = Inr c" "cf_Warmup c > 0"
    and "runPhase c getenv warm ''warmup'' = Some s1" "\<not> phaseRejected s1"
  shows "\<exists>written. runMain getenv (Inr address) None False pre warm load = runMeasured scenario getenv c load written"
proof -
  note r = assms(1) [unfolded selected_def]
  have u: "trimSpace (getenv ''PLAB_SCENARIO_ID'') = scenario" "\<not> isKnownUnsupportedScenario scenario"
    using tls13_requested_scenario r by blast+
  show ?thesis
    unfolding runMain_def u(1) using r u(2) assms(2-6) by (auto simp: Let_def)
qed

text \<open>C26: A run of the TLS 1.3 command against the target passes, for the full handshake, the resumed handshake, the
  throughput and the coverage scenario: when the selection and the load shape are accepted, the handshakes
  have the sessions of the lab, the plaintext is what the handler of the target answers, the encrypted
  pieces are records of which at least one completes during each transfer, and the two phases end after at
  least one operation, the exit code is 0, the last file written is the result, and it counts exactly the
  operations of the measured phase, their bytes, and no failure.\<close>

theorem tls13_run_interop:
  assumes "selected getenv scenario variant" "loadConfigFromEnvironment getenv = Inr c" "cf_Warmup c > 0"
    and "opServed getenv scenario pre" "servedRounds getenv c (ph_rounds warm)" "servedRounds getenv c (ph_rounds load)"
    and "passes c (cf_Warmup c) 0 (ph_rounds warm) = Some k" "0 < k"
    and "passes c (cf_Duration c) 0 (ph_rounds load) = Some n" "0 < n"
  shows "\<exists>res written. runMain getenv (Inr address) None False pre warm load = Some (written @ [ExecutorResult res], 0) \<and>
    res_Status res = ''passed'' \<and> res_ScenarioID res = scenario \<and>
    m_CompletedOperations (res_Metrics res) = int n \<and> m_TotalTransferredBytes (res_Metrics res) = opBytes scenario * int n \<and>
    m_FailedOperations (res_Metrics res) = 0 \<and> m_TimedOutOperations (res_Metrics res) = 0"
proof -
  have q: "requestedScenario getenv = Inr (scenario, variant)" using assms(1) by (simp add: selected_def)
  note sc = tls13_requested_scenario [OF q] and cs = tls13_config_scenario [OF assms(2) q]
  obtain o0 p0 cases0 where pre: "runOperation getenv scenario pre = (o0, p0, cases0, None)"
    using tls13_operation_answered [of scenario getenv pre] sc(1,2) assms(4) by blast
  have c: "cf_ScenarioID c \<in> set supportedScenarioIDs" "trimSpace (getenv ''PLAB_SCENARIO_ID'') = cf_ScenarioID c"
    using sc cs by simp_all
  obtain s1 where w: "runPhase c getenv warm ''warmup'' = Some s1" "\<not> phaseRejected s1"
    using tls13_phase_answered [of c getenv warm "''warmup''" k] c assms(5,7,8) by auto
  obtain s2 o2 where m: "runPhase c getenv load ''measured'' = Some s2" "\<not> phaseRejected s2" "s_LastNegotiation s2 = Some o2"
      "s_CompletedOperations s2 = int n" "s_TotalTransferredBytes s2 = opBytes scenario * int n"
      "s_FailedOperations s2 = 0" "s_TimedOutOperations s2 = 0"
    using tls13_phase_answered [of c getenv load "''measured''" n] c assms(6,9,10) cs by auto
  obtain written where r: "runMain getenv (Inr address) None False pre warm load = runMeasured scenario getenv c load written"
    using tls13_selected_run [OF assms(1) pre assms(2,3) w] by blast
  let ?res = "resultOf scenario c s2 o2"
  have "\<exists>files. runMeasured scenario getenv c load written = Some (files @ [ExecutorResult ?res], 0)"
    using m(1-3) by (simp add: runMeasured_def Let_def)
  with r m show ?thesis by (fastforce simp: resultOf_def normalizeMetrics_def Let_def)
qed

text \<open>C29: An accepted resumption means one: whatever the library and the server do, a resumed operation that succeeds
  had a source handshake that did not resume and passed every check, left a ticket in the fresh cache of
  this operation, and was followed by a handshake that resumed, passed every check, asked the cache
  exactly once, was handed a ticket, and left none. The ticket is the one the cache held when it was asked:
  that of the source handshake, unless the library stored another one during the second handshake before
  it asked.\<close>

theorem tls13_resumption_sound:
  assumes "runResumed source measured = (o2, p, None)"
  shows "\<exists>st0 st c c' before key after ticket. hs_result source = Inr st0 \<and> stateFailures st0 False = [] \<and> \<not> ts_DidResume st0 \<and>
    c = fold callCache (hs_drainCalls source) (fold callCache (hs_calls source) newCache) \<and> c_session c \<noteq> None \<and>
    hs_result measured = Inr st \<and> stateFailures st True = [] \<and> ts_DidResume st \<and>
    c' = fold callCache (hs_calls measured) c \<and> c_gets c' = c_gets c + 1 \<and> c_hits c' = c_hits c + 1 \<and> c_session c' = None \<and>
    hs_calls measured = before @ CallGet key # after \<and> list_all isPut before \<and> list_all isPut after \<and>
    fst (Get key (fold callCache before c)) = Some ticket \<and>
    (before = [] \<longrightarrow> c_session c = Some ticket \<and> c_key c = key)"
proof -
  let ?c = "fold callCache (hs_drainCalls source) (fold callCache (hs_calls source) newCache)"
  let ?c' = "fold callCache (hs_calls measured) ?c"
  have resumes: "ts_DidResume st = r" if "stateFailures st r = []" for st r
    using that by (simp add: stateFailures_def Let_def split: if_splits)
  obtain o1 err cache where h: "runHandshake source (Some newCache) False True = ((o1, err), cache)" by (metis prod.collapse)
  with assms have e: "err = None" by (auto simp: runResumed_def split: option.splits)
  with h obtain st0 where s0: "hs_result source = Inr st0" "stateFailures st0 False = []" and c: "cache = Some ?c"
    by (auto simp: runHandshake_def validateState_def useCache_def Let_def split: option.splits sum.splits if_splits)
  obtain o2' err' cache' where m: "runHandshake measured (Some ?c) True False = ((o2', err'), cache')" by (metis prod.collapse)
  have a: "c_session ?c \<noteq> None" "err' = None" "int (c_gets (the cache')) - int (c_gets ?c) = 1"
    "int (c_hits (the cache')) - int (c_hits ?c) = 1" "c_session (the cache') = None"
    using assms unfolding runResumed_def h e c by (auto simp: counts_def m Let_def split: if_splits)
  with m obtain st where s1: "hs_result measured = Inr st" "stateFailures st True = []" and c': "cache' = Some ?c'"
    by (auto simp: runHandshake_def validateState_def useCache_def Let_def split: option.splits sum.splits if_splits)
  have counted: "c_gets ?c' = c_gets ?c + 1" "c_hits ?c' = c_hits ?c + 1" "c_session ?c' = None"
    using a(3-5) by (simp_all add: c')
  obtain before key after ticket where
    u: "hs_calls measured = before @ CallGet key # after" "list_all isPut before" "list_all isPut after"
      "c_session (fold callCache before ?c) = Some ticket" "c_key (fold callCache before ?c) = key"
      "fst (Get key (fold callCache before ?c)) = Some ticket"
    using single_hit [OF counted(1,2)] by blast
  then have "before = [] \<longrightarrow> c_session ?c = Some ticket \<and> c_key ?c = key" by auto
  with s0 s1 a(1) counted u(1-3,6) resumes [OF s0(2)] resumes [OF s1(2)] show ?thesis by blast
qed

section \<open>Concrete runs\<close>

definition sampleEnv :: "string \<Rightarrow> env" where
  "sampleEnv operations name =
     (case map_of [(''PLAB_SCENARIO_ID'', ''tls.handshake.resumed''), (''PLAB_LOAD_PROFILE_ID'', ''tls-smoke''),
        (''PLAB_CONNECTIONS'', ''1''), (''PLAB_CONCURRENCY'', ''1''), (''PLAB_DURATION_SECONDS'', ''5''),
        (''PLAB_WARMUP_SECONDS'', ''1''), (''PLAB_REPETITION'', ''1''), (''PLAB_TOTAL_OPERATIONS'', operations)] name of
        None \<Rightarrow> '''' | Some v \<Rightarrow> v)"

definition sampleHandshake :: "bool \<Rightarrow> handshake_env" where
  "sampleHandshake resumed = \<lparr>hs_dial = None, hs_calls = [CallGet ''tls.plab.test''], hs_result = Inr (labSession resumed),
     hs_nanos = 2000000, hs_connNanos = 2500000, hs_deadline = None, hs_drainCalls = [CallPut ''tls.plab.test'' (Some 7)],
     hs_stream = plain []\<rparr>"

definition sampleCase :: case_env where
  "sampleCase = \<lparr>e_dial = None, e_result = Inr (labSession False), e_hsNanos = 0, e_stream = plain [], e_setup = [],
     e_transfer = [], e_nanos = 0\<rparr>"

definition sampleOp :: op_env where
  "sampleOp = \<lparr>op_handshake = sampleHandshake True, op_source = sampleHandshake False, op_case = (\<lambda>_. sampleCase)\<rparr>"

definition samplePhase :: phase_env where
  "samplePhase = \<lparr>ph_rounds = map (\<lambda>t. \<lparr>r_elapsed = t, r_op = sampleOp\<rparr>) [0, 900000000, 5000000000], ph_nanos = 5000000000\<rparr>"

definition sampleConfig :: "int \<Rightarrow> load_config" where
  "sampleConfig operations = \<lparr>cf_ScenarioID = ''tls.handshake.resumed'', cf_LoadProfileID = ''tls-smoke'', cf_Connections = 1,
     cf_Concurrency = 1, cf_HandshakesPerConnection = 1, cf_ApplicationDataBytes = 0, cf_TotalOperations = operations,
     cf_Duration = 5000000000, cf_Warmup = 1000000000, cf_Repetition = 1, cf_ConnectionTimeout = 5000000000\<rparr>"

lemma sampleEnv_scenario: "requestedScenario (sampleEnv operations) = Inr (''tls.handshake.resumed'', ''tls1.3-psk-resumed'')"
  by (simp add: requestedScenario_def sampleEnv_def trimSpace_def isSpace_def fullScenarioID_def resumedScenarioID_def Let_def)

lemma sampleEnv_config:
  assumes "fst (atoi (trimSpace operations)) = k"
  shows "loadConfigFromEnvironment (sampleEnv operations) = Inr (sampleConfig k)"
proof -
  have v: "envInt (sampleEnv operations) ''PLAB_CONNECTIONS'' = 1" "envInt (sampleEnv operations) ''PLAB_CONCURRENCY'' = 1"
    "envInt (sampleEnv operations) ''PLAB_DURATION_SECONDS'' = 5" "envInt (sampleEnv operations) ''PLAB_WARMUP_SECONDS'' = 1"
    "envInt (sampleEnv operations) ''PLAB_REPETITION'' = 1" "envInt (sampleEnv operations) ''PLAB_REQUEST_TIMEOUT_SECONDS'' = 0"
    "envInt (sampleEnv operations) ''PLAB_TOTAL_OPERATIONS'' = k"
    "trimSpace (sampleEnv operations ''PLAB_LOAD_PROFILE_ID'') = ''tls-smoke''"
    using assms by (simp_all add: envInt_def sampleEnv_def trimSpace_def isSpace_def atoi_def parseSigned_def)
  have n: "''tls.handshake.resumed'' \<noteq> recordThroughputScenarioID" "''tls.handshake.resumed'' \<noteq> recordCoverageScenarioID"
    by (simp_all add: recordThroughputScenarioID_def recordCoverageScenarioID_def)
  have c: "configOf (sampleEnv operations) ''tls.handshake.resumed'' = sampleConfig k"
    by (simp add: configOf_def v n operationTimeout_def secondsOf_def sampleConfig_def Let_def)
  show ?thesis unfolding loadConfigFromEnvironment_def sampleEnv_scenario
    by (simp add: c n) (simp add: sampleConfig_def tlsSmokeProfileID_def smokeShape_def)
qed

theorem tls13_phase_ends_witness:
  "\<exists>s. phaseLoop (sampleConfig 2) (sampleEnv ''2'') 0 (ph_rounds samplePhase) (newSummary ''measured'') = Some s \<and> attempts s = 2"
proof -
  have "cf_TotalOperations (sampleConfig 2) = 2" "int (length (ph_rounds samplePhase)) = 3"
    by (simp_all add: sampleConfig_def samplePhase_def)
  with tls13_phase_ends [of "sampleConfig 2" "ph_rounds samplePhase" "sampleEnv ''2''" 0 "''measured''"] show ?thesis by simp
qed

theorem tls13_negative_never_ends_witness:
  "loadConfigFromEnvironment (sampleEnv ''-1'') = Inr (sampleConfig (- 1)) \<and>
   runPhase (sampleConfig (- 1)) (sampleEnv ''-1'') samplePhase ''measured'' = None"
proof -
  have k: "fst (atoi (trimSpace ''-1'')) = - 1" by (simp add: trimSpace_def isSpace_def atoi_def parseSigned_def)
  have t: "envInt (sampleEnv ''-1'') ''PLAB_TOTAL_OPERATIONS'' < 0"
    by (simp add: envInt_def sampleEnv_def trimSpace_def isSpace_def atoi_def parseSigned_def)
  show ?thesis using sampleEnv_config [OF k] tls13_negative_never_ends [OF sampleEnv_config [OF k] t] by simp
qed

lemma sampleOp_served: "opServed (sampleEnv operations) ''tls.handshake.resumed'' sampleOp"
proof -
  have "targetAnswer (sampleEnv operations) [] = []"
    by (simp add: targetAnswer_def handle_def negotiated_def sampleEnv_def trimSpace_def isSpace_def plain_def Let_def)
  then show ?thesis
    by (simp add: opServed_def fullScenarioID_def resumedScenarioID_def resumedServed_def sampleOp_def sampleHandshake_def)
qed

theorem tls13_run_interop_witness:
  "\<exists>res written. runMain (sampleEnv ''0'') (Inr ''127.0.0.1:18443'') None False sampleOp samplePhase samplePhase =
      Some (written @ [ExecutorResult res], 0) \<and> m_CompletedOperations (res_Metrics res) = 2"
proof -
  have k: "fst (atoi (trimSpace ''0'')) = 0" by (simp add: trimSpace_def isSpace_def atoi_def parseSigned_def)
  have v: "verifySubstitution (sampleEnv ''0'') ''PLAB_EXECUTOR_ID'' x" "verifySubstitution (sampleEnv ''0'') ''PLAB_EXECUTOR_VERSION'' x"
    "verifySubstitution (sampleEnv ''0'') ''PLAB_LOAD_GENERATOR_ID'' x" "verifySubstitution (sampleEnv ''0'') ''PLAB_LOAD_GENERATOR_VERSION'' x"
    "verifySubstitution (sampleEnv ''0'') ''PLAB_PROTOCOL'' x" "verifySubstitution (sampleEnv ''0'') ''PLAB_PROTOCOL_VARIANT'' x" for x
    by (simp_all add: verifySubstitution_def sampleEnv_def trimSpace_def)
  have s: "selected (sampleEnv ''0'') ''tls.handshake.resumed'' ''tls1.3-psk-resumed''"
    by (simp add: selected_def v sampleEnv_scenario)
  have w: "cf_Warmup (sampleConfig 0) > 0" by (simp add: sampleConfig_def)
  have r: "servedRounds (sampleEnv ''0'') (sampleConfig 0) (ph_rounds samplePhase)"
    using sampleOp_served by (simp add: servedRounds_def samplePhase_def sampleConfig_def)
  have n: "passes (sampleConfig 0) (cf_Warmup (sampleConfig 0)) 0 (ph_rounds samplePhase) = Some 2"
    "passes (sampleConfig 0) (cf_Duration (sampleConfig 0)) 0 (ph_rounds samplePhase) = Some 2"
    by (simp_all add: sampleConfig_def samplePhase_def)
  have z: "(0 :: nat) < 2" by simp
  from tls13_run_interop [where address = "''127.0.0.1:18443''", OF s sampleEnv_config [OF k] w sampleOp_served r r n(1) z n(2) z]
  show ?thesis by (metis of_nat_numeral)
qed

theorem tls13_resumption_sound_witness:
  "\<exists>o1 p c'. runResumed (sampleHandshake False) (sampleHandshake True) = (o1, p, None) \<and> c_hits c' = 1 \<and> c_session c' = None \<and>
     c' = fold callCache (hs_calls (sampleHandshake True)) (fold callCache (hs_drainCalls (sampleHandshake False))
       (fold callCache (hs_calls (sampleHandshake False)) newCache))"
proof -
  have "resumedServed (sampleEnv ''0'') (sampleHandshake False) (sampleHandshake True)"
    using sampleOp_served [of "''0''"] by (simp add: opServed_def fullScenarioID_def resumedScenarioID_def sampleOp_def)
  moreover have "targetAnswer (sampleEnv ''0'') [] = []"
    by (simp add: targetAnswer_def handle_def negotiated_def sampleEnv_def trimSpace_def isSpace_def plain_def Let_def)
  ultimately obtain o1 p where r: "runResumed (sampleHandshake False) (sampleHandshake True) = (o1, Some p, None)"
    using tls13_resumed_answered by blast
  let ?c = "fold callCache (hs_drainCalls (sampleHandshake False)) (fold callCache (hs_calls (sampleHandshake False)) newCache)"
  have "c_hits ?c = 0" by (simp add: sampleHandshake_def Get_def Put_def newCache_def)
  with tls13_resumption_sound [OF r] have "c_hits (fold callCache (hs_calls (sampleHandshake True)) ?c) = 1 \<and>
      c_session (fold callCache (hs_calls (sampleHandshake True)) ?c) = None" by auto
  with r show ?thesis by blast
qed

end
