(* ===== verification/H2ws_Wire.thy ===== *)
theory H2ws_Wire
  imports Ws_Wire
begin

text \<open>
  The WebSocket frames of \<^verbatim>\<open>executors/go-http2-websocket-executor/source/main.go\<close>: its parser over a buffer that
  may not hold a whole frame yet, and its writer of masked frames. \<open>Inr None\<close> is the parser's \<^verbatim>\<open>ok == false\<close>.
  The locale \<open>incremental_parser\<close> is what a loop that feeds a parser piece by piece relies on.
\<close>

record ws_frame =
  f_Opcode :: byte
  f_Masked :: bool
  f_Payload :: bytes

definition parseFrameConsumed :: "bytes \<Rightarrow> (ws_frame \<times> nat) option go" where
  "parseFrameConsumed d =
     (if length d < 2 then Inr None
      else (let first = d ! 0; second = d ! 1 in
        if first AND 0x80 = 0 \<or> first AND 0x70 \<noteq> 0 then Inl (Errorf ''fragmented or RSV-bearing server frame'')
        else (let masked = (second AND 0x80 \<noteq> 0); short = unat (second AND 0x7f) in
          if short = 126 \<and> length d < 4 then Inr None
          else if short = 127 then Inl (Errorf ''unexpected 64-bit WebSocket frame'')
          else (let len = (if short = 126 then unat (uint16 (take 2 (drop 2 d))) else short);
                    offset = (if short = 126 then 4 else 2);
                    maskBytes = (if masked then 4 else 0);
                    whole = offset + maskBytes + len in
            if length d < whole then Inr None
            else (let payload = take len (drop (offset + maskBytes) d);
                      plain = (if masked then xorMask (take 4 (drop offset d)) payload else payload) in
              Inr (Some (\<lparr>f_Opcode = first AND 0xf, f_Masked = masked, f_Payload = plain\<rparr>, whole)))))))"

definition parseFrame :: "bytes \<Rightarrow> ws_frame option go" where
  "parseFrame d = map_sum id (map_option fst) (parseFrameConsumed d)"

text \<open>The key is what \<^verbatim>\<open>rand.Read\<close> gives for four bytes.\<close>

definition maskedFrame :: "bytes go \<Rightarrow> byte \<Rightarrow> bytes \<Rightarrow> (bytes \<times> bytes) go" where
  "maskedFrame random opcode payload =
     (case random of
        Inl e \<Rightarrow> Inl e
      | Inr key \<Rightarrow>
          Inr (key, [0x80 OR opcode] @
            (if length payload \<le> 125 then [0x80 OR of_nat (length payload)]
             else [0x80 OR 126] @ be16 (of_nat (length payload))) @
            key @ xorMask key payload))"

section \<open>Parsing piece by piece\<close>

locale incremental_parser =
  fixes parse :: "bytes \<Rightarrow> ('f \<times> nat) option go"
  assumes consumed: "parse d = Inr (Some (f, n)) \<Longrightarrow> 0 < n \<and> n \<le> length d"
    and extend: "parse d = Inr (Some (f, n)) \<Longrightarrow> parse (d @ r) = Inr (Some (f, n))"
    and short: "parse d = Inr (Some (f, n)) \<Longrightarrow> k < n \<Longrightarrow> parse (take k d) = Inr None"
    and exact: "parse d = Inr (Some (f, n)) \<Longrightarrow> parse (take n d) = Inr (Some (f, n))"
    and refused: "parse d = Inl e \<Longrightarrow> parse (d @ r) = Inl e"
begin

text \<open>With a whole frame at the front of the stream, a buffer that holds a part of it is incomplete, and a
  buffer that holds it gives the frame.\<close>

lemma buffered:
  assumes "parse enc = Inr (Some (f, length enc))" "buf @ later = enc @ r"
  shows "parse buf = (if length buf < length enc then Inr None else Inr (Some (f, length enc)))"
proof (cases "length buf < length enc")
  case True
  from assms(2) have "take (length buf) (buf @ later) = take (length buf) (enc @ r)" by simp
  with True have "buf = take (length buf) enc" by simp
  with short [OF assms(1) True] True show ?thesis by metis
next
  case False
  from assms(2) have "take (length enc) (buf @ later) = take (length enc) (enc @ r)" by simp
  with False have "take (length enc) buf = enc" by simp
  then have "buf = enc @ drop (length enc) buf" by (metis append_take_drop_id)
  with extend [OF assms(1)] False show ?thesis by metis
qed

text \<open>Two frames in front of the same bytes are the same frame.\<close>

lemma unique_frame:
  assumes "parse a = Inr (Some (f, length a))" "parse b = Inr (Some (g, length b))" "a @ r = b @ s"
  shows "a = b \<and> f = g"
proof -
  from extend [OF assms(1), of r] extend [OF assms(2), of s] assms(3) have "f = g" "length a = length b" by auto
  with assms(3) show ?thesis by auto
qed

text \<open>A refusal stays one whatever follows, and never comes before the end of a whole frame.\<close>

lemma not_refused:
  assumes "parse enc = Inr (Some (f, length enc))" "buf @ later = enc @ r"
  shows "parse buf \<noteq> Inl e"
  using buffered [OF assms] by simp

end

section \<open>The parser's laws\<close>

text \<open>The part after the length: the mask key, if any, and the payload.\<close>

definition parseBody :: "byte \<Rightarrow> bool \<Rightarrow> nat \<Rightarrow> nat \<Rightarrow> bytes \<Rightarrow> (ws_frame \<times> nat) option go" where
  "parseBody first masked offset len r =
     (let mk = (if masked then 4 else 0) in
      if length r < mk + len then Inr None
      else Inr (Some (\<lparr>f_Opcode = first AND 0xf, f_Masked = masked,
        f_Payload = (if masked then xorMask (take 4 r) (take len (drop mk r)) else take len (drop mk r))\<rparr>, offset + mk + len)))"

lemma parseBody_laws:
  assumes "parseBody a m off len r = Inr (Some (f, n))"
  shows "n = off + (if m then 4 else 0) + len" "n \<le> off + length r" "parseBody a m off len (r @ t) = Inr (Some (f, n))"
    "off + k < n \<Longrightarrow> parseBody a m off len (take k r) = Inr None"
    "parseBody a m off len (take (n - off) r) = Inr (Some (f, n))"
  using assms by (auto simp: parseBody_def Let_def drop_take split: if_splits)

lemma parse_none [simp]: "parseFrameConsumed [] = Inr None" "parseFrameConsumed [a] = Inr None"
  by (simp_all add: parseFrameConsumed_def)

lemma parse_cons:
  "parseFrameConsumed (a # b # r) =
     (if a AND 0x80 = 0 \<or> a AND 0x70 \<noteq> 0 then Inl (Errorf ''fragmented or RSV-bearing server frame'')
      else if b AND 0x7f = 127 then Inl (Errorf ''unexpected 64-bit WebSocket frame'')
      else if b AND 0x7f = 126
      then (case r of x # y # r2 \<Rightarrow> parseBody a (b AND 0x80 \<noteq> 0) 4 (unat (uint16 [x, y])) r2 | _ \<Rightarrow> Inr None)
      else parseBody a (b AND 0x80 \<noteq> 0) 2 (unat (b AND 0x7f)) r)"
proof -
  have u: "unat (b AND 0x7f) = 126 \<longleftrightarrow> b AND 0x7f = 126" "unat (b AND 0x7f) = 127 \<longleftrightarrow> b AND 0x7f = 127"
    by (simp_all add: word_unat_eq_iff)
  show ?thesis
  proof (cases r)
    case Nil
    then show ?thesis by (simp add: parseFrameConsumed_def parseBody_def u)
  next
    case (Cons x r1)
    then show ?thesis
      by (cases r1) (simp_all add: parseFrameConsumed_def parseBody_def Let_def u)
  qed
qed

lemma two_cases:
  obtains "d = []" | a where "d = [a]" | a b r where "d = a # b # r"
  by (cases d) (auto, metis list.exhaust)

interpretation ws_parser: incremental_parser parseFrameConsumed
proof unfold_locales
  fix d f n
  assume d: "parseFrameConsumed d = Inr (Some (f, n))"
  then obtain a b r where ab: "d = a # b # r" by (cases d rule: two_cases) auto
  consider (small) "b AND 0x7f \<noteq> 126" "parseBody a (b AND 0x80 \<noteq> 0) 2 (unat (b AND 0x7f)) r = Inr (Some (f, n))"
    | (large) x y r2 where "b AND 0x7f = 126" "r = x # y # r2"
        "parseBody a (b AND 0x80 \<noteq> 0) 4 (unat (uint16 [x, y])) r2 = Inr (Some (f, n))"
    using d ab by (auto simp: parse_cons split: if_splits list.splits)
  note shapes = this
  have h: "\<not> (a AND 0x80 = 0 \<or> a AND 0x70 \<noteq> 0)" "b AND 0x7f \<noteq> 127" using d ab by (auto simp: parse_cons split: if_splits)
  show "0 < n \<and> n \<le> length d"
  proof (cases rule: shapes)
    case small
    from parseBody_laws(1,2) [OF this(2)] ab show ?thesis by simp
  next
    case large
    from parseBody_laws(1,2) [OF this(3)] ab large show ?thesis by simp
  qed
  show "parseFrameConsumed (d @ t) = Inr (Some (f, n))" for t
  proof (cases rule: shapes)
    case small
    from parseBody_laws(3) [OF this(2), of t] ab small h show ?thesis by (simp add: parse_cons)
  next
    case large
    from parseBody_laws(3) [OF this(3), of t] ab large h show ?thesis by (simp add: parse_cons)
  qed
  show "parseFrameConsumed (take k d) = Inr None" if k: "k < n" for k
  proof (cases "k < 2")
    case True
    then have "k = 0 \<or> k = 1" by auto
    then show ?thesis using ab by auto
  next
    case False
    then obtain j where j: "k = Suc (Suc j)" by (metis add_2_eq_Suc le_Suc_ex not_less)
    show ?thesis
    proof (cases rule: shapes)
      case small
      from parseBody_laws(4) [OF this(2), of j] ab small h j k show ?thesis by (simp add: parse_cons)
    next
      case large
      show ?thesis
      proof (cases "j < 2")
        case True
        then have "j = 0 \<or> j = 1" by auto
        with ab large h j show ?thesis by (auto simp: parse_cons)
      next
        case False
        then obtain i where i: "j = Suc (Suc i)" by (metis add_2_eq_Suc le_Suc_ex not_less)
        from parseBody_laws(4) [OF large(3), of i] ab large h j i k show ?thesis by (simp add: parse_cons)
      qed
    qed
  qed
  show "parseFrameConsumed (take n d) = Inr (Some (f, n))"
  proof (cases rule: shapes)
    case small
    have "n = Suc (Suc (n - 2))" using parseBody_laws(1) [OF small(2)] by simp
    with parseBody_laws(5) [OF small(2)] ab small h show ?thesis by (metis parse_cons take_Suc_Cons)
  next
    case large
    obtain k where "n = Suc (Suc (Suc (Suc k)))"
      using parseBody_laws(1) [OF large(3)] that [of "n - 4"] by (simp split: if_splits)
    with parseBody_laws(5) [OF large(3)] ab large h show ?thesis by (simp add: parse_cons)
  qed
next
  fix d e r
  assume d: "parseFrameConsumed d = Inl e"
  then obtain a b r where "d = a # b # r" by (cases d rule: two_cases) auto
  with d show "parseFrameConsumed (d @ t) = Inl e" for t
    by (auto simp: parse_cons parseBody_def Let_def split: if_splits list.splits)
qed

section \<open>Round trips\<close>

text \<open>A plain frame of the server, with whatever follows it, is parsed as it was written.\<close>

lemma parse_plainFrame:
  assumes "okFrame (op, p)"
  shows "parseFrameConsumed (plainFrame (op, p)) =
    Inr (Some (\<lparr>f_Opcode = op, f_Masked = False, f_Payload = p\<rparr>, length (plainFrame (op, p))))"
proof (cases "length p \<le> 125")
  case True
  from assms have "op < 16" by (simp add: okFrame_def)
  then show ?thesis using True
    by (simp add: plainFrame_def lengthBytes_short parse_cons op_bits parseBody_def)
next
  case False
  from assms have "op < 16" "length p \<le> 65535" by (auto simp: okFrame_def split: if_splits)
  then show ?thesis using False uint16_be16 [of "of_nat (length p)" "[]"]
    by (simp add: plainFrame_def lengthBytes_long parse_cons op_bits parseBody_def be16_def unat_of_nat)
qed

text \<open>The executor's own masked frame reads back as the frame it was made from.\<close>

lemma parse_maskedFrame:
  assumes "op < 16" "length p \<le> 65535" "length key = 4" "maskedFrame (Inr key) op p = Inr (k, enc)"
  shows "k = key" "parseFrameConsumed enc = Inr (Some (\<lparr>f_Opcode = op, f_Masked = True, f_Payload = p\<rparr>, length enc))"
proof -
  from assms(4) show "k = key" by (simp add: maskedFrame_def)
  show "parseFrameConsumed enc = Inr (Some (\<lparr>f_Opcode = op, f_Masked = True, f_Payload = p\<rparr>, length enc))"
  proof (cases "length p \<le> 125")
    case True
    with assms show ?thesis
      by (auto simp: maskedFrame_def lengthBytes_short parse_cons op_bits parseBody_def)
  next
    case False
    with assms uint16_be16 [of "of_nat (length p)" "[]"] show ?thesis
      by (auto simp: maskedFrame_def parse_cons op_bits parseBody_def be16_def unat_of_nat)
  qed
qed

end
