(* ===== verification/H2ws_Session.thy ===== *)
theory H2ws_Session
  imports H2ws_Wire
begin

text \<open>
  The HTTP/2 session of \<^verbatim>\<open>executors/go-http2-websocket-executor/source/main.go\<close> that carries several WebSocket
  streams: the reader goroutine with its flow control and header blocks, and the channels it fills. What
  \<^verbatim>\<open>ReadFrame\<close> returns is a list of frames and the error at its end; HPACK is the argument \<open>hp\<close>. The
  goroutines are the step relation \<open>session_step\<close>: the reader works on a frame, hands an event to a channel
  once there is room, and a stream takes the oldest event of its channel.
\<close>

section \<open>Frames, the writer and header compression\<close>

text \<open>The last component of a DATA frame is the length of its padding with the pad length field, which
  \<^verbatim>\<open>Data()\<close> leaves out.\<close>

datatype h2frame =
    SettingsFrame bool "(u16 \<times> u32) list"
  | WindowUpdateFrame u32
  | DataFrame u32 bytes nat
  | RSTStreamFrame u32 string
  | GoAwayFrame u32 string
  | HeadersFrame u32 bytes bool
  | ContinuationFrame u32 bytes bool
  | OtherFrame u32

datatype h2written =
    WPreface | WSettings "(u16 \<times> u32) list" | WSettingsAck | WHeaders u32 bytes
  | WWindowUpdate u32 u32 | WData u32 bytes

text \<open>The successful writes, oldest first, and after how many more the next one fails.\<close>

record h2_writer =
  w_out :: "h2written list"
  w_cap :: "(nat \<times> go_error) option"

definition h2Write :: "h2written \<Rightarrow> h2_writer \<Rightarrow> go_error option \<times> h2_writer" where
  "h2Write x w =
     (case w_cap w of
        None \<Rightarrow> (None, w\<lparr>w_out := w_out w @ [x]\<rparr>)
      | Some (0, e) \<Rightarrow> (Some e, w)
      | Some (Suc n, e) \<Rightarrow> (None, w\<lparr>w_out := w_out w @ [x], w_cap := Some (n, e)\<rparr>))"

text \<open>The decoder of \<^verbatim>\<open>golang.org/x/net/http2/hpack\<close> with its state, and the encoding of a field list by a new
  encoder.\<close>

record 'd hpack =
  hp_new :: 'd
  hp_write :: "'d \<Rightarrow> bytes \<Rightarrow> ((string \<times> string) list \<times> 'd) go"
  hp_close :: "'d \<Rightarrow> 'd go"
  hp_encode :: "(string \<times> string) list \<Rightarrow> bytes go"

type_synonym headers = "string \<rightharpoonup> string"

definition emitFields :: "(string \<times> string) list \<Rightarrow> headers" where
  "emitFields fs = fold (\<lambda>(n, v) m. m(toLower n \<mapsto> v)) fs Map.empty"

section \<open>The session\<close>

text \<open>An event has headers, data or an error; a map that was decoded is never nil.\<close>

datatype stream_event = EvHeaders headers | EvData bytes | EvErr go_error

record 'd h2_session =
  h_writer :: h2_writer
  h_streams :: "u32 \<rightharpoonup> stream_event list"
  h_headerBlocks :: "u32 \<rightharpoonup> bytes"
  h_headerDecoder :: 'd
  h_done :: bool
  h_readerError :: "go_error option"
  h_settingsFrames :: int
  h_windowUpdateFrames :: int

definition newSession :: "'d hpack \<Rightarrow> h2_writer \<Rightarrow> 'd h2_session" where
  "newSession hp w =
     \<lparr>h_writer = w, h_streams = Map.empty, h_headerBlocks = Map.empty, h_headerDecoder = hp_new hp, h_done = False,
      h_readerError = None, h_settingsFrames = 0, h_windowUpdateFrames = 0\<rparr>"

definition decodeHeaderBlock :: "'d hpack \<Rightarrow> 'd \<Rightarrow> bytes \<Rightarrow> (headers \<times> 'd) go" where
  "decodeHeaderBlock hp decoder block =
     (case hp_write hp decoder block of
        Inl e \<Rightarrow> Inl e
      | Inr (fs, d1) \<Rightarrow> (case hp_close hp d1 of Inl e \<Rightarrow> Inl e | Inr d2 \<Rightarrow> Inr (emitFields fs, d2)))"

text \<open>The reader stores an error and returns, which closes \<^verbatim>\<open>done\<close>.\<close>

definition stopReader :: "go_error \<Rightarrow> 'd h2_session \<Rightarrow> 'd h2_session" where
  "stopReader e s = s\<lparr>h_readerError := Some e, h_done := True\<rparr>"

text \<open>The end of a header block: it is decoded, forgotten and handed on.\<close>

definition endBlock ::
  "'d hpack \<Rightarrow> u32 \<Rightarrow> bytes \<Rightarrow> 'd h2_session \<Rightarrow> 'd h2_session \<times> (u32 \<times> stream_event) option" where
  "endBlock hp sid block s =
     (let s1 = s\<lparr>h_headerBlocks := (h_headerBlocks s)(sid := None)\<rparr> in
      case decodeHeaderBlock hp (h_headerDecoder s) block of
        Inl e \<Rightarrow> (stopReader e s1, None)
      | Inr (hs, d) \<Rightarrow> (s1\<lparr>h_headerDecoder := d\<rparr>, Some (sid, EvHeaders hs)))"

definition creditData :: "u32 \<Rightarrow> bytes \<Rightarrow> h2_writer \<Rightarrow> go_error option \<times> h2_writer" where
  "creditData sid d w =
     (if d = [] then (None, w)
      else (case h2Write (WWindowUpdate 0 (of_nat (length d))) w of
          (Some e, w1) \<Rightarrow> (Some e, w1)
        | (None, w1) \<Rightarrow> h2Write (WWindowUpdate sid (of_nat (length d))) w1))"

text \<open>One pass of the reader up to its call of \<^verbatim>\<open>dispatch\<close>, which is the second component.\<close>

fun readerPass :: "'d hpack \<Rightarrow> h2frame \<Rightarrow> 'd h2_session \<Rightarrow> 'd h2_session \<times> (u32 \<times> stream_event) option" where
  "readerPass hp (SettingsFrame ack _) s =
     (let s1 = s\<lparr>h_settingsFrames := h_settingsFrames s + 1\<rparr> in
      if ack then (s1, None)
      else (case h2Write WSettingsAck (h_writer s1) of
          (Some e, w) \<Rightarrow> (stopReader e (s1\<lparr>h_writer := w\<rparr>), None)
        | (None, w) \<Rightarrow> (s1\<lparr>h_writer := w\<rparr>, None)))"
| "readerPass hp (WindowUpdateFrame _) s = (s\<lparr>h_windowUpdateFrames := h_windowUpdateFrames s + 1\<rparr>, None)"
| "readerPass hp (DataFrame sid d _) s =
     (case creditData sid d (h_writer s) of
        (Some e, w) \<Rightarrow> (stopReader e (s\<lparr>h_writer := w\<rparr>), None)
      | (None, w) \<Rightarrow> (s\<lparr>h_writer := w\<rparr>, Some (sid, EvData d)))"
| "readerPass hp (RSTStreamFrame sid code) s = (s, Some (sid, EvErr (Errorf (''stream '' @ itoa (unat sid) @ '' reset with '' @ code))))"
| "readerPass hp (GoAwayFrame lastStream code) s =
     (stopReader (Errorf (''HTTP/2 GOAWAY lastStream='' @ itoa (unat lastStream) @ '' error='' @ code)) s, None)"
| "readerPass hp (HeadersFrame sid fragment ended) s =
     (let block = (case h_headerBlocks s sid of None \<Rightarrow> [] | Some b \<Rightarrow> b) @ fragment in
      if \<not> ended then (s\<lparr>h_headerBlocks := (h_headerBlocks s)(sid \<mapsto> block)\<rparr>, None)
      else endBlock hp sid block s)"
| "readerPass hp (ContinuationFrame sid fragment ended) s =
     (case h_headerBlocks s sid of
        None \<Rightarrow> (stopReader (Errorf (''stream '' @ itoa (unat sid) @ '' continuation without header block'')) s, None)
      | Some b \<Rightarrow>
          if \<not> ended then (s\<lparr>h_headerBlocks := (h_headerBlocks s)(sid \<mapsto> b @ fragment)\<rparr>, None)
          else endBlock hp sid (b @ fragment) s)"
| "readerPass hp (OtherFrame _) s = (s, None)"

text \<open>\<^verbatim>\<open>make(chan streamEvent, 256)\<close>. \<^verbatim>\<open>dispatch\<close> drops an event of a stream without a channel; otherwise it
  waits for room in the channel. The other arm of its select waits for \<^verbatim>\<open>done\<close>, which only the goroutine
  that is waiting here closes. \<open>None\<close> is that the call does not return yet.\<close>

definition channelCapacity :: nat where "channelCapacity = 256"

definition dispatch :: "u32 \<Rightarrow> stream_event \<Rightarrow> 'd h2_session \<Rightarrow> 'd h2_session option" where
  "dispatch sid ev s =
     (case h_streams s sid of
        None \<Rightarrow> Some s
      | Some q \<Rightarrow>
          if length q < channelCapacity then Some (s\<lparr>h_streams := (h_streams s)(sid \<mapsto> q @ [ev])\<rparr>)
          else if h_done s then Some s else None)"

text \<open>The session and the reader's position: the frames to come, the error after them, and the event it is
  handing over.\<close>

record 'd reader_state =
  rd_session :: "'d h2_session"
  rd_frames :: "h2frame list"
  rd_end :: go_error
  rd_handing :: "(u32 \<times> stream_event) option"

text \<open>A step is by the reader (\<open>None\<close>) or by a stream that takes an event.\<close>

inductive session_step ::
  "'d hpack \<Rightarrow> 'd reader_state \<Rightarrow> (u32 \<times> stream_event) option \<Rightarrow> 'd reader_state \<Rightarrow> bool" for hp where
  read: "\<lbrakk>rd_handing r = None; \<not> h_done (rd_session r); rd_frames r = f # fs; readerPass hp f (rd_session r) = (s, d)\<rbrakk>
    \<Longrightarrow> session_step hp r None (r\<lparr>rd_session := s, rd_frames := fs, rd_handing := d\<rparr>)"
| read_error: "\<lbrakk>rd_handing r = None; \<not> h_done (rd_session r); rd_frames r = []\<rbrakk>
    \<Longrightarrow> session_step hp r None (r\<lparr>rd_session := stopReader (rd_end r) (rd_session r)\<rparr>)"
| hand: "\<lbrakk>rd_handing r = Some (sid, ev); dispatch sid ev (rd_session r) = Some s\<rbrakk>
    \<Longrightarrow> session_step hp r None (r\<lparr>rd_session := s, rd_handing := None\<rparr>)"
| receive: "\<lbrakk>h_streams (rd_session r) sid = Some (ev # q)\<rbrakk>
    \<Longrightarrow> session_step hp r (Some (sid, ev)) (r\<lparr>rd_session := (rd_session r)\<lparr>h_streams := (h_streams (rd_session r))(sid \<mapsto> q)\<rparr>\<rparr>)"

inductive session_run ::
  "'d hpack \<Rightarrow> 'd reader_state \<Rightarrow> (u32 \<times> stream_event) option list \<Rightarrow> 'd reader_state \<Rightarrow> bool" for hp where
  start: "session_run hp r [] r"
| step: "\<lbrakk>session_run hp r tr r1; session_step hp r1 l r2\<rbrakk> \<Longrightarrow> session_run hp r (tr @ [l]) r2"

section \<open>What the reader does\<close>

text \<open>The reader on its own: the session after some frames, and the events it hands over, in order.\<close>

fun reading :: "'d hpack \<Rightarrow> 'd h2_session \<Rightarrow> h2frame list \<Rightarrow> 'd h2_session \<times> (u32 \<times> stream_event) list" where
  "reading hp s [] = (s, [])"
| "reading hp s (f # fs) =
     (if h_done s then (s, [])
      else (case readerPass hp f s of (s1, d) \<Rightarrow>
        (case reading hp s1 fs of (s2, ds) \<Rightarrow> (s2, (case d of None \<Rightarrow> [] | Some x \<Rightarrow> [x]) @ ds))))"

definition eventsOf :: "u32 \<Rightarrow> (u32 \<times> stream_event) list \<Rightarrow> stream_event list" where
  "eventsOf sid ds = map snd (filter (\<lambda>(i, _). i = sid) ds)"

definition takenBy :: "u32 \<Rightarrow> (u32 \<times> stream_event) option list \<Rightarrow> stream_event list" where
  "takenBy sid tr = eventsOf sid (concat (map (\<lambda>l. case l of None \<Rightarrow> [] | Some x \<Rightarrow> [x]) tr))"

definition handingTo :: "u32 \<Rightarrow> 'd reader_state \<Rightarrow> stream_event list" where
  "handingTo sid r = eventsOf sid (case rd_handing r of None \<Rightarrow> [] | Some x \<Rightarrow> [x])"

lemma eventsOf_simps [simp]:
  "eventsOf sid [] = []" "eventsOf sid (xs @ ys) = eventsOf sid xs @ eventsOf sid ys"
  "eventsOf sid [(i, ev)] = (if i = sid then [ev] else [])"
  by (simp_all add: eventsOf_def)

lemma takenBy_simps [simp]:
  "takenBy sid [] = []" "takenBy sid (tr @ [None]) = takenBy sid tr"
  "takenBy sid (tr @ [Some x]) = takenBy sid tr @ eventsOf sid [x]"
  by (simp_all add: takenBy_def)

lemma stopReader_fields [simp]:
  "h_streams (stopReader e s) = h_streams s" "h_done (stopReader e s)" "h_writer (stopReader e s) = h_writer s"
  "h_headerBlocks (stopReader e s) = h_headerBlocks s"
  by (simp_all add: stopReader_def)

text \<open>The reader neither reads nor changes the channels before it hands over.\<close>

lemma endBlock_streams:
  "endBlock hp sid b (s\<lparr>h_streams := m\<rparr>) = apfst (\<lambda>x. x\<lparr>h_streams := m\<rparr>) (endBlock hp sid b s)"
  "h_streams (fst (endBlock hp sid b s)) = h_streams s"
  by (auto simp: endBlock_def stopReader_def Let_def split: sum.split prod.split)

lemma readerPass_streams:
  "readerPass hp f (s\<lparr>h_streams := m\<rparr>) = apfst (\<lambda>x. x\<lparr>h_streams := m\<rparr>) (readerPass hp f s)"
  "h_streams (fst (readerPass hp f s)) = h_streams s"
  by (cases f; auto simp: Let_def endBlock_streams stopReader_def split: prod.split option.split)+

lemma reading_streams:
  "reading hp (s\<lparr>h_streams := m\<rparr>) fs = apfst (\<lambda>x. x\<lparr>h_streams := m\<rparr>) (reading hp s fs)"
  by (induction fs arbitrary: s) (auto simp: readerPass_streams split: prod.split)

lemma reading_append:
  "\<not> h_done (fst (reading hp s xs)) \<Longrightarrow>
   reading hp s (xs @ ys) =
     (case reading hp s xs of (s1, ds) \<Rightarrow> case reading hp s1 ys of (s2, es) \<Rightarrow> (s2, ds @ es))"
  by (induction xs arbitrary: s) (auto split: prod.split if_splits)

section \<open>Every schedule delivers the frames in order\<close>

definition onlyReader :: "'d h2_session \<Rightarrow> 'd h2_session" where
  "onlyReader s = s\<lparr>h_streams := Map.empty\<rparr>"

lemma onlyReader_simps [simp]:
  "onlyReader (s\<lparr>h_streams := m\<rparr>) = onlyReader s" "h_done (onlyReader s) = h_done s"
  "onlyReader (stopReader e s) = stopReader e (onlyReader s)"
  by (simp_all add: onlyReader_def stopReader_def)

lemma readerPass_onlyReader:
  "readerPass hp f s = (s1, d) \<Longrightarrow> readerPass hp f (onlyReader s) = (onlyReader s1, d)"
  by (simp add: onlyReader_def readerPass_streams)

lemma readerPass_done: "readerPass hp f s = (s1, Some x) \<Longrightarrow> \<not> h_done s \<Longrightarrow> \<not> h_done s1"
  by (cases f) (auto simp: Let_def endBlock_def stopReader_def split: prod.splits option.splits if_splits sum.splits)

text \<open>The state of a run against the sequential reader on the frames read so far.\<close>

definition delivered ::
  "'d hpack \<Rightarrow> 'd reader_state \<Rightarrow> (u32 \<times> stream_event) option list \<Rightarrow> 'd reader_state \<Rightarrow> h2frame list \<Rightarrow> bool" where
  "delivered hp r0 tr r past \<longleftrightarrow>
     rd_frames r0 = past @ rd_frames r \<and> rd_end r = rd_end r0 \<and> (rd_handing r \<noteq> None \<longrightarrow> \<not> h_done (rd_session r)) \<and>
     (onlyReader (rd_session r) = fst (reading hp (onlyReader (rd_session r0)) past) \<or>
      rd_frames r = [] \<and> h_done (rd_session r) \<and>
      onlyReader (rd_session r) = stopReader (rd_end r0) (fst (reading hp (onlyReader (rd_session r0)) past))) \<and>
     (\<forall>sid q0. h_streams (rd_session r0) sid = Some q0 \<longrightarrow>
        (\<exists>q. h_streams (rd_session r) sid = Some q \<and>
          q0 @ eventsOf sid (snd (reading hp (onlyReader (rd_session r0)) past)) = takenBy sid tr @ q @ handingTo sid r \<and>
          (length q0 \<le> channelCapacity \<longrightarrow> length q \<le> channelCapacity)))"

lemma delivered_start: "rd_handing r = None \<Longrightarrow> delivered hp r [] r []"
  by (simp add: delivered_def handingTo_def)

lemma delivered_step:
  assumes "delivered hp r0 tr r past" "session_step hp r l r'"
  shows "\<exists>past'. delivered hp r0 (tr @ [l]) r' past'"
  using assms(2)
proof cases
  case (read f fs s d)
  have core: "onlyReader (rd_session r) = fst (reading hp (onlyReader (rd_session r0)) past)"
    using assms(1) read by (auto simp: delivered_def)
  then obtain ds where ds: "reading hp (onlyReader (rd_session r0)) past = (onlyReader (rd_session r), ds)"
    by (metis prod.collapse)
  have next_: "reading hp (onlyReader (rd_session r0)) (past @ [f]) = (onlyReader s, ds @ (case d of None \<Rightarrow> [] | Some x \<Rightarrow> [x]))"
    using readerPass_onlyReader [OF read(6)] read(4) by (simp add: reading_append ds)
  have st: "h_streams s = h_streams (rd_session r)" using readerPass_streams(2) [of hp f "rd_session r"] read(6) by simp
  show ?thesis
    using assms(1) read readerPass_done [of hp f "rd_session r" s]
    by (intro exI [of _ "past @ [f]"])
      (auto simp: delivered_def next_ ds st handingTo_def split: option.splits)
next
  case read_error
  then show ?thesis using assms(1) by (intro exI [of _ "past"]) (auto simp: delivered_def handingTo_def)
next
  case (hand sid ev s)
  then have nd: "\<not> h_done (rd_session r)" using assms(1) by (simp add: delivered_def)
  show ?thesis
  proof (cases "h_streams (rd_session r) sid")
    case None
    with hand assms(1) show ?thesis
      by (intro exI [of _ "past"]) (fastforce simp: delivered_def dispatch_def handingTo_def)
  next
    case (Some q)
    with hand nd have "length q < channelCapacity" "s = (rd_session r)\<lparr>h_streams := (h_streams (rd_session r))(sid \<mapsto> q @ [ev])\<rparr>"
      by (auto simp: dispatch_def split: if_splits)
    with Some hand assms(1) show ?thesis
      by (intro exI [of _ "past"]) (fastforce simp: delivered_def handingTo_def)
  qed
next
  case (receive sid ev q)
  then show ?thesis using assms(1)
    by (intro exI [of _ "past"]) (fastforce simp: delivered_def handingTo_def)
qed

lemma run_delivered:
  "session_run hp r0 tr r \<Longrightarrow> rd_handing r0 = None \<Longrightarrow> \<exists>past. delivered hp r0 tr r past"
proof (induction rule: session_run.induct)
  case (start r)
  then show ?case using delivered_start by blast
next
  case (step r tr r1 l r2)
  then show ?case using delivered_step by blast
qed

lemma reading_onlyReader: "snd (reading hp (onlyReader s) fs) = snd (reading hp s fs)"
  by (simp add: onlyReader_def reading_streams)

text \<open>C34: However the reader and the streams of an HTTP/2 WebSocket session are scheduled, a registered stream
  takes exactly the events of its own frames, in their order: what it has taken, what waits in its channel
  and what the reader is handing to it are together the events of the frames read so far, none lost,
  repeated or moved to another stream; and a channel never holds more than its capacity.\<close>

theorem h2ws_streams_delivered:
  assumes "session_run hp r0 tr r" "rd_handing r0 = None" "h_streams (rd_session r0) sid = Some q0"
  shows "\<exists>past q. rd_frames r0 = past @ rd_frames r \<and> h_streams (rd_session r) sid = Some q \<and>
    q0 @ eventsOf sid (snd (reading hp (rd_session r0) past)) = takenBy sid tr @ q @ handingTo sid r \<and>
    (length q0 \<le> channelCapacity \<longrightarrow> length q \<le> channelCapacity)"
proof -
  from run_delivered [OF assms(1,2)] obtain past where "delivered hp r0 tr r past" ..
  with assms(3) show ?thesis unfolding delivered_def reading_onlyReader by metis
qed

section \<open>Header blocks and flow control\<close>

lemma h_session_simps: "h_done (s\<lparr>h_headerBlocks := m\<rparr>) = h_done s" "h_headerBlocks (s\<lparr>h_headerBlocks := m\<rparr>) = m"
  by simp_all

lemma reading_continuations:
  assumes "\<not> h_done s" "h_headerBlocks s sid = Some b"
  shows "reading hp s (map (\<lambda>p. ContinuationFrame sid p False) ps @ [ContinuationFrame sid z True]) =
    reading hp (s\<lparr>h_headerBlocks := (h_headerBlocks s)(sid := None)\<rparr>) [HeadersFrame sid (b @ concat ps @ z) True]"
  using assms
proof (induction ps arbitrary: s b)
  case Nil
  then show ?case by (simp add: endBlock_def Let_def fun_upd_def cong: if_cong)
next
  case (Cons p ps)
  let ?s = "s\<lparr>h_headerBlocks := (h_headerBlocks s)(sid \<mapsto> b @ p)\<rparr>"
  have "?s\<lparr>h_headerBlocks := (h_headerBlocks ?s)(sid := None)\<rparr> = s\<lparr>h_headerBlocks := (h_headerBlocks s)(sid := None)\<rparr>"
    by (simp add: fun_upd_def cong: if_cong)
  with Cons.IH [of ?s "b @ p"] Cons.prems
  have "reading hp ?s (map (\<lambda>p. ContinuationFrame sid p False) ps @ [ContinuationFrame sid z True]) =
      reading hp (s\<lparr>h_headerBlocks := (h_headerBlocks s)(sid := None)\<rparr>) [HeadersFrame sid (b @ concat (p # ps) @ z) True]"
    by (metis append.assoc concat.simps(2) fun_upd_same h_session_simps)
  moreover have "reading hp s (ContinuationFrame sid p False # fs) = reading hp ?s fs" for fs
    using Cons.prems by (simp split: prod.split)
  ultimately show ?case by (simp only: list.map append.simps)
qed

text \<open>A header block that arrives as a HEADERS frame and CONTINUATION frames, cut anywhere, has the effect of the
  same block in one HEADERS frame.\<close>

theorem h2ws_header_block_pieces:
  assumes "\<not> h_done s" "h_headerBlocks s sid = None"
  shows "reading hp s (HeadersFrame sid a False # map (\<lambda>p. ContinuationFrame sid p False) ps @ [ContinuationFrame sid z True]) =
    reading hp s [HeadersFrame sid (a @ concat ps @ z) True]"
proof -
  let ?s = "s\<lparr>h_headerBlocks := (h_headerBlocks s)(sid \<mapsto> a)\<rparr>"
  have undo: "?s\<lparr>h_headerBlocks := (h_headerBlocks ?s)(sid := None)\<rparr> = s" using assms(2) by (simp add: fun_upd_idem)
  have "reading hp s (HeadersFrame sid a False # map (\<lambda>p. ContinuationFrame sid p False) ps @ [ContinuationFrame sid z True]) =
      reading hp ?s (map (\<lambda>p. ContinuationFrame sid p False) ps @ [ContinuationFrame sid z True])"
    using assms by (simp split: prod.split)
  also have "\<dots> = reading hp s [HeadersFrame sid (a @ concat ps @ z) True]"
    using reading_continuations [of ?s sid a hp ps z] assms(1) unfolding undo by simp
  finally show ?thesis .
qed

text \<open>What was received and what was given back on a stream; stream 0 is the connection.\<close>

fun dataOn :: "u32 \<Rightarrow> h2frame \<Rightarrow> nat \<times> nat" where
  "dataOn sid (DataFrame i d pad) = (if sid = 0 \<or> i = sid then (length d, pad) else (0, 0))"
| "dataOn sid _ = (0, 0)"

fun creditOn :: "u32 \<Rightarrow> h2written \<Rightarrow> nat" where
  "creditOn sid (WWindowUpdate i n) = (if i = sid then unat n else 0)"
| "creditOn sid _ = 0"

definition received :: "u32 \<Rightarrow> h2frame list \<Rightarrow> nat" where
  "received sid fs = sum_list (map (\<lambda>f. fst (dataOn sid f) + snd (dataOn sid f)) fs)"

definition padding :: "u32 \<Rightarrow> h2frame list \<Rightarrow> nat" where
  "padding sid fs = sum_list (map (\<lambda>f. snd (dataOn sid f)) fs)"

definition credited :: "u32 \<Rightarrow> h2_writer \<Rightarrow> nat" where
  "credited sid w = sum_list (map (creditOn sid) (w_out w))"

text \<open>DATA frames belong to streams, and the framer's limit keeps them below 2 to the 24.\<close>

fun dataFits :: "h2frame \<Rightarrow> bool" where
  "dataFits (DataFrame i d _) \<longleftrightarrow> i \<noteq> 0 \<and> length d < 2 ^ 24"
| "dataFits _ = True"

lemma h2Write_ok: "w_cap w = None \<Longrightarrow> h2Write x w = (None, w\<lparr>w_out := w_out w @ [x]\<rparr>)"
  by (simp add: h2Write_def)

lemma endBlock_writer: "h_writer (fst (endBlock hp sid b s)) = h_writer s"
  by (auto simp: endBlock_def Let_def split: sum.split prod.split)

lemma readerPass_credit:
  assumes "w_cap (h_writer s) = None" "dataFits f"
  shows "w_cap (h_writer (fst (readerPass hp f s))) = None"
    "credited sid (h_writer (fst (readerPass hp f s))) = credited sid (h_writer s) + fst (dataOn sid f)"
proof -
  have u: "unat (of_nat (length d) :: u32) = length d" if "length d < 2 ^ 24" for d :: bytes
    using that by (simp add: unat_of_nat)
  show "w_cap (h_writer (fst (readerPass hp f s))) = None"
    using assms by (cases f) (auto simp: Let_def h2Write_ok creditData_def endBlock_writer split: option.split)
  show "credited sid (h_writer (fst (readerPass hp f s))) = credited sid (h_writer s) + fst (dataOn sid f)"
    using assms by (cases f) (auto simp: Let_def h2Write_ok creditData_def endBlock_writer credited_def u split: option.split)
qed

lemma reading_credit:
  assumes "w_cap (h_writer s) = None" "list_all dataFits fs" "\<not> h_done (fst (reading hp s fs))"
  shows "credited sid (h_writer (fst (reading hp s fs))) + padding sid fs = credited sid (h_writer s) + received sid fs"
  using assms
proof (induction fs arbitrary: s)
  case Nil
  then show ?case by (simp add: padding_def received_def)
next
  case (Cons f fs)
  obtain s1 d where p: "readerPass hp f s = (s1, d)" by fastforce
  have nd: "\<not> h_done s" "\<not> h_done (fst (reading hp s1 fs))"
    using Cons.prems(3) by (auto simp: p split: prod.splits if_splits)
  have c: "w_cap (h_writer s1) = None" "credited sid (h_writer s1) = credited sid (h_writer s) + fst (dataOn sid f)"
    using readerPass_credit [OF Cons.prems(1), where f = f and hp = hp] Cons.prems(2) p by auto
  from Cons.IH [OF c(1)] Cons.prems(2) nd(2) c(2)
  show ?case by (cases "reading hp s1 fs") (simp add: p nd(1) padding_def received_def)
qed

text \<open>C35: As long as the session reads and its writes succeed, the window updates it sends for the connection and for
  every stream give back exactly the payload bytes received there. What HTTP/2 counts beyond them, the
  padding of DATA frames, is never given back, so that the windows shrink by it.\<close>

theorem h2ws_flow_control:
  assumes "w_cap (h_writer s) = None" "list_all dataFits fs" "\<not> h_done (fst (reading hp s fs))"
  shows "credited sid (h_writer s) + received sid fs = credited sid (h_writer (fst (reading hp s fs))) + padding sid fs"
  using reading_credit [OF assms, of sid] by simp

section \<open>Progress and the full channel\<close>

text \<open>A session that has not ended can always take a step: the reader goes on, or it waits for a channel that is full, and
  then the stream of that channel can take an event, after which the reader goes on.\<close>

theorem h2ws_session_progress:
  assumes "\<not> h_done (rd_session r)"
  shows "(\<exists>r1. session_step hp r None r1) \<or>
    (\<exists>sid ev x q r1 r2. rd_handing r = Some (sid, ev) \<and> h_streams (rd_session r) sid = Some (x # q) \<and>
       channelCapacity \<le> length (x # q) \<and> session_step hp r (Some (sid, x)) r1 \<and>
       (length (x # q) = channelCapacity \<longrightarrow> session_step hp r1 None r2))"
proof (cases "rd_handing r")
  case None
  show ?thesis
  proof (cases "rd_frames r")
    case Nil
    with None assms show ?thesis by (blast intro: session_step.read_error)
  next
    case (Cons f fs)
    obtain s d where "readerPass hp f (rd_session r) = (s, d)" by fastforce
    with None Cons assms show ?thesis by (blast intro: session_step.read)
  qed
next
  case (Some h)
  obtain sid ev where h: "h = (sid, ev)" by fastforce
  show ?thesis
  proof (cases "dispatch sid ev (rd_session r)")
    case (Some s)
    with \<open>rd_handing r = Some h\<close> h show ?thesis by (blast intro: session_step.hand)
  next
    case None
    then obtain q0 where q0: "h_streams (rd_session r) sid = Some q0" "channelCapacity \<le> length q0"
      by (auto simp: dispatch_def split: option.splits if_splits)
    then obtain x q where q: "q0 = x # q" by (cases q0) (auto simp: channelCapacity_def)
    define r1 where "r1 = r\<lparr>rd_session := (rd_session r)\<lparr>h_streams := (h_streams (rd_session r))(sid \<mapsto> q)\<rparr>\<rparr>"
    have t: "session_step hp r (Some (sid, x)) r1"
      unfolding r1_def using q0(1) q by (intro session_step.receive) simp
    have "session_step hp r1 None (r1\<lparr>rd_session := (rd_session r1)\<lparr>h_streams := (h_streams (rd_session r1))(sid \<mapsto> q @ [ev])\<rparr>, rd_handing := None\<rparr>)"
      if "length q0 = channelCapacity"
      using that \<open>rd_handing r = Some h\<close> h q
      by (intro session_step.hand [of r1 sid ev]) (simp_all add: r1_def dispatch_def)
    with t q0 q h \<open>rd_handing r = Some h\<close> show ?thesis by blast
  qed
qed

text \<open>The state of a session whose reader waits for a full channel.\<close>

definition waitingFor :: "u32 \<Rightarrow> 'd reader_state \<Rightarrow> bool" where
  "waitingFor sid r \<longleftrightarrow> \<not> h_done (rd_session r) \<and>
     (\<exists>ev q. rd_handing r = Some (sid, ev) \<and> h_streams (rd_session r) sid = Some q \<and> channelCapacity \<le> length q)"

lemma stalled_step:
  assumes "session_step hp r l r'" "waitingFor sid r" "\<And>ev. l \<noteq> Some (sid, ev)"
  shows "waitingFor sid r' \<and> rd_frames r' = rd_frames r \<and>
    (\<forall>i q. h_streams (rd_session r) i = Some q \<longrightarrow>
      (\<exists>q'. h_streams (rd_session r') i = Some q' \<and> q = takenBy i [l] @ q'))"
  using assms(1)
proof cases
  case (receive i ev q)
  then have "i \<noteq> sid" using assms(3) by auto
  with receive assms(2) show ?thesis by (auto simp: waitingFor_def takenBy_def eventsOf_def)
qed (use assms(2) in \<open>auto simp: waitingFor_def dispatch_def\<close>)

text \<open>C36: Head-of-line blocking: once the reader waits for the full channel of one stream, the whole session stands still until that
  stream takes an event. No other stream gets anything beyond what was queued for it before.\<close>

theorem h2ws_full_channel_stalls:
  assumes "session_run hp r tr r'" "waitingFor sid r" "takenBy sid tr = []" "h_streams (rd_session r) i = Some q"
  shows "rd_frames r' = rd_frames r \<and> waitingFor sid r' \<and>
    (\<exists>q'. h_streams (rd_session r') i = Some q' \<and> q = takenBy i tr @ q')"
  using assms
proof (induction arbitrary: rule: session_run.induct)
  case (start r)
  then show ?case by simp
next
  case (step r tr r1 l r2)
  from step.prems(2) have t: "takenBy sid tr = []" "\<And>ev. l \<noteq> Some (sid, ev)"
    by (cases l; auto simp: takenBy_def)+
  from step.IH [OF step.prems(1) t(1) step.prems(3)] stalled_step [OF step.hyps(2) _ t(2)]
  obtain q1 q2 where "rd_frames r2 = rd_frames r" "waitingFor sid r2" "h_streams (rd_session r2) i = Some q2"
      "q = takenBy i tr @ q1" "q1 = takenBy i [l] @ q2" by metis
  then show ?case by (simp add: takenBy_def)
qed

section \<open>A session to evaluate\<close>

text \<open>A toy header compression with a single field, and a session with two streams.\<close>

definition sampleHpack :: "unit hpack" where
  "sampleHpack = \<lparr>hp_new = (), hp_write = (\<lambda>_ b. Inr ([('':status'', to_string b)], ())), hp_close = Inr,
     hp_encode = (\<lambda>fs. Inr (of_string (concat (map snd fs))))\<rparr>"

definition sampleSession :: "stream_event list \<Rightarrow> unit h2_session" where
  "sampleSession q = (newSession sampleHpack \<lparr>w_out = [], w_cap = None\<rparr>)\<lparr>h_streams := [1 \<mapsto> q, 3 \<mapsto> []]\<rparr>"

definition sampleReader :: "unit reader_state" where
  "sampleReader = \<lparr>rd_session = sampleSession [], rd_frames = [DataFrame 3 [7] 0, DataFrame 1 [8] 0], rd_end = EOF, rd_handing = None\<rparr>"

lemma sampleReader_run:
  "\<exists>r. session_run sampleHpack sampleReader [None, None, Some (3, EvData [7])] r"
proof -
  obtain s d where p: "readerPass sampleHpack (DataFrame 3 [7] 0) (sampleSession []) = (s, d)" by fastforce
  let ?r1 = "sampleReader\<lparr>rd_session := s, rd_frames := [DataFrame 1 [8] 0], rd_handing := d\<rparr>"
  have r1: "session_step sampleHpack sampleReader None ?r1"
    by (rule session_step.read [where f = "DataFrame 3 [7] 0"]) (use p in \<open>simp_all add: sampleReader_def sampleSession_def newSession_def\<close>)
  have d: "d = Some (3, EvData [7])" "h_streams s = [1 \<mapsto> [], 3 \<mapsto> []]"
    using p by (auto simp: creditData_def h2Write_def sampleSession_def newSession_def)
  let ?s2 = "s\<lparr>h_streams := (h_streams s)(3 \<mapsto> [EvData [7]])\<rparr>"
  let ?r2 = "?r1\<lparr>rd_session := ?s2, rd_handing := None\<rparr>"
  have r2: "session_step sampleHpack ?r1 None ?r2"
    by (rule session_step.hand [where sid = 3 and ev = "EvData [7]"]) (simp_all add: d dispatch_def channelCapacity_def)
  obtain r3 where r3: "session_step sampleHpack ?r2 (Some (3, EvData [7])) r3"
    using session_step.receive [of ?r2 3 "EvData [7]" "[]" sampleHpack] by auto
  from session_run.step [OF session_run.step [OF session_run.step [OF session_run.start r1] r2] r3]
  show ?thesis by auto
qed

theorem h2ws_streams_delivered_witness:
  "\<exists>r past q. session_run sampleHpack sampleReader [None, None, Some (3, EvData [7])] r \<and>
     rd_frames sampleReader = past @ rd_frames r \<and> h_streams (rd_session r) 3 = Some q \<and>
     eventsOf 3 (snd (reading sampleHpack (sampleSession []) past)) = EvData [7] # q @ handingTo 3 r"
proof -
  obtain r where r: "session_run sampleHpack sampleReader [None, None, Some (3, EvData [7])] r" using sampleReader_run ..
  have "rd_handing sampleReader = None" "h_streams (rd_session sampleReader) 3 = Some []" "rd_session sampleReader = sampleSession []"
    by (simp_all add: sampleReader_def sampleSession_def)
  with h2ws_streams_delivered [OF r, of 3 "[]"] r show ?thesis by (auto simp: takenBy_def eventsOf_def)
qed

theorem h2ws_header_block_pieces_witness:
  "reading sampleHpack (sampleSession []) [HeadersFrame 1 [50] False, ContinuationFrame 1 [48] False, ContinuationFrame 1 [48] True] =
     reading sampleHpack (sampleSession []) [HeadersFrame 1 [50, 48, 48] True]"
  using h2ws_header_block_pieces [of "sampleSession []" 1 sampleHpack "[50]" "[[48]]" "[48]"]
  by (simp add: sampleSession_def newSession_def)

theorem h2ws_flow_control_witness:
  "credited 0 (h_writer (fst (reading sampleHpack (sampleSession []) [DataFrame 1 [7, 8] 5, DataFrame 3 [9] 0]))) + 5 = 8"
proof -
  have "\<not> h_done (fst (reading sampleHpack (sampleSession []) [DataFrame 1 [7, 8] 5, DataFrame 3 [9] 0]))"
    by (simp add: sampleSession_def newSession_def creditData_def h2Write_def)
  with h2ws_flow_control [of "sampleSession []" "[DataFrame 1 [7, 8] 5, DataFrame 3 [9] 0]" sampleHpack 0] show ?thesis
    by (simp add: sampleSession_def newSession_def credited_def received_def padding_def)
qed

text \<open>A stream whose channel is full while the reader hands it one more event.\<close>

definition floodedReader :: "unit reader_state" where
  "floodedReader = sampleReader\<lparr>rd_session := sampleSession (replicate 256 (EvData [1])), rd_handing := Some (1, EvData [1])\<rparr>"

theorem h2ws_session_progress_witness:
  "\<exists>r1. session_step sampleHpack sampleReader None r1"
  using h2ws_session_progress [of sampleReader sampleHpack] by (auto simp: sampleReader_def sampleSession_def newSession_def)

theorem h2ws_full_channel_stalls_witness:
  "\<exists>tr r. session_run sampleHpack floodedReader tr r \<and> waitingFor 1 r \<and> rd_frames r = rd_frames floodedReader \<and> h_streams (rd_session r) 3 = Some []"
proof -
  have w: "waitingFor 1 floodedReader" "h_streams (rd_session floodedReader) 3 = Some []"
    by (simp_all add: waitingFor_def floodedReader_def sampleSession_def newSession_def channelCapacity_def)
  from h2ws_full_channel_stalls [OF session_run.start [of sampleHpack floodedReader] w(1) _ w(2)] session_run.start [of sampleHpack floodedReader]
  show ?thesis by auto
qed

end
