(* ===== verification/H2ws_Stream.thy ===== *)
theory H2ws_Stream
  imports H2ws_Session Go_Sha256 Go_Float
begin

text \<open>
  One WebSocket stream of the multi-message scenario of
  \<^verbatim>\<open>executors/go-http2-websocket-executor/source/main.go\<close>: the opening with extended CONNECT, a group of
  messages, and the clean close. A wait in \<^verbatim>\<open>nextMultiplexedFrame\<close> is a select over the stream's channel, the end
  of the session and the context; which of them it takes is an argument, a list of outcomes in the order of the
  waits. The context has a deadline, so that a wait beyond the list ends with it.
\<close>

section \<open>Scenarios\<close>

definition textPayload :: string where "textPayload = ''protocol-lab''"
definition controlPayload :: string where "controlPayload = ''protocol-lab-ping''"
definition textHash :: string where "textHash = ''504585b0bb4fd77012ea2575efbcdb58f4c33e6b543e9567a65896d213720c29''"
definition binaryHash :: string where "binaryHash = ''9b6ce55f379e9771551de6939556a7e6b949814ae27c2f5cfd5dbeb378ce7c2a''"
definition controlHash :: string where "controlHash = ''4848de689e96825e0e05b6c3e96e48f2ad7ec7805fb64ecf824ccc6aa9c58883''"
definition serverName :: string where "serverName = ''websocket.plab.test''"
definition pathValue :: string where "pathValue = ''/websocket''"

record scenario =
  sc_ID :: string
  sc_Operation :: string
  sc_Opcode :: byte
  sc_ResponseOpcode :: byte
  sc_Payload :: bytes
  sc_PayloadHash :: string
  sc_MessageCount :: nat

definition emptyScenario :: scenario where
  "emptyScenario = \<lparr>sc_ID = '''', sc_Operation = '''', sc_Opcode = 0, sc_ResponseOpcode = 0, sc_Payload = [],
     sc_PayloadHash = '''', sc_MessageCount = 0\<rparr>"

definition multiMessageID :: string where "multiMessageID = ''http2.websocket.rfc8441.multi-message-text-echo''"

definition scenarios :: "scenario list" where
  "scenarios =
     [emptyScenario\<lparr>sc_ID := ''http2.websocket.rfc8441.extended-connect'', sc_Operation := ''extended-connect''\<rparr>,
      \<lparr>sc_ID = ''http2.websocket.rfc8441.control-frames'', sc_Operation = ''control-frames'', sc_Opcode = 0x9,
       sc_ResponseOpcode = 0xA, sc_Payload = of_string controlPayload, sc_PayloadHash = controlHash, sc_MessageCount = 1\<rparr>,
      \<lparr>sc_ID = ''http2.websocket.rfc8441.text-echo'', sc_Operation = ''text-echo'', sc_Opcode = 0x1,
       sc_ResponseOpcode = 0x1, sc_Payload = of_string textPayload, sc_PayloadHash = textHash, sc_MessageCount = 1\<rparr>,
      \<lparr>sc_ID = ''http2.websocket.rfc8441.binary-echo'', sc_Operation = ''binary-echo'', sc_Opcode = 0x2,
       sc_ResponseOpcode = 0x2, sc_Payload = replicate 1024 66, sc_PayloadHash = binaryHash, sc_MessageCount = 1\<rparr>,
      emptyScenario\<lparr>sc_ID := ''http2.websocket.rfc8441.close'', sc_Operation := ''close''\<rparr>,
      \<lparr>sc_ID = multiMessageID, sc_Operation = ''multi-message-text-echo'', sc_Opcode = 0x1,
       sc_ResponseOpcode = 0x1, sc_Payload = of_string textPayload, sc_PayloadHash = textHash, sc_MessageCount = 100\<rparr>]"

definition scenarioOf :: "string \<Rightarrow> scenario option" where
  "scenarioOf name = List.find (\<lambda>s. sc_ID s = name) scenarios"

section \<open>Proofs and summaries\<close>

text \<open>The fields of \<^verbatim>\<open>protocolProof\<close> that are not constants of the program.\<close>

record protocol_proof =
  p_TLSVersion :: u16
  p_ALPN :: string
  p_DidResume :: bool
  p_CertificateDERSHA256 :: string
  p_CertificateSPKISHA256 :: string
  p_SettingsEnableConnectProtocol :: u32
  p_ResponseStatus :: nat
  p_ResponseHeaders :: headers
  p_SecWebSocketAcceptPresent :: bool
  p_SubprotocolPresent :: bool
  p_ExtensionsPresent :: bool
  p_ClientMaskObserved :: bool
  p_MessageType :: string
  p_MessageBytes :: nat
  p_MessageCount :: nat
  p_PayloadSHA256 :: string
  p_StrictOrdering :: bool
  p_PingSent :: bool
  p_PongReceived :: bool
  p_CloseSent :: nat
  p_CloseReceived :: nat
  p_CleanCompletion :: bool
  p_ConnectionReused :: bool
  p_ConfiguredConcurrency :: nat
  p_EffectiveConcurrency :: nat

record frame_summary =
  fs_SettingsFrames :: int
  fs_HeadersFrames :: int
  fs_DataFrames :: int
  fs_WindowUpdateFrames :: int
  fs_ClientMessageFrames :: int
  fs_ServerMessageFrames :: int
  fs_ClientMaskKeys :: "string list"
  fs_ReceivedOrder :: "nat list"
  fs_StreamIDs :: "u32 list"
  fs_ClientMaskedFrames :: int
  fs_ServerMaskedFrames :: int
  fs_UniqueClientMaskKeys :: int
  fs_DuplicateClientMaskKeys :: int
  fs_StrictPerStreamOrdering :: bool

definition noFrames :: frame_summary where
  "noFrames = \<lparr>fs_SettingsFrames = 0, fs_HeadersFrames = 0, fs_DataFrames = 0, fs_WindowUpdateFrames = 0,
     fs_ClientMessageFrames = 0, fs_ServerMessageFrames = 0, fs_ClientMaskKeys = [], fs_ReceivedOrder = [],
     fs_StreamIDs = [], fs_ClientMaskedFrames = 0, fs_ServerMaskedFrames = 0, fs_UniqueClientMaskKeys = 0,
     fs_DuplicateClientMaskKeys = 0, fs_StrictPerStreamOrdering = False\<rparr>"

definition hash :: "bytes \<Rightarrow> string" where "hash v = sha256Hex v"

definition durationMS :: "int \<Rightarrow> rat" where "durationMS ns = fdiv (f64 (of_int ns)) (10 ^ 6)"

definition strictOrder :: "nat list \<Rightarrow> bool" where
  "strictOrder vs \<longleftrightarrow> length vs = 100 \<and> list_all (\<lambda>(i, v). v = i + 1) (enumerate 0 vs)"

definition maskKeyCounts :: "string list \<Rightarrow> int \<times> int" where
  "maskKeyCounts vs =
     (case fold (\<lambda>v (unique, duplicates). (insert v unique, if v \<in> unique then duplicates + 1 else duplicates)) vs ({}, 0) of
        (unique, duplicates) \<Rightarrow> (int (card unique), duplicates))"

section \<open>Opening a stream\<close>

definition deadlineExceeded :: go_error where "deadlineExceeded = NetError ''context deadline exceeded''"

datatype select_outcome = FromChannel stream_event | SessionDone "go_error option" | ContextDone go_error

fun nextMultiplexedFrame :: "select_outcome \<Rightarrow> stream_event go" where
  "nextMultiplexedFrame (FromChannel (EvErr e)) = Inl e"
| "nextMultiplexedFrame (FromChannel ev) = Inr ev"
| "nextMultiplexedFrame (SessionDone err) = Inl (case err of Some e \<Rightarrow> e | None \<Rightarrow> EOF)"
| "nextMultiplexedFrame (ContextDone e) = Inl e"

fun readMultiplexedResponseHeaders :: "select_outcome list \<Rightarrow> headers go \<times> select_outcome list" where
  "readMultiplexedResponseHeaders [] = (Inl deadlineExceeded, [])"
| "readMultiplexedResponseHeaders (x # xs) =
     (case nextMultiplexedFrame x of
        Inl e \<Rightarrow> (Inl e, xs)
      | Inr (EvHeaders hs) \<Rightarrow> (Inr hs, xs)
      | Inr _ \<Rightarrow> readMultiplexedResponseHeaders xs)"

definition headerValue :: "headers \<Rightarrow> string \<Rightarrow> string" where
  "headerValue hs n = (case hs n of None \<Rightarrow> '''' | Some v \<Rightarrow> v)"

definition requestFields :: "(string \<times> string) list" where
  "requestFields = [('':method'', ''CONNECT''), ('':protocol'', ''websocket''), ('':scheme'', ''https''),
     ('':authority'', serverName), ('':path'', pathValue), (''sec-websocket-version'', ''13'')]"

text \<open>The response as it enters the proof, and the headers that must not be there.\<close>

definition responseProof :: "headers \<Rightarrow> protocol_proof \<Rightarrow> protocol_proof" where
  "responseProof hs p =
     p\<lparr>p_ResponseHeaders := hs, p_ResponseStatus := 200,
       p_SecWebSocketAcceptPresent := (headerValue hs ''sec-websocket-accept'' \<noteq> ''''),
       p_SubprotocolPresent := (headerValue hs ''sec-websocket-protocol'' \<noteq> ''''),
       p_ExtensionsPresent := (headerValue hs ''sec-websocket-extensions'' \<noteq> '''')\<rparr>"

definition prohibitedHeader :: "headers \<Rightarrow> bool" where
  "prohibitedHeader hs \<longleftrightarrow> headerValue hs ''connection'' \<noteq> '''' \<or> headerValue hs ''upgrade'' \<noteq> '''' \<or>
     headerValue hs ''sec-websocket-accept'' \<noteq> '''' \<or> headerValue hs ''sec-websocket-protocol'' \<noteq> '''' \<or>
     headerValue hs ''sec-websocket-extensions'' \<noteq> ''''"

text \<open>A stream. \<open>m_sent\<close> is what it has written, which the session's connection carries.\<close>

record websocket =
  m_streamID :: u32
  m_pending :: bytes
  m_summary :: frame_summary
  m_maskKeys :: "string set"
  m_duplicateKeys :: int
  m_sent :: "bytes list"

definition newStream :: "u32 \<Rightarrow> websocket" where
  "newStream sid = \<lparr>m_streamID = sid, m_pending = [], m_summary = noFrames\<lparr>fs_StreamIDs := [sid], fs_StrictPerStreamOrdering := True\<rparr>,
     m_maskKeys = {}, m_duplicateKeys = 0, m_sent = []\<rparr>"

definition openWebSocket ::
  "'d hpack \<Rightarrow> u32 \<Rightarrow> protocol_proof \<Rightarrow> select_outcome list \<Rightarrow> 'd h2_session \<Rightarrow> (websocket \<times> protocol_proof) go \<times> 'd h2_session" where
  "openWebSocket hp sid baseProof waits s =
     (if h_streams s sid \<noteq> None then (Inl (Errorf (''duplicate HTTP/2 stream '' @ itoa (unat sid))), s)
      else (let s1 = s\<lparr>h_streams := (h_streams s)(sid \<mapsto> [])\<rparr> in
        case hp_encode hp requestFields of
          Inl e \<Rightarrow> (Inl e, s1)
        | Inr block \<Rightarrow>
            (case h2Write (WHeaders sid block) (h_writer s1) of
               (Some e, w) \<Rightarrow> (Inl e, s1\<lparr>h_writer := w\<rparr>)
             | (None, w) \<Rightarrow>
                 (let s2 = s1\<lparr>h_writer := w\<rparr> in
                  case fst (readMultiplexedResponseHeaders waits) of
                    Inl e \<Rightarrow> (Inl e, s2)
                  | Inr hs \<Rightarrow>
                      if headerValue hs '':status'' \<noteq> ''200''
                      then (Inl (Errorf (''stream '' @ itoa (unat sid) @ '' Extended CONNECT status '' @ quoted (headerValue hs '':status''))), s2)
                      else if prohibitedHeader hs
                      then (Inl (Errorf (''stream '' @ itoa (unat sid) @ '' prohibited response header present'')), s2)
                      else (Inr (newStream sid, responseProof hs baseProof), s2)))))"

section \<open>Messages\<close>

fun readWebSocketFrame :: "select_outcome list \<Rightarrow> websocket \<Rightarrow> ws_frame go \<times> websocket \<times> select_outcome list" where
  "readWebSocketFrame waits m =
     (case parseFrameConsumed (m_pending m) of
        Inl e \<Rightarrow> (Inl e, m, waits)
      | Inr (Some (f, n)) \<Rightarrow> (Inr f, m\<lparr>m_pending := drop n (m_pending m)\<rparr>, waits)
      | Inr None \<Rightarrow>
          (case waits of
             [] \<Rightarrow> (Inl deadlineExceeded, m, [])
           | x # xs \<Rightarrow>
               (case nextMultiplexedFrame x of
                  Inl e \<Rightarrow> (Inl e, m, xs)
                | Inr (EvData d) \<Rightarrow>
                    if d = [] then readWebSocketFrame xs m
                    else readWebSocketFrame xs (m\<lparr>m_summary := (m_summary m)\<lparr>fs_DataFrames := fs_DataFrames (m_summary m) + 1\<rparr>,
                      m_pending := m_pending m @ d\<rparr>)
                | Inr _ \<Rightarrow> readWebSocketFrame xs m)))"

declare readWebSocketFrame.simps [simp del]

lemmas read_step = readWebSocketFrame.simps [of "[]"] readWebSocketFrame.simps [of "x # xs" for x xs]

text \<open>The bookkeeping of a mask key.\<close>

definition noteKey :: "string \<Rightarrow> websocket \<Rightarrow> websocket" where
  "noteKey k m =
     m\<lparr>m_duplicateKeys := (if k \<in> m_maskKeys m then m_duplicateKeys m + 1 else m_duplicateKeys m),
       m_maskKeys := insert k (m_maskKeys m),
       m_summary := (m_summary m)\<lparr>fs_ClientMaskKeys := fs_ClientMaskKeys (m_summary m) @ [k],
         fs_ClientMaskedFrames := fs_ClientMaskedFrames (m_summary m) + 1\<rparr>\<rparr>"

text \<open>What the source of randomness, the write and the clock give for one message.\<close>

record message_env =
  me_key :: "bytes go"
  me_write :: "go_error option"
  me_nanos :: int

record group_result =
  g_MessageLatencies :: "rat list"
  g_TransferredBytes :: int
  g_MaskKeyHashes :: "string list"
  g_ReceivedOrder :: "nat list"

definition noGroup :: group_result where
  "noGroup = \<lparr>g_MessageLatencies = [], g_TransferredBytes = 0, g_MaskKeyHashes = [], g_ReceivedOrder = []\<rparr>"

definition countMessage :: "websocket \<Rightarrow> websocket" where
  "countMessage m = m\<lparr>m_summary := (m_summary m)\<lparr>fs_ClientMessageFrames := fs_ClientMessageFrames (m_summary m) + 1\<rparr>\<rparr>"

definition sameMessage :: "ws_frame \<Rightarrow> byte \<Rightarrow> bytes \<Rightarrow> bool" where
  "sameMessage f op p \<longleftrightarrow> \<not> f_Masked f \<and> f_Opcode f = op \<and> f_Payload f = p"

definition noteAnswer :: "ws_frame \<Rightarrow> websocket \<Rightarrow> websocket" where
  "noteAnswer f m = (if f_Masked f then m\<lparr>m_summary := (m_summary m)\<lparr>fs_ServerMaskedFrames := fs_ServerMaskedFrames (m_summary m) + 1\<rparr>\<rparr> else m)"

fun groupLoop ::
  "scenario \<Rightarrow> (nat \<Rightarrow> message_env) \<Rightarrow> nat list \<Rightarrow> select_outcome list \<Rightarrow> websocket \<Rightarrow> group_result \<Rightarrow>
   (group_result \<times> go_error option) \<times> websocket \<times> select_outcome list" where
  "groupLoop spec env [] waits m g = ((g, None), m, waits)"
| "groupLoop spec env (index # rest) waits m g =
     (case maskedFrame (me_key (env index)) (sc_Opcode spec) (sc_Payload spec) of
        Inl e \<Rightarrow> ((g, Some e), m, waits)
      | Inr (key, encoded) \<Rightarrow>
          (let m1 = countMessage (noteKey (hash key) m) in
           case me_write (env index) of
             Some e \<Rightarrow> ((g, Some e), m1, waits)
           | None \<Rightarrow>
               (case readWebSocketFrame waits (m1\<lparr>m_sent := m_sent m1 @ [encoded]\<rparr>) of
                  (Inl e, m2, ws) \<Rightarrow> ((g, Some e), m2, ws)
                | (Inr f, m2, ws) \<Rightarrow>
                    (let m3 = noteAnswer f m2 in
                     if \<not> sameMessage f (sc_ResponseOpcode spec) (sc_Payload spec)
                     then ((g, Some (Errorf (''stream '' @ itoa (unat (m_streamID m)) @ '' message '' @ itoa (index + 1) @ '' response mismatch''))), m3, ws)
                     else groupLoop spec env rest ws
                       (m3\<lparr>m_summary := (m_summary m3)\<lparr>fs_ServerMessageFrames := fs_ServerMessageFrames (m_summary m3) + 1\<rparr>\<rparr>)
                       \<lparr>g_MessageLatencies = g_MessageLatencies g @ [durationMS (me_nanos (env index))],
                        g_TransferredBytes = g_TransferredBytes g + int (length (sc_Payload spec) * 2),
                        g_MaskKeyHashes = g_MaskKeyHashes g @ [hash key],
                        g_ReceivedOrder = g_ReceivedOrder g @ [index + 1]\<rparr>))))"

definition runMessageGroup ::
  "scenario \<Rightarrow> (nat \<Rightarrow> message_env) \<Rightarrow> select_outcome list \<Rightarrow> websocket \<Rightarrow> (group_result \<times> go_error option) \<times> websocket \<times> select_outcome list" where
  "runMessageGroup spec env waits m =
     (case groupLoop spec env [0..<sc_MessageCount spec] waits m noGroup of
        ((g, Some e), m1, ws) \<Rightarrow> ((g, Some e), m1, ws)
      | ((g, None), m1, ws) \<Rightarrow>
          if \<not> strictOrder (g_ReceivedOrder g)
          then ((g, Some (Errorf (''stream '' @ itoa (unat (m_streamID m)) @ '' did not preserve strict 1..100 response order''))), m1, ws)
          else if fs_ReceivedOrder (m_summary m1) = []
          then ((g, None), m1\<lparr>m_summary := (m_summary m1)\<lparr>fs_ReceivedOrder := g_ReceivedOrder g\<rparr>\<rparr>, ws)
          else ((g, None), m1, ws))"

definition closePayload :: bytes where "closePayload = [0x03, 0xE8]"

definition closeStream ::
  "message_env \<Rightarrow> select_outcome list \<Rightarrow> websocket \<Rightarrow> rat go \<times> websocket" where
  "closeStream env waits m =
     (case maskedFrame (me_key env) 0x8 closePayload of
        Inl e \<Rightarrow> (Inl e, m)
      | Inr (key, encoded) \<Rightarrow>
          (let m1 = noteKey (hash key) m in
           case me_write env of
             Some e \<Rightarrow> (Inl e, m1)
           | None \<Rightarrow>
               (case readWebSocketFrame waits (m1\<lparr>m_sent := m_sent m1 @ [encoded]\<rparr>) of
                  (Inl e, m2, _) \<Rightarrow> (Inl e, m2)
                | (Inr f, m2, _) \<Rightarrow>
                    if \<not> sameMessage f 0x8 closePayload
                    then (Inl (Errorf (''stream '' @ itoa (unat (m_streamID m)) @ '' clean close mismatch'')), m2)
                    else (Inr (durationMS (me_nanos env)), m2))))"

section \<open>What arrives on a stream\<close>

fun dataOf :: "select_outcome \<Rightarrow> bytes" where
  "dataOf (FromChannel (EvData d)) = d" | "dataOf _ = []"

fun delivers :: "select_outcome \<Rightarrow> bool" where
  "delivers (FromChannel (EvErr _)) = False" | "delivers (FromChannel _) = True" | "delivers _ = False"

definition streamBytes :: "select_outcome list \<Rightarrow> bytes" where
  "streamBytes waits = concat (map dataOf waits)"

lemma streamBytes_simps [simp]:
  "streamBytes [] = []" "streamBytes (x # xs) = dataOf x @ streamBytes xs" "streamBytes (xs @ ys) = streamBytes xs @ streamBytes ys"
  by (simp_all add: streamBytes_def)

text \<open>Reading moves bytes from the waits into the buffer and counts DATA frames, nothing else.\<close>

definition unread :: "websocket \<Rightarrow> websocket" where
  "unread m = m\<lparr>m_pending := [], m_summary := (m_summary m)\<lparr>fs_DataFrames := 0\<rparr>\<rparr>"

lemma unread_simps [simp]:
  "unread (m\<lparr>m_pending := p\<rparr>) = unread m"
  "unread (m\<lparr>m_summary := (m_summary m)\<lparr>fs_DataFrames := k\<rparr>\<rparr>) = unread m"
  by (simp_all add: unread_def)

lemma unread_fields:
  assumes "unread m = unread m'"
  shows "m_streamID m = m_streamID m'" "m_sent m = m_sent m'" "m_maskKeys m = m_maskKeys m'" "m_duplicateKeys m = m_duplicateKeys m'"
    "fs_ClientMaskKeys (m_summary m) = fs_ClientMaskKeys (m_summary m')"
    "fs_ClientMessageFrames (m_summary m) = fs_ClientMessageFrames (m_summary m')"
    "fs_ServerMessageFrames (m_summary m) = fs_ServerMessageFrames (m_summary m')"
    "fs_ServerMaskedFrames (m_summary m) = fs_ServerMaskedFrames (m_summary m')"
  using arg_cong [OF assms, of m_streamID] arg_cong [OF assms, of m_sent] arg_cong [OF assms, of m_maskKeys] arg_cong [OF assms, of m_duplicateKeys]
    arg_cong [OF assms, of "\<lambda>m. fs_ClientMaskKeys (m_summary m)"] arg_cong [OF assms, of "\<lambda>m. fs_ClientMessageFrames (m_summary m)"]
    arg_cong [OF assms, of "\<lambda>m. fs_ServerMessageFrames (m_summary m)"] arg_cong [OF assms, of "\<lambda>m. fs_ServerMaskedFrames (m_summary m)"]
  by (simp_all add: unread_def)

text \<open>A whole frame at the front of what is buffered and what arrives is read, however it is cut into events,
  and the rest stays.\<close>

lemma read_frame:
  assumes "parseFrameConsumed enc = Inr (Some (f, length enc))" "m_pending m @ streamBytes waits = enc @ r" "list_all delivers waits"
  shows "\<exists>m' ws. readWebSocketFrame waits m = (Inr f, m', ws) \<and> m_pending m' @ streamBytes ws = r \<and>
    list_all delivers ws \<and> unread m' = unread m"
  using assms(2,3)
proof (induction waits arbitrary: m)
  case Nil
  then have "parseFrameConsumed (m_pending m) = Inr (Some (f, length enc))"
    using ws_parser.buffered [OF assms(1), of "m_pending m" "[]" r] by simp
  with Nil show ?case by (simp add: read_step)
next
  case (Cons x xs)
  have b: "parseFrameConsumed (m_pending m) = (if length (m_pending m) < length enc then Inr None else Inr (Some (f, length enc)))"
    using ws_parser.buffered [OF assms(1) Cons.prems(1)] .
  show ?case
  proof (cases "length (m_pending m) < length enc")
    case False
    then have "drop (length enc) (m_pending m) @ streamBytes (x # xs) = r"
      using arg_cong [OF Cons.prems(1), of "drop (length enc)"] by simp
    with False b Cons.prems(2) show ?thesis by (simp add: read_step)
  next
    case True
    obtain ev where x: "x = FromChannel ev" "delivers (FromChannel ev)" using Cons.prems(2) by (cases x) auto
    have xs: "list_all delivers xs" using Cons.prems(2) by simp
    show ?thesis
    proof (cases "\<exists>d. ev = EvData d \<and> d \<noteq> []")
      case True
      then obtain d where d: "ev = EvData d" "d \<noteq> []" by blast
      let ?m = "m\<lparr>m_summary := (m_summary m)\<lparr>fs_DataFrames := fs_DataFrames (m_summary m) + 1\<rparr>, m_pending := m_pending m @ d\<rparr>"
      have "readWebSocketFrame (x # xs) m = readWebSocketFrame xs ?m"
        using b \<open>length (m_pending m) < length enc\<close> x d by (simp add: read_step)
      moreover have "m_pending ?m @ streamBytes xs = enc @ r" using Cons.prems(1) x d by simp
      ultimately show ?thesis using Cons.IH [of ?m] xs by simp
    next
      case False
      with b \<open>length (m_pending m) < length enc\<close> x have "readWebSocketFrame (x # xs) m = readWebSocketFrame xs m"
        by (cases ev) (auto simp: read_step)
      moreover have "m_pending m @ streamBytes xs = enc @ r" using Cons.prems(1) x False by (cases ev) auto
      ultimately show ?thesis using Cons.IH [of m] xs by simp
    qed
  qed
qed

text \<open>A frame that was read is what stands in front of the bytes that were buffered or arrived.\<close>

lemma read_sound:
  assumes "readWebSocketFrame waits m = (Inr f, m', ws)"
  shows "\<exists>enc used. waits = used @ ws \<and> parseFrameConsumed enc = Inr (Some (f, length enc)) \<and>
    m_pending m @ streamBytes used = enc @ m_pending m' \<and> unread m' = unread m"
  using assms
proof (induction waits arbitrary: m)
  case Nil
  then obtain n where n: "parseFrameConsumed (m_pending m) = Inr (Some (f, n))" "m' = m\<lparr>m_pending := drop n (m_pending m)\<rparr>" "ws = []"
    by (auto simp: read_step split: sum.splits option.splits prod.splits)
  with ws_parser.exact [OF n(1)] ws_parser.consumed [OF n(1)] show ?case
    by (intro exI [of _ "take n (m_pending m)"] exI [of _ "[]"]) (simp add: min_def)
next
  case (Cons x xs)
  consider n where "parseFrameConsumed (m_pending m) = Inr (Some (f, n))" "m' = m\<lparr>m_pending := drop n (m_pending m)\<rparr>" "ws = x # xs"
    | d where "x = FromChannel (EvData d)" "d \<noteq> []"
        "readWebSocketFrame xs (m\<lparr>m_summary := (m_summary m)\<lparr>fs_DataFrames := fs_DataFrames (m_summary m) + 1\<rparr>,
          m_pending := m_pending m @ d\<rparr>) = (Inr f, m', ws)"
    | "dataOf x = []" "readWebSocketFrame xs m = (Inr f, m', ws)"
    using Cons.prems
    by (cases x rule: dataOf.cases) (auto simp: read_step split: sum.splits option.splits prod.splits if_splits)
  then show ?case
  proof cases
    case (1 n)
    with ws_parser.exact [OF 1(1)] ws_parser.consumed [OF 1(1)] show ?thesis
      by (intro exI [of _ "take n (m_pending m)"] exI [of _ "[]"]) (simp add: min_def)
  next
    case (2 d)
    from Cons.IH [OF 2(3)] obtain enc used where "xs = used @ ws" "parseFrameConsumed enc = Inr (Some (f, length enc))"
      "(m_pending m @ d) @ streamBytes used = enc @ m_pending m'" "unread m' = unread m" by auto
    with 2 show ?thesis by (intro exI [of _ enc] exI [of _ "x # used"]) simp
  next
    case 3
    from Cons.IH [OF 3(2)] obtain enc used where "xs = used @ ws" "parseFrameConsumed enc = Inr (Some (f, length enc))"
      "m_pending m @ streamBytes used = enc @ m_pending m'" "unread m' = unread m" by auto
    with 3 show ?thesis by (intro exI [of _ enc] exI [of _ "x # used"]) simp
  qed
qed

section \<open>Groups of messages\<close>

text \<open>An environment in which the source of randomness and the writes work, and the frames that are then sent.\<close>

definition envWorks :: "(nat \<Rightarrow> message_env) \<Rightarrow> nat list \<Rightarrow> bool" where
  "envWorks env idx \<longleftrightarrow> list_all (\<lambda>i. \<not> isl (me_key (env i)) \<and> me_write (env i) = None) idx"

definition sentFrame :: "scenario \<Rightarrow> message_env \<Rightarrow> bytes" where
  "sentFrame spec e = snd (projr (maskedFrame (me_key e) (sc_Opcode spec) (sc_Payload spec)))"

definition answer :: "byte \<Rightarrow> bytes \<Rightarrow> ws_frame" where
  "answer op p = \<lparr>f_Opcode = op, f_Masked = False, f_Payload = p\<rparr>"

lemma sameMessage_answer: "sameMessage f op p \<longleftrightarrow> f = answer op p"
  by (cases f) (auto simp: sameMessage_def answer_def)

lemma noteAnswer_answer [simp]: "noteAnswer (answer op p) m = m"
  by (simp add: noteAnswer_def answer_def)

lemma noted_fields [simp]:
  "m_pending (countMessage (noteKey k m)) = m_pending m" "m_sent (countMessage (noteKey k m)) = m_sent m"
  "m_streamID (countMessage (noteKey k m)) = m_streamID m"
  "fs_ServerMessageFrames (m_summary (countMessage (noteKey k m))) = fs_ServerMessageFrames (m_summary m)"
  "fs_ServerMaskedFrames (m_summary (countMessage (noteKey k m))) = fs_ServerMaskedFrames (m_summary m)"
  by (simp_all add: countMessage_def noteKey_def)

lemma groupLoop_completes:
  assumes "okFrame (sc_ResponseOpcode spec, sc_Payload spec)" "envWorks env idx" "list_all delivers waits"
    and "m_pending m @ streamBytes waits = concat (replicate (length idx) (plainFrame (sc_ResponseOpcode spec, sc_Payload spec))) @ r"
  shows "\<exists>g' m' ws. groupLoop spec env idx waits m g = ((g', None), m', ws) \<and>
    g_TransferredBytes g' = g_TransferredBytes g + int (length idx * (length (sc_Payload spec) * 2)) \<and>
    length (g_MessageLatencies g') = length (g_MessageLatencies g) + length idx \<and>
    m_sent m' = m_sent m @ map (\<lambda>i. sentFrame spec (env i)) idx \<and> m_pending m' @ streamBytes ws = r \<and> list_all delivers ws \<and>
    fs_ServerMaskedFrames (m_summary m') = fs_ServerMaskedFrames (m_summary m) \<and> m_streamID m' = m_streamID m"
  using assms(2-4)
proof (induction idx arbitrary: waits m g)
  case Nil
  then show ?case by simp
next
  case (Cons i idx)
  let ?f = "answer (sc_ResponseOpcode spec) (sc_Payload spec)"
  obtain key encoded where e: "maskedFrame (me_key (env i)) (sc_Opcode spec) (sc_Payload spec) = Inr (key, encoded)"
      "me_write (env i) = None" "sentFrame spec (env i) = encoded"
    using Cons.prems(1) by (cases "me_key (env i)") (auto simp: envWorks_def maskedFrame_def sentFrame_def)
  define m1 where "m1 = (countMessage (noteKey (hash key) m))\<lparr>m_sent := m_sent m @ [encoded]\<rparr>"
  have "m_pending m1 @ streamBytes waits = plainFrame (sc_ResponseOpcode spec, sc_Payload spec) @
      concat (replicate (length idx) (plainFrame (sc_ResponseOpcode spec, sc_Payload spec))) @ r"
    using Cons.prems(3) by (simp add: m1_def)
  from read_frame [OF parse_plainFrame [OF assms(1)] this Cons.prems(2)] obtain m2 ws where
    m2: "readWebSocketFrame waits m1 = (Inr ?f, m2, ws)" "list_all delivers ws" "unread m2 = unread m1"
      "m_pending m2 @ streamBytes ws = concat (replicate (length idx) (plainFrame (sc_ResponseOpcode spec, sc_Payload spec))) @ r"
    by (auto simp: answer_def)
  let ?m3 = "m2\<lparr>m_summary := (m_summary m2)\<lparr>fs_ServerMessageFrames := fs_ServerMessageFrames (m_summary m2) + 1\<rparr>\<rparr>"
  have w: "envWorks env idx" "m_pending ?m3 @ streamBytes ws = concat (replicate (length idx) (plainFrame (sc_ResponseOpcode spec, sc_Payload spec))) @ r"
    using Cons.prems(1) m2(4) by (simp_all add: envWorks_def)
  show ?case
    using Cons.IH [OF w(1) m2(2) w(2), of "\<lparr>g_MessageLatencies = g_MessageLatencies g @ [durationMS (me_nanos (env i))],
        g_TransferredBytes = g_TransferredBytes g + int (length (sc_Payload spec) * 2),
        g_MaskKeyHashes = g_MaskKeyHashes g @ [hash key], g_ReceivedOrder = g_ReceivedOrder g @ [i + 1]\<rparr>"]
      e m2(1) unread_fields [OF m2(3)]
    by (auto simp: m1_def sameMessage_answer algebra_simps)
qed

text \<open>The order that a group reports is the order in which the loop counted, whatever the server sent.\<close>

lemma groupLoop_order:
  "groupLoop spec env idx waits m g = ((g', None), m', ws) \<Longrightarrow>
   g_ReceivedOrder g' = g_ReceivedOrder g @ map Suc idx \<and>
   g_TransferredBytes g' = g_TransferredBytes g + int (length idx * (length (sc_Payload spec) * 2)) \<and>
   length (g_MessageLatencies g') = length (g_MessageLatencies g) + length idx"
proof (induction idx arbitrary: waits m g)
  case (Cons i idx)
  then obtain w1 m1 g1 where "groupLoop spec env idx w1 m1 g1 = ((g', None), m', ws)"
      "g_ReceivedOrder g1 = g_ReceivedOrder g @ [Suc i]" "length (g_MessageLatencies g1) = Suc (length (g_MessageLatencies g))"
      "g_TransferredBytes g1 = g_TransferredBytes g + int (length (sc_Payload spec) * 2)"
    by (auto simp: Let_def split: sum.splits prod.splits option.splits if_splits)
  with Cons.IH [of w1 m1 g1] show ?case by (auto simp: algebra_simps)
qed simp

lemma groupLoop_sound:
  assumes "groupLoop spec env idx waits m g = ((g', None), m', ws)"
  shows "\<exists>encs used. waits = used @ ws \<and> length encs = length idx \<and> m_pending m @ streamBytes used = concat encs @ m_pending m' \<and>
    list_all (\<lambda>enc. parseFrameConsumed enc = Inr (Some (answer (sc_ResponseOpcode spec) (sc_Payload spec), length enc))) encs"
  using assms
proof (induction idx arbitrary: waits m g)
  case Nil
  then show ?case by (intro exI [of _ "[]"]) simp
next
  case (Cons i idx)
  then obtain f m1 m2 w1 m3 g1 where r: "readWebSocketFrame waits m1 = (Inr f, m2, w1)" "m_pending m1 = m_pending m"
      "f = answer (sc_ResponseOpcode spec) (sc_Payload spec)" "groupLoop spec env idx w1 m3 g1 = ((g', None), m', ws)" "m_pending m3 = m_pending m2"
    by (auto simp: Let_def sameMessage_answer split: sum.splits prod.splits option.splits if_splits)
  from read_sound [OF r(1)] obtain enc used1 where a: "waits = used1 @ w1" "parseFrameConsumed enc = Inr (Some (f, length enc))"
      "m_pending m @ streamBytes used1 = enc @ m_pending m2" using r(2) by auto
  from Cons.IH [OF r(4)] obtain encs used where b: "w1 = used @ ws" "length encs = length idx"
      "m_pending m2 @ streamBytes used = concat encs @ m_pending m'"
      "list_all (\<lambda>enc. parseFrameConsumed enc = Inr (Some (answer (sc_ResponseOpcode spec) (sc_Payload spec), length enc))) encs"
    using r(5) by auto
  have "m_pending m @ streamBytes (used1 @ used) = concat (enc # encs) @ m_pending m'"
    using a(3) b(3) by (metis append.assoc concat.simps(2) streamBytes_simps(3))
  with a b r(3) show ?case by (intro exI [of _ "enc # encs"] exI [of _ "used1 @ used"]) simp
qed

lemma strictOrder_iff: "strictOrder vs \<longleftrightarrow> vs = map Suc [0..<100]"
proof
  assume s: "strictOrder vs"
  then have "vs ! i = Suc i" if "i < 100" for i
    using that by (auto simp: strictOrder_def list_all_length nth_enumerate_eq)
  with s show "vs = map Suc [0..<100]" by (intro nth_equalityI) (simp_all add: strictOrder_def)
qed (simp add: strictOrder_def list_all_length nth_enumerate_eq)

lemma multi_group:
  assumes "scenarioOf multiMessageID = Some spec" "envWorks env [0..<100]" "list_all delivers waits"
    and "m_pending m @ streamBytes waits = concat (replicate 100 (plainFrame (1, of_string textPayload))) @ r"
  shows "\<exists>g m' ws. runMessageGroup spec env waits m = ((g, None), m', ws) \<and> g_ReceivedOrder g = [1..<101] \<and>
    g_TransferredBytes g = 2400 \<and> length (g_MessageLatencies g) = 100 \<and>
    m_sent m' = m_sent m @ map (\<lambda>i. sentFrame spec (env i)) [0..<100] \<and> m_pending m' @ streamBytes ws = r \<and>
    fs_ServerMaskedFrames (m_summary m') = fs_ServerMaskedFrames (m_summary m) \<and> m_streamID m' = m_streamID m"
proof -
  have spec: "sc_MessageCount spec = 100" "sc_ResponseOpcode spec = 1" "sc_Payload spec = of_string textPayload"
    using assms(1) by (auto simp: scenarioOf_def scenarios_def emptyScenario_def multiMessageID_def)
  have f: "okFrame (sc_ResponseOpcode spec, sc_Payload spec)" by (simp add: spec okFrame_def textPayload_def)
  have s: "m_pending m @ streamBytes waits = concat (replicate (length [0..<100]) (plainFrame (sc_ResponseOpcode spec, sc_Payload spec))) @ r"
    using assms(4) by (simp add: spec)
  from groupLoop_completes [OF f assms(2,3) s, of noGroup] obtain g m' ws where
    g: "groupLoop spec env [0..<100] waits m noGroup = ((g, None), m', ws)" "m_sent m' = m_sent m @ map (\<lambda>i. sentFrame spec (env i)) [0..<100]"
      "m_pending m' @ streamBytes ws = r" "fs_ServerMaskedFrames (m_summary m') = fs_ServerMaskedFrames (m_summary m)"
      "m_streamID m' = m_streamID m" by auto
  from groupLoop_order [OF g(1)] have o1: "g_ReceivedOrder g = map Suc [0..<100]" "g_TransferredBytes g = 2400" "length (g_MessageLatencies g) = 100"
    by (simp_all add: noGroup_def spec textPayload_def)
  then have "strictOrder (g_ReceivedOrder g)" by (simp add: strictOrder_iff)
  moreover have "map Suc [0..<100] = [1..<101]" by (simp add: map_Suc_upt)
  ultimately show ?thesis using g o1 by (simp add: runMessageGroup_def spec)
qed

text \<open>A group of the multi-message scenario completes when the server echoes its messages, however the answers are cut into DATA
  frames and whatever else the stream gets between them: one hundred answers in the order sent, every byte
  counted in both directions, and the bytes behind the last answer kept for the next group.\<close>

theorem h2ws_group_completes:
  assumes "scenarioOf multiMessageID = Some spec" "envWorks env [0..<100]" "list_all delivers waits"
    and "m_pending m @ streamBytes waits = concat (replicate 100 (plainFrame (1, of_string textPayload))) @ r"
  shows "\<exists>g m' ws. runMessageGroup spec env waits m = ((g, None), m', ws) \<and> g_ReceivedOrder g = [1..<101] \<and>
    g_TransferredBytes g = 2400 \<and> length (g_MessageLatencies g) = 100 \<and>
    m_sent m' = m_sent m @ map (\<lambda>i. sentFrame spec (env i)) [0..<100] \<and> m_pending m' @ streamBytes ws = r"
  using multi_group [OF assms] by blast

text \<open>A group that reports success read exactly one hundred frames from the bytes of its stream, each of them unmasked with
  the expected opcode and payload, and nothing between them; what follows stays buffered.\<close>

theorem h2ws_group_sound:
  assumes "runMessageGroup spec env waits m = ((g, None), m', ws)"
  shows "\<exists>encs used. waits = used @ ws \<and> length encs = 100 \<and> sc_MessageCount spec = 100 \<and>
    m_pending m @ streamBytes used = concat encs @ m_pending m' \<and> length (g_MessageLatencies g) = 100 \<and>
    list_all (\<lambda>enc. parseFrameConsumed enc = Inr (Some (answer (sc_ResponseOpcode spec) (sc_Payload spec), length enc))) encs"
proof -
  from assms obtain m1 where l: "groupLoop spec env [0..<sc_MessageCount spec] waits m noGroup = ((g, None), m1, ws)"
      "strictOrder (g_ReceivedOrder g)" "m_pending m' = m_pending m1"
    by (auto simp: runMessageGroup_def split: prod.splits option.splits if_splits)
  from groupLoop_order [OF l(1)] l(2) have "map Suc [0..<sc_MessageCount spec] = map Suc [0..<100]"
    by (simp add: noGroup_def strictOrder_iff)
  from arg_cong [OF this, of length] have c: "sc_MessageCount spec = 100" by simp
  with groupLoop_order [OF l(1)] groupLoop_sound [OF l(1)] l(3) show ?thesis by (simp add: noGroup_def)
qed

section \<open>Mask keys\<close>

lemma keyCounts:
  "fold (\<lambda>v (unique, duplicates). (insert v unique, if v \<in> unique then duplicates + 1 else duplicates)) vs (u, d) =
     (u \<union> set vs, d + int (length vs) - int (card (set vs - u)))"
proof (induction vs arbitrary: u d)
  case (Cons v vs)
  show ?case
  proof (cases "v \<in> u")
    case True
    then have "set (v # vs) - u = set vs - insert v u" by auto
    with True Cons show ?thesis by (simp add: insert_absorb)
  next
    case False
    then have "set (v # vs) - u = insert v (set vs - insert v u)" by auto
    with False Cons show ?thesis by simp
  qed
qed simp

lemma maskKeyCounts_eq: "maskKeyCounts vs = (int (card (set vs)), int (length vs) - int (card (set vs)))"
  by (simp add: maskKeyCounts_def keyCounts)

section \<open>Evaluation\<close>

definition sampleMessage :: "nat \<Rightarrow> message_env" where
  "sampleMessage i = \<lparr>me_key = Inr [1, 2, 3, 4], me_write = None, me_nanos = 1000\<rparr>"

text \<open>One hundred answers that arrive in two pieces, the first of which ends inside a frame.\<close>

definition sampleAnswers :: bytes where
  "sampleAnswers = concat (replicate 100 (plainFrame (1, of_string textPayload)))"

definition sampleWaits :: "select_outcome list" where
  "sampleWaits = [FromChannel (EvData (take 19 sampleAnswers)), FromChannel (EvData []), FromChannel (EvData (drop 19 sampleAnswers))]"

lemma sample_group:
  "scenarioOf multiMessageID = Some (scenarios ! 5)" "envWorks sampleMessage [0..<100]" "list_all delivers sampleWaits"
  "m_pending (newStream 1) @ streamBytes sampleWaits = concat (replicate 100 (plainFrame (1, of_string textPayload))) @ []"
  by (simp_all add: scenarioOf_def scenarios_def emptyScenario_def multiMessageID_def envWorks_def sampleMessage_def
    sampleWaits_def newStream_def list_all_iff) (simp add: sampleAnswers_def)

theorem h2ws_group_completes_witness:
  "\<exists>g m' ws. runMessageGroup (scenarios ! 5) sampleMessage sampleWaits (newStream 1) = ((g, None), m', ws) \<and> g_TransferredBytes g = 2400"
  using h2ws_group_completes [OF sample_group] by blast

theorem h2ws_group_sound_witness:
  "\<exists>encs. length encs = 100 \<and> list_all (\<lambda>enc. parseFrameConsumed enc = Inr (Some (answer 1 (of_string textPayload), length enc))) (encs :: bytes list)"
proof -
  from multi_group [OF sample_group] obtain g m' ws where
    "runMessageGroup (scenarios ! 5) sampleMessage sampleWaits (newStream 1) = ((g, None), m', ws)" by blast
  from h2ws_group_sound [OF this] show ?thesis by (auto simp: scenarios_def)
qed

end
