(* ===== verification/H2ws_Peak.thy ===== *)
theory H2ws_Peak
  imports Go_Base
begin

text \<open>
  The measured concurrency of \<^verbatim>\<open>runConcurrentMessagePhase\<close> in
  \<^verbatim>\<open>executors/go-http2-websocket-executor/source/main.go\<close>: every worker counts itself in the atomic \<^verbatim>\<open>active\<close>,
  raises the atomic \<^verbatim>\<open>peak\<close> in a loop around \<^verbatim>\<open>CompareAndSwap\<close>, works, and leaves. A worker's next atomic
  action is determined by its position, so that an execution is a schedule: the list of the workers in the
  order in which they act.
\<close>

datatype position =
    Waiting          \<comment> \<open>at the start channel\<close>
  | Counted nat      \<comment> \<open>before the load of peak, with its own \<^verbatim>\<open>current\<close>\<close>
  | Loaded nat nat   \<comment> \<open>with \<^verbatim>\<open>current\<close> and \<^verbatim>\<open>observed\<close>\<close>
  | Running          \<comment> \<open>at its message groups\<close>
  | Finished

record phase_counters =
  pc_active :: nat
  pc_peak :: nat
  pc_workers :: "position list"

definition startPhase :: "nat \<Rightarrow> phase_counters" where
  "startPhase n = \<lparr>pc_active = 0, pc_peak = 0, pc_workers = replicate n Waiting\<rparr>"

definition stepWorker :: "nat \<Rightarrow> phase_counters \<Rightarrow> phase_counters" where
  "stepWorker i s =
     (if length (pc_workers s) \<le> i then s
      else (case pc_workers s ! i of
          Waiting \<Rightarrow> s\<lparr>pc_active := pc_active s + 1, pc_workers := (pc_workers s)[i := Counted (pc_active s + 1)]\<rparr>
        | Counted current \<Rightarrow> s\<lparr>pc_workers := (pc_workers s)[i := Loaded current (pc_peak s)]\<rparr>
        | Loaded current observed \<Rightarrow>
            if current \<le> observed then s\<lparr>pc_workers := (pc_workers s)[i := Running]\<rparr>
            else if pc_peak s = observed then s\<lparr>pc_peak := current, pc_workers := (pc_workers s)[i := Running]\<rparr>
            else s\<lparr>pc_workers := (pc_workers s)[i := Counted current]\<rparr>
        | Running \<Rightarrow> s\<lparr>pc_active := pc_active s - 1, pc_workers := (pc_workers s)[i := Finished]\<rparr>
        | Finished \<Rightarrow> s))"

definition runSchedule :: "nat \<Rightarrow> nat list \<Rightarrow> phase_counters" where
  "runSchedule n schedule = fold stepWorker schedule (startPhase n)"

text \<open>The greatest number of workers between their entry and their exit at any moment of an execution.\<close>

fun highest :: "phase_counters \<Rightarrow> nat list \<Rightarrow> nat" where
  "highest s [] = pc_active s"
| "highest s (i # schedule) = max (pc_active s) (highest (stepWorker i s) schedule)"

fun inside :: "position \<Rightarrow> bool" where
  "inside Waiting = False" | "inside Finished = False" | "inside _ = True"

fun pastSwap :: "position \<Rightarrow> bool" where
  "pastSwap Running = True" | "pastSwap Finished = True" | "pastSwap _ = False"

fun claims :: "nat \<Rightarrow> position \<Rightarrow> bool" where
  "claims m (Counted c) = (c = m)" | "claims m (Loaded c _) = (c = m)" | "claims m _ = False"

fun below :: "nat \<Rightarrow> nat \<Rightarrow> position \<Rightarrow> bool" where
  "below peak most (Counted c) = (c \<le> most)" | "below peak most (Loaded c seen) = (c \<le> most \<and> seen \<le> peak)"
| "below peak most _ = True"

text \<open>The invariant, with the greatest number so far: it is the peak already, or a worker still has to claim it.\<close>

definition tracks :: "nat \<Rightarrow> phase_counters \<Rightarrow> bool" where
  "tracks most s \<longleftrightarrow>
     pc_active s = length (filter inside (pc_workers s)) \<and> pc_active s \<le> most \<and> pc_peak s \<le> most \<and>
     list_all (below (pc_peak s) most) (pc_workers s) \<and> (pc_peak s = most \<or> list_ex (claims most) (pc_workers s))"

lemma count_update:
  "i < length xs \<Longrightarrow> length (filter P (xs[i := x])) + (if P (xs ! i) then 1 else 0) = length (filter P xs) + (if P x then 1 else 0)"
proof (induction xs arbitrary: i)
  case (Cons y ys)
  then show ?case by (cases i) auto
qed simp

lemma below_mono: "below p t x \<Longrightarrow> p \<le> p' \<Longrightarrow> t \<le> t' \<Longrightarrow> below p' t' x"
  by (cases x) auto

lemma tracks_max: "tracks most s \<Longrightarrow> max most (pc_active s) = most"
  by (simp add: tracks_def)

text \<open>A worker that moves without entering keeps the invariant when its claim is kept or settled.\<close>

lemma tracks_update:
  assumes "tracks most s" "i < length (pc_workers s)" "pc_peak s \<le> p" "p \<le> most" "below p most x"
    and "inside (pc_workers s ! i)" "a = pc_active s - (if inside x then 0 else 1)"
    and "p = most \<or> (claims most (pc_workers s ! i) \<longrightarrow> claims most x)"
  shows "tracks most (s\<lparr>pc_active := a, pc_peak := p, pc_workers := (pc_workers s)[i := x]\<rparr>)"
proof -
  have "a = length (filter inside ((pc_workers s)[i := x]))"
    using assms(1,6,7) count_update [OF assms(2), of inside x] by (auto simp: tracks_def split: if_splits)
  moreover have "list_all (below p most) ((pc_workers s)[i := x])"
    using assms(1,2,3,5) by (auto simp: tracks_def list_all_length nth_list_update intro: below_mono)
  moreover have "p = most \<or> list_ex (claims most) ((pc_workers s)[i := x])"
  proof (cases "p = most")
    case False
    with assms(1,3,4) obtain j where "j < length (pc_workers s)" "claims most (pc_workers s ! j)"
      by (auto simp: tracks_def list_ex_length)
    with False assms(2,8) show ?thesis by (cases "i = j") (auto simp: list_ex_length intro: exI [of _ j])
  qed simp
  ultimately show ?thesis using assms(1,4,7) by (simp add: tracks_def split: if_splits)
qed

lemma tracks_step:
  assumes "tracks most s"
  shows "tracks (max most (pc_active (stepWorker i s))) (stepWorker i s)"
proof (cases "length (pc_workers s) \<le> i")
  case True
  with assms show ?thesis by (simp add: stepWorker_def tracks_max)
next
  case False
  then have i: "i < length (pc_workers s)" by simp
  let ?ws = "pc_workers s"
  have act: "pc_active s = length (filter inside ?ws)" "pc_active s \<le> most" "pc_peak s \<le> most"
    and all: "\<And>j. j < length ?ws \<Longrightarrow> below (pc_peak s) most (?ws ! j)"
    and claim: "pc_peak s = most \<or> (\<exists>j < length ?ws. claims most (?ws ! j))"
    using assms by (auto simp: tracks_def list_all_length list_ex_length)
  show ?thesis
  proof (cases "?ws ! i")
    case Waiting
    have b: "below (pc_peak s) (max most (Suc (pc_active s))) (?ws ! j)" if "j < length ?ws" for j
      using all [OF that] by (rule below_mono) auto
    let ?new = "?ws[i := Counted (Suc (pc_active s))]"
    have "pc_peak s = max most (Suc (pc_active s)) \<or> (\<exists>j < length ?new. claims (max most (Suc (pc_active s))) (?new ! j))"
    proof (cases "most \<le> Suc (pc_active s)")
      case True
      then have "claims (max most (Suc (pc_active s))) (?new ! i)" using i by (simp add: max_def)
      with i show ?thesis by auto
    next
      case False
      then have m: "max most (Suc (pc_active s)) = most" by simp
      have "?new ! j = ?ws ! j" if "claims most (?ws ! j)" for j
        using that Waiting by (cases "i = j") auto
      with claim show ?thesis unfolding m by (metis length_list_update)
    qed
    moreover have "list_all (below (pc_peak s) (max most (Suc (pc_active s)))) ?new"
      using b i by (auto simp: list_all_length) (metis below.simps(1) max.cobounded2 nth_list_update_eq nth_list_update_neq)
    ultimately show ?thesis using Waiting i act count_update [OF i, of inside "Counted (Suc (pc_active s))"]
      by (simp add: stepWorker_def tracks_def list_ex_length)
  next
    case (Counted c)
    with all [OF i] tracks_update [OF assms i, of "pc_peak s" "Loaded c (pc_peak s)" "pc_active s"] act(2,3) i
    show ?thesis by (simp add: stepWorker_def max_def)
  next
    case (Loaded c seen)
    with all [OF i] have cs: "c \<le> most" "seen \<le> pc_peak s" by simp_all
    note upd = tracks_update [OF assms i, of _ _ "pc_active s"]
    have m: "max most (pc_active s) = most" using assms by (rule tracks_max)
    consider "c \<le> seen" | "seen < c" "pc_peak s = seen" | "seen < c" "pc_peak s \<noteq> seen" by linarith
    then show ?thesis
    proof cases
      case 1
      with Loaded cs act(3) have "pc_peak s = most \<or> c \<noteq> most" by auto
      with upd [of "pc_peak s" Running] Loaded act(3) 1 i m show ?thesis by (simp add: stepWorker_def)
    next
      case 2
      with upd [of c Running] Loaded cs i m show ?thesis by (simp add: stepWorker_def)
    next
      case 3
      with upd [of "pc_peak s" "Counted c"] Loaded cs act(3) i m show ?thesis by (simp add: stepWorker_def)
    qed
  next
    case Running
    have "max most (pc_active s - 1) = most" using act(2) by simp
    with tracks_update [OF assms i, of "pc_peak s" Finished "pc_active s - 1"] Running act(3) i
    show ?thesis by (simp add: stepWorker_def)
  next
    case Finished
    with i assms show ?thesis by (simp add: stepWorker_def tracks_max)
  qed
qed

lemma tracks_run: "tracks most s \<Longrightarrow> tracks (max most (highest s schedule)) (fold stepWorker schedule s)"
proof (induction schedule arbitrary: most s)
  case Nil
  then show ?case by (simp add: tracks_max)
next
  case (Cons i schedule)
  from Cons.IH [OF tracks_step [OF Cons.prems]] Cons.prems
  have "tracks (max (max most (pc_active (stepWorker i s))) (highest (stepWorker i s) schedule)) (fold stepWorker (i # schedule) s)" by simp
  moreover have "pc_active s \<le> most" using Cons.prems by (simp add: tracks_def)
  moreover have "pc_active (stepWorker i s) \<le> highest (stepWorker i s) schedule" by (cases schedule) auto
  ultimately show ?case by (cases "most = pc_active s") (auto simp: max_def split: if_splits)
qed

lemma startPhase_tracks: "tracks 0 (startPhase n)"
  by (simp add: tracks_def startPhase_def list_all_length)

lemma length_stepWorker [simp]: "length (pc_workers (stepWorker i s)) = length (pc_workers s)"
  by (simp add: stepWorker_def split: position.split)

lemma length_run [simp]: "length (pc_workers (fold stepWorker schedule s)) = length (pc_workers s)"
  by (induction schedule arbitrary: s) simp_all

lemma active_bound: "tracks most s \<Longrightarrow> pc_active s \<le> length (pc_workers s)"
  by (simp add: tracks_def)

lemma highest_bound: "tracks most s \<Longrightarrow> highest s schedule \<le> length (pc_workers s)"
proof (induction schedule arbitrary: s most)
  case Nil
  then show ?case by (simp add: active_bound)
next
  case (Cons i schedule)
  from Cons.IH [OF tracks_step [OF Cons.prems, of i]] active_bound [OF Cons.prems] show ?case by simp
qed

text \<open>C37: However the workers of a phase are scheduled, once all of them have left the compare-and-swap loop the reported
  peak is exactly the greatest number of workers that were inside at the same time, and at most their number.\<close>

theorem h2ws_peak_exact:
  assumes "list_all pastSwap (pc_workers (runSchedule n schedule))"
  shows "pc_peak (runSchedule n schedule) = highest (startPhase n) schedule \<and> pc_peak (runSchedule n schedule) \<le> n"
proof -
  have t: "tracks (highest (startPhase n) schedule) (runSchedule n schedule)"
    using tracks_run [OF startPhase_tracks, of n schedule] by (simp add: runSchedule_def)
  have "\<not> claims m x" if "pastSwap x" for m x using that by (cases x) auto
  with assms have "\<not> list_ex (claims m) (pc_workers (runSchedule n schedule))" for m
    by (auto simp: list_ex_iff list_all_iff)
  with t have "pc_peak (runSchedule n schedule) = highest (startPhase n) schedule" by (simp add: tracks_def)
  with highest_bound [OF startPhase_tracks, of n schedule] show ?thesis by (simp add: startPhase_def)
qed

theorem h2ws_peak_exact_witness:
  "pc_peak (runSchedule 2 [0, 1, 0, 0, 1, 1, 0, 1]) = 2 \<and> highest (startPhase 2) [0, 1, 0, 0, 1, 1, 0, 1] = 2"
proof -
  have "list_all pastSwap (pc_workers (runSchedule 2 [0, 1, 0, 0, 1, 1, 0, 1]))" "pc_peak (runSchedule 2 [0, 1, 0, 0, 1, 1, 0, 1]) = 2"
    by (simp_all add: runSchedule_def startPhase_def stepWorker_def eval_nat_numeral)
  with h2ws_peak_exact [of 2 "[0, 1, 0, 0, 1, 1, 0, 1]"] show ?thesis by metis
qed

text \<open>The workers one after the other, and all of them entering before the first leaves.\<close>

definition oneByOne :: "nat \<Rightarrow> nat list" where
  "oneByOne n = concat (map (\<lambda>i. replicate 4 i) [0..<n])"

definition together :: "nat \<Rightarrow> nat list" where
  "together n = [0..<n] @ concat (map (\<lambda>i. replicate 2 i) [0..<n]) @ [0..<n]"

lemma schedules_of_eight:
  "pc_workers (runSchedule 8 (oneByOne 8)) = replicate 8 Finished" "pc_peak (runSchedule 8 (oneByOne 8)) = 1"
  "pc_workers (runSchedule 8 (together 8)) = replicate 8 Finished" "pc_peak (runSchedule 8 (together 8)) = 8"
  by (simp_all add: runSchedule_def startPhase_def stepWorker_def oneByOne_def together_def upt_rec eval_nat_numeral)

end
