(* ===== verification/H2ws_Executor.thy ===== *)
theory H2ws_Executor
  imports H2ws_Stream H2ws_Peak
begin

text \<open>
  The executor of \<^verbatim>\<open>executors/go-http2-websocket-executor/source/main.go\<close> around its streams: an operation on a
  connection of its own, the phases that repeat it, the multi-message diagnostic with eight streams on one
  connection, metrics and the command. Dialling, TLS, HPACK, the frames that arrive and the clock are
  arguments. A connection's end is \<open>None\<close> when the peer stays silent without closing: no read deadline
  is set, so the call that reads never returns, and neither does its caller, whose value is then \<open>None\<close>.
\<close>

section \<open>Constants and profiles\<close>

definition executorID :: string where "executorID = ''go-http2-websocket-executor''"
definition executorVersion :: string where "executorVersion = ''0.2.0''"
definition loadGeneratorID :: string where "loadGeneratorID = ''go-x-net-http2-websocket-load''"
definition loadGeneratorVersion :: string where "loadGeneratorVersion = ''0.2.0''"
definition smokeProfileID :: string where "smokeProfileID = ''websocket-smoke''"
definition diagnosticProfileID :: string where "diagnosticProfileID = ''diagnostic''"
definition protocolVariant :: string where "protocolVariant = ''websocket-h2-extended-connect''"
definition alpn :: string where "alpn = ''h2''"
definition certificateDERHash :: string where
  "certificateDERHash = ''fe996190f39355e3cfc201cbb7e2cba962a701b94ed08ff49e68e830216d0109''"
definition certificateSPKIHash :: string where
  "certificateSPKIHash = ''c2440fbe955033f341ca625c1804e21b50066d952ab24a4b53007dc1cfbf410c''"

definition knownUnsupported :: "string list" where
  "knownUnsupported =
     [''http1.websocket.rfc6455.cleartext.upgrade'', ''http1.websocket.rfc6455.cleartext.control-frames'',
      ''http1.websocket.rfc6455.cleartext.text-echo'', ''http1.websocket.rfc6455.cleartext.binary-echo'',
      ''http1.websocket.rfc6455.cleartext.close'', ''http1.websocket.rfc6455.tls.upgrade'',
      ''http1.websocket.rfc6455.tls.control-frames'', ''http1.websocket.rfc6455.tls.text-echo'',
      ''http1.websocket.rfc6455.tls.binary-echo'', ''http1.websocket.rfc6455.tls.close'',
      ''http1.websocket.rfc6455.tls.subprotocol-text-echo'', ''http1.websocket.rfc6455.tls.permessage-deflate-binary-echo'',
      ''http3.websocket.rfc9220.extended-connect'', ''http3.websocket.rfc9220.control-frames'',
      ''http3.websocket.rfc9220.text-echo'', ''http3.websocket.rfc9220.binary-echo'',
      ''http3.websocket.rfc9220.close'', ''http3.websocket.rfc9220.fragmented-binary-echo'']"

text \<open>Durations are nanoseconds.\<close>

record load_profile =
  lp_ID :: string
  lp_Connections :: nat
  lp_Concurrency :: nat
  lp_StreamsPerConnection :: nat
  lp_Duration :: int
  lp_Warmup :: int
  lp_Cooldown :: int
  lp_Repetitions :: nat
  lp_OperationTimeout :: int

definition smokeProfile :: load_profile where
  "smokeProfile = \<lparr>lp_ID = smokeProfileID, lp_Connections = 1, lp_Concurrency = 1, lp_StreamsPerConnection = 1,
     lp_Duration = 5 * 10 ^ 9, lp_Warmup = 10 ^ 9, lp_Cooldown = 0, lp_Repetitions = 1, lp_OperationTimeout = 5 * 10 ^ 9\<rparr>"

definition diagnosticProfile :: load_profile where
  "diagnosticProfile = \<lparr>lp_ID = diagnosticProfileID, lp_Connections = 1, lp_Concurrency = 8, lp_StreamsPerConnection = 8,
     lp_Duration = 10 * 10 ^ 9, lp_Warmup = 10 ^ 9, lp_Cooldown = 10 ^ 9, lp_Repetitions = 1, lp_OperationTimeout = 10 * 10 ^ 9\<rparr>"

definition profileFor :: "scenario \<Rightarrow> load_profile" where
  "profileFor spec = (if sc_ID spec = multiMessageID then diagnosticProfile else smokeProfile)"

section \<open>The TLS gate\<close>

text \<open>The state of the connection; a peer certificate is its DER bytes and its public key.\<close>

record tls_state =
  t_Version :: u16
  t_Protocol :: string
  t_DidResume :: bool
  t_Peers :: "(bytes \<times> bytes) list"

definition tlsProof :: "bool \<Rightarrow> nat \<Rightarrow> tls_state \<Rightarrow> protocol_proof" where
  "tlsProof reused concurrency st =
     \<lparr>p_TLSVersion = t_Version st, p_ALPN = t_Protocol st, p_DidResume = t_DidResume st,
      p_CertificateDERSHA256 = (case t_Peers st of [] \<Rightarrow> '''' | (raw, _) # _ \<Rightarrow> hash raw),
      p_CertificateSPKISHA256 = (case t_Peers st of [] \<Rightarrow> '''' | (_, spki) # _ \<Rightarrow> hash spki),
      p_SettingsEnableConnectProtocol = 0, p_ResponseStatus = 0, p_ResponseHeaders = Map.empty,
      p_SecWebSocketAcceptPresent = False, p_SubprotocolPresent = False, p_ExtensionsPresent = False,
      p_ClientMaskObserved = False, p_MessageType = '''', p_MessageBytes = 0, p_MessageCount = 0, p_PayloadSHA256 = '''',
      p_StrictOrdering = False, p_PingSent = False, p_PongReceived = False, p_CloseSent = 0, p_CloseReceived = 0,
      p_CleanCompletion = False, p_ConnectionReused = reused, p_ConfiguredConcurrency = concurrency,
      p_EffectiveConcurrency = concurrency\<rparr>"

definition gateFailed :: "tls_state \<Rightarrow> protocol_proof \<Rightarrow> bool" where
  "gateFailed st p \<longleftrightarrow> t_Version st \<noteq> 0x304 \<or> t_Protocol st \<noteq> alpn \<or> t_DidResume st \<or>
     p_CertificateDERSHA256 p \<noteq> certificateDERHash \<or> p_CertificateSPKISHA256 p \<noteq> certificateSPKIHash"

text \<open>\<^verbatim>\<open>SettingEnableConnectProtocol\<close> with the value 1.\<close>

definition enablesConnect :: "(u16 \<times> u32) list \<Rightarrow> bool" where
  "enablesConnect ss \<longleftrightarrow> list_ex (\<lambda>(i, v). i = 8 \<and> v = 1) ss"

section \<open>One operation\<close>

text \<open>The read loops: \<open>None\<close> is a read that never returns, \<open>Inl\<close> an error.\<close>

definition andThen :: "'a go option \<Rightarrow> ('a \<Rightarrow> 'b go option) \<Rightarrow> 'b go option" where
  "andThen x k = (case x of None \<Rightarrow> None | Some (Inl e) \<Rightarrow> Some (Inl e) | Some (Inr v) \<Rightarrow> k v)"

definition readEnd :: "go_error option \<Rightarrow> 'a go option" where
  "readEnd err = map_option Inl err"

definition writeOr :: "h2written \<Rightarrow> h2_writer \<Rightarrow> h2_writer go option" where
  "writeOr x w = (case h2Write x w of (Some e, _) \<Rightarrow> Some (Inl e) | (None, w1) \<Rightarrow> Some (Inr w1))"

fun awaitConnectProtocol ::
  "h2frame list \<Rightarrow> go_error option \<Rightarrow> h2_writer \<Rightarrow> frame_summary \<Rightarrow> (h2frame list \<times> h2_writer \<times> frame_summary) go option" where
  "awaitConnectProtocol [] err w s = readEnd err"
| "awaitConnectProtocol (f # fs) err w s =
     (case f of
        SettingsFrame ack ss \<Rightarrow>
          (let s1 = s\<lparr>fs_SettingsFrames := fs_SettingsFrames s + 1\<rparr> in
           if ack then awaitConnectProtocol fs err w s1
           else andThen (writeOr WSettingsAck w) (\<lambda>w1.
             if enablesConnect ss then Some (Inr (fs, w1, s1)) else awaitConnectProtocol fs err w1 s1))
      | WindowUpdateFrame _ \<Rightarrow> awaitConnectProtocol fs err w (s\<lparr>fs_WindowUpdateFrames := fs_WindowUpdateFrames s + 1\<rparr>)
      | _ \<Rightarrow> awaitConnectProtocol fs err w s)"

definition decodeHeaders :: "'d hpack \<Rightarrow> bytes \<Rightarrow> headers go" where
  "decodeHeaders hp block = map_sum id (\<lambda>(fs, _). emitFields fs) (hp_write hp (hp_new hp) block)"

text \<open>The acknowledgement of settings, whose error is ignored.\<close>

definition ackSettings :: "bool \<Rightarrow> h2_writer \<Rightarrow> h2_writer" where
  "ackSettings ack w = (if ack then w else snd (h2Write WSettingsAck w))"

fun readResponseHeaders ::
  "'d hpack \<Rightarrow> h2frame list \<Rightarrow> go_error option \<Rightarrow> bytes \<Rightarrow> h2_writer \<Rightarrow> frame_summary \<Rightarrow>
   (headers \<times> h2frame list \<times> h2_writer \<times> frame_summary) go option" where
  "readResponseHeaders hp [] err block w s = readEnd err"
| "readResponseHeaders hp (f # fs) err block w s =
     (case f of
        HeadersFrame sid fragment ended \<Rightarrow>
          if sid \<noteq> 1 then readResponseHeaders hp fs err block w s
          else (let s1 = s\<lparr>fs_HeadersFrames := fs_HeadersFrames s + 1\<rparr> in
            if ended then Some (map_sum id (\<lambda>hs. (hs, fs, w, s1)) (decodeHeaders hp (block @ fragment)))
            else readResponseHeaders hp fs err (block @ fragment) w s1)
      | ContinuationFrame sid fragment ended \<Rightarrow>
          if sid \<noteq> 1 then readResponseHeaders hp fs err block w s
          else if ended then Some (map_sum id (\<lambda>hs. (hs, fs, w, s)) (decodeHeaders hp (block @ fragment)))
          else readResponseHeaders hp fs err (block @ fragment) w s
      | SettingsFrame ack _ \<Rightarrow>
          readResponseHeaders hp fs err block (ackSettings ack w) (s\<lparr>fs_SettingsFrames := fs_SettingsFrames s + 1\<rparr>)
      | WindowUpdateFrame _ \<Rightarrow> readResponseHeaders hp fs err block w (s\<lparr>fs_WindowUpdateFrames := fs_WindowUpdateFrames s + 1\<rparr>)
      | _ \<Rightarrow> readResponseHeaders hp fs err block w s)"

fun readMessage ::
  "h2frame list \<Rightarrow> go_error option \<Rightarrow> bytes \<Rightarrow> h2_writer \<Rightarrow> frame_summary \<Rightarrow> (ws_frame \<times> h2frame list \<times> h2_writer \<times> frame_summary) go option" where
  "readMessage [] err buf w s = readEnd err"
| "readMessage (f # fs) err buf w s =
     (case f of
        DataFrame sid d _ \<Rightarrow>
          if sid \<noteq> 1 then readMessage fs err buf w s
          else (let s1 = s\<lparr>fs_DataFrames := fs_DataFrames s + 1\<rparr> in
            case parseFrame (buf @ d) of
              Inl e \<Rightarrow> Some (Inl e)
            | Inr (Some m) \<Rightarrow> Some (Inr (m, fs, w, s1))
            | Inr None \<Rightarrow> readMessage fs err (buf @ d) w s1)
      | SettingsFrame ack _ \<Rightarrow> readMessage fs err buf (ackSettings ack w) (s\<lparr>fs_SettingsFrames := fs_SettingsFrames s + 1\<rparr>)
      | WindowUpdateFrame _ \<Rightarrow> readMessage fs err buf w (s\<lparr>fs_WindowUpdateFrames := fs_WindowUpdateFrames s + 1\<rparr>)
      | HeadersFrame _ _ _ \<Rightarrow> readMessage fs err buf w (s\<lparr>fs_HeadersFrames := fs_HeadersFrames s + 1\<rparr>)
      | _ \<Rightarrow> readMessage fs err buf w s)"

record operation_result =
  r_Proof :: protocol_proof
  r_Frames :: frame_summary
  r_ConnectionLatencyMS :: rat
  r_OperationLatencyMS :: rat
  r_CloseLatencyMS :: rat
  r_Bytes :: int

text \<open>What an operation meets: dialling, the frames that arrive and the end of the stream, the writer, the keys
  by message, and the three times that are measured.\<close>

record op_env =
  oe_dial :: "tls_state go"
  oe_frames :: "h2frame list"
  oe_end :: "go_error option"
  oe_writer :: h2_writer
  oe_key :: "nat \<Rightarrow> bytes go"
  oe_connNanos :: int
  oe_closeNanos :: int
  oe_opNanos :: int

definition sendFrame ::
  "bytes go \<Rightarrow> byte \<Rightarrow> bytes \<Rightarrow> h2_writer \<Rightarrow> (string \<times> h2_writer) go option" where
  "sendFrame random op p w =
     (case maskedFrame random op p of
        Inl e \<Rightarrow> Some (Inl e)
      | Inr (key, enc) \<Rightarrow> andThen (writeOr (WData 1 enc) w) (\<lambda>w1. Some (Inr (hash key, w1))))"

fun messageLoop ::
  "scenario \<Rightarrow> op_env \<Rightarrow> nat list \<Rightarrow> h2frame list \<Rightarrow> h2_writer \<Rightarrow> frame_summary \<Rightarrow> int \<Rightarrow>
   (h2frame list \<times> h2_writer \<times> frame_summary \<times> int) go option" where
  "messageLoop spec oe [] fs w s octets = Some (Inr (fs, w, s, octets))"
| "messageLoop spec oe (index # rest) fs w s octets =
     andThen (sendFrame (oe_key oe index) (sc_Opcode spec) (sc_Payload spec) w) (\<lambda>(k, w1).
       andThen (readMessage fs (oe_end oe) [] w1
           (s\<lparr>fs_ClientMessageFrames := fs_ClientMessageFrames s + 1, fs_ClientMaskedFrames := fs_ClientMaskedFrames s + 1,
              fs_ClientMaskKeys := fs_ClientMaskKeys s @ [k]\<rparr>)) (\<lambda>(f, fs2, w2, s2).
         if \<not> sameMessage f (sc_ResponseOpcode spec) (sc_Payload spec)
         then Some (Inl (Errorf ''WebSocket echo/control response mismatch''))
         else messageLoop spec oe rest fs2 w2
           (s2\<lparr>fs_ServerMessageFrames := fs_ServerMessageFrames s2 + 1, fs_ReceivedOrder := fs_ReceivedOrder s2 @ [index + 1]\<rparr>)
           (octets + int (length (sc_Payload spec) * 2))))"

definition messageType :: "scenario \<Rightarrow> string" where
  "messageType spec = (if sc_Opcode spec = 1 then ''text'' else if sc_Opcode spec = 2 then ''binary'' else ''none'')"

definition finishOperation ::
  "scenario \<Rightarrow> op_env \<Rightarrow> protocol_proof \<Rightarrow> frame_summary \<Rightarrow> int \<Rightarrow> operation_result" where
  "finishOperation spec oe p s octets =
     (let ordered = (sc_MessageCount spec \<le> 1 \<or> sc_MessageCount spec = 100 \<and> strictOrder (fs_ReceivedOrder s));
          (unique, duplicates) = maskKeyCounts (fs_ClientMaskKeys s) in
      \<lparr>r_Proof = p\<lparr>p_ClientMaskObserved := (fs_ClientMaskKeys s \<noteq> []), p_MessageType := messageType spec,
         p_MessageBytes := length (sc_Payload spec), p_MessageCount := sc_MessageCount spec,
         p_PayloadSHA256 := sc_PayloadHash spec, p_StrictOrdering := ordered, p_PingSent := (sc_Opcode spec = 0x9),
         p_PongReceived := (sc_ResponseOpcode spec = 0xA), p_CloseSent := 1000, p_CloseReceived := 1000, p_CleanCompletion := True\<rparr>,
       r_Frames = s\<lparr>fs_UniqueClientMaskKeys := unique, fs_DuplicateClientMaskKeys := duplicates,
         fs_StrictPerStreamOrdering := ordered, fs_StreamIDs := [1]\<rparr>,
       r_ConnectionLatencyMS = durationMS (oe_connNanos oe), r_OperationLatencyMS = durationMS (oe_opNanos oe),
       r_CloseLatencyMS = durationMS (oe_closeNanos oe), r_Bytes = octets\<rparr>)"

text \<open>The messages and the close of an opened WebSocket.\<close>

definition runMessages ::
  "scenario \<Rightarrow> op_env \<Rightarrow> protocol_proof \<Rightarrow> h2frame list \<Rightarrow> h2_writer \<Rightarrow> frame_summary \<Rightarrow> operation_result go option" where
  "runMessages spec oe p fs w s =
     andThen (messageLoop spec oe [0..<sc_MessageCount spec] fs w s 0) (\<lambda>(fs2, w2, s2, octets).
       andThen (sendFrame (oe_key oe (sc_MessageCount spec)) 0x8 closePayload w2) (\<lambda>(k, w3).
         andThen (readMessage fs2 (oe_end oe) [] w3
             (s2\<lparr>fs_ClientMaskKeys := fs_ClientMaskKeys s2 @ [k], fs_ClientMaskedFrames := fs_ClientMaskedFrames s2 + 1\<rparr>))
           (\<lambda>(f, fs4, w4, s4).
             if \<not> sameMessage f 0x8 closePayload then Some (Inl (Errorf ''clean close response mismatch''))
             else Some (Inr (finishOperation spec oe p s4 octets)))))"

definition runOperation :: "'d hpack \<Rightarrow> scenario \<Rightarrow> op_env \<Rightarrow> operation_result go option" where
  "runOperation hp spec oe =
     andThen (Some (oe_dial oe)) (\<lambda>st.
       let p0 = tlsProof False 1 st in
       if gateFailed st p0 then Some (Inl (Errorf ''TLS 1.3 ALPN h2 certificate gate failed''))
       else andThen (writeOr WPreface (oe_writer oe)) (\<lambda>w1.
         andThen (writeOr (WSettings [(8, 1)]) w1) (\<lambda>w2.
           andThen (awaitConnectProtocol (oe_frames oe) (oe_end oe) w2 noFrames) (\<lambda>(fs3, w3, s3).
             andThen (Some (hp_encode hp requestFields)) (\<lambda>block.
               andThen (writeOr (WHeaders 1 block) w3) (\<lambda>w4.
                 andThen (readResponseHeaders hp fs3 (oe_end oe) [] w4 s3) (\<lambda>(hs, fs5, w5, s5).
                   if headerValue hs '':status'' \<noteq> ''200''
                   then Some (Inl (Errorf (''extended CONNECT status '' @ quoted (headerValue hs '':status''))))
                   else if prohibitedHeader hs
                   then Some (Inl (Errorf ''prohibited RFC 6455-over-H1 or negotiated WebSocket response header present''))
                   else runMessages spec oe (responseProof hs (p0\<lparr>p_SettingsEnableConnectProtocol := 1\<rparr>)) fs5 w5 s5)))))))"

end
