(* ===== verification/Ws_Certificate.thy ===== *)
theory Ws_Certificate
  imports Lab_Certificates
begin

text \<open>
  The leaf certificate of the WebSocket targets, \<^verbatim>\<open>implementations/kestrel-http2-websocket/certs/leaf.pem\<close>, decoded, with
  its public key part and the computed digests of both.
\<close>

definition wsLeafHex :: string where
  "wsLeafHex =
    (''3082017c30820122a00302010202081c49c5496811b81e300a06082a8648ce3d040302301e311c30'' @
     ''1a06035504031313776562736f636b65742e706c61622e74657374301e170d323630373132323034'' @
     ''3035395a170d3336303731333230343035395a301e311c301a06035504031313776562736f636b65'' @
     ''742e706c61622e746573743059301306072a8648ce3d020106082a8648ce3d03010703420004ecea'' @
     ''51bc40936ed227329bd883500ca60eb77ab7c7f3112d1c4dd7efc920e5ecd7155272aa7e09e61d8a'' @
     ''ca2c006ce382b32c4993fcf29b7b9ba028d2b7d3a5aca34a3048301e0603551d1104173015821377'' @
     ''6562736f636b65742e706c61622e74657374300e0603551d0f0101ff04040302078030160603551d'' @
     ''250101ff040c300a06082b06010505070301300a06082a8648ce3d0403020348003045022100f602'' @
     ''7f75665c28f88b525bf37422d2ae6530a18d664437b244149cbac0fd28180220157e2edf60a65d64'' @
     ''70d66c7c9a851cc9b376ecbe192517aa3dd470fa0d57a216'')"

definition wsLeaf :: bytes where "wsLeaf = fromHex wsLeafHex"
definition wsLeafKey :: bytes where "wsLeafKey = take 91 (drop 131 wsLeaf)"

lemma pad_384:
  "hexDecode (''80000000000000000000000000000000000000000000000000000000000000000000000000000000000000000000000000000000000000000000000000000c00'') =
     Some ([0x80] @ replicate ((119 - 384 mod 64) mod 64) 0 @ be64 (of_nat (8 * 384)))"
  by code_simp

lemma wsLeaf_hex: "hexOk wsLeafHex" "length wsLeafHex = 2 * 384"
  by (simp_all add: wsLeafHex_def hexOk_def hexVal_def)

lemma wsLeaf_digest:
  "sha256Hex wsLeaf = ''fe996190f39355e3cfc201cbb7e2cba962a701b94ed08ff49e68e830216d0109''"
  unfolding wsLeaf_def digest_fromHex [OF wsLeaf_hex pad_384] unfolding wsLeafHex_def
  by (simp only: sha_eval)

lemma wsLeafKey_digest:
  "sha256Hex wsLeafKey = ''c2440fbe955033f341ca625c1804e21b50066d952ab24a4b53007dc1cfbf410c''"
proof -
  let ?v = "take (2 * 91) (drop (2 * 131) wsLeafHex)"
  have k: "wsLeafKey = fromHex ?v" unfolding wsLeafKey_def wsLeaf_def by (rule fromHex_part) (rule wsLeaf_hex)
  have ok: "hexOk ?v" by (rule hexOk_part) (simp_all add: wsLeaf_hex)
  have len: "length ?v = 2 * 91" by (simp add: wsLeaf_hex)
  have "sha256Hex wsLeafKey = hexState (shaAbsorbB (stateBits shaInit) (wordsBits (hexBits (?v @ ''800000000000000000000000000000000000000000000000000000000000000000000002d8''))))"
    unfolding k by (rule digest_fromHex [OF ok len pad_91])
  also have "?v = ''3059301306072a8648ce3d020106082a8648ce3d03010703420004ecea51bc40936ed227329bd883500ca60eb77ab7c7f3112d1c4dd7efc920e5ecd7155272aa7e09e61d8aca2c006ce382b32c4993fcf29b7b9ba028d2b7d3a5ac''" unfolding wsLeafHex_def by simp
  finally show ?thesis by (simp only: sha_eval)
qed

end
