(* ===== verification/H2ws_Operation.thy ===== *)
theory H2ws_Operation
  imports H2ws_Executor Ws_Certificate
begin

text \<open>
  What an operation of the HTTP/2 WebSocket executor does: it succeeds against a server that enables extended
  CONNECT, accepts it and echoes, whatever other frames come between; a success means that the server did
  so; and a server that falls silent blocks it for ever.
\<close>

lemma andThen_simps [simp]:
  "andThen None k = None" "andThen (Some (Inl e)) k = Some (Inl e)" "andThen (Some (Inr v)) k = k v"
  by (simp_all add: andThen_def)

lemma andThen_Inr: "andThen x k = Some (Inr b) \<longleftrightarrow> (\<exists>v. x = Some (Inr v) \<and> k v = Some (Inr b))"
  by (auto simp: andThen_def split: option.split sum.split)

lemma readEnd_Inr [simp]: "readEnd err \<noteq> Some (Inr v)" "readEnd None = None"
  by (auto simp: readEnd_def)

lemma writeOr_ok: "w_cap w = None \<Longrightarrow> writeOr x w = Some (Inr (w\<lparr>w_out := w_out w @ [x]\<rparr>))"
  by (simp add: writeOr_def h2Write_def)

lemma ackSettings_cap [simp]: "w_cap w = None \<Longrightarrow> w_cap (ackSettings ack w) = None"
  by (simp add: ackSettings_def h2Write_def)

section \<open>Reading one answer\<close>

text \<open>The bytes on stream 1 in some frames.\<close>

fun dataIn :: "h2frame list \<Rightarrow> bytes" where
  "dataIn [] = []"
| "dataIn (DataFrame sid d _ # fs) = (if sid = 1 then d else []) @ dataIn fs"
| "dataIn (_ # fs) = dataIn fs"

lemma dataIn_append [simp]: "dataIn (a @ b) = dataIn a @ dataIn b"
  by (induction a rule: dataIn.induct) simp_all

lemma parseFrame_whole:
  assumes "parseFrameConsumed enc = Inr (Some (f, length enc))" "buf @ later = enc"
  shows "parseFrame buf = (if later = [] then Inr (Some f) else Inr None)"
  using ws_parser.buffered [OF assms(1), of buf later "[]"] assms(2) by (auto simp: parseFrame_def)

text \<open>Only the counters of the summary that count frames read change.\<close>

definition uncounted :: "frame_summary \<Rightarrow> frame_summary" where
  "uncounted s = s\<lparr>fs_SettingsFrames := 0, fs_HeadersFrames := 0, fs_DataFrames := 0, fs_WindowUpdateFrames := 0\<rparr>"

lemma uncounted_simps [simp]:
  "uncounted (s\<lparr>fs_SettingsFrames := a\<rparr>) = uncounted s" "uncounted (s\<lparr>fs_HeadersFrames := a\<rparr>) = uncounted s"
  "uncounted (s\<lparr>fs_DataFrames := a\<rparr>) = uncounted s" "uncounted (s\<lparr>fs_WindowUpdateFrames := a\<rparr>) = uncounted s"
  by (simp_all add: uncounted_def)

lemma uncounted_fields:
  assumes "uncounted s = uncounted t"
  shows "fs_ServerMessageFrames s = fs_ServerMessageFrames t" "fs_ClientMessageFrames s = fs_ClientMessageFrames t"
    "fs_ClientMaskKeys s = fs_ClientMaskKeys t" "fs_ReceivedOrder s = fs_ReceivedOrder t" "fs_ServerMaskedFrames s = fs_ServerMaskedFrames t"
  using arg_cong [OF assms, of fs_ServerMessageFrames] arg_cong [OF assms, of fs_ClientMessageFrames]
    arg_cong [OF assms, of fs_ClientMaskKeys] arg_cong [OF assms, of fs_ReceivedOrder] arg_cong [OF assms, of fs_ServerMaskedFrames]
  by (simp_all add: uncounted_def)

text \<open>An answer in DATA frames of stream 1, cut anywhere and between any other frames, is read; what follows its
  last byte stays for the next read.\<close>

lemma readMessage_ok:
  assumes "parseFrameConsumed enc = Inr (Some (f, length enc))" "buf @ dataIn seg = enc" "length buf < length enc" "w_cap w = None"
  shows "\<exists>quiet w' s'. readMessage (seg @ later) err buf w s = Some (Inr (f, quiet @ later, w', s')) \<and>
    dataIn quiet = [] \<and> w_cap w' = None \<and> uncounted s' = uncounted s"
  using assms(2-4)
proof (induction seg arbitrary: buf w s)
  case Nil
  then show ?case by simp
next
  case (Cons x seg)
  show ?case
  proof (cases "\<exists>d pad. x = DataFrame 1 d pad")
    case True
    then obtain d pad where x: "x = DataFrame 1 d pad" by blast
    have enc: "(buf @ d) @ dataIn seg = enc" using Cons.prems(1) x by simp
    note p = parseFrame_whole [OF assms(1) enc]
    show ?thesis
    proof (cases "dataIn seg = []")
      case True
      with x p Cons.prems show ?thesis by (intro exI [of _ seg]) simp
    next
      case False
      then have "length (buf @ d) < length enc" using enc by (metis append_Nil2 length_append less_add_same_cancel1 length_greater_0_conv)
      from Cons.IH [OF enc this Cons.prems(3), of "s\<lparr>fs_DataFrames := fs_DataFrames s + 1\<rparr>"] False x p show ?thesis by simp
    qed
  next
    case False
    then have enc: "buf @ dataIn seg = enc" using Cons.prems(1) by (cases x) (auto split: if_splits)
    note IH = Cons.IH [OF enc Cons.prems(2)]
    show ?thesis
    proof (cases x)
      case (SettingsFrame ack ss)
      with IH [of "ackSettings ack w" "s\<lparr>fs_SettingsFrames := fs_SettingsFrames s + 1\<rparr>"] Cons.prems(3) show ?thesis by simp
    next
      case (WindowUpdateFrame i)
      with IH [of w "s\<lparr>fs_WindowUpdateFrames := fs_WindowUpdateFrames s + 1\<rparr>"] Cons.prems(3) show ?thesis by simp
    next
      case (HeadersFrame i b e)
      with IH [of w "s\<lparr>fs_HeadersFrames := fs_HeadersFrames s + 1\<rparr>"] Cons.prems(3) show ?thesis by simp
    qed (use IH [of w s] Cons.prems(3) False in auto)
  qed
qed

lemma parseFrame_Some: "parseFrame d = Inr (Some f) \<Longrightarrow> \<exists>n. parseFrameConsumed d = Inr (Some (f, n))"
  by (cases "parseFrameConsumed d") (auto simp: parseFrame_def)

text \<open>An answer that was read stands at the front of the bytes of stream 1.\<close>

lemma readMessage_sound:
  assumes "readMessage fs err buf w s = Some (Inr (f, fs', w', s'))"
  shows "\<exists>used enc rest. fs = used @ fs' \<and> buf @ dataIn used = enc @ rest \<and> parseFrameConsumed enc = Inr (Some (f, length enc)) \<and>
    uncounted s' = uncounted s"
  using assms
proof (induction fs arbitrary: buf w s)
  case (Cons x fs)
  show ?case
  proof (cases "\<exists>d pad. x = DataFrame 1 d pad")
    case True
    then obtain d pad where x: "x = DataFrame 1 d pad" by blast
    show ?thesis
    proof (cases "\<exists>m. parseFrame (buf @ d) = Inr (Some m)")
      case True
      then obtain n where p: "parseFrameConsumed (buf @ d) = Inr (Some (f, n))" "fs' = fs" "uncounted s' = uncounted s"
        using Cons.prems x parseFrame_Some by fastforce
      have "length (take n (buf @ d)) = n" using ws_parser.consumed [OF p(1)] by (simp only: length_take min_absorb2)
      with ws_parser.exact [OF p(1)]
      have "parseFrameConsumed (take n (buf @ d)) = Inr (Some (f, length (take n (buf @ d))))" by simp
      moreover have "x # fs = [x] @ fs'" "buf @ dataIn [x] = take n (buf @ d) @ drop n (buf @ d)"
        unfolding append_take_drop_id using p(2) x by simp_all
      ultimately show ?thesis using p(3) by blast
    next
      case False
      then have "readMessage fs err (buf @ d) w (s\<lparr>fs_DataFrames := fs_DataFrames s + 1\<rparr>) = Some (Inr (f, fs', w', s'))"
        using Cons.prems x by (auto simp: Let_def split: sum.splits option.splits)
      from Cons.IH [OF this] obtain used enc rest where "fs = used @ fs'" "(buf @ d) @ dataIn used = enc @ rest"
        "parseFrameConsumed enc = Inr (Some (f, length enc))" "uncounted s' = uncounted s" by auto
      moreover from this x have "x # fs = (x # used) @ fs'" "buf @ dataIn (x # used) = enc @ rest" by simp_all
      ultimately show ?thesis by blast
    qed
  next
    case False
    then obtain w1 s1 where r: "readMessage fs err buf w1 s1 = Some (Inr (f, fs', w', s'))" "uncounted s1 = uncounted s" "dataIn [x] = []"
      using Cons.prems by (cases x) (auto split: if_splits)
    from Cons.IH [OF r(1)] obtain used enc rest where "fs = used @ fs'" "buf @ dataIn used = enc @ rest"
      "parseFrameConsumed enc = Inr (Some (f, length enc))" "uncounted s' = uncounted s1" by blast
    moreover from this r dataIn_append [of "[x]" used] have "x # fs = (x # used) @ fs'" "buf @ dataIn (x # used) = enc @ rest" by simp_all
    ultimately show ?thesis using r(2) by metis
  qed
qed simp

section \<open>The opening\<close>

fun enabling :: "h2frame \<Rightarrow> bool" where
  "enabling (SettingsFrame ack ss) \<longleftrightarrow> \<not> ack \<and> enablesConnect ss" | "enabling _ = False"

fun headersOfOne :: "h2frame \<Rightarrow> bool" where
  "headersOfOne (HeadersFrame sid _ _) \<longleftrightarrow> sid = 1" | "headersOfOne (ContinuationFrame sid _ _) \<longleftrightarrow> sid = 1"
| "headersOfOne _ = False"

lemma awaitConnectProtocol_ok:
  assumes "list_all (\<lambda>f. \<not> enabling f) pre" "enablesConnect ss" "w_cap w = None"
  shows "\<exists>w' s'. awaitConnectProtocol (pre @ SettingsFrame False ss # fs) err w s = Some (Inr (fs, w', s')) \<and>
    w_cap w' = None \<and> uncounted s' = uncounted s"
  using assms(1,3)
proof (induction pre arbitrary: w s)
  case Nil
  with assms(2) show ?case by (simp add: writeOr_ok)
next
  case (Cons x pre)
  show ?case
  proof (cases x)
    case (SettingsFrame ack sx)
    show ?thesis
    proof (cases ack)
      case True
      with SettingsFrame Cons.prems Cons.IH [of w "s\<lparr>fs_SettingsFrames := fs_SettingsFrames s + 1\<rparr>"] show ?thesis by simp
    next
      case False
      with SettingsFrame Cons.prems Cons.IH [of "w\<lparr>w_out := w_out w @ [WSettingsAck]\<rparr>" "s\<lparr>fs_SettingsFrames := fs_SettingsFrames s + 1\<rparr>"]
      show ?thesis by (simp add: writeOr_ok)
    qed
  next
    case (WindowUpdateFrame i)
    with Cons.prems Cons.IH [of w "s\<lparr>fs_WindowUpdateFrames := fs_WindowUpdateFrames s + 1\<rparr>"] show ?thesis by simp
  qed (use Cons.prems Cons.IH [of w s] in simp_all)
qed

lemma readResponseHeaders_ok:
  assumes "list_all (\<lambda>f. \<not> headersOfOne f) mid" "decodeHeaders hp block = Inr hs" "w_cap w = None"
  shows "\<exists>w' s'. readResponseHeaders hp (mid @ HeadersFrame 1 block True # fs) err [] w s = Some (Inr (hs, fs, w', s')) \<and>
    w_cap w' = None \<and> uncounted s' = uncounted s"
  using assms(1,3)
proof (induction mid arbitrary: w s)
  case Nil
  with assms(2) show ?case by simp
next
  case (Cons x mid)
  show ?case
  proof (cases x)
    case (SettingsFrame ack sx)
    with Cons.prems Cons.IH [of "ackSettings ack w" "s\<lparr>fs_SettingsFrames := fs_SettingsFrames s + 1\<rparr>"] show ?thesis by simp
  next
    case (WindowUpdateFrame i)
    with Cons.prems Cons.IH [of w "s\<lparr>fs_WindowUpdateFrames := fs_WindowUpdateFrames s + 1\<rparr>"] show ?thesis by simp
  qed (use Cons.prems Cons.IH [of w s] in simp_all)
qed

section \<open>The messages\<close>

definition keysWork :: "op_env \<Rightarrow> bool" where
  "keysWork oe \<longleftrightarrow> (\<forall>i. \<not> isl (oe_key oe i))"

lemma sendFrame_ok:
  assumes "w_cap w = None" "\<not> isl key"
  shows "\<exists>k w'. sendFrame key op p w = Some (Inr (k, w')) \<and> w_cap w' = None"
  using assms by (cases key) (auto simp: sendFrame_def maskedFrame_def writeOr_ok)

lemma messageLoop_ok:
  assumes "okFrame (sc_ResponseOpcode spec, sc_Payload spec)" "keysWork oe"
    and "length segs = length idx" "list_all (\<lambda>seg. dataIn seg = plainFrame (sc_ResponseOpcode spec, sc_Payload spec)) segs"
    and "dataIn quiet = []" "w_cap w = None"
  shows "\<exists>quiet' w' s'. messageLoop spec oe idx (quiet @ concat segs @ later) w s octets =
      Some (Inr (quiet' @ later, w', s', octets + int (length idx * (length (sc_Payload spec) * 2)))) \<and>
    dataIn quiet' = [] \<and> w_cap w' = None \<and> fs_ServerMessageFrames s' = fs_ServerMessageFrames s + int (length idx) \<and>
    fs_ServerMaskedFrames s' = fs_ServerMaskedFrames s"
  using assms(3-6)
proof (induction idx arbitrary: segs quiet w s octets)
  case Nil
  then show ?case by (intro exI [of _ quiet]) simp
next
  case (Cons i idx)
  then obtain seg segs' where segs: "segs = seg # segs'" "dataIn seg = plainFrame (sc_ResponseOpcode spec, sc_Payload spec)"
      "length segs' = length idx" "list_all (\<lambda>seg. dataIn seg = plainFrame (sc_ResponseOpcode spec, sc_Payload spec)) segs'"
    by (cases segs) auto
  obtain k w1 where w1: "sendFrame (oe_key oe i) (sc_Opcode spec) (sc_Payload spec) w = Some (Inr (k, w1))" "w_cap w1 = None"
    using sendFrame_ok [OF Cons.prems(4)] assms(2) unfolding keysWork_def by blast
  let ?s = "s\<lparr>fs_ClientMessageFrames := fs_ClientMessageFrames s + 1, fs_ClientMaskedFrames := fs_ClientMaskedFrames s + 1,
    fs_ClientMaskKeys := fs_ClientMaskKeys s @ [k]\<rparr>"
  have d: "[] @ dataIn (quiet @ seg) = plainFrame (sc_ResponseOpcode spec, sc_Payload spec)" using Cons.prems(3) segs by simp
  have l: "length ([] :: bytes) < length (plainFrame (sc_ResponseOpcode spec, sc_Payload spec))" by (simp add: plainFrame_def)
  from readMessage_ok [OF parse_plainFrame [OF assms(1)] d l w1(2), of "concat segs' @ later" "oe_end oe" ?s] obtain q w2 s2 where
    r: "readMessage (quiet @ seg @ concat segs' @ later) (oe_end oe) [] w1 ?s =
        Some (Inr (answer (sc_ResponseOpcode spec) (sc_Payload spec), q @ concat segs' @ later, w2, s2))"
      "dataIn q = []" "w_cap w2 = None" "uncounted s2 = uncounted ?s"
    by (auto simp: answer_def)
  let ?s2 = "s2\<lparr>fs_ServerMessageFrames := fs_ServerMessageFrames s2 + 1, fs_ReceivedOrder := fs_ReceivedOrder s2 @ [i + 1]\<rparr>"
  have f: "fs_ServerMessageFrames s2 = fs_ServerMessageFrames s" "fs_ServerMaskedFrames s2 = fs_ServerMaskedFrames s"
    using uncounted_fields [OF r(4)] by simp_all
  from Cons.IH [OF segs(3,4) r(2,3), of ?s2 "octets + int (length (sc_Payload spec) * 2)"] segs(1) w1(1) r(1) f
  show ?case by (auto simp: sameMessage_answer algebra_simps)
qed

text \<open>What a server sends that enables extended CONNECT, accepts the request and echoes: frames of other kinds and
  streams may come anywhere, and an answer may be cut into any number of DATA frames.\<close>

definition servesOperation :: "'d hpack \<Rightarrow> scenario \<Rightarrow> h2frame list \<Rightarrow> bool" where
  "servesOperation hp spec frames \<longleftrightarrow>
     (\<exists>pre ss mid block hs segs closing later.
        frames = pre @ SettingsFrame False ss # mid @ HeadersFrame 1 block True # concat segs @ closing @ later \<and>
        list_all (\<lambda>f. \<not> enabling f) pre \<and> enablesConnect ss \<and> list_all (\<lambda>f. \<not> headersOfOne f) mid \<and>
        decodeHeaders hp block = Inr hs \<and> headerValue hs '':status'' = ''200'' \<and> \<not> prohibitedHeader hs \<and>
        length segs = sc_MessageCount spec \<and>
        list_all (\<lambda>seg. dataIn seg = plainFrame (sc_ResponseOpcode spec, sc_Payload spec)) segs \<and>
        dataIn closing = plainFrame (0x8, closePayload))"

definition authentic :: "tls_state \<Rightarrow> bool" where
  "authentic st \<longleftrightarrow> t_Version st = 0x304 \<and> t_Protocol st = alpn \<and> \<not> t_DidResume st \<and>
     (\<exists>raw spki rest. t_Peers st = (raw, spki) # rest \<and> hash raw = certificateDERHash \<and> hash spki = certificateSPKIHash)"

lemma hash_empty_string: "certificateDERHash \<noteq> ''''" "certificateSPKIHash \<noteq> ''''"
  by (simp_all add: certificateDERHash_def certificateSPKIHash_def)

lemma gate_authentic: "\<not> gateFailed st (tlsProof reused n st) \<longleftrightarrow> authentic st"
  using hash_empty_string by (auto simp: gateFailed_def tlsProof_def authentic_def split: list.splits)

lemma runMessages_ok:
  assumes "okFrame (sc_ResponseOpcode spec, sc_Payload spec)" "keysWork oe" "length segs = sc_MessageCount spec"
    and "list_all (\<lambda>seg. dataIn seg = plainFrame (sc_ResponseOpcode spec, sc_Payload spec)) segs"
    and "dataIn closing = plainFrame (0x8, closePayload)" "w_cap w = None"
  shows "\<exists>r. runMessages spec oe p (concat segs @ closing @ later) w s = Some (Inr r) \<and>
    r_Bytes r = int (sc_MessageCount spec * (length (sc_Payload spec) * 2)) \<and> p_CleanCompletion (r_Proof r) \<and>
    p_MessageCount (r_Proof r) = sc_MessageCount spec \<and>
    fs_ServerMessageFrames (r_Frames r) = fs_ServerMessageFrames s + int (sc_MessageCount spec) \<and>
    fs_ServerMaskedFrames (r_Frames r) = fs_ServerMaskedFrames s"
proof -
  from messageLoop_ok [OF assms(1,2), of segs "[0..<sc_MessageCount spec]" "[]" w "closing @ later" s 0] assms(3,4,6)
  obtain q w2 s2 where m: "messageLoop spec oe [0..<sc_MessageCount spec] (concat segs @ closing @ later) w s 0 =
      Some (Inr (q @ closing @ later, w2, s2, int (sc_MessageCount spec * (length (sc_Payload spec) * 2))))"
      "dataIn q = []" "w_cap w2 = None" "fs_ServerMessageFrames s2 = fs_ServerMessageFrames s + int (sc_MessageCount spec)"
      "fs_ServerMaskedFrames s2 = fs_ServerMaskedFrames s" by auto
  obtain k w3 where w3: "sendFrame (oe_key oe (sc_MessageCount spec)) 0x8 closePayload w2 = Some (Inr (k, w3))" "w_cap w3 = None"
    using sendFrame_ok [OF m(3)] assms(2) unfolding keysWork_def by blast
  have c: "okFrame (0x8, closePayload)" by (simp add: okFrame_def closePayload_def)
  have d: "[] @ dataIn (q @ closing) = plainFrame (0x8, closePayload)" using m(2) assms(5) by simp
  have l: "length ([] :: bytes) < length (plainFrame (0x8, closePayload))" by (simp add: plainFrame_def)
  let ?s = "s2\<lparr>fs_ClientMaskKeys := fs_ClientMaskKeys s2 @ [k], fs_ClientMaskedFrames := fs_ClientMaskedFrames s2 + 1\<rparr>"
  from readMessage_ok [OF parse_plainFrame [OF c] d l w3(2), of later "oe_end oe" ?s] obtain fs4 w4 s4 where
    r: "readMessage (q @ closing @ later) (oe_end oe) [] w3 ?s = Some (Inr (answer 0x8 closePayload, fs4, w4, s4))"
      "uncounted s4 = uncounted ?s" by (auto simp: answer_def)
  from uncounted_fields [OF r(2)] m w3 r(1) show ?thesis
    by (simp add: runMessages_def sameMessage_answer finishOperation_def Let_def split: prod.split)
qed

section \<open>Operations\<close>

lemma scenario_frames: "spec \<in> set scenarios \<Longrightarrow> okFrame (sc_ResponseOpcode spec, sc_Payload spec)"
  by (auto simp: scenarios_def emptyScenario_def okFrame_def textPayload_def controlPayload_def)

text \<open>The certificate is right, the keys and the writes work, and the server serves the operation.\<close>

definition operationServed :: "'d hpack \<Rightarrow> scenario \<Rightarrow> op_env \<Rightarrow> bool" where
  "operationServed hp spec oe \<longleftrightarrow>
     (\<exists>st. oe_dial oe = Inr st \<and> authentic st) \<and> keysWork oe \<and> w_cap (oe_writer oe) = None \<and>
     \<not> isl (hp_encode hp requestFields) \<and> servesOperation hp spec (oe_frames oe)"

lemma operation_completes:
  assumes "spec \<in> set scenarios" "operationServed hp spec oe"
  shows "\<exists>r. runOperation hp spec oe = Some (Inr r) \<and> r_Bytes r = int (sc_MessageCount spec * (length (sc_Payload spec) * 2)) \<and>
    p_CleanCompletion (r_Proof r) \<and> p_MessageCount (r_Proof r) = sc_MessageCount spec \<and>
    fs_ServerMessageFrames (r_Frames r) = int (sc_MessageCount spec) \<and> fs_ServerMaskedFrames (r_Frames r) = 0"
proof -
  from assms(2) obtain st block0 where st: "oe_dial oe = Inr st" "\<not> gateFailed st (tlsProof False 1 st)"
      "hp_encode hp requestFields = Inr block0" and w: "keysWork oe" "w_cap (oe_writer oe) = None" "servesOperation hp spec (oe_frames oe)"
    by (auto simp: operationServed_def gate_authentic isl_def) (metis sum.exhaust)
  from w(3) obtain pre ss mid block hs segs closing later where
    fr: "oe_frames oe = pre @ SettingsFrame False ss # mid @ HeadersFrame 1 block True # concat segs @ closing @ later"
    and se: "list_all (\<lambda>f. \<not> enabling f) pre" "enablesConnect ss" and mi: "list_all (\<lambda>f. \<not> headersOfOne f) mid" "decodeHeaders hp block = Inr hs"
    and hs: "headerValue hs '':status'' = ''200''" "\<not> prohibitedHeader hs"
    and sg: "length segs = sc_MessageCount spec" "list_all (\<lambda>seg. dataIn seg = plainFrame (sc_ResponseOpcode spec, sc_Payload spec)) segs"
      "dataIn closing = plainFrame (0x8, closePayload)"
    unfolding servesOperation_def by blast
  define w2 where "w2 = (oe_writer oe)\<lparr>w_out := w_out (oe_writer oe) @ [WPreface, WSettings [(8, 1)]]\<rparr>"
  have o2: "writeOr WPreface (oe_writer oe) = Some (Inr ((oe_writer oe)\<lparr>w_out := w_out (oe_writer oe) @ [WPreface]\<rparr>))"
    "writeOr (WSettings [(8, 1)]) ((oe_writer oe)\<lparr>w_out := w_out (oe_writer oe) @ [WPreface]\<rparr>) = Some (Inr w2)" "w_cap w2 = None"
    using w(2) by (simp_all add: writeOr_ok w2_def)
  let ?after = "mid @ HeadersFrame 1 block True # concat segs @ closing @ later"
  from awaitConnectProtocol_ok [OF se o2(3), of ?after "oe_end oe" noFrames] obtain w3 s3 where
    a: "awaitConnectProtocol (oe_frames oe) (oe_end oe) w2 noFrames = Some (Inr (?after, w3, s3))" "w_cap w3 = None" "uncounted s3 = uncounted noFrames"
    unfolding fr by blast
  let ?w4 = "w3\<lparr>w_out := w_out w3 @ [WHeaders 1 block0]\<rparr>"
  have "w_cap ?w4 = None" using a(2) by simp
  from readResponseHeaders_ok [OF mi this, of "concat segs @ closing @ later" "oe_end oe" s3] obtain w5 s5 where
    b: "readResponseHeaders hp ?after (oe_end oe) [] ?w4 s3 = Some (Inr (hs, concat segs @ closing @ later, w5, s5))"
      "w_cap w5 = None" "uncounted s5 = uncounted s3" by blast
  have z: "fs_ServerMessageFrames s5 = 0" "fs_ServerMaskedFrames s5 = 0"
    using uncounted_fields [OF trans [OF b(3) a(3)]] by (simp_all add: noFrames_def)
  have "runOperation hp spec oe =
      runMessages spec oe (responseProof hs ((tlsProof False 1 st)\<lparr>p_SettingsEnableConnectProtocol := 1\<rparr>)) (concat segs @ closing @ later) w5 s5"
    using st o2 a(1,2) b(1) hs by (simp add: runOperation_def Let_def writeOr_ok)
  with runMessages_ok [OF scenario_frames [OF assms(1)] w(1) sg b(2), of _ later s5] z show ?thesis by simp
qed

text \<open>An operation of the HTTP/2 WebSocket executor, in each of its scenarios, succeeds against a server that presents the pinned
  certificate, enables extended CONNECT, accepts the request and echoes, whatever other frames come between
  and however the answers are cut into DATA frames; it counts every message and every byte once.\<close>

theorem h2ws_operation_completes:
  assumes "spec \<in> set scenarios" "operationServed hp spec oe"
  shows "\<exists>r. runOperation hp spec oe = Some (Inr r) \<and> r_Bytes r = int (sc_MessageCount spec * (length (sc_Payload spec) * 2)) \<and>
    p_CleanCompletion (r_Proof r) \<and> p_MessageCount (r_Proof r) = sc_MessageCount spec \<and>
    fs_ServerMessageFrames (r_Frames r) = int (sc_MessageCount spec) \<and> fs_ServerMaskedFrames (r_Frames r) = 0"
  using assms by (rule operation_completes)

lemma messageLoop_sound:
  assumes "messageLoop spec oe idx fs w s octets = Some (Inr (fs', w', s', octets'))"
  shows "\<exists>segs. fs = concat segs @ fs' \<and> length segs = length idx \<and> octets' = octets + int (length idx * (length (sc_Payload spec) * 2)) \<and>
    list_all (\<lambda>seg. \<exists>enc rest. dataIn seg = enc @ rest \<and>
      parseFrameConsumed enc = Inr (Some (answer (sc_ResponseOpcode spec) (sc_Payload spec), length enc))) segs"
  using assms
proof (induction idx arbitrary: fs w s octets)
  case Nil
  then show ?case by (intro exI [of _ "[]"]) simp
next
  case (Cons i idx)
  then obtain w1 s1 f fs2 w2 s2 w3 s3 where r: "readMessage fs (oe_end oe) [] w1 s1 = Some (Inr (f, fs2, w2, s2))"
      "f = answer (sc_ResponseOpcode spec) (sc_Payload spec)"
      "messageLoop spec oe idx fs2 w3 s3 (octets + int (length (sc_Payload spec) * 2)) = Some (Inr (fs', w', s', octets'))"
    by (auto simp: andThen_Inr sameMessage_answer split: if_splits)
  from readMessage_sound [OF r(1)] obtain used enc rest where u: "fs = used @ fs2" "dataIn used = enc @ rest"
      "parseFrameConsumed enc = Inr (Some (f, length enc))" by auto
  from Cons.IH [OF r(3)] obtain segs where "fs2 = concat segs @ fs'" "length segs = length idx"
      "octets' = octets + int (length (sc_Payload spec) * 2) + int (length idx * (length (sc_Payload spec) * 2))"
      "list_all (\<lambda>seg. \<exists>enc rest. dataIn seg = enc @ rest \<and>
        parseFrameConsumed enc = Inr (Some (answer (sc_ResponseOpcode spec) (sc_Payload spec), length enc))) segs" by blast
  with u r(2) show ?case by (intro exI [of _ "used # segs"]) (auto simp: algebra_simps)
qed

lemma awaitConnectProtocol_suffix:
  "awaitConnectProtocol fs err w s = Some (Inr (fs', w', s')) \<Longrightarrow> \<exists>used. fs = used @ fs'"
proof (induction fs arbitrary: w s)
  case (Cons f fs)
  then have "fs = fs' \<or> (\<exists>w s. awaitConnectProtocol fs err w s = Some (Inr (fs', w', s')))"
    by (auto simp: andThen_Inr Let_def split: h2frame.splits if_splits)
  with Cons.IH show ?case by (metis append_Cons append_Nil)
qed simp

lemma readResponseHeaders_suffix:
  "readResponseHeaders hp fs err block w s = Some (Inr (hs, fs', w', s')) \<Longrightarrow> \<exists>used. fs = used @ fs'"
proof (induction fs arbitrary: block w s)
  case (Cons f fs)
  then have "fs = fs' \<or> (\<exists>block w s. readResponseHeaders hp fs err block w s = Some (Inr (hs, fs', w', s')))"
    by (auto simp: Let_def map_sum_def split: h2frame.splits if_splits sum.splits)
  with Cons.IH show ?case by (metis append_Cons append_Nil)
qed simp

text \<open>C33: An operation that reports success was made on an authenticated TLS 1.3 connection that was not resumed, the response had
  status 200 and none of the prohibited headers, and the frames after it contain, on stream 1 and in order,
  an unmasked echo for every message.\<close>

theorem h2ws_operation_sound:
  assumes "runOperation hp spec oe = Some (Inr r)"
  shows "\<exists>st hs before segs later. oe_dial oe = Inr st \<and> authentic st \<and> headerValue hs '':status'' = ''200'' \<and> \<not> prohibitedHeader hs \<and>
    p_ResponseHeaders (r_Proof r) = hs \<and> oe_frames oe = before @ concat segs @ later \<and> length segs = sc_MessageCount spec \<and>
    r_Bytes r = int (sc_MessageCount spec * (length (sc_Payload spec) * 2)) \<and>
    list_all (\<lambda>seg. \<exists>enc rest. dataIn seg = enc @ rest \<and>
      parseFrameConsumed enc = Inr (Some (answer (sc_ResponseOpcode spec) (sc_Payload spec), length enc))) segs"
proof -
  from assms obtain st where st: "oe_dial oe = Inr st" "\<not> gateFailed st (tlsProof False 1 st)"
    by (auto simp: runOperation_def andThen_Inr Let_def split: if_splits)
  from assms st obtain w2 fs3 w3 s3 w4 hs fs5 w5 s5 p0 where
    a: "awaitConnectProtocol (oe_frames oe) (oe_end oe) w2 noFrames = Some (Inr (fs3, w3, s3))"
    and b: "readResponseHeaders hp fs3 (oe_end oe) [] w4 s3 = Some (Inr (hs, fs5, w5, s5))"
    and h: "headerValue hs '':status'' = ''200''" "\<not> prohibitedHeader hs"
    and m: "runMessages spec oe (responseProof hs p0) fs5 w5 s5 = Some (Inr r)"
    by (auto simp: runOperation_def andThen_Inr Let_def split: if_splits)
  from m obtain fs6 w6 s6 octets s7 where l: "messageLoop spec oe [0..<sc_MessageCount spec] fs5 w5 s5 0 = Some (Inr (fs6, w6, s6, octets))"
      "r = finishOperation spec oe (responseProof hs p0) s7 octets"
    by (auto simp: runMessages_def andThen_Inr split: if_splits)
  from messageLoop_sound [OF l(1)] obtain segs where sg: "fs5 = concat segs @ fs6" "length segs = sc_MessageCount spec"
      "octets = int (sc_MessageCount spec * (length (sc_Payload spec) * 2))"
      "list_all (\<lambda>seg. \<exists>enc rest. dataIn seg = enc @ rest \<and>
        parseFrameConsumed enc = Inr (Some (answer (sc_ResponseOpcode spec) (sc_Payload spec), length enc))) segs" by auto
  from awaitConnectProtocol_suffix [OF a] readResponseHeaders_suffix [OF b] obtain before where "oe_frames oe = before @ fs5" by auto
  then have "oe_frames oe = before @ concat segs @ fs6" using sg(1) by simp
  moreover have "p_ResponseHeaders (r_Proof r) = hs" "r_Bytes r = int (sc_MessageCount spec * (length (sc_Payload spec) * 2))"
    using l(2) sg(3) by (auto simp: finishOperation_def responseProof_def Let_def split: prod.split)
  moreover have "authentic st" using st(2) by (simp add: gate_authentic)
  ultimately show ?thesis using st(1) h sg(2,4) by blast
qed

text \<open>C40: The operation timeout covers dialling only: when the server keeps the connection open but never enables extended
  CONNECT, and the writes work, an operation never returns, whatever it sends otherwise.\<close>

theorem h2ws_silence_blocks:
  assumes "oe_dial oe = Inr st" "authentic st" "w_cap (oe_writer oe) = None" "list_all (\<lambda>f. \<not> enabling f) (oe_frames oe)" "oe_end oe = None"
  shows "runOperation hp spec oe = None"
proof -
  have "awaitConnectProtocol fs None w s = None" if "list_all (\<lambda>f. \<not> enabling f) fs" "w_cap w = None" for fs w s
    using that
  proof (induction fs arbitrary: w s)
    case (Cons f fs)
    show ?case
    proof (cases f)
      case (SettingsFrame ack ss)
      with Cons show ?thesis by (auto simp: Let_def writeOr_ok)
    qed (use Cons in simp_all)
  qed simp
  moreover have "\<not> gateFailed st (tlsProof False 1 st)" using assms(2) by (simp add: gate_authentic)
  ultimately show ?thesis using assms by (simp add: runOperation_def Let_def writeOr_ok)
qed

section \<open>Evaluation\<close>

definition sampleTls :: tls_state where
  "sampleTls = \<lparr>t_Version = 0x304, t_Protocol = alpn, t_DidResume = False, t_Peers = [(wsLeaf, wsLeafKey)]\<rparr>"

lemma sampleTls_authentic: "authentic sampleTls"
  by (simp add: authentic_def sampleTls_def hash_def wsLeaf_digest wsLeafKey_digest certificateDERHash_def certificateSPKIHash_def)

text \<open>A server that echoes a text message in two DATA frames with other frames between.\<close>

definition sampleFrames :: "h2frame list" where
  "sampleFrames =
     [SettingsFrame True [], SettingsFrame False [(8, 1)], WindowUpdateFrame 0, HeadersFrame 1 (of_string ''200'') True,
      DataFrame 1 (take 5 (plainFrame (1, of_string textPayload))) 0, OtherFrame 0, DataFrame 3 [1] 0,
      DataFrame 1 (drop 5 (plainFrame (1, of_string textPayload))) 0, DataFrame 1 (plainFrame (0x8, closePayload)) 0]"

definition sampleOp :: op_env where
  "sampleOp = \<lparr>oe_dial = Inr sampleTls, oe_frames = sampleFrames, oe_end = None, oe_writer = \<lparr>w_out = [], w_cap = None\<rparr>,
     oe_key = (\<lambda>_. Inr [1, 2, 3, 4]), oe_connNanos = 1000, oe_closeNanos = 1000, oe_opNanos = 2000\<rparr>"

definition textEcho :: scenario where "textEcho = scenarios ! 2"

lemma textEcho: "textEcho \<in> set scenarios" "sc_ResponseOpcode textEcho = 1" "sc_Payload textEcho = of_string textPayload" "sc_MessageCount textEcho = 1"
  by (simp_all add: textEcho_def scenarios_def)

lemma sampleOperation_served: "operationServed sampleHpack textEcho sampleOp"
proof -
  have h: "decodeHeaders sampleHpack (of_string ''200'') = Inr [('':status'') \<mapsto> ''200'']"
    by (simp add: decodeHeaders_def sampleHpack_def emitFields_def toLower_def lowerChar_def)
  have "servesOperation sampleHpack textEcho sampleFrames"
    unfolding servesOperation_def
  proof (intro exI conjI)
    let ?seg = "[DataFrame 1 (take 5 (plainFrame (1, of_string textPayload))) 0, OtherFrame 0, DataFrame 3 [1] 0,
      DataFrame 1 (drop 5 (plainFrame (1, of_string textPayload))) 0]"
    show "sampleFrames = [SettingsFrame True []] @ SettingsFrame False [(8, 1)] # [WindowUpdateFrame 0] @
        HeadersFrame 1 (of_string ''200'') True # concat [?seg] @ [DataFrame 1 (plainFrame (0x8, closePayload)) 0] @ []"
      by (simp add: sampleFrames_def)
    show "decodeHeaders sampleHpack (of_string ''200'') = Inr [('':status'') \<mapsto> ''200'']" by (rule h)
  qed (simp_all add: enablesConnect_def headerValue_def prohibitedHeader_def textEcho)
  then show ?thesis
    using sampleTls_authentic by (simp add: operationServed_def sampleOp_def keysWork_def sampleHpack_def)
qed

theorem h2ws_operation_completes_witness:
  "\<exists>r. runOperation sampleHpack textEcho sampleOp = Some (Inr r) \<and> r_Bytes r = 24 \<and> fs_ServerMessageFrames (r_Frames r) = 1"
  using h2ws_operation_completes [OF textEcho(1) sampleOperation_served] by (auto simp: textEcho textPayload_def)

theorem h2ws_operation_sound_witness:
  "\<exists>r segs. runOperation sampleHpack textEcho sampleOp = Some (Inr r) \<and> length segs = 1 \<and>
    list_all (\<lambda>seg. \<exists>enc rest. dataIn seg = enc @ rest \<and> parseFrameConsumed enc = Inr (Some (answer 1 (of_string textPayload), length enc))) segs"
proof -
  obtain r where r: "runOperation sampleHpack textEcho sampleOp = Some (Inr r)" using operation_completes [OF textEcho(1) sampleOperation_served] by blast
  from h2ws_operation_sound [OF r] r show ?thesis unfolding textEcho by blast
qed

theorem h2ws_silence_blocks_witness:
  "runOperation sampleHpack textEcho (sampleOp\<lparr>oe_frames := [SettingsFrame False [], WindowUpdateFrame 0]\<rparr>) = None"
  by (rule h2ws_silence_blocks [where st = sampleTls]) (simp_all add: sampleOp_def sampleTls_authentic enablesConnect_def)

end
