(* ===== verification/H2ws_Run.thy ===== *)
theory H2ws_Run
  imports H2ws_Operation
begin

text \<open>
  Phases and the command of \<^verbatim>\<open>executors/go-http2-websocket-executor/source/main.go\<close>. A sequential phase is given its
  passes as a list, one per pass the clock allows. The workers of a concurrent phase act on their own
  streams; what they share is the measured concurrency (\<open>H2ws_Peak\<close>, by a schedule) and the channel of
  results, by the order in which they arrive.
\<close>

section \<open>Summaries and sequential phases\<close>

record stream_summary =
  st_StreamID :: u32
  st_CompletedOperations :: int
  st_CompletedMessages :: int
  st_FailedOperations :: int
  st_TimedOutOperations :: int
  st_TransferredBytes :: int
  st_MessageLatencyMeanMS :: rat
  st_MessageLatencyP95MS :: rat
  st_StrictOrdering :: bool

record measured_summary =
  s_DurationSeconds :: rat
  s_CompletedOperations :: int
  s_FailedOperations :: int
  s_TimedOutOperations :: int
  s_CompletedMessages :: int
  s_TotalTransferredBytes :: int
  s_ConnectionLatencies :: "rat list"
  s_OperationLatencies :: "rat list"
  s_CloseLatencies :: "rat list"
  s_Last :: "operation_result option"
  s_Errors :: "string \<rightharpoonup> nat"
  s_ConfiguredConnections :: nat
  s_ConfiguredConcurrency :: nat
  s_ConfiguredStreams :: nat
  s_ObservedConnections :: nat
  s_ObservedStreams :: nat
  s_EffectiveConcurrency :: nat
  s_PerStream :: "stream_summary list"

definition zeroSummary :: measured_summary where
  "zeroSummary = \<lparr>s_DurationSeconds = 0, s_CompletedOperations = 0, s_FailedOperations = 0, s_TimedOutOperations = 0,
     s_CompletedMessages = 0, s_TotalTransferredBytes = 0, s_ConnectionLatencies = [], s_OperationLatencies = [],
     s_CloseLatencies = [], s_Last = None, s_Errors = Map.empty, s_ConfiguredConnections = 0, s_ConfiguredConcurrency = 0,
     s_ConfiguredStreams = 0, s_ObservedConnections = 0, s_ObservedStreams = 0, s_EffectiveConcurrency = 0, s_PerStream = []\<rparr>"

definition emptySummary :: "load_profile \<Rightarrow> measured_summary" where
  "emptySummary profile =
     zeroSummary\<lparr>s_ConfiguredConnections := lp_Connections profile, s_ConfiguredConcurrency := lp_Concurrency profile,
       s_ConfiguredStreams := lp_StreamsPerConnection profile, s_ObservedConnections := lp_Connections profile,
       s_ObservedStreams := lp_StreamsPerConnection profile, s_EffectiveConcurrency := lp_Concurrency profile\<rparr>"

definition summaryFromOperation :: "operation_result \<Rightarrow> load_profile \<Rightarrow> measured_summary" where
  "summaryFromOperation op profile =
     (let seconds = fdiv (r_OperationLatencyMS op) 1000 in
      zeroSummary\<lparr>s_DurationSeconds := (if seconds \<le> 0 then f64 (1 / 1000) else seconds), s_CompletedOperations := 1,
        s_CompletedMessages := max 1 (int (p_MessageCount (r_Proof op))), s_TotalTransferredBytes := r_Bytes op,
        s_ConnectionLatencies := [r_ConnectionLatencyMS op], s_OperationLatencies := [r_OperationLatencyMS op],
        s_CloseLatencies := [r_CloseLatencyMS op], s_Last := Some op,
        s_ConfiguredConnections := lp_Connections profile, s_ConfiguredConcurrency := lp_Concurrency profile,
        s_ConfiguredStreams := lp_StreamsPerConnection profile, s_ObservedConnections := 1, s_ObservedStreams := 1,
        s_EffectiveConcurrency := 1\<rparr>)"

definition countError :: "go_error \<Rightarrow> (string \<rightharpoonup> nat) \<Rightarrow> (string \<rightharpoonup> nat)" where
  "countError e m = m(errorText e \<mapsto> (case m (errorText e) of None \<Rightarrow> 1 | Some n \<Rightarrow> Suc n))"

definition recordError :: "go_error \<Rightarrow> measured_summary \<Rightarrow> measured_summary" where
  "recordError e s =
     (if errorsIs e deadlineExceeded \<or> isTimeout e then s\<lparr>s_TimedOutOperations := s_TimedOutOperations s + 1\<rparr>
      else s\<lparr>s_FailedOperations := s_FailedOperations s + 1\<rparr>)\<lparr>s_Errors := countError e (s_Errors s)\<rparr>"

definition recordSuccess :: "scenario \<Rightarrow> operation_result \<Rightarrow> measured_summary \<Rightarrow> measured_summary" where
  "recordSuccess spec op s =
     s\<lparr>s_CompletedOperations := s_CompletedOperations s + 1,
       s_CompletedMessages := s_CompletedMessages s + max 1 (int (sc_MessageCount spec)),
       s_TotalTransferredBytes := s_TotalTransferredBytes s + r_Bytes op,
       s_ConnectionLatencies := s_ConnectionLatencies s @ [r_ConnectionLatencyMS op],
       s_OperationLatencies := s_OperationLatencies s @ [r_OperationLatencyMS op],
       s_CloseLatencies := s_CloseLatencies s @ [r_CloseLatencyMS op], s_Last := Some op\<rparr>"

fun phaseLoop :: "'d hpack \<Rightarrow> scenario \<Rightarrow> op_env list \<Rightarrow> measured_summary \<Rightarrow> measured_summary option" where
  "phaseLoop hp spec [] s = Some s"
| "phaseLoop hp spec (oe # rounds) s =
     (case runOperation hp spec oe of
        None \<Rightarrow> None
      | Some (Inl e) \<Rightarrow> phaseLoop hp spec rounds (recordError e s)
      | Some (Inr op) \<Rightarrow> phaseLoop hp spec rounds (recordSuccess spec op s))"

text \<open>\<^verbatim>\<open>Duration.Seconds\<close>: whole seconds and the rest are converted apart.\<close>

definition durationSeconds :: "int \<Rightarrow> rat" where
  "durationSeconds ns =
     fadd (f64 (of_int (sgn ns * (\<bar>ns\<bar> div 10 ^ 9)))) (fdiv (f64 (of_int (sgn ns * (\<bar>ns\<bar> mod 10 ^ 9)))) (10 ^ 9))"

definition runFor :: "'d hpack \<Rightarrow> scenario \<Rightarrow> load_profile \<Rightarrow> op_env list \<Rightarrow> int \<Rightarrow> measured_summary option" where
  "runFor hp spec profile rounds nanos =
     map_option (\<lambda>s. s\<lparr>s_DurationSeconds := durationSeconds nanos\<rparr>) (phaseLoop hp spec rounds (emptySummary profile))"

section \<open>Concurrent phases\<close>

fun sumFrom :: "rat \<Rightarrow> rat list \<Rightarrow> rat" where
  "sumFrom t [] = t"
| "sumFrom t (x # xs) = sumFrom (fadd t x) xs"

definition mean :: "rat list \<Rightarrow> rat" where
  "mean v = (if v = [] then 0 else fdiv (sumFrom 0 v) (f64 (of_nat (length v))))"

definition percentile :: "rat list \<Rightarrow> rat \<Rightarrow> rat" where
  "percentile vs q =
     (if vs = [] then 0
      else (let v = sort vs; n = int (length v); i = \<lceil>fmul q (f64 (of_int n))\<rceil> - 1; j = (if i < 0 then 0 else i);
                k = (if j \<ge> n then n - 1 else j) in v ! nat k))"

record worker_result =
  wr_stream :: stream_summary
  wr_latencies :: "rat list"
  wr_bytes :: int
  wr_operations :: int
  wr_messages :: int
  wr_err :: "go_error option"

definition newWorker :: "u32 \<Rightarrow> worker_result" where
  "newWorker sid = \<lparr>wr_stream = \<lparr>st_StreamID = sid, st_CompletedOperations = 0, st_CompletedMessages = 0, st_FailedOperations = 0,
       st_TimedOutOperations = 0, st_TransferredBytes = 0, st_MessageLatencyMeanMS = 0, st_MessageLatencyP95MS = 0, st_StrictOrdering = True\<rparr>,
     wr_latencies = [], wr_bytes = 0, wr_operations = 0, wr_messages = 0, wr_err = None\<rparr>"

text \<open>What one message group meets: its messages, and the outcomes of its waits.\<close>

record group_env =
  ge_message :: "nat \<Rightarrow> message_env"
  ge_waits :: "select_outcome list"

definition workerError :: "go_error \<Rightarrow> worker_result \<Rightarrow> worker_result" where
  "workerError e r =
     r\<lparr>wr_err := Some e,
       wr_stream := (if errorsIs e deadlineExceeded
         then (wr_stream r)\<lparr>st_TimedOutOperations := st_TimedOutOperations (wr_stream r) + 1\<rparr>
         else (wr_stream r)\<lparr>st_FailedOperations := st_FailedOperations (wr_stream r) + 1\<rparr>)\<rparr>"

fun workerLoop :: "scenario \<Rightarrow> group_env list \<Rightarrow> websocket \<Rightarrow> worker_result \<Rightarrow> worker_result \<times> websocket" where
  "workerLoop spec [] m r = (r, m)"
| "workerLoop spec (g # gs) m r =
     (case runMessageGroup spec (ge_message g) (ge_waits g) m of
        ((_, Some e), m1, _) \<Rightarrow> (workerError e r, m1)
      | ((grp, None), m1, _) \<Rightarrow>
          workerLoop spec gs m1
            (r\<lparr>wr_operations := wr_operations r + 1, wr_messages := wr_messages r + int (sc_MessageCount spec),
               wr_bytes := wr_bytes r + g_TransferredBytes grp, wr_latencies := wr_latencies r @ g_MessageLatencies grp\<rparr>))"

definition finishWorker :: "worker_result \<Rightarrow> worker_result" where
  "finishWorker r =
     r\<lparr>wr_stream := (wr_stream r)\<lparr>st_CompletedOperations := wr_operations r, st_CompletedMessages := wr_messages r,
         st_TransferredBytes := wr_bytes r, st_MessageLatencyMeanMS := mean (wr_latencies r),
         st_MessageLatencyP95MS := percentile (wr_latencies r) (f64 (95 / 100))\<rparr>\<rparr>"

text \<open>With \<^verbatim>\<open>exactlyOne\<close> the loop makes one pass, whatever the deadline, so \<open>gs\<close> is not empty then; its environment
  is the first one.\<close>

definition runWorker :: "scenario \<Rightarrow> bool \<Rightarrow> group_env list \<Rightarrow> websocket \<Rightarrow> worker_result \<times> websocket" where
  "runWorker spec exactlyOne gs m =
     (case workerLoop spec (if exactlyOne then take 1 gs else gs) m (newWorker (m_streamID m)) of
        (r, m1) \<Rightarrow> (finishWorker r, m1))"

definition mergeWorker :: "worker_result \<Rightarrow> measured_summary \<times> go_error option \<Rightarrow> measured_summary \<times> go_error option" where
  "mergeWorker r = (\<lambda>(s, firstError).
     (let s1 = s\<lparr>s_CompletedOperations := s_CompletedOperations s + wr_operations r,
        s_CompletedMessages := s_CompletedMessages s + wr_messages r,
        s_TotalTransferredBytes := s_TotalTransferredBytes s + wr_bytes r,
        s_OperationLatencies := s_OperationLatencies s @ wr_latencies r,
        s_FailedOperations := s_FailedOperations s + st_FailedOperations (wr_stream r),
        s_TimedOutOperations := s_TimedOutOperations s + st_TimedOutOperations (wr_stream r),
        s_PerStream := s_PerStream s @ [wr_stream r]\<rparr> in
      case wr_err r of
        None \<Rightarrow> (s1, firstError)
      | Some e \<Rightarrow> (s1\<lparr>s_Errors := countError e (s_Errors s1)\<rparr>, if firstError = None then Some e else firstError)))"

text \<open>What a concurrent phase meets: the groups of every worker, the schedule of the counters, the order in which
  the results arrive, and the time it took.\<close>

record phase_env =
  pe_groups :: "nat \<Rightarrow> group_env list"
  pe_schedule :: "nat list"
  pe_arrival :: "nat list"
  pe_nanos :: int

definition runConcurrentMessagePhase ::
  "scenario \<Rightarrow> load_profile \<Rightarrow> int \<Rightarrow> bool \<Rightarrow> phase_env \<Rightarrow> websocket list \<Rightarrow>
   (measured_summary \<times> go_error option) \<times> websocket list" where
  "runConcurrentMessagePhase spec profile duration exactlyOne pe streams =
     (let work = map (\<lambda>(i, m). runWorker spec exactlyOne (pe_groups pe i) m) (enumerate 0 streams);
          streams' = map snd work;
          (s, firstError) = fold (\<lambda>i. mergeWorker (fst (work ! i))) (pe_arrival pe)
            ((emptySummary profile)\<lparr>s_DurationSeconds := (if exactlyOne then 0 else durationSeconds duration)\<rparr>, None);
          peak = pc_peak (runSchedule (length streams) (pe_schedule pe));
          s1 = s\<lparr>s_PerStream := sort_key st_StreamID (s_PerStream s), s_EffectiveConcurrency := peak\<rparr> in
      if peak \<noteq> lp_Concurrency profile
      then ((s1, Some (Errorf (''effective concurrency mismatch: expected '' @ itoa (lp_Concurrency profile) @ '' observed '' @ itoa peak))), streams')
      else ((if s_DurationSeconds s1 = 0 then s1\<lparr>s_DurationSeconds := durationSeconds (pe_nanos pe)\<rparr> else s1, firstError), streams'))"

section \<open>The multi-message diagnostic\<close>

text \<open>The settings loop of \<^verbatim>\<open>openH2Session\<close>.\<close>

fun awaitSettings :: "h2frame list \<Rightarrow> go_error option \<Rightarrow> h2_writer \<Rightarrow> h2_writer go option" where
  "awaitSettings [] err w = readEnd err"
| "awaitSettings (f # fs) err w =
     (case f of
        SettingsFrame ack ss \<Rightarrow>
          if ack then awaitSettings fs err w
          else andThen (writeOr WSettingsAck w) (\<lambda>w1. if enablesConnect ss then Some (Inr w1) else awaitSettings fs err w1)
      | _ \<Rightarrow> awaitSettings fs err w)"

record session_env =
  se_dial :: "tls_state go"
  se_frames :: "h2frame list"
  se_end :: "go_error option"
  se_writer :: h2_writer
  se_nanos :: int

definition openH2Session :: "'d hpack \<Rightarrow> session_env \<Rightarrow> ('d h2_session \<times> protocol_proof \<times> rat) go option" where
  "openH2Session hp se =
     andThen (Some (se_dial se)) (\<lambda>st.
       let p0 = tlsProof True 8 st in
       if gateFailed st p0 then Some (Inl (Errorf ''TLS 1.3 ALPN h2 certificate gate failed''))
       else andThen (writeOr WPreface (se_writer se)) (\<lambda>w1.
         andThen (writeOr (WSettings [(8, 1)]) w1) (\<lambda>w2.
           andThen (awaitSettings (se_frames se) (se_end se) w2) (\<lambda>w3.
             Some (Inr (newSession hp w3, p0\<lparr>p_SettingsEnableConnectProtocol := 1\<rparr>, durationMS (se_nanos se)))))))"

definition streamIDs :: "u32 list" where "streamIDs = [1, 3, 5, 7, 9, 11, 13, 15]"

fun openStreams ::
  "'d hpack \<Rightarrow> protocol_proof \<Rightarrow> (u32 \<Rightarrow> select_outcome list) \<Rightarrow> u32 list \<Rightarrow> 'd h2_session \<Rightarrow> (websocket \<times> protocol_proof) list go" where
  "openStreams hp base waits [] s = Inr []"
| "openStreams hp base waits (sid # sids) s =
     (case openWebSocket hp sid base (waits sid) s of
        (Inl e, _) \<Rightarrow> Inl e
      | (Inr x, s1) \<Rightarrow> (case openStreams hp base waits sids s1 of Inl e \<Rightarrow> Inl e | Inr xs \<Rightarrow> Inr (x # xs)))"

text \<open>The aggregate over the streams keeps at most 800 key hashes.\<close>

definition addKey :: "string \<Rightarrow> frame_summary \<times> string set \<Rightarrow> frame_summary \<times> string set" where
  "addKey k = (\<lambda>(a, seen).
     (let a1 = (if k \<in> seen then a\<lparr>fs_DuplicateClientMaskKeys := fs_DuplicateClientMaskKeys a + 1\<rparr> else a);
          a2 = (if length (fs_ClientMaskKeys a1) < 800 then a1\<lparr>fs_ClientMaskKeys := fs_ClientMaskKeys a1 @ [k]\<rparr> else a1) in
      (a2, insert k seen)))"

definition addStream :: "websocket \<Rightarrow> frame_summary \<times> string set \<Rightarrow> frame_summary \<times> string set" where
  "addStream m = (\<lambda>(a, seen).
     fold addKey (fs_ClientMaskKeys (m_summary m))
       (a\<lparr>fs_HeadersFrames := fs_HeadersFrames a + fs_HeadersFrames (m_summary m),
          fs_DataFrames := fs_DataFrames a + fs_DataFrames (m_summary m),
          fs_ClientMessageFrames := fs_ClientMessageFrames a + fs_ClientMessageFrames (m_summary m),
          fs_ServerMessageFrames := fs_ServerMessageFrames a + fs_ServerMessageFrames (m_summary m),
          fs_ClientMaskedFrames := fs_ClientMaskedFrames a + fs_ClientMaskedFrames (m_summary m),
          fs_ServerMaskedFrames := fs_ServerMaskedFrames a + fs_ServerMaskedFrames (m_summary m)\<rparr>, seen))"

definition aggregateFrames :: "int \<Rightarrow> int \<Rightarrow> websocket list \<Rightarrow> frame_summary" where
  "aggregateFrames settings windowUpdates streams =
     (case fold addStream streams (noFrames\<lparr>fs_StreamIDs := streamIDs, fs_StrictPerStreamOrdering := True\<rparr>, {}) of
        (a, seen) \<Rightarrow> a\<lparr>fs_SettingsFrames := settings + 1, fs_WindowUpdateFrames := windowUpdates, fs_UniqueClientMaskKeys := int (card seen)\<rparr>)"

text \<open>What the diagnostic meets; the last two are the counters of the reader when they are loaded.\<close>

record diagnostic_env =
  de_session :: session_env
  de_opens :: "u32 \<Rightarrow> select_outcome list"
  de_preflight :: phase_env
  de_warmup :: phase_env
  de_measured :: phase_env
  de_close :: "nat \<Rightarrow> message_env \<times> select_outcome list"
  de_closeArrival :: "nat list"
  de_settingsFrames :: int
  de_windowUpdateFrames :: int

definition closeStreams :: "diagnostic_env \<Rightarrow> websocket list \<Rightarrow> rat list go \<times> websocket list" where
  "closeStreams de streams =
     (let work = map (\<lambda>(i, m). closeStream (fst (de_close de i)) (snd (de_close de i)) m) (enumerate 0 streams);
          errs = List.map_filter (\<lambda>i. case fst (work ! i) of Inl e \<Rightarrow> Some e | Inr _ \<Rightarrow> None) (de_closeArrival de) in
      (case errs of e # _ \<Rightarrow> Inl e | [] \<Rightarrow> Inr (map (\<lambda>r. case fst r of Inl _ \<Rightarrow> 0 | Inr l \<Rightarrow> l) work), map snd work))"

definition finishDiagnostic ::
  "scenario \<Rightarrow> diagnostic_env \<Rightarrow> protocol_proof \<Rightarrow> rat \<Rightarrow> rat list \<Rightarrow> websocket list \<Rightarrow> measured_summary \<Rightarrow> measured_summary go" where
  "finishDiagnostic spec de p connectionLatency closeLatencies streams measured =
     (let p1 = p\<lparr>p_MessageType := ''text'', p_MessageBytes := length (sc_Payload spec), p_MessageCount := sc_MessageCount spec,
          p_PayloadSHA256 := sc_PayloadHash spec, p_StrictOrdering := True, p_ClientMaskObserved := True,
          p_CloseSent := 1000, p_CloseReceived := 1000, p_CleanCompletion := True\<rparr>;
          a = aggregateFrames (de_settingsFrames de) (de_windowUpdateFrames de) streams in
      if fs_ServerMaskedFrames a \<noteq> 0 then Inl (Errorf ''multiplexed WebSocket masking gate failed'')
      else (let m1 = measured\<lparr>s_CloseLatencies := s_CloseLatencies measured @ closeLatencies, s_ConnectionLatencies := [connectionLatency]\<rparr> in
        Inr (m1\<lparr>s_Last := Some \<lparr>r_Proof = p1, r_Frames = a, r_ConnectionLatencyMS = connectionLatency,
          r_OperationLatencyMS = mean (s_OperationLatencies m1), r_CloseLatencyMS = mean closeLatencies,
          r_Bytes = s_TotalTransferredBytes m1\<rparr>\<rparr>)))"

text \<open>The result is the warm-up and the measured summary, whose last operation is also the preflight.\<close>

definition runMultiMessageDiagnostic ::
  "'d hpack \<Rightarrow> scenario \<Rightarrow> load_profile \<Rightarrow> bool \<Rightarrow> diagnostic_env \<Rightarrow> (measured_summary \<times> measured_summary) go option" where
  "runMultiMessageDiagnostic hp spec profile validationOnly de =
     andThen (openH2Session hp (de_session de)) (\<lambda>(session, base, connectionLatency).
       andThen (Some (openStreams hp base (de_opens de) streamIDs session)) (\<lambda>opened.
         case runConcurrentMessagePhase spec profile 0 True (de_preflight de) (map fst opened) of
           ((_, Some e), _) \<Rightarrow> Some (Inl e)
         | ((pre, None), streams1) \<Rightarrow>
             andThen (Some (if validationOnly then Inr (emptySummary profile, pre, streams1)
               else (case runConcurrentMessagePhase spec profile (lp_Warmup profile) False (de_warmup de) streams1 of
                   ((_, Some e), _) \<Rightarrow> Inl e
                 | ((warm, None), streams2) \<Rightarrow>
                     (case runConcurrentMessagePhase spec profile (lp_Duration profile) False (de_measured de) streams2 of
                        ((_, Some e), _) \<Rightarrow> Inl e
                      | ((meas, None), streams3) \<Rightarrow> Inr (warm, meas, streams3))))) (\<lambda>(warm, meas, streams).
               (case closeStreams de streams of
                  (Inl e, _) \<Rightarrow> Some (Inl e)
                | (Inr lats, streams4) \<Rightarrow>
                    andThen (Some (finishDiagnostic spec de (snd (hd opened)) connectionLatency lats streams4 meas))
                      (\<lambda>m. Some (Inr (warm, m)))))))"

section \<open>The result and the command\<close>

definition percentilesOf :: "rat list \<Rightarrow> rat list \<Rightarrow> rat list" where
  "percentilesOf qs v = map (\<lambda>q. percentile v (f64 q)) qs"

record metric_set =
  x_ConnectionsPerSecond :: rat
  x_MessagesPerSecond :: rat
  x_BytesPerSecond :: rat
  x_ConnectionLatencyMean :: rat
  x_ConnectionLatency :: "rat list"
  x_MessageLatencyMean :: rat
  x_MessageLatency :: "rat list"
  x_ControlFrameLatency :: "rat list"
  x_CloseLatency :: "rat list"
  x_CompletedOperations :: int
  x_CompletedMessages :: int
  x_FailedOperations :: int
  x_TimedOutOperations :: int
  x_TotalTransferredBytes :: int
  x_ObservedConnections :: nat
  x_ObservedStreams :: nat
  x_EffectiveConcurrency :: nat

definition metricsOf :: "scenario \<Rightarrow> measured_summary \<Rightarrow> metric_set" where
  "metricsOf spec s =
     (let d = (if s_DurationSeconds s \<le> 0 then 1 else s_DurationSeconds s);
          connections = (if sc_ID spec = multiMessageID then int (s_ObservedConnections s) else s_CompletedOperations s);
          five = [50 / 100, 75 / 100, 90 / 100, 95 / 100, 99 / 100]; three = [50 / 100, 95 / 100, 99 / 100] in
      \<lparr>x_ConnectionsPerSecond = fdiv (f64 (of_int connections)) d, x_MessagesPerSecond = fdiv (f64 (of_int (s_CompletedMessages s))) d,
       x_BytesPerSecond = fdiv (f64 (of_int (s_TotalTransferredBytes s))) d,
       x_ConnectionLatencyMean = mean (s_ConnectionLatencies s), x_ConnectionLatency = percentilesOf five (s_ConnectionLatencies s),
       x_MessageLatencyMean = mean (s_OperationLatencies s), x_MessageLatency = percentilesOf five (s_OperationLatencies s),
       x_ControlFrameLatency = percentilesOf three (s_OperationLatencies s), x_CloseLatency = percentilesOf three (s_CloseLatencies s),
       x_CompletedOperations = s_CompletedOperations s, x_CompletedMessages = s_CompletedMessages s,
       x_FailedOperations = s_FailedOperations s, x_TimedOutOperations = s_TimedOutOperations s,
       x_TotalTransferredBytes = s_TotalTransferredBytes s, x_ObservedConnections = s_ObservedConnections s,
       x_ObservedStreams = s_ObservedStreams s, x_EffectiveConcurrency = s_EffectiveConcurrency s\<rparr>)"

datatype artifact =
    Unsupported string "string list" | ExecutorIdentity string string "string list" | LoadGeneratorIdentity string string
  | Topology "u32 list" | Failure string string | Validation string "string list" | ProtocolProof protocol_proof
  | OperationSummary operation_result | FrameSummary frame_summary | PayloadHash nat nat string
  | WarmupSummary measured_summary | LoadSummary measured_summary | Result string load_profile "protocol_proof option" metric_set

definition sortedScenarioIDs :: "string list" where
  "sortedScenarioIDs =
     [''http2.websocket.rfc8441.binary-echo'', ''http2.websocket.rfc8441.close'', ''http2.websocket.rfc8441.control-frames'',
      ''http2.websocket.rfc8441.extended-connect'', multiMessageID, ''http2.websocket.rfc8441.text-echo'']"

definition writeIdentity :: "artifact list" where
  "writeIdentity = [ExecutorIdentity executorID executorVersion sortedScenarioIDs, LoadGeneratorIdentity loadGeneratorID loadGeneratorVersion]"

definition emitUnsupported :: "string \<Rightarrow> artifact list" where
  "emitUnsupported name = [Unsupported name sortedScenarioIDs, Unsupported name sortedScenarioIDs] @ writeIdentity"

definition writeFailure :: "string \<Rightarrow> go_error \<Rightarrow> artifact list" where
  "writeFailure name e = [Failure name (errorText e), Failure name (errorText e)] @ writeIdentity"

definition checksOf :: "scenario \<Rightarrow> string list" where
  "checksOf spec =
     [''protocol:h2'', ''tls:1.3'', ''alpn:h2'', ''authenticated-certificate-hashes'', ''session:not-resumed'', ''no-fallback'',
      ''settings-enable-connect-protocol:1'', ''extended-connect'', ''exact-pseudo-headers'', '':protocol:websocket'',
      ''endpoint:/websocket'', ''status:200'', ''no-h1-connection-headers'', ''no-sec-websocket-key'', ''no-sec-websocket-accept'',
      ''no-subprotocol'', ''no-extensions'', ''randomized-client-masking'', ''unmasked-server-frames'', ''close-code:1000'',
      ''zero-unexpected-failures'', ''zero-timeouts''] @
     (if sc_ID spec = multiMessageID
      then [''one-authenticated-h2-connection'', ''eight-concurrent-extended-connect-streams'', ''effective-concurrency:8'',
        ''message-count-per-operation:100'', ''strict-per-stream-order''] else [])"

definition writeProofArtifacts :: "scenario \<Rightarrow> operation_result \<Rightarrow> artifact list" where
  "writeProofArtifacts spec op =
     [Validation (sc_ID spec) (checksOf spec), ProtocolProof (r_Proof op), OperationSummary op, FrameSummary (r_Frames op),
      FrameSummary (r_Frames op), PayloadHash (length (sc_Payload spec)) (sc_MessageCount spec) (sc_PayloadHash spec)]"

definition writeResult :: "scenario \<Rightarrow> load_profile \<Rightarrow> measured_summary \<Rightarrow> artifact list" where
  "writeResult spec profile s =
     (let r = Result (sc_ID spec) profile (map_option r_Proof (s_Last s)) (metricsOf spec s) in [LoadSummary s, r, r])"

definition verifySubstitution :: "env \<Rightarrow> string \<Rightarrow> string \<Rightarrow> bool" where
  "verifySubstitution getenv name expected \<longleftrightarrow> trimSpace (getenv name) = '''' \<or> trimSpace (getenv name) = expected"

definition verifyOptionalInteger :: "env \<Rightarrow> string \<Rightarrow> nat \<Rightarrow> bool" where
  "verifyOptionalInteger getenv name expected \<longleftrightarrow> trimSpace (getenv name) = '''' \<or> trimSpace (getenv name) = itoa expected"

text \<open>\<^verbatim>\<open>int(d.Seconds())\<close> of the profiles' durations, which are whole seconds.\<close>

definition wholeSeconds :: "int \<Rightarrow> nat" where "wholeSeconds ns = nat \<lfloor>durationSeconds ns\<rfloor>"

definition verifyProfileEnvironment :: "env \<Rightarrow> load_profile \<Rightarrow> bool" where
  "verifyProfileEnvironment getenv profile \<longleftrightarrow>
     verifyOptionalInteger getenv ''PLAB_CONNECTIONS'' (lp_Connections profile) \<and>
     verifyOptionalInteger getenv ''PLAB_CONCURRENCY'' (lp_Concurrency profile) \<and>
     verifyOptionalInteger getenv ''PLAB_STREAMS_PER_CONNECTION'' (lp_StreamsPerConnection profile) \<and>
     verifyOptionalInteger getenv ''PLAB_DURATION_SECONDS'' (wholeSeconds (lp_Duration profile)) \<and>
     verifyOptionalInteger getenv ''PLAB_WARMUP_SECONDS'' (wholeSeconds (lp_Warmup profile)) \<and>
     verifyOptionalInteger getenv ''PLAB_COOLDOWN_SECONDS'' (wholeSeconds (lp_Cooldown profile)) \<and>
     verifyOptionalInteger getenv ''PLAB_REPETITION'' (lp_Repetitions profile) \<and>
     verifyOptionalInteger getenv ''PLAB_REQUEST_TIMEOUT_SECONDS'' (wholeSeconds (lp_OperationTimeout profile))"

fun hasInfix :: "string \<Rightarrow> string \<Rightarrow> bool" where
  "hasInfix p [] \<longleftrightarrow> p = []"
| "hasInfix p (c # cs) \<longleftrightarrow> take (length p) (c # cs) = p \<or> hasInfix p cs"

definition normalizeTarget :: "(string \<Rightarrow> go_error option) \<Rightarrow> (string \<Rightarrow> (string \<times> string) go) \<Rightarrow> string \<Rightarrow> string go" where
  "normalizeTarget split parse v =
     (let value = trimSpace v in
      if value = '''' then Inl (Errorf ''target required'')
      else if \<not> hasInfix ''://'' value then (case split value of Some e \<Rightarrow> Inl e | None \<Rightarrow> Inr value)
      else (case parse value of
          Inl e \<Rightarrow> Inl e
        | Inr (scheme, host) \<Rightarrow>
            if scheme \<noteq> ''https'' \<or> host = '''' then Inl (Errorf ''target must use https://host:port'') else Inr host))"

definition loadRoots :: "bytes go \<Rightarrow> (bytes \<Rightarrow> bool) \<Rightarrow> go_error option" where
  "loadRoots file parses =
     (case file of Inl e \<Rightarrow> Some e | Inr pem \<Rightarrow> if \<not> parses pem then Some (Errorf ''root certificate invalid'') else None)"

text \<open>What a run meets: the preflight, the passes of warm-up and measured phase with their times, and the diagnostic.\<close>

record run_env =
  re_preflight :: op_env
  re_warmup :: "op_env list"
  re_warmupNanos :: int
  re_measured :: "op_env list"
  re_measuredNanos :: int
  re_diagnostic :: diagnostic_env

text \<open>The work of a run: the preflight operation, the warm-up and the measured summary.\<close>

definition runScenario ::
  "'d hpack \<Rightarrow> scenario \<Rightarrow> load_profile \<Rightarrow> bool \<Rightarrow> run_env \<Rightarrow> (operation_result \<times> measured_summary \<times> measured_summary) go option" where
  "runScenario hp spec profile validationOnly re =
     (if sc_ID spec = multiMessageID
      then andThen (runMultiMessageDiagnostic hp spec profile validationOnly (re_diagnostic re)) (\<lambda>(warm, meas).
        Some (Inr (the (s_Last meas), warm, meas)))
      else andThen (runOperation hp spec (re_preflight re)) (\<lambda>op.
        if validationOnly then Some (Inr (op, zeroSummary, summaryFromOperation op profile))
        else (case runFor hp spec profile (re_warmup re) (re_warmupNanos re) of
            None \<Rightarrow> None
          | Some warm \<Rightarrow> (case runFor hp spec profile (re_measured re) (re_measuredNanos re) of
                None \<Rightarrow> None | Some meas \<Rightarrow> Some (Inr (op, warm, meas))))))"

definition phaseRejected :: "measured_summary \<Rightarrow> bool" where
  "phaseRejected s \<longleftrightarrow> s_CompletedOperations s = 0 \<or> s_FailedOperations s \<noteq> 0 \<or> s_TimedOutOperations s \<noteq> 0"

definition substitutionsOk :: "env \<Rightarrow> bool" where
  "substitutionsOk getenv \<longleftrightarrow>
     verifySubstitution getenv ''PLAB_EXECUTOR_ID'' executorID \<and> verifySubstitution getenv ''PLAB_EXECUTOR_VERSION'' executorVersion \<and>
     verifySubstitution getenv ''PLAB_LOAD_GENERATOR_ID'' loadGeneratorID \<and>
     verifySubstitution getenv ''PLAB_LOAD_GENERATOR_VERSION'' loadGeneratorVersion \<and>
     verifySubstitution getenv ''PLAB_PROTOCOL'' ''h2'' \<and> verifySubstitution getenv ''PLAB_PROTOCOL_VARIANT'' protocolVariant"

text \<open>The command after its flags: the files it writes and its exit code, or \<open>None\<close> when it never ends. The
  normalised target and the roots are arguments.\<close>

definition runMain ::
  "'d hpack \<Rightarrow> env \<Rightarrow> string go \<Rightarrow> go_error option \<Rightarrow> bool \<Rightarrow> run_env \<Rightarrow> (artifact list \<times> nat) option" where
  "runMain hp getenv target roots validationOnly re =
     (if \<not> substitutionsOk getenv then Some ([], 2)
      else (let name = trimSpace (getenv ''PLAB_SCENARIO_ID'') in
        case scenarioOf name of
          None \<Rightarrow> Some (if name \<in> set knownUnsupported then (emitUnsupported name, 3) else ([], 2))
        | Some spec \<Rightarrow>
            (let profile = profileFor spec in
             if \<not> verifySubstitution getenv ''PLAB_LOAD_PROFILE_ID'' (lp_ID profile) \<or> \<not> verifyProfileEnvironment getenv profile
             then Some ([], 2)
             else if isl target \<or> roots \<noteq> None then Some ([], 2)
             else (case runScenario hp spec profile validationOnly re of
                 None \<Rightarrow> None
               | Some (Inl e) \<Rightarrow> Some (writeIdentity @ writeFailure (sc_ID spec) e, 1)
               | Some (Inr (op, warm, meas)) \<Rightarrow>
                   Some (writeIdentity @ (if sc_ID spec = multiMessageID then [Topology streamIDs] else []) @
                     writeProofArtifacts spec op @ [WarmupSummary warm] @ writeResult spec profile meas,
                     if phaseRejected meas then 1 else 0)))))"

end
