(* ===== verification/H2ws_Interop.thy ===== *)
theory H2ws_Interop
  imports H2ws_Run "HOL-Library.Multiset"
begin

text \<open>
  Phases and runs of the HTTP/2 WebSocket executor as a whole: the accounting of phases, runs that pass against a
  server that serves them, the independence of a concurrent phase from the order in which its workers
  finish, and its dependence on how they overlap.
\<close>

section \<open>Sequential phases\<close>

definition attempts :: "measured_summary \<Rightarrow> int" where
  "attempts s = s_CompletedOperations s + s_FailedOperations s + s_TimedOutOperations s"

lemma recorded [simp]:
  "attempts (recordError e s) = attempts s + 1" "attempts (recordSuccess spec op s) = attempts s + 1"
  "s_CompletedOperations (recordError e s) = s_CompletedOperations s"
  "s_CompletedOperations (recordSuccess spec op s) = s_CompletedOperations s + 1"
  "s_OperationLatencies (recordError e s) = s_OperationLatencies s"
  "length (s_OperationLatencies (recordSuccess spec op s)) = length (s_OperationLatencies s) + 1"
  by (simp_all add: attempts_def recordError_def recordSuccess_def)

text \<open>A phase that ends has counted every operation exactly once, as completed, failed or timed out, and has a latency for
  exactly the completed ones.\<close>

theorem h2ws_phase_accounting:
  assumes "runFor hp spec profile rounds nanos = Some s"
  shows "s_CompletedOperations s + s_FailedOperations s + s_TimedOutOperations s = int (length rounds) \<and>
    int (length (s_OperationLatencies s)) = s_CompletedOperations s"
proof -
  have "attempts s1 = attempts s0 + int (length rounds) \<and>
      int (length (s_OperationLatencies s1)) - s_CompletedOperations s1 = int (length (s_OperationLatencies s0)) - s_CompletedOperations s0"
    if "phaseLoop hp spec rounds s0 = Some s1" for s0 s1
    using that
  proof (induction rounds arbitrary: s0)
    case (Cons oe rounds)
    then consider e where "phaseLoop hp spec rounds (recordError e s0) = Some s1"
      | op where "phaseLoop hp spec rounds (recordSuccess spec op s0) = Some s1"
      by (auto split: option.splits sum.splits)
    then show ?case
    proof cases
      case 1
      from Cons.IH [OF this] show ?thesis by simp
    next
      case 2
      from Cons.IH [OF this] show ?thesis by simp
    qed
  qed simp
  with assms show ?thesis by (fastforce simp: runFor_def attempts_def emptySummary_def zeroSummary_def)
qed

text \<open>Phases in which every operation is served.\<close>

lemma served_phase:
  assumes "spec \<in> set scenarios" "list_all (operationServed hp spec) rounds"
  shows "\<exists>s'. phaseLoop hp spec rounds s = Some s' \<and> s_CompletedOperations s' = s_CompletedOperations s + int (length rounds) \<and>
    s_FailedOperations s' = s_FailedOperations s \<and> s_TimedOutOperations s' = s_TimedOutOperations s \<and>
    s_TotalTransferredBytes s' = s_TotalTransferredBytes s + int (length rounds * (sc_MessageCount spec * (length (sc_Payload spec) * 2)))"
  using assms(2)
proof (induction rounds arbitrary: s)
  case (Cons oe rounds)
  from operation_completes [OF assms(1), of hp oe] Cons.prems obtain r where
    r: "runOperation hp spec oe = Some (Inr r)" "r_Bytes r = int (sc_MessageCount spec * (length (sc_Payload spec) * 2))" by auto
  have "s_FailedOperations (recordSuccess spec r s) = s_FailedOperations s" "s_TimedOutOperations (recordSuccess spec r s) = s_TimedOutOperations s"
    "s_TotalTransferredBytes (recordSuccess spec r s) = s_TotalTransferredBytes s + r_Bytes r"
    by (simp_all add: recordSuccess_def)
  with r Cons.IH [of "recordSuccess spec r s"] Cons.prems show ?case by (auto simp: algebra_simps)
qed simp

definition selected :: "env \<Rightarrow> scenario \<Rightarrow> bool" where
  "selected getenv spec \<longleftrightarrow> substitutionsOk getenv \<and> scenarioOf (trimSpace (getenv ''PLAB_SCENARIO_ID'')) = Some spec \<and>
     verifySubstitution getenv ''PLAB_LOAD_PROFILE_ID'' (lp_ID (profileFor spec)) \<and> verifyProfileEnvironment getenv (profileFor spec)"

lemma scenarioOf_member: "scenarioOf name = Some spec \<Longrightarrow> spec \<in> set scenarios"
  unfolding scenarioOf_def by (metis find_Some_iff nth_mem)

lemma scenarioOf_ID: "scenarioOf name = Some spec \<Longrightarrow> sc_ID spec = name"
  by (auto simp: scenarioOf_def find_Some_iff)

text \<open>C32: A run of the command with a scenario of one message or none, against a server that serves every operation, exits with 0 and
  reports exactly the operations of the measured phase and their bytes.\<close>

theorem h2ws_run_passes:
  assumes "selected getenv spec" "sc_ID spec \<noteq> multiMessageID" "operationServed hp spec (re_preflight re)"
    and "list_all (operationServed hp spec) (re_warmup re)" "list_all (operationServed hp spec) (re_measured re)" "re_measured re \<noteq> []"
  shows "\<exists>written p x. runMain hp getenv (Inr target) None False re =
      Some (written @ [Result (sc_ID spec) (profileFor spec) p x], 0) \<and> x_CompletedOperations x = int (length (re_measured re)) \<and>
    x_TotalTransferredBytes x = int (length (re_measured re) * (sc_MessageCount spec * (length (sc_Payload spec) * 2)))"
proof -
  have m: "spec \<in> set scenarios" using assms(1) scenarioOf_member by (auto simp: selected_def)
  let ?e = "emptySummary (profileFor spec)"
  have z: "s_CompletedOperations ?e = 0" "s_FailedOperations ?e = 0" "s_TimedOutOperations ?e = 0" "s_TotalTransferredBytes ?e = 0"
    by (simp_all add: emptySummary_def zeroSummary_def)
  obtain op where op: "runOperation hp spec (re_preflight re) = Some (Inr op)" using operation_completes [OF m assms(3)] by blast
  obtain warm where warm: "runFor hp spec (profileFor spec) (re_warmup re) (re_warmupNanos re) = Some warm"
    using served_phase [OF m assms(4), of ?e] by (auto simp: runFor_def)
  obtain meas where meas: "runFor hp spec (profileFor spec) (re_measured re) (re_measuredNanos re) = Some meas"
      "s_CompletedOperations meas = int (length (re_measured re))" "s_FailedOperations meas = 0" "s_TimedOutOperations meas = 0"
      "s_TotalTransferredBytes meas = int (length (re_measured re) * (sc_MessageCount spec * (length (sc_Payload spec) * 2)))"
    using served_phase [OF m assms(5), of ?e] z by (auto simp: runFor_def)
  have "runScenario hp spec (profileFor spec) False re = Some (Inr (op, warm, meas))"
    using assms(2) op warm meas(1) by (simp add: runScenario_def)
  moreover have "\<not> phaseRejected meas" using meas assms(6) by (simp add: phaseRejected_def)
  ultimately show ?thesis using assms(1,2) meas
    by (auto simp: runMain_def selected_def Let_def writeResult_def metricsOf_def)
qed

section \<open>Concurrent phases\<close>

text \<open>What the merge of a worker adds, which does not depend on the order.\<close>

lemma merged_totals:
  "fold (\<lambda>i. mergeWorker (f i)) order (s, err) = (s', err') \<Longrightarrow>
   s_CompletedOperations s' = s_CompletedOperations s + sum_list (map (\<lambda>i. wr_operations (f i)) order) \<and>
   s_CompletedMessages s' = s_CompletedMessages s + sum_list (map (\<lambda>i. wr_messages (f i)) order) \<and>
   s_TotalTransferredBytes s' = s_TotalTransferredBytes s + sum_list (map (\<lambda>i. wr_bytes (f i)) order) \<and>
   s_FailedOperations s' = s_FailedOperations s + sum_list (map (\<lambda>i. st_FailedOperations (wr_stream (f i))) order) \<and>
   s_TimedOutOperations s' = s_TimedOutOperations s + sum_list (map (\<lambda>i. st_TimedOutOperations (wr_stream (f i))) order) \<and>
   s_PerStream s' = s_PerStream s @ map (\<lambda>i. wr_stream (f i)) order \<and>
   s_OperationLatencies s' = s_OperationLatencies s @ concat (map (\<lambda>i. wr_latencies (f i)) order) \<and>
   s_DurationSeconds s' = s_DurationSeconds s \<and> (err' = None \<longleftrightarrow> err = None \<and> list_all (\<lambda>i. wr_err (f i) = None) order)"
proof (induction order arbitrary: s err)
  case (Cons i order)
  obtain s1 err1 where m: "mergeWorker (f i) (s, err) = (s1, err1)" by fastforce
  then have "s_CompletedOperations s1 = s_CompletedOperations s + wr_operations (f i)"
    "s_CompletedMessages s1 = s_CompletedMessages s + wr_messages (f i)" "s_TotalTransferredBytes s1 = s_TotalTransferredBytes s + wr_bytes (f i)"
    "s_FailedOperations s1 = s_FailedOperations s + st_FailedOperations (wr_stream (f i))"
    "s_TimedOutOperations s1 = s_TimedOutOperations s + st_TimedOutOperations (wr_stream (f i))"
    "s_PerStream s1 = s_PerStream s @ [wr_stream (f i)]" "s_OperationLatencies s1 = s_OperationLatencies s @ wr_latencies (f i)"
    "s_DurationSeconds s1 = s_DurationSeconds s" "err1 = None \<longleftrightarrow> err = None \<and> wr_err (f i) = None"
    by (cases "wr_err (f i)"; auto simp: mergeWorker_def Let_def split: if_splits)+
  with Cons.IH [of s1 err1] Cons.prems m show ?case by auto
qed simp

definition workers :: "scenario \<Rightarrow> bool \<Rightarrow> phase_env \<Rightarrow> websocket list \<Rightarrow> (worker_result \<times> websocket) list" where
  "workers spec exactlyOne pe streams = map (\<lambda>(i, m). runWorker spec exactlyOne (pe_groups pe i) m) (enumerate 0 streams)"

lemma length_workers [simp]: "length (workers spec one pe streams) = length streams"
  by (simp add: workers_def)

lemma nth_workers: "i < length streams \<Longrightarrow> workers spec one pe streams ! i = runWorker spec one (pe_groups pe i) (streams ! i)"
  by (simp add: workers_def nth_enumerate_eq)

lemma phase_result:
  assumes "runConcurrentMessagePhase spec profile duration one pe streams = ((s, err), ms)"
  shows "s_CompletedOperations s = sum_list (map (\<lambda>i. wr_operations (fst (workers spec one pe streams ! i))) (pe_arrival pe))"
    "s_CompletedMessages s = sum_list (map (\<lambda>i. wr_messages (fst (workers spec one pe streams ! i))) (pe_arrival pe))"
    "s_TotalTransferredBytes s = sum_list (map (\<lambda>i. wr_bytes (fst (workers spec one pe streams ! i))) (pe_arrival pe))"
    "s_FailedOperations s = sum_list (map (\<lambda>i. st_FailedOperations (wr_stream (fst (workers spec one pe streams ! i)))) (pe_arrival pe))"
    "s_TimedOutOperations s = sum_list (map (\<lambda>i. st_TimedOutOperations (wr_stream (fst (workers spec one pe streams ! i)))) (pe_arrival pe))"
    "s_PerStream s = sort_key st_StreamID (map (\<lambda>i. wr_stream (fst (workers spec one pe streams ! i))) (pe_arrival pe))"
    "s_OperationLatencies s = concat (map (\<lambda>i. wr_latencies (fst (workers spec one pe streams ! i))) (pe_arrival pe))"
    "s_EffectiveConcurrency s = pc_peak (runSchedule (length streams) (pe_schedule pe))"
    "err = None \<longleftrightarrow> pc_peak (runSchedule (length streams) (pe_schedule pe)) = lp_Concurrency profile \<and>
       list_all (\<lambda>i. wr_err (fst (workers spec one pe streams ! i)) = None) (pe_arrival pe)"
    "ms = map snd (workers spec one pe streams)"
proof -
  let ?s0 = "(emptySummary profile)\<lparr>s_DurationSeconds := (if one then 0 else durationSeconds duration)\<rparr>"
  obtain s1 err1 where m: "fold (\<lambda>i. mergeWorker (fst (workers spec one pe streams ! i))) (pe_arrival pe) (?s0, None) = (s1, err1)" by fastforce
  note t = merged_totals [OF m]
  have z: "s_CompletedOperations ?s0 = 0" "s_CompletedMessages ?s0 = 0" "s_TotalTransferredBytes ?s0 = 0" "s_FailedOperations ?s0 = 0"
    "s_TimedOutOperations ?s0 = 0" "s_PerStream ?s0 = []" "s_OperationLatencies ?s0 = []"
    by (simp_all add: emptySummary_def zeroSummary_def)
  have r: "runConcurrentMessagePhase spec profile duration one pe streams =
      (let peak = pc_peak (runSchedule (length streams) (pe_schedule pe));
           s2 = s1\<lparr>s_PerStream := sort_key st_StreamID (s_PerStream s1), s_EffectiveConcurrency := peak\<rparr> in
       if peak \<noteq> lp_Concurrency profile
       then ((s2, Some (Errorf (''effective concurrency mismatch: expected '' @ itoa (lp_Concurrency profile) @ '' observed '' @ itoa peak))), map snd (workers spec one pe streams))
       else ((if s_DurationSeconds s2 = 0 then s2\<lparr>s_DurationSeconds := durationSeconds (pe_nanos pe)\<rparr> else s2, err1), map snd (workers spec one pe streams)))"
    using m unfolding runConcurrentMessagePhase_def workers_def [symmetric] by (simp add: Let_def)
  have "s_CompletedOperations s = s_CompletedOperations s1" "s_CompletedMessages s = s_CompletedMessages s1"
    "s_TotalTransferredBytes s = s_TotalTransferredBytes s1" "s_FailedOperations s = s_FailedOperations s1"
    "s_TimedOutOperations s = s_TimedOutOperations s1" "s_PerStream s = sort_key st_StreamID (s_PerStream s1)"
    "s_OperationLatencies s = s_OperationLatencies s1"
    and e: "s_EffectiveConcurrency s = pc_peak (runSchedule (length streams) (pe_schedule pe))"
      "err = None \<longleftrightarrow> pc_peak (runSchedule (length streams) (pe_schedule pe)) = lp_Concurrency profile \<and> err1 = None"
      "ms = map snd (workers spec one pe streams)"
    using assms unfolding r by (auto simp: Let_def split: if_splits)
  note q = this(1-7)
  show "s_CompletedOperations s = sum_list (map (\<lambda>i. wr_operations (fst (workers spec one pe streams ! i))) (pe_arrival pe))"
    "s_CompletedMessages s = sum_list (map (\<lambda>i. wr_messages (fst (workers spec one pe streams ! i))) (pe_arrival pe))"
    "s_TotalTransferredBytes s = sum_list (map (\<lambda>i. wr_bytes (fst (workers spec one pe streams ! i))) (pe_arrival pe))"
    "s_FailedOperations s = sum_list (map (\<lambda>i. st_FailedOperations (wr_stream (fst (workers spec one pe streams ! i)))) (pe_arrival pe))"
    "s_TimedOutOperations s = sum_list (map (\<lambda>i. st_TimedOutOperations (wr_stream (fst (workers spec one pe streams ! i)))) (pe_arrival pe))"
    "s_PerStream s = sort_key st_StreamID (map (\<lambda>i. wr_stream (fst (workers spec one pe streams ! i))) (pe_arrival pe))"
    "s_OperationLatencies s = concat (map (\<lambda>i. wr_latencies (fst (workers spec one pe streams ! i))) (pe_arrival pe))"
    using t q z by simp_all
  show "s_EffectiveConcurrency s = pc_peak (runSchedule (length streams) (pe_schedule pe))" by (rule e(1))
  show "err = None \<longleftrightarrow> pc_peak (runSchedule (length streams) (pe_schedule pe)) = lp_Concurrency profile \<and>
      list_all (\<lambda>i. wr_err (fst (workers spec one pe streams ! i)) = None) (pe_arrival pe)" using e(2) t by simp
  show "ms = map snd (workers spec one pe streams)" by (rule e(3))
qed

lemma workerLoop_streamID: "st_StreamID (wr_stream (fst (workerLoop spec gs m r))) = st_StreamID (wr_stream r)"
  by (induction gs arbitrary: m r) (auto simp: workerError_def split: prod.splits option.splits)

lemma runWorker_streamID: "st_StreamID (wr_stream (fst (runWorker spec one gs m))) = m_streamID m"
proof -
  obtain r m1 where w: "workerLoop spec (if one then take 1 gs else gs) m (newWorker (m_streamID m)) = (r, m1)" by fastforce
  with workerLoop_streamID [of spec "if one then take 1 gs else gs" m "newWorker (m_streamID m)"] show ?thesis
    by (simp add: runWorker_def w finishWorker_def newWorker_def)
qed

lemma sum_same: "mset xs = mset ys \<Longrightarrow> sum_list (map f xs) = sum_list (map (f :: _ \<Rightarrow> 'b :: comm_monoid_add) ys)"
  by (metis mset_map sum_mset_sum_list)

lemma sort_same: "mset xs = mset ys \<Longrightarrow> sort xs = sort (ys :: rat list)"
  by (metis mset_sort properties_for_sort sorted_sort)

lemma percentile_same: "mset xs = mset ys \<Longrightarrow> percentile xs q = percentile ys q"
proof -
  assume m: "mset xs = mset ys"
  then have "xs = [] \<longleftrightarrow> ys = []" "length xs = length ys" by (auto dest: mset_eq_length)
  with sort_same [OF m] show ?thesis by (simp add: percentile_def Let_def)
qed

lemma sort_key_distinct:
  assumes "mset xs = mset ys" "distinct (map f xs)"
  shows "sort_key f xs = sort_key f ys"
proof (rule properties_for_sort_key)
  show "mset (sort_key f ys) = mset xs" using assms(1) by simp
  show "sorted (map f (sort_key f ys))" by simp
  fix k assume "k \<in> set (sort_key f ys)"
  then have k: "k \<in> set xs" using assms(1) by (metis mset_eq_setD set_sort)
  have d: "distinct (map f (sort_key f ys))" using assms by (metis distinct_sort mset_eq_imp_distinct_iff mset_map mset_sort)
  have one: "filter (\<lambda>x. f k = f x) zs = [k]" if "k \<in> set zs" "distinct (map f zs)" for zs
    using that by (induction zs) (auto simp: filter_empty_conv image_iff)
  show "filter (\<lambda>x. f k = f x) (sort_key f ys) = filter (\<lambda>x. f k = f x) xs"
    using one [OF _ d] one [OF k assms(2)] k assms(1) by (metis mset_eq_setD set_sort)
qed

text \<open>C38: The order in which the workers of a concurrent phase deliver their results does not matter: the totals, the summaries per
  stream, every latency percentile, the verdict and the streams are the same for any two orders.\<close>

theorem h2ws_arrival_order:
  assumes "runConcurrentMessagePhase spec profile duration one pe streams = ((s, err), ms)"
    and "runConcurrentMessagePhase spec profile duration one (pe\<lparr>pe_arrival := other\<rparr>) streams = ((s', err'), ms')"
    and "mset (pe_arrival pe) = mset [0..<length streams]" "mset other = mset [0..<length streams]" "distinct (map m_streamID streams)"
  shows "s_CompletedOperations s = s_CompletedOperations s' \<and> s_CompletedMessages s = s_CompletedMessages s' \<and>
    s_TotalTransferredBytes s = s_TotalTransferredBytes s' \<and> s_FailedOperations s = s_FailedOperations s' \<and>
    s_TimedOutOperations s = s_TimedOutOperations s' \<and> s_PerStream s = s_PerStream s' \<and>
    percentile (s_OperationLatencies s) q = percentile (s_OperationLatencies s') q \<and> (err = None \<longleftrightarrow> err' = None) \<and> ms = ms'"
proof -
  have w: "workers spec one (pe\<lparr>pe_arrival := other\<rparr>) streams = workers spec one pe streams" by (simp add: workers_def)
  let ?w = "\<lambda>i. fst (workers spec one pe streams ! i)"
  have m: "mset (map f (pe_arrival pe)) = mset (map f other)" for f :: "nat \<Rightarrow> 'x" using assms(3,4) by simp
  have mo: "mset (pe_arrival pe) = mset other" using assms(3,4) by simp
  have st: "set (pe_arrival pe) = set [0..<length streams]" "set other = set [0..<length streams]"
    using assms(3,4) by (metis mset_eq_setD)+
  have d: "distinct (pe_arrival pe)" using assms(3) by (metis distinct_upt mset_eq_imp_distinct_iff)
  have ids: "map (\<lambda>i. st_StreamID (wr_stream (?w i))) (pe_arrival pe) = map (\<lambda>i. m_streamID (streams ! i)) (pe_arrival pe)"
    using st(1) by (auto simp: nth_workers runWorker_streamID)
  have "inj_on (\<lambda>i. m_streamID (streams ! i)) (set (pe_arrival pe))"
    using st(1) nth_eq_iff_index_eq [OF assms(5)] by (auto simp: inj_on_def)
  with d ids have dd: "distinct (map st_StreamID (map (\<lambda>i. wr_stream (?w i)) (pe_arrival pe)))"
    by (simp add: distinct_map comp_def inj_on_def)
  have per: "sort_key st_StreamID (map (\<lambda>i. wr_stream (?w i)) (pe_arrival pe)) = sort_key st_StreamID (map (\<lambda>i. wr_stream (?w i)) other)"
    by (rule sort_key_distinct [OF m dd])
  have lat: "mset (concat (map (\<lambda>i. wr_latencies (?w i)) (pe_arrival pe))) = mset (concat (map (\<lambda>i. wr_latencies (?w i)) other))"
    using sum_same [OF mo, of "\<lambda>i. mset (wr_latencies (?w i))"] by (simp add: mset_concat comp_def)
  have "list_all (\<lambda>i. wr_err (?w i) = None) (pe_arrival pe) \<longleftrightarrow> list_all (\<lambda>i. wr_err (?w i) = None) other"
    using st by (simp add: list_all_iff)
  with phase_result [OF assms(1)] phase_result [OF assms(2)] sum_same [OF mo, where ?'b = int] per percentile_same [OF lat]
  show ?thesis by (simp add: w)
qed

section \<open>Workers that are served\<close>

text \<open>A group whose waits bring exactly one hundred echoes.\<close>

definition groupServed :: "group_env \<Rightarrow> bool" where
  "groupServed g \<longleftrightarrow> envWorks (ge_message g) [0..<100] \<and> list_all delivers (ge_waits g) \<and>
     streamBytes (ge_waits g) = concat (replicate 100 (plainFrame (1, of_string textPayload)))"

lemma worker_served:
  assumes "scenarioOf multiMessageID = Some spec" "list_all groupServed gs" "m_pending m = []"
  shows "\<exists>r' m'. workerLoop spec gs m r = (r', m') \<and> m_pending m' = [] \<and> m_streamID m' = m_streamID m \<and>
    fs_ServerMaskedFrames (m_summary m') = fs_ServerMaskedFrames (m_summary m) \<and>
    wr_operations r' = wr_operations r + int (length gs) \<and> wr_bytes r' = wr_bytes r + 2400 * int (length gs) \<and>
    wr_err r' = wr_err r \<and> wr_stream r' = wr_stream r"
  using assms(2,3)
proof (induction gs arbitrary: m r)
  case (Cons g gs)
  have s: "m_pending m @ streamBytes (ge_waits g) = concat (replicate 100 (plainFrame (1, of_string textPayload))) @ []"
    "envWorks (ge_message g) [0..<100]" "list_all delivers (ge_waits g)"
    using Cons.prems by (simp_all add: groupServed_def)
  from multi_group [OF assms(1) s(2,3,1)] obtain grp m1 ws where
    g: "runMessageGroup spec (ge_message g) (ge_waits g) m = ((grp, None), m1, ws)" "g_TransferredBytes grp = 2400"
      "m_pending m1 = []" "m_streamID m1 = m_streamID m" "fs_ServerMaskedFrames (m_summary m1) = fs_ServerMaskedFrames (m_summary m)" by auto
  let ?r = "r\<lparr>wr_operations := wr_operations r + 1, wr_messages := wr_messages r + int (sc_MessageCount spec),
    wr_bytes := wr_bytes r + g_TransferredBytes grp, wr_latencies := wr_latencies r @ g_MessageLatencies grp\<rparr>"
  from Cons.IH [OF _ g(3), of ?r] Cons.prems(1) g show ?case by (auto simp: algebra_simps)
qed simp

lemma runWorker_served:
  assumes "scenarioOf multiMessageID = Some spec" "list_all groupServed (if one then take 1 gs else gs)" "m_pending m = []"
  shows "\<exists>r m'. runWorker spec one gs m = (r, m') \<and> m_pending m' = [] \<and> m_streamID m' = m_streamID m \<and>
    fs_ServerMaskedFrames (m_summary m') = fs_ServerMaskedFrames (m_summary m) \<and>
    wr_operations r = int (length (if one then take 1 gs else gs)) \<and> wr_err r = None \<and>
    st_FailedOperations (wr_stream r) = 0 \<and> st_TimedOutOperations (wr_stream r) = 0 \<and>
    wr_bytes r = 2400 * int (length (if one then take 1 gs else gs))"
  using worker_served [OF assms, of "newWorker (m_streamID m)"]
  by (auto simp: runWorker_def finishWorker_def newWorker_def)

text \<open>What a phase needs of its environment and its streams.\<close>

definition phaseServed :: "bool \<Rightarrow> phase_env \<Rightarrow> bool" where
  "phaseServed one pe \<longleftrightarrow> mset (pe_arrival pe) = mset [0..<8] \<and>
     list_all (\<lambda>i. list_all groupServed (if one then take 1 (pe_groups pe i) else pe_groups pe i)) [0..<8]"

definition streamsReady :: "websocket list \<Rightarrow> bool" where
  "streamsReady ms \<longleftrightarrow> length ms = 8 \<and> list_all (\<lambda>m. m_pending m = [] \<and> fs_ServerMaskedFrames (m_summary m) = 0) ms"

definition groupCount :: "bool \<Rightarrow> phase_env \<Rightarrow> int" where
  "groupCount one pe = sum_list (map (\<lambda>i. int (length (if one then take 1 (pe_groups pe i) else pe_groups pe i))) [0..<8])"

lemma phase_served:
  assumes "scenarioOf multiMessageID = Some spec" "phaseServed one pe" "streamsReady ms"
    and "runConcurrentMessagePhase spec profile duration one pe ms = ((s, err), ms')"
  shows "streamsReady ms'" "s_CompletedOperations s = groupCount one pe" "s_FailedOperations s = 0" "s_TimedOutOperations s = 0"
    "s_TotalTransferredBytes s = 2400 * groupCount one pe"
    "err = None \<longleftrightarrow> pc_peak (runSchedule 8 (pe_schedule pe)) = lp_Concurrency profile"
proof -
  have l: "length ms = 8" using assms(3) by (simp add: streamsReady_def)
  have w: "wr_err (fst (workers spec one pe ms ! i)) = None" "st_FailedOperations (wr_stream (fst (workers spec one pe ms ! i))) = 0"
    "st_TimedOutOperations (wr_stream (fst (workers spec one pe ms ! i))) = 0"
    "wr_operations (fst (workers spec one pe ms ! i)) = int (length (if one then take 1 (pe_groups pe i) else pe_groups pe i))"
    "wr_bytes (fst (workers spec one pe ms ! i)) = 2400 * int (length (if one then take 1 (pe_groups pe i) else pe_groups pe i))"
    "m_pending (snd (workers spec one pe ms ! i)) = []" "fs_ServerMaskedFrames (m_summary (snd (workers spec one pe ms ! i))) = 0"
    if "i < 8" for i
  proof -
    have "list_all groupServed (if one then take 1 (pe_groups pe i) else pe_groups pe i)" "m_pending (ms ! i) = []"
      "fs_ServerMaskedFrames (m_summary (ms ! i)) = 0"
      using that assms(2,3) by (auto simp: phaseServed_def streamsReady_def list_all_length)
    with runWorker_served [OF assms(1) this(1,2)] that l
    show "wr_err (fst (workers spec one pe ms ! i)) = None" "st_FailedOperations (wr_stream (fst (workers spec one pe ms ! i))) = 0"
      "st_TimedOutOperations (wr_stream (fst (workers spec one pe ms ! i))) = 0"
      "wr_operations (fst (workers spec one pe ms ! i)) = int (length (if one then take 1 (pe_groups pe i) else pe_groups pe i))"
      "wr_bytes (fst (workers spec one pe ms ! i)) = 2400 * int (length (if one then take 1 (pe_groups pe i) else pe_groups pe i))"
      "m_pending (snd (workers spec one pe ms ! i)) = []" "fs_ServerMaskedFrames (m_summary (snd (workers spec one pe ms ! i))) = 0"
      by (auto simp: nth_workers)
  qed
  have ar: "mset (pe_arrival pe) = mset [0..<8]" using assms(2) by (simp only: phaseServed_def)
  have st: "set (pe_arrival pe) = {0..<8}" using mset_eq_setD [OF ar] by (simp only: set_upt)
  note sums = sum_same [OF ar, where ?'b = int]
  note p = phase_result [OF assms(4)]
  show "streamsReady ms'" using w l p(10) by (auto simp: streamsReady_def list_all_length)
  have c: "sum_list (map f [0..<8]) = sum_list (map g [0..<8])" if "\<And>i. i < 8 \<Longrightarrow> f i = (g i :: int)" for f g
    using that by (intro arg_cong [of _ _ sum_list]) auto
  show "s_CompletedOperations s = groupCount one pe" unfolding p(1) sums groupCount_def by (rule c) (simp only: w)
  show "s_FailedOperations s = 0" unfolding p(4) sums using c [of _ "\<lambda>_. 0"] w(2) by simp
  show "s_TimedOutOperations s = 0" unfolding p(5) sums using c [of _ "\<lambda>_. 0"] w(3) by simp
  show "s_TotalTransferredBytes s = 2400 * groupCount one pe"
    unfolding p(3) sums groupCount_def sum_list_const_mult [symmetric] by (rule c) (simp only: w)
  show "err = None \<longleftrightarrow> pc_peak (runSchedule 8 (pe_schedule pe)) = lp_Concurrency profile"
    using p(9) w(1) st l by (auto simp: list_all_iff)
qed

text \<open>C39: The verdict of a concurrent phase depends on how its workers happen to overlap. With every group of every stream served, the
  same phase is accepted when the eight workers enter before the first leaves, and refused for a wrong
  effective concurrency when they run one after the other, although nothing failed and all counts agree.\<close>

theorem h2ws_phase_race:
  assumes "scenarioOf multiMessageID = Some spec" "phaseServed one pe" "streamsReady ms"
  shows "\<exists>s s' e. fst (runConcurrentMessagePhase spec diagnosticProfile duration one (pe\<lparr>pe_schedule := together 8\<rparr>) ms) = (s, None) \<and>
    fst (runConcurrentMessagePhase spec diagnosticProfile duration one (pe\<lparr>pe_schedule := oneByOne 8\<rparr>) ms) = (s', Some e) \<and>
    s_EffectiveConcurrency s = 8 \<and> s_EffectiveConcurrency s' = 1 \<and> s_CompletedOperations s' = s_CompletedOperations s \<and>
    s_FailedOperations s' = 0 \<and> s_TimedOutOperations s' = 0"
proof -
  obtain s err ms1 where a: "runConcurrentMessagePhase spec diagnosticProfile duration one (pe\<lparr>pe_schedule := together 8\<rparr>) ms = ((s, err), ms1)"
    by (metis prod.collapse)
  obtain s' err' ms2 where b: "runConcurrentMessagePhase spec diagnosticProfile duration one (pe\<lparr>pe_schedule := oneByOne 8\<rparr>) ms = ((s', err'), ms2)"
    by (metis prod.collapse)
  have ps: "phaseServed one (pe\<lparr>pe_schedule := x\<rparr>)" "groupCount one (pe\<lparr>pe_schedule := x\<rparr>) = groupCount one pe" for x
    using assms(2) by (cases pe; simp only: phaseServed_def groupCount_def phase_env.simps)+
  have l: "length ms = 8" using assms(3) by (simp add: streamsReady_def)
  have c: "lp_Concurrency diagnosticProfile = 8" by (simp add: diagnosticProfile_def)
  note pa = phase_served [OF assms(1) ps(1) assms(3) a] and pb = phase_served [OF assms(1) ps(1) assms(3) b]
  have "err = None" "err' \<noteq> None" using pa(6) pb(6) by (simp_all add: schedules_of_eight c)
  moreover have "s_EffectiveConcurrency s = 8" "s_EffectiveConcurrency s' = 1"
    using phase_result(8) [OF a] phase_result(8) [OF b] by (simp_all add: schedules_of_eight l)
  ultimately show ?thesis using a b pa(2) pb(2-4) ps(2) by auto
qed

section \<open>The diagnostic\<close>

definition openServed :: "select_outcome list \<Rightarrow> bool" where
  "openServed waits \<longleftrightarrow> (case fst (readMultiplexedResponseHeaders waits) of
     Inl _ \<Rightarrow> False | Inr hs \<Rightarrow> headerValue hs '':status'' = ''200'' \<and> \<not> prohibitedHeader hs)"

lemma openStreams_ok:
  assumes "hp_encode hp requestFields = Inr block" "list_all (\<lambda>sid. openServed (waits sid)) sids" "distinct sids"
    and "w_cap (h_writer s) = None" "list_all (\<lambda>sid. h_streams s sid = None) sids"
  shows "\<exists>opened. openStreams hp base waits sids s = Inr opened \<and> map fst opened = map newStream sids"
  using assms(2-5)
proof (induction sids arbitrary: s)
  case (Cons sid sids)
  from Cons.prems(1) obtain hs where hs: "fst (readMultiplexedResponseHeaders (waits sid)) = Inr hs"
      "headerValue hs '':status'' = ''200''" "\<not> prohibitedHeader hs" by (auto simp: openServed_def split: sum.splits)
  let ?s = "s\<lparr>h_streams := (h_streams s)(sid \<mapsto> []), h_writer := (h_writer s)\<lparr>w_out := w_out (h_writer s) @ [WHeaders sid block]\<rparr>\<rparr>"
  have o1: "openWebSocket hp sid base (waits sid) s = (Inr (newStream sid, responseProof hs base), ?s)"
    using Cons.prems hs assms(1) by (simp add: openWebSocket_def h2Write_def Let_def)
  have "list_all (\<lambda>i. h_streams ?s i = None) sids" using Cons.prems(2,4) by (auto simp: list_all_iff)
  with Cons.IH [of ?s] Cons.prems o1 show ?case by auto
qed simp

definition closeServed :: "message_env \<times> select_outcome list \<Rightarrow> bool" where
  "closeServed = (\<lambda>(env, waits). \<not> isl (me_key env) \<and> me_write env = None \<and> list_all delivers waits \<and>
     streamBytes waits = plainFrame (0x8, closePayload))"

lemma closeStream_ok:
  assumes "closeServed (env, waits)" "m_pending m = []"
  shows "\<exists>l m'. closeStream env waits m = (Inr l, m') \<and> fs_ServerMaskedFrames (m_summary m') = fs_ServerMaskedFrames (m_summary m)"
proof -
  obtain key encoded where e: "maskedFrame (me_key env) 0x8 closePayload = Inr (key, encoded)" "me_write env = None"
    using assms(1) by (cases "me_key env") (auto simp: closeServed_def maskedFrame_def)
  let ?m = "(noteKey (hash key) m)\<lparr>m_sent := m_sent m @ [encoded]\<rparr>"
  have c: "okFrame (0x8, closePayload)" by (simp add: okFrame_def closePayload_def)
  have k: "m_sent (noteKey (hash key) m) = m_sent m" "m_pending ?m = m_pending m" by (simp_all add: noteKey_def)
  have "m_pending ?m @ streamBytes waits = plainFrame (0x8, closePayload) @ []" "list_all delivers waits"
    using assms k(2) by (simp_all add: closeServed_def)
  from read_frame [OF parse_plainFrame [OF c] this] obtain m2 ws where
    r: "readWebSocketFrame waits ?m = (Inr (answer 0x8 closePayload), m2, ws)" "unread m2 = unread ?m" by (auto simp: answer_def)
  have "fs_ServerMaskedFrames (m_summary m2) = fs_ServerMaskedFrames (m_summary m)"
    using unread_fields(8) [OF r(2)] by (simp add: noteKey_def)
  with e r(1) k(1) show ?thesis by (simp add: closeStream_def Let_def sameMessage_answer)
qed

lemma addKey_masked: "fs_ServerMaskedFrames (fst (fold addKey ks x)) = fs_ServerMaskedFrames (fst x)"
  by (induction ks arbitrary: x) (auto simp: addKey_def Let_def split: prod.splits)

lemma noFrames_masked: "fs_ServerMaskedFrames (noFrames\<lparr>fs_StreamIDs := i, fs_StrictPerStreamOrdering := o1\<rparr>) = 0"
  by (simp add: noFrames_def)

lemma aggregate_masked:
  assumes "list_all (\<lambda>m. fs_ServerMaskedFrames (m_summary m) = 0) ms"
  shows "fs_ServerMaskedFrames (aggregateFrames a b ms) = 0"
proof -
  have "fs_ServerMaskedFrames (fst (fold addStream ms x)) = fs_ServerMaskedFrames (fst x)" for x
    using assms by (induction ms arbitrary: x) (auto simp: addStream_def addKey_masked split: prod.splits)
  moreover obtain f seen where f: "fold addStream ms (noFrames\<lparr>fs_StreamIDs := streamIDs, fs_StrictPerStreamOrdering := True\<rparr>, {}) = (f, seen)"
    by fastforce
  ultimately have "fs_ServerMaskedFrames f = 0"
    by (metis (no_types) f fst_conv noFrames_masked)
  then show ?thesis by (simp add: aggregateFrames_def f)
qed

lemma closeStreams_ok:
  assumes "streamsReady ms" "list_all (\<lambda>i. closeServed (de_close de i)) [0..<8]" "set (de_closeArrival de) \<subseteq> {0..<8}"
  shows "\<exists>lats ms'. closeStreams de ms = (Inr lats, ms') \<and> list_all (\<lambda>m. fs_ServerMaskedFrames (m_summary m) = 0) ms'"
proof -
  define work where "work = map (\<lambda>(i, m). closeStream (fst (de_close de i)) (snd (de_close de i)) m) (enumerate 0 ms)"
  have l: "length ms = 8" "length work = 8" using assms(1) by (simp_all add: streamsReady_def work_def)
  have w: "\<exists>x. fst (work ! i) = Inr x" "fs_ServerMaskedFrames (m_summary (snd (work ! i))) = 0" if "i < 8" for i
  proof -
    have "closeServed (fst (de_close de i), snd (de_close de i))" "m_pending (ms ! i) = []" "fs_ServerMaskedFrames (m_summary (ms ! i)) = 0"
      using that assms(1,2) by (auto simp: streamsReady_def list_all_length)
    moreover have "work ! i = closeStream (fst (de_close de i)) (snd (de_close de i)) (ms ! i)"
      using that l by (simp add: work_def nth_enumerate_eq)
    ultimately show "\<exists>x. fst (work ! i) = Inr x" "fs_ServerMaskedFrames (m_summary (snd (work ! i))) = 0"
      using closeStream_ok by fastforce+
  qed
  have "List.map_filter (\<lambda>i. case fst (work ! i) of Inl e \<Rightarrow> Some e | Inr _ \<Rightarrow> None) order = []" if "set order \<subseteq> {0..<8}" for order
    using that
  proof (induction order)
    case (Cons i order)
    then obtain x where "fst (work ! i) = Inr x" using w(1) [of i] by auto
    with Cons show ?case by (simp add: List.map_filter_simps)
  qed (simp add: List.map_filter_simps)
  with assms(3) have "closeStreams de ms = (Inr (map (\<lambda>r. case fst r of Inl _ \<Rightarrow> 0 | Inr l \<Rightarrow> l) work), map snd work)"
    by (simp add: closeStreams_def work_def [symmetric] Let_def)
  moreover have "list_all (\<lambda>m. fs_ServerMaskedFrames (m_summary m) = 0) (map snd work)"
    using w(2) l by (simp add: list_all_length)
  ultimately show ?thesis by blast
qed

lemma awaitSettings_ok:
  "list_ex enabling fs \<Longrightarrow> w_cap w = None \<Longrightarrow> \<exists>w'. awaitSettings fs err w = Some (Inr w') \<and> w_cap w' = None"
proof (induction fs arbitrary: w)
  case (Cons f fs)
  show ?case
  proof (cases f)
    case (SettingsFrame ack ss)
    with Cons show ?thesis by (auto simp: writeOr_ok)
  qed (use Cons in simp_all)
qed simp

text \<open>A diagnostic whose connection, streams, groups and closes are served, and whose workers overlap in each phase.\<close>

definition diagnosticServed :: "'d hpack \<Rightarrow> diagnostic_env \<Rightarrow> bool" where
  "diagnosticServed hp de \<longleftrightarrow>
     (\<exists>st. se_dial (de_session de) = Inr st \<and> authentic st) \<and> w_cap (se_writer (de_session de)) = None \<and>
     list_ex enabling (se_frames (de_session de)) \<and> \<not> isl (hp_encode hp requestFields) \<and>
     list_all (\<lambda>sid. openServed (de_opens de sid)) streamIDs \<and>
     phaseServed True (de_preflight de) \<and> phaseServed False (de_warmup de) \<and> phaseServed False (de_measured de) \<and>
     list_all (\<lambda>pe. pc_peak (runSchedule 8 (pe_schedule pe)) = 8) [de_preflight de, de_warmup de, de_measured de] \<and>
     list_all (\<lambda>i. closeServed (de_close de i)) [0..<8] \<and> set (de_closeArrival de) \<subseteq> {0..<8}"

lemma diagnostic_completes:
  assumes "scenarioOf multiMessageID = Some spec" "diagnosticServed hp de"
  shows "\<exists>warm meas. runMultiMessageDiagnostic hp spec diagnosticProfile False de = Some (Inr (warm, meas)) \<and> s_Last meas \<noteq> None \<and>
    s_CompletedOperations meas = groupCount False (de_measured de) \<and> s_FailedOperations meas = 0 \<and> s_TimedOutOperations meas = 0 \<and>
    s_TotalTransferredBytes meas = 2400 * groupCount False (de_measured de)"
proof -
  obtain st block where st: "se_dial (de_session de) = Inr st" "\<not> gateFailed st (tlsProof True 8 st)" "hp_encode hp requestFields = Inr block"
    using assms(2) gate_authentic by (cases "hp_encode hp requestFields") (auto simp: diagnosticServed_def)
  have w: "w_cap (se_writer (de_session de)) = None" "list_ex enabling (se_frames (de_session de))" using assms(2) by (simp_all add: diagnosticServed_def)
  obtain w3 where w3: "awaitSettings (se_frames (de_session de)) (se_end (de_session de))
      ((se_writer (de_session de))\<lparr>w_out := w_out (se_writer (de_session de)) @ [WPreface, WSettings [(8, 1)]]\<rparr>) = Some (Inr w3)" "w_cap w3 = None"
    using awaitSettings_ok [OF w(2)] w(1) by force
  define base where "base = (tlsProof True 8 st)\<lparr>p_SettingsEnableConnectProtocol := 1\<rparr>"
  have s: "openH2Session hp (de_session de) = Some (Inr (newSession hp w3, base, durationMS (se_nanos (de_session de))))"
    using st w(1) w3(1) by (simp add: openH2Session_def Let_def writeOr_ok base_def)
  have "\<exists>opened. openStreams hp base (de_opens de) streamIDs (newSession hp w3) = Inr opened \<and> map fst opened = map newStream streamIDs"
  proof (rule openStreams_ok [OF st(3)])
    show "list_all (\<lambda>sid. openServed (de_opens de sid)) streamIDs" using assms(2) by (simp add: diagnosticServed_def)
    show "list_all (\<lambda>sid. h_streams (newSession hp w3) sid = None) streamIDs" by (simp add: newSession_def list_all_iff)
  qed (use w3(2) in \<open>simp_all add: newSession_def streamIDs_def\<close>)
  then obtain opened where o1: "openStreams hp base (de_opens de) streamIDs (newSession hp w3) = Inr opened" "map fst opened = map newStream streamIDs" by blast
  have r0: "streamsReady (map fst opened)" unfolding o1(2) by (simp add: streamsReady_def streamIDs_def newStream_def noFrames_def)
  have c: "lp_Concurrency diagnosticProfile = 8" by (simp add: diagnosticProfile_def)
  have served: "phaseServed True (de_preflight de)" "phaseServed False (de_warmup de)" "phaseServed False (de_measured de)"
    and peaks: "pc_peak (runSchedule 8 (pe_schedule (de_preflight de))) = 8" "pc_peak (runSchedule 8 (pe_schedule (de_warmup de))) = 8"
      "pc_peak (runSchedule 8 (pe_schedule (de_measured de))) = 8"
    using assms(2) by (simp_all add: diagnosticServed_def)
  obtain pre e1 ms1 where p1: "runConcurrentMessagePhase spec diagnosticProfile 0 True (de_preflight de) (map fst opened) = ((pre, e1), ms1)" by (metis prod.collapse)
  note q1 = phase_served [OF assms(1) served(1) r0 p1]
  obtain warm e2 ms2 where p2: "runConcurrentMessagePhase spec diagnosticProfile (lp_Warmup diagnosticProfile) False (de_warmup de) ms1 = ((warm, e2), ms2)" by (metis prod.collapse)
  note q2 = phase_served [OF assms(1) served(2) q1(1) p2]
  obtain meas e3 ms3 where p3: "runConcurrentMessagePhase spec diagnosticProfile (lp_Duration diagnosticProfile) False (de_measured de) ms2 = ((meas, e3), ms3)" by (metis prod.collapse)
  note q3 = phase_served [OF assms(1) served(3) q2(1) p3]
  have n: "e1 = None" "e2 = None" "e3 = None" using q1(6) q2(6) q3(6) peaks c by simp_all
  obtain lats ms4 where cl: "closeStreams de ms3 = (Inr lats, ms4)" "list_all (\<lambda>m. fs_ServerMaskedFrames (m_summary m) = 0) ms4"
    using closeStreams_ok [OF q3(1), of de] assms(2) by (auto simp: diagnosticServed_def)
  obtain fin where fin: "finishDiagnostic spec de (snd (hd opened)) (durationMS (se_nanos (de_session de))) lats ms4 meas = Inr fin"
      "s_CompletedOperations fin = s_CompletedOperations meas" "s_FailedOperations fin = s_FailedOperations meas"
      "s_TimedOutOperations fin = s_TimedOutOperations meas" "s_TotalTransferredBytes fin = s_TotalTransferredBytes meas" "s_Last fin \<noteq> None"
    using aggregate_masked [OF cl(2)] by (simp add: finishDiagnostic_def Let_def)
  have "runMultiMessageDiagnostic hp spec diagnosticProfile False de = Some (Inr (warm, fin))"
    using s o1(1) p1 p2 p3 n cl(1) fin(1) by (simp add: runMultiMessageDiagnostic_def)
  with fin q3 show ?thesis by auto
qed

text \<open>C31: A run of the command with the multi-message scenario passes against a server that serves its connection, its eight streams, every
  group of one hundred messages and the closes, provided that in each phase the eight workers overlap: it
  exits with 0 and reports exactly the groups of the measured phase and their bytes.\<close>

theorem h2ws_diagnostic_passes:
  assumes "selected getenv spec" "sc_ID spec = multiMessageID" "diagnosticServed hp (re_diagnostic re)" "0 < groupCount False (de_measured (re_diagnostic re))"
  shows "\<exists>written p x. runMain hp getenv (Inr target) None False re =
      Some (written @ [Result multiMessageID diagnosticProfile p x], 0) \<and>
    x_CompletedOperations x = groupCount False (de_measured (re_diagnostic re)) \<and>
    x_TotalTransferredBytes x = 2400 * groupCount False (de_measured (re_diagnostic re))"
proof -
  have n: "scenarioOf (trimSpace (getenv ''PLAB_SCENARIO_ID'')) = Some spec" using assms(1) by (simp add: selected_def)
  with scenarioOf_ID [OF n] assms(2) have "scenarioOf multiMessageID = Some spec" by simp
  from diagnostic_completes [OF this assms(3)] obtain warm meas where d:
    "runMultiMessageDiagnostic hp spec diagnosticProfile False (re_diagnostic re) = Some (Inr (warm, meas))"
    "s_CompletedOperations meas = groupCount False (de_measured (re_diagnostic re))" "s_FailedOperations meas = 0" "s_TimedOutOperations meas = 0"
    "s_TotalTransferredBytes meas = 2400 * groupCount False (de_measured (re_diagnostic re))" by blast
  have "profileFor spec = diagnosticProfile" using assms(2) by (simp add: profileFor_def)
  moreover from this have "runScenario hp spec (profileFor spec) False re = Some (Inr (the (s_Last meas), warm, meas))"
    using assms(2) d(1) by (simp add: runScenario_def)
  moreover have "\<not> phaseRejected meas" using d assms(4) by (simp add: phaseRejected_def)
  ultimately show ?thesis using assms(1,2) d
    by (auto simp: runMain_def selected_def Let_def writeResult_def metricsOf_def)
qed

section \<open>Runs to evaluate\<close>

definition sampleEnv :: "string \<Rightarrow> env" where
  "sampleEnv name x = (if x = ''PLAB_SCENARIO_ID'' then name else '''')"

lemma sampleEnv_selected:
  assumes "spec \<in> set scenarios" "sc_ID spec \<noteq> ''''" "trimSpace (sc_ID spec) = sc_ID spec" "scenarioOf (sc_ID spec) = Some spec"
  shows "selected (sampleEnv (sc_ID spec)) spec"
  using assms by (simp add: selected_def substitutionsOk_def verifySubstitution_def verifyProfileEnvironment_def
    verifyOptionalInteger_def sampleEnv_def trimSpace_def)

lemma sample_names:
  "scenarioOf (sc_ID textEcho) = Some textEcho" "trimSpace (sc_ID textEcho) = sc_ID textEcho" "sc_ID textEcho \<noteq> ''''" "sc_ID textEcho \<noteq> multiMessageID"
  "scenarioOf multiMessageID = Some (scenarios ! 5)" "sc_ID (scenarios ! 5) = multiMessageID" "trimSpace multiMessageID = multiMessageID" "multiMessageID \<noteq> ''''"
  by (simp_all add: textEcho_def scenarioOf_def scenarios_def emptyScenario_def multiMessageID_def trimSpace_def isSpace_def)

definition sampleGroup :: group_env where "sampleGroup = \<lparr>ge_message = sampleMessage, ge_waits = sampleWaits\<rparr>"

lemma sampleGroup_served: "groupServed sampleGroup"
  using sample_group by (simp add: groupServed_def sampleGroup_def newStream_def)

definition samplePhase :: phase_env where
  "samplePhase = \<lparr>pe_groups = (\<lambda>_. [sampleGroup]), pe_schedule = together 8, pe_arrival = [0..<8], pe_nanos = 10 ^ 9\<rparr>"

lemma sampleMessagePhase_served: "phaseServed one samplePhase" "groupCount False samplePhase = 8"
  using sampleGroup_served by (simp_all add: phaseServed_def samplePhase_def groupCount_def list_all_iff sum_list_triv)

lemma sampleStreams_ready: "streamsReady (map newStream streamIDs)"
  by (simp add: streamsReady_def streamIDs_def newStream_def noFrames_def)

definition sampleDiagnostic :: diagnostic_env where
  "sampleDiagnostic =
     \<lparr>de_session = \<lparr>se_dial = Inr sampleTls, se_frames = [SettingsFrame False [(8, 1)]], se_end = Some EOF,
        se_writer = \<lparr>w_out = [], w_cap = None\<rparr>, se_nanos = 1000\<rparr>,
      de_opens = (\<lambda>_. [FromChannel (EvHeaders [('':status'') \<mapsto> ''200''])]), de_preflight = samplePhase, de_warmup = samplePhase,
      de_measured = samplePhase,
      de_close = (\<lambda>_. (\<lparr>me_key = Inr [1, 2, 3, 4], me_write = None, me_nanos = 1000\<rparr>, [FromChannel (EvData (plainFrame (0x8, closePayload)))])),
      de_closeArrival = [0..<8], de_settingsFrames = 0, de_windowUpdateFrames = 0\<rparr>"

lemma sampleDiagnostic_served: "diagnosticServed sampleHpack sampleDiagnostic"
proof -
  have o1: "openServed [FromChannel (EvHeaders [('':status'') \<mapsto> ''200''])]"
    by (simp add: openServed_def headerValue_def prohibitedHeader_def)
  have c: "closeServed (\<lparr>me_key = Inr [1, 2, 3, 4], me_write = None, me_nanos = 1000\<rparr>, [FromChannel (EvData (plainFrame (0x8, closePayload)))])"
    by (simp add: closeServed_def)
  have p: "pc_peak (runSchedule 8 (pe_schedule samplePhase)) = 8" by (simp add: samplePhase_def schedules_of_eight)
  show ?thesis
    unfolding diagnosticServed_def sampleDiagnostic_def
    using sampleTls_authentic sampleMessagePhase_served(1) p o1 c by (simp add: enablesConnect_def sampleHpack_def list_all_iff)
qed

definition sampleRun :: run_env where
  "sampleRun = \<lparr>re_preflight = sampleOp, re_warmup = [sampleOp], re_warmupNanos = 10 ^ 9, re_measured = [sampleOp, sampleOp],
     re_measuredNanos = 5 * 10 ^ 9, re_diagnostic = sampleDiagnostic\<rparr>"

theorem h2ws_phase_accounting_witness:
  "\<exists>s. runFor sampleHpack textEcho smokeProfile [sampleOp, sampleOp] 1000 = Some s \<and>
     s_CompletedOperations s + s_FailedOperations s + s_TimedOutOperations s = 2"
proof -
  obtain s where s: "runFor sampleHpack textEcho smokeProfile [sampleOp, sampleOp] 1000 = Some s"
    using served_phase [OF textEcho(1), of sampleHpack "[sampleOp, sampleOp]" "emptySummary smokeProfile"] sampleOperation_served by (auto simp: runFor_def)
  with h2ws_phase_accounting [OF s] show ?thesis by auto
qed

theorem h2ws_run_passes_witness:
  "\<exists>written p x. runMain sampleHpack (sampleEnv (sc_ID textEcho)) (Inr ''127.0.0.1:18443'') None False sampleRun =
     Some (written @ [Result (sc_ID textEcho) (profileFor textEcho) p x], 0) \<and> x_CompletedOperations x = 2"
  using h2ws_run_passes [OF sampleEnv_selected [OF textEcho(1) sample_names(3,2,1)] sample_names(4), of sampleHpack sampleRun "''127.0.0.1:18443''"]
    sampleOperation_served by (auto simp: sampleRun_def)

theorem h2ws_arrival_order_witness:
  "\<exists>s s' err err'. fst (runConcurrentMessagePhase (scenarios ! 5) diagnosticProfile 0 True samplePhase (map newStream streamIDs)) = (s, err) \<and>
     fst (runConcurrentMessagePhase (scenarios ! 5) diagnosticProfile 0 True (samplePhase\<lparr>pe_arrival := rev [0..<8]\<rparr>) (map newStream streamIDs)) = (s', err') \<and>
     s_PerStream s = s_PerStream s' \<and> (err = None \<longleftrightarrow> err' = None)"
proof -
  obtain s err ms where a: "runConcurrentMessagePhase (scenarios ! 5) diagnosticProfile 0 True samplePhase (map newStream streamIDs) = ((s, err), ms)"
    by (metis prod.collapse)
  obtain s' err' ms' where b: "runConcurrentMessagePhase (scenarios ! 5) diagnosticProfile 0 True (samplePhase\<lparr>pe_arrival := rev [0..<8]\<rparr>) (map newStream streamIDs) = ((s', err'), ms')"
    by (metis prod.collapse)
  have "length (map newStream streamIDs) = 8" "distinct (map m_streamID (map newStream streamIDs))"
    by (simp_all add: streamIDs_def newStream_def)
  then have "mset (pe_arrival samplePhase) = mset [0..<length (map newStream streamIDs)]" "mset (rev [0..<8]) = mset [0..<length (map newStream streamIDs)]"
    by (simp_all only: samplePhase_def phase_env.simps mset_rev)
  with h2ws_arrival_order [OF a b] \<open>distinct (map m_streamID (map newStream streamIDs))\<close> a b show ?thesis by simp
qed

theorem h2ws_phase_race_witness:
  "\<exists>s s' e. fst (runConcurrentMessagePhase (scenarios ! 5) diagnosticProfile 0 True (samplePhase\<lparr>pe_schedule := together 8\<rparr>) (map newStream streamIDs)) = (s, None) \<and>
     fst (runConcurrentMessagePhase (scenarios ! 5) diagnosticProfile 0 True (samplePhase\<lparr>pe_schedule := oneByOne 8\<rparr>) (map newStream streamIDs)) = (s', Some e) \<and>
     s_FailedOperations s' = 0"
  using h2ws_phase_race [OF sample_names(5) sampleMessagePhase_served(1) sampleStreams_ready] by blast

theorem h2ws_diagnostic_passes_witness:
  "\<exists>written p x. runMain sampleHpack (sampleEnv multiMessageID) (Inr ''127.0.0.1:18443'') None False sampleRun =
     Some (written @ [Result multiMessageID diagnosticProfile p x], 0) \<and> x_CompletedOperations x = 8 \<and> x_TotalTransferredBytes x = 19200"
proof -
  have m: "scenarios ! 5 \<in> set scenarios" by (simp add: scenarios_def)
  have s: "selected (sampleEnv multiMessageID) (scenarios ! 5)"
    using sampleEnv_selected [OF m] sample_names by simp
  have d: "diagnosticServed sampleHpack (re_diagnostic sampleRun)" "de_measured (re_diagnostic sampleRun) = samplePhase"
    using sampleDiagnostic_served by (simp_all add: sampleRun_def sampleDiagnostic_def)
  from h2ws_diagnostic_passes [OF s sample_names(6) d(1)] show ?thesis by (auto simp: d(2) sampleMessagePhase_served(2))
qed

end
