(* ===== verification/Spec2Isabelle.thy ===== *)
theory Spec2Isabelle
  imports Dns_Interop Ws_Interop Quic_Interop Grpc_Checks Dot_Interop Doq_Interop Doh2_Interop Doh3_Interop
    Tls13_Interop H2ws_Interop
begin

text \<open>
  Verification of the Go packages of Protocol Lab (\<^verbatim>\<open>src/executors\<close> and
  \<^verbatim>\<open>src/implementations\<close>).

  \<^bold>\<open>The program.\<close> Protocol Lab runs client programs (executors) against server programs
  (implementations, also called targets), one pair per protocol. An executor reads its scenario and
  load profile from the environment, opens a connection, runs a preflight operation, a warm-up and a
  measured phase, checks every answer against fixed payloads or their SHA-256 digests, counts what
  happened, and writes a result document; its exit status is the verdict. A target answers the fixed
  requests of the scenarios and refuses everything else. The two programs of a pair share no code:
  each has its own copy of fixtures, digests and codecs, so that their agreement is a property and
  not a definition. The development models nine pairs, and one executor whose targets are not written in Go,
  and proves that the executor passes against the target (interoperability), that a verdict of the executor means what it says
  (soundness of the checks and of the accounting), and that the target stays within its contract on
  arbitrary input.

  \<^bold>\<open>Layers.\<close> \<open>Go_Base\<close> is the prelude: bytes and big-endian codecs, strings, \<^verbatim>\<open>strconv\<close> and
  \<^verbatim>\<open>errors\<close>, connections with \<^verbatim>\<open>io.ReadFull\<close>, the locale \<open>stream_codec\<close> for self-delimiting
  messages. \<open>Go_Sha256\<close> defines SHA-256 on words, an equivalent bit-level evaluator that \<open>simp\<close> can
  run, and \<open>Go_Float\<close> the rounding of float64 arithmetic on rationals with the nearest-rank
  percentile. \<open>Go_Http\<close> has SHA-1, base64 and HTTP/1.1 heads, \<open>Go_Http2\<close> requests, responses and
  response writers of \<^verbatim>\<open>net/http\<close> over HTTP/2 with declared trailers. \<open>Lab_Certificates\<close>, \<open>Tls_Certificate\<close> and \<open>Ws_Certificate\<close> have the
  certificates the packages ship with their computed digests.

  \<^bold>\<open>Classic DNS.\<close> \<open>Dns_Authority\<close> models
  \<^verbatim>\<open>implementations/go-dns-classic-authority/source/main.go\<close> (\<open>responseFor\<close>, the TCP loop
  \<open>handleTCP\<close>, the UDP loop \<open>serveUDP\<close>), \<open>Dns_Executor\<close> models
  \<^verbatim>\<open>executors/dns-classic-fixture/executor.go\<close> (\<open>validate\<close>, \<open>exchange\<close> with the single TCP retry,
  \<open>runPhase\<close>, \<open>Run\<close>), \<open>Dns_Interop\<close> puts them together. The locale \<open>fixture_target\<close> is what the
  executor needs of a target; it is interpreted on the authority for the three fixtures. A phase has one TCP
  connection: \<open>authorityTCP\<close> answers a write by running the authority's loop on all that was written
  on the connection, so that a loop that stops early leaves later rounds unanswered. Shown: whole
  runs, phases and exchanges succeed with exact counts; the authority answers exactly the accepted
  prefix of any stream and stays below 512 bytes over UDP; phase accounting; exit code gate; ordered
  percentiles; message IDs.

  \<^bold>\<open>DNS over TLS.\<close> \<open>Dot_Target\<close>, \<open>Dot_Executor\<close> and \<open>Dot_Interop\<close> for
  \<^verbatim>\<open>implementations/go-dns-dot\<close> and \<^verbatim>\<open>executors/go-dns-dot-executor\<close>, with the locale
  \<open>dot_server\<close> interpreted on the target, whose handler is run on all that was written on the connection of a
  phase (\<open>targetPeer\<close>). Shown: runs pass, a completed query was answered byte for byte, the target answers
  exactly the longest accepted run of queries, its outstanding-ID check never fires, the resolver scenario is
  refused.

  \<^bold>\<open>DNS over QUIC.\<close> \<open>Doq_Wire\<close> models \<^verbatim>\<open>executors/go-dns-doq-executor/source/dns.go\<close>, the name
  parser with compression and the response check, in which an access out of range is the value
  \<open>None\<close>; \<open>Doq_Executor\<close> the rest of that executor, \<open>Doq_Target\<close> \<^verbatim>\<open>implementations/go-dns-doq\<close>,
  \<open>Doq_Interop\<close> the pair, with the locale \<open>doq_server\<close> interpreted on the stream handler. Shown: the
  parser agrees with an inductive reference (\<open>decodes\<close>) and needs at most 32 passes, the check accepts
  exactly a described set of messages, the command never panics, runs pass however the answer is cut
  into pieces, and exactly one other label sequence, a single label with a dot inside, is confused with the
  expected name.

  \<^bold>\<open>DNS over HTTPS.\<close> \<open>Doh2_Target\<close> models \<^verbatim>\<open>implementations/go-dns-doh2\<close>, \<open>Doh2_Wire\<close> and
  \<open>Doh2_Executor\<close> \<^verbatim>\<open>executors/go-dns-doh2-executor\<close>, \<open>Doh2_Interop\<close> the pair, with the locale
  \<open>doh2_server\<close> interpreted on the request handler. Shown: runs pass in both authoritative scenarios, the
  second copy of the name parser agrees with the first, the response check is characterised, a counted
  query was answered as it should be, and the command never panics. The measured loop of the executors for
  QUIC, HTTPS and HTTP/3 is the locale \<open>phase_loop\<close> of \<open>Secure_Dns_Phase\<close>, and what they read of DNS messages is
  in \<open>Dns_Message\<close>.

  \<^bold>\<open>DNS over HTTP/3.\<close> \<open>Doh3_Fixtures\<close> has the eight fixtures both programs share with their computed
  digests, \<open>Doh3_Target\<close> models \<^verbatim>\<open>implementations/go-dns-doh3\<close>, \<open>Doh3_Executor\<close>
  \<^verbatim>\<open>executors/go-dns-doh3-executor\<close> with the client of a phase as state, \<open>Doh3_Interop\<close> the pair, with the
  locale \<open>doh3_server\<close> interpreted on the request handler. Go's unspecified order of iteration over a map is
  an argument. Shown: runs pass in all eight scenarios, the handler's answer does not depend on the order,
  a counted query was answered with the message of its fixture, and the command never panics. The DNS
  message library is the argument \<open>unpack\<close>.

  \<^bold>\<open>TLS 1.3.\<close> \<open>Tls_Certificate\<close> has the certificate both programs pin, \<open>Tls13_Target\<close> models
  \<^verbatim>\<open>implementations/go-tls13\<close> (\<open>handle\<close>, \<open>serveRecordOperation\<close>). For \<^verbatim>\<open>executors/go-tls13-executor\<close>
  \<open>Tls13_Record\<close> has the watched connection with its record parser, \<open>Tls13_Session\<close> the single-use session
  cache with its histories as the inductive predicate \<open>history\<close>, \<open>Tls13_Executor\<close> handshakes, record cases,
  phases and the command. \<open>Tls13_Interop\<close> is the pair, with the locale \<open>record_server\<close> interpreted on the
  target's record operation. A phase takes the passes of its loop as a list and is
  \<open>None\<close> while the loop still runs after them. Shown: runs pass in the four scenarios, the parser's counts do not depend on how the stream is cut into pieces, a ticket
  is handed out at most once, an accepted resumption was one and used the ticket the cache held, when a phase ends, and that a negative
  number of operations, which the configuration accepts, never ends.

  \<^bold>\<open>WebSocket over HTTP/1.1.\<close> \<open>Ws_Wire\<close> has the frame format, \<open>Ws_Server\<close> models
  \<^verbatim>\<open>implementations/go-http1-websocket\<close> (upgrade, frame loop), \<open>Ws_Executor\<close>
  \<^verbatim>\<open>executors/go-http1-websocket-executor\<close> (handshake, masked frames, phases with new or reused
  connections), \<open>Ws_Interop\<close> the pair. Shown: operations and phases succeed, the server's session
  behaviour, safety on arbitrary input, the incremental header reader against its specification,
  accounting, payload digests.

  \<^bold>\<open>WebSocket over HTTP/2.\<close> For \<^verbatim>\<open>executors/go-http2-websocket-executor\<close>, whose targets are not written in
  Go, \<open>H2ws_Wire\<close> has the frame parser (interpreting the locale \<open>incremental_parser\<close>) and writer, \<open>H2ws_Session\<close> the
  reader goroutine, its channels and the step relation \<open>session_step\<close> of reader and streams, \<open>H2ws_Peak\<close> the
  measured concurrency with atomic counters under schedules, \<open>H2ws_Stream\<close> a stream with its message groups,
  \<open>H2ws_Executor\<close> and \<open>H2ws_Operation\<close> an operation on its own connection, \<open>H2ws_Run\<close> phases, the diagnostic with eight
  streams and the command, \<open>H2ws_Interop\<close> their properties. A server is a sequence of frames; what it has to
  send for a success is a predicate such as \<open>servesOperation\<close>. Shown: runs pass against such servers, a success means
  that the server behaved so, every schedule delivers each stream its own events in order, window updates
  match the payload received, the peak is exact, the order of results does not matter; and the
  weaknesses: a full channel stalls all streams, the verdict of a phase depends on how the workers overlap, and
  a silent server blocks the command for ever (\<open>None\<close>).

  \<^bold>\<open>Raw QUIC.\<close> \<open>Quic_Target\<close> models \<^verbatim>\<open>implementations/quic-go-raw\<close>, \<open>Quic_Load\<close>
  \<^verbatim>\<open>executors/quic-go-raw-load\<close>, with goroutines of a concurrent batch as interleavings of their
  atomic updates; \<open>Quic_Stats\<close> proves accounting through the locale \<open>stats_invariant\<close> and that every
  schedule gives the tally of the sequential batch, and when the reported error rate is positive;
  \<open>Quic_Interop\<close> is the pair, where a dial succeeds when both sides name the same application protocol.

  \<^bold>\<open>gRPC over HTTP/2.\<close> \<open>Grpc_Server\<close> models \<^verbatim>\<open>implementations/go-grpc-h2\<close>, \<open>Grpc_Executor\<close>
  \<^verbatim>\<open>executors/go-grpc-h2-executor\<close>; \<open>Grpc_Wire\<close> has the round trips of the protobuf and envelope
  formats (interpreting \<open>stream_codec\<close>), \<open>Grpc_Interop\<close> the streaming loops, \<open>Grpc_Run\<close> whole calls
  and runs, \<open>Grpc_Checks\<close> what verdicts mean and the properties. A read after a cancellation returns any
  prefix of what the target wrote (\<open>contextLaws\<close>).

  \<^bold>\<open>Conventions.\<close> A Go error is a value of \<open>go_error\<close>; a call that can fail returns \<open>'a go\<close>. A
  connection is the record \<open>conn\<close>: what the peer sends, how the stream ends, what was written, and
  when writes start to fail, so that every theorem about all connections covers every failure. Loops
  over a deadline are lists of rounds, one element per pass the clock allows; loops that read are
  functions with a termination measure on the unread bytes, so no fuel is needed. Message IDs, frame
  lengths and protobuf lengths are words of their width; counters of operations and bytes are
  unbounded integers, since reaching 2 to the 63 takes longer than any run; durations and products computed
  from the configuration wrap at 64 bits. float64 values are
  rationals rounded to nearest even after every operation, without infinities. Environment variables
  are a function. Code outside the sources is a parameter: TLS and QUIC connections through what
  their calls return, gzip through the codec record \<open>gzip_codec\<close> with the hypothesis \<open>gzipWorks\<close>,
  clocks through the times they return. Error texts that only reach logs are abbreviated.

  \<^bold>\<open>Not modelled.\<close> Flag parsing, listeners and signal handling, certificate loading, JSON encoding
  and the writing of files; the descriptive maps of result documents that repeat constants; the
  programs written in other languages, which are third-party servers and clients behind scripts; and
  the executor families listed as not modelled in the manifest, whose own logic repeats the phases,
  accounting and selection checks modelled here around library protocol stacks.
\<close>

end
